(* ===== verification/Prelude.thy ===== *)
theory Prelude
  imports Main "HOL-Library.Word" "HOL-Library.Sublist"
begin

text \<open>
  What every component shares: the scalar types of the Go code, the named theorem
  collections of the development, the two list loops that the entities use, and the
  string facts behind cache keys and storage keys.

  A \<open>uuid.UUID\<close> is a sixteen byte array and is compared bytewise, so it is a 128 bit
  word; \<open>uuid.Nil\<close> is the zero word.  A \<open>time.Time\<close> is the number of nanoseconds
  since the zero time of Go, so that \<open>IsZero\<close> is equality with 0, and a
  \<open>time.Duration\<close> is a number of nanoseconds.  A Go string is a byte string, here a
  list of characters.  A pointer that may be nil is an option.
\<close>

type_synonym uuid = "128 word"
type_synonym time = int
type_synonym duration = int
type_synonym byte = "8 word"

definition uuid_Nil :: uuid where
  "uuid_Nil = 0"

text \<open>
  \<open>guards\<close> collects the definitions of small boolean tests, \<open>keeps\<close> the
  preservation rules of the stateful operations, and \<open>frames\<close> what an operation
  leaves alone.
\<close>

named_theorems guards
named_theorems keeps
named_theorems frames

section \<open>The loops over slices\<close>

text \<open>
  \<open>for i, x := range xs { if P(x) { xs = append(xs[:i], xs[i+1:]...); return } }\<close>:
  the first element that satisfies the test goes, the rest keeps its order.
\<close>

fun drop_first :: "('a \<Rightarrow> bool) \<Rightarrow> 'a list \<Rightarrow> 'a list" where
  "drop_first P [] = []"
| "drop_first P (x # xs) = (if P x then xs else x # drop_first P xs)"

text \<open>\<open>for _, x := range xs { if f(x) { return true } }; return false\<close>\<close>

fun any_loop :: "('a \<Rightarrow> bool) \<Rightarrow> 'a list \<Rightarrow> bool" where
  "any_loop P [] = False"
| "any_loop P (x # xs) = (if P x then True else any_loop P xs)"

lemma any_loop_iff [simp]: "any_loop P xs \<longleftrightarrow> (\<exists>x\<in>set xs. P x)"
  by (induction xs) auto

lemma drop_first_absent: "\<forall>x\<in>set xs. \<not> P x \<Longrightarrow> drop_first P xs = xs"
  by (induction xs) auto

lemma drop_first_split: "\<forall>y\<in>set ys. \<not> P y \<Longrightarrow> P x \<Longrightarrow> drop_first P (ys @ x # zs) = ys @ zs"
  by (induction ys) auto

lemma set_drop_first_subset: "set (drop_first P xs) \<subseteq> set xs"
  by (induction xs) auto

lemma length_drop_first:
  "length (drop_first P xs) = (if \<exists>x\<in>set xs. P x then length xs - 1 else length xs)"
proof (induction xs)
  case (Cons x xs)
  then show ?case by (cases xs) auto
qed simp

lemma drop_first_keyed:
  assumes "distinct (map key xs)"
  shows "drop_first (\<lambda>x. key x = k) xs = filter (\<lambda>x. key x \<noteq> k) xs"
  using assms
proof (induction xs)
  case (Cons x xs)
  from Cons.prems have "\<forall>y\<in>set xs. key y \<noteq> key x" by (simp add: image_iff) metis
  then have "filter (\<lambda>y. key y \<noteq> key x) xs = xs" by simp
  with Cons show ?case by auto
qed simp

section \<open>Strings\<close>

text \<open>\<open>strings.Split(s, sep)\<close> for a separator of one byte: never empty.\<close>

fun split_on :: "char \<Rightarrow> string \<Rightarrow> string list" where
  "split_on c [] = [[]]"
| "split_on c (x # xs) =
     (if x = c then [] # split_on c xs
      else (case split_on c xs of [] \<Rightarrow> [[x]] | p # ps \<Rightarrow> (x # p) # ps))"

lemma split_on_nonempty [simp]: "split_on c s \<noteq> []"
  by (induction s) (auto split: list.splits)

lemma split_on_absent: "c \<notin> set s \<Longrightarrow> split_on c s = [s]"
  by (induction s) auto

lemma split_on_append:
  "c \<notin> set s \<Longrightarrow> split_on c (s @ c # t) = s # split_on c t"
  by (induction s) auto

lemma split_on_pair:
  assumes "c \<notin> set s" "c \<notin> set t"
  shows "split_on c (s @ c # t) = [s, t]"
  using assms by (simp add: split_on_append split_on_absent)

lemma length_split_on: "length (split_on c s) = Suc (count_list s c)"
  by (induction s) (auto split: list.splits)

lemma split_on_pair_iff:
  "split_on c s = [a, b] \<longleftrightarrow> s = a @ c # b \<and> c \<notin> set a \<and> c \<notin> set b"
proof
  assume eq: "split_on c s = [a, b]"
  then have "count_list s c = 1" using length_split_on [of c s] by simp
  then have "c \<in> set s" by (metis count_notin zero_neq_one)
  then obtain u v where s: "s = u @ c # v" and u: "c \<notin> set u"
    by (meson split_list_first)
  with eq have uv: "u = a" "split_on c v = [b]" by (auto simp: split_on_append)
  then have "count_list v c = 0" using length_split_on [of c v] by simp
  then have "c \<notin> set v" by (simp add: count_list_0_iff)
  with uv s u show "s = a @ c # b \<and> c \<notin> set a \<and> c \<notin> set b"
    by (simp add: split_on_absent)
next
  assume "s = a @ c # b \<and> c \<notin> set a \<and> c \<notin> set b"
  then show "split_on c s = [a, b]" by (simp add: split_on_pair)
qed

text \<open>Two strings that part at a separator occurring in neither head agree on both sides.\<close>

lemma append_sep_inj:
  assumes "a @ c # b = a' @ c # b'" "c \<notin> set a" "c \<notin> set a'"
  shows "a = a' \<and> b = b'"
  using assms
proof (induction a arbitrary: a')
  case Nil
  then show ?case by (cases a') auto
next
  case (Cons x a)
  then show ?case by (cases a') auto
qed

text \<open>
  Go's conversions \<open>int32(x)\<close> and the arithmetic of a 64 bit \<open>int\<close> keep the low bits
  and read them as two's complement.
\<close>

definition to_int32 :: "int \<Rightarrow> int" where
  "to_int32 x = signed_take_bit 31 x"

definition to_int64 :: "int \<Rightarrow> int" where
  "to_int64 x = signed_take_bit 63 x"

lemma to_int32_id: "- (2 ^ 31) \<le> x \<Longrightarrow> x < 2 ^ 31 \<Longrightarrow> to_int32 x = x"
  by (simp add: to_int32_def signed_take_bit_int_eq_self)

lemma to_int64_id: "- (2 ^ 63) \<le> x \<Longrightarrow> x < 2 ^ 63 \<Longrightarrow> to_int64 x = x"
  by (simp add: to_int64_def signed_take_bit_int_eq_self)

text \<open>Go's integer division truncates towards zero; the remainder takes the dividend's sign.\<close>

definition go_div :: "int \<Rightarrow> int \<Rightarrow> int" where
  "go_div a b = sgn a * sgn b * (\<bar>a\<bar> div \<bar>b\<bar>)"

definition go_mod :: "int \<Rightarrow> int \<Rightarrow> int" where
  "go_mod a b = a - b * go_div a b"

lemma go_div_nonneg: "0 \<le> a \<Longrightarrow> 0 < b \<Longrightarrow> go_div a b = a div b"
  by (cases "a = 0") (auto simp: go_div_def)

lemma go_mod_nonneg: "0 \<le> a \<Longrightarrow> 0 < b \<Longrightarrow> go_mod a b = a mod b"
  by (simp add: go_mod_def go_div_nonneg minus_mult_div_eq_mod)

end
