(* ===== verification/Errors.thy ===== *)
theory Errors
  imports Prelude
begin

text \<open>
  Errors as Go values, after \<open>internal/domain/error/domain_error.go\<close>,
  \<open>internal/domain/entity/errors.go\<close> and \<open>internal/domain/valueobject/errors.go\<close>.

  \<open>DomainError\<close> is the struct of the domain error package with the error it wraps,
  \<open>Sentinel\<close> a package level \<open>errors.New\<close> value (told apart by package and name, as the
  pointers are), \<open>Errorf\<close> an error made by \<open>fmt.Errorf\<close> with the error its \<open>%w\<close>
  wraps, \<open>Joined\<close> the value of \<open>errors.Join\<close>, \<open>ValidationError\<close> the struct of the
  validation package, and \<open>External\<close> an error of a driver or service outside the
  repository.  A call returns a value, an error, or does not return because it panics.
\<close>

datatype error_code = CodeNotFound | CodeValidation | CodeConflict | CodeUnauthorized
  | CodeForbidden | CodeInternalError | CodeInvalidOperation | CodeInvalidState

datatype go_error =
    DomainError error_code string "go_error option"
  | Sentinel string string
  | Errorf string "go_error option"
  | Joined "go_error list"
  | ValidationError "(string \<times> string) list"
  | External string

datatype 'a result = Ok 'a | Err go_error | Panic string

fun error_code_string :: "error_code \<Rightarrow> string" where
  "error_code_string CodeNotFound = ''NOT_FOUND''"
| "error_code_string CodeValidation = ''VALIDATION_ERROR''"
| "error_code_string CodeConflict = ''CONFLICT''"
| "error_code_string CodeUnauthorized = ''UNAUTHORIZED''"
| "error_code_string CodeForbidden = ''FORBIDDEN''"
| "error_code_string CodeInternalError = ''INTERNAL_ERROR''"
| "error_code_string CodeInvalidOperation = ''INVALID_OPERATION''"
| "error_code_string CodeInvalidState = ''INVALID_STATE''"

lemma error_code_string_inject [simp]: "error_code_string a = error_code_string b \<longleftrightarrow> a = b"
  by (cases a; cases b) auto

section \<open>Constructors and the common errors\<close>

definition NewDomainError :: "error_code \<Rightarrow> string \<Rightarrow> go_error" where
  "NewDomainError c msg = DomainError c msg None"

definition Wrap :: "error_code \<Rightarrow> string \<Rightarrow> go_error \<Rightarrow> go_error" where
  "Wrap c msg err = DomainError c msg (Some err)"

definition ErrTaskNotFound :: go_error where
  "ErrTaskNotFound = NewDomainError CodeNotFound ''task not found''"
definition ErrUserNotFound :: go_error where
  "ErrUserNotFound = NewDomainError CodeNotFound ''user not found''"
definition ErrRoleNotFound :: go_error where
  "ErrRoleNotFound = NewDomainError CodeNotFound ''role not found''"
definition ErrLabelNotFound :: go_error where
  "ErrLabelNotFound = NewDomainError CodeNotFound ''label not found''"
definition ErrAttachmentNotFound :: go_error where
  "ErrAttachmentNotFound = NewDomainError CodeNotFound ''attachment not found''"
definition ErrUnauthorized :: go_error where
  "ErrUnauthorized = NewDomainError CodeUnauthorized ''authentication required''"
definition ErrForbidden :: go_error where
  "ErrForbidden = NewDomainError CodeForbidden ''access denied''"
definition ErrInvalidCredentials :: go_error where
  "ErrInvalidCredentials = NewDomainError CodeUnauthorized ''invalid email or password''"
definition ErrInvalidToken :: go_error where
  "ErrInvalidToken = NewDomainError CodeUnauthorized ''invalid or expired token''"
definition ErrEmailAlreadyExists :: go_error where
  "ErrEmailAlreadyExists = NewDomainError CodeConflict ''email already exists''"

definition ErrEmptyTitle :: go_error where "ErrEmptyTitle = Sentinel ''entity'' ''ErrEmptyTitle''"
definition ErrInvalidPriority :: go_error where
  "ErrInvalidPriority = Sentinel ''entity'' ''ErrInvalidPriority''"
definition ErrInvalidStatus :: go_error where
  "ErrInvalidStatus = Sentinel ''entity'' ''ErrInvalidStatus''"
definition ErrTaskArchived :: go_error where
  "ErrTaskArchived = Sentinel ''entity'' ''ErrTaskArchived''"
definition ErrTaskNotDone :: go_error where
  "ErrTaskNotDone = Sentinel ''entity'' ''ErrTaskNotDone''"
definition ErrInvalidStatusTransition :: go_error where
  "ErrInvalidStatusTransition = Sentinel ''entity'' ''ErrInvalidStatusTransition''"
definition ErrEmptyEmail :: go_error where "ErrEmptyEmail = Sentinel ''entity'' ''ErrEmptyEmail''"
definition ErrEmptyPassword :: go_error where
  "ErrEmptyPassword = Sentinel ''entity'' ''ErrEmptyPassword''"
definition ErrEmptyName :: go_error where "ErrEmptyName = Sentinel ''entity'' ''ErrEmptyName''"
definition ErrEmptyRoleName :: go_error where
  "ErrEmptyRoleName = Sentinel ''entity'' ''ErrEmptyRoleName''"
definition ErrEmptyPermissionName :: go_error where
  "ErrEmptyPermissionName = Sentinel ''entity'' ''ErrEmptyPermissionName''"
definition ErrEmptyResource :: go_error where
  "ErrEmptyResource = Sentinel ''entity'' ''ErrEmptyResource''"
definition ErrEmptyAction :: go_error where
  "ErrEmptyAction = Sentinel ''entity'' ''ErrEmptyAction''"
definition ErrEmptyLabelName :: go_error where
  "ErrEmptyLabelName = Sentinel ''entity'' ''ErrEmptyLabelName''"
definition ErrEmptyLabelColor :: go_error where
  "ErrEmptyLabelColor = Sentinel ''entity'' ''ErrEmptyLabelColor''"
definition ErrEmptyResourceType :: go_error where
  "ErrEmptyResourceType = Sentinel ''entity'' ''ErrEmptyResourceType''"
definition ErrEmptySubjectType :: go_error where
  "ErrEmptySubjectType = Sentinel ''entity'' ''ErrEmptySubjectType''"

definition vo_ErrInvalidTaskStatus :: go_error where
  "vo_ErrInvalidTaskStatus = Sentinel ''valueobject'' ''ErrInvalidTaskStatus''"
definition vo_ErrInvalidPriority :: go_error where
  "vo_ErrInvalidPriority = Sentinel ''valueobject'' ''ErrInvalidPriority''"
definition vo_ErrEmptyEmail :: go_error where
  "vo_ErrEmptyEmail = Sentinel ''valueobject'' ''ErrEmptyEmail''"
definition vo_ErrInvalidEmail :: go_error where
  "vo_ErrInvalidEmail = Sentinel ''valueobject'' ''ErrInvalidEmail''"

lemmas domain_errors =
  NewDomainError_def Wrap_def ErrTaskNotFound_def ErrUserNotFound_def ErrRoleNotFound_def
  ErrLabelNotFound_def ErrAttachmentNotFound_def ErrUnauthorized_def ErrForbidden_def
  ErrInvalidCredentials_def ErrInvalidToken_def
  ErrEmailAlreadyExists_def

lemmas sentinels =
  ErrEmptyTitle_def ErrInvalidPriority_def ErrInvalidStatus_def ErrTaskArchived_def
  ErrTaskNotDone_def ErrInvalidStatusTransition_def ErrEmptyEmail_def ErrEmptyPassword_def
  ErrEmptyName_def ErrEmptyRoleName_def ErrEmptyPermissionName_def ErrEmptyResource_def
  ErrEmptyAction_def ErrEmptyLabelName_def ErrEmptyLabelColor_def ErrEmptyResourceType_def
  ErrEmptySubjectType_def vo_ErrInvalidTaskStatus_def vo_ErrInvalidPriority_def
  vo_ErrEmptyEmail_def vo_ErrInvalidEmail_def

section \<open>errors.Is and errors.As over the chain of wrapped errors\<close>

text \<open>
  \<open>DomainError.Is\<close> compares codes only: any two domain errors of the same code are
  equal for \<open>errors.Is\<close>.
\<close>

fun DomainError_Is :: "go_error \<Rightarrow> go_error \<Rightarrow> bool" where
  "DomainError_Is (DomainError c m e) (DomainError c' m' e') = (c = c')"
| "DomainError_Is _ _ = False"

fun Unwrap :: "go_error \<Rightarrow> go_error list" where
  "Unwrap (DomainError c m (Some e)) = [e]"
| "Unwrap (Errorf m (Some e)) = [e]"
| "Unwrap (Joined es) = es"
| "Unwrap _ = []"

lemma Unwrap_size [termination_simp]: "e \<in> set (Unwrap err) \<Longrightarrow> size e < size err"
  by (induction err rule: Unwrap.induct) (auto simp: less_Suc_eq_le intro: size_list_estimation')

text \<open>
  \<open>errors.Is(err, target)\<close> walks the tree of wrapped errors in depth first order; a
  sentinel matches itself, a domain error matches by code.
\<close>

fun errors_Is :: "go_error \<Rightarrow> go_error \<Rightarrow> bool" where
  "errors_Is err target =
     (if err = target \<or> DomainError_Is err target then True
      else list_ex (\<lambda>e. errors_Is e target) (Unwrap err))"

declare errors_Is.simps [simp del]

lemma errors_Is_self [simp]: "errors_Is e e"
  by (simp add: errors_Is.simps)

lemma errors_Is_wrapped: "x \<in> set (Unwrap err) \<Longrightarrow> errors_Is x target \<Longrightarrow> errors_Is err target"
  by (subst errors_Is.simps) (auto simp: list_ex_iff)

text \<open>\<open>errors.As(err, &domainErr)\<close>: the first domain error of the chain.\<close>

fun errors_As_Domain :: "go_error \<Rightarrow> error_code option" where
  "errors_As_Domain (DomainError c m e) = Some c"
| "errors_As_Domain (Errorf m (Some e)) = errors_As_Domain e"
| "errors_As_Domain (Joined es) =
     (case filter (\<lambda>r. r \<noteq> None) (map errors_As_Domain es) of [] \<Rightarrow> None | r # _ \<Rightarrow> r)"
| "errors_As_Domain _ = None"

definition IsNotFoundError :: "go_error \<Rightarrow> bool" where
  "IsNotFoundError err = (case errors_As_Domain err of Some c \<Rightarrow> c = CodeNotFound | None \<Rightarrow> False)"
definition IsValidationError :: "go_error \<Rightarrow> bool" where
  "IsValidationError err = (case errors_As_Domain err of Some c \<Rightarrow> c = CodeValidation | None \<Rightarrow> False)"
definition IsConflictError :: "go_error \<Rightarrow> bool" where
  "IsConflictError err = (case errors_As_Domain err of Some c \<Rightarrow> c = CodeConflict | None \<Rightarrow> False)"
definition IsUnauthorizedError :: "go_error \<Rightarrow> bool" where
  "IsUnauthorizedError err =
     (case errors_As_Domain err of Some c \<Rightarrow> c = CodeUnauthorized | None \<Rightarrow> False)"
definition IsForbiddenError :: "go_error \<Rightarrow> bool" where
  "IsForbiddenError err = (case errors_As_Domain err of Some c \<Rightarrow> c = CodeForbidden | None \<Rightarrow> False)"

lemmas error_classes = IsNotFoundError_def IsValidationError_def IsConflictError_def
  IsUnauthorizedError_def IsForbiddenError_def

text \<open>A domain error of the chain is found by \<open>errors.Is\<close> with any error of its code.\<close>

lemma As_Domain_imp_Is:
  "errors_As_Domain err = Some c \<Longrightarrow> errors_Is err (DomainError c m e)"
proof (induction err rule: errors_As_Domain.induct)
  case (3 es)
  from "3.prems" have "Some c \<in> set (map errors_As_Domain es)"
    by (auto split: list.splits dest!: arg_cong [where f = set] simp: set_eq_iff) metis
  then obtain x where x: "x \<in> set es" "errors_As_Domain x = Some c" by auto
  with "3.IH" have "errors_Is x (DomainError c m e)" by blast
  with x(1) show ?case by (auto intro: errors_Is_wrapped)
qed (auto simp: errors_Is.simps [of "DomainError _ _ _"] errors_Is.simps [of "Errorf _ _"])

end
