(* ===== verification/ValueObjects.thy ===== *)
theory ValueObjects
  imports Errors
begin

text \<open>
  The value objects of \<open>internal/domain/valueobject\<close>: task statuses, priorities and
  e-mail addresses.  \<open>TaskStatus\<close> and \<open>Priority\<close> are Go string types, so any string is
  a value of theirs (rows read from the database are converted without a check) and
  validity is a test, not a property of the type.
\<close>

section \<open>Task statuses (task_status.go)\<close>

type_synonym task_status = string

definition TaskStatusTodo :: task_status where "TaskStatusTodo = ''TODO''"
definition TaskStatusInProgress :: task_status where "TaskStatusInProgress = ''IN_PROGRESS''"
definition TaskStatusInReview :: task_status where "TaskStatusInReview = ''IN_REVIEW''"
definition TaskStatusDone :: task_status where "TaskStatusDone = ''DONE''"
definition TaskStatusArchived :: task_status where "TaskStatusArchived = ''ARCHIVED''"

lemmas status_consts = TaskStatusTodo_def TaskStatusInProgress_def TaskStatusInReview_def
  TaskStatusDone_def TaskStatusArchived_def

definition AllTaskStatuses :: "task_status list" where
  "AllTaskStatuses =
     [TaskStatusTodo, TaskStatusInProgress, TaskStatusInReview, TaskStatusDone, TaskStatusArchived]"

definition validTaskStatuses :: "task_status \<Rightarrow> bool option" where
  "validTaskStatuses = map_of
     [(TaskStatusTodo, True), (TaskStatusInProgress, True), (TaskStatusInReview, True),
      (TaskStatusDone, True), (TaskStatusArchived, True)]"

text \<open>Reading a missing key of a Go map gives the zero value, here \<open>false\<close>.\<close>

definition TaskStatus_IsValid :: "task_status \<Rightarrow> bool" where
  "TaskStatus_IsValid s = (case validTaskStatuses s of Some b \<Rightarrow> b | None \<Rightarrow> False)"

definition ParseTaskStatus :: "string \<Rightarrow> task_status result" where
  "ParseTaskStatus s = (if \<not> TaskStatus_IsValid s then Err vo_ErrInvalidTaskStatus else Ok s)"

definition TaskStatus_IsTerminal :: "task_status \<Rightarrow> bool" where
  "TaskStatus_IsTerminal s = (s = TaskStatusDone \<or> s = TaskStatusArchived)"

definition CanTransitionTo :: "task_status \<Rightarrow> task_status \<Rightarrow> bool" where
  "CanTransitionTo s target =
     (if s = TaskStatusArchived then False
      else if s = TaskStatusDone then target = TaskStatusArchived
      else target \<noteq> TaskStatusArchived \<or> s = TaskStatusDone)"

lemma IsValid_iff_all [guards]: "TaskStatus_IsValid s \<longleftrightarrow> s \<in> set AllTaskStatuses"
  by (auto simp: TaskStatus_IsValid_def validTaskStatuses_def AllTaskStatuses_def status_consts
    split: if_splits)

lemma ParseTaskStatus_iff: "ParseTaskStatus s = Ok t \<longleftrightarrow> t = s \<and> TaskStatus_IsValid s"
  by (auto simp: ParseTaskStatus_def)

lemma valid_consts [simp]:
  "TaskStatus_IsValid TaskStatusTodo" "TaskStatus_IsValid TaskStatusInProgress"
  "TaskStatus_IsValid TaskStatusInReview" "TaskStatus_IsValid TaskStatusDone"
  "TaskStatus_IsValid TaskStatusArchived"
  by (simp_all add: IsValid_iff_all AllTaskStatuses_def)

lemma status_distinct [simp]:
  "TaskStatusDone \<noteq> TaskStatusArchived" "TaskStatusArchived \<noteq> TaskStatusDone"
  "TaskStatusTodo \<noteq> TaskStatusArchived" "TaskStatusArchived \<noteq> TaskStatusTodo"
  "TaskStatusTodo \<noteq> TaskStatusDone" "TaskStatusDone \<noteq> TaskStatusTodo"
  by (simp_all add: status_consts)

section \<open>Priorities (priority.go)\<close>

type_synonym priority = string

definition PriorityLow :: priority where "PriorityLow = ''LOW''"
definition PriorityMedium :: priority where "PriorityMedium = ''MEDIUM''"
definition PriorityHigh :: priority where "PriorityHigh = ''HIGH''"
definition PriorityUrgent :: priority where "PriorityUrgent = ''URGENT''"

lemmas priority_consts = PriorityLow_def PriorityMedium_def PriorityHigh_def PriorityUrgent_def

definition validPriorities :: "priority \<Rightarrow> bool option" where
  "validPriorities = map_of
     [(PriorityLow, True), (PriorityMedium, True), (PriorityHigh, True), (PriorityUrgent, True)]"

definition priorityOrder :: "priority \<Rightarrow> int option" where
  "priorityOrder = map_of
     [(PriorityLow, 1), (PriorityMedium, 2), (PriorityHigh, 3), (PriorityUrgent, 4)]"

definition Priority_IsValid :: "priority \<Rightarrow> bool" where
  "Priority_IsValid p = (case validPriorities p of Some b \<Rightarrow> b | None \<Rightarrow> False)"

definition ParsePriority :: "string \<Rightarrow> priority result" where
  "ParsePriority s = (if \<not> Priority_IsValid s then Err vo_ErrInvalidPriority else Ok s)"

definition AllPriorities :: "priority list" where
  "AllPriorities = [PriorityLow, PriorityMedium, PriorityHigh, PriorityUrgent]"

definition Priority_Order :: "priority \<Rightarrow> int" where
  "Priority_Order p = (case priorityOrder p of Some n \<Rightarrow> n | None \<Rightarrow> 0)"

definition IsHigherThan :: "priority \<Rightarrow> priority \<Rightarrow> bool" where
  "IsHigherThan p other = (Priority_Order p > Priority_Order other)"

definition IsLowerThan :: "priority \<Rightarrow> priority \<Rightarrow> bool" where
  "IsLowerThan p other = (Priority_Order p < Priority_Order other)"

definition Priority_Compare :: "priority \<Rightarrow> priority \<Rightarrow> int" where
  "Priority_Compare p other =
     (if Priority_Order p < Priority_Order other then -1
      else if Priority_Order p > Priority_Order other then 1
      else 0)"

text \<open>
  The abstract specification: four levels in a linear order, and the level a valid
  priority string stands for.
\<close>

datatype priority_level = Low | Medium | High | Urgent

fun level_rank :: "priority_level \<Rightarrow> nat" where
  "level_rank Low = 0" | "level_rank Medium = 1" | "level_rank High = 2" | "level_rank Urgent = 3"

lemma level_rank_inject: "level_rank a = level_rank b \<longleftrightarrow> a = b"
  by (cases a; cases b) auto

instantiation priority_level :: linorder
begin
definition less_eq_priority_level :: "priority_level \<Rightarrow> priority_level \<Rightarrow> bool" where
  "less_eq_priority_level a b = (level_rank a \<le> level_rank b)"
definition less_priority_level :: "priority_level \<Rightarrow> priority_level \<Rightarrow> bool" where
  "less_priority_level a b = (level_rank a < level_rank b)"
instance
  by standard (auto simp: less_eq_priority_level_def less_priority_level_def level_rank_inject)
end

definition level_of :: "priority \<Rightarrow> priority_level option" where
  "level_of = map_of
     [(PriorityLow, Low), (PriorityMedium, Medium), (PriorityHigh, High), (PriorityUrgent, Urgent)]"

lemma Priority_IsValid_iff [guards]: "Priority_IsValid p \<longleftrightarrow> p \<in> set AllPriorities"
  by (auto simp: Priority_IsValid_def validPriorities_def AllPriorities_def priority_consts
    split: if_splits)

lemma level_of_Some_iff: "(\<exists>l. level_of p = Some l) \<longleftrightarrow> Priority_IsValid p"
  by (auto simp: level_of_def Priority_IsValid_iff AllPriorities_def priority_consts split: if_splits)

lemma Priority_Order_level: "level_of p = Some l \<Longrightarrow> Priority_Order p = int (level_rank l) + 1"
  by (auto simp: level_of_def Priority_Order_def priorityOrder_def priority_consts split: if_splits)

lemma ParsePriority_iff: "ParsePriority s = Ok p \<longleftrightarrow> p = s \<and> Priority_IsValid s"
  by (auto simp: ParsePriority_def)

section \<open>E-mail addresses (email.go)\<close>

definition is_lower :: "char \<Rightarrow> bool" where
  "is_lower c = ((97::nat) \<le> of_char c \<and> of_char c \<le> (122::nat))"
definition is_upper :: "char \<Rightarrow> bool" where
  "is_upper c = ((65::nat) \<le> of_char c \<and> of_char c \<le> (90::nat))"
definition is_digit :: "char \<Rightarrow> bool" where
  "is_digit c = ((48::nat) \<le> of_char c \<and> of_char c \<le> (57::nat))"

definition ascii_lower :: "char \<Rightarrow> char" where
  "ascii_lower c = (if is_upper c then char_of (of_char c + (32::nat)) else c)"

text \<open>
  \<open>strings.TrimSpace\<close> removes the encodings of the Unicode white space characters on
  both sides.
\<close>

definition unicode_spaces :: "string list" where
  "unicode_spaces =
     [[CHR 0x09], [CHR 0x0A], [CHR 0x0B], [CHR 0x0C], [CHR 0x0D], [CHR 0x20],
      [CHR 0xC2, CHR 0x85], [CHR 0xC2, CHR 0xA0], [CHR 0xE1, CHR 0x9A, CHR 0x80],
      [CHR 0xE2, CHR 0x80, CHR 0x80], [CHR 0xE2, CHR 0x80, CHR 0x81],
      [CHR 0xE2, CHR 0x80, CHR 0x82], [CHR 0xE2, CHR 0x80, CHR 0x83],
      [CHR 0xE2, CHR 0x80, CHR 0x84], [CHR 0xE2, CHR 0x80, CHR 0x85],
      [CHR 0xE2, CHR 0x80, CHR 0x86], [CHR 0xE2, CHR 0x80, CHR 0x87],
      [CHR 0xE2, CHR 0x80, CHR 0x88], [CHR 0xE2, CHR 0x80, CHR 0x89],
      [CHR 0xE2, CHR 0x80, CHR 0x8A], [CHR 0xE2, CHR 0x80, CHR 0xA8],
      [CHR 0xE2, CHR 0x80, CHR 0xA9], [CHR 0xE2, CHR 0x80, CHR 0xAF],
      [CHR 0xE2, CHR 0x81, CHR 0x9F], [CHR 0xE3, CHR 0x80, CHR 0x80]]"

definition leading_space :: "string \<Rightarrow> nat" where
  "leading_space s = (case find (\<lambda>w. prefix w s) unicode_spaces of None \<Rightarrow> 0 | Some w \<Rightarrow> length w)"

function trim_left :: "string \<Rightarrow> string" where
  "trim_left s = (if leading_space s = 0 \<or> s = [] then s else trim_left (drop (leading_space s) s))"
  by pat_completeness auto
termination
  by (relation "measure length") auto

definition trailing_space :: "string \<Rightarrow> nat" where
  "trailing_space s = (case find (\<lambda>w. suffix w s) unicode_spaces of None \<Rightarrow> 0 | Some w \<Rightarrow> length w)"

function trim_right :: "string \<Rightarrow> string" where
  "trim_right s =
     (if trailing_space s = 0 \<or> s = [] then s
      else trim_right (take (length s - trailing_space s) s))"
  by pat_completeness auto
termination
  by (relation "measure length") auto

declare trim_left.simps [simp del] trim_right.simps [simp del]

definition TrimSpace :: "string \<Rightarrow> string" where
  "TrimSpace s = trim_right (trim_left s)"

text \<open>
  \<open>strings.ToLower\<close>.  Two characters beyond ASCII have an ASCII lower case: the Kelvin
  sign (k) and the capital I with a dot (i).  The other characters beyond ASCII are left
  as they are: whatever their lower case is, the pattern of an address rejects it, and
  \<open>NewEmail\<close> reports the rejection without the string.
\<close>

function ToLower_ascii :: "string \<Rightarrow> string" where
  "ToLower_ascii s =
     (case s of [] \<Rightarrow> []
      | c # r \<Rightarrow>
          if prefix [CHR 0xE2, CHR 0x84, CHR 0xAA] s then CHR ''k'' # ToLower_ascii (drop 3 s)
          else if prefix [CHR 0xC4, CHR 0xB0] s then CHR ''i'' # ToLower_ascii (drop 2 s)
          else ascii_lower c # ToLower_ascii r)"
  by pat_completeness auto
termination
  by (relation "measure length") auto

declare ToLower_ascii.simps [simp del]

text \<open>The classes of \<open>emailRegex\<close>: local part, domain, and the letters of the last label.\<close>

definition local_char :: "char \<Rightarrow> bool" where
  "local_char c = (is_lower c \<or> is_upper c \<or> is_digit c \<or> c \<in> set ''._%+-'')"
definition domain_char :: "char \<Rightarrow> bool" where
  "domain_char c = (is_lower c \<or> is_upper c \<or> is_digit c \<or> c \<in> set ''.-'')"
definition letter_char :: "char \<Rightarrow> bool" where
  "letter_char c = (is_lower c \<or> is_upper c)"

definition email_match_at :: "string \<Rightarrow> nat \<Rightarrow> nat \<Rightarrow> bool" where
  "email_match_at s i j =
     (i < j \<and> j < length s \<and> s ! i = CHR ''@'' \<and> s ! j = CHR ''.'' \<and>
      take i s \<noteq> [] \<and> list_all local_char (take i s) \<and>
      take (j - Suc i) (drop (Suc i) s) \<noteq> [] \<and>
      list_all domain_char (take (j - Suc i) (drop (Suc i) s)) \<and>
      2 \<le> length (drop (Suc j) s) \<and> list_all letter_char (drop (Suc j) s))"

definition emailRegex_MatchString :: "string \<Rightarrow> bool" where
  "emailRegex_MatchString s =
     list_ex (\<lambda>i. list_ex (\<lambda>j. email_match_at s i j) [0..<length s]) [0..<length s]"

type_synonym email = string

definition NewEmail :: "string \<Rightarrow> email result" where
  "NewEmail email =
     (let email = TrimSpace email; email = ToLower_ascii email
      in if email = [] then Err vo_ErrEmptyEmail
         else if \<not> emailRegex_MatchString email then Err vo_ErrInvalidEmail
         else Ok email)"

definition Email_Domain :: "email \<Rightarrow> string" where
  "Email_Domain e =
     (let parts = split_on (CHR ''@'') e in if length parts \<noteq> 2 then [] else parts ! 1)"

definition Email_LocalPart :: "email \<Rightarrow> string" where
  "Email_LocalPart e =
     (let parts = split_on (CHR ''@'') e in if length parts \<noteq> 2 then [] else parts ! 0)"

definition Email_Equals :: "email \<Rightarrow> email \<Rightarrow> bool" where
  "Email_Equals e other = (e = other)"

definition Email_IsEmpty :: "email \<Rightarrow> bool" where
  "Email_IsEmpty e = (e = [])"

subsection \<open>What an accepted address looks like\<close>

definition email_char :: "char \<Rightarrow> bool" where
  "email_char c = (local_char c \<or> c = CHR ''@'')"

lemma domain_char_local: "domain_char c \<Longrightarrow> local_char c"
  by (auto simp: domain_char_def local_char_def)

lemma letter_char_local: "letter_char c \<Longrightarrow> domain_char c"
  by (auto simp: domain_char_def letter_char_def)

lemma letter_char_is_local: "letter_char c \<Longrightarrow> local_char c"
  by (simp add: letter_char_local domain_char_local)

lemma dot_local [simp]: "local_char (CHR ''.'')"
  by (simp add: local_char_def)

lemma at_not_local [simp]: "\<not> local_char (CHR ''@'')"
  by (simp add: local_char_def is_lower_def is_upper_def is_digit_def)

lemma at_not_domain [simp]: "\<not> domain_char (CHR ''@'')"
  using at_not_local domain_char_local by blast

lemma at_not_letter [simp]: "\<not> letter_char (CHR ''@'')"
  using at_not_local letter_char_is_local by blast

lemma regex_split:
  assumes "emailRegex_MatchString s"
  obtains l d t where "s = l @ CHR ''@'' # d @ CHR ''.'' # t"
    "l \<noteq> []" "list_all local_char l" "d \<noteq> []" "list_all domain_char d"
    "2 \<le> length t" "list_all letter_char t"
proof -
  from assms obtain i j where m: "email_match_at s i j"
    by (auto simp: emailRegex_MatchString_def list_ex_iff)
  then have ij: "i < j" "j < length s" by (auto simp: email_match_at_def)
  have "s = take i s @ s ! i # drop (Suc i) s" using ij by (simp add: id_take_nth_drop)
  moreover have "drop (Suc i) s =
      take (j - Suc i) (drop (Suc i) s) @ s ! j # drop (Suc j) s"
    using ij id_take_nth_drop [of "j - Suc i" "drop (Suc i) s"] by simp
  ultimately have "s = take i s @ s ! i # take (j - Suc i) (drop (Suc i) s) @ s ! j # drop (Suc j) s"
    by simp
  with m show thesis by (intro that) (auto simp: email_match_at_def)
qed

lemma regex_chars: "emailRegex_MatchString s \<Longrightarrow> c \<in> set s \<Longrightarrow> email_char c"
  by (erule regex_split)
    (auto simp: email_char_def list_all_iff dest: domain_char_local letter_char_is_local)

lemma ascii_lower_not_upper: "\<not> is_upper (ascii_lower c)"
  by (cases "is_upper c") (auto simp: ascii_lower_def is_upper_def)

lemma ascii_lower_id: "\<not> is_upper c \<Longrightarrow> ascii_lower c = c"
  by (simp add: ascii_lower_def)

lemma ToLower_no_upper: "c \<in> set (ToLower_ascii s) \<Longrightarrow> \<not> is_upper c"
proof (induction s rule: ToLower_ascii.induct)
  case (1 s)
  then show ?case
    by (subst (asm) (2) ToLower_ascii.simps)
      (auto split: list.splits if_splits simp: ascii_lower_not_upper, auto simp: is_upper_def)
qed

lemma high_byte_not_email [simp]:
  "\<not> email_char (CHR 0xE2)" "\<not> email_char (CHR 0xC4)" "\<not> email_char (CHR 0xC2)"
  "\<not> email_char (CHR 0xE1)" "\<not> email_char (CHR 0xE3)" "\<not> email_char (CHR 0x09)"
  "\<not> email_char (CHR 0x0A)" "\<not> email_char (CHR 0x0B)" "\<not> email_char (CHR 0x0C)"
  "\<not> email_char (CHR 0x0D)" "\<not> email_char (CHR 0x20)"
  by (simp_all add: email_char_def local_char_def is_lower_def is_upper_def is_digit_def)

lemma ToLower_id:
  "(\<And>c. c \<in> set s \<Longrightarrow> email_char c \<and> \<not> is_upper c) \<Longrightarrow> ToLower_ascii s = s"
proof (induction s)
  case Nil
  then show ?case by (simp add: ToLower_ascii.simps)
next
  case (Cons c s)
  have "c \<noteq> CHR 0xE2" "c \<noteq> CHR 0xC4" using Cons.prems [of c] by auto
  with Cons show ?case by (subst ToLower_ascii.simps) (auto simp: ascii_lower_id)
qed

lemma space_heads: "w \<in> set unicode_spaces \<Longrightarrow> w \<noteq> [] \<and> \<not> email_char (hd w)"
  by (auto simp: unicode_spaces_def)

lemma no_space_inside:
  assumes "w \<in> set unicode_spaces" "\<And>c. c \<in> set s \<Longrightarrow> email_char c"
  shows "\<not> prefix w s" "\<not> suffix w s"
  using space_heads [OF assms(1)] assms(2)
  by (metis hd_in_set prefix_def suffix_def in_set_conv_decomp_first Un_iff set_append)+

lemma TrimSpace_id:
  assumes "\<And>c. c \<in> set s \<Longrightarrow> email_char c"
  shows "TrimSpace s = s"
proof -
  have "find (\<lambda>w. prefix w s) unicode_spaces = None" "find (\<lambda>w. suffix w s) unicode_spaces = None"
    using no_space_inside [OF _ assms] by (auto simp: find_None_iff)
  then show ?thesis
    by (simp add: TrimSpace_def trim_left.simps trim_right.simps leading_space_def trailing_space_def)
qed

lemma NewEmail_Ok:
  assumes "NewEmail s = Ok e"
  shows "emailRegex_MatchString e" "c \<in> set e \<Longrightarrow> email_char c \<and> \<not> is_upper c" "e \<noteq> []"
  using assms regex_chars ToLower_no_upper
  by (auto simp: NewEmail_def Let_def split: if_splits)

text \<open>
  Validation of an e-mail address is a normal form: what NewEmail returns is accepted
  again unchanged, contains no upper case letter, and has exactly one at sign whose two
  sides are LocalPart and Domain.
\<close>

theorem NewEmail_normal_form:
  assumes "NewEmail s = Ok e"
  shows "NewEmail e = Ok e \<and> e = Email_LocalPart e @ CHR ''@'' # Email_Domain e
    \<and> CHR ''@'' \<notin> set (Email_LocalPart e) \<and> CHR ''@'' \<notin> set (Email_Domain e)
    \<and> Email_LocalPart e \<noteq> [] \<and> CHR ''.'' \<in> set (Email_Domain e) \<and> (\<forall>c\<in>set e. \<not> is_upper c)"
proof -
  note ok = NewEmail_Ok [OF assms]
  have again: "NewEmail e = Ok e"
    using ok by (simp add: NewEmail_def Let_def TrimSpace_id ToLower_id)
  obtain l d t where e: "e = l @ CHR ''@'' # d @ CHR ''.'' # t" "l \<noteq> []"
    and cs: "list_all local_char l" "list_all domain_char d" "list_all letter_char t"
    using regex_split [OF ok(1)] by metis
  have at: "CHR ''@'' \<notin> set l" "CHR ''@'' \<notin> set (d @ CHR ''.'' # t)"
    using cs by (auto simp: list_all_iff)
  have "split_on (CHR ''@'') e = [l, d @ CHR ''.'' # t]"
    unfolding split_on_pair_iff using e(1) at by blast
  then have parts: "Email_LocalPart e = l" "Email_Domain e = d @ CHR ''.'' # t"
    by (simp_all add: Email_LocalPart_def Email_Domain_def)
  have low: "\<forall>c\<in>set e. \<not> is_upper c" using ok(2) by blast
  show ?thesis unfolding parts using again e at low by simp
qed

theorem NewEmail_normal_form_witness:
  "NewEmail '' A@b.co'' = Ok ''a@b.co'' \<and> NewEmail ''a@b.co'' = Ok ''a@b.co''"
proof -
  have t: "TrimSpace '' A@b.co'' = ''A@b.co''"
    by (simp add: TrimSpace_def trim_left.simps trim_right.simps leading_space_def
      trailing_space_def unicode_spaces_def suffix_def)
  have l: "ToLower_ascii ''A@b.co'' = ''a@b.co''"
    by (simp add: ToLower_ascii.simps ascii_lower_def is_upper_def, code_simp)
  have "email_match_at ''a@b.co'' 1 3"
    by (simp add: email_match_at_def local_char_def domain_char_def letter_char_def is_lower_def
      is_upper_def is_digit_def)
  then have "emailRegex_MatchString ''a@b.co''"
    unfolding emailRegex_MatchString_def list_ex_iff
    by (intro bexI [of _ 1] bexI [of _ 3]) (simp_all add: list_ex_iff)
  then have h: "NewEmail '' A@b.co'' = Ok ''a@b.co''"
    by (simp add: NewEmail_def Let_def t l)
  show ?thesis using h NewEmail_normal_form [OF h] by blast
qed

end
