(* ===== verification/Collections.thy ===== *)
theory Collections
  imports ValueObjects
begin

text \<open>
  Three entities own a slice that acts as a set: the labels of a task, the roles of a user,
  the permissions of a role.  Their \<open>Add\<close> and \<open>Remove\<close> methods obey one contract,
  stated here as a locale over the entity, with the client facts proved once: the keys stay
  distinct, and a run of additions and removals is the same run on a set of keys.
\<close>

datatype ('a, 'k) coll_op = Insert 'a time | Delete 'k time

text \<open>The abstract specification of a run: a set of keys.\<close>

fun spec_run :: "('a \<Rightarrow> 'k) \<Rightarrow> ('a, 'k) coll_op list \<Rightarrow> 'k set \<Rightarrow> 'k set" where
  "spec_run key [] K = K"
| "spec_run key (Insert x now # ops) K = spec_run key ops (insert (key x) K)"
| "spec_run key (Delete k now # ops) K = spec_run key ops (K - {k})"

fun coll_run ::
  "('a \<Rightarrow> time \<Rightarrow> 'e \<Rightarrow> 'e) \<Rightarrow> ('k \<Rightarrow> time \<Rightarrow> 'e \<Rightarrow> 'e) \<Rightarrow> ('a, 'k) coll_op list \<Rightarrow> 'e \<Rightarrow> 'e" where
  "coll_run add remove [] e = e"
| "coll_run add remove (Insert x now # ops) e = coll_run add remove ops (add x now e)"
| "coll_run add remove (Delete k now # ops) e = coll_run add remove ops (remove k now e)"

locale keyed_collection =
  fixes items :: "'e \<Rightarrow> 'a list"
    and stamp :: "'e \<Rightarrow> time"
    and key :: "'a \<Rightarrow> 'k"
    and add :: "'a \<Rightarrow> time \<Rightarrow> 'e \<Rightarrow> 'e"
    and remove :: "'k \<Rightarrow> time \<Rightarrow> 'e \<Rightarrow> 'e"
  assumes add_present: "key x \<in> key ` set (items e) \<Longrightarrow> add x now e = e"
    and items_add: "key x \<notin> key ` set (items e) \<Longrightarrow> items (add x now e) = items e @ [x]"
    and stamp_add: "key x \<notin> key ` set (items e) \<Longrightarrow> stamp (add x now e) = now"
    and remove_absent: "k \<notin> key ` set (items e) \<Longrightarrow> remove k now e = e"
    and items_remove: "items (remove k now e) = drop_first (\<lambda>y. key y = k) (items e)"
    and stamp_remove: "k \<in> key ` set (items e) \<Longrightarrow> stamp (remove k now e) = now"
begin

lemma items_add_if:
  "items (add x now e) = (if key x \<in> key ` set (items e) then items e else items e @ [x])"
  by (simp add: add_present items_add)

lemma keys_add: "key ` set (items (add x now e)) = insert (key x) (key ` set (items e))"
  by (auto simp: items_add_if)

lemma add_distinct:
  "distinct (map key (items e)) \<Longrightarrow> distinct (map key (items (add x now e)))"
  by (auto simp: items_add_if)

lemma add_idem: "add x now' (add x now e) = add x now e"
  by (rule add_present) (simp add: keys_add)

lemma items_remove_filter:
  "distinct (map key (items e)) \<Longrightarrow> items (remove k now e) = filter (\<lambda>y. key y \<noteq> k) (items e)"
  by (simp add: items_remove drop_first_keyed)

lemma keys_remove:
  "distinct (map key (items e)) \<Longrightarrow> key ` set (items (remove k now e)) = key ` set (items e) - {k}"
  by (auto simp: items_remove_filter)

lemma remove_distinct:
  "distinct (map key (items e)) \<Longrightarrow> distinct (map key (items (remove k now e)))"
  by (simp add: items_remove_filter distinct_map_filter)

lemma remove_idem:
  "distinct (map key (items e)) \<Longrightarrow> remove k now' (remove k now e) = remove k now e"
  by (rule remove_absent) (simp add: keys_remove)

lemma remove_add:
  assumes "key x \<notin> key ` set (items e)"
  shows "items (remove (key x) now' (add x now e)) = items e"
proof -
  have "\<forall>y\<in>set (items e). key y \<noteq> key x" using assms by (auto simp: image_iff)
  then have "drop_first (\<lambda>y. key y = key x) (items e @ [x]) = items e"
    using drop_first_split [of "items e" "\<lambda>y. key y = key x" x "[]"] by simp
  with assms show ?thesis by (simp add: items_remove items_add)
qed

lemma run_keys:
  "distinct (map key (items e)) \<Longrightarrow>
     distinct (map key (items (coll_run add remove ops e)))
     \<and> key ` set (items (coll_run add remove ops e)) = spec_run key ops (key ` set (items e))"
proof (induction ops arbitrary: e)
  case (Cons op ops)
  then show ?case
    by (cases op) (simp_all add: add_distinct keys_add remove_distinct keys_remove)
qed simp

end

end
