(* ===== verification/Access.thy ===== *)
theory Access
  imports Collections
begin

text \<open>
  The entities behind access decisions, \<open>permission.go\<close>, \<open>role.go\<close>, \<open>user.go\<close> and
  \<open>acl_entry.go\<close> of \<open>internal/domain/entity\<close>.  A method that mutates its receiver
  returns the new entity; \<open>time.Now().UTC()\<close> and \<open>uuid.New()\<close> are the arguments
  \<open>now\<close> and \<open>new_id\<close>, which the use cases draw from their environment.
\<close>

section \<open>Resource types and permission actions (resource_type.go, permission.go)\<close>

type_synonym resource_type = string
type_synonym permission_action = string

definition ResourceTypeTasks :: resource_type where "ResourceTypeTasks = ''tasks''"
definition ResourceTypeUsers :: resource_type where "ResourceTypeUsers = ''users''"
definition ResourceTypeRoles :: resource_type where "ResourceTypeRoles = ''roles''"
definition ResourceTypePermissions :: resource_type where "ResourceTypePermissions = ''permissions''"
definition ResourceTypeLabels :: resource_type where "ResourceTypeLabels = ''labels''"
definition ResourceTypeTask :: resource_type where "ResourceTypeTask = ''task''"
definition ResourceTypeUser :: resource_type where "ResourceTypeUser = ''user''"
definition ResourceTypeRole :: resource_type where "ResourceTypeRole = ''role''"
definition ResourceTypeLabel :: resource_type where "ResourceTypeLabel = ''label''"
definition ResourceTypeAll :: resource_type where "ResourceTypeAll = ''*''"

lemmas resource_consts = ResourceTypeTasks_def ResourceTypeUsers_def ResourceTypeRoles_def
  ResourceTypePermissions_def ResourceTypeLabels_def ResourceTypeTask_def ResourceTypeUser_def
  ResourceTypeRole_def ResourceTypeLabel_def ResourceTypeAll_def

definition PermissionActionCreate :: permission_action where "PermissionActionCreate = ''create''"
definition PermissionActionRead :: permission_action where "PermissionActionRead = ''read''"
definition PermissionActionUpdate :: permission_action where "PermissionActionUpdate = ''update''"
definition PermissionActionDelete :: permission_action where "PermissionActionDelete = ''delete''"
definition PermissionActionAssign :: permission_action where "PermissionActionAssign = ''assign''"
definition PermissionActionAll :: permission_action where "PermissionActionAll = ''*''"

lemmas action_consts = PermissionActionCreate_def PermissionActionRead_def
  PermissionActionUpdate_def PermissionActionDelete_def PermissionActionAssign_def
  PermissionActionAll_def

record permission =
  p_id :: uuid
  p_name :: string
  p_resource :: resource_type
  p_action :: permission_action
  p_created :: time

definition NewPermission ::
  "string \<Rightarrow> resource_type \<Rightarrow> permission_action \<Rightarrow> uuid \<Rightarrow> time \<Rightarrow> permission result" where
  "NewPermission name resource action new_id now =
     (if name = [] then Err ErrEmptyPermissionName
      else if resource = [] then Err ErrEmptyResource
      else if action = [] then Err ErrEmptyAction
      else Ok \<lparr>p_id = new_id, p_name = name, p_resource = resource, p_action = action,
               p_created = now\<rparr>)"

definition Permission_Matches :: "permission \<Rightarrow> resource_type \<Rightarrow> permission_action \<Rightarrow> bool" where
  "Permission_Matches p resource action =
     (let resourceMatches = p_resource p = ''*'' \<or> p_resource p = resource;
          actionMatches = p_action p = PermissionActionAll \<or> p_action p = action
      in resourceMatches \<and> actionMatches)"

definition Permission_String :: "permission \<Rightarrow> string" where
  "Permission_String p = p_resource p @ '':'' @ p_action p"

section \<open>Roles (role.go)\<close>

definition RoleAdmin :: string where "RoleAdmin = ''admin''"
definition RoleManager :: string where "RoleManager = ''manager''"
definition RoleMember :: string where "RoleMember = ''member''"
definition RoleViewer :: string where "RoleViewer = ''viewer''"

lemmas role_consts = RoleAdmin_def RoleManager_def RoleMember_def RoleViewer_def

record role =
  r_id :: uuid
  r_name :: string
  r_description :: string
  r_permissions :: "permission list"
  r_created :: time
  r_updated :: time

definition NewRole :: "string \<Rightarrow> string \<Rightarrow> uuid \<Rightarrow> time \<Rightarrow> role result" where
  "NewRole name description new_id now =
     (if name = [] then Err ErrEmptyRoleName
      else Ok \<lparr>r_id = new_id, r_name = name, r_description = description, r_permissions = [],
               r_created = now, r_updated = now\<rparr>)"

definition Role_AddPermission :: "permission \<Rightarrow> time \<Rightarrow> role \<Rightarrow> role" where
  "Role_AddPermission permission now r =
     (if any_loop (\<lambda>p. p_id p = p_id permission) (r_permissions r) then r
      else r\<lparr>r_permissions := r_permissions r @ [permission], r_updated := now\<rparr>)"

definition Role_RemovePermission :: "uuid \<Rightarrow> time \<Rightarrow> role \<Rightarrow> role" where
  "Role_RemovePermission permissionID now r =
     (if any_loop (\<lambda>p. p_id p = permissionID) (r_permissions r)
      then r\<lparr>r_permissions := drop_first (\<lambda>p. p_id p = permissionID) (r_permissions r),
             r_updated := now\<rparr>
      else r)"

definition Role_HasPermission :: "role \<Rightarrow> resource_type \<Rightarrow> permission_action \<Rightarrow> bool" where
  "Role_HasPermission r resource action =
     any_loop (\<lambda>p. if p_resource p = resource \<and> p_action p = action then True
                   else if p_resource p = ResourceTypeAll
                     \<or> (p_resource p = resource \<and> p_action p = PermissionActionAll) then True
                   else False) (r_permissions r)"

definition Role_UpdateName :: "string \<Rightarrow> time \<Rightarrow> role \<Rightarrow> role result" where
  "Role_UpdateName name now r =
     (if name = [] then Err ErrEmptyRoleName else Ok (r\<lparr>r_name := name, r_updated := now\<rparr>))"

definition Role_UpdateDescription :: "string \<Rightarrow> time \<Rightarrow> role \<Rightarrow> role" where
  "Role_UpdateDescription description now r = r\<lparr>r_description := description, r_updated := now\<rparr>"

section \<open>Users (user.go)\<close>

text \<open>
  Hashing is bcrypt, outside the repository: \<open>hash\<close> is what
  \<open>GenerateFromPassword\<close> returned for the password, \<open>cmp\<close> is \<open>CompareHashAndPassword\<close>.
\<close>

record user =
  u_id :: uuid
  u_email :: string
  u_password_hash :: string
  u_name :: string
  u_roles :: "role list"
  u_created :: time
  u_updated :: time

definition NewUser ::
  "(string \<Rightarrow> string result) \<Rightarrow> string \<Rightarrow> string \<Rightarrow> string \<Rightarrow> uuid \<Rightarrow> time \<Rightarrow> user result" where
  "NewUser hash email password name new_id now =
     (if email = [] then Err ErrEmptyEmail
      else if password = [] then Err ErrEmptyPassword
      else if name = [] then Err ErrEmptyName
      else (case hash password of
              Err e \<Rightarrow> Err e
            | Panic p \<Rightarrow> Panic p
            | Ok hashedPassword \<Rightarrow>
                Ok \<lparr>u_id = new_id, u_email = email, u_password_hash = hashedPassword,
                    u_name = name, u_roles = [], u_created = now, u_updated = now\<rparr>))"

definition VerifyPassword :: "(string \<Rightarrow> string \<Rightarrow> bool) \<Rightarrow> string \<Rightarrow> user \<Rightarrow> bool" where
  "VerifyPassword cmp password u = cmp (u_password_hash u) password"

definition UpdatePassword :: "(string \<Rightarrow> string result) \<Rightarrow> string \<Rightarrow> time \<Rightarrow> user \<Rightarrow> user result" where
  "UpdatePassword hash newPassword now u =
     (if newPassword = [] then Err ErrEmptyPassword
      else (case hash newPassword of
              Err e \<Rightarrow> Err e
            | Panic p \<Rightarrow> Panic p
            | Ok h \<Rightarrow> Ok (u\<lparr>u_password_hash := h, u_updated := now\<rparr>)))"

definition User_UpdateName :: "string \<Rightarrow> time \<Rightarrow> user \<Rightarrow> user result" where
  "User_UpdateName name now u =
     (if name = [] then Err ErrEmptyName else Ok (u\<lparr>u_name := name, u_updated := now\<rparr>))"

definition User_UpdateEmail :: "string \<Rightarrow> time \<Rightarrow> user \<Rightarrow> user result" where
  "User_UpdateEmail email now u =
     (if email = [] then Err ErrEmptyEmail else Ok (u\<lparr>u_email := email, u_updated := now\<rparr>))"

definition User_AssignRole :: "role \<Rightarrow> time \<Rightarrow> user \<Rightarrow> user" where
  "User_AssignRole role now u =
     (if any_loop (\<lambda>r. r_id r = r_id role) (u_roles u) then u
      else u\<lparr>u_roles := u_roles u @ [role], u_updated := now\<rparr>)"

definition User_RemoveRole :: "uuid \<Rightarrow> time \<Rightarrow> user \<Rightarrow> user" where
  "User_RemoveRole roleID now u =
     (if any_loop (\<lambda>r. r_id r = roleID) (u_roles u)
      then u\<lparr>u_roles := drop_first (\<lambda>r. r_id r = roleID) (u_roles u), u_updated := now\<rparr>
      else u)"

definition User_HasRole :: "string \<Rightarrow> user \<Rightarrow> bool" where
  "User_HasRole roleName u = any_loop (\<lambda>r. r_name r = roleName) (u_roles u)"

definition User_HasPermission :: "resource_type \<Rightarrow> permission_action \<Rightarrow> user \<Rightarrow> bool" where
  "User_HasPermission resource action u =
     any_loop (\<lambda>r. Role_HasPermission r resource action) (u_roles u)"

text \<open>
  \<open>GetAllPermissions\<close> fills a map keyed by permission id; the slice it returns lists the
  values of the map in an unspecified order, so the model returns the map.
\<close>

fun perm_map_loop :: "permission list \<Rightarrow> (uuid \<rightharpoonup> permission) \<Rightarrow> (uuid \<rightharpoonup> permission)" where
  "perm_map_loop [] m = m"
| "perm_map_loop (p # ps) m = perm_map_loop ps (m(p_id p \<mapsto> p))"

fun role_map_loop :: "role list \<Rightarrow> (uuid \<rightharpoonup> permission) \<Rightarrow> (uuid \<rightharpoonup> permission)" where
  "role_map_loop [] m = m"
| "role_map_loop (r # rs) m = role_map_loop rs (perm_map_loop (r_permissions r) m)"

definition GetAllPermissions :: "user \<Rightarrow> (uuid \<rightharpoonup> permission)" where
  "GetAllPermissions u = role_map_loop (u_roles u) Map.empty"

definition User_IsAdmin :: "user \<Rightarrow> bool" where
  "User_IsAdmin u = User_HasRole RoleAdmin u"

section \<open>Access control entries (acl_entry.go)\<close>

type_synonym acl_permission = string
type_synonym acl_subject_type = string

definition ACLPermissionRead :: acl_permission where "ACLPermissionRead = ''read''"
definition ACLPermissionWrite :: acl_permission where "ACLPermissionWrite = ''write''"
definition ACLPermissionDelete :: acl_permission where "ACLPermissionDelete = ''delete''"
definition ACLPermissionAdmin :: acl_permission where "ACLPermissionAdmin = ''admin''"
definition ACLSubjectTypeUser :: acl_subject_type where "ACLSubjectTypeUser = ''user''"
definition ACLSubjectTypeRole :: acl_subject_type where "ACLSubjectTypeRole = ''role''"

lemmas acl_consts = ACLPermissionRead_def ACLPermissionWrite_def ACLPermissionDelete_def
  ACLPermissionAdmin_def ACLSubjectTypeUser_def ACLSubjectTypeRole_def

record acl_entry =
  a_id :: uuid
  a_resource_type :: resource_type
  a_resource_id :: uuid
  a_subject_type :: acl_subject_type
  a_subject_id :: uuid
  a_permission :: acl_permission
  a_created :: time

definition NewACLEntry ::
  "resource_type \<Rightarrow> uuid \<Rightarrow> acl_subject_type \<Rightarrow> uuid \<Rightarrow> acl_permission \<Rightarrow> uuid \<Rightarrow> time
   \<Rightarrow> acl_entry result" where
  "NewACLEntry resourceType resourceID subjectType subjectID permission new_id now =
     (if resourceType = [] then Err ErrEmptyResourceType
      else if subjectType = [] then Err ErrEmptySubjectType
      else if permission = [] then Err ErrEmptyAction
      else Ok \<lparr>a_id = new_id, a_resource_type = resourceType, a_resource_id = resourceID,
               a_subject_type = subjectType, a_subject_id = subjectID,
               a_permission = permission, a_created = now\<rparr>)"

definition ACLEntry_Matches ::
  "acl_entry \<Rightarrow> resource_type \<Rightarrow> uuid \<Rightarrow> acl_subject_type \<Rightarrow> uuid \<Rightarrow> acl_permission \<Rightarrow> bool" where
  "ACLEntry_Matches a resourceType resourceID subjectType subjectID permission =
     (a_resource_type a = resourceType \<and> a_resource_id a = resourceID \<and>
      a_subject_type a = subjectType \<and> a_subject_id a = subjectID \<and>
      (a_permission a = permission \<or> a_permission a = ACLPermissionAdmin))"

definition GrantsPermission :: "acl_entry \<Rightarrow> acl_permission \<Rightarrow> bool" where
  "GrantsPermission a permission =
     (if a_permission a = ACLPermissionAdmin then True else a_permission a = permission)"


section \<open>What the methods guarantee\<close>

interpretation user_roles: keyed_collection u_roles u_updated r_id User_AssignRole User_RemoveRole
  by unfold_locales
    (auto simp: User_AssignRole_def User_RemoveRole_def image_iff drop_first_absent)

interpretation role_permissions:
  keyed_collection r_permissions r_updated p_id Role_AddPermission Role_RemovePermission
  by unfold_locales
    (auto simp: Role_AddPermission_def Role_RemovePermission_def image_iff drop_first_absent)

text \<open>
  The permission test of a role asks for an exact match, a wildcard action on the resource, or
  the wildcard resource, and in the last case for no action at all.
\<close>

lemma Role_HasPermission_iff:
  "Role_HasPermission r resource action \<longleftrightarrow>
     (\<exists>p\<in>set (r_permissions r). Permission_Matches p resource action
        \<or> p_resource p = ResourceTypeAll)"
  by (auto simp: Role_HasPermission_def Permission_Matches_def Let_def ResourceTypeAll_def
    PermissionActionAll_def split: if_splits)

lemma ACLEntry_Matches_grants:
  "ACLEntry_Matches a rt rid st sid p \<Longrightarrow> GrantsPermission a p"
  by (auto simp: ACLEntry_Matches_def GrantsPermission_def)

lemma perm_map_loop_None:
  "perm_map_loop ps m i = None \<longleftrightarrow> m i = None \<and> i \<notin> p_id ` set ps"
  by (induction ps arbitrary: m) auto

lemma dom_perm_map_loop: "dom (perm_map_loop ps m) = dom m \<union> p_id ` set ps"
  by (induction ps arbitrary: m) auto

lemma perm_map_loop_Some:
  "perm_map_loop ps m i = Some p \<Longrightarrow> m i = Some p \<or> (p \<in> set ps \<and> p_id p = i)"
  by (induction ps arbitrary: m) (fastforce split: if_splits)+

lemma dom_role_map_loop:
  "dom (role_map_loop rs m) = dom m \<union> (\<Union>r\<in>set rs. p_id ` set (r_permissions r))"
  by (induction rs arbitrary: m) (auto simp: dom_perm_map_loop)

lemma role_map_loop_Some:
  "role_map_loop rs m i = Some p \<Longrightarrow>
     m i = Some p \<or> (\<exists>r\<in>set rs. p \<in> set (r_permissions r) \<and> p_id p = i)"
  by (induction rs arbitrary: m) (auto dest: perm_map_loop_Some)

text \<open>
  A run of AssignRole and RemoveRole calls on a user keeps the role ids distinct and acts
  on them as insertions and deletions on a set.
\<close>

theorem user_roles_run:
  assumes "distinct (map r_id (u_roles u))"
  shows "distinct (map r_id (u_roles (coll_run User_AssignRole User_RemoveRole ops u)))
    \<and> r_id ` set (u_roles (coll_run User_AssignRole User_RemoveRole ops u))
        = spec_run r_id ops (r_id ` set (u_roles u))"
  using assms by (rule user_roles.run_keys)

definition example_role :: role where
  "example_role = \<lparr>r_id = 7, r_name = ''member'', r_description = [], r_permissions = [],
     r_created = 1, r_updated = 1\<rparr>"

definition example_user :: user where
  "example_user = \<lparr>u_id = 1, u_email = ''a@b.co'', u_password_hash = ''h'', u_name = ''A'',
     u_roles = [], u_created = 1, u_updated = 1\<rparr>"

theorem user_roles_run_witness:
  "distinct (map r_id (u_roles example_user))
   \<and> r_id ` set (u_roles (coll_run User_AssignRole User_RemoveRole
        [Insert example_role 2, Insert example_role 3] example_user)) = {7}"
proof -
  have h: "distinct (map r_id (u_roles example_user))" by (simp add: example_user_def)
  show ?thesis
    using h user_roles_run [OF h, of "[Insert example_role 2, Insert example_role 3]"]
    by (simp add: example_user_def example_role_def)
qed

text \<open>
  GetAllPermissions collects, under its id, every permission of every role and nothing
  else.
\<close>

theorem GetAllPermissions_spec:
  "dom (GetAllPermissions u) = (\<Union>r\<in>set (u_roles u). p_id ` set (r_permissions r))
   \<and> ran (GetAllPermissions u) \<subseteq> (\<Union>r\<in>set (u_roles u). set (r_permissions r))"
  by (auto simp: GetAllPermissions_def dom_role_map_loop ran_def dest: role_map_loop_Some)

end
