(* ===== verification/Tasks.thy ===== *)
theory Tasks
  imports Collections
begin

text \<open>
  Tasks, labels and attachments: \<open>task.go\<close>, \<open>label.go\<close> and \<open>task_attachment.go\<close> of
  \<open>internal/domain/entity\<close>, the life cycle of a task as a step relation, and what holds
  of every task that the methods can reach.
\<close>

section \<open>Labels (label.go)\<close>

record label =
  l_id :: uuid
  l_name :: string
  l_color :: string
  l_created :: time
  l_updated :: time

definition NewLabel :: "string \<Rightarrow> string \<Rightarrow> uuid \<Rightarrow> time \<Rightarrow> label result" where
  "NewLabel name color new_id now =
     (if name = [] then Err ErrEmptyLabelName
      else if color = [] then Err ErrEmptyLabelColor
      else Ok \<lparr>l_id = new_id, l_name = name, l_color = color, l_created = now, l_updated = now\<rparr>)"

definition Label_UpdateName :: "string \<Rightarrow> time \<Rightarrow> label \<Rightarrow> label result" where
  "Label_UpdateName name now l =
     (if name = [] then Err ErrEmptyLabelName else Ok (l\<lparr>l_name := name, l_updated := now\<rparr>))"

definition Label_UpdateColor :: "string \<Rightarrow> time \<Rightarrow> label \<Rightarrow> label result" where
  "Label_UpdateColor color now l =
     (if color = [] then Err ErrEmptyLabelColor else Ok (l\<lparr>l_color := color, l_updated := now\<rparr>))"

section \<open>Tasks (task.go)\<close>

record task =
  t_id :: uuid
  t_title :: string
  t_description :: string
  t_status :: task_status
  t_priority :: priority
  t_due :: "time option"
  t_assignee :: "uuid option"
  t_creator :: uuid
  t_labels :: "uuid list"
  t_created :: time
  t_updated :: time

definition NewTask ::
  "string \<Rightarrow> string \<Rightarrow> priority \<Rightarrow> uuid \<Rightarrow> uuid \<Rightarrow> time \<Rightarrow> task result" where
  "NewTask title description priority creatorID new_id now =
     (if title = [] then Err ErrEmptyTitle
      else if \<not> Priority_IsValid priority then Err ErrInvalidPriority
      else Ok \<lparr>t_id = new_id, t_title = title, t_description = description,
               t_status = TaskStatusTodo, t_priority = priority, t_due = None,
               t_assignee = None, t_creator = creatorID, t_labels = [],
               t_created = now, t_updated = now\<rparr>)"

definition Complete :: "time \<Rightarrow> task \<Rightarrow> task result" where
  "Complete now t =
     (if t_status t = TaskStatusArchived then Err ErrTaskArchived
      else Ok (t\<lparr>t_status := TaskStatusDone, t_updated := now\<rparr>))"

definition Archive :: "time \<Rightarrow> task \<Rightarrow> task result" where
  "Archive now t =
     (if t_status t \<noteq> TaskStatusDone then Err ErrTaskNotDone
      else Ok (t\<lparr>t_status := TaskStatusArchived, t_updated := now\<rparr>))"

definition Assign :: "uuid \<Rightarrow> time \<Rightarrow> task \<Rightarrow> task result" where
  "Assign assigneeID now t =
     (if t_status t = TaskStatusArchived then Err ErrTaskArchived
      else Ok (t\<lparr>t_assignee := Some assigneeID, t_updated := now\<rparr>))"

definition Unassign :: "time \<Rightarrow> task \<Rightarrow> task" where
  "Unassign now t = t\<lparr>t_assignee := None, t_updated := now\<rparr>"

definition ChangeStatus :: "task_status \<Rightarrow> time \<Rightarrow> task \<Rightarrow> task result" where
  "ChangeStatus status now t =
     (if t_status t = TaskStatusArchived then Err ErrTaskArchived
      else if \<not> TaskStatus_IsValid status then Err ErrInvalidStatus
      else if t_status t = TaskStatusDone \<and> status \<noteq> TaskStatusArchived
        then Err ErrInvalidStatusTransition
      else Ok (t\<lparr>t_status := status, t_updated := now\<rparr>))"

definition UpdateTitle :: "string \<Rightarrow> time \<Rightarrow> task \<Rightarrow> task result" where
  "UpdateTitle title now t =
     (if title = [] then Err ErrEmptyTitle else Ok (t\<lparr>t_title := title, t_updated := now\<rparr>))"

definition UpdateDescription :: "string \<Rightarrow> time \<Rightarrow> task \<Rightarrow> task" where
  "UpdateDescription description now t = t\<lparr>t_description := description, t_updated := now\<rparr>"

definition UpdatePriority :: "priority \<Rightarrow> time \<Rightarrow> task \<Rightarrow> task result" where
  "UpdatePriority priority now t =
     (if \<not> Priority_IsValid priority then Err ErrInvalidPriority
      else Ok (t\<lparr>t_priority := priority, t_updated := now\<rparr>))"

definition SetDueDate :: "time \<Rightarrow> time \<Rightarrow> task \<Rightarrow> task" where
  "SetDueDate dueDate now t = t\<lparr>t_due := Some dueDate, t_updated := now\<rparr>"

definition ClearDueDate :: "time \<Rightarrow> task \<Rightarrow> task" where
  "ClearDueDate now t = t\<lparr>t_due := None, t_updated := now\<rparr>"

definition Task_AddLabel :: "uuid \<Rightarrow> time \<Rightarrow> task \<Rightarrow> task" where
  "Task_AddLabel labelID now t =
     (if any_loop (\<lambda>i. i = labelID) (t_labels t) then t
      else t\<lparr>t_labels := t_labels t @ [labelID], t_updated := now\<rparr>)"

definition Task_RemoveLabel :: "uuid \<Rightarrow> time \<Rightarrow> task \<Rightarrow> task" where
  "Task_RemoveLabel labelID now t =
     (if any_loop (\<lambda>i. i = labelID) (t_labels t)
      then t\<lparr>t_labels := drop_first (\<lambda>i. i = labelID) (t_labels t), t_updated := now\<rparr>
      else t)"

definition IsOverdue :: "time \<Rightarrow> task \<Rightarrow> bool" where
  "IsOverdue now t =
     (case t_due t of
        None \<Rightarrow> False
      | Some due \<Rightarrow>
          if t_status t = TaskStatusDone \<or> t_status t = TaskStatusArchived then False
          else due < now)"

definition IsAssigned :: "task \<Rightarrow> bool" where
  "IsAssigned t = (t_assignee t \<noteq> None)"

definition CanBeModifiedBy :: "uuid \<Rightarrow> task \<Rightarrow> bool" where
  "CanBeModifiedBy userID t =
     (if t_creator t = userID then True
      else if t_assignee t \<noteq> None \<and> the (t_assignee t) = userID then True
      else False)"

section \<open>Attachments (task_attachment.go)\<close>

record attachment =
  at_id :: uuid
  at_task :: uuid
  at_filename :: string
  at_key :: string
  at_content_type :: string
  at_size :: int
  at_uploader :: uuid
  at_created :: time

definition NewTaskAttachment ::
  "uuid \<Rightarrow> string \<Rightarrow> string \<Rightarrow> string \<Rightarrow> int \<Rightarrow> uuid \<Rightarrow> uuid \<Rightarrow> time \<Rightarrow> attachment" where
  "NewTaskAttachment taskID filename s3Key contentType sizeBytes uploadedBy new_id now =
     \<lparr>at_id = new_id, at_task = taskID, at_filename = filename, at_key = s3Key,
      at_content_type = contentType, at_size = sizeBytes, at_uploader = uploadedBy,
      at_created = now\<rparr>"


section \<open>What the methods guarantee\<close>

interpretation task_labels:
  keyed_collection t_labels t_updated "\<lambda>i. i" Task_AddLabel Task_RemoveLabel
  by unfold_locales
    (auto simp: Task_AddLabel_def Task_RemoveLabel_def intro!: drop_first_absent [symmetric])

text \<open>
  The life cycle of a task: one rule per mutating method, with the outcome of the method.
\<close>

inductive task_step :: "task \<Rightarrow> task \<Rightarrow> bool" where
  complete: "Complete now t = Ok t' \<Longrightarrow> task_step t t'"
| archive: "Archive now t = Ok t' \<Longrightarrow> task_step t t'"
| assign: "Assign a now t = Ok t' \<Longrightarrow> task_step t t'"
| unassign: "task_step t (Unassign now t)"
| change_status: "ChangeStatus s now t = Ok t' \<Longrightarrow> task_step t t'"
| update_title: "UpdateTitle title now t = Ok t' \<Longrightarrow> task_step t t'"
| update_description: "task_step t (UpdateDescription d now t)"
| update_priority: "UpdatePriority p now t = Ok t' \<Longrightarrow> task_step t t'"
| set_due: "task_step t (SetDueDate d now t)"
| clear_due: "task_step t (ClearDueDate now t)"
| add_label: "task_step t (Task_AddLabel l now t)"
| remove_label: "task_step t (Task_RemoveLabel l now t)"

inductive task_reachable :: "task \<Rightarrow> bool" where
  created: "NewTask title description p creator new_id now = Ok t \<Longrightarrow> task_reachable t"
| stepped: "task_reachable t \<Longrightarrow> task_step t t' \<Longrightarrow> task_reachable t'"

lemmas task_method_defs = Complete_def Archive_def Assign_def Unassign_def ChangeStatus_def
  UpdateTitle_def UpdateDescription_def UpdatePriority_def SetDueDate_def ClearDueDate_def

definition task_wf :: "task \<Rightarrow> bool" where
  "task_wf t \<longleftrightarrow> t_title t \<noteq> [] \<and> TaskStatus_IsValid (t_status t) \<and> Priority_IsValid (t_priority t)
     \<and> distinct (t_labels t)"

lemma labels_kept_distinct:
  "distinct (t_labels t) \<Longrightarrow> distinct (t_labels (Task_AddLabel l now t))"
  "distinct (t_labels t) \<Longrightarrow> distinct (t_labels (Task_RemoveLabel l now t))"
  using task_labels.add_distinct [of t l now] task_labels.remove_distinct [of t l now] by simp_all

lemma label_frames [simp]:
  "t_status (Task_AddLabel l now t) = t_status t" "t_status (Task_RemoveLabel l now t) = t_status t"
  "t_title (Task_AddLabel l now t) = t_title t" "t_title (Task_RemoveLabel l now t) = t_title t"
  "t_priority (Task_AddLabel l now t) = t_priority t"
  "t_priority (Task_RemoveLabel l now t) = t_priority t"
  "t_id (Task_AddLabel l now t) = t_id t" "t_id (Task_RemoveLabel l now t) = t_id t"
  "t_creator (Task_AddLabel l now t) = t_creator t"
  "t_creator (Task_RemoveLabel l now t) = t_creator t"
  "t_assignee (Task_AddLabel l now t) = t_assignee t"
  "t_assignee (Task_RemoveLabel l now t) = t_assignee t"
  by (simp_all add: Task_AddLabel_def Task_RemoveLabel_def)

lemma NewTask_wf: "NewTask title description p creator new_id now = Ok t \<Longrightarrow> task_wf t"
  by (auto simp: NewTask_def task_wf_def split: if_splits)

lemma task_step_wf: "task_step t t' \<Longrightarrow> task_wf t \<Longrightarrow> task_wf t'"
  by (induction rule: task_step.induct)
    (auto simp: task_wf_def task_method_defs labels_kept_distinct split: if_splits)

lemma task_step_identity: "task_step t t' \<Longrightarrow> t_id t' = t_id t \<and> t_creator t' = t_creator t"
  by (induction rule: task_step.induct) (auto simp: task_method_defs split: if_splits)

lemma task_step_archived:
  "task_step t t' \<Longrightarrow> t_status t = TaskStatusArchived \<Longrightarrow>
     t_status t' = TaskStatusArchived \<and> (t_assignee t' = t_assignee t \<or> t_assignee t' = None)"
  by (induction rule: task_step.induct) (auto simp: task_method_defs split: if_splits)

lemma task_step_done:
  "task_step t t' \<Longrightarrow> t_status t = TaskStatusDone \<Longrightarrow>
     t_status t' = TaskStatusDone \<or> t_status t' = TaskStatusArchived"
  by (induction rule: task_step.induct) (auto simp: task_method_defs split: if_splits)

text \<open>
  C21. Every task that the constructor and the methods can produce has a title, a valid
  status, a valid priority and no label twice.
\<close>

theorem task_reachable_wf:
  assumes "task_reachable t"
  shows "task_wf t"
  using assms by induction (auto intro: NewTask_wf task_step_wf)

definition example_task :: task where
  "example_task = \<lparr>t_id = 5, t_title = ''write'', t_description = [], t_status = TaskStatusTodo,
     t_priority = PriorityLow, t_due = None, t_assignee = None, t_creator = 1, t_labels = [],
     t_created = 3, t_updated = 3\<rparr>"

lemma example_task_new: "NewTask ''write'' [] PriorityLow 1 5 3 = Ok example_task"
  by (simp add: NewTask_def example_task_def Priority_IsValid_iff AllPriorities_def)

theorem task_reachable_wf_witness: "task_reachable example_task \<and> task_wf example_task"
  using task_reachable.created [OF example_task_new]
    task_reachable_wf [OF task_reachable.created [OF example_task_new]] by blast

text \<open>
  An archived task is final: whatever methods run on it, in whatever order, it stays
  archived, and its assignee can only be cleared.
\<close>

theorem archived_is_final:
  assumes "task_step\<^sup>*\<^sup>* t t'" and "t_status t = TaskStatusArchived"
  shows "t_status t' = TaskStatusArchived \<and> (t_assignee t' = t_assignee t \<or> t_assignee t' = None)"
  using assms by (induction rule: rtranclp_induct) (auto dest: task_step_archived)

theorem archived_is_final_witness:
  "t_status (Task_AddLabel 9 4 (example_task\<lparr>t_status := TaskStatusArchived\<rparr>)) = TaskStatusArchived"
  using archived_is_final [OF r_into_rtranclp [of task_step, OF
      task_step.add_label [of "example_task\<lparr>t_status := TaskStatusArchived\<rparr>" 9 4]]]
  by simp

text \<open>
  The transitions that ChangeStatus performs are those that CanTransitionTo allows and,
  besides them, archiving a task that is not done: the status method reaches ARCHIVED from
  TODO, IN_PROGRESS and IN_REVIEW, which CanTransitionTo and Archive both refuse.
\<close>

theorem ChangeStatus_transitions:
  "(\<exists>t'. ChangeStatus s now t = Ok t') \<longleftrightarrow>
     TaskStatus_IsValid s \<and>
     (CanTransitionTo (t_status t) s
      \<or> (s = TaskStatusArchived \<and> \<not> TaskStatus_IsTerminal (t_status t)))"
  by (auto simp: ChangeStatus_def CanTransitionTo_def TaskStatus_IsTerminal_def split: if_splits)

text \<open>
  Adding a label twice is adding it once, and removing a label just added to a task
  without it restores the labels.
\<close>

theorem label_add_remove:
  "Task_AddLabel l now' (Task_AddLabel l now t) = Task_AddLabel l now t
   \<and> (l \<in> set (t_labels t) \<or> t_labels (Task_RemoveLabel l now' (Task_AddLabel l now t)) = t_labels t)"
  using task_labels.add_idem task_labels.remove_add [of l t now' now] by auto

end
