(* ===== verification/Ports.thy ===== *)
theory Ports
  imports Access Tasks
begin

text \<open>
  The value types of the output ports (\<open>internal/application/port/output\<close>) and the transfer
  objects (\<open>internal/application/dto\<close>) with their conversions.  The filter and the
  pagination structs exist twice in the code, with the same fields, once for each layer; the
  model has one record for both, copied by \<open>to_output_pagination\<close> where the code copies.
  The fields \<open>Assignee\<close> and \<open>Creator\<close> of \<open>TaskOutput\<close> are never set by any code and are
  left out.
\<close>

section \<open>Cache keys and file keys\<close>

definition KB_Task :: "string \<Rightarrow> string \<Rightarrow> string" where
  "KB_Task pre i = pre @ '':task:'' @ i"
definition KB_User :: "string \<Rightarrow> string \<Rightarrow> string" where
  "KB_User pre i = pre @ '':user:'' @ i"
definition KB_UserByEmail :: "string \<Rightarrow> string \<Rightarrow> string" where
  "KB_UserByEmail pre email = pre @ '':user:email:'' @ email"
definition KB_TaskList :: "string \<Rightarrow> string \<Rightarrow> string" where
  "KB_TaskList pre filterHash = pre @ '':tasks:list:'' @ filterHash"
definition KB_Session :: "string \<Rightarrow> string \<Rightarrow> string" where
  "KB_Session pre sessionID = pre @ '':session:'' @ sessionID"
definition KB_TokenBlacklist :: "string \<Rightarrow> string \<Rightarrow> string" where
  "KB_TokenBlacklist pre tokenID = pre @ '':token:blacklist:'' @ tokenID"
definition KB_UserSessions :: "string \<Rightarrow> string \<Rightarrow> string" where
  "KB_UserSessions pre userID = pre @ '':session:'' @ userID @ '':*''"
definition KB_UserSession :: "string \<Rightarrow> string \<Rightarrow> string \<Rightarrow> string" where
  "KB_UserSession pre userID tokenID = pre @ '':session:'' @ userID @ '':'' @ tokenID"
definition KB_UserList :: "string \<Rightarrow> string \<Rightarrow> string" where
  "KB_UserList pre filterHash = pre @ '':users:list:'' @ filterHash"

definition FK_TaskAttachment :: "string \<Rightarrow> string \<Rightarrow> string \<Rightarrow> string" where
  "FK_TaskAttachment pre taskID filename = pre @ ''/tasks/'' @ taskID @ ''/attachments/'' @ filename"
definition FK_UserAvatar :: "string \<Rightarrow> string \<Rightarrow> string \<Rightarrow> string" where
  "FK_UserAvatar pre userID filename = pre @ ''/users/'' @ userID @ ''/avatar/'' @ filename"

lemmas key_defs = KB_Task_def KB_User_def KB_UserByEmail_def KB_TaskList_def KB_Session_def
  KB_TokenBlacklist_def KB_UserSessions_def KB_UserSession_def KB_UserList_def

text \<open>Keys of different families never meet, and no list pattern covers a key of another family.\<close>

lemma key_families [simp]:
  "KB_Task p i \<noteq> KB_User p j" "KB_User p j \<noteq> KB_Task p i"
  "KB_Task p i \<noteq> KB_TaskList p h" "KB_TaskList p h \<noteq> KB_Task p i"
  "KB_UserSession p u t \<noteq> KB_TokenBlacklist p t'" "KB_TokenBlacklist p t' \<noteq> KB_UserSession p u t"
  "KB_UserSession p u t \<noteq> KB_User p j" "KB_User p j \<noteq> KB_UserSession p u t"
  "KB_UserSession p u t \<noteq> KB_UserByEmail p e" "KB_UserByEmail p e \<noteq> KB_UserSession p u t"
  "KB_TokenBlacklist p t \<noteq> KB_User p j" "KB_User p j \<noteq> KB_TokenBlacklist p t"
  by (simp_all add: key_defs)

lemma key_inject [simp]:
  "KB_Task p i = KB_Task p j \<longleftrightarrow> i = j" "KB_User p i = KB_User p j \<longleftrightarrow> i = j"
  "KB_TokenBlacklist p i = KB_TokenBlacklist p j \<longleftrightarrow> i = j"
  "KB_UserByEmail p i = KB_UserByEmail p j \<longleftrightarrow> i = j"
  by (simp_all add: key_defs)

lemma list_pattern_other [simp]:
  "\<not> prefix (KB_TaskList p []) (KB_Task p i)" "\<not> prefix (KB_TaskList p []) (KB_User p i)"
  "\<not> prefix (KB_UserList p []) (KB_User p i)" "\<not> prefix (KB_UserList p []) (KB_UserByEmail p e)"
  "\<not> prefix (KB_UserList p []) (KB_UserSession p u t)"
  "\<not> prefix (KB_UserList p []) (KB_TokenBlacklist p t)"
  "\<not> prefix (KB_TaskList p []) (KB_UserSession p u t)"
  "prefix (KB_TaskList p []) (KB_TaskList p h)" "prefix (KB_UserList p []) (KB_UserList p h)"
  by (simp_all add: key_defs prefix_def)

text \<open>
  User ids print without a colon, so the pattern of one user's sessions covers the sessions of
  that user only, and two session keys agree only in user and token.
\<close>

lemma session_key_inject:
  assumes "CHR '':'' \<notin> set u" "CHR '':'' \<notin> set u'"
  shows "KB_UserSession p u t = KB_UserSession p u' t' \<longleftrightarrow> u = u' \<and> t = t'"
  using assms append_sep_inj [of u "CHR '':''" t u' t'] by (auto simp: KB_UserSession_def)

definition session_prefix :: "string \<Rightarrow> string \<Rightarrow> string" where
  "session_prefix p u = p @ '':session:'' @ u @ '':''"

lemma UserSessions_pattern: "KB_UserSessions p u = session_prefix p u @ ''*''"
  by (simp add: KB_UserSessions_def session_prefix_def)

lemma session_prefix_covers:
  assumes "CHR '':'' \<notin> set u" "CHR '':'' \<notin> set u'"
  shows "prefix (session_prefix p u) (KB_UserSession p u' t) \<longleftrightarrow> u = u'"
proof
  assume "prefix (session_prefix p u) (KB_UserSession p u' t)"
  then obtain z where "u @ CHR '':'' # z = u' @ CHR '':'' # t"
    by (auto simp: session_prefix_def KB_UserSession_def prefix_def)
  then show "u = u'" using append_sep_inj [OF _ assms] by blast
qed (auto simp: session_prefix_def KB_UserSession_def prefix_def)

lemma session_prefix_other [simp]:
  "\<not> prefix (session_prefix p u) (KB_TokenBlacklist p t)"
  "\<not> prefix (session_prefix p u) (KB_User p i)" "\<not> prefix (session_prefix p u) (KB_Task p i)"
  by (simp_all add: session_prefix_def key_defs prefix_def)

section \<open>Filters, pagination, and results of list queries\<close>

record task_filter =
  tf_status :: "task_status option"
  tf_priority :: "priority option"
  tf_assignee :: "uuid option"
  tf_creator :: "uuid option"
  tf_labels :: "uuid list"
  tf_search :: string
  tf_overdue :: "bool option"

record user_filter =
  uf_search :: string
  uf_role :: "uuid option"

record pagination =
  pg_page :: int
  pg_size :: int
  pg_sort_by :: string
  pg_sort_desc :: bool

record paginated_result =
  pr_total :: int
  pr_page :: int
  pr_size :: int
  pr_total_pages :: int

definition DefaultPagination :: pagination where
  "DefaultPagination =
     \<lparr>pg_page = 1, pg_size = 20, pg_sort_by = ''createdAt'', pg_sort_desc = True\<rparr>"

definition ToOutputFilter :: "task_filter \<Rightarrow> task_filter" where
  "ToOutputFilter f =
     \<lparr>tf_status = (case tf_status f of None \<Rightarrow> None | Some s \<Rightarrow> Some s),
      tf_priority = (case tf_priority f of None \<Rightarrow> None | Some p \<Rightarrow> Some p),
      tf_assignee = tf_assignee f, tf_creator = tf_creator f, tf_labels = tf_labels f,
      tf_search = tf_search f, tf_overdue = tf_overdue f\<rparr>"

definition to_output_pagination :: "pagination \<Rightarrow> pagination" where
  "to_output_pagination p =
     \<lparr>pg_page = pg_page p, pg_size = pg_size p, pg_sort_by = pg_sort_by p,
      pg_sort_desc = pg_sort_desc p\<rparr>"

lemma output_copies [simp]: "ToOutputFilter f = f" "to_output_pagination p = p"
  by (auto simp: ToOutputFilter_def to_output_pagination_def split: option.splits)

section \<open>Inputs\<close>

record create_task_input =
  cti_title :: string
  cti_description :: string
  cti_priority :: string
  cti_due :: "time option"
  cti_assignee :: "uuid option"
  cti_labels :: "uuid list"

record update_task_input =
  uti_title :: "string option"
  uti_description :: "string option"
  uti_priority :: "string option"
  uti_due :: "time option"
  uti_clear_due :: bool

record create_user_input =
  cui_email :: string
  cui_password :: string
  cui_name :: string

record update_user_input =
  uui_email :: "string option"
  uui_name :: "string option"

record login_input =
  li_email :: string
  li_password :: string

record change_password_input =
  cpi_old :: string
  cpi_new :: string

record create_label_input =
  cli_name :: string
  cli_color :: string

record update_label_input =
  uli_name :: "string option"
  uli_color :: "string option"

section \<open>Outputs\<close>

record label_output =
  lo_id :: uuid
  lo_name :: string
  lo_color :: string
  lo_created :: time
  lo_updated :: time

definition LabelFromEntity :: "label \<Rightarrow> label_output" where
  "LabelFromEntity l =
     \<lparr>lo_id = l_id l, lo_name = l_name l, lo_color = l_color l, lo_created = l_created l,
      lo_updated = l_updated l\<rparr>"

record task_output =
  to_id :: uuid
  to_title :: string
  to_description :: string
  to_status :: string
  to_priority :: string
  to_due :: "time option"
  to_assignee :: "uuid option"
  to_creator :: uuid
  to_labels :: "label_output list"
  to_overdue :: bool
  to_created :: time
  to_updated :: time

definition TaskFromEntity :: "time \<Rightarrow> task \<Rightarrow> task_output" where
  "TaskFromEntity now t =
     \<lparr>to_id = t_id t, to_title = t_title t, to_description = t_description t,
      to_status = t_status t, to_priority = t_priority t, to_due = t_due t,
      to_assignee = t_assignee t, to_creator = t_creator t, to_labels = [],
      to_overdue = IsOverdue now t, to_created = t_created t, to_updated = t_updated t\<rparr>"

record task_list_output =
  tl_tasks :: "task_output list"
  tl_total :: int
  tl_page :: int
  tl_size :: int
  tl_total_pages :: int

record attachment_output =
  ao_id :: uuid
  ao_task :: uuid
  ao_filename :: string
  ao_content_type :: string
  ao_size :: int
  ao_uploader :: uuid
  ao_created :: time

record permission_output =
  po_id :: uuid
  po_name :: string
  po_resource :: string
  po_action :: string
  po_created :: time

definition PermissionFromEntity :: "permission \<Rightarrow> permission_output" where
  "PermissionFromEntity p =
     \<lparr>po_id = p_id p, po_name = p_name p, po_resource = p_resource p, po_action = p_action p,
      po_created = p_created p\<rparr>"

record role_output =
  ro_id :: uuid
  ro_name :: string
  ro_description :: string
  ro_permissions :: "permission_output list"
  ro_created :: time
  ro_updated :: time

definition RoleFromEntity :: "role \<Rightarrow> role_output" where
  "RoleFromEntity r =
     \<lparr>ro_id = r_id r, ro_name = r_name r, ro_description = r_description r,
      ro_permissions = map PermissionFromEntity (r_permissions r),
      ro_created = r_created r, ro_updated = r_updated r\<rparr>"

record user_output =
  uo_id :: uuid
  uo_email :: string
  uo_name :: string
  uo_roles :: "role_output list"
  uo_created :: time
  uo_updated :: time

definition UserFromEntity :: "user \<Rightarrow> user_output" where
  "UserFromEntity u =
     \<lparr>uo_id = u_id u, uo_email = u_email u, uo_name = u_name u,
      uo_roles = map RoleFromEntity (u_roles u), uo_created = u_created u,
      uo_updated = u_updated u\<rparr>"

record user_list_output =
  ul_users :: "user_output list"
  ul_total :: int
  ul_page :: int
  ul_size :: int
  ul_total_pages :: int

record token_claims =
  tc_user :: uuid
  tc_email :: string
  tc_roles :: "string list"
  tc_role_ids :: "uuid list"
  tc_permissions :: "string list"
  tc_token_id :: string
  tc_expires :: time

record auth_output =
  au_access :: string
  au_refresh :: string
  au_expires :: time
  au_user :: "user_output option"

text \<open>The JSON object \<open>map[string]any\<close> that a login stores for its session.\<close>

record session_data =
  sd_user :: string
  sd_access :: string
  sd_refresh :: string
  sd_created :: time
  sd_expires :: time

end
