(* ===== verification/Database.thy ===== *)
theory Database
  imports Ports
begin

text \<open>
  The relational store.  The tables are those of \<open>migrations/\<close>; one definition per generated
  query method of \<open>internal/infrastructure/database/sqlc\<close> gives the meaning of the SQL text
  that the method sends: which rows it reads, what it writes, the unique and foreign key
  checks, the \<open>ON CONFLICT\<close> and \<open>ON DELETE\<close> clauses and the \<open>updated_at\<close> triggers of the
  schema.  A statement is atomic: it returns rows or an error, and an error leaves the tables
  unchanged.  A table is the list of its rows; where a query has no \<open>ORDER BY\<close> the list order
  stands for the order the server picks.  Timestamps have microsecond precision.
  Nullable columns are options.
\<close>

record user_row =
  ur_id :: uuid
  ur_email :: string
  ur_password_hash :: string
  ur_name :: string
  ur_created :: time
  ur_updated :: time

record role_row =
  rr_id :: uuid
  rr_name :: string
  rr_description :: "string option"
  rr_created :: time
  rr_updated :: time

record task_row =
  tr_id :: uuid
  tr_title :: string
  tr_description :: "string option"
  tr_status :: string
  tr_priority :: string
  tr_due :: "time option"
  tr_assignee :: "uuid option"
  tr_creator :: uuid
  tr_created :: time
  tr_updated :: time

record attachment_row =
  ar_id :: uuid
  ar_task :: uuid
  ar_filename :: string
  ar_key :: string
  ar_content_type :: "string option"
  ar_size :: "int option"
  ar_uploader :: "uuid option"
  ar_created :: time

record db =
  db_users :: "user_row list"
  db_roles :: "role_row list"
  db_permissions :: "permission list"
  db_user_roles :: "(uuid \<times> uuid) list"
  db_role_permissions :: "(uuid \<times> uuid) list"
  db_labels :: "label list"
  db_tasks :: "task_row list"
  db_task_labels :: "(uuid \<times> uuid) list"
  db_acl :: "acl_entry list"
  db_attachments :: "attachment_row list"

definition empty_db :: db where
  "empty_db = \<lparr>db_users = [], db_roles = [], db_permissions = [], db_user_roles = [],
     db_role_permissions = [], db_labels = [], db_tasks = [], db_task_labels = [], db_acl = [],
     db_attachments = []\<rparr>"

type_synonym 'a sql = "time \<Rightarrow> db \<Rightarrow> 'a result \<times> db"

definition pg_timestamptz :: "time \<Rightarrow> time" where
  "pg_timestamptz t = t - t mod 1000"

definition pgx_ErrNoRows :: go_error where
  "pgx_ErrNoRows = Sentinel ''pgx'' ''ErrNoRows''"
definition pg_unique_violation :: go_error where
  "pg_unique_violation = External ''23505''"
definition pg_foreign_key_violation :: go_error where
  "pg_foreign_key_violation = External ''23503''"
definition pg_invalid_row_count :: go_error where
  "pg_invalid_row_count = External ''2201X''"

lemmas pg_errors = pgx_ErrNoRows_def pg_unique_violation_def pg_foreign_key_violation_def
  pg_invalid_row_count_def

definition q_read :: "(db \<Rightarrow> 'a) \<Rightarrow> 'a sql" where
  "q_read f now d = (Ok (f d), d)"

definition q_one :: "(db \<Rightarrow> 'a option) \<Rightarrow> 'a sql" where
  "q_one f now d = (case f d of None \<Rightarrow> (Err pgx_ErrNoRows, d) | Some r \<Rightarrow> (Ok r, d))"

definition user_ids :: "db \<Rightarrow> uuid set" where "user_ids d = ur_id ` set (db_users d)"
definition role_ids :: "db \<Rightarrow> uuid set" where "role_ids d = rr_id ` set (db_roles d)"
definition permission_ids :: "db \<Rightarrow> uuid set" where "permission_ids d = p_id ` set (db_permissions d)"
definition label_ids :: "db \<Rightarrow> uuid set" where "label_ids d = l_id ` set (db_labels d)"
definition task_ids :: "db \<Rightarrow> uuid set" where "task_ids d = tr_id ` set (db_tasks d)"

lemmas id_sets = user_ids_def role_ids_def permission_ids_def label_ids_def task_ids_def

text \<open>\<open>ORDER BY created_at DESC LIMIT l OFFSET o\<close>\<close>

definition page_desc :: "('r \<Rightarrow> time) \<Rightarrow> int \<Rightarrow> int \<Rightarrow> 'r list \<Rightarrow> 'r list result" where
  "page_desc created lim off rows =
     (if lim < 0 \<or> off < 0 then Err pg_invalid_row_count
      else Ok (take (nat lim) (drop (nat off) (sort_key (\<lambda>r. - created r) rows))))"

section \<open>Users (users.sql.go)\<close>

definition q_CreateUser :: "user_row \<Rightarrow> user_row sql" where
  "q_CreateUser arg now d =
     (let row = arg\<lparr>ur_created := pg_timestamptz (ur_created arg),
                    ur_updated := pg_timestamptz (ur_updated arg)\<rparr>
      in if ur_id arg \<in> user_ids d \<or> ur_email arg \<in> ur_email ` set (db_users d)
         then (Err pg_unique_violation, d)
         else (Ok row, d\<lparr>db_users := db_users d @ [row]\<rparr>))"

definition q_GetUser :: "uuid \<Rightarrow> user_row sql" where
  "q_GetUser i = q_one (\<lambda>d. find (\<lambda>r. ur_id r = i) (db_users d))"

definition q_GetUserByEmail :: "string \<Rightarrow> user_row sql" where
  "q_GetUserByEmail email = q_one (\<lambda>d. find (\<lambda>r. ur_email r = email) (db_users d))"

definition q_ListUsers :: "int \<Rightarrow> int \<Rightarrow> user_row list sql" where
  "q_ListUsers lim off now d = (page_desc ur_created lim off (db_users d), d)"

text \<open>
  \<open>ILIKE\<close> with the search text between two percent signs, case folding and wildcards by the
  server: \<open>ilike text pattern\<close>.
\<close>

definition q_SearchUsers ::
  "(string \<Rightarrow> string \<Rightarrow> bool) \<Rightarrow> string \<Rightarrow> int \<Rightarrow> int \<Rightarrow> user_row list sql" where
  "q_SearchUsers ilike query lim off now d =
     (page_desc ur_created lim off
        (filter (\<lambda>r. ilike (ur_name r) (''%'' @ query @ ''%'')
                   \<or> ilike (ur_email r) (''%'' @ query @ ''%'')) (db_users d)), d)"

definition q_UpdateUser :: "uuid \<Rightarrow> string \<Rightarrow> string \<Rightarrow> string \<Rightarrow> user_row sql" where
  "q_UpdateUser i email name password_hash now d =
     (case find (\<lambda>r. ur_id r = i) (db_users d) of
        None \<Rightarrow> (Err pgx_ErrNoRows, d)
      | Some old \<Rightarrow>
          let row = old\<lparr>ur_email := email, ur_name := name, ur_password_hash := password_hash,
                        ur_updated := pg_timestamptz now\<rparr>
          in if \<exists>r\<in>set (db_users d). ur_id r \<noteq> i \<and> ur_email r = email
             then (Err pg_unique_violation, d)
             else (Ok row, d\<lparr>db_users := map (\<lambda>r. if ur_id r = i then row else r) (db_users d)\<rparr>))"

definition delete_tasks :: "(task_row \<Rightarrow> bool) \<Rightarrow> db \<Rightarrow> db" where
  "delete_tasks P d =
     (let gone = tr_id ` set (filter P (db_tasks d))
      in d\<lparr>db_tasks := filter (\<lambda>r. \<not> P r) (db_tasks d),
           db_task_labels := filter (\<lambda>(t, l). t \<notin> gone) (db_task_labels d),
           db_attachments := filter (\<lambda>a. ar_task a \<notin> gone) (db_attachments d)\<rparr>)"

text \<open>
  Deleting a user: the role assignments and the tasks created by the user go with it, the
  tasks assigned to it lose their assignee (an update, which sets \<open>updated_at\<close>), and the
  attachments it uploaded lose their uploader.
\<close>

definition q_DeleteUser :: "uuid \<Rightarrow> unit sql" where
  "q_DeleteUser i now d =
     (if i \<notin> user_ids d then (Ok (), d)
      else
        let d1 = delete_tasks (\<lambda>r. tr_creator r = i) d;
            d2 = d1\<lparr>db_users := filter (\<lambda>r. ur_id r \<noteq> i) (db_users d1),
                    db_user_roles := filter (\<lambda>(u, r). u \<noteq> i) (db_user_roles d1),
                    db_tasks := map (\<lambda>r. if tr_assignee r = Some i
                                         then r\<lparr>tr_assignee := None, tr_updated := pg_timestamptz now\<rparr>
                                         else r) (db_tasks d1),
                    db_attachments := map (\<lambda>a. if ar_uploader a = Some i
                                               then a\<lparr>ar_uploader := None\<rparr> else a)
                                        (db_attachments d1)\<rparr>
        in (Ok (), d2))"

definition q_UserExists :: "uuid \<Rightarrow> bool sql" where
  "q_UserExists i = q_read (\<lambda>d. i \<in> user_ids d)"

definition q_UserExistsByEmail :: "string \<Rightarrow> bool sql" where
  "q_UserExistsByEmail email = q_read (\<lambda>d. email \<in> ur_email ` set (db_users d))"

definition q_CountUsers :: "int sql" where
  "q_CountUsers = q_read (\<lambda>d. int (length (db_users d)))"

section \<open>Roles and permissions (roles.sql.go)\<close>

definition q_CreateRole :: "role_row \<Rightarrow> role_row sql" where
  "q_CreateRole arg now d =
     (let row = arg\<lparr>rr_created := pg_timestamptz (rr_created arg),
                    rr_updated := pg_timestamptz (rr_updated arg)\<rparr>
      in if rr_id arg \<in> role_ids d \<or> rr_name arg \<in> rr_name ` set (db_roles d)
         then (Err pg_unique_violation, d)
         else (Ok row, d\<lparr>db_roles := db_roles d @ [row]\<rparr>))"

text \<open>
  \<open>ON CONFLICT (name) DO UPDATE\<close>: a row of the same name is updated and keeps its id; the
  trigger then overwrites \<open>updated_at\<close>.  A conflict on the id alone is still an error.
\<close>

definition q_UpsertRole :: "role_row \<Rightarrow> role_row sql" where
  "q_UpsertRole arg now d =
     (case find (\<lambda>r. rr_name r = rr_name arg) (db_roles d) of
        Some old \<Rightarrow>
          let row = old\<lparr>rr_description := rr_description arg, rr_updated := pg_timestamptz now\<rparr>
          in (Ok row, d\<lparr>db_roles := map (\<lambda>r. if rr_name r = rr_name arg then row else r) (db_roles d)\<rparr>)
      | None \<Rightarrow> q_CreateRole arg now d)"

definition q_GetRole :: "uuid \<Rightarrow> role_row sql" where
  "q_GetRole i = q_one (\<lambda>d. find (\<lambda>r. rr_id r = i) (db_roles d))"

definition q_GetRoleByName :: "string \<Rightarrow> role_row sql" where
  "q_GetRoleByName name = q_one (\<lambda>d. find (\<lambda>r. rr_name r = name) (db_roles d))"

text \<open>\<open>ORDER BY name\<close> sorts by the collation key of the server.\<close>

definition q_ListRoles :: "(string \<Rightarrow> nat) \<Rightarrow> role_row list sql" where
  "q_ListRoles collate = q_read (\<lambda>d. sort_key (\<lambda>r. collate (rr_name r)) (db_roles d))"

definition q_UpdateRole :: "uuid \<Rightarrow> string \<Rightarrow> string option \<Rightarrow> role_row sql" where
  "q_UpdateRole i name description now d =
     (case find (\<lambda>r. rr_id r = i) (db_roles d) of
        None \<Rightarrow> (Err pgx_ErrNoRows, d)
      | Some old \<Rightarrow>
          let row = old\<lparr>rr_name := name,
                        rr_description := (case description of None \<Rightarrow> rr_description old | x \<Rightarrow> x),
                        rr_updated := pg_timestamptz now\<rparr>
          in if \<exists>r\<in>set (db_roles d). rr_id r \<noteq> i \<and> rr_name r = name
             then (Err pg_unique_violation, d)
             else (Ok row, d\<lparr>db_roles := map (\<lambda>r. if rr_id r = i then row else r) (db_roles d)\<rparr>))"

definition delete_roles :: "(role_row \<Rightarrow> bool) \<Rightarrow> db \<Rightarrow> db" where
  "delete_roles P d =
     (let gone = rr_id ` set (filter P (db_roles d))
      in d\<lparr>db_roles := filter (\<lambda>r. \<not> P r) (db_roles d),
           db_user_roles := filter (\<lambda>(u, r). r \<notin> gone) (db_user_roles d),
           db_role_permissions := filter (\<lambda>(r, p). r \<notin> gone) (db_role_permissions d)\<rparr>)"

definition q_DeleteRole :: "uuid \<Rightarrow> unit sql" where
  "q_DeleteRole i now d = (Ok (), delete_roles (\<lambda>r. rr_id r = i) d)"
definition q_DeleteRoleByName :: "string \<Rightarrow> unit sql" where
  "q_DeleteRoleByName name now d = (Ok (), delete_roles (\<lambda>r. rr_name r = name) d)"
definition q_DeleteRolesByNames :: "string list \<Rightarrow> unit sql" where
  "q_DeleteRolesByNames names now d = (Ok (), delete_roles (\<lambda>r. rr_name r \<in> set names) d)"
definition q_RoleExists :: "uuid \<Rightarrow> bool sql" where
  "q_RoleExists i = q_read (\<lambda>d. i \<in> role_ids d)"
definition q_RoleExistsByName :: "string \<Rightarrow> bool sql" where
  "q_RoleExistsByName name = q_read (\<lambda>d. name \<in> rr_name ` set (db_roles d))"

definition q_CreatePermission :: "permission \<Rightarrow> permission sql" where
  "q_CreatePermission arg now d =
     (let row = arg\<lparr>p_created := pg_timestamptz (p_created arg)\<rparr>
      in if p_id arg \<in> permission_ids d \<or> p_name arg \<in> p_name ` set (db_permissions d)
         then (Err pg_unique_violation, d)
         else (Ok row, d\<lparr>db_permissions := db_permissions d @ [row]\<rparr>))"

definition q_UpsertPermission :: "permission \<Rightarrow> permission sql" where
  "q_UpsertPermission arg now d =
     (case find (\<lambda>p. p_name p = p_name arg) (db_permissions d) of
        Some old \<Rightarrow>
          let row = old\<lparr>p_resource := p_resource arg, p_action := p_action arg\<rparr>
          in (Ok row, d\<lparr>db_permissions :=
                 map (\<lambda>p. if p_name p = p_name arg then row else p) (db_permissions d)\<rparr>)
      | None \<Rightarrow> q_CreatePermission arg now d)"

definition q_GetPermission :: "uuid \<Rightarrow> permission sql" where
  "q_GetPermission i = q_one (\<lambda>d. find (\<lambda>p. p_id p = i) (db_permissions d))"
definition q_GetPermissionByName :: "string \<Rightarrow> permission sql" where
  "q_GetPermissionByName name = q_one (\<lambda>d. find (\<lambda>p. p_name p = name) (db_permissions d))"
definition q_ListPermissions :: "(string \<Rightarrow> nat) \<Rightarrow> permission list sql" where
  "q_ListPermissions collate = q_read (\<lambda>d.
     sort_key (\<lambda>p. collate (p_resource p)) (sort_key (\<lambda>p. collate (p_action p)) (db_permissions d)))"
definition q_DeletePermission :: "uuid \<Rightarrow> unit sql" where
  "q_DeletePermission i now d =
     (Ok (), d\<lparr>db_permissions := filter (\<lambda>p. p_id p \<noteq> i) (db_permissions d),
               db_role_permissions := filter (\<lambda>(r, p). p \<noteq> i) (db_role_permissions d)\<rparr>)"
definition q_PermissionExists :: "uuid \<Rightarrow> bool sql" where
  "q_PermissionExists i = q_read (\<lambda>d. i \<in> permission_ids d)"

text \<open>\<open>ON CONFLICT DO NOTHING\<close> on the pair; the foreign keys are still checked.\<close>

definition q_AssignRoleToUser :: "uuid \<Rightarrow> uuid \<Rightarrow> unit sql" where
  "q_AssignRoleToUser u r now d =
     (if (u, r) \<in> set (db_user_roles d) then (Ok (), d)
      else if u \<notin> user_ids d \<or> r \<notin> role_ids d then (Err pg_foreign_key_violation, d)
      else (Ok (), d\<lparr>db_user_roles := db_user_roles d @ [(u, r)]\<rparr>))"

definition q_RemoveRoleFromUser :: "uuid \<Rightarrow> uuid \<Rightarrow> unit sql" where
  "q_RemoveRoleFromUser u r now d =
     (Ok (), d\<lparr>db_user_roles := filter (\<lambda>x. x \<noteq> (u, r)) (db_user_roles d)\<rparr>)"

definition q_GetUserRoles :: "uuid \<Rightarrow> role_row list sql" where
  "q_GetUserRoles u = q_read (\<lambda>d. filter (\<lambda>r. (u, rr_id r) \<in> set (db_user_roles d)) (db_roles d))"

definition q_AddPermissionToRole :: "uuid \<Rightarrow> uuid \<Rightarrow> unit sql" where
  "q_AddPermissionToRole r p now d =
     (if (r, p) \<in> set (db_role_permissions d) then (Ok (), d)
      else if r \<notin> role_ids d \<or> p \<notin> permission_ids d then (Err pg_foreign_key_violation, d)
      else (Ok (), d\<lparr>db_role_permissions := db_role_permissions d @ [(r, p)]\<rparr>))"

definition q_RemovePermissionFromRole :: "uuid \<Rightarrow> uuid \<Rightarrow> unit sql" where
  "q_RemovePermissionFromRole r p now d =
     (Ok (), d\<lparr>db_role_permissions := filter (\<lambda>x. x \<noteq> (r, p)) (db_role_permissions d)\<rparr>)"

definition q_RemoveAllPermissionsFromRole :: "uuid \<Rightarrow> unit sql" where
  "q_RemoveAllPermissionsFromRole r now d =
     (Ok (), d\<lparr>db_role_permissions := filter (\<lambda>x. fst x \<noteq> r) (db_role_permissions d)\<rparr>)"

definition q_GetRolePermissions :: "uuid \<Rightarrow> permission list sql" where
  "q_GetRolePermissions r = q_read (\<lambda>d.
     filter (\<lambda>p. (r, p_id p) \<in> set (db_role_permissions d)) (db_permissions d))"

definition q_GetPermissionsByRoleIDs :: "uuid list \<Rightarrow> (uuid \<times> permission) list sql" where
  "q_GetPermissionsByRoleIDs rs = q_read (\<lambda>d.
     [(r, p). p \<leftarrow> db_permissions d, (r, i) \<leftarrow> db_role_permissions d, i = p_id p \<and> r \<in> set rs])"

section \<open>Labels (labels.sql.go)\<close>

text \<open>\<open>low\<close> is the server's \<open>lower\<close> function; the names are unique under it.\<close>

definition q_CreateLabel :: "(string \<Rightarrow> string) \<Rightarrow> label \<Rightarrow> label sql" where
  "q_CreateLabel low arg now d =
     (let row = arg\<lparr>l_created := pg_timestamptz (l_created arg),
                    l_updated := pg_timestamptz (l_updated arg)\<rparr>
      in if l_id arg \<in> label_ids d \<or> low (l_name arg) \<in> (low \<circ> l_name) ` set (db_labels d)
         then (Err pg_unique_violation, d)
         else (Ok row, d\<lparr>db_labels := db_labels d @ [row]\<rparr>))"

definition q_GetLabel :: "uuid \<Rightarrow> label sql" where
  "q_GetLabel i = q_one (\<lambda>d. find (\<lambda>l. l_id l = i) (db_labels d))"

definition q_GetLabelByName :: "(string \<Rightarrow> string) \<Rightarrow> string \<Rightarrow> label sql" where
  "q_GetLabelByName low name = q_one (\<lambda>d. find (\<lambda>l. low (l_name l) = low name) (db_labels d))"

definition q_ListLabels :: "(string \<Rightarrow> nat) \<Rightarrow> label list sql" where
  "q_ListLabels collate = q_read (\<lambda>d. sort_key (\<lambda>l. collate (l_name l)) (db_labels d))"

definition q_UpdateLabel :: "(string \<Rightarrow> string) \<Rightarrow> uuid \<Rightarrow> string \<Rightarrow> string \<Rightarrow> label sql" where
  "q_UpdateLabel low i name color now d =
     (case find (\<lambda>l. l_id l = i) (db_labels d) of
        None \<Rightarrow> (Err pgx_ErrNoRows, d)
      | Some old \<Rightarrow>
          let row = old\<lparr>l_name := name, l_color := color, l_updated := pg_timestamptz now\<rparr>
          in if \<exists>l\<in>set (db_labels d). l_id l \<noteq> i \<and> low (l_name l) = low name
             then (Err pg_unique_violation, d)
             else (Ok row, d\<lparr>db_labels := map (\<lambda>l. if l_id l = i then row else l) (db_labels d)\<rparr>))"

definition q_DeleteLabel :: "uuid \<Rightarrow> unit sql" where
  "q_DeleteLabel i now d =
     (Ok (), d\<lparr>db_labels := filter (\<lambda>l. l_id l \<noteq> i) (db_labels d),
               db_task_labels := filter (\<lambda>(t, l). l \<noteq> i) (db_task_labels d)\<rparr>)"

definition q_LabelExists :: "uuid \<Rightarrow> bool sql" where
  "q_LabelExists i = q_read (\<lambda>d. i \<in> label_ids d)"

definition q_AddLabelToTask :: "uuid \<Rightarrow> uuid \<Rightarrow> unit sql" where
  "q_AddLabelToTask t l now d =
     (if (t, l) \<in> set (db_task_labels d) then (Ok (), d)
      else if t \<notin> task_ids d \<or> l \<notin> label_ids d then (Err pg_foreign_key_violation, d)
      else (Ok (), d\<lparr>db_task_labels := db_task_labels d @ [(t, l)]\<rparr>))"

definition q_RemoveLabelFromTask :: "uuid \<Rightarrow> uuid \<Rightarrow> unit sql" where
  "q_RemoveLabelFromTask t l now d =
     (Ok (), d\<lparr>db_task_labels := filter (\<lambda>x. x \<noteq> (t, l)) (db_task_labels d)\<rparr>)"

definition q_GetTaskLabels :: "uuid \<Rightarrow> label list sql" where
  "q_GetTaskLabels t = q_read (\<lambda>d. filter (\<lambda>l. (t, l_id l) \<in> set (db_task_labels d)) (db_labels d))"

definition q_GetLabelTasks :: "uuid \<Rightarrow> task_row list sql" where
  "q_GetLabelTasks l = q_read (\<lambda>d. filter (\<lambda>t. (tr_id t, l) \<in> set (db_task_labels d)) (db_tasks d))"

section \<open>Tasks and attachments (tasks.sql.go)\<close>

definition q_CreateTask :: "task_row \<Rightarrow> task_row sql" where
  "q_CreateTask arg now d =
     (let row = arg\<lparr>tr_due := map_option pg_timestamptz (tr_due arg),
                    tr_created := pg_timestamptz (tr_created arg),
                    tr_updated := pg_timestamptz (tr_updated arg)\<rparr>
      in if tr_id arg \<in> task_ids d then (Err pg_unique_violation, d)
         else if tr_creator arg \<notin> user_ids d
              \<or> (case tr_assignee arg of None \<Rightarrow> False | Some a \<Rightarrow> a \<notin> user_ids d)
           then (Err pg_foreign_key_violation, d)
         else (Ok row, d\<lparr>db_tasks := db_tasks d @ [row]\<rparr>))"

definition q_GetTask :: "uuid \<Rightarrow> task_row sql" where
  "q_GetTask i = q_one (\<lambda>d. find (\<lambda>r. tr_id r = i) (db_tasks d))"

definition q_ListTasks :: "int \<Rightarrow> int \<Rightarrow> task_row list sql" where
  "q_ListTasks lim off now d = (page_desc tr_created lim off (db_tasks d), d)"
definition q_ListTasksByStatus :: "string \<Rightarrow> int \<Rightarrow> int \<Rightarrow> task_row list sql" where
  "q_ListTasksByStatus status lim off now d =
     (page_desc tr_created lim off (filter (\<lambda>r. tr_status r = status) (db_tasks d)), d)"
definition q_ListTasksByAssignee :: "uuid \<Rightarrow> int \<Rightarrow> int \<Rightarrow> task_row list sql" where
  "q_ListTasksByAssignee a lim off now d =
     (page_desc tr_created lim off (filter (\<lambda>r. tr_assignee r = Some a) (db_tasks d)), d)"
definition q_ListTasksByCreator :: "uuid \<Rightarrow> int \<Rightarrow> int \<Rightarrow> task_row list sql" where
  "q_ListTasksByCreator c lim off now d =
     (page_desc tr_created lim off (filter (\<lambda>r. tr_creator r = c) (db_tasks d)), d)"
definition q_SearchTasks ::
  "(string \<Rightarrow> string \<Rightarrow> bool) \<Rightarrow> string \<Rightarrow> int \<Rightarrow> int \<Rightarrow> task_row list sql" where
  "q_SearchTasks ilike query lim off now d =
     (page_desc tr_created lim off
        (filter (\<lambda>r. ilike (tr_title r) (''%'' @ query @ ''%'')
                   \<or> (case tr_description r of None \<Rightarrow> False
                      | Some s \<Rightarrow> ilike s (''%'' @ query @ ''%''))) (db_tasks d)), d)"

text \<open>
  Title, status and priority are Go strings and never null, so their \<open>COALESCE\<close> takes the
  argument; the description is a pointer, and a nil pointer keeps the old description.
\<close>

definition q_UpdateTask ::
  "uuid \<Rightarrow> string \<Rightarrow> string option \<Rightarrow> string \<Rightarrow> string \<Rightarrow> time option \<Rightarrow> uuid option \<Rightarrow> task_row sql" where
  "q_UpdateTask i title description status priority due assignee now d =
     (case find (\<lambda>r. tr_id r = i) (db_tasks d) of
        None \<Rightarrow> (Err pgx_ErrNoRows, d)
      | Some old \<Rightarrow>
          let row = old\<lparr>tr_title := title,
                        tr_description := (case description of None \<Rightarrow> tr_description old | x \<Rightarrow> x),
                        tr_status := status, tr_priority := priority,
                        tr_due := map_option pg_timestamptz due, tr_assignee := assignee,
                        tr_updated := pg_timestamptz now\<rparr>
          in if (case assignee of None \<Rightarrow> False | Some a \<Rightarrow> a \<notin> user_ids d)
             then (Err pg_foreign_key_violation, d)
             else (Ok row, d\<lparr>db_tasks := map (\<lambda>r. if tr_id r = i then row else r) (db_tasks d)\<rparr>))"

definition q_DeleteTask :: "uuid \<Rightarrow> unit sql" where
  "q_DeleteTask i now d = (Ok (), delete_tasks (\<lambda>r. tr_id r = i) d)"
definition q_CountTasks :: "int sql" where
  "q_CountTasks = q_read (\<lambda>d. int (length (db_tasks d)))"
definition q_CountTasksByStatus :: "string \<Rightarrow> int sql" where
  "q_CountTasksByStatus status =
     q_read (\<lambda>d. int (length (filter (\<lambda>r. tr_status r = status) (db_tasks d))))"
definition q_TaskExists :: "uuid \<Rightarrow> bool sql" where
  "q_TaskExists i = q_read (\<lambda>d. i \<in> task_ids d)"

definition q_CreateTaskAttachment :: "attachment_row \<Rightarrow> attachment_row sql" where
  "q_CreateTaskAttachment arg now d =
     (let row = arg\<lparr>ar_created := pg_timestamptz (ar_created arg)\<rparr>
      in if ar_id arg \<in> ar_id ` set (db_attachments d) then (Err pg_unique_violation, d)
         else if ar_task arg \<notin> task_ids d
              \<or> (case ar_uploader arg of None \<Rightarrow> False | Some u \<Rightarrow> u \<notin> user_ids d)
           then (Err pg_foreign_key_violation, d)
         else (Ok row, d\<lparr>db_attachments := db_attachments d @ [row]\<rparr>))"

definition q_GetTaskAttachment :: "uuid \<Rightarrow> attachment_row sql" where
  "q_GetTaskAttachment i = q_one (\<lambda>d. find (\<lambda>a. ar_id a = i) (db_attachments d))"
definition q_ListTaskAttachments :: "uuid \<Rightarrow> attachment_row list sql" where
  "q_ListTaskAttachments t = q_read (\<lambda>d.
     sort_key (\<lambda>a. - ar_created a) (filter (\<lambda>a. ar_task a = t) (db_attachments d)))"
definition q_DeleteTaskAttachment :: "uuid \<Rightarrow> unit sql" where
  "q_DeleteTaskAttachment i now d =
     (Ok (), d\<lparr>db_attachments := filter (\<lambda>a. ar_id a \<noteq> i) (db_attachments d)\<rparr>)"
definition q_DeleteTaskAttachmentsByTask :: "uuid \<Rightarrow> unit sql" where
  "q_DeleteTaskAttachmentsByTask t now d =
     (Ok (), d\<lparr>db_attachments := filter (\<lambda>a. ar_task a \<noteq> t) (db_attachments d)\<rparr>)"

section \<open>Access control entries (acl.sql.go)\<close>

definition acl_key :: "acl_entry \<Rightarrow> string \<times> uuid \<times> string \<times> uuid \<times> string" where
  "acl_key a = (a_resource_type a, a_resource_id a, a_subject_type a, a_subject_id a, a_permission a)"

definition q_CreateACLEntry :: "acl_entry \<Rightarrow> acl_entry sql" where
  "q_CreateACLEntry arg now d =
     (let row = arg\<lparr>a_created := pg_timestamptz (a_created arg)\<rparr>
      in if a_id arg \<in> a_id ` set (db_acl d) \<or> acl_key arg \<in> acl_key ` set (db_acl d)
         then (Err pg_unique_violation, d)
         else (Ok row, d\<lparr>db_acl := db_acl d @ [row]\<rparr>))"

definition q_GetACLEntry :: "uuid \<Rightarrow> acl_entry sql" where
  "q_GetACLEntry i = q_one (\<lambda>d. find (\<lambda>a. a_id a = i) (db_acl d))"
definition q_GetACLEntriesByResource :: "string \<Rightarrow> uuid \<Rightarrow> acl_entry list sql" where
  "q_GetACLEntriesByResource rt ri = q_read (\<lambda>d.
     sort_key a_created (filter (\<lambda>a. a_resource_type a = rt \<and> a_resource_id a = ri) (db_acl d)))"
definition q_GetACLEntriesBySubject :: "string \<Rightarrow> uuid \<Rightarrow> acl_entry list sql" where
  "q_GetACLEntriesBySubject st si = q_read (\<lambda>d.
     sort_key a_created (filter (\<lambda>a. a_subject_type a = st \<and> a_subject_id a = si) (db_acl d)))"
definition q_DeleteACLEntry :: "uuid \<Rightarrow> unit sql" where
  "q_DeleteACLEntry i now d = (Ok (), d\<lparr>db_acl := filter (\<lambda>a. a_id a \<noteq> i) (db_acl d)\<rparr>)"
definition q_DeleteACLEntriesByResource :: "string \<Rightarrow> uuid \<Rightarrow> unit sql" where
  "q_DeleteACLEntriesByResource rt ri now d =
     (Ok (), d\<lparr>db_acl := filter (\<lambda>a. \<not> (a_resource_type a = rt \<and> a_resource_id a = ri)) (db_acl d)\<rparr>)"
definition q_HasPermission :: "string \<Rightarrow> uuid \<Rightarrow> string \<Rightarrow> uuid \<Rightarrow> string \<Rightarrow> bool sql" where
  "q_HasPermission rt ri st si perm = q_read (\<lambda>d.
     \<exists>a\<in>set (db_acl d). a_resource_type a = rt \<and> a_resource_id a = ri \<and> a_subject_type a = st
       \<and> a_subject_id a = si \<and> (a_permission a = perm \<or> a_permission a = ''admin''))"

end
