(* ===== verification/MemoryCache.thy ===== *)
theory MemoryCache
  imports Errors
begin

unbundle bit_operations_syntax

text \<open>
  The in-memory cache of \<open>internal/infrastructure/cache/memory/cache.go\<close>: a map from keys
  to items with an expiration instant.  Every method holds the mutex for its whole body, so
  a method is one atomic function on the map; \<open>now\<close> is the clock reading it makes.  The
  locale \<open>cache_port\<close> states what the application relies on of
  \<open>output.CacheRepository\<close>.
\<close>

record 'v cacheItem =
  ci_value :: 'v
  ci_expiration :: time

type_synonym 'v store = "string \<rightharpoonup> 'v cacheItem"

definition IsZero :: "time \<Rightarrow> bool" where
  "IsZero t = (t = 0)"

definition MC_NewMemoryCache :: "'v store" where
  "MC_NewMemoryCache = Map.empty"

text \<open>One tick of the background goroutine \<open>cleanup\<close>.\<close>

definition MC_cleanup :: "time \<Rightarrow> 'v store \<Rightarrow> 'v store" where
  "MC_cleanup now c =
     (\<lambda>key. case c key of
        None \<Rightarrow> None
      | Some item \<Rightarrow> if \<not> IsZero (ci_expiration item) \<and> now > ci_expiration item then None else Some item)"

definition MC_Get :: "time \<Rightarrow> string \<Rightarrow> 'v store \<Rightarrow> 'v option" where
  "MC_Get now key c =
     (case c key of
        None \<Rightarrow> None
      | Some item \<Rightarrow>
          if \<not> IsZero (ci_expiration item) \<and> now > ci_expiration item then None
          else Some (ci_value item))"

definition MC_Set :: "time \<Rightarrow> string \<Rightarrow> 'v \<Rightarrow> duration \<Rightarrow> 'v store \<Rightarrow> 'v store" where
  "MC_Set now key v expiration c =
     (let exp = (if expiration > 0 then now + expiration else 0)
      in c(key \<mapsto> \<lparr>ci_value = v, ci_expiration = exp\<rparr>))"

definition MC_Delete :: "string \<Rightarrow> 'v store \<Rightarrow> 'v store" where
  "MC_Delete key c = c(key := None)"

definition MC_Exists :: "time \<Rightarrow> string \<Rightarrow> 'v store \<Rightarrow> bool" where
  "MC_Exists now key c =
     (case c key of
        None \<Rightarrow> False
      | Some item \<Rightarrow>
          if \<not> IsZero (ci_expiration item) \<and> now > ci_expiration item then False else True)"

text \<open>\<open>SetNX\<close> reads the clock for the test and again for the new expiration.\<close>

definition MC_SetNX ::
  "time \<Rightarrow> time \<Rightarrow> string \<Rightarrow> 'v \<Rightarrow> duration \<Rightarrow> 'v store \<Rightarrow> bool \<times> 'v store" where
  "MC_SetNX now now' key v expiration c =
     (case c key of
        Some item \<Rightarrow>
          if IsZero (ci_expiration item) \<or> now < ci_expiration item then (False, c)
          else (True, MC_Set now' key v expiration c)
      | None \<Rightarrow> (True, MC_Set now' key v expiration c))"

definition MC_Expire :: "time \<Rightarrow> string \<Rightarrow> duration \<Rightarrow> 'v store \<Rightarrow> 'v store" where
  "MC_Expire now key expiration c =
     (case c key of
        Some item \<Rightarrow> c(key \<mapsto> item\<lparr>ci_expiration := now + expiration\<rparr>)
      | None \<Rightarrow> c)"

text \<open>
  Counters are eight bytes in little endian order.  \<open>for i := 0; i < 8; i++\<close> over the
  value, with the shifts of a 64 bit integer.
\<close>

fun le_decode :: "nat \<Rightarrow> byte list \<Rightarrow> 64 word \<Rightarrow> 64 word" where
  "le_decode i [] current = current"
| "le_decode i (b # bs) current = le_decode (Suc i) bs (current OR push_bit (i * 8) (ucast b))"

definition le_encode :: "64 word \<Rightarrow> byte list" where
  "le_encode v = map (\<lambda>i. ucast (signed_drop_bit (i * 8) v)) [0..<8]"

definition MC_Increment :: "string \<Rightarrow> 64 word \<Rightarrow> byte list store \<Rightarrow> 64 word \<times> byte list store" where
  "MC_Increment key v c =
     (let current = (case c key of
                       Some item \<Rightarrow> if length (ci_value item) = 8 then le_decode 0 (ci_value item) 0 else 0
                     | None \<Rightarrow> 0);
          newValue = current + v
      in (newValue, c(key \<mapsto> \<lparr>ci_value = le_encode newValue, ci_expiration = 0\<rparr>)))"

text \<open>Only a trailing star is special; every key with the prefix is deleted.\<close>

definition pattern_prefix :: "string \<Rightarrow> string" where
  "pattern_prefix pattern =
     (if length pattern > 0 \<and> last pattern = CHR ''*'' then butlast pattern else pattern)"

definition MC_DeletePattern :: "string \<Rightarrow> 'v store \<Rightarrow> 'v store" where
  "MC_DeletePattern pattern c =
     (let pre = pattern_prefix pattern
      in (\<lambda>key. if length key \<ge> length pre \<and> take (length pre) key = pre then None else c key))"

fun MC_GetMultiple :: "time \<Rightarrow> string list \<Rightarrow> 'v store \<Rightarrow> (string \<rightharpoonup> 'v) \<Rightarrow> (string \<rightharpoonup> 'v)" where
  "MC_GetMultiple now [] c res = res"
| "MC_GetMultiple now (key # keys) c res =
     MC_GetMultiple now keys c
       (case c key of
          Some item \<Rightarrow>
            if IsZero (ci_expiration item) \<or> now < ci_expiration item
            then res(key \<mapsto> ci_value item) else res
        | None \<Rightarrow> res)"

definition MC_SetMultiple :: "time \<Rightarrow> (string \<rightharpoonup> 'v) \<Rightarrow> duration \<Rightarrow> 'v store \<Rightarrow> 'v store" where
  "MC_SetMultiple now vals expiration c =
     (let exp = (if expiration > 0 then now + expiration else 0)
      in (\<lambda>key. case vals key of
                  Some v \<Rightarrow> Some \<lparr>ci_value = v, ci_expiration = exp\<rparr>
                | None \<Rightarrow> c key))"

definition ErrCacheMiss :: go_error where
  "ErrCacheMiss = Sentinel ''output'' ''ErrCacheMiss''"

text \<open>\<open>dec\<close> is \<open>json.Unmarshal\<close> into the destination's type, \<open>enc\<close> is \<open>json.Marshal\<close>.\<close>

definition MC_GetJSON :: "('v \<Rightarrow> 'a result) \<Rightarrow> time \<Rightarrow> string \<Rightarrow> 'v store \<Rightarrow> 'a result" where
  "MC_GetJSON dec now key c =
     (case MC_Get now key c of None \<Rightarrow> Err ErrCacheMiss | Some data \<Rightarrow> dec data)"

definition MC_SetJSON :: "('a \<Rightarrow> 'v) \<Rightarrow> time \<Rightarrow> string \<Rightarrow> 'a \<Rightarrow> duration \<Rightarrow> 'v store \<Rightarrow> 'v store" where
  "MC_SetJSON enc now key v expiration c = MC_Set now key (enc v) expiration c"

definition MC_Close :: "'v store \<Rightarrow> 'v store" where
  "MC_Close c = Map.empty"

definition MC_Size :: "'v store \<Rightarrow> nat" where
  "MC_Size c = card (dom c)"

lemmas MC_defs = MC_Get_def MC_Set_def MC_Delete_def MC_Exists_def MC_DeletePattern_def IsZero_def

section \<open>What a client of a cache relies on\<close>

locale cache_port =
  fixes get :: "time \<Rightarrow> string \<Rightarrow> 'c \<Rightarrow> 'v option"
    and set :: "time \<Rightarrow> string \<Rightarrow> 'v \<Rightarrow> duration \<Rightarrow> 'c \<Rightarrow> 'c"
    and delete :: "string \<Rightarrow> 'c \<Rightarrow> 'c"
    and delete_pattern :: "string \<Rightarrow> 'c \<Rightarrow> 'c"
  assumes get_set_fresh:
      "0 < d \<Longrightarrow> 0 < now \<Longrightarrow> t \<le> now + d \<Longrightarrow> get t k (set now k v d c) = Some v"
    and get_set_expired:
      "0 < d \<Longrightarrow> 0 < now \<Longrightarrow> now + d < t \<Longrightarrow> get t k (set now k v d c) = None"
    and get_set_other: "k \<noteq> k' \<Longrightarrow> get t k' (set now k v d c) = get t k' c"
    and get_delete: "get t k' (delete k c) = (if k' = k then None else get t k' c)"
    and get_delete_pattern:
      "get t k (delete_pattern (p @ ''*'') c) = (if prefix p k then None else get t k c)"
begin

text \<open>Invalidation of an entity and of every list: what is read afterwards is a miss.\<close>

lemma invalidated_miss: "get t k (delete_pattern (p @ ''*'') (delete k c)) = None"
  by (simp add: get_delete_pattern get_delete)

lemma invalidated_list_miss: "get t (p @ h) (delete_pattern (p @ ''*'') c) = None"
  by (simp add: get_delete_pattern)

lemma invalidation_frame:
  "k' \<noteq> k \<Longrightarrow> \<not> prefix p k' \<Longrightarrow> get t k' (delete_pattern (p @ ''*'') (delete k c)) = get t k' c"
  by (simp add: get_delete_pattern get_delete)

lemma miss_kept_by_set: "get t k c = None \<Longrightarrow> k' \<noteq> k \<Longrightarrow> get t k (set now k' v d c) = None"
  by (simp add: get_set_other)

end

text \<open>The same port with the operation meant for locks.\<close>

locale lock_cache_port = cache_port +
  fixes set_nx :: "time \<Rightarrow> time \<Rightarrow> string \<Rightarrow> 'v \<Rightarrow> duration \<Rightarrow> 'c \<Rightarrow> bool \<times> 'c"
  assumes set_nx_taken: "set_nx now now' k v d c = (True, c') \<Longrightarrow> c' = set now' k v d c"
    and set_nx_refused: "set_nx now now' k v d c = (False, c') \<Longrightarrow> c' = c \<and> get now k c \<noteq> None"
    and set_nx_free: "get now k c = None \<Longrightarrow> fst (set_nx now now' k v d c)"
begin

text \<open>
  Of two attempts at the same lock within its lifetime, the second is refused: otherwise its
  success would need the first holder's entry to be gone.
\<close>

lemma set_nx_other_keys:
  "set_nx now now' k v d c = (b, c') \<Longrightarrow> k' \<noteq> k \<Longrightarrow> get t k' c' = get t k' c"
  by (cases b) (auto dest: set_nx_taken set_nx_refused simp: get_set_other)

lemma set_nx_holds:
  "set_nx now now' k v d c = (True, c') \<Longrightarrow> 0 < d \<Longrightarrow> 0 < now' \<Longrightarrow> t \<le> now' + d \<Longrightarrow> get t k c' = Some v"
  by (auto dest: set_nx_taken simp: get_set_fresh)

end

lemma take_length_prefix: "(length p \<le> length k \<and> take (length p) k = p) = prefix p k"
  by (metis append_eq_conv_conj append_take_drop_id length_take min.absorb2 prefix_def prefix_length_le)

lemma pattern_prefix_star [simp]: "pattern_prefix (p @ ''*'') = p"
  by (simp add: pattern_prefix_def)

lemma MC_DeletePattern_alt:
  "MC_DeletePattern pat c k = (if prefix (pattern_prefix pat) k then None else c k)"
  by (simp add: MC_DeletePattern_def Let_def take_length_prefix)

interpretation mem: lock_cache_port MC_Get MC_Set MC_Delete MC_DeletePattern MC_SetNX
  by unfold_locales
    (auto simp: MC_Get_def MC_Set_def MC_Delete_def MC_SetNX_def MC_DeletePattern_alt Let_def
      IsZero_def split: option.splits if_splits)

lemma MC_Exists_Get: "MC_Exists now k c \<longleftrightarrow> MC_Get now k c \<noteq> None"
  by (auto simp: MC_Exists_def MC_Get_def split: option.splits)

section \<open>Counters\<close>

lemma le_byte_step:
  fixes v :: "64 word"
  shows "take_bit m v OR push_bit m (ucast (ucast (signed_drop_bit m v) :: byte)) = take_bit (m + 8) v"
  (is "?l = ?r")
proof (rule bit_word_eqI)
  fix n assume n: "n < LENGTH(64)"
  show "bit ?l n = bit ?r n"
  proof (cases "m \<le> n \<and> n < m + 8")
    case True
    then have "\<not> 64 - m \<le> n - m" using n by (simp del: diff_le_mono2) linarith
    then have "bit (signed_drop_bit m v) (n - m) = bit v n"
      using True n by (simp add: bit_signed_drop_bit_iff)
    with True n show ?thesis by (auto simp: bit_simps)
  next
    case False
    with n show ?thesis by (auto simp: bit_simps)
  qed
qed

lemma le_decode_bytes:
  "le_decode i (map (\<lambda>j. ucast (signed_drop_bit (j * 8) v)) [i..<i + n]) (take_bit (i * 8) v)
     = take_bit ((i + n) * 8) v"
proof (induction n arbitrary: i)
  case (Suc n)
  have "[i..<i + Suc n] = i # [Suc i..<Suc i + n]" by (simp add: upt_conv_Cons)
  with Suc [of "Suc i"] le_byte_step [of "i * 8" v] show ?case by (simp add: add.commute)
qed simp

lemma le_roundtrip: "le_decode 0 (le_encode v) 0 = v"
  using le_decode_bytes [of 0 v 8] take_bit_length_eq [of v] by (simp add: le_encode_def)

lemma length_le_encode [simp]: "length (le_encode v) = 8"
  by (simp add: le_encode_def)

lemma MC_Increment_value:
  "MC_Increment key v c = (n, c') \<Longrightarrow> c' key = Some \<lparr>ci_value = le_encode n, ci_expiration = 0\<rparr>"
  by (auto simp: MC_Increment_def Let_def)

text \<open>
  A sequence of increments of one key, and the sum of 64 bit words it computes.
\<close>

fun increments :: "string \<Rightarrow> 64 word list \<Rightarrow> byte list store \<Rightarrow> byte list store" where
  "increments key [] c = c"
| "increments key (v # vs) c = increments key vs (snd (MC_Increment key v c))"

lemma MC_Increment_again:
  "c key = Some \<lparr>ci_value = le_encode n, ci_expiration = 0\<rparr> \<Longrightarrow>
     MC_Increment key v c = (n + v, c(key \<mapsto> \<lparr>ci_value = le_encode (n + v), ci_expiration = 0\<rparr>))"
  by (simp add: MC_Increment_def le_roundtrip Let_def)

lemma increments_sum:
  "c key = Some \<lparr>ci_value = le_encode n, ci_expiration = 0\<rparr> \<Longrightarrow>
     increments key vs c key = Some \<lparr>ci_value = le_encode (n + sum_list vs), ci_expiration = 0\<rparr>"
  by (induction vs arbitrary: c n) (simp_all add: MC_Increment_again add.assoc)

text \<open>
  C22. Counters: starting from an absent key, a sequence of increments leaves under the key
  the eight byte encoding of the sum modulo 2 to the 64, without expiration, and the next
  increment reads exactly that sum back.
\<close>

theorem MC_Increment_counts:
  assumes "c key = None"
  shows "fst (MC_Increment key d (increments key (v # vs) c)) = v + sum_list vs + d
    \<and> (\<forall>now. MC_Get now key (increments key (v # vs) c) = Some (le_encode (v + sum_list vs)))"
proof -
  have "snd (MC_Increment key v c) key = Some \<lparr>ci_value = le_encode v, ci_expiration = 0\<rparr>"
    using assms by (simp add: MC_Increment_def)
  then have "increments key (v # vs) c key =
      Some \<lparr>ci_value = le_encode (v + sum_list vs), ci_expiration = 0\<rparr>"
    using increments_sum by simp
  then show ?thesis by (simp add: MC_Increment_again MC_Get_def IsZero_def)
qed

theorem MC_Increment_counts_witness:
  "fst (MC_Increment ''n'' 2 (increments ''n'' [5, - 1] (\<lambda>_. None))) = 6"
  using MC_Increment_counts [of "\<lambda>_. None" "''n''" 2 5 "[- 1]"] by simp

section \<open>Expiration\<close>

text \<open>
  The background sweep is invisible: at any later instant every key reads the same with
  and without it, and it only shrinks the store.
\<close>

theorem MC_cleanup_invisible:
  assumes "now \<le> t"
  shows "MC_Get t key (MC_cleanup now c) = MC_Get t key c \<and> dom (MC_cleanup now c) \<subseteq> dom c"
  using assms
  by (auto simp: MC_Get_def MC_cleanup_def dom_def split: option.splits if_splits)

theorem MC_cleanup_invisible_witness:
  "MC_Get 9 ''k'' (MC_cleanup 8 [''k'' \<mapsto> \<lparr>ci_value = 1 :: nat, ci_expiration = 7\<rparr>]) = None"
  using MC_cleanup_invisible [of 8 9 "''k''" "[''k'' \<mapsto> \<lparr>ci_value = 1 :: nat, ci_expiration = 7\<rparr>]"]
  by (simp add: MC_Get_def IsZero_def)

text \<open>
  Expire revives the dead: an item whose lifetime is over, and which Get already reports
  as absent, is readable again after Expire with a positive duration, because Expire does not
  test the old expiration.
\<close>

theorem MC_Expire_revives:
  assumes "c key = Some item" "ci_expiration item \<noteq> 0" "ci_expiration item < now" "0 < d" "0 < now"
  shows "MC_Get now key c = None
    \<and> MC_Get (now + d) key (MC_Expire now key d c) = Some (ci_value item)"
  using assms by (simp add: MC_Get_def MC_Expire_def IsZero_def)

theorem MC_Expire_revives_witness:
  "MC_Get 9 ''k'' [''k'' \<mapsto> \<lparr>ci_value = 1 :: nat, ci_expiration = 7\<rparr>] = None
   \<and> MC_Get 19 ''k'' (MC_Expire 9 ''k'' 10 [''k'' \<mapsto> \<lparr>ci_value = 1 :: nat, ci_expiration = 7\<rparr>])
       = Some 1"
  using MC_Expire_revives [of "[''k'' \<mapsto> \<lparr>ci_value = 1 :: nat, ci_expiration = 7\<rparr>]" "''k''"
    "\<lparr>ci_value = 1, ci_expiration = 7\<rparr>" 9 10] by simp

text \<open>
  At the very instant of expiration the methods disagree: Get and Exists still find the
  item, GetMultiple leaves it out and SetNX overwrites it.
\<close>

theorem MC_expiration_instant:
  assumes "c key = Some item" "ci_expiration item = now" "now \<noteq> 0"
  shows "MC_Get now key c = Some (ci_value item) \<and> MC_Exists now key c
    \<and> MC_GetMultiple now [key] c Map.empty = Map.empty
    \<and> MC_SetNX now now' key v d c = (True, MC_Set now' key v d c)"
  using assms by (simp add: MC_Get_def MC_Exists_def MC_SetNX_def IsZero_def)

theorem MC_expiration_instant_witness:
  "fst (MC_SetNX 7 7 ''k'' 2 5 [''k'' \<mapsto> \<lparr>ci_value = 1 :: nat, ci_expiration = 7\<rparr>])"
  using MC_expiration_instant [of "[''k'' \<mapsto> \<lparr>ci_value = 1 :: nat, ci_expiration = 7\<rparr>]" "''k''"
    "\<lparr>ci_value = 1, ci_expiration = 7\<rparr>" 7 7 2 5] by simp

end
