(* ===== verification/Events.thy ===== *)
theory Events
  imports Tasks
begin

text \<open>
  The domain events of \<open>internal/domain/event\<close>: the base event every event embeds, and one
  constructor of \<open>event_body\<close> per event struct with the fields the struct adds.  A
  \<open>New...\<close> function takes the fresh event id and the clock reading of \<open>NewBaseEvent\<close>.
\<close>

datatype event_body =
    TaskCreated string string priority task_status uuid
  | TaskUpdated "string option" "string option" "priority option" "task_status option" uuid
  | TaskDeleted uuid
  | TaskAssigned uuid uuid
  | TaskUnassigned uuid uuid
  | TaskCompleted uuid
  | TaskArchived uuid
  | TaskStatusChanged task_status task_status uuid
  | TaskLabelAdded uuid uuid
  | TaskLabelRemoved uuid uuid
  | TaskAttachmentCleanupRequested uuid string
  | UserCreated string string
  | UserUpdated "string option" "string option"
  | UserDeleted
  | UserRoleAssigned uuid string uuid
  | UserRoleRemoved uuid string uuid
  | UserPasswordChanged time
  | UserLoggedIn string string
  | UserLoggedOut

record event =
  ev_id :: uuid
  ev_type :: string
  ev_aggregate :: uuid
  ev_timestamp :: time
  ev_body :: event_body

definition EventType :: "event \<Rightarrow> string" where "EventType e = ev_type e"
definition OccurredAt :: "event \<Rightarrow> time" where "OccurredAt e = ev_timestamp e"
definition AggregateID :: "event \<Rightarrow> uuid" where "AggregateID e = ev_aggregate e"

definition NewBaseEvent :: "string \<Rightarrow> uuid \<Rightarrow> uuid \<Rightarrow> time \<Rightarrow> event_body \<Rightarrow> event" where
  "NewBaseEvent eventType aggregateID new_id now body =
     \<lparr>ev_id = new_id, ev_type = eventType, ev_aggregate = aggregateID, ev_timestamp = now,
      ev_body = body\<rparr>"

section \<open>Task events (task_events.go)\<close>

definition NewTaskCreated ::
  "uuid \<Rightarrow> string \<Rightarrow> string \<Rightarrow> priority \<Rightarrow> uuid \<Rightarrow> uuid \<Rightarrow> time \<Rightarrow> event" where
  "NewTaskCreated taskID title description priority creatorID new_id now =
     NewBaseEvent ''task.created'' taskID new_id now
       (TaskCreated title description priority TaskStatusTodo creatorID)"

definition NewTaskUpdated :: "uuid \<Rightarrow> uuid \<Rightarrow> uuid \<Rightarrow> time \<Rightarrow> event" where
  "NewTaskUpdated taskID updatedBy new_id now =
     NewBaseEvent ''task.updated'' taskID new_id now (TaskUpdated None None None None updatedBy)"

fun WithTitle :: "string \<Rightarrow> event_body \<Rightarrow> event_body" where
  "WithTitle title (TaskUpdated t d p s u) = TaskUpdated (Some title) d p s u"
| "WithTitle title e = e"

fun WithDescription :: "string \<Rightarrow> event_body \<Rightarrow> event_body" where
  "WithDescription description (TaskUpdated t d p s u) = TaskUpdated t (Some description) p s u"
| "WithDescription description e = e"

fun WithPriority :: "priority \<Rightarrow> event_body \<Rightarrow> event_body" where
  "WithPriority priority (TaskUpdated t d p s u) = TaskUpdated t d (Some priority) s u"
| "WithPriority priority e = e"

fun WithStatus :: "task_status \<Rightarrow> event_body \<Rightarrow> event_body" where
  "WithStatus status (TaskUpdated t d p s u) = TaskUpdated t d p (Some status) u"
| "WithStatus status e = e"

definition NewTaskDeleted :: "uuid \<Rightarrow> uuid \<Rightarrow> uuid \<Rightarrow> time \<Rightarrow> event" where
  "NewTaskDeleted taskID deletedBy new_id now =
     NewBaseEvent ''task.deleted'' taskID new_id now (TaskDeleted deletedBy)"

definition NewTaskAssigned :: "uuid \<Rightarrow> uuid \<Rightarrow> uuid \<Rightarrow> uuid \<Rightarrow> time \<Rightarrow> event" where
  "NewTaskAssigned taskID assigneeID assignedBy new_id now =
     NewBaseEvent ''task.assigned'' taskID new_id now (TaskAssigned assigneeID assignedBy)"

definition NewTaskUnassigned :: "uuid \<Rightarrow> uuid \<Rightarrow> uuid \<Rightarrow> uuid \<Rightarrow> time \<Rightarrow> event" where
  "NewTaskUnassigned taskID previousAssigneeID unassignedBy new_id now =
     NewBaseEvent ''task.unassigned'' taskID new_id now (TaskUnassigned previousAssigneeID unassignedBy)"

definition NewTaskCompleted :: "uuid \<Rightarrow> uuid \<Rightarrow> uuid \<Rightarrow> time \<Rightarrow> event" where
  "NewTaskCompleted taskID completedBy new_id now =
     NewBaseEvent ''task.completed'' taskID new_id now (TaskCompleted completedBy)"

definition NewTaskArchived :: "uuid \<Rightarrow> uuid \<Rightarrow> uuid \<Rightarrow> time \<Rightarrow> event" where
  "NewTaskArchived taskID archivedBy new_id now =
     NewBaseEvent ''task.archived'' taskID new_id now (TaskArchived archivedBy)"

definition NewTaskStatusChanged ::
  "uuid \<Rightarrow> task_status \<Rightarrow> task_status \<Rightarrow> uuid \<Rightarrow> uuid \<Rightarrow> time \<Rightarrow> event" where
  "NewTaskStatusChanged taskID oldStatus newStatus changedBy new_id now =
     NewBaseEvent ''task.status_changed'' taskID new_id now
       (TaskStatusChanged oldStatus newStatus changedBy)"

definition NewTaskLabelAdded :: "uuid \<Rightarrow> uuid \<Rightarrow> uuid \<Rightarrow> uuid \<Rightarrow> time \<Rightarrow> event" where
  "NewTaskLabelAdded taskID labelID addedBy new_id now =
     NewBaseEvent ''task.label_added'' taskID new_id now (TaskLabelAdded labelID addedBy)"

definition NewTaskLabelRemoved :: "uuid \<Rightarrow> uuid \<Rightarrow> uuid \<Rightarrow> uuid \<Rightarrow> time \<Rightarrow> event" where
  "NewTaskLabelRemoved taskID labelID removedBy new_id now =
     NewBaseEvent ''task.label_removed'' taskID new_id now (TaskLabelRemoved labelID removedBy)"

definition NewTaskAttachmentCleanupRequested ::
  "uuid \<Rightarrow> uuid \<Rightarrow> string \<Rightarrow> uuid \<Rightarrow> time \<Rightarrow> event" where
  "NewTaskAttachmentCleanupRequested taskID attachmentID objectKey new_id now =
     NewBaseEvent ''task.attachment_cleanup_requested'' taskID new_id now
       (TaskAttachmentCleanupRequested attachmentID objectKey)"

section \<open>User events (user_events.go)\<close>

definition NewUserCreated :: "uuid \<Rightarrow> string \<Rightarrow> string \<Rightarrow> uuid \<Rightarrow> time \<Rightarrow> event" where
  "NewUserCreated userID email name new_id now =
     NewBaseEvent ''user.created'' userID new_id now (UserCreated email name)"

definition NewUserUpdated :: "uuid \<Rightarrow> uuid \<Rightarrow> time \<Rightarrow> event" where
  "NewUserUpdated userID new_id now =
     NewBaseEvent ''user.updated'' userID new_id now (UserUpdated None None)"

fun WithEmail :: "string \<Rightarrow> event_body \<Rightarrow> event_body" where
  "WithEmail email (UserUpdated e n) = UserUpdated (Some email) n"
| "WithEmail email b = b"

fun WithName :: "string \<Rightarrow> event_body \<Rightarrow> event_body" where
  "WithName name (UserUpdated e n) = UserUpdated e (Some name)"
| "WithName name b = b"

definition NewUserDeleted :: "uuid \<Rightarrow> uuid \<Rightarrow> time \<Rightarrow> event" where
  "NewUserDeleted userID new_id now = NewBaseEvent ''user.deleted'' userID new_id now UserDeleted"

definition NewUserRoleAssigned :: "uuid \<Rightarrow> uuid \<Rightarrow> string \<Rightarrow> uuid \<Rightarrow> uuid \<Rightarrow> time \<Rightarrow> event" where
  "NewUserRoleAssigned userID roleID roleName assignedBy new_id now =
     NewBaseEvent ''user.role_assigned'' userID new_id now
       (UserRoleAssigned roleID roleName assignedBy)"

definition NewUserRoleRemoved :: "uuid \<Rightarrow> uuid \<Rightarrow> string \<Rightarrow> uuid \<Rightarrow> uuid \<Rightarrow> time \<Rightarrow> event" where
  "NewUserRoleRemoved userID roleID roleName removedBy new_id now =
     NewBaseEvent ''user.role_removed'' userID new_id now
       (UserRoleRemoved roleID roleName removedBy)"

definition NewUserPasswordChanged :: "uuid \<Rightarrow> uuid \<Rightarrow> time \<Rightarrow> time \<Rightarrow> event" where
  "NewUserPasswordChanged userID new_id now changedAt =
     NewBaseEvent ''user.password_changed'' userID new_id now (UserPasswordChanged changedAt)"

definition NewUserLoggedIn :: "uuid \<Rightarrow> string \<Rightarrow> string \<Rightarrow> uuid \<Rightarrow> time \<Rightarrow> event" where
  "NewUserLoggedIn userID ipAddress userAgent new_id now =
     NewBaseEvent ''user.logged_in'' userID new_id now (UserLoggedIn ipAddress userAgent)"

definition NewUserLoggedOut :: "uuid \<Rightarrow> uuid \<Rightarrow> time \<Rightarrow> event" where
  "NewUserLoggedOut userID new_id now =
     NewBaseEvent ''user.logged_out'' userID new_id now UserLoggedOut"

lemmas task_event_defs = NewBaseEvent_def NewTaskCreated_def NewTaskUpdated_def NewTaskDeleted_def
  NewTaskAssigned_def NewTaskUnassigned_def NewTaskCompleted_def NewTaskArchived_def
  NewTaskStatusChanged_def NewTaskLabelAdded_def NewTaskLabelRemoved_def
  NewTaskAttachmentCleanupRequested_def

lemmas user_event_defs = NewBaseEvent_def NewUserCreated_def NewUserUpdated_def NewUserDeleted_def
  NewUserRoleAssigned_def NewUserRoleRemoved_def NewUserPasswordChanged_def NewUserLoggedIn_def
  NewUserLoggedOut_def

end
