(* ===== verification/EventBus.thy ===== *)
theory EventBus
  imports Events "HOL-Library.AList" "HOL-Library.Sublist"
begin

text \<open>
  The in-memory event bus of \<open>internal/infrastructure/messaging/memory/eventbus.go\<close>.  A Go
  channel is an index; \<open>b_bufs\<close> holds the buffered events of each channel (capacity 100),
  \<open>b_closed\<close> the channels that are closed, and \<open>b_subs\<close> the dictionary from topics to
  subscribed channels.  Sending to a closed channel and closing one twice panic.  The mutex
  makes each method one atomic step, also against the receives of subscribers.
\<close>

record bus =
  b_subs :: "(string \<times> nat list) list"
  b_bufs :: "nat \<Rightarrow> event list"
  b_closed :: "nat list"
  b_next :: nat

definition channel_capacity :: nat where
  "channel_capacity = 100"

definition NewEventBus :: bus where
  "NewEventBus = \<lparr>b_subs = [], b_bufs = (\<lambda>_. []), b_closed = [], b_next = 0\<rparr>"

text \<open>\<open>select { case ch <- evt: default: }\<close> for every channel of the topic.\<close>

fun send_loop :: "event \<Rightarrow> nat list \<Rightarrow> bus \<Rightarrow> unit result \<times> bus" where
  "send_loop evt [] b = (Ok (), b)"
| "send_loop evt (ch # chs) b =
     (if ch \<in> set (b_closed b) then (Panic ''send on closed channel'', b)
      else if length (b_bufs b ch) < channel_capacity
        then send_loop evt chs (b\<lparr>b_bufs := (b_bufs b)(ch := b_bufs b ch @ [evt])\<rparr>)
      else send_loop evt chs b)"

definition Bus_Publish :: "string \<Rightarrow> event \<Rightarrow> bus \<Rightarrow> unit result \<times> bus" where
  "Bus_Publish topic evt b =
     (case map_of (b_subs b) topic of
        Some channels \<Rightarrow> send_loop evt channels b
      | None \<Rightarrow> (Ok (), b))"

fun Bus_PublishBatch :: "string \<Rightarrow> event list \<Rightarrow> bus \<Rightarrow> unit result \<times> bus" where
  "Bus_PublishBatch topic [] b = (Ok (), b)"
| "Bus_PublishBatch topic (evt # events) b =
     (case Bus_Publish topic evt b of
        (Ok _, b') \<Rightarrow> Bus_PublishBatch topic events b'
      | (Err e, b') \<Rightarrow> (Err e, b')
      | (Panic p, b') \<Rightarrow> (Panic p, b'))"

definition Bus_Subscribe :: "string \<Rightarrow> bus \<Rightarrow> nat \<times> bus" where
  "Bus_Subscribe topic b =
     (let ch = b_next b;
          old = (case map_of (b_subs b) topic of Some chs \<Rightarrow> chs | None \<Rightarrow> [])
      in (ch, b\<lparr>b_subs := AList.update topic (old @ [ch]) (b_subs b),
                b_bufs := (b_bufs b)(ch := []), b_next := Suc ch\<rparr>))"

fun close_loop :: "nat list \<Rightarrow> bus \<Rightarrow> unit result \<times> bus" where
  "close_loop [] b = (Ok (), b)"
| "close_loop (ch # chs) b =
     (if ch \<in> set (b_closed b) then (Panic ''close of closed channel'', b)
      else close_loop chs (b\<lparr>b_closed := ch # b_closed b\<rparr>))"

definition Bus_Unsubscribe :: "string \<Rightarrow> bus \<Rightarrow> unit result \<times> bus" where
  "Bus_Unsubscribe topic b =
     (case map_of (b_subs b) topic of
        Some channels \<Rightarrow>
          (case close_loop channels b of
             (Ok _, b') \<Rightarrow> (Ok (), b'\<lparr>b_subs := AList.delete topic (b_subs b')\<rparr>)
           | (Err e, b') \<Rightarrow> (Err e, b')
           | (Panic p, b') \<Rightarrow> (Panic p, b'))
      | None \<Rightarrow> (Ok (), b))"

definition Bus_Close :: "bus \<Rightarrow> unit result \<times> bus" where
  "Bus_Close b =
     (case close_loop (concat (map snd (b_subs b))) b of
        (Ok _, b') \<Rightarrow> (Ok (), b'\<lparr>b_subs := []\<rparr>)
      | (Err e, b') \<Rightarrow> (Err e, b')
      | (Panic p, b') \<Rightarrow> (Panic p, b'))"

text \<open>A subscriber's receive takes the oldest buffered event.\<close>

definition Bus_Receive :: "nat \<Rightarrow> bus \<Rightarrow> event option \<times> bus" where
  "Bus_Receive ch b =
     (case b_bufs b ch of
        [] \<Rightarrow> (None, b)
      | evt # rest \<Rightarrow> (Some evt, b\<lparr>b_bufs := (b_bufs b)(ch := rest)\<rparr>))"

section \<open>The invariant of the bus\<close>

definition subscribed :: "bus \<Rightarrow> nat list" where
  "subscribed b = concat (map snd (b_subs b))"

definition bus_wf :: "bus \<Rightarrow> bool" where
  "bus_wf b \<longleftrightarrow> distinct (map fst (b_subs b)) \<and> distinct (subscribed b)
     \<and> (\<forall>ch\<in>set (subscribed b). ch < b_next b \<and> ch \<notin> set (b_closed b))
     \<and> (\<forall>ch\<in>set (b_closed b). ch < b_next b)
     \<and> (\<forall>ch. length (b_bufs b ch) \<le> channel_capacity)"

inductive bus_step :: "bus \<Rightarrow> bus \<Rightarrow> bool" where
  publish: "Bus_Publish topic evt b = (r, b') \<Longrightarrow> bus_step b b'"
| publish_batch: "Bus_PublishBatch topic evts b = (r, b') \<Longrightarrow> bus_step b b'"
| subscribe: "Bus_Subscribe topic b = (ch, b') \<Longrightarrow> bus_step b b'"
| unsubscribe: "Bus_Unsubscribe topic b = (r, b') \<Longrightarrow> bus_step b b'"
| close: "Bus_Close b = (r, b') \<Longrightarrow> bus_step b b'"
| receive: "Bus_Receive ch b = (r, b') \<Longrightarrow> bus_step b b'"

inductive bus_reachable :: "bus \<Rightarrow> bool" where
  new: "bus_reachable NewEventBus"
| next_bus: "bus_reachable b \<Longrightarrow> bus_step b b' \<Longrightarrow> bus_reachable b'"

lemma topic_subscribed: "map_of (b_subs b) topic = Some chs \<Longrightarrow> set chs \<subseteq> set (subscribed b)"
  by (force simp: subscribed_def dest: map_of_SomeD)

lemma topic_distinct:
  "map_of (b_subs b) topic = Some chs \<Longrightarrow> distinct (subscribed b) \<Longrightarrow> distinct chs"
  by (auto simp: subscribed_def distinct_concat_iff dest!: map_of_SomeD)

text \<open>What the send loop does to the buffers, when no channel is closed or repeated.\<close>

definition offered :: "event \<Rightarrow> nat list \<Rightarrow> (nat \<Rightarrow> event list) \<Rightarrow> nat \<Rightarrow> event list" where
  "offered evt chs bufs ch =
     (if ch \<in> set chs \<and> length (bufs ch) < channel_capacity then bufs ch @ [evt] else bufs ch)"

lemma send_loop_spec:
  "distinct chs \<Longrightarrow> set chs \<inter> set (b_closed b) = {} \<Longrightarrow>
     send_loop evt chs b = (Ok (), b\<lparr>b_bufs := offered evt chs (b_bufs b)\<rparr>)"
proof (induction chs arbitrary: b)
  case Nil
  then show ?case by (simp add: offered_def [abs_def])
next
  case (Cons ch chs)
  then show ?case by (auto simp: offered_def [abs_def] fun_eq_iff intro!: bus.equality)
qed

lemma close_loop_spec:
  "distinct chs \<Longrightarrow> set chs \<inter> set (b_closed b) = {} \<Longrightarrow>
     close_loop chs b = (Ok (), b\<lparr>b_closed := rev chs @ b_closed b\<rparr>)"
  by (induction chs arbitrary: b) auto

lemma publish_spec:
  assumes "bus_wf b"
  shows "Bus_Publish topic evt b =
    (Ok (), b\<lparr>b_bufs := offered evt (case map_of (b_subs b) topic of None \<Rightarrow> [] | Some chs \<Rightarrow> chs)
      (b_bufs b)\<rparr>)"
proof (cases "map_of (b_subs b) topic")
  case None
  then show ?thesis by (simp add: Bus_Publish_def offered_def [abs_def])
next
  case (Some chs)
  have "distinct chs" "set chs \<inter> set (b_closed b) = {}"
    using assms topic_subscribed [OF Some] topic_distinct [OF Some] by (auto simp: bus_wf_def)
  then show ?thesis by (simp add: Bus_Publish_def Some send_loop_spec)
qed

lemma subscribed_bufs [simp]:
  "subscribed (b\<lparr>b_bufs := f\<rparr>) = subscribed b" "subscribed (b\<lparr>b_closed := c\<rparr>) = subscribed b"
  by (simp_all add: subscribed_def)

lemma offered_bound:
  "(\<And>ch. length (bufs ch) \<le> channel_capacity) \<Longrightarrow> length (offered evt chs bufs ch) \<le> channel_capacity"
  by (simp add: offered_def)

lemma publish_wf: "bus_wf b \<Longrightarrow> Bus_Publish topic evt b = (r, b') \<Longrightarrow> bus_wf b' \<and> r = Ok ()"
  by (auto simp: publish_spec) (simp add: bus_wf_def offered_bound)

lemma publish_batch_wf:
  "bus_wf b \<Longrightarrow> Bus_PublishBatch topic evts b = (r, b') \<Longrightarrow> bus_wf b' \<and> r = Ok ()"
proof (induction evts arbitrary: b)
  case (Cons evt evts)
  obtain r1 b1 where "Bus_Publish topic evt b = (r1, b1)" by fastforce
  with Cons publish_wf [OF Cons.prems(1) this] show ?case by auto
qed simp

lemma set_subscribed_update:
  "set (subscribed (b\<lparr>b_subs := AList.update k v s\<rparr>)) \<subseteq> set v \<union> set (concat (map snd s))"
  by (induction s) (auto simp: subscribed_def)

lemma distinct_concat_update:
  assumes "distinct (map fst s)" "distinct (concat (map snd s))"
    and "ch \<notin> set (concat (map snd s))"
    and "old = (case map_of s k of Some x \<Rightarrow> x | None \<Rightarrow> [])"
  shows "distinct (concat (map snd (AList.update k (old @ [ch]) s)))
    \<and> set (concat (map snd (AList.update k (old @ [ch]) s))) = insert ch (set (concat (map snd s)))"
  using assms
proof (induction s)
  case (Cons p s)
  obtain k' v where p: "p = (k', v)" by fastforce
  show ?case
  proof (cases "k' = k")
    case True
    with Cons.prems p show ?thesis by auto
  next
    case False
    with Cons p show ?thesis by auto
  qed
qed simp

lemma subscribe_wf:
  assumes "bus_wf b" "Bus_Subscribe topic b = (ch, b')"
  shows "bus_wf b'"
proof -
  define old where "old = (case map_of (b_subs b) topic of Some x \<Rightarrow> x | None \<Rightarrow> [])"
  have b': "b' = b\<lparr>b_subs := AList.update topic (old @ [b_next b]) (b_subs b),
      b_bufs := (b_bufs b)(b_next b := []), b_next := Suc (b_next b)\<rparr>"
    using assms(2) by (auto simp: Bus_Subscribe_def Let_def old_def)
  have "b_next b \<notin> set (concat (map snd (b_subs b)))"
    using assms(1) by (auto simp: bus_wf_def subscribed_def)
  then have upd: "distinct (concat (map snd (AList.update topic (old @ [b_next b]) (b_subs b))))
    \<and> set (concat (map snd (AList.update topic (old @ [b_next b]) (b_subs b))))
        = insert (b_next b) (set (concat (map snd (b_subs b))))"
    using distinct_concat_update [of "b_subs b" "b_next b" old topic] assms(1)
    by (simp add: bus_wf_def subscribed_def old_def)
  have "distinct (map fst (AList.update topic (old @ [b_next b]) (b_subs b)))"
    using assms(1) by (simp add: bus_wf_def distinct_update)
  with upd assms(1) show ?thesis unfolding b' bus_wf_def subscribed_def
    by (fastforce simp: less_Suc_eq)
qed

lemma set_delete_subset:
  "set (concat (map snd (AList.delete k s))) \<subseteq> set (concat (map snd s))"
  by (auto simp: AList.delete_eq)

lemma distinct_concat_filter: "distinct (concat (map f xs)) \<Longrightarrow> distinct (concat (map f (filter P xs)))"
  by (induction xs) auto

lemma unsubscribe_wf:
  assumes "bus_wf b" "Bus_Unsubscribe topic b = (r, b')"
  shows "bus_wf b' \<and> r = Ok ()"
proof (cases "map_of (b_subs b) topic")
  case None
  with assms show ?thesis by (simp add: Bus_Unsubscribe_def)
next
  case (Some chs)
  have chs: "distinct chs" "set chs \<inter> set (b_closed b) = {}" "set chs \<subseteq> set (subscribed b)"
    using assms(1) topic_subscribed [OF Some] topic_distinct [OF Some] by (auto simp: bus_wf_def)
  have b': "b' = b\<lparr>b_closed := rev chs @ b_closed b, b_subs := AList.delete topic (b_subs b)\<rparr>"
    and r: "r = Ok ()"
    using assms(2) Some close_loop_spec [OF chs(1,2)] by (auto simp: Bus_Unsubscribe_def)
  have disj: "set (concat (map snd (AList.delete topic (b_subs b)))) \<inter> set chs = {}"
  proof -
    have "(topic, chs) \<in> set (b_subs b)" using Some by (rule map_of_SomeD)
    then obtain u v where s: "b_subs b = u @ (topic, chs) # v" by (meson split_list)
    with assms(1) show ?thesis
      by (auto simp: bus_wf_def subscribed_def AList.delete_eq)
  qed
  have "distinct (concat (map snd (AList.delete topic (b_subs b))))"
    using assms(1) by (simp add: bus_wf_def subscribed_def AList.delete_eq distinct_concat_filter)
  moreover have "distinct (map fst (AList.delete topic (b_subs b)))"
    using assms(1) by (simp add: bus_wf_def distinct_delete)
  ultimately show ?thesis
    using r assms(1) chs disj set_delete_subset [of topic "b_subs b"]
    unfolding b' bus_wf_def subscribed_def by auto
qed

lemma close_wf:
  assumes "bus_wf b" "Bus_Close b = (r, b')"
  shows "bus_wf b' \<and> r = Ok ()"
proof -
  have "close_loop (subscribed b) b = (Ok (), b\<lparr>b_closed := rev (subscribed b) @ b_closed b\<rparr>)"
    using assms(1) by (intro close_loop_spec) (auto simp: bus_wf_def)
  with assms show ?thesis
    by (auto simp: Bus_Close_def bus_wf_def subscribed_def [symmetric]) (auto simp: subscribed_def)
qed

lemma receive_wf: "bus_wf b \<Longrightarrow> Bus_Receive ch b = (r, b') \<Longrightarrow> bus_wf b'"
  by (auto simp: Bus_Receive_def bus_wf_def split: list.splits) (metis Suc_leD length_Cons)

lemma bus_step_wf: "bus_step b b' \<Longrightarrow> bus_wf b \<Longrightarrow> bus_wf b'"
  by (induction rule: bus_step.induct)
    (auto dest: publish_wf publish_batch_wf subscribe_wf unsubscribe_wf close_wf receive_wf)

lemma bus_reachable_wf: "bus_reachable b \<Longrightarrow> bus_wf b"
proof (induction rule: bus_reachable.induct)
  case new
  show ?case by (simp add: bus_wf_def NewEventBus_def subscribed_def)
qed (rule bus_step_wf)

section \<open>Delivery order\<close>

text \<open>
  What one subscriber sees: a trace of bus operations, with the events received from a channel
  and the events offered to it while it had room.
\<close>

datatype bus_op =
    OpPublish string event
  | OpReceive nat

fun bus_apply :: "bus_op \<Rightarrow> bus \<Rightarrow> bus" where
  "bus_apply (OpPublish topic evt) b = snd (Bus_Publish topic evt b)"
| "bus_apply (OpReceive ch) b = snd (Bus_Receive ch b)"

fun received :: "nat \<Rightarrow> bus_op list \<Rightarrow> bus \<Rightarrow> event list" where
  "received ch [] b = []"
| "received ch (oper # opers) b =
     (case oper of
        OpReceive c \<Rightarrow> (if c = ch then (case fst (Bus_Receive c b) of Some e \<Rightarrow> [e] | None \<Rightarrow> []) else [])
      | OpPublish _ _ \<Rightarrow> []) @ received ch opers (bus_apply oper b)"

fun published :: "string \<Rightarrow> bus_op list \<Rightarrow> event list" where
  "published topic [] = []"
| "published topic (oper # opers) =
     (case oper of OpPublish t e \<Rightarrow> if t = topic then [e] else [] | OpReceive _ \<Rightarrow> [])
       @ published topic opers"

definition subscriber_of :: "nat \<Rightarrow> string \<Rightarrow> bus \<Rightarrow> bool" where
  "subscriber_of ch topic b \<longleftrightarrow>
     (\<exists>chs. map_of (b_subs b) topic = Some chs \<and> ch \<in> set chs)
     \<and> (\<forall>t chs. map_of (b_subs b) t = Some chs \<longrightarrow> ch \<in> set chs \<longrightarrow> t = topic)"

fun never_full :: "nat \<Rightarrow> bus_op list \<Rightarrow> bus \<Rightarrow> bool" where
  "never_full ch [] b = True"
| "never_full ch (oper # opers) b =
     (length (b_bufs b ch) < channel_capacity \<and> never_full ch opers (bus_apply oper b))"

lemma bus_apply_wf: "bus_wf b \<Longrightarrow> bus_wf (bus_apply oper b)"
  by (cases oper) (simp_all add: publish_wf [OF _ prod.collapse [symmetric]]
      receive_wf [OF _ prod.collapse [symmetric]])

lemma bus_apply_subs: "bus_wf b \<Longrightarrow> b_subs (bus_apply oper b) = b_subs b"
  by (cases oper) (auto simp: publish_spec Bus_Receive_def split: list.splits)

lemma bus_apply_publish_buf:
  assumes "bus_wf b" "subscriber_of ch topic b"
  shows "b_bufs (bus_apply (OpPublish t e) b) ch =
    (if t = topic \<and> length (b_bufs b ch) < channel_capacity then b_bufs b ch @ [e] else b_bufs b ch)"
proof -
  have "ch \<in> set (case map_of (b_subs b) t of None \<Rightarrow> [] | Some chs \<Rightarrow> chs) \<longleftrightarrow> t = topic"
  proof (cases "map_of (b_subs b) t")
    case None
    moreover have "map_of (b_subs b) topic \<noteq> None"
      using assms(2) unfolding subscriber_of_def by fast
    ultimately have "t \<noteq> topic" by metis
    with None show ?thesis by simp
  next
    case (Some chs)
    have "ch \<in> set chs \<longleftrightarrow> t = topic"
      using assms(2) Some unfolding subscriber_of_def by (metis option.inject)
    with Some show ?thesis by simp
  qed
  with assms(1) show ?thesis by (simp add: publish_spec offered_def)
qed

lemma bus_apply_receive_buf:
  "(case fst (Bus_Receive c b) of Some e \<Rightarrow> [e] | None \<Rightarrow> []) @ b_bufs (bus_apply (OpReceive c) b) c = b_bufs b c"
  "ch \<noteq> c \<Longrightarrow> b_bufs (bus_apply (OpReceive c) b) ch = b_bufs b ch"
  by (cases "b_bufs b c"; simp add: Bus_Receive_def)+

lemma subscriber_apply: "bus_wf b \<Longrightarrow> subscriber_of ch topic b \<Longrightarrow> subscriber_of ch topic (bus_apply oper b)"
  by (simp add: subscriber_of_def bus_apply_subs del: bus_apply.simps)

lemma delivery_subseq:
  "bus_wf b \<Longrightarrow> subscriber_of ch topic b \<Longrightarrow>
     subseq (received ch opers b @ b_bufs (fold bus_apply opers b) ch)
            (b_bufs b ch @ published topic opers)"
proof (induction opers arbitrary: b)
  case (Cons oper opers)
  note IH = Cons.IH [OF bus_apply_wf [OF Cons.prems(1)] subscriber_apply [OF Cons.prems], of oper]
  show ?case
  proof (cases oper)
    case (OpPublish t e)
    have "subseq (b_bufs (bus_apply oper b) ch) (b_bufs b ch @ published topic [oper])"
      unfolding OpPublish bus_apply_publish_buf [OF Cons.prems] by auto
    then have "subseq (b_bufs (bus_apply oper b) ch @ published topic opers)
        ((b_bufs b ch @ published topic [oper]) @ published topic opers)"
      by (rule list_emb_append_mono) simp
    with IH show ?thesis using OpPublish by (auto simp del: bus_apply.simps intro: subseq_order.trans)
  next
    case (OpReceive c)
    show ?thesis
    proof (cases "c = ch")
      case True
      have "b_bufs b ch = (case fst (Bus_Receive c b) of Some e \<Rightarrow> [e] | None \<Rightarrow> [])
          @ b_bufs (bus_apply oper b) ch"
        using bus_apply_receive_buf(1) [of c b] True OpReceive by simp
      with list_emb_append_mono [OF subseq_order.refl IH] show ?thesis
        using OpReceive True by (simp del: bus_apply.simps)
    next
      case False
      with IH OpReceive bus_apply_receive_buf(2) [of ch c b] show ?thesis
        by (simp del: bus_apply.simps)
    qed
  qed
qed simp

lemma delivery_exact:
  "bus_wf b \<Longrightarrow> subscriber_of ch topic b \<Longrightarrow> never_full ch opers b \<Longrightarrow>
     received ch opers b @ b_bufs (fold bus_apply opers b) ch = b_bufs b ch @ published topic opers"
proof (induction opers arbitrary: b)
  case (Cons oper opers)
  have IH: "received ch opers (bus_apply oper b) @ b_bufs (fold bus_apply opers (bus_apply oper b)) ch
      = b_bufs (bus_apply oper b) ch @ published topic opers"
    using Cons by (intro Cons.IH bus_apply_wf subscriber_apply) auto
  show ?case
  proof (cases oper)
    case (OpPublish t e)
    with IH Cons.prems bus_apply_publish_buf [OF Cons.prems(1,2), of t e] show ?thesis
      by (simp del: bus_apply.simps)
  next
    case (OpReceive c)
    show ?thesis
    proof (cases "c = ch")
      case True
      have "b_bufs b ch = (case fst (Bus_Receive c b) of Some e \<Rightarrow> [e] | None \<Rightarrow> [])
          @ b_bufs (bus_apply oper b) ch"
        using bus_apply_receive_buf(1) [of c b] True OpReceive by simp
      with IH show ?thesis using OpReceive True by (simp del: bus_apply.simps)
    next
      case False
      with IH OpReceive bus_apply_receive_buf(2) [of ch c b] show ?thesis
        by (simp del: bus_apply.simps)
    qed
  qed
qed simp

lemma reachable_buffers_bounded:
  "bus_reachable b \<Longrightarrow> length (b_bufs b ch) \<le> channel_capacity"
  by (drule bus_reachable_wf) (simp add: bus_wf_def)

definition example_event :: event where
  "example_event = NewTaskDeleted 7 100 1 2"

definition example_bus :: bus where
  "example_bus = snd (Bus_Subscribe ''task.deleted'' NewEventBus)"

lemma example_bus_reachable: "bus_reachable example_bus"
  unfolding example_bus_def
  by (rule bus_reachable.next_bus [OF bus_reachable.new]) (rule bus_step.subscribe, rule prod.collapse [symmetric])

section \<open>Properties\<close>

text \<open>
  C19. From every reachable state of the bus, publishing, unsubscribing and closing return
  without an error and without a panic: no channel is sent to after it is closed and none is
  closed twice; and no buffer ever exceeds its capacity.
\<close>

theorem bus_never_panics:
  assumes "bus_reachable b"
  shows "fst (Bus_Publish topic evt b) = Ok () \<and> fst (Bus_PublishBatch topic evts b) = Ok ()
    \<and> fst (Bus_Unsubscribe topic b) = Ok () \<and> fst (Bus_Close b) = Ok ()
    \<and> length (b_bufs b ch) \<le> channel_capacity"
  using bus_reachable_wf [OF assms] reachable_buffers_bounded [OF assms]
  by (auto dest!: publish_wf [OF _ prod.collapse [symmetric], THEN conjunct2]
      simp: publish_batch_wf [OF _ prod.collapse [symmetric], THEN conjunct2]
        publish_wf [OF _ prod.collapse [symmetric], THEN conjunct2]
        unsubscribe_wf [OF _ prod.collapse [symmetric], THEN conjunct2]
        close_wf [OF _ prod.collapse [symmetric], THEN conjunct2])

theorem bus_never_panics_witness:
  "fst (Bus_Close example_bus) = Ok ()"
  using bus_never_panics [OF example_bus_reachable, of undefined undefined undefined undefined] by blast

text \<open>
  C20. Delivery is first in, first out and never duplicates: what a subscriber of a topic has
  received, followed by what still waits in its channel, is a subsequence of what was published
  to that topic; and when its channel was never full it is exactly what was published.
\<close>

theorem bus_delivery_fifo:
  assumes "bus_reachable b" "subscriber_of ch topic b" "b_bufs b ch = []"
  shows "subseq (received ch opers b @ b_bufs (fold bus_apply opers b) ch) (published topic opers)
    \<and> (never_full ch opers b \<longrightarrow>
         received ch opers b @ b_bufs (fold bus_apply opers b) ch = published topic opers)"
  using delivery_subseq [OF bus_reachable_wf [OF assms(1)] assms(2), of opers]
    delivery_exact [OF bus_reachable_wf [OF assms(1)] assms(2), of opers] assms(3) by simp

lemma example_bus_subscriber: "subscriber_of 0 ''task.deleted'' example_bus \<and> b_bufs example_bus 0 = []"
  by (simp add: example_bus_def subscriber_of_def Bus_Subscribe_def NewEventBus_def)

theorem bus_delivery_fifo_witness:
  "received 0 [OpPublish ''task.deleted'' example_event, OpReceive 0] example_bus = [example_event]
   \<and> subseq (received 0 [OpPublish ''task.deleted'' example_event, OpReceive 0] example_bus
       @ b_bufs (fold bus_apply [OpPublish ''task.deleted'' example_event, OpReceive 0] example_bus) 0)
     (published ''task.deleted'' [OpPublish ''task.deleted'' example_event, OpReceive 0])"
  using bus_delivery_fifo [OF example_bus_reachable conjunct1 [OF example_bus_subscriber]
      conjunct2 [OF example_bus_subscriber],
      of "[OpPublish ''task.deleted'' example_event, OpReceive 0]"]
  by (simp add: example_bus_def Bus_Subscribe_def NewEventBus_def Bus_Publish_def Bus_Receive_def
      channel_capacity_def)

end
