(* ===== verification/World.thy ===== *)
theory World
  imports Database MemoryCache EventBus
begin

text \<open>
  The state the application runs in and the computations over it.  A use case is a function
  \<open>'a go\<close> from the environment and the world to a result and the next world, so that every
  error return and every panic of the code is a value.

  The environment holds what is not code of the repository: the clock, the generator of
  random ids, the failures of the services, bcrypt, SHA-256, the JWT library, the validation
  library, the collation and the case folding of the database server, and which dependencies
  \<open>cmd/server/main.go\<close> could connect.  Each call of a service and each reading of the clock
  has a number of its own, the tick; \<open>e_clock\<close>, \<open>e_new_uuid\<close> and \<open>e_fault\<close> are indexed
  by it, so any clock, any ids and any pattern of failures is some environment.  A failing call
  either had no effect (\<open>FailBefore\<close>) or took effect although the answer was lost
  (\<open>FailAfter\<close>).

  A dependency is absent (\<open>DepNone\<close>, a nil interface), a nil pointer stored in an interface
  (\<open>DepNilPtr\<close>, not equal to nil in Go, and a method call on it dereferences nil), or live.
\<close>

datatype dep = DepNone | DepNilPtr | DepLive

datatype fault = FailBefore go_error | FailAfter go_error

text \<open>What the cache stores, as the JSON values that the code writes.\<close>

datatype payload =
    Raw string
  | JTask task_output
  | JTaskList task_list_output
  | JUser user_output
  | JUserList user_list_output
  | JSession session_data

text \<open>The claims of a token; a refresh token carries the zero values of the last five.\<close>

record jwt_claims =
  jc_issuer :: string
  jc_subject :: string
  jc_expires :: "time option"
  jc_issued :: "time option"
  jc_not_before :: "time option"
  jc_id :: string
  jc_user :: uuid
  jc_email :: string
  jc_roles :: "string list"
  jc_role_ids :: "uuid list"
  jc_permissions :: "string list"

datatype jwt_parsed = JwtValid jwt_claims | JwtExpired | JwtInvalid

text \<open>The structs that are handed to the validator.\<close>

datatype dto =
    VCreateTask create_task_input
  | VUpdateTask update_task_input
  | VTaskFilter task_filter
  | VPagination pagination
  | VCreateUser create_user_input
  | VUpdateUser update_user_input
  | VUserFilter user_filter
  | VLogin login_input
  | VChangePassword change_password_input
  | VCreateLabel create_label_input
  | VUpdateLabel update_label_input

record env =
  e_clock :: "nat \<Rightarrow> time"
  e_new_uuid :: "nat \<Rightarrow> uuid"
  e_fault :: "nat \<Rightarrow> fault option"
  e_cache :: dep
  e_storage :: dep
  e_publisher :: dep
  e_kafka :: dep
  e_local_bus :: dep
  e_uuid_string :: "uuid \<Rightarrow> string"
  e_uuid_parse :: "string \<Rightarrow> uuid option"
  e_pointer_string :: "nat \<Rightarrow> string"
  e_bcrypt_hash :: "nat \<Rightarrow> string \<Rightarrow> string result"
  e_bcrypt_cmp :: "string \<Rightarrow> string \<Rightarrow> bool"
  e_sha256_hex :: "string \<Rightarrow> string"
  e_validate :: "dto \<Rightarrow> go_error option"
  e_numeric_date :: "time \<Rightarrow> time"
  e_jwt_sign :: "jwt_claims \<Rightarrow> string result"
  e_jwt_parse :: "time \<Rightarrow> string \<Rightarrow> jwt_parsed"
  e_jwt_unverified :: "string \<Rightarrow> jwt_claims option"
  e_pg_lower :: "string \<Rightarrow> string"
  e_pg_ilike :: "string \<Rightarrow> string \<Rightarrow> bool"
  e_pg_collate :: "string \<Rightarrow> nat"
  e_access_ttl :: duration
  e_refresh_ttl :: duration
  e_issuer :: string

record world =
  w_db :: db
  w_tx_time :: "time option"
  w_cache :: "payload store"
  w_blobs :: "string \<Rightarrow> string option"
  w_bus :: bus
  w_kafka :: "(string \<times> event) list"
  w_tick :: nat

type_synonym 'a go = "env \<Rightarrow> world \<Rightarrow> 'a result \<times> world"

section \<open>Sequencing, errors and panics\<close>

definition ret :: "'a \<Rightarrow> 'a go" where
  "ret x e w = (Ok x, w)"

definition raise :: "go_error \<Rightarrow> 'a go" where
  "raise err e w = (Err err, w)"

definition panic :: "string \<Rightarrow> 'a go" where
  "panic msg e w = (Panic msg, w)"

definition lift :: "'a result \<Rightarrow> 'a go" where
  "lift r e w = (r, w)"

definition asks :: "(env \<Rightarrow> 'a) \<Rightarrow> 'a go" where
  "asks f e w = (Ok (f e), w)"

definition andthen :: "'a go \<Rightarrow> ('a \<Rightarrow> 'b go) \<Rightarrow> 'b go" where
  "andthen m f e w =
     (case m e w of
        (Ok x, w') \<Rightarrow> f x e w'
      | (Err err, w') \<Rightarrow> (Err err, w')
      | (Panic p, w') \<Rightarrow> (Panic p, w'))"

text \<open>\<open>if err := m; err == nil { ... } else { ... }\<close>, and \<open>_ = m\<close>; a panic goes through.\<close>

definition attempt :: "'a go \<Rightarrow> 'a result go" where
  "attempt m e w =
     (case m e w of
        (Ok x, w') \<Rightarrow> (Ok (Ok x), w')
      | (Err err, w') \<Rightarrow> (Ok (Err err), w')
      | (Panic p, w') \<Rightarrow> (Panic p, w'))"

definition ignoring :: "'a go \<Rightarrow> unit go" where
  "ignoring m e w =
     (case m e w of
        (Ok x, w') \<Rightarrow> (Ok (), w')
      | (Err err, w') \<Rightarrow> (Ok (), w')
      | (Panic p, w') \<Rightarrow> (Panic p, w'))"

definition whenever :: "bool \<Rightarrow> unit go \<Rightarrow> unit go" where
  "whenever b m = (if b then m else ret ())"

fun for_each :: "'a list \<Rightarrow> ('a \<Rightarrow> unit go) \<Rightarrow> unit go" where
  "for_each [] f = ret ()"
| "for_each (x # xs) f = andthen (f x) (\<lambda>_. for_each xs f)"

text \<open>\<open>for _, x := range xs { acc, err = f(x, acc); if err != nil { return err } }\<close>\<close>

fun fold_go :: "'a list \<Rightarrow> ('a \<Rightarrow> 'b \<Rightarrow> 'b go) \<Rightarrow> 'b \<Rightarrow> 'b go" where
  "fold_go [] f acc = ret acc"
| "fold_go (x # xs) f acc = andthen (f x acc) (\<lambda>acc'. fold_go xs f acc')"

section \<open>The clock, random ids and calls of services\<close>

definition now_utc :: "time go" where
  "now_utc e w = (Ok (e_clock e (w_tick w)), w\<lparr>w_tick := Suc (w_tick w)\<rparr>)"

definition fresh_uuid :: "uuid go" where
  "fresh_uuid e w = (Ok (e_new_uuid e (w_tick w)), w\<lparr>w_tick := Suc (w_tick w)\<rparr>)"

definition bcrypt_hash :: "string \<Rightarrow> string go" where
  "bcrypt_hash password e w =
     (e_bcrypt_hash e (w_tick w) password, w\<lparr>w_tick := Suc (w_tick w)\<rparr>)"

definition external :: "(time \<Rightarrow> world \<Rightarrow> 'a result \<times> world) \<Rightarrow> 'a go" where
  "external call e w =
     (let n = w_tick w;
          w1 = w\<lparr>w_tick := Suc n\<rparr>
      in case e_fault e n of
           None \<Rightarrow> call (e_clock e n) w1
         | Some (FailBefore err) \<Rightarrow> (Err err, w1)
         | Some (FailAfter err) \<Rightarrow> (Err err, snd (call (e_clock e n) w1)))"

text \<open>
  One SQL statement.  Inside a transaction \<open>NOW()\<close> is the time the transaction began.
\<close>

definition run_sql :: "'a sql \<Rightarrow> time \<Rightarrow> world \<Rightarrow> 'a result \<times> world" where
  "run_sql q t w =
     (let (r, d) = q (case w_tx_time w of None \<Rightarrow> t | Some t0 \<Rightarrow> t0) (w_db w)
      in (r, w\<lparr>w_db := d\<rparr>))"

definition sql :: "'a sql \<Rightarrow> 'a go" where
  "sql q = external (run_sql q)"

definition nil_dereference :: string where
  "nil_dereference = ''invalid memory address or nil pointer dereference''"

text \<open>
  A call on the cache.  \<open>op\<close> is a method of the cache at a clock reading.
\<close>

definition cache_call :: "(time \<Rightarrow> payload store \<Rightarrow> 'a result \<times> payload store) \<Rightarrow> 'a go" where
  "cache_call cop e w =
     (if e_cache e = DepLive
      then external (\<lambda>t w. let (r, c) = cop t (w_cache w) in (r, w\<lparr>w_cache := c\<rparr>)) e w
      else (Panic nil_dereference, w))"

definition has_cache :: "bool go" where
  "has_cache = asks (\<lambda>e. e_cache e \<noteq> DepNone)"

definition Cache_Set :: "string \<Rightarrow> payload \<Rightarrow> duration \<Rightarrow> unit go" where
  "Cache_Set key v ttl = cache_call (\<lambda>t c. (Ok (), MC_Set t key v ttl c))"
definition Cache_Delete :: "string \<Rightarrow> unit go" where
  "Cache_Delete key = cache_call (\<lambda>t c. (Ok (), MC_Delete key c))"
definition Cache_Exists :: "string \<Rightarrow> bool go" where
  "Cache_Exists key = cache_call (\<lambda>t c. (Ok (MC_Exists t key c), c))"
definition Cache_DeletePattern :: "string \<Rightarrow> unit go" where
  "Cache_DeletePattern pat = cache_call (\<lambda>t c. (Ok (), MC_DeletePattern pat c))"
definition Cache_GetJSON :: "(payload \<Rightarrow> 'a result) \<Rightarrow> string \<Rightarrow> 'a go" where
  "Cache_GetJSON decode key = cache_call (\<lambda>t c. (MC_GetJSON decode t key c, c))"
definition Cache_SetJSON :: "('a \<Rightarrow> payload) \<Rightarrow> string \<Rightarrow> 'a \<Rightarrow> duration \<Rightarrow> unit go" where
  "Cache_SetJSON encode key v ttl = cache_call (\<lambda>t c. (Ok (), MC_SetJSON encode t key v ttl c))"

lemmas cache_ops = Cache_Set_def Cache_Delete_def Cache_Exists_def Cache_DeletePattern_def
  Cache_GetJSON_def Cache_SetJSON_def

text \<open>\<open>json.Unmarshal\<close> into the struct that was stored.\<close>

definition json_mismatch :: go_error where
  "json_mismatch = External ''json: cannot unmarshal''"

fun as_task :: "payload \<Rightarrow> task_output result" where
  "as_task (JTask x) = Ok x" | "as_task _ = Err json_mismatch"
fun as_task_list :: "payload \<Rightarrow> task_list_output result" where
  "as_task_list (JTaskList x) = Ok x" | "as_task_list _ = Err json_mismatch"
fun as_user :: "payload \<Rightarrow> user_output result" where
  "as_user (JUser x) = Ok x" | "as_user _ = Err json_mismatch"
fun as_user_list :: "payload \<Rightarrow> user_list_output result" where
  "as_user_list (JUserList x) = Ok x" | "as_user_list _ = Err json_mismatch"
fun as_session :: "payload \<Rightarrow> session_data result" where
  "as_session (JSession x) = Ok x" | "as_session _ = Err json_mismatch"

definition validate :: "dto \<Rightarrow> unit go" where
  "validate d e w = (case e_validate e d of None \<Rightarrow> (Ok (), w) | Some err \<Rightarrow> (Err err, w))"

definition uuid_str :: "uuid \<Rightarrow> string go" where
  "uuid_str i = asks (\<lambda>e. e_uuid_string e i)"

section \<open>Transactions (postgres/transaction\_manager.go)\<close>

text \<open>
  \<open>RunInTransaction\<close>: the function runs over the tables of the transaction; when it fails or
  panics, or when the commit fails without effect, the tables are those of the begin.
\<close>

definition tx_begin :: "unit go" where
  "tx_begin = external (\<lambda>t w. (Ok (), w))"

definition tx_commit :: "unit go" where
  "tx_commit = external (\<lambda>t w. (Ok (), w\<lparr>w_tx_time := None\<rparr>))"

definition RunInTransaction :: "unit go \<Rightarrow> unit go" where
  "RunInTransaction fn e w =
     (case tx_begin e w of
        (Ok _, w0) \<Rightarrow>
          (case fn e (w0\<lparr>w_tx_time := Some (e_clock e (w_tick w))\<rparr>) of
             (Ok _, w1) \<Rightarrow>
               (case tx_commit e w1 of
                  (r, w2) \<Rightarrow> if w_tx_time w2 = None then (r, w2)
                              else (r, w2\<lparr>w_db := w_db w0, w_tx_time := None\<rparr>))
           | (Err err, w1) \<Rightarrow> (Err err, w1\<lparr>w_db := w_db w0, w_tx_time := None\<rparr>)
           | (Panic p, w1) \<Rightarrow> (Panic p, w1\<lparr>w_db := w_db w0, w_tx_time := None\<rparr>))
      | (Err err, w0) \<Rightarrow> (Err err, w0)
      | (Panic p, w0) \<Rightarrow> (Panic p, w0))"

section \<open>Reasoning about runs\<close>

lemmas go_prims = ret_def raise_def panic_def lift_def asks_def

lemma andthen_Ok_iff:
  "andthen m f e w = (Ok y, w') \<longleftrightarrow> (\<exists>x w1. m e w = (Ok x, w1) \<and> f x e w1 = (Ok y, w'))"
  by (auto simp: andthen_def split: prod.splits result.splits)

lemma andthen_run [simp]:
  "m e w = (Ok x, w1) \<Longrightarrow> andthen m f e w = f x e w1"
  "m e w = (Err err, w1) \<Longrightarrow> andthen m f e w = (Err err, w1)"
  "m e w = (Panic p, w1) \<Longrightarrow> andthen m f e w = (Panic p, w1)"
  by (simp_all add: andthen_def)

lemma prims_run [simp]:
  "ret x e w = (Ok x, w)" "raise err e w = (Err err, w)" "panic p e w = (Panic p, w)"
  "lift r e w = (r, w)" "asks f e w = (Ok (f e), w)"
  by (simp_all add: go_prims)

lemma andthen_assoc: "andthen (andthen m f) g = andthen m (\<lambda>x. andthen (f x) g)"
  by (auto simp: andthen_def fun_eq_iff split: prod.splits result.splits)

lemma andthen_prims [simp]:
  "andthen (ret x) f = f x" "andthen (raise err) f = raise err" "andthen (panic p) f = panic p"
  "andthen (lift (Ok x)) f = f x" "andthen (lift (Err err)) f = raise err"
  "andthen (lift (Panic p)) f = panic p"
  by (simp_all add: andthen_def fun_eq_iff)

lemma ignoring_Ok: "\<exists>w'. ignoring m e w = (Ok (), w') \<or> (\<exists>p. ignoring m e w = (Panic p, w'))"
  by (auto simp: ignoring_def split: prod.splits result.splits)

text \<open>
  \<open>holds I m Q\<close>: on every exit, normal, error or panic, the computation keeps the invariant
  \<open>I\<close> of the world, and a value that it returns satisfies \<open>Q\<close>.
\<close>

definition holds :: "(env \<Rightarrow> world \<Rightarrow> bool) \<Rightarrow> 'a go \<Rightarrow> ('a \<Rightarrow> bool) \<Rightarrow> bool" where
  "holds I m Q \<longleftrightarrow>
     (\<forall>e w. I e w \<longrightarrow> I e (snd (m e w)) \<and> (\<forall>x. fst (m e w) = Ok x \<longrightarrow> Q x))"

lemma holdsI:
  "(\<And>e w r w'. I e w \<Longrightarrow> m e w = (r, w') \<Longrightarrow> I e w' \<and> (\<forall>x. r = Ok x \<longrightarrow> Q x)) \<Longrightarrow> holds I m Q"
  by (simp add: holds_def) (metis prod.collapse)

lemma holdsD:
  "holds I m Q \<Longrightarrow> I e w \<Longrightarrow> m e w = (r, w') \<Longrightarrow> I e w'"
  by (auto simp: holds_def dest!: spec [where x = e] spec [where x = w])

lemma holds_weaken: "holds I m Q \<Longrightarrow> (\<And>x. Q x \<Longrightarrow> Q' x) \<Longrightarrow> holds I m Q'"
  by (auto simp: holds_def)

lemma holds_True: "holds I m Q \<Longrightarrow> holds I m (\<lambda>_. True)"
  by (auto simp: holds_def)

lemma holds_ret [keeps]: "Q x \<Longrightarrow> holds I (ret x) Q"
  and holds_raise [keeps]: "holds I (raise err) Q"
  and holds_panic [keeps]: "holds I (panic p) Q"
  and holds_lift [keeps]: "(\<And>x. r = Ok x \<Longrightarrow> Q x) \<Longrightarrow> holds I (lift r) Q"
  and holds_asks [keeps]: "(\<And>e. Q (f e)) \<Longrightarrow> holds I (asks f) Q"
  by (auto simp: holds_def)

lemma holds_andthen_post:
  "holds I m Q1 \<Longrightarrow> (\<And>x. Q1 x \<Longrightarrow> holds I (f x) Q) \<Longrightarrow> holds I (andthen m f) Q"
  by (rule holdsI) (fastforce simp: andthen_def holds_def split: prod.splits result.splits)

lemma holds_andthen [keeps]:
  "holds I m (\<lambda>_. True) \<Longrightarrow> (\<And>x. holds I (f x) Q) \<Longrightarrow> holds I (andthen m f) Q"
  by (rule holds_andthen_post)

lemma holds_attempt [keeps]: "holds I m (\<lambda>_. True) \<Longrightarrow> holds I (attempt m) (\<lambda>_. True)"
  by (rule holdsI) (fastforce simp: attempt_def holds_def split: prod.splits result.splits)

lemma holds_ignoring [keeps]: "holds I m (\<lambda>_. True) \<Longrightarrow> holds I (ignoring m) (\<lambda>_. True)"
  by (rule holdsI) (fastforce simp: ignoring_def holds_def split: prod.splits result.splits)

lemma holds_whenever [keeps]: "holds I m (\<lambda>_. True) \<Longrightarrow> holds I (whenever b m) (\<lambda>_. True)"
  by (simp add: whenever_def holds_ret)

lemma holds_if [keeps]:
  "(b \<Longrightarrow> holds I m Q) \<Longrightarrow> (\<not> b \<Longrightarrow> holds I m' Q) \<Longrightarrow> holds I (if b then m else m') Q"
  by simp

lemma holds_case_option [keeps]:
  "(x = None \<Longrightarrow> holds I m Q) \<Longrightarrow> (\<And>y. x = Some y \<Longrightarrow> holds I (f y) Q) \<Longrightarrow>
     holds I (case x of None \<Rightarrow> m | Some y \<Rightarrow> f y) Q"
  by (cases x) auto

lemma holds_case_result [keeps]:
  "(\<And>y. x = Ok y \<Longrightarrow> holds I (f y) Q) \<Longrightarrow> (\<And>y. x = Err y \<Longrightarrow> holds I (g y) Q) \<Longrightarrow>
   (\<And>y. x = Panic y \<Longrightarrow> holds I (h y) Q) \<Longrightarrow>
     holds I (case x of Ok y \<Rightarrow> f y | Err y \<Rightarrow> g y | Panic y \<Rightarrow> h y) Q"
  by (cases x) auto

lemma holds_for_each [keeps]:
  "(\<And>x. x \<in> set xs \<Longrightarrow> holds I (f x) (\<lambda>_. True)) \<Longrightarrow> holds I (for_each xs f) (\<lambda>_. True)"
proof (induction xs)
  case (Cons x xs)
  have "holds I (andthen (f x) (\<lambda>_. for_each xs f)) (\<lambda>_. True)"
    by (rule holds_andthen) (use Cons in auto)
  then show ?case by simp
qed (simp add: holds_ret)

lemma holds_fold_go:
  "(\<And>x acc. x \<in> set xs \<Longrightarrow> Q acc \<Longrightarrow> holds I (f x acc) Q) \<Longrightarrow> Q acc \<Longrightarrow> holds I (fold_go xs f acc) Q"
proof (induction xs arbitrary: acc)
  case (Cons x xs)
  have "holds I (andthen (f x acc) (\<lambda>acc'. fold_go xs f acc')) Q"
    by (rule holds_andthen_post [where ?Q1.0 = Q]) (use Cons in auto)
  then show ?case by simp
qed (simp add: holds_ret)

text \<open>An invariant that reads only the tables: calls of the other services keep it.\<close>

definition on_db :: "(db \<Rightarrow> bool) \<Rightarrow> env \<Rightarrow> world \<Rightarrow> bool" where
  "on_db P e w = P (w_db w)"

lemma holds_clock [keeps]:
  "holds (on_db P) now_utc (\<lambda>_. True)" "holds (on_db P) fresh_uuid (\<lambda>_. True)"
  "holds (on_db P) (bcrypt_hash pw) (\<lambda>_. True)" "holds (on_db P) (validate d) (\<lambda>_. True)"
  "holds (on_db P) has_cache (\<lambda>_. True)" "holds (on_db P) (uuid_str i) (\<lambda>_. True)"
  by (auto simp: holds_def on_db_def now_utc_def fresh_uuid_def bcrypt_hash_def validate_def
      has_cache_def uuid_str_def split: option.splits)

lemma holds_external:
  assumes "\<And>t w r w'. call t w = (r, w') \<Longrightarrow> P (w_db w) \<Longrightarrow> P (w_db w') \<and> (\<forall>x. r = Ok x \<longrightarrow> Q x)"
  shows "holds (on_db P) (external call) Q"
proof (rule holdsI)
  fix e w r w'
  assume I: "on_db P e w" and run: "external call e w = (r, w')"
  obtain r1 w1 where c: "call (e_clock e (w_tick w)) (w\<lparr>w_tick := Suc (w_tick w)\<rparr>) = (r1, w1)"
    by fastforce
  have "P (w_db w1) \<and> (\<forall>x. r1 = Ok x \<longrightarrow> Q x)"
    using assms [OF c] I by (simp add: on_db_def)
  with I run c show "on_db P e w' \<and> (\<forall>x. r = Ok x \<longrightarrow> Q x)"
    by (simp add: external_def on_db_def Let_def split: option.splits fault.splits) auto
qed

lemma holds_sql:
  assumes "\<And>t d r d'. q t d = (r, d') \<Longrightarrow> P d \<Longrightarrow> P d' \<and> (\<forall>x. r = Ok x \<longrightarrow> Q x)"
  shows "holds (on_db P) (sql q) Q"
  unfolding sql_def
  by (rule holds_external) (auto simp: run_sql_def dest: assms split: prod.splits)

lemma holds_cache_call [keeps]: "holds (on_db P) (cache_call cop) (\<lambda>_. True)"
proof -
  have "holds (on_db P)
      (external (\<lambda>t w. let (r, c) = cop t (w_cache w) in (r, w\<lparr>w_cache := c\<rparr>))) (\<lambda>_. True)"
    by (rule holds_external) (auto split: prod.splits)
  then show ?thesis
    by (auto simp: holds_def cache_call_def on_db_def)
qed

lemma holds_cache_ops [keeps]:
  "holds (on_db P) (Cache_Set k v t) (\<lambda>_. True)" "holds (on_db P) (Cache_Delete k) (\<lambda>_. True)"
  "holds (on_db P) (Cache_Exists k) (\<lambda>_. True)"
  "holds (on_db P) (Cache_DeletePattern k) (\<lambda>_. True)"
  "holds (on_db P) (Cache_GetJSON dec k) (\<lambda>_. True)"
  "holds (on_db P) (Cache_SetJSON enc k x t) (\<lambda>_. True)"
  by (simp_all add: cache_ops keeps)

lemma tx_begin_db: "w_db (snd (tx_begin e w)) = w_db w"
  and tx_commit_db: "w_db (snd (tx_commit e w)) = w_db w"
  by (auto simp: tx_begin_def tx_commit_def external_def Let_def split: option.splits fault.splits)

lemma holds_transaction [keeps]:
  assumes "holds (on_db P) fn (\<lambda>_. True)"
  shows "holds (on_db P) (RunInTransaction fn) (\<lambda>_. True)"
proof (rule holdsI)
  fix e w r w'
  assume I: "on_db P e w" and run: "RunInTransaction fn e w = (r, w')"
  obtain r0 w0 where b: "tx_begin e w = (r0, w0)" by fastforce
  have P0: "P (w_db w0)"
    using I tx_begin_db [of e w] b by (simp add: on_db_def)
  show "on_db P e w' \<and> (\<forall>x. r = Ok x \<longrightarrow> True)"
  proof (cases r0)
    case (Ok u)
    define wt where "wt = w0\<lparr>w_tx_time := Some (e_clock e (w_tick w))\<rparr>"
    obtain r1 w1 where f: "fn e wt = (r1, w1)" by fastforce
    have P1: "P (w_db w1)"
      using assms f P0 by (auto simp: holds_def on_db_def wt_def dest!: spec [where x = e] spec [where x = wt])
    obtain r2 w2 where c: "tx_commit e w1 = (r2, w2)" by fastforce
    have "w_db w2 = w_db w1" using tx_commit_db [of e w1] c by simp
    with P0 P1 run b Ok f c show ?thesis
      by (cases r1) (auto simp: RunInTransaction_def on_db_def wt_def split: if_splits)
  qed (use run b P0 in \<open>auto simp: RunInTransaction_def on_db_def\<close>)
qed

end
