(* ===== verification/Repositories.thy ===== *)
theory Repositories
  imports World
begin

text \<open>
  The repositories of \<open>internal/infrastructure/database/repository\<close> and the query builder of
  \<open>internal/infrastructure/database/querybuilder/task\_queries.go\<close>: what each method sends to
  the server, how rows become entities, and which errors it passes on.  A method that finds no
  row returns a nil pointer, here \<open>None\<close>.
\<close>

section \<open>Nullable columns\<close>

definition nonempty :: "string \<Rightarrow> string option" where
  "nonempty s = (if s \<noteq> [] then Some s else None)"

definition or_empty :: "string option \<Rightarrow> string" where
  "or_empty s = (case s of None \<Rightarrow> [] | Some x \<Rightarrow> x)"

lemma or_empty_nonempty [simp]: "or_empty (nonempty s) = s"
  by (simp add: or_empty_def nonempty_def)

text \<open>\<open>if errors.Is(err, pgx.ErrNoRows) { return nil, nil }\<close>\<close>

definition no_rows_is_nil :: "'a go \<Rightarrow> 'a option go" where
  "no_rows_is_nil m = andthen (attempt m) (\<lambda>r.
     case r of
       Ok x \<Rightarrow> ret (Some x)
     | Err err \<Rightarrow> if errors_Is err pgx_ErrNoRows then ret None else raise err
     | Panic p \<Rightarrow> panic p)"

section \<open>Pages\<close>

definition divide_by_zero :: string where
  "divide_by_zero = ''integer divide by zero''"

definition page_offset :: "pagination \<Rightarrow> int" where
  "page_offset p = to_int32 (to_int64 (to_int64 (pg_page p - 1) * pg_size p))"

definition page_limit :: "pagination \<Rightarrow> int" where
  "page_limit p = to_int32 (pg_size p)"

definition paginated :: "int \<Rightarrow> pagination \<Rightarrow> paginated_result result" where
  "paginated tot p =
     (if pg_size p = 0 then Panic divide_by_zero
      else
        let pages = go_div tot (pg_size p);
            pages' = (if go_mod tot (pg_size p) > 0 then pages + 1 else pages)
        in Ok \<lparr>pr_total = tot, pr_page = pg_page p, pr_size = pg_size p,
               pr_total_pages = pages'\<rparr>)"

section \<open>Tasks (task\_repository.go)\<close>

definition sqlcTaskToEntity :: "task_row \<Rightarrow> task" where
  "sqlcTaskToEntity row =
     \<lparr>t_id = tr_id row, t_title = tr_title row, t_description = or_empty (tr_description row),
      t_status = tr_status row, t_priority = tr_priority row, t_due = tr_due row,
      t_assignee = tr_assignee row, t_creator = tr_creator row, t_labels = [],
      t_created = tr_created row, t_updated = tr_updated row\<rparr>"

definition Task_Save :: "task \<Rightarrow> unit go" where
  "Task_Save t = andthen (sql (q_CreateTask
       \<lparr>tr_id = t_id t, tr_title = t_title t, tr_description = nonempty (t_description t),
        tr_status = t_status t, tr_priority = t_priority t, tr_due = t_due t,
        tr_assignee = t_assignee t, tr_creator = t_creator t, tr_created = t_created t,
        tr_updated = t_updated t\<rparr>)) (\<lambda>_. ret ())"

definition Task_Update :: "task \<Rightarrow> unit go" where
  "Task_Update t = andthen (sql (q_UpdateTask (t_id t) (t_title t) (nonempty (t_description t))
       (t_status t) (t_priority t) (t_due t) (t_assignee t))) (\<lambda>_. ret ())"

definition Task_Delete :: "uuid \<Rightarrow> unit go" where
  "Task_Delete i = sql (q_DeleteTask i)"

definition Task_FindByID :: "uuid \<Rightarrow> task option go" where
  "Task_FindByID i = andthen (no_rows_is_nil (sql (q_GetTask i)))
     (\<lambda>row. ret (map_option sqlcTaskToEntity row))"

definition Task_FindAll :: "task_filter \<Rightarrow> pagination \<Rightarrow> (task list \<times> paginated_result) go" where
  "Task_FindAll filt p =
     (let off = page_offset p; lim = page_limit p in
      andthen (asks e_pg_ilike) (\<lambda>ilike.
      andthen
        (case tf_status filt of
           Some status \<Rightarrow> sql (q_ListTasksByStatus status lim off)
         | None \<Rightarrow>
        (case tf_assignee filt of
           Some a \<Rightarrow> sql (q_ListTasksByAssignee a lim off)
         | None \<Rightarrow>
        (case tf_creator filt of
           Some c \<Rightarrow> sql (q_ListTasksByCreator c lim off)
         | None \<Rightarrow>
           if tf_search filt \<noteq> [] then sql (q_SearchTasks ilike (tf_search filt) lim off)
           else sql (q_ListTasks lim off)))) (\<lambda>rows.
      andthen (sql q_CountTasks) (\<lambda>total.
      andthen (lift (paginated total p)) (\<lambda>res.
      ret (map sqlcTaskToEntity rows, res))))))"

definition empty_filter :: task_filter where
  "empty_filter = \<lparr>tf_status = None, tf_priority = None, tf_assignee = None, tf_creator = None,
     tf_labels = [], tf_search = [], tf_overdue = None\<rparr>"

definition Task_FindByAssignee :: "uuid \<Rightarrow> pagination \<Rightarrow> (task list \<times> paginated_result) go" where
  "Task_FindByAssignee a p = Task_FindAll (empty_filter\<lparr>tf_assignee := Some a\<rparr>) p"

definition Task_FindByCreator :: "uuid \<Rightarrow> pagination \<Rightarrow> (task list \<times> paginated_result) go" where
  "Task_FindByCreator c p = Task_FindAll (empty_filter\<lparr>tf_creator := Some c\<rparr>) p"

definition Task_CountByStatus :: "task_status \<Rightarrow> int go" where
  "Task_CountByStatus status = sql (q_CountTasksByStatus status)"

definition Task_ExistsByID :: "uuid \<Rightarrow> bool go" where
  "Task_ExistsByID i = sql (q_TaskExists i)"

section \<open>The task query builder (task\_queries.go)\<close>

definition TaskAllowedSortColumns :: "string list" where
  "TaskAllowedSortColumns =
     [''title'', ''status'', ''priority'', ''due_date'', ''created_at'', ''updated_at'']"

text \<open>
  \<open>strings.EqualFold\<close> against an ASCII word: besides the letter case, the Kelvin sign folds
  to k and the long s to s.
\<close>

fun fold_case :: "string \<Rightarrow> string" where
  "fold_case [] = []"
| "fold_case [c] = [ascii_lower c]"
| "fold_case (c # d # s) =
     (if of_char c = (0xC5::nat) \<and> of_char d = (0xBF::nat) then CHR ''s'' # fold_case s
      else if of_char c = (0xE2::nat) \<and> of_char d = (0x84::nat) \<and> s \<noteq> [] \<and> of_char (hd s) = (0xAA::nat)
        then CHR ''k'' # fold_case (tl s)
      else ascii_lower c # fold_case (d # s))"

definition allowed_column :: "string \<Rightarrow> string option" where
  "allowed_column sortBy = find (\<lambda>c. fold_case sortBy = c) TaskAllowedSortColumns"

text \<open>\<open>ORDER BY column ASC|DESC\<close>; a null sorts last ascending and first descending.\<close>

definition column_value :: "(string \<Rightarrow> nat) \<Rightarrow> string \<Rightarrow> task_row \<Rightarrow> int" where
  "column_value collate col r =
     (if col = ''title'' then int (collate (tr_title r))
      else if col = ''status'' then int (collate (tr_status r))
      else if col = ''priority'' then int (collate (tr_priority r))
      else if col = ''due_date'' then (case tr_due r of None \<Rightarrow> 0 | Some t \<Rightarrow> t)
      else if col = ''created_at'' then tr_created r
      else tr_updated r)"

definition column_null :: "string \<Rightarrow> task_row \<Rightarrow> int" where
  "column_null col r = (if col = ''due_date'' \<and> tr_due r = None then 1 else 0)"

definition order_rows :: "(string \<Rightarrow> nat) \<Rightarrow> string \<Rightarrow> bool \<Rightarrow> task_row list \<Rightarrow> task_row list" where
  "order_rows collate col desc rows =
     (let s = (if desc then -1 else 1) in
      sort_key (\<lambda>r. s * column_null col r) (sort_key (\<lambda>r. s * column_value collate col r) rows))"

definition builder_page_size :: "pagination \<Rightarrow> int" where
  "builder_page_size p =
     (let pageSize = (if pg_size p < 1 then 20 else pg_size p)
      in if pageSize > 100 then 100 else pageSize)"

definition builder_offset :: "pagination \<Rightarrow> int" where
  "builder_offset p =
     to_int64 (to_int64 ((if pg_page p < 1 then 1 else pg_page p) - 1) * builder_page_size p)"

text \<open>An offset above the range of \<open>bigint\<close> is refused by the server.\<close>

definition builder_page :: "pagination \<Rightarrow> 'r list \<Rightarrow> 'r list result" where
  "builder_page p rows =
     (if builder_offset p < 0 then Err (External ''22003'')
      else Ok (take (nat (builder_page_size p)) (drop (nat (builder_offset p)) rows)))"

text \<open>\<open>scanTasks\<close>: a null description cannot be scanned into the string of \<open>TaskRow\<close>.\<close>

fun scanTasks :: "task_row list \<Rightarrow> task list result" where
  "scanTasks [] = Ok []"
| "scanTasks (r # rs) =
     (case tr_description r of
        None \<Rightarrow> Err (External ''cannot scan NULL into *string'')
      | Some d \<Rightarrow>
          (case scanTasks rs of Ok ts \<Rightarrow> Ok (sqlcTaskToEntity r # ts) | x \<Rightarrow> x))"

definition title_matches :: "(string \<Rightarrow> string \<Rightarrow> bool) \<Rightarrow> string \<Rightarrow> task_row \<Rightarrow> bool" where
  "title_matches ilike query r \<longleftrightarrow> query = [] \<or> ilike (tr_title r) (''%'' @ query @ ''%'')"

definition text_matches :: "(string \<Rightarrow> string \<Rightarrow> bool) \<Rightarrow> string \<Rightarrow> task_row \<Rightarrow> bool" where
  "text_matches ilike query r \<longleftrightarrow> query = [] \<or> ilike (tr_title r) (''%'' @ query @ ''%'')
     \<or> (case tr_description r of None \<Rightarrow> False | Some d \<Rightarrow> ilike d (''%'' @ query @ ''%''))"

definition count_rows :: "(task_row \<Rightarrow> bool) \<Rightarrow> int sql" where
  "count_rows P = q_read (\<lambda>d. int (length (filter P (db_tasks d))))"

definition TQB_Search :: "string \<Rightarrow> pagination \<Rightarrow> (task list \<times> int) go" where
  "TQB_Search query p =
     andthen (asks e_pg_ilike) (\<lambda>ilike.
     andthen (asks e_pg_collate) (\<lambda>collate.
     andthen (sql (count_rows (title_matches ilike query))) (\<lambda>total.
     if total = 0 then ret ([], 0)
     else
       andthen (sql (\<lambda>now d. (builder_page p
           (let rows = filter (text_matches ilike query) (db_tasks d) in
            if pg_sort_by p \<noteq> [] then
              (case allowed_column (pg_sort_by p) of
                 Some col \<Rightarrow> order_rows collate col (pg_sort_desc p) rows
               | None \<Rightarrow> rows)
            else rows), d))) (\<lambda>rows.
       andthen (lift (scanTasks rows)) (\<lambda>tasks. ret (tasks, total))))))"

definition overdue_row :: "time \<Rightarrow> task_row \<Rightarrow> bool" where
  "overdue_row now r \<longleftrightarrow> (case tr_due r of None \<Rightarrow> False | Some t \<Rightarrow> t < now)
     \<and> tr_status r \<noteq> ''DONE'' \<and> tr_status r \<noteq> ''ARCHIVED''"

definition TQB_FindOverdue :: "pagination \<Rightarrow> (task list \<times> int) go" where
  "TQB_FindOverdue p =
     andthen now_utc (\<lambda>now.
     andthen (asks e_pg_collate) (\<lambda>collate.
     andthen (sql (count_rows (overdue_row now))) (\<lambda>total.
     if total = 0 then ret ([], 0)
     else
       andthen (sql (\<lambda>_ d. (builder_page p (order_rows collate ''due_date'' False
           (filter (overdue_row now) (db_tasks d))), d))) (\<lambda>rows.
       andthen (lift (scanTasks rows)) (\<lambda>tasks. ret (tasks, total))))))"

definition Task_Search :: "string \<Rightarrow> pagination \<Rightarrow> (task list \<times> paginated_result) go" where
  "Task_Search query p =
     andthen (TQB_Search query p) (\<lambda>(tasks, total).
     andthen (lift (paginated total p)) (\<lambda>res. ret (tasks, res)))"

definition Task_FindOverdue :: "pagination \<Rightarrow> (task list \<times> paginated_result) go" where
  "Task_FindOverdue p =
     andthen (TQB_FindOverdue p) (\<lambda>(tasks, total).
     andthen (lift (paginated total p)) (\<lambda>res. ret (tasks, res)))"

section \<open>Attachments (task\_repository.go)\<close>

definition sqlcAttachmentToEntity :: "attachment_row \<Rightarrow> attachment" where
  "sqlcAttachmentToEntity row =
     \<lparr>at_id = ar_id row, at_task = ar_task row, at_filename = ar_filename row,
      at_key = ar_key row, at_content_type = or_empty (ar_content_type row),
      at_size = (case ar_size row of None \<Rightarrow> 0 | Some n \<Rightarrow> n),
      at_uploader = (case ar_uploader row of None \<Rightarrow> uuid_Nil | Some u \<Rightarrow> u),
      at_created = ar_created row\<rparr>"

definition SaveAttachment :: "attachment \<Rightarrow> unit go" where
  "SaveAttachment a = andthen (sql (q_CreateTaskAttachment
       \<lparr>ar_id = at_id a, ar_task = at_task a, ar_filename = at_filename a, ar_key = at_key a,
        ar_content_type = nonempty (at_content_type a),
        ar_size = (if at_size a > 0 then Some (at_size a) else None),
        ar_uploader = (if at_uploader a \<noteq> uuid_Nil then Some (at_uploader a) else None),
        ar_created = at_created a\<rparr>)) (\<lambda>_. ret ())"

definition FindAttachmentByID :: "uuid \<Rightarrow> attachment option go" where
  "FindAttachmentByID i = andthen (no_rows_is_nil (sql (q_GetTaskAttachment i)))
     (\<lambda>row. ret (map_option sqlcAttachmentToEntity row))"

definition FindAttachmentsByTaskID :: "uuid \<Rightarrow> attachment list go" where
  "FindAttachmentsByTaskID t = andthen (sql (q_ListTaskAttachments t))
     (\<lambda>rows. ret (map sqlcAttachmentToEntity rows))"

definition DeleteAttachment :: "uuid \<Rightarrow> unit go" where
  "DeleteAttachment i = sql (q_DeleteTaskAttachment i)"

definition DeleteAttachmentsByTaskID :: "uuid \<Rightarrow> unit go" where
  "DeleteAttachmentsByTaskID t = sql (q_DeleteTaskAttachmentsByTask t)"

section \<open>Users (user\_repository.go)\<close>

definition sqlcUserToEntity :: "user_row \<Rightarrow> user" where
  "sqlcUserToEntity row =
     \<lparr>u_id = ur_id row, u_email = ur_email row, u_password_hash = ur_password_hash row,
      u_name = ur_name row, u_roles = [], u_created = ur_created row,
      u_updated = ur_updated row\<rparr>"

definition sqlcRoleToEntity :: "role_row \<Rightarrow> role" where
  "sqlcRoleToEntity row =
     \<lparr>r_id = rr_id row, r_name = rr_name row, r_description = or_empty (rr_description row),
      r_permissions = [], r_created = rr_created row, r_updated = rr_updated row\<rparr>"

text \<open>The permissions of a role are appended in the order of the rows that name it.\<close>

definition with_permissions :: "(uuid \<times> permission) list \<Rightarrow> role_row \<Rightarrow> role" where
  "with_permissions permRows row =
     (sqlcRoleToEntity row)\<lparr>r_permissions :=
        map snd (filter (\<lambda>(i, p). i = rr_id row) permRows)\<rparr>"

definition loadUserRoles :: "uuid \<Rightarrow> role list go" where
  "loadUserRoles u =
     andthen (sql (q_GetUserRoles u)) (\<lambda>roleRows.
     if roleRows = [] then ret []
     else andthen (sql (q_GetPermissionsByRoleIDs (map rr_id roleRows))) (\<lambda>permRows.
          ret (map (with_permissions permRows) roleRows)))"

definition syncUserRoles :: "user \<Rightarrow> unit go" where
  "syncUserRoles u =
     andthen (sql (q_GetUserRoles (u_id u))) (\<lambda>existing.
     andthen (for_each existing (\<lambda>r.
        if rr_id r \<notin> r_id ` set (u_roles u) then sql (q_RemoveRoleFromUser (u_id u) (rr_id r))
        else ret ())) (\<lambda>_.
     for_each (u_roles u) (\<lambda>r.
        if r_id r \<in> rr_id ` set existing then ret ()
        else sql (q_AssignRoleToUser (u_id u) (r_id r)))))"

definition User_Save :: "user \<Rightarrow> unit go" where
  "User_Save u =
     andthen (sql (q_CreateUser
       \<lparr>ur_id = u_id u, ur_email = u_email u, ur_password_hash = u_password_hash u,
        ur_name = u_name u, ur_created = u_created u, ur_updated = u_updated u\<rparr>))
     (\<lambda>_. syncUserRoles u)"

definition User_Update :: "user \<Rightarrow> unit go" where
  "User_Update u =
     andthen (sql (q_UpdateUser (u_id u) (u_email u) (u_name u) (u_password_hash u)))
     (\<lambda>_. syncUserRoles u)"

definition User_Delete :: "uuid \<Rightarrow> unit go" where
  "User_Delete i = sql (q_DeleteUser i)"

definition User_FindByID :: "uuid \<Rightarrow> user option go" where
  "User_FindByID i =
     andthen (no_rows_is_nil (sql (q_GetUser i))) (\<lambda>row.
     case row of
       None \<Rightarrow> ret None
     | Some r \<Rightarrow> andthen (loadUserRoles i) (\<lambda>roles.
                ret (Some ((sqlcUserToEntity r)\<lparr>u_roles := roles\<rparr>))))"

definition User_FindByEmail :: "string \<Rightarrow> user option go" where
  "User_FindByEmail email =
     andthen (no_rows_is_nil (sql (q_GetUserByEmail email))) (\<lambda>row.
     case row of
       None \<Rightarrow> ret None
     | Some r \<Rightarrow> andthen (loadUserRoles (ur_id r)) (\<lambda>roles.
                ret (Some ((sqlcUserToEntity r)\<lparr>u_roles := roles\<rparr>))))"

definition User_FindAll :: "user_filter \<Rightarrow> pagination \<Rightarrow> (user list \<times> paginated_result) go" where
  "User_FindAll filt p =
     (let off = page_offset p; lim = page_limit p in
      andthen (asks e_pg_ilike) (\<lambda>ilike.
      andthen (if uf_search filt \<noteq> [] then sql (q_SearchUsers ilike (uf_search filt) lim off)
               else sql (q_ListUsers lim off)) (\<lambda>rows.
      andthen (sql q_CountUsers) (\<lambda>total.
      andthen (lift (paginated total p)) (\<lambda>res.
      ret (map sqlcUserToEntity rows, res))))))"

definition User_ExistsByID :: "uuid \<Rightarrow> bool go" where
  "User_ExistsByID i = sql (q_UserExists i)"

definition User_ExistsByEmail :: "string \<Rightarrow> bool go" where
  "User_ExistsByEmail email = sql (q_UserExistsByEmail email)"

section \<open>Roles and permissions (role\_repository.go)\<close>

definition Role_Save :: "role \<Rightarrow> unit go" where
  "Role_Save r =
     andthen (sql (q_UpsertRole
       \<lparr>rr_id = r_id r, rr_name = r_name r, rr_description = nonempty (r_description r),
        rr_created = r_created r, rr_updated = r_updated r\<rparr>)) (\<lambda>_.
     for_each (r_permissions r) (\<lambda>p.
       andthen (sql (q_UpsertPermission p)) (\<lambda>pRow.
       sql (q_AddPermissionToRole (r_id r) (p_id pRow)))))"

definition Role_Update :: "role \<Rightarrow> unit go" where
  "Role_Update r =
     andthen (sql (q_UpdateRole (r_id r) (r_name r) (nonempty (r_description r)))) (\<lambda>_. ret ())"

definition Role_Delete :: "uuid \<Rightarrow> unit go" where
  "Role_Delete i = sql (q_DeleteRole i)"

definition load_role :: "role_row option \<Rightarrow> role option go" where
  "load_role row =
     (case row of
        None \<Rightarrow> ret None
      | Some r \<Rightarrow> andthen (sql (q_GetRolePermissions (rr_id r))) (\<lambda>perms.
                 ret (Some ((sqlcRoleToEntity r)\<lparr>r_permissions := perms\<rparr>))))"

definition Role_FindByID :: "uuid \<Rightarrow> role option go" where
  "Role_FindByID i = andthen (no_rows_is_nil (sql (q_GetRole i))) load_role"

definition Role_FindByName :: "string \<Rightarrow> role option go" where
  "Role_FindByName name = andthen (no_rows_is_nil (sql (q_GetRoleByName name))) load_role"

definition Role_FindAll :: "role list go" where
  "Role_FindAll =
     andthen (asks e_pg_collate) (\<lambda>collate.
     andthen (sql (q_ListRoles collate)) (\<lambda>rows.
     if rows \<noteq> [] then
       andthen (sql (q_GetPermissionsByRoleIDs (map rr_id rows))) (\<lambda>perms.
       ret (map (with_permissions perms) rows))
     else ret []))"

definition Role_FindByUserID :: "uuid \<Rightarrow> role list go" where
  "Role_FindByUserID u = andthen (sql (q_GetUserRoles u)) (\<lambda>rows. ret (map sqlcRoleToEntity rows))"

definition Role_ExistsByID :: "uuid \<Rightarrow> bool go" where
  "Role_ExistsByID i = sql (q_RoleExists i)"
definition Role_ExistsByName :: "string \<Rightarrow> bool go" where
  "Role_ExistsByName name = sql (q_RoleExistsByName name)"
definition Role_DeleteByName :: "string \<Rightarrow> unit go" where
  "Role_DeleteByName name = sql (q_DeleteRoleByName name)"
definition Role_DeleteByNames :: "string list \<Rightarrow> unit go" where
  "Role_DeleteByNames names = sql (q_DeleteRolesByNames names)"
definition Role_RemoveAllPermissions :: "uuid \<Rightarrow> unit go" where
  "Role_RemoveAllPermissions i = sql (q_RemoveAllPermissionsFromRole i)"

definition Permission_Save :: "permission \<Rightarrow> unit go" where
  "Permission_Save p = andthen (sql (q_CreatePermission p)) (\<lambda>_. ret ())"
definition Permission_Delete :: "uuid \<Rightarrow> unit go" where
  "Permission_Delete i = sql (q_DeletePermission i)"
definition Permission_FindByID :: "uuid \<Rightarrow> permission option go" where
  "Permission_FindByID i = no_rows_is_nil (sql (q_GetPermission i))"
definition Permission_FindAll :: "permission list go" where
  "Permission_FindAll = andthen (asks e_pg_collate) (\<lambda>collate. sql (q_ListPermissions collate))"
definition Permission_FindByRoleID :: "uuid \<Rightarrow> permission list go" where
  "Permission_FindByRoleID r = sql (q_GetRolePermissions r)"
definition Permission_ExistsByID :: "uuid \<Rightarrow> bool go" where
  "Permission_ExistsByID i = sql (q_PermissionExists i)"
definition Permission_FindByName :: "string \<Rightarrow> permission option go" where
  "Permission_FindByName name = no_rows_is_nil (sql (q_GetPermissionByName name))"

section \<open>Labels and access control entries (label\_repository.go, acl\_repository.go)\<close>

definition Label_Save :: "label \<Rightarrow> unit go" where
  "Label_Save l = andthen (asks e_pg_lower) (\<lambda>low.
     andthen (sql (q_CreateLabel low l)) (\<lambda>_. ret ()))"
definition Label_Update :: "label \<Rightarrow> unit go" where
  "Label_Update l = andthen (asks e_pg_lower) (\<lambda>low.
     andthen (sql (q_UpdateLabel low (l_id l) (l_name l) (l_color l))) (\<lambda>_. ret ()))"
definition Label_Delete :: "uuid \<Rightarrow> unit go" where
  "Label_Delete i = sql (q_DeleteLabel i)"
definition Label_FindByID :: "uuid \<Rightarrow> label option go" where
  "Label_FindByID i = no_rows_is_nil (sql (q_GetLabel i))"
definition Label_FindByName :: "string \<Rightarrow> label option go" where
  "Label_FindByName name = andthen (asks e_pg_lower) (\<lambda>low.
     no_rows_is_nil (sql (q_GetLabelByName low name)))"
definition Label_FindAll :: "label list go" where
  "Label_FindAll = andthen (asks e_pg_collate) (\<lambda>collate. sql (q_ListLabels collate))"
definition Label_FindByTaskID :: "uuid \<Rightarrow> label list go" where
  "Label_FindByTaskID t = sql (q_GetTaskLabels t)"
definition Label_ExistsByID :: "uuid \<Rightarrow> bool go" where
  "Label_ExistsByID i = sql (q_LabelExists i)"

definition ACL_Save :: "acl_entry \<Rightarrow> unit go" where
  "ACL_Save a = andthen (sql (q_CreateACLEntry a)) (\<lambda>_. ret ())"
definition ACL_Delete :: "uuid \<Rightarrow> unit go" where
  "ACL_Delete i = sql (q_DeleteACLEntry i)"
definition ACL_FindByResource :: "resource_type \<Rightarrow> uuid \<Rightarrow> acl_entry list go" where
  "ACL_FindByResource rt ri = sql (q_GetACLEntriesByResource rt ri)"
definition ACL_FindBySubject :: "acl_subject_type \<Rightarrow> uuid \<Rightarrow> acl_entry list go" where
  "ACL_FindBySubject st si = sql (q_GetACLEntriesBySubject st si)"
definition ACL_HasPermission ::
  "resource_type \<Rightarrow> uuid \<Rightarrow> acl_subject_type \<Rightarrow> uuid \<Rightarrow> acl_permission \<Rightarrow> bool go" where
  "ACL_HasPermission rt ri st si perm = sql (q_HasPermission rt ri st si perm)"
definition ACL_DeleteByResource :: "resource_type \<Rightarrow> uuid \<Rightarrow> unit go" where
  "ACL_DeleteByResource rt ri = sql (q_DeleteACLEntriesByResource rt ri)"

end
