(* ===== verification/Consistency.thy ===== *)
theory Consistency
  imports Repositories
begin

text \<open>
  The consistency of the tables: primary keys and unique columns, foreign keys, and rows of
  tasks that are tasks of the domain.  Every statement of the generated queries keeps it, so
  every repository method keeps it on every exit, whatever fails.
\<close>

definition keys_ok :: "db \<Rightarrow> bool" where
  "keys_ok d \<longleftrightarrow>
     distinct (map ur_id (db_users d)) \<and> distinct (map ur_email (db_users d))
     \<and> distinct (map rr_id (db_roles d)) \<and> distinct (map rr_name (db_roles d))
     \<and> distinct (map p_id (db_permissions d)) \<and> distinct (map p_name (db_permissions d))
     \<and> distinct (db_user_roles d) \<and> distinct (db_role_permissions d)
     \<and> distinct (map l_id (db_labels d)) \<and> distinct (map tr_id (db_tasks d))
     \<and> distinct (db_task_labels d)
     \<and> distinct (map a_id (db_acl d)) \<and> distinct (map acl_key (db_acl d))
     \<and> distinct (map ar_id (db_attachments d))"

definition task_refs :: "db \<Rightarrow> task_row \<Rightarrow> bool" where
  "task_refs d r \<longleftrightarrow> tr_creator r \<in> user_ids d \<and> set_option (tr_assignee r) \<subseteq> user_ids d"

definition attachment_refs :: "db \<Rightarrow> attachment_row \<Rightarrow> bool" where
  "attachment_refs d a \<longleftrightarrow> ar_task a \<in> task_ids d \<and> set_option (ar_uploader a) \<subseteq> user_ids d"

definition refs_ok :: "db \<Rightarrow> bool" where
  "refs_ok d \<longleftrightarrow>
     set (db_user_roles d) \<subseteq> user_ids d \<times> role_ids d
     \<and> set (db_role_permissions d) \<subseteq> role_ids d \<times> permission_ids d
     \<and> set (db_task_labels d) \<subseteq> task_ids d \<times> label_ids d
     \<and> (\<forall>r\<in>set (db_tasks d). task_refs d r)
     \<and> (\<forall>a\<in>set (db_attachments d). attachment_refs d a)"

definition task_row_ok :: "task_row \<Rightarrow> bool" where
  "task_row_ok r \<longleftrightarrow>
     tr_title r \<noteq> [] \<and> TaskStatus_IsValid (tr_status r) \<and> Priority_IsValid (tr_priority r)"

definition db_inv :: "db \<Rightarrow> bool" where
  "db_inv d \<longleftrightarrow> keys_ok d \<and> refs_ok d \<and> (\<forall>r\<in>set (db_tasks d). task_row_ok r)"

lemma db_inv_empty: "db_inv empty_db"
  by (simp add: db_inv_def keys_ok_def refs_ok_def empty_db_def)

section \<open>Lists keyed by a column\<close>

lemma find_in: "find P xs = Some x \<Longrightarrow> x \<in> set xs \<and> P x"
  by (auto simp: find_Some_iff)

lemma find_key_None: "find (\<lambda>r. key r = i) xs = None \<longleftrightarrow> i \<notin> key ` set xs"
  by (auto simp: find_None_iff)

lemma find_key_some: "i \<in> key ` set xs \<Longrightarrow> \<exists>r. find (\<lambda>r. key r = i) xs = Some r"
  using find_key_None [of key i xs] by (cases "find (\<lambda>r. key r = i) xs") auto

lemma map_replace_same:
  "f row = f old \<Longrightarrow> (\<And>r. r \<in> set xs \<Longrightarrow> key r = i \<Longrightarrow> f r = f old) \<Longrightarrow>
     map f (map (\<lambda>r. if key r = i then row else r) xs) = map f xs"
  by (induction xs) auto

lemma keyed_same: "distinct (map key xs) \<Longrightarrow> x \<in> set xs \<Longrightarrow> y \<in> set xs \<Longrightarrow> key x = key y \<Longrightarrow> x = y"
  by (auto simp: distinct_map dest: inj_onD)

lemma distinct_replace:
  assumes "distinct (map key xs)" "distinct (map f xs)"
    and "\<And>r. r \<in> set xs \<Longrightarrow> key r \<noteq> i \<Longrightarrow> f r \<noteq> f row"
  shows "distinct (map f (map (\<lambda>r. if key r = i then row else r) xs))"
  using assms
proof (induction xs)
  case (Cons x xs)
  have IH: "distinct (map f (map (\<lambda>r. if key r = i then row else r) xs))"
    using Cons by auto
  show ?case
  proof (cases "key x = i")
    case True
    with Cons.prems(1) have other: "\<forall>r\<in>set xs. key r \<noteq> i" by (auto simp: image_iff)
    then have "map (\<lambda>r. if key r = i then row else r) xs = xs" by (simp add: map_idI)
    with other Cons.prems True show ?thesis by force
  next
    case False
    with Cons.prems IH show ?thesis by (auto simp: image_iff split: if_splits)
  qed
qed simp

lemma image_replace:
  assumes "find (\<lambda>r. key r = i) xs = Some old" "key row = key old"
  shows "key ` set (map (\<lambda>r. if key r = i then row else r) xs) = key ` set xs"
proof -
  have "old \<in> set xs" "key old = i" using find_in [OF assms(1)] by auto
  with assms(2) have "map key (map (\<lambda>r. if key r = i then row else r) xs) = map key xs" by auto
  then show ?thesis by (metis set_map)
qed

lemma distinct_map_filterI: "distinct (map f xs) \<Longrightarrow> distinct (map f (filter P xs))"
  by (induction xs) auto

lemma survivor:
  "i \<in> key ` set xs \<Longrightarrow> i \<notin> key ` {x \<in> set xs. P x} \<Longrightarrow> i \<in> key ` {x \<in> set xs. \<not> P x}"
  by auto

lemma find_key_unique:
  "distinct (map key xs) \<Longrightarrow> x \<in> set xs \<Longrightarrow> find (\<lambda>r. key r = key x) xs = Some x"
  by (induction xs) (auto simp: image_iff)

section \<open>Statements\<close>

text \<open>A statement keeps the consistency of the tables.\<close>

definition stmt_keeps :: "'a sql \<Rightarrow> bool" where
  "stmt_keeps q \<longleftrightarrow> (\<forall>t d. db_inv d \<longrightarrow> db_inv (snd (q t d)))"

lemma stmt_keepsI: "(\<And>t d. db_inv d \<Longrightarrow> db_inv (snd (q t d))) \<Longrightarrow> stmt_keeps q"
  by (simp add: stmt_keeps_def)

lemmas reader_defs = q_GetUser_def q_GetUserByEmail_def q_ListUsers_def q_SearchUsers_def
  q_UserExists_def q_UserExistsByEmail_def q_CountUsers_def q_GetRole_def q_GetRoleByName_def
  q_ListRoles_def q_RoleExists_def q_RoleExistsByName_def q_GetPermission_def
  q_GetPermissionByName_def q_ListPermissions_def q_PermissionExists_def q_GetUserRoles_def
  q_GetRolePermissions_def q_GetPermissionsByRoleIDs_def q_GetLabel_def q_GetLabelByName_def
  q_ListLabels_def q_LabelExists_def q_GetTaskLabels_def q_GetLabelTasks_def q_GetTask_def
  q_ListTasks_def q_ListTasksByStatus_def q_ListTasksByAssignee_def q_ListTasksByCreator_def
  q_SearchTasks_def q_CountTasks_def q_CountTasksByStatus_def q_TaskExists_def count_rows_def
  q_GetTaskAttachment_def q_ListTaskAttachments_def q_GetACLEntry_def
  q_GetACLEntriesByResource_def q_GetACLEntriesBySubject_def q_HasPermission_def

lemma stmt_read [keeps]: "stmt_keeps (q_read f)" "stmt_keeps (q_one g)"
  by (auto simp: stmt_keeps_def q_read_def q_one_def split: option.splits)

lemma stmt_pure: "(\<And>t d. snd (q t d) = d) \<Longrightarrow> stmt_keeps q"
  by (simp add: stmt_keeps_def)

lemmas inv_defs = db_inv_def keys_ok_def refs_ok_def task_refs_def attachment_refs_def id_sets

lemma CreateUser_keeps [keeps]: "stmt_keeps (q_CreateUser arg)"
  by (rule stmt_keepsI) (auto simp: q_CreateUser_def Let_def inv_defs)

text \<open>New rows for a table with the same ids: only the unique columns are to be checked.\<close>

lemma db_inv_users:
  "db_inv d \<Longrightarrow> ur_id ` set us = ur_id ` set (db_users d) \<Longrightarrow>
     distinct (map ur_id us) \<Longrightarrow> distinct (map ur_email us) \<Longrightarrow> db_inv (d\<lparr>db_users := us\<rparr>)"
  by (simp add: inv_defs)

lemma db_inv_roles:
  "db_inv d \<Longrightarrow> rr_id ` set us = rr_id ` set (db_roles d) \<Longrightarrow>
     distinct (map rr_id us) \<Longrightarrow> distinct (map rr_name us) \<Longrightarrow> db_inv (d\<lparr>db_roles := us\<rparr>)"
  by (simp add: inv_defs)

lemma db_inv_permissions:
  "db_inv d \<Longrightarrow> p_id ` set us = p_id ` set (db_permissions d) \<Longrightarrow>
     distinct (map p_id us) \<Longrightarrow> distinct (map p_name us) \<Longrightarrow> db_inv (d\<lparr>db_permissions := us\<rparr>)"
  by (simp add: inv_defs)

lemma db_inv_labels:
  "db_inv d \<Longrightarrow> l_id ` set us = l_id ` set (db_labels d) \<Longrightarrow>
     distinct (map l_id us) \<Longrightarrow> db_inv (d\<lparr>db_labels := us\<rparr>)"
  by (simp add: inv_defs)

lemma db_inv_tasks:
  "db_inv d \<Longrightarrow> tr_id ` set us = tr_id ` set (db_tasks d) \<Longrightarrow> distinct (map tr_id us) \<Longrightarrow>
     (\<And>r. r \<in> set us \<Longrightarrow> task_refs d r \<and> task_row_ok r) \<Longrightarrow> db_inv (d\<lparr>db_tasks := us\<rparr>)"
  by (simp add: inv_defs)

text \<open>What replacing the row of an id does to a table.\<close>

lemma replace_by_id:
  assumes "find (\<lambda>r. key r = i) xs = Some old" "key row = i" "distinct (map key xs)"
  shows "key ` set (map (\<lambda>r. if key r = i then row else r) xs) = key ` set xs"
    and "distinct (map key (map (\<lambda>r. if key r = i then row else r) xs))"
proof -
  have same: "map key (map (\<lambda>r. if key r = i then row else r) xs) = map key xs"
    using assms(2) by auto
  show "key ` set (map (\<lambda>r. if key r = i then row else r) xs) = key ` set xs"
    using same by (metis set_map)
  show "distinct (map key (map (\<lambda>r. if key r = i then row else r) xs))"
    using same assms(3) by metis
qed

lemma UpdateUser_keeps [keeps]: "stmt_keeps (q_UpdateUser i email name h)"
proof (rule stmt_keepsI)
  fix t d assume inv: "db_inv d"
  show "db_inv (snd (q_UpdateUser i email name h t d))"
  proof (cases "find (\<lambda>r. ur_id r = i) (db_users d)")
    case (Some old)
    define row where "row = old\<lparr>ur_email := email, ur_name := name, ur_password_hash := h,
                        ur_updated := pg_timestamptz t\<rparr>"
    have row: "ur_id row = i" "ur_email row = email" using find_in [OF Some] by (auto simp: row_def)
    have "db_inv (d\<lparr>db_users := map (\<lambda>r. if ur_id r = i then row else r) (db_users d)\<rparr>)"
      if "\<not> (\<exists>r\<in>set (db_users d). ur_id r \<noteq> i \<and> ur_email r = email)"
    proof (rule db_inv_users [OF inv])
      show "distinct (map ur_email (map (\<lambda>r. if ur_id r = i then row else r) (db_users d)))"
        using inv that row by (intro distinct_replace) (auto simp: inv_defs)
    qed (use replace_by_id [OF Some row(1)] inv in \<open>simp_all only: inv_defs\<close>)
    then show ?thesis using Some inv unfolding row_def by (auto simp: q_UpdateUser_def Let_def)
  qed (use inv in \<open>simp add: q_UpdateUser_def\<close>)
qed

lemma delete_tasks_keeps: "db_inv d \<Longrightarrow> db_inv (delete_tasks P d)"
  by (auto simp: delete_tasks_def Let_def inv_defs distinct_map_filterI intro!: survivor)

text \<open>Deleting a user once no task names it as creator.\<close>

lemma drop_user_keeps:
  assumes "db_inv d" "\<forall>r\<in>set (db_tasks d). tr_creator r \<noteq> i"
  shows "db_inv (d\<lparr>db_users := filter (\<lambda>r. ur_id r \<noteq> i) (db_users d),
     db_user_roles := filter (\<lambda>(u, r). u \<noteq> i) (db_user_roles d),
     db_tasks := map (\<lambda>r. if tr_assignee r = Some i
                          then r\<lparr>tr_assignee := None, tr_updated := t\<rparr> else r) (db_tasks d),
     db_attachments := map (\<lambda>a. if ar_uploader a = Some i then a\<lparr>ar_uploader := None\<rparr> else a)
                         (db_attachments d)\<rparr>)"
proof -
  define us where "us = filter (\<lambda>r. ur_id r \<noteq> i) (db_users d)"
  define urs where "urs = filter (\<lambda>(u, r). u \<noteq> i) (db_user_roles d)"
  define ts where "ts = map (\<lambda>r. if tr_assignee r = Some i
      then r\<lparr>tr_assignee := None, tr_updated := t\<rparr> else r) (db_tasks d)"
  define as where "as = map (\<lambda>a. if ar_uploader a = Some i then a\<lparr>ar_uploader := None\<rparr> else a)
      (db_attachments d)"
  have m: "map tr_id ts = map tr_id (db_tasks d)" "map ar_id as = map ar_id (db_attachments d)"
    by (auto simp: ts_def as_def)
  then have ids: "tr_id ` set ts = tr_id ` set (db_tasks d)" by (metis set_map)
  have us: "ur_id ` set us = ur_id ` set (db_users d) - {i}"
    "distinct (map ur_id us)" "distinct (map ur_email us)"
    using assms(1) by (auto simp: us_def inv_defs distinct_map_filterI)
  have urs: "distinct urs" "set urs \<subseteq> (user_ids d - {i}) \<times> role_ids d"
    using assms(1) by (auto simp: urs_def db_inv_def keys_ok_def refs_ok_def)
  have t: "tr_creator r \<in> user_ids d - {i} \<and> set_option (tr_assignee r) \<subseteq> user_ids d - {i}
      \<and> task_row_ok r" if r: "r \<in> set ts" for r
  proof -
    from r obtain r0 where r0: "r0 \<in> set (db_tasks d)"
      and eq: "r = (if tr_assignee r0 = Some i
        then r0\<lparr>tr_assignee := None, tr_updated := t\<rparr> else r0)" unfolding ts_def by auto
    have "task_refs d r0" "task_row_ok r0" "tr_creator r0 \<noteq> i"
      using assms r0 by (auto simp: db_inv_def refs_ok_def)
    then show ?thesis unfolding eq
      by (cases "tr_assignee r0") (auto simp: task_refs_def task_row_ok_def)
  qed
  have a: "ar_task a \<in> task_ids d \<and> set_option (ar_uploader a) \<subseteq> user_ids d - {i}"
    if a: "a \<in> set as" for a
  proof -
    from a obtain a0 where a0: "a0 \<in> set (db_attachments d)"
      and eq: "a = (if ar_uploader a0 = Some i then a0\<lparr>ar_uploader := None\<rparr> else a0)"
      unfolding as_def by auto
    have "attachment_refs d a0" using assms(1) a0 by (auto simp: db_inv_def refs_ok_def)
    then show ?thesis unfolding eq
      by (cases "ar_uploader a0") (auto simp: attachment_refs_def)
  qed
  have "db_inv (d\<lparr>db_users := us, db_user_roles := urs, db_tasks := ts, db_attachments := as\<rparr>)"
  proof -
    let ?d = "d\<lparr>db_users := us, db_user_roles := urs, db_tasks := ts, db_attachments := as\<rparr>"
    have s: "user_ids ?d = user_ids d - {i}" "task_ids ?d = task_ids d" "role_ids ?d = role_ids d"
      "permission_ids ?d = permission_ids d" "label_ids ?d = label_ids d"
      using us(1) ids by (simp_all add: id_sets)
    have "keys_ok ?d" using assms(1) us(2,3) urs(1) m unfolding db_inv_def keys_ok_def by simp
    moreover have "refs_ok ?d"
      unfolding refs_ok_def s task_refs_def attachment_refs_def
      using assms(1) urs(2) t a by (simp add: db_inv_def refs_ok_def)
    moreover have "\<forall>r\<in>set ts. task_row_ok r" using t by blast
    ultimately show ?thesis by (simp add: db_inv_def)
  qed
  then show ?thesis unfolding us_def urs_def ts_def as_def .
qed

lemma DeleteUser_keeps [keeps]: "stmt_keeps (q_DeleteUser i)"
proof (rule stmt_keepsI)
  fix t d assume inv: "db_inv d"
  define d1 where "d1 = delete_tasks (\<lambda>r. tr_creator r = i) d"
  have "db_inv d1" unfolding d1_def by (rule delete_tasks_keeps [OF inv])
  moreover have "\<forall>r\<in>set (db_tasks d1). tr_creator r \<noteq> i"
    by (simp add: d1_def delete_tasks_def Let_def)
  ultimately have "db_inv (snd (q_DeleteUser i t d))" if "i \<in> user_ids d"
    unfolding q_DeleteUser_def Let_def d1_def [symmetric]
    using drop_user_keeps [of d1 i "pg_timestamptz t"] that by simp
  then show "db_inv (snd (q_DeleteUser i t d))"
    using inv by (cases "i \<in> user_ids d") (simp_all add: q_DeleteUser_def)
qed

lemma CreateRole_keeps [keeps]: "stmt_keeps (q_CreateRole arg)"
  by (rule stmt_keepsI) (auto simp: q_CreateRole_def Let_def inv_defs)

lemma CreatePermission_keeps [keeps]: "stmt_keeps (q_CreatePermission arg)"
  by (rule stmt_keepsI) (auto simp: q_CreatePermission_def Let_def inv_defs)

lemma UpdateRole_keeps [keeps]: "stmt_keeps (q_UpdateRole i name desc)"
proof (rule stmt_keepsI)
  fix t d assume inv: "db_inv d"
  show "db_inv (snd (q_UpdateRole i name desc t d))"
  proof (cases "find (\<lambda>r. rr_id r = i) (db_roles d)")
    case (Some old)
    define row where "row = old\<lparr>rr_name := name,
                        rr_description := (case desc of None \<Rightarrow> rr_description old | x \<Rightarrow> x),
                        rr_updated := pg_timestamptz t\<rparr>"
    have row: "rr_id row = i" "rr_name row = name" using find_in [OF Some] by (auto simp: row_def)
    have "db_inv (d\<lparr>db_roles := map (\<lambda>r. if rr_id r = i then row else r) (db_roles d)\<rparr>)"
      if "\<not> (\<exists>r\<in>set (db_roles d). rr_id r \<noteq> i \<and> rr_name r = name)"
    proof (rule db_inv_roles [OF inv])
      show "distinct (map rr_name (map (\<lambda>r. if rr_id r = i then row else r) (db_roles d)))"
        using inv that row by (intro distinct_replace) (auto simp: inv_defs)
    qed (use replace_by_id [OF Some row(1)] inv in \<open>simp_all only: inv_defs\<close>)
    then show ?thesis using Some inv unfolding row_def by (auto simp: q_UpdateRole_def Let_def)
  qed (use inv in \<open>simp add: q_UpdateRole_def\<close>)
qed

text \<open>Replacing the row of a given name, keeping its id and name.\<close>

lemma replace_by_name:
  assumes "find (\<lambda>r. nm r = n) xs = Some old" "distinct (map nm xs)"
    and "nm row = nm old" "key row = key old"
  shows "map key (map (\<lambda>r. if nm r = n then row else r) xs) = map key xs
    \<and> map nm (map (\<lambda>r. if nm r = n then row else r) xs) = map nm xs"
proof -
  have old: "old \<in> set xs" "nm old = n" using find_in [OF assms(1)] by auto
  have "r \<in> set xs \<Longrightarrow> nm r = n \<Longrightarrow> r = old" for r
    using keyed_same [OF assms(2) _ old(1)] old(2) by metis
  then show ?thesis using assms(3,4) by (auto simp: map_eq_conv)
qed

lemma UpsertRole_keeps [keeps]: "stmt_keeps (q_UpsertRole arg)"
proof (rule stmt_keepsI)
  fix t d assume inv: "db_inv d"
  show "db_inv (snd (q_UpsertRole arg t d))"
  proof (cases "find (\<lambda>r. rr_name r = rr_name arg) (db_roles d)")
    case None
    then show ?thesis using CreateRole_keeps [of arg] inv
      by (simp add: q_UpsertRole_def stmt_keeps_def)
  next
    case (Some old)
    define row where "row = old\<lparr>rr_description := rr_description arg, rr_updated := pg_timestamptz t\<rparr>"
    define rows where "rows = map (\<lambda>r. if rr_name r = rr_name arg then row else r) (db_roles d)"
    have "map rr_id rows = map rr_id (db_roles d) \<and> map rr_name rows = map rr_name (db_roles d)"
      unfolding rows_def using inv Some
      by (intro replace_by_name [where old = old]) (auto simp: inv_defs row_def)
    moreover from this have "rr_id ` set rows = rr_id ` set (db_roles d)" by (metis set_map)
    moreover have "snd (q_UpsertRole arg t d) = d\<lparr>db_roles := rows\<rparr>"
      by (simp add: q_UpsertRole_def Some row_def rows_def Let_def)
    ultimately show ?thesis using inv by (auto intro!: db_inv_roles simp: inv_defs)
  qed
qed

lemma UpsertPermission_keeps [keeps]: "stmt_keeps (q_UpsertPermission arg)"
proof (rule stmt_keepsI)
  fix t d assume inv: "db_inv d"
  show "db_inv (snd (q_UpsertPermission arg t d))"
  proof (cases "find (\<lambda>p. p_name p = p_name arg) (db_permissions d)")
    case None
    then show ?thesis using CreatePermission_keeps [of arg] inv
      by (simp add: q_UpsertPermission_def stmt_keeps_def)
  next
    case (Some old)
    define row where "row = old\<lparr>p_resource := p_resource arg, p_action := p_action arg\<rparr>"
    define rows where "rows = map (\<lambda>p. if p_name p = p_name arg then row else p) (db_permissions d)"
    have "map p_id rows = map p_id (db_permissions d)
        \<and> map p_name rows = map p_name (db_permissions d)"
      unfolding rows_def using inv Some
      by (intro replace_by_name [where old = old]) (auto simp: inv_defs row_def)
    moreover from this have "p_id ` set rows = p_id ` set (db_permissions d)" by (metis set_map)
    moreover have "snd (q_UpsertPermission arg t d) = d\<lparr>db_permissions := rows\<rparr>"
      by (simp add: q_UpsertPermission_def Some row_def rows_def Let_def)
    ultimately show ?thesis using inv by (auto intro!: db_inv_permissions simp: inv_defs)
  qed
qed

lemma delete_roles_keeps: "db_inv d \<Longrightarrow> db_inv (delete_roles P d)"
  by (auto simp: delete_roles_def Let_def inv_defs distinct_map_filterI intro!: survivor)

lemma role_deletes_keep [keeps]:
  "stmt_keeps (q_DeleteRole i)" "stmt_keeps (q_DeleteRoleByName n)"
  "stmt_keeps (q_DeleteRolesByNames ns)"
  by (simp_all add: stmt_keeps_def q_DeleteRole_def q_DeleteRoleByName_def
      q_DeleteRolesByNames_def delete_roles_keeps)

lemma DeletePermission_keeps [keeps]: "stmt_keeps (q_DeletePermission i)"
  by (rule stmt_keepsI) (auto simp: q_DeletePermission_def inv_defs distinct_map_filterI)

lemma junctions_keep [keeps]:
  "stmt_keeps (q_AssignRoleToUser u r)" "stmt_keeps (q_RemoveRoleFromUser u r)"
  "stmt_keeps (q_AddPermissionToRole r p)" "stmt_keeps (q_RemovePermissionFromRole r p)"
  "stmt_keeps (q_RemoveAllPermissionsFromRole r)"
  "stmt_keeps (q_AddLabelToTask ta l)" "stmt_keeps (q_RemoveLabelFromTask ta l)"
  by (rule stmt_keepsI; auto simp: q_AssignRoleToUser_def q_RemoveRoleFromUser_def
      q_AddPermissionToRole_def q_RemovePermissionFromRole_def q_RemoveAllPermissionsFromRole_def
      q_AddLabelToTask_def q_RemoveLabelFromTask_def inv_defs)+

lemma CreateLabel_keeps [keeps]: "stmt_keeps (q_CreateLabel low arg)"
  by (rule stmt_keepsI) (auto simp: q_CreateLabel_def Let_def inv_defs)

lemma UpdateLabel_keeps [keeps]: "stmt_keeps (q_UpdateLabel low i name color)"
proof (rule stmt_keepsI)
  fix t d assume inv: "db_inv d"
  show "db_inv (snd (q_UpdateLabel low i name color t d))"
  proof (cases "find (\<lambda>l. l_id l = i) (db_labels d)")
    case (Some old)
    define row where "row = old\<lparr>l_name := name, l_color := color, l_updated := pg_timestamptz t\<rparr>"
    have row: "l_id row = i" using find_in [OF Some] by (simp add: row_def)
    have "db_inv (d\<lparr>db_labels := map (\<lambda>l. if l_id l = i then row else l) (db_labels d)\<rparr>)"
      by (rule db_inv_labels [OF inv])
        (use replace_by_id [OF Some row] inv in \<open>simp_all only: inv_defs\<close>)
    then show ?thesis using Some inv unfolding row_def by (auto simp: q_UpdateLabel_def Let_def)
  qed (use inv in \<open>simp add: q_UpdateLabel_def\<close>)
qed

lemma DeleteLabel_keeps [keeps]: "stmt_keeps (q_DeleteLabel i)"
  by (rule stmt_keepsI) (auto simp: q_DeleteLabel_def inv_defs distinct_map_filterI)

lemma CreateTask_keeps: "task_row_ok arg \<Longrightarrow> stmt_keeps (q_CreateTask arg)"
  by (rule stmt_keepsI)
    (auto simp: q_CreateTask_def Let_def inv_defs task_row_ok_def split: option.splits)

lemma UpdateTask_keeps:
  assumes "title \<noteq> []" "TaskStatus_IsValid status" "Priority_IsValid prio"
  shows "stmt_keeps (q_UpdateTask i title desc status prio due assignee)"
proof (rule stmt_keepsI)
  fix t d assume inv: "db_inv d"
  show "db_inv (snd (q_UpdateTask i title desc status prio due assignee t d))"
  proof (cases "find (\<lambda>r. tr_id r = i) (db_tasks d)")
    case (Some old)
    define row where "row = old\<lparr>tr_title := title,
        tr_description := (case desc of None \<Rightarrow> tr_description old | x \<Rightarrow> x),
        tr_status := status, tr_priority := prio,
        tr_due := map_option pg_timestamptz due, tr_assignee := assignee,
        tr_updated := pg_timestamptz t\<rparr>"
    have old: "tr_id old = i" "old \<in> set (db_tasks d)" using find_in [OF Some] by auto
    then have row: "tr_id row = i" by (simp add: row_def)
    have "db_inv (d\<lparr>db_tasks := map (\<lambda>r. if tr_id r = i then row else r) (db_tasks d)\<rparr>)"
      if a: "set_option assignee \<subseteq> user_ids d"
    proof (rule db_inv_tasks [OF inv])
      show "task_refs d r \<and> task_row_ok r"
        if "r \<in> set (map (\<lambda>r. if tr_id r = i then row else r) (db_tasks d))" for r
        using that inv old a assms by (auto simp: inv_defs task_row_ok_def row_def split: if_splits)
    qed (use replace_by_id [OF Some row] inv in \<open>simp_all only: inv_defs\<close>)
    then show ?thesis using Some inv unfolding row_def
      by (auto simp: q_UpdateTask_def Let_def split: option.splits)
  qed (use inv in \<open>simp add: q_UpdateTask_def\<close>)
qed

lemma DeleteTask_keeps [keeps]: "stmt_keeps (q_DeleteTask i)"
  by (simp add: stmt_keeps_def q_DeleteTask_def delete_tasks_keeps)

lemma CreateTaskAttachment_keeps [keeps]: "stmt_keeps (q_CreateTaskAttachment arg)"
  by (rule stmt_keepsI)
    (auto simp: q_CreateTaskAttachment_def Let_def inv_defs split: option.splits)

lemma attachment_deletes_keep [keeps]:
  "stmt_keeps (q_DeleteTaskAttachment i)" "stmt_keeps (q_DeleteTaskAttachmentsByTask t)"
  by (rule stmt_keepsI; auto simp: q_DeleteTaskAttachment_def q_DeleteTaskAttachmentsByTask_def
      inv_defs distinct_map_filterI)+

lemma acl_statements_keep [keeps]:
  "stmt_keeps (q_CreateACLEntry a)" "stmt_keeps (q_DeleteACLEntry i)"
  "stmt_keeps (q_DeleteACLEntriesByResource rt ri)"
  by (rule stmt_keepsI; auto simp: q_CreateACLEntry_def q_DeleteACLEntry_def Let_def acl_key_def
      q_DeleteACLEntriesByResource_def inv_defs distinct_map_filterI)+

section \<open>Reading statements\<close>

text \<open>A statement that only reads keeps whatever holds of the tables.\<close>

definition reads :: "'a sql \<Rightarrow> bool" where
  "reads q \<longleftrightarrow> (\<forall>t d. snd (q t d) = d)"

lemma sql_reads [keeps]: "reads q \<Longrightarrow> holds (on_db P) (sql q) (\<lambda>_. True)"
  by (rule holds_sql) (simp add: reads_def, metis snd_conv)

lemma reads_read [keeps]: "reads (q_read f)" "reads (q_one g)" "reads (\<lambda>t d. (h t d, d))"
  by (auto simp: reads_def q_read_def q_one_def split: option.splits)

lemma readers [keeps]:
  "reads (q_GetUser i)" "reads (q_GetUserByEmail s)" "reads (q_ListUsers l oo)"
  "reads (q_SearchUsers lk s l oo)" "reads (q_UserExists i)" "reads (q_UserExistsByEmail s)"
  "reads q_CountUsers" "reads (q_GetRole i)" "reads (q_GetRoleByName s)" "reads (q_ListRoles c)"
  "reads (q_RoleExists i)" "reads (q_RoleExistsByName s)" "reads (q_GetPermission i)"
  "reads (q_GetPermissionByName s)" "reads (q_ListPermissions c)" "reads (q_PermissionExists i)"
  "reads (q_GetUserRoles i)" "reads (q_GetRolePermissions i)"
  "reads (q_GetPermissionsByRoleIDs is)" "reads (q_GetLabel i)" "reads (q_GetLabelByName low s)"
  "reads (q_ListLabels c)" "reads (q_LabelExists i)" "reads (q_GetTaskLabels i)"
  "reads (q_GetLabelTasks i)" "reads (q_GetTask i)" "reads (q_ListTasks l oo)"
  "reads (q_ListTasksByStatus s l oo)" "reads (q_ListTasksByAssignee i l oo)"
  "reads (q_ListTasksByCreator i l oo)" "reads (q_SearchTasks lk s l oo)" "reads q_CountTasks"
  "reads (q_CountTasksByStatus s)" "reads (q_TaskExists i)" "reads (count_rows R)"
  "reads (q_GetTaskAttachment i)" "reads (q_ListTaskAttachments i)" "reads (q_GetACLEntry i)"
  "reads (q_GetACLEntriesByResource s i)" "reads (q_GetACLEntriesBySubject s i)"
  "reads (q_HasPermission s i s2 i2 s3)"
  by (simp_all add: reader_defs reads_read) (simp_all add: reads_def reader_defs)

lemma holds_case_prod [keeps]:
  "(\<And>a b. x = (a, b) \<Longrightarrow> holds I (f a b) Q) \<Longrightarrow> holds I (case x of (a, b) \<Rightarrow> f a b) Q"
  by (cases x) auto

lemma holds_case_prod_fun [keeps]:
  "(\<And>a b. x = (a, b) \<Longrightarrow> holds I (f a b y) Q) \<Longrightarrow> holds I ((case x of (a, b) \<Rightarrow> f a b) y) Q"
  by (cases x) auto

lemma holds_fold_go_True [keeps]:
  "(\<And>x acc. holds I (f x acc) (\<lambda>_. True)) \<Longrightarrow> holds I (fold_go xs f acc) (\<lambda>_. True)"
  by (rule holds_fold_go) auto

lemma no_rows_is_nil_holds [keeps]:
  "holds I m (\<lambda>_. True) \<Longrightarrow> holds I (no_rows_is_nil m) (\<lambda>_. True)"
  unfolding no_rows_is_nil_def by (intro keeps TrueI)

lemma task_reads_hold [keeps]:
  "holds (on_db P) (Task_FindByID i) (\<lambda>_. True)"
  "holds (on_db P) (Task_FindAll filt p) (\<lambda>_. True)"
  "holds (on_db P) (Task_FindByAssignee a p) (\<lambda>_. True)"
  "holds (on_db P) (Task_FindByCreator c p) (\<lambda>_. True)"
  "holds (on_db P) (Task_CountByStatus s) (\<lambda>_. True)"
  "holds (on_db P) (Task_ExistsByID i) (\<lambda>_. True)"
  "holds (on_db P) (TQB_Search query p) (\<lambda>_. True)"
  "holds (on_db P) (TQB_FindOverdue p) (\<lambda>_. True)"
  "holds (on_db P) (Task_Search query p) (\<lambda>_. True)"
  "holds (on_db P) (Task_FindOverdue p) (\<lambda>_. True)"
  "holds (on_db P) (FindAttachmentByID i) (\<lambda>_. True)"
  "holds (on_db P) (FindAttachmentsByTaskID i) (\<lambda>_. True)"
  unfolding Task_FindByID_def Task_FindAll_def Task_FindByAssignee_def Task_FindByCreator_def Let_def
    Task_CountByStatus_def Task_ExistsByID_def TQB_Search_def TQB_FindOverdue_def
    Task_Search_def Task_FindOverdue_def FindAttachmentByID_def FindAttachmentsByTaskID_def
  by (intro keeps TrueI)+

lemma user_reads_hold [keeps]:
  "holds (on_db P) (loadUserRoles i) (\<lambda>_. True)" "holds (on_db P) (User_FindByID i) (\<lambda>_. True)"
  "holds (on_db P) (User_FindByEmail s) (\<lambda>_. True)"
  "holds (on_db P) (User_FindAll f p) (\<lambda>_. True)"
  "holds (on_db P) (User_ExistsByID i) (\<lambda>_. True)"
  "holds (on_db P) (User_ExistsByEmail s) (\<lambda>_. True)"
  "holds (on_db P) (load_role row) (\<lambda>_. True)"
  "holds (on_db P) (Role_FindByID i) (\<lambda>_. True)" "holds (on_db P) (Role_FindByName s) (\<lambda>_. True)"
  "holds (on_db P) Role_FindAll (\<lambda>_. True)" "holds (on_db P) (Role_FindByUserID i) (\<lambda>_. True)"
  "holds (on_db P) (Role_ExistsByID i) (\<lambda>_. True)"
  "holds (on_db P) (Role_ExistsByName s) (\<lambda>_. True)"
  "holds (on_db P) (Permission_FindByID i) (\<lambda>_. True)"
  "holds (on_db P) Permission_FindAll (\<lambda>_. True)"
  "holds (on_db P) (Permission_FindByRoleID i) (\<lambda>_. True)"
  "holds (on_db P) (Permission_ExistsByID i) (\<lambda>_. True)"
  "holds (on_db P) (Permission_FindByName s) (\<lambda>_. True)"
  unfolding loadUserRoles_def User_FindByID_def User_FindByEmail_def User_FindAll_def
    User_ExistsByID_def User_ExistsByEmail_def Let_def load_role_def Role_FindByID_def
    Role_FindByName_def Role_FindAll_def Role_FindByUserID_def Role_ExistsByID_def
    Role_ExistsByName_def Permission_FindByID_def Permission_FindAll_def
    Permission_FindByRoleID_def Permission_ExistsByID_def Permission_FindByName_def
  by (intro keeps TrueI)+

lemma label_reads_hold [keeps]:
  "holds (on_db P) (Label_FindByID i) (\<lambda>_. True)" "holds (on_db P) (Label_FindByName s) (\<lambda>_. True)"
  "holds (on_db P) Label_FindAll (\<lambda>_. True)" "holds (on_db P) (Label_FindByTaskID i) (\<lambda>_. True)"
  "holds (on_db P) (Label_ExistsByID i) (\<lambda>_. True)"
  "holds (on_db P) (ACL_FindByResource rt ri) (\<lambda>_. True)"
  "holds (on_db P) (ACL_FindBySubject st si) (\<lambda>_. True)"
  "holds (on_db P) (ACL_HasPermission rt ri st si perm) (\<lambda>_. True)"
  unfolding Label_FindByID_def Label_FindByName_def Label_FindAll_def Label_FindByTaskID_def
    Label_ExistsByID_def ACL_FindByResource_def ACL_FindBySubject_def ACL_HasPermission_def
  by (intro keeps TrueI)+

section \<open>The interface between the statements and the use cases\<close>

text \<open>
  A table property is a property \<open>Q\<close> of the tables, with a property \<open>T\<close> of the tasks read from
  them, that every writing statement of the use cases keeps in consistent tables: the use
  cases then keep consistency and \<open>Q\<close> on every exit.  A task is created under the stronger
  contract \<open>creating_property\<close>.
\<close>

definition kept :: "(db \<Rightarrow> bool) \<Rightarrow> 'a sql \<Rightarrow> bool" where
  "kept Q q \<longleftrightarrow> (\<forall>t d. db_inv d \<longrightarrow> Q d \<longrightarrow> Q (snd (q t d)))"

definition update_of :: "task \<Rightarrow> task_row sql" where
  "update_of t = q_UpdateTask (t_id t) (t_title t) (nonempty (t_description t)) (t_status t)
     (t_priority t) (t_due t) (t_assignee t)"

definition row_of :: "task \<Rightarrow> task_row" where
  "row_of t = \<lparr>tr_id = t_id t, tr_title = t_title t, tr_description = nonempty (t_description t),
     tr_status = t_status t, tr_priority = t_priority t, tr_due = t_due t,
     tr_assignee = t_assignee t, tr_creator = t_creator t, tr_created = t_created t,
     tr_updated = t_updated t\<rparr>"

lemma row_to_entity_wf: "task_row_ok r \<Longrightarrow> task_wf (sqlcTaskToEntity r)"
  by (simp add: task_row_ok_def task_wf_def sqlcTaskToEntity_def)

lemma no_rows_is_nil_post:
  "holds I m R \<Longrightarrow> holds I (no_rows_is_nil m) (\<lambda>x. \<forall>y. x = Some y \<longrightarrow> R y)"
  by (rule holdsI)
    (fastforce simp: no_rows_is_nil_def andthen_def attempt_def go_prims holds_def
      split: prod.splits result.splits if_splits)

lemma GetTask_row: "(\<And>d r. P d \<Longrightarrow> r \<in> set (db_tasks d) \<Longrightarrow> R r) \<Longrightarrow> holds (on_db P) (sql (q_GetTask i)) R"
  by (rule holds_sql)
    (auto simp: q_GetTask_def q_one_def dest: find_in split: option.splits)

locale table_property =
  fixes Q :: "db \<Rightarrow> bool" and T :: "task \<Rightarrow> bool"
  assumes users: "kept Q (q_CreateUser ur)" "kept Q (q_UpdateUser i s n h)" "kept Q (q_DeleteUser i)"
    and user_roles: "kept Q (q_AssignRoleToUser u r)" "kept Q (q_RemoveRoleFromUser u r)"
    and roles: "kept Q (q_UpsertRole rr)" "kept Q (q_DeleteRolesByNames names)"
      "kept Q (q_UpsertPermission p)" "kept Q (q_AddPermissionToRole r i)"
      "kept Q (q_RemoveAllPermissionsFromRole r)"
    and labels: "kept Q (q_CreateLabel low l)" "kept Q (q_UpdateLabel low i s n)"
      "kept Q (q_DeleteLabel i)"
    and attachments: "kept Q (q_CreateTaskAttachment a)" "kept Q (q_DeleteTaskAttachment i)"
    and delete_task: "kept Q (q_DeleteTask i)"
    and update_task: "task_wf t \<Longrightarrow> T t \<Longrightarrow> kept Q (update_of t)"
    and load_task: "db_inv d \<Longrightarrow> Q d \<Longrightarrow> row \<in> set (db_tasks d) \<Longrightarrow> T (sqlcTaskToEntity row)"
    and change_task: "task_step t t' \<Longrightarrow> T t \<Longrightarrow> T t'"
begin

abbreviation consistent :: "env \<Rightarrow> world \<Rightarrow> bool" where
  "consistent \<equiv> on_db (\<lambda>d. db_inv d \<and> Q d)"

definition good :: "task \<Rightarrow> bool" where
  "good t \<longleftrightarrow> task_wf t \<and> T t"

lemma good_step: "task_step t t' \<Longrightarrow> good t \<Longrightarrow> good t'"
  by (auto simp: good_def task_step_wf change_task)

lemma sql_kept: "stmt_keeps q \<Longrightarrow> kept Q q \<Longrightarrow> holds consistent (sql q) (\<lambda>_. True)"
  by (rule holds_sql) (simp add: stmt_keeps_def kept_def, metis snd_conv)

lemmas sql_writes [keeps] = users [THEN sql_kept [rotated]] user_roles [THEN sql_kept [rotated]]
  roles [THEN sql_kept [rotated]] labels [THEN sql_kept [rotated]]
  attachments [THEN sql_kept [rotated]] delete_task [THEN sql_kept [rotated]]

lemma repository_writes_hold [keeps]:
  "holds consistent (Task_Delete i) (\<lambda>_. True)" "holds consistent (SaveAttachment a) (\<lambda>_. True)"
  "holds consistent (DeleteAttachment i) (\<lambda>_. True)"
  "holds consistent (syncUserRoles u) (\<lambda>_. True)"
  "holds consistent (User_Save u) (\<lambda>_. True)" "holds consistent (User_Update u) (\<lambda>_. True)"
  "holds consistent (User_Delete i) (\<lambda>_. True)" "holds consistent (Role_Save r) (\<lambda>_. True)"
  "holds consistent (Role_DeleteByNames ss) (\<lambda>_. True)"
  "holds consistent (Role_RemoveAllPermissions i) (\<lambda>_. True)"
  "holds consistent (Label_Save l) (\<lambda>_. True)" "holds consistent (Label_Update l) (\<lambda>_. True)"
  "holds consistent (Label_Delete i) (\<lambda>_. True)"
  unfolding Task_Delete_def SaveAttachment_def DeleteAttachment_def syncUserRoles_def User_Save_def
    User_Update_def User_Delete_def Role_Save_def Role_DeleteByNames_def
    Role_RemoveAllPermissions_def Label_Save_def Label_Update_def Label_Delete_def
  by (intro keeps TrueI)+

lemma Task_Update_consistent: "good t \<Longrightarrow> holds consistent (Task_Update t) (\<lambda>_. True)"
proof -
  assume "good t"
  then have "stmt_keeps (update_of t)" "kept Q (update_of t)"
    by (auto simp: good_def update_of_def task_wf_def intro: UpdateTask_keeps
        update_task [unfolded update_of_def])
  then show ?thesis
    unfolding Task_Update_def update_of_def by (intro keeps TrueI sql_kept)
qed

lemma Task_FindByID_consistent:
  "holds consistent (Task_FindByID i) (\<lambda>x. \<forall>t. x = Some t \<longrightarrow> good t)"
  unfolding Task_FindByID_def
  by (rule holds_andthen_post [OF no_rows_is_nil_post [OF GetTask_row
        [where R = "\<lambda>r. good (sqlcTaskToEntity r)"]]])
    (auto intro!: holds_ret simp: good_def db_inv_def intro: row_to_entity_wf load_task)

end

locale creating_property = table_property +
  assumes save_task: "task_wf t \<Longrightarrow> kept Q (q_CreateTask (row_of t))"
begin

lemma Task_Save_consistent: "task_wf t \<Longrightarrow> holds consistent (Task_Save t) (\<lambda>_. True)"
proof -
  assume wf: "task_wf t"
  then have "stmt_keeps (q_CreateTask (row_of t))"
    by (intro CreateTask_keeps) (simp add: task_row_ok_def task_wf_def row_of_def)
  with save_task [OF wf] show ?thesis
    unfolding Task_Save_def row_of_def by (intro keeps TrueI sql_kept)
qed

end

section \<open>Table properties of the program\<close>

lemma kept_True: "kept (\<lambda>_. True) q"
  by (simp add: kept_def)

interpretation everything: creating_property "\<lambda>_. True" "\<lambda>_. True"
  by unfold_locales (simp_all add: kept_True)

end
