(* ===== verification/Messaging.thy ===== *)
theory Messaging
  imports Consistency
begin

text \<open>
  Publishing and consuming events, and the object storage: the Kafka publisher and the
  deserialisation of its messages (\<open>messaging/kafka/event\_publisher.go\<close>), the fan-out
  publisher (\<open>messaging/fanout/publisher.go\<close>), the worker that routes events to handlers with
  its clean-up handler (\<open>application/worker\<close>), the monitor of the handlers
  (\<open>observability/background/monitor.go\<close>) and the S3 adapter (\<open>storage/s3/file\_storage.go\<close>).
\<close>

section \<open>Publishers\<close>

definition errors_Join :: "go_error list \<Rightarrow> unit go" where
  "errors_Join errs = (if errs = [] then ret () else raise (Joined errs))"

definition TopicTaskEvents :: string where "TopicTaskEvents = ''task-events''"
definition TopicUserEvents :: string where "TopicUserEvents = ''user-events''"

definition Kafka_Publish :: "string \<Rightarrow> event \<Rightarrow> unit go" where
  "Kafka_Publish topic evt =
     andthen (attempt (external (\<lambda>t w. (Ok (), w\<lparr>w_kafka := w_kafka w @ [(topic, evt)]\<rparr>)))) (\<lambda>r.
     case r of
       Ok _ \<Rightarrow> ret ()
     | Err err \<Rightarrow> raise (Errorf ''failed to send message'' (Some err))
     | Panic p \<Rightarrow> panic p)"

definition Kafka_PublishBatch :: "string \<Rightarrow> event list \<Rightarrow> unit go" where
  "Kafka_PublishBatch topic evts =
     andthen (attempt (external (\<lambda>t w.
        (Ok (), w\<lparr>w_kafka := w_kafka w @ map (\<lambda>evt. (topic, evt)) evts\<rparr>)))) (\<lambda>r.
     case r of
       Ok _ \<Rightarrow> ret ()
     | Err err \<Rightarrow> raise (Errorf ''failed to send batch messages'' (Some err))
     | Panic p \<Rightarrow> panic p)"

definition bus_call :: "(bus \<Rightarrow> 'a result \<times> bus) \<Rightarrow> 'a go" where
  "bus_call f e w = (let (r, b) = f (w_bus w) in (r, w\<lparr>w_bus := b\<rparr>))"

text \<open>
  \<open>if p.primary != nil { if err := p.primary.Publish(...); err != nil { errs = append(...) } }\<close>
\<close>

definition fanout_part :: "(env \<Rightarrow> dep) \<Rightarrow> string \<Rightarrow> unit go \<Rightarrow> go_error list go" where
  "fanout_part which msg m =
     andthen (asks which) (\<lambda>d.
     case d of
       DepNone \<Rightarrow> ret []
     | DepNilPtr \<Rightarrow> panic nil_dereference
     | DepLive \<Rightarrow>
         andthen (attempt m) (\<lambda>r.
         case r of
           Ok _ \<Rightarrow> ret []
         | Err err \<Rightarrow> ret [Errorf msg (Some err)]
         | Panic p \<Rightarrow> panic p))"

definition Fanout_Publish :: "string \<Rightarrow> event \<Rightarrow> unit go" where
  "Fanout_Publish topic evt =
     andthen (fanout_part e_kafka ''primary publish failed'' (Kafka_Publish topic evt)) (\<lambda>errs1.
     andthen (fanout_part e_local_bus ''secondary publish failed''
        (bus_call (Bus_Publish topic evt))) (\<lambda>errs2.
     errors_Join (errs1 @ errs2)))"

definition Fanout_PublishBatch :: "string \<Rightarrow> event list \<Rightarrow> unit go" where
  "Fanout_PublishBatch topic evts =
     andthen (fanout_part e_kafka ''primary batch publish failed''
        (Kafka_PublishBatch topic evts)) (\<lambda>errs1.
     andthen (fanout_part e_local_bus ''secondary batch publish failed''
        (bus_call (Bus_PublishBatch topic evts))) (\<lambda>errs2.
     errors_Join (errs1 @ errs2)))"

text \<open>A call on the \<open>EventPublisher\<close> that the use cases hold.\<close>

definition Publish :: "string \<Rightarrow> event \<Rightarrow> unit go" where
  "Publish topic evt = andthen (asks e_publisher) (\<lambda>d.
     if d = DepLive then Fanout_Publish topic evt else panic nil_dereference)"

section \<open>Reading messages back\<close>

fun body_type :: "event_body \<Rightarrow> string" where
  "body_type (TaskCreated _ _ _ _ _) = ''task.created''"
| "body_type (TaskUpdated _ _ _ _ _) = ''task.updated''"
| "body_type (TaskDeleted _) = ''task.deleted''"
| "body_type (TaskAssigned _ _) = ''task.assigned''"
| "body_type (TaskUnassigned _ _) = ''task.unassigned''"
| "body_type (TaskCompleted _) = ''task.completed''"
| "body_type (TaskArchived _) = ''task.archived''"
| "body_type (TaskStatusChanged _ _ _) = ''task.status_changed''"
| "body_type (TaskLabelAdded _ _) = ''task.label_added''"
| "body_type (TaskLabelRemoved _ _) = ''task.label_removed''"
| "body_type (TaskAttachmentCleanupRequested _ _) = ''task.attachment_cleanup_requested''"
| "body_type (UserCreated _ _) = ''user.created''"
| "body_type (UserUpdated _ _) = ''user.updated''"
| "body_type UserDeleted = ''user.deleted''"
| "body_type (UserRoleAssigned _ _ _) = ''user.role_assigned''"
| "body_type (UserRoleRemoved _ _ _) = ''user.role_removed''"
| "body_type (UserPasswordChanged _) = ''user.password_changed''"
| "body_type (UserLoggedIn _ _) = ''user.logged_in''"
| "body_type UserLoggedOut = ''user.logged_out''"

definition known_types :: "string list" where
  "known_types =
     [''task.created'', ''task.updated'', ''task.deleted'', ''task.assigned'', ''task.unassigned'',
      ''task.completed'', ''task.archived'', ''task.status_changed'', ''task.label_added'',
      ''task.label_removed'', ''task.attachment_cleanup_requested'', ''user.created'',
      ''user.updated'', ''user.deleted'', ''user.role_assigned'', ''user.role_removed'',
      ''user.password_changed'', ''user.logged_in'', ''user.logged_out'']"

text \<open>
  \<open>deserializeEvent\<close>: the header chooses the struct that the JSON of the event is read into.
  Reading it into the struct it was written from gives it back; \<open>reread\<close> stands for reading
  it into another one.
\<close>

definition deserializeEvent :: "(string \<Rightarrow> event \<Rightarrow> event result) \<Rightarrow> string \<Rightarrow> event \<Rightarrow> event result" where
  "deserializeEvent reread eventType data =
     (if eventType \<notin> set known_types then Err (Errorf ''unknown event type'' None)
      else if eventType = body_type (ev_body data) then Ok data
      else (case reread eventType data of
              Err err \<Rightarrow> Err (Errorf ''failed to unmarshal event'' (Some err))
            | r \<Rightarrow> r))"

section \<open>The worker\<close>

type_synonym handler = "event \<Rightarrow> unit go"

record consumer =
  ec_handlers :: "string \<Rightarrow> handler option"
  ec_stop_closed :: bool
  ec_stopped :: bool

definition NewEventConsumer :: consumer where
  "NewEventConsumer = \<lparr>ec_handlers = Map.empty, ec_stop_closed = False, ec_stopped = False\<rparr>"

definition RegisterHandler :: "string \<Rightarrow> handler \<Rightarrow> consumer \<Rightarrow> consumer" where
  "RegisterHandler eventType h c = c\<lparr>ec_handlers := (ec_handlers c)(eventType \<mapsto> h)\<rparr>"

text \<open>Closing a closed channel panics; the flag prevents it.\<close>

definition signalStop :: "consumer \<Rightarrow> unit result \<times> consumer" where
  "signalStop c =
     (if \<not> ec_stopped c then
        (if ec_stop_closed c then (Panic ''close of closed channel'', c)
         else (Ok (), c\<lparr>ec_stop_closed := True, ec_stopped := True\<rparr>))
      else (Ok (), c))"

definition resetStopState :: "consumer \<Rightarrow> consumer" where
  "resetStopState c = c\<lparr>ec_stop_closed := False, ec_stopped := False\<rparr>"

definition handleEvent :: "consumer \<Rightarrow> event \<Rightarrow> unit go" where
  "handleEvent c evt =
     (case ec_handlers c (EventType evt) of
        None \<Rightarrow> ret ()
      | Some h \<Rightarrow> ignoring (h evt))"

text \<open>The loop of \<open>consume\<close> over the events its channel delivers before it is closed.\<close>

definition consume :: "consumer \<Rightarrow> event list \<Rightarrow> unit go" where
  "consume c evts = for_each evts (handleEvent c)"

section \<open>The S3 adapter\<close>

record file_metadata =
  fm_key :: string
  fm_content_type :: string
  fm_size :: int

definition isNilDependency :: "dep \<Rightarrow> bool" where
  "isNilDependency d = (case d of DepNone \<Rightarrow> True | DepNilPtr \<Rightarrow> True | DepLive \<Rightarrow> False)"

definition has_storage :: "bool go" where
  "has_storage = asks (\<lambda>e. \<not> isNilDependency (e_storage e))"

definition storage_call :: "(time \<Rightarrow> world \<Rightarrow> 'a result \<times> world) \<Rightarrow> string \<Rightarrow> 'a go" where
  "storage_call call msg =
     andthen (asks e_storage) (\<lambda>d.
     if d \<noteq> DepLive then panic nil_dereference
     else andthen (attempt (external call)) (\<lambda>r.
          case r of
            Ok x \<Rightarrow> ret x
          | Err err \<Rightarrow> raise (Errorf msg (Some err))
          | Panic p \<Rightarrow> panic p))"

definition s3_missing :: go_error where
  "s3_missing = External ''NoSuchKey''"

definition Storage_GetMetadata :: "string \<Rightarrow> file_metadata go" where
  "Storage_GetMetadata key = storage_call (\<lambda>t w.
     (case w_blobs w key of
        None \<Rightarrow> Err s3_missing
      | Some content \<Rightarrow>
          Ok \<lparr>fm_key = key, fm_content_type = [], fm_size = int (length content)\<rparr>, w))
     ''failed to get object metadata''"

definition Storage_Upload :: "string \<Rightarrow> string \<Rightarrow> file_metadata go" where
  "Storage_Upload key content =
     andthen (storage_call (\<lambda>t w. (Ok (), w\<lparr>w_blobs := (w_blobs w)(key \<mapsto> content)\<rparr>))
        ''failed to upload object'') (\<lambda>_. Storage_GetMetadata key)"

definition Storage_Download :: "string \<Rightarrow> string go" where
  "Storage_Download key = storage_call (\<lambda>t w.
     (case w_blobs w key of None \<Rightarrow> Err s3_missing | Some content \<Rightarrow> Ok content, w))
     ''failed to download object''"

definition Storage_Delete :: "string \<Rightarrow> unit go" where
  "Storage_Delete key = storage_call (\<lambda>t w. (Ok (), w\<lparr>w_blobs := (w_blobs w)(key := None)\<rparr>))
     ''failed to delete object''"

text \<open>\<open>Exists\<close> answers false on every error.\<close>

definition Storage_Exists :: "string \<Rightarrow> bool go" where
  "Storage_Exists key =
     andthen (attempt (Storage_GetMetadata key)) (\<lambda>r.
     case r of Ok _ \<Rightarrow> ret True | Err _ \<Rightarrow> ret False | Panic p \<Rightarrow> panic p)"

definition Storage_Copy :: "string \<Rightarrow> string \<Rightarrow> file_metadata go" where
  "Storage_Copy sourceKey destKey =
     andthen (storage_call (\<lambda>t w.
        (case w_blobs w sourceKey of
           None \<Rightarrow> (Err s3_missing, w)
         | Some content \<Rightarrow> (Ok (), w\<lparr>w_blobs := (w_blobs w)(destKey \<mapsto> content)\<rparr>)))
        ''failed to copy object'') (\<lambda>_. Storage_GetMetadata destKey)"

section \<open>The clean-up handler and the monitor\<close>

definition cleanup_event :: "event \<Rightarrow> (uuid \<times> string) result" where
  "cleanup_event evt =
     (case ev_body evt of
        TaskAttachmentCleanupRequested attachmentID objectKey \<Rightarrow> Ok (attachmentID, objectKey)
      | _ \<Rightarrow> Err (Errorf ''unexpected event type'' None))"

definition TaskAttachmentCleanupHandler :: handler where
  "TaskAttachmentCleanupHandler evt =
     andthen (lift (cleanup_event evt)) (\<lambda>(attachmentID, objectKey).
     andthen has_storage (\<lambda>available.
     if \<not> available then raise (Errorf ''file storage unavailable for cleanup retry'' None)
     else Storage_Delete objectKey))"

record workflow_state =
  ws_successes :: int
  ws_failures :: int
  ws_streak :: int
  ws_duration :: int
  ws_last_error :: "go_error option"
  ws_last_failure :: time
  ws_alert :: bool

definition new_workflow_state :: workflow_state where
  "new_workflow_state = \<lparr>ws_successes = 0, ws_failures = 0, ws_streak = 0, ws_duration = 0,
     ws_last_error = None, ws_last_failure = 0, ws_alert = False\<rparr>"

definition alertThreshold :: int where "alertThreshold = 1"

text \<open>\<open>duration.Milliseconds()\<close> truncates.\<close>

definition milliseconds :: "duration \<Rightarrow> int" where
  "milliseconds d = go_div d 1000000"

definition Monitor_record ::
  "string \<Rightarrow> duration \<Rightarrow> go_error option \<Rightarrow> time \<Rightarrow> (string \<rightharpoonup> workflow_state) \<Rightarrow> (string \<rightharpoonup> workflow_state)"
  where
  "Monitor_record name duration err now st =
     (let s = (case st name of None \<Rightarrow> new_workflow_state | Some s \<Rightarrow> s);
          s1 = s\<lparr>ws_duration := ws_duration s + milliseconds duration\<rparr>
      in case err of
           None \<Rightarrow> st(name \<mapsto> s1\<lparr>ws_successes := ws_successes s1 + 1, ws_streak := 0,
                            ws_alert := False, ws_last_error := None\<rparr>)
         | Some e \<Rightarrow> st(name \<mapsto> s1\<lparr>ws_failures := ws_failures s1 + 1,
                              ws_streak := ws_streak s1 + 1, ws_last_error := Some e,
                              ws_last_failure := now,
                              ws_alert := ws_streak s1 + 1 \<ge> alertThreshold\<rparr>))"

section \<open>Frames\<close>

text \<open>What a publication touches: the tick, the message log and the bus, and nothing else.\<close>

definition only_messages :: "world \<Rightarrow> world \<Rightarrow> bool" where
  "only_messages w w' \<longleftrightarrow> w_db w' = w_db w \<and> w_tx_time w' = w_tx_time w \<and> w_cache w' = w_cache w
     \<and> w_blobs w' = w_blobs w"

lemma only_messages_refl [simp]: "only_messages w w"
  by (simp add: only_messages_def)

lemma only_messages_trans: "only_messages a b \<Longrightarrow> only_messages b c \<Longrightarrow> only_messages a c"
  by (simp add: only_messages_def)

definition messaging :: "'a go \<Rightarrow> bool" where
  "messaging m \<longleftrightarrow> (\<forall>e w. only_messages w (snd (m e w)))"

lemma messagingI: "(\<And>e w. only_messages w (snd (m e w))) \<Longrightarrow> messaging m"
  by (simp add: messaging_def)

lemma messagingD: "messaging m \<Longrightarrow> m e w = (r, w') \<Longrightarrow> only_messages w w'"
  by (metis messaging_def snd_conv)

lemma messaging_andthen [frames]:
  assumes "messaging m" "\<And>x. messaging (f x)"
  shows "messaging (andthen m f)"
proof (rule messagingI)
  fix e w
  obtain r w1 where m: "m e w = (r, w1)" by fastforce
  note 1 = messagingD [OF assms(1) m]
  show "only_messages w (snd (andthen m f e w))"
    by (cases r) (use m 1 assms(2) in \<open>auto simp: andthen_def messaging_def intro: only_messages_trans\<close>)
qed

lemma messaging_prims [frames]:
  "messaging (ret x)" "messaging (raise err)" "messaging (panic p)" "messaging (asks f)"
  "messaging (lift r)" "messaging now_utc" "messaging fresh_uuid"
  by (auto simp: messaging_def only_messages_def go_prims now_utc_def fresh_uuid_def)

lemma messaging_attempt [frames]: "messaging m \<Longrightarrow> messaging (attempt m)"
  and messaging_ignoring [frames]: "messaging m \<Longrightarrow> messaging (ignoring m)"
  by (auto simp: messaging_def attempt_def ignoring_def split: prod.splits result.splits) (metis snd_conv)+

lemma messaging_cases [frames]:
  "(b \<Longrightarrow> messaging m) \<Longrightarrow> (\<not> b \<Longrightarrow> messaging m') \<Longrightarrow> messaging (if b then m else m')"
  "(\<And>y. messaging (f y)) \<Longrightarrow> (\<And>y. messaging (g y)) \<Longrightarrow> (\<And>y. messaging (h y)) \<Longrightarrow>
     messaging (case x of Ok y \<Rightarrow> f y | Err y \<Rightarrow> g y | Panic y \<Rightarrow> h y)"
  "messaging m1 \<Longrightarrow> messaging m2 \<Longrightarrow> messaging m3 \<Longrightarrow>
     messaging (case d of DepNone \<Rightarrow> m1 | DepNilPtr \<Rightarrow> m2 | DepLive \<Rightarrow> m3)"
  by (auto split: result.splits dep.splits)

lemma messaging_bus [frames]: "messaging (bus_call f)"
  by (auto simp: messaging_def only_messages_def bus_call_def split: prod.splits)

lemma messaging_external [frames]:
  "(\<And>t w. only_messages w (snd (call t w))) \<Longrightarrow> messaging (external call)"
  by (rule messagingI)
    (auto simp: external_def Let_def only_messages_def split: option.splits fault.splits)

lemma Publish_messaging [frames]:
  "messaging (Kafka_Publish topic evt)" "messaging (Fanout_Publish topic evt)"
  "messaging (Publish topic evt)"
  unfolding Kafka_Publish_def Fanout_Publish_def fanout_part_def errors_Join_def Publish_def
  by (intro frames; simp add: only_messages_def)+

lemma messaging_holds: "messaging m \<Longrightarrow> holds (on_db P) m (\<lambda>_. True)"
  by (auto simp: holds_def messaging_def only_messages_def on_db_def)

lemma Publish_holds [keeps]: "holds (on_db P) (Publish topic evt) (\<lambda>_. True)"
  by (rule messaging_holds) (rule frames)

lemma storage_call_holds [keeps]:
  assumes "\<And>t w. w_db (snd (call t w)) = w_db w"
  shows "holds (on_db P) (storage_call call msg) (\<lambda>_. True)"
proof -
  have "holds (on_db P) (external call) (\<lambda>_. True)"
    by (rule holds_external) (metis assms snd_conv)
  then show ?thesis unfolding storage_call_def by (intro keeps) auto
qed

lemma storage_holds [keeps]:
  "holds (on_db P) (Storage_GetMetadata k) (\<lambda>_. True)"
  "holds (on_db P) (Storage_Upload k s) (\<lambda>_. True)"
  "holds (on_db P) (Storage_Download k) (\<lambda>_. True)"
  "holds (on_db P) (Storage_Delete k) (\<lambda>_. True)"
  "holds (on_db P) has_storage (\<lambda>_. True)"
  unfolding Storage_GetMetadata_def Storage_Upload_def Storage_Download_def Storage_Delete_def
    has_storage_def
  by (intro keeps; simp)+

end
