(* ===== verification/TaskUseCase.thy ===== *)
theory TaskUseCase
  imports Messaging "HOL-Library.Char_ord" "HOL-Library.List_Lexorder"
begin

text \<open>
  The task use cases of \<open>internal/application/usecase/task/task\_usecase.go\<close>, one definition
  per method with its guards, its early returns and its calls in the order of the code.  The
  request context carries the claims that the authentication middleware stored, if any.
  Logging has no effect on the state and is left out.
\<close>

type_synonym request = "token_claims option"

definition cachePrefix :: string where "cachePrefix = ''app''"

definition second :: duration where "second = 1000000000"

definition entityCacheTTL :: duration where "entityCacheTTL = 5 * 60 * second"
definition listCacheTTL :: duration where "listCacheTTL = 2 * 60 * second"

definition getCreatorIDFromContext :: "request \<Rightarrow> uuid" where
  "getCreatorIDFromContext ctx = (case ctx of None \<Rightarrow> uuid_Nil | Some claims \<Rightarrow> tc_user claims)"

section \<open>Events and caches\<close>

definition make_event :: "(uuid \<Rightarrow> time \<Rightarrow> event) \<Rightarrow> event go" where
  "make_event f = andthen fresh_uuid (\<lambda>i. andthen now_utc (\<lambda>t. ret (f i t)))"

definition has_publisher :: "bool go" where
  "has_publisher = asks (\<lambda>e. \<not> isNilDependency (e_publisher e))"

definition publishTaskEvent :: "event \<Rightarrow> unit go" where
  "publishTaskEvent evt =
     andthen has_publisher (\<lambda>available.
     if \<not> available then ret () else ignoring (Publish TopicTaskEvents evt))"

definition invalidateTaskListCaches :: "unit go" where
  "invalidateTaskListCaches =
     andthen has_cache (\<lambda>present.
     if \<not> present then ret ()
     else ignoring (Cache_DeletePattern (KB_TaskList cachePrefix [] @ ''*'')))"

definition invalidateTaskCaches :: "uuid \<Rightarrow> unit go" where
  "invalidateTaskCaches taskID =
     andthen has_cache (\<lambda>present.
     if \<not> present then ret ()
     else
       andthen (uuid_str taskID) (\<lambda>s.
       andthen (ignoring (Cache_Delete (KB_Task cachePrefix s))) (\<lambda>_.
       invalidateTaskListCaches)))"

section \<open>Creating and changing tasks\<close>

definition set_due_date :: "time option \<Rightarrow> task \<Rightarrow> task go" where
  "set_due_date due t =
     (case due of None \<Rightarrow> ret t | Some d \<Rightarrow> andthen now_utc (\<lambda>now. ret (SetDueDate d now t)))"

definition require :: "bool go \<Rightarrow> go_error \<Rightarrow> unit go" where
  "require m err = andthen m (\<lambda>ok. if ok then ret () else raise err)"

definition CreateTask :: "request \<Rightarrow> create_task_input \<Rightarrow> task_output go" where
  "CreateTask ctx inp =
     andthen (validate (VCreateTask inp)) (\<lambda>_.
     andthen (lift (ParsePriority (cti_priority inp))) (\<lambda>prio.
     andthen fresh_uuid (\<lambda>i.
     andthen now_utc (\<lambda>now.
     andthen (lift (NewTask (cti_title inp) (cti_description inp) prio
        (getCreatorIDFromContext ctx) i now)) (\<lambda>t0.
     andthen (set_due_date (cti_due inp) t0) (\<lambda>t1.
     andthen
       (case cti_assignee inp of
          None \<Rightarrow> ret t1
        | Some a \<Rightarrow>
            andthen (require (User_ExistsByID a) ErrUserNotFound) (\<lambda>_.
            andthen now_utc (\<lambda>now. lift (Assign a now t1)))) (\<lambda>t2.
     andthen (fold_go (cti_labels inp) (\<lambda>l t.
        andthen (require (Label_ExistsByID l) ErrLabelNotFound) (\<lambda>_.
        andthen now_utc (\<lambda>now. ret (Task_AddLabel l now t)))) t2) (\<lambda>t.
     andthen (Task_Save t) (\<lambda>_.
     andthen invalidateTaskListCaches (\<lambda>_.
     andthen (make_event (NewTaskCreated (t_id t) (t_title t) (t_description t) (t_priority t)
        (t_creator t))) (\<lambda>evt.
     andthen (publishTaskEvent evt) (\<lambda>_.
     andthen now_utc (\<lambda>now.
     ret (TaskFromEntity now t))))))))))))))"

text \<open>\<open>task, err := FindByID(id); if task == nil { return ErrTaskNotFound }\<close>\<close>

definition fetch_task :: "uuid \<Rightarrow> task go" where
  "fetch_task i =
     andthen (Task_FindByID i) (\<lambda>t.
     case t of None \<Rightarrow> raise ErrTaskNotFound | Some t \<Rightarrow> ret t)"

definition apply_updates :: "update_task_input \<Rightarrow> task \<Rightarrow> task go" where
  "apply_updates inp t0 =
     andthen (case uti_title inp of
        None \<Rightarrow> ret t0
      | Some title \<Rightarrow> andthen now_utc (\<lambda>now. lift (UpdateTitle title now t0))) (\<lambda>t1.
     andthen (case uti_description inp of
        None \<Rightarrow> ret t1
      | Some d \<Rightarrow> andthen now_utc (\<lambda>now. ret (UpdateDescription d now t1))) (\<lambda>t2.
     andthen (case uti_priority inp of
        None \<Rightarrow> ret t2
      | Some s \<Rightarrow>
          andthen (lift (ParsePriority s)) (\<lambda>prio.
          andthen now_utc (\<lambda>now. lift (UpdatePriority prio now t2)))) (\<lambda>t3.
     case uti_due inp of
       Some d \<Rightarrow> andthen now_utc (\<lambda>now. ret (SetDueDate d now t3))
     | None \<Rightarrow>
         if uti_clear_due inp then andthen now_utc (\<lambda>now. ret (ClearDueDate now t3))
         else ret t3)))"

definition updated_event :: "update_task_input \<Rightarrow> event \<Rightarrow> event" where
  "updated_event inp evt =
     (let b1 = (case uti_title inp of None \<Rightarrow> ev_body evt | Some s \<Rightarrow> WithTitle s (ev_body evt));
          b2 = (case uti_priority inp of
                  None \<Rightarrow> b1
                | Some s \<Rightarrow> (case ParsePriority s of Ok p \<Rightarrow> WithPriority p b1 | _ \<Rightarrow> WithPriority [] b1))
      in evt\<lparr>ev_body := b2\<rparr>)"

definition UpdateTask :: "request \<Rightarrow> uuid \<Rightarrow> update_task_input \<Rightarrow> task_output go" where
  "UpdateTask ctx i inp =
     andthen (validate (VUpdateTask inp)) (\<lambda>_.
     andthen (fetch_task i) (\<lambda>t0.
     andthen (apply_updates inp t0) (\<lambda>t.
     andthen (Task_Update t) (\<lambda>_.
     andthen (invalidateTaskCaches i) (\<lambda>_.
     andthen (make_event (NewTaskUpdated (t_id t) (getCreatorIDFromContext ctx))) (\<lambda>evt.
     andthen (publishTaskEvent (updated_event inp evt)) (\<lambda>_.
     andthen now_utc (\<lambda>now.
     ret (TaskFromEntity now t)))))))))"

text \<open>
  The methods from \<open>AssignTask\<close> to \<open>RemoveLabel\<close> end alike: save, invalidate the caches,
  publish, answer.
\<close>

definition store_task :: "uuid \<Rightarrow> task \<Rightarrow> (uuid \<Rightarrow> time \<Rightarrow> event) option \<Rightarrow> task_output go" where
  "store_task i t mk =
     andthen (Task_Update t) (\<lambda>_.
     andthen (invalidateTaskCaches i) (\<lambda>_.
     andthen (case mk of
        None \<Rightarrow> ret ()
      | Some f \<Rightarrow> andthen (make_event f) publishTaskEvent) (\<lambda>_.
     andthen now_utc (\<lambda>now.
     ret (TaskFromEntity now t)))))"

definition AssignTask :: "request \<Rightarrow> uuid \<Rightarrow> uuid \<Rightarrow> task_output go" where
  "AssignTask ctx taskID assigneeID =
     andthen (fetch_task taskID) (\<lambda>t0.
     andthen (require (User_ExistsByID assigneeID) ErrUserNotFound) (\<lambda>_.
     andthen now_utc (\<lambda>now.
     andthen (lift (Assign assigneeID now t0)) (\<lambda>t.
     store_task taskID t
       (Some (NewTaskAssigned taskID assigneeID (getCreatorIDFromContext ctx)))))))"

definition UnassignTask :: "request \<Rightarrow> uuid \<Rightarrow> task_output go" where
  "UnassignTask ctx taskID =
     andthen (fetch_task taskID) (\<lambda>t0.
     andthen now_utc (\<lambda>now.
     store_task taskID (Unassign now t0)
       (case t_assignee t0 of
          None \<Rightarrow> None
        | Some previous \<Rightarrow>
            Some (NewTaskUnassigned taskID previous (getCreatorIDFromContext ctx)))))"

definition ChangeTaskStatus :: "request \<Rightarrow> uuid \<Rightarrow> string \<Rightarrow> task_output go" where
  "ChangeTaskStatus ctx taskID status =
     andthen (lift (ParseTaskStatus status)) (\<lambda>newStatus.
     andthen (fetch_task taskID) (\<lambda>t0.
     andthen now_utc (\<lambda>now.
     andthen (lift (ChangeStatus newStatus now t0)) (\<lambda>t.
     store_task taskID t
       (Some (NewTaskStatusChanged taskID (t_status t0) newStatus
          (getCreatorIDFromContext ctx)))))))"

definition CompleteTask :: "request \<Rightarrow> uuid \<Rightarrow> task_output go" where
  "CompleteTask ctx taskID =
     andthen (fetch_task taskID) (\<lambda>t0.
     andthen now_utc (\<lambda>now.
     andthen (lift (Complete now t0)) (\<lambda>t.
     store_task taskID t (Some (NewTaskCompleted taskID (getCreatorIDFromContext ctx))))))"

definition ArchiveTask :: "request \<Rightarrow> uuid \<Rightarrow> task_output go" where
  "ArchiveTask ctx taskID =
     andthen (fetch_task taskID) (\<lambda>t0.
     andthen now_utc (\<lambda>now.
     andthen (lift (Archive now t0)) (\<lambda>t.
     store_task taskID t (Some (NewTaskArchived taskID (getCreatorIDFromContext ctx))))))"

definition AddLabel :: "request \<Rightarrow> uuid \<Rightarrow> uuid \<Rightarrow> task_output go" where
  "AddLabel ctx taskID labelID =
     andthen (fetch_task taskID) (\<lambda>t0.
     andthen (require (Label_ExistsByID labelID) ErrLabelNotFound) (\<lambda>_.
     andthen now_utc (\<lambda>now.
     store_task taskID (Task_AddLabel labelID now t0)
       (Some (NewTaskLabelAdded taskID labelID (getCreatorIDFromContext ctx))))))"

definition RemoveLabel :: "request \<Rightarrow> uuid \<Rightarrow> uuid \<Rightarrow> task_output go" where
  "RemoveLabel ctx taskID labelID =
     andthen (fetch_task taskID) (\<lambda>t0.
     andthen now_utc (\<lambda>now.
     store_task taskID (Task_RemoveLabel labelID now t0)
       (Some (NewTaskLabelRemoved taskID labelID (getCreatorIDFromContext ctx)))))"

section \<open>Attachments\<close>

definition cleanup_unavailable :: go_error where
  "cleanup_unavailable = NewDomainError CodeInternalError ''attachment cleanup is unavailable''"

definition publishAttachmentCleanupRequested :: "uuid \<Rightarrow> uuid \<Rightarrow> string \<Rightarrow> unit go" where
  "publishAttachmentCleanupRequested taskID attachmentID objectKey =
     andthen has_publisher (\<lambda>available.
     if \<not> available then raise cleanup_unavailable
     else
       andthen (make_event (NewTaskAttachmentCleanupRequested taskID attachmentID objectKey)) (\<lambda>evt.
       andthen (attempt (Publish TopicTaskEvents evt)) (\<lambda>r.
       case r of
         Ok _ \<Rightarrow> ret ()
       | Err err \<Rightarrow>
           raise (Wrap CodeInternalError ''failed to publish attachment cleanup request'' err)
       | Panic p \<Rightarrow> panic p)))"

definition deleteAttachmentObject :: "uuid \<Rightarrow> uuid \<Rightarrow> string \<Rightarrow> unit go" where
  "deleteAttachmentObject taskID attachmentID objectKey =
     andthen has_storage (\<lambda>available.
     if \<not> available then publishAttachmentCleanupRequested taskID attachmentID objectKey
     else
       andthen (attempt (Storage_Delete objectKey)) (\<lambda>r.
       case r of
         Ok _ \<Rightarrow> ret ()
       | Err err \<Rightarrow> publishAttachmentCleanupRequested taskID attachmentID objectKey
       | Panic p \<Rightarrow> panic p))"

definition cleanupUploadedAttachmentObject :: "uuid \<Rightarrow> uuid \<Rightarrow> string \<Rightarrow> unit go" where
  "cleanupUploadedAttachmentObject taskID attachmentID objectKey =
     andthen has_storage (\<lambda>available.
     if \<not> available then ret ()
     else
       andthen (attempt (Storage_Delete objectKey)) (\<lambda>r.
       case r of
         Ok _ \<Rightarrow> ret ()
       | Err err \<Rightarrow> ignoring (publishAttachmentCleanupRequested taskID attachmentID objectKey)
       | Panic p \<Rightarrow> panic p))"

definition DeleteTask :: "request \<Rightarrow> uuid \<Rightarrow> unit go" where
  "DeleteTask ctx i =
     andthen (require (Task_ExistsByID i) ErrTaskNotFound) (\<lambda>_.
     andthen (FindAttachmentsByTaskID i) (\<lambda>attachments.
     andthen (for_each attachments (\<lambda>a. deleteAttachmentObject i (at_id a) (at_key a))) (\<lambda>_.
     andthen (Task_Delete i) (\<lambda>_.
     andthen (invalidateTaskCaches i) (\<lambda>_.
     andthen (make_event (NewTaskDeleted i (getCreatorIDFromContext ctx))) (\<lambda>evt.
     publishTaskEvent evt))))))"

text \<open>\<open>path.Base\<close> of the standard library, and the sanitising of an uploaded file name.\<close>

definition path_Base :: "string \<Rightarrow> string" where
  "path_Base p =
     (if p = [] then ''.''
      else
        let stripped = rev (dropWhile (\<lambda>c. c = CHR ''/'') (rev p));
            last_elem = rev (takeWhile (\<lambda>c. c \<noteq> CHR ''/'') (rev stripped))
        in if last_elem = [] then ''/'' else last_elem)"

definition backslash :: char where "backslash = char_of (92::nat)"

definition sanitizeAttachmentFilename :: "string \<Rightarrow> string" where
  "sanitizeAttachmentFilename filename =
     (let normalized = map (\<lambda>c. if c = backslash then CHR ''/'' else c) (TrimSpace filename)
      in path_Base normalized)"

definition ensureFileStorageAvailable :: "unit go" where
  "ensureFileStorageAvailable =
     require has_storage (NewDomainError CodeInternalError ''file storage is unavailable'')"

definition attachment_to_output :: "attachment \<Rightarrow> attachment_output" where
  "attachment_to_output a =
     \<lparr>ao_id = at_id a, ao_task = at_task a, ao_filename = at_filename a,
      ao_content_type = at_content_type a, ao_size = at_size a, ao_uploader = at_uploader a,
      ao_created = at_created a\<rparr>"

definition UploadTaskAttachment ::
  "request \<Rightarrow> uuid \<Rightarrow> string \<Rightarrow> string \<Rightarrow> string \<Rightarrow> attachment_output go" where
  "UploadTaskAttachment ctx taskID filename contentType content =
     andthen ensureFileStorageAvailable (\<lambda>_.
     andthen (require (Task_ExistsByID taskID) ErrTaskNotFound) (\<lambda>_.
     let safeFilename = sanitizeAttachmentFilename filename in
     if safeFilename = [] \<or> safeFilename = ''.'' \<or> safeFilename = ''/''
     then raise (NewDomainError CodeValidation ''invalid filename'')
     else
       andthen fresh_uuid (\<lambda>n.
       andthen (uuid_str n) (\<lambda>name.
       andthen (uuid_str taskID) (\<lambda>s.
       let s3Key = FK_TaskAttachment ''attachments'' s (name @ ''-'' @ safeFilename) in
       andthen (attempt (Storage_Upload s3Key content)) (\<lambda>r.
       case r of
         Err err \<Rightarrow> raise (Errorf ''failed to upload file'' (Some err))
       | Panic p \<Rightarrow> panic p
       | Ok meta \<Rightarrow>
           andthen fresh_uuid (\<lambda>i.
           andthen now_utc (\<lambda>now.
           let a = NewTaskAttachment taskID safeFilename (fm_key meta) contentType (fm_size meta)
                     (getCreatorIDFromContext ctx) i now in
           andthen (attempt (SaveAttachment a)) (\<lambda>saved.
           case saved of
             Err err \<Rightarrow>
               andthen (cleanupUploadedAttachmentObject taskID (at_id a) (fm_key meta)) (\<lambda>_.
               raise (Errorf ''failed to save attachment'' (Some err)))
           | Panic p \<Rightarrow> panic p
           | Ok _ \<Rightarrow> ret (attachment_to_output a)))))))))) "

text \<open>An attachment of another task is reported as missing.\<close>

definition fetch_attachment :: "uuid \<Rightarrow> uuid \<Rightarrow> attachment go" where
  "fetch_attachment taskID attachmentID =
     andthen (FindAttachmentByID attachmentID) (\<lambda>a.
     case a of
       None \<Rightarrow> raise ErrAttachmentNotFound
     | Some a \<Rightarrow> if at_task a \<noteq> taskID then raise ErrAttachmentNotFound else ret a)"

definition DownloadTaskAttachment :: "uuid \<Rightarrow> uuid \<Rightarrow> (string \<times> attachment_output) go" where
  "DownloadTaskAttachment taskID attachmentID =
     andthen ensureFileStorageAvailable (\<lambda>_.
     andthen (fetch_attachment taskID attachmentID) (\<lambda>a.
     andthen (attempt (Storage_Download (at_key a))) (\<lambda>r.
     case r of
       Err err \<Rightarrow> raise (Errorf ''failed to download file'' (Some err))
     | Panic p \<Rightarrow> panic p
     | Ok content \<Rightarrow> ret (content, attachment_to_output a))))"

definition ListTaskAttachments :: "uuid \<Rightarrow> attachment_output list go" where
  "ListTaskAttachments taskID =
     andthen (require (Task_ExistsByID taskID) ErrTaskNotFound) (\<lambda>_.
     andthen (FindAttachmentsByTaskID taskID) (\<lambda>attachments.
     ret (map attachment_to_output attachments)))"

definition DeleteTaskAttachment :: "uuid \<Rightarrow> uuid \<Rightarrow> unit go" where
  "DeleteTaskAttachment taskID attachmentID =
     andthen (fetch_attachment taskID attachmentID) (\<lambda>a.
     andthen (deleteAttachmentObject taskID attachmentID (at_key a)) (\<lambda>_.
     DeleteAttachment attachmentID))"

section \<open>Reading with the cache\<close>

text \<open>
  The cache-aside read: a value found in the cache is the answer, and an answer computed is
  stored; errors of the cache are ignored.
\<close>

definition cache_lookup :: "(payload \<Rightarrow> 'a result) \<Rightarrow> string \<Rightarrow> 'a option go" where
  "cache_lookup decode key =
     andthen has_cache (\<lambda>present.
     if \<not> present then ret None
     else andthen (attempt (Cache_GetJSON decode key)) (\<lambda>r.
       case r of Ok x \<Rightarrow> ret (Some x) | Err _ \<Rightarrow> ret None | Panic p \<Rightarrow> panic p))"

definition cache_store :: "('a \<Rightarrow> payload) \<Rightarrow> string \<Rightarrow> 'a \<Rightarrow> duration \<Rightarrow> unit go" where
  "cache_store encode key x ttl =
     andthen has_cache (\<lambda>present.
     if \<not> present then ret () else ignoring (Cache_SetJSON encode key x ttl))"

definition GetTask :: "uuid \<Rightarrow> task_output go" where
  "GetTask i =
     andthen (uuid_str i) (\<lambda>s.
     let cacheKey = KB_Task cachePrefix s in
     andthen (cache_lookup as_task cacheKey) (\<lambda>cached.
     case cached of
       Some x \<Rightarrow> ret x
     | None \<Rightarrow>
         andthen (fetch_task i) (\<lambda>t.
         andthen now_utc (\<lambda>now.
         let out0 = TaskFromEntity now t in
         andthen (attempt (Label_FindByTaskID i)) (\<lambda>labels.
         andthen
           (case labels of
              Ok ls \<Rightarrow> ret (if ls \<noteq> [] then out0\<lparr>to_labels := map LabelFromEntity ls\<rparr> else out0)
            | Err _ \<Rightarrow> ret out0
            | Panic p \<Rightarrow> panic p) (\<lambda>out.
         andthen (cache_store JTask cacheKey out entityCacheTTL) (\<lambda>_.
         ret out)))))))"

text \<open>\<open>fmt.Fprintf\<close> with \<open>%d\<close> and \<open>%v\<close>.\<close>

fun show_nat :: "nat \<Rightarrow> string" where
  "show_nat n = (if n < 10 then [char_of (48 + n)] else show_nat (n div 10) @ [char_of (48 + n mod 10)])"

declare show_nat.simps [simp del]

definition show_int :: "int \<Rightarrow> string" where
  "show_int i = (if i < 0 then CHR ''-'' # show_nat (nat (- i)) else show_nat (nat i))"

definition show_bool :: "bool \<Rightarrow> string" where
  "show_bool b = (if b then ''true'' else ''false'')"

text \<open>
  The text that is hashed.  \<open>IsOverdue\<close> is a pointer, so \<open>%v\<close> prints its address when it
  is not nil: \<open>address\<close> is what it prints.
\<close>

definition task_list_key_text :: "(uuid \<Rightarrow> string) \<Rightarrow> string \<Rightarrow> task_filter \<Rightarrow> pagination \<Rightarrow> string" where
  "task_list_key_text show address filt p =
     ''search='' @ tf_search filt @ ''|''
     @ (case tf_assignee filt of None \<Rightarrow> [] | Some a \<Rightarrow> ''assignee='' @ show a @ ''|'')
     @ (case tf_creator filt of None \<Rightarrow> [] | Some c \<Rightarrow> ''creator='' @ show c @ ''|'')
     @ ''overdue='' @ (case tf_overdue filt of None \<Rightarrow> ''<nil>'' | Some _ \<Rightarrow> address) @ ''|''
     @ concat (map (\<lambda>l. ''label='' @ show l @ ''|'') (sort_key show (tf_labels filt)))
     @ (case tf_status filt of None \<Rightarrow> [] | Some s \<Rightarrow> ''status='' @ s @ ''|'')
     @ (case tf_priority filt of None \<Rightarrow> [] | Some s \<Rightarrow> ''priority='' @ s @ ''|'')
     @ ''page='' @ show_int (pg_page p) @ ''|size='' @ show_int (pg_size p) @ ''|sort=''
     @ pg_sort_by p @ ''|desc='' @ show_bool (pg_sort_desc p)"

definition buildTaskListCacheKey :: "task_filter \<Rightarrow> pagination \<Rightarrow> string go" where
  "buildTaskListCacheKey filt p e w =
     (Ok (e_sha256_hex e (task_list_key_text (e_uuid_string e) (e_pointer_string e (w_tick w)) filt p)),
      w\<lparr>w_tick := Suc (w_tick w)\<rparr>)"

definition to_task_list :: "task list \<times> paginated_result \<Rightarrow> task_list_output go" where
  "to_task_list = (\<lambda>(tasks, res).
     andthen now_utc (\<lambda>now.
     ret \<lparr>tl_tasks = map (TaskFromEntity now) tasks, tl_total = pr_total res, tl_page = pr_page res,
          tl_size = pr_size res, tl_total_pages = pr_total_pages res\<rparr>))"

definition ListTasks :: "task_filter \<Rightarrow> pagination \<Rightarrow> task_list_output go" where
  "ListTasks filt p =
     andthen (validate (VTaskFilter filt)) (\<lambda>_.
     andthen (validate (VPagination p)) (\<lambda>_.
     let outFilter = ToOutputFilter filt; outPagination = to_output_pagination p in
     andthen (buildTaskListCacheKey outFilter outPagination) (\<lambda>filterHash.
     let cacheKey = KB_TaskList cachePrefix filterHash in
     andthen (cache_lookup as_task_list cacheKey) (\<lambda>cached.
     case cached of
       Some x \<Rightarrow> ret x
     | None \<Rightarrow>
         andthen (Task_FindAll outFilter outPagination) (\<lambda>res.
         andthen (to_task_list res) (\<lambda>out.
         andthen (cache_store JTaskList cacheKey out listCacheTTL) (\<lambda>_.
         ret out)))))))"

definition SearchTasks :: "string \<Rightarrow> pagination \<Rightarrow> task_list_output go" where
  "SearchTasks query p = andthen (Task_Search query (to_output_pagination p)) to_task_list"

definition GetOverdueTasks :: "pagination \<Rightarrow> task_list_output go" where
  "GetOverdueTasks p = andthen (Task_FindOverdue (to_output_pagination p)) to_task_list"

end
