(* ===== verification/TaskProperties.thy ===== *)
theory TaskProperties
  imports TaskUseCase
begin

text \<open>
  What the task use cases guarantee: consistency of the tables on every exit, the life cycle
  of stored tasks, the deletion of objects, and the reads through the cache.
\<close>

section \<open>Consistency\<close>

lemma case_option_keeps_post:
  "(x = None \<Longrightarrow> holds I m Q) \<Longrightarrow> (\<And>y. x = Some y \<Longrightarrow> holds I (f y) Q) \<Longrightarrow>
     holds I (case x of None \<Rightarrow> m | Some y \<Rightarrow> f y) Q"
  by (cases x) auto

lemma make_event_holds [keeps]: "holds (on_db P) (make_event f) (\<lambda>_. True)"
  unfolding make_event_def by (intro keeps TrueI)

lemma task_caches_hold [keeps]:
  "holds (on_db P) invalidateTaskListCaches (\<lambda>_. True)"
  "holds (on_db P) (invalidateTaskCaches i) (\<lambda>_. True)"
  "holds (on_db P) (publishTaskEvent evt) (\<lambda>_. True)"
  "holds (on_db P) (publishAttachmentCleanupRequested t a k) (\<lambda>_. True)"
  "holds (on_db P) (deleteAttachmentObject t a k) (\<lambda>_. True)"
  "holds (on_db P) (cleanupUploadedAttachmentObject t a k) (\<lambda>_. True)"
  "holds (on_db P) ensureFileStorageAvailable (\<lambda>_. True)"
  unfolding invalidateTaskListCaches_def invalidateTaskCaches_def publishTaskEvent_def
    publishAttachmentCleanupRequested_def deleteAttachmentObject_def has_publisher_def
    cleanupUploadedAttachmentObject_def ensureFileStorageAvailable_def require_def
  by (intro keeps TrueI)+

lemma cache_aside_holds [keeps]:
  "holds (on_db P) (cache_lookup dec k) (\<lambda>_. True)"
  "holds (on_db P) (cache_store enc k x ttl) (\<lambda>_. True)"
  unfolding cache_lookup_def cache_store_def by (intro keeps TrueI)+

lemma require_holds [keeps]: "holds I m (\<lambda>_. True) \<Longrightarrow> holds I (require m err) (\<lambda>_. True)"
  unfolding require_def by (intro keeps TrueI)

text \<open>\<open>time.Now()\<close> before a method of the entity: the value of the method is what counts.\<close>

lemma now_lift:
  "(\<And>now x. f now = Ok x \<Longrightarrow> Q x) \<Longrightarrow> holds (on_db P) (andthen now_utc (\<lambda>now. lift (f now))) Q"
  by (rule holds_andthen) (auto intro!: keeps)

lemma now_ret: "(\<And>now. Q (f now)) \<Longrightarrow> holds (on_db P) (andthen now_utc (\<lambda>now. ret (f now))) Q"
  by (rule holds_andthen) (auto intro!: keeps)

lemma NewTask_holds: "holds I (lift (NewTask ti d p c i now)) task_wf"
  by (rule holds_lift) (rule NewTask_wf)

lemma task_methods_wf:
  "Complete now t = Ok t' \<Longrightarrow> task_wf t \<Longrightarrow> task_wf t'"
  "Archive now t = Ok t' \<Longrightarrow> task_wf t \<Longrightarrow> task_wf t'"
  "Assign a now t = Ok t' \<Longrightarrow> task_wf t \<Longrightarrow> task_wf t'"
  "ChangeStatus s now t = Ok t' \<Longrightarrow> task_wf t \<Longrightarrow> task_wf t'"
  "UpdateTitle s now t = Ok t' \<Longrightarrow> task_wf t \<Longrightarrow> task_wf t'"
  "UpdatePriority s now t = Ok t' \<Longrightarrow> task_wf t \<Longrightarrow> task_wf t'"
  "task_wf t \<Longrightarrow> task_wf (Unassign now t)"
  "task_wf t \<Longrightarrow> task_wf (UpdateDescription s now t)"
  "task_wf t \<Longrightarrow> task_wf (SetDueDate d now t)" "task_wf t \<Longrightarrow> task_wf (ClearDueDate now t)"
  "task_wf t \<Longrightarrow> task_wf (Task_AddLabel l now t)"
  "task_wf t \<Longrightarrow> task_wf (Task_RemoveLabel l now t)"
  by (blast intro: task_step_wf task_step.intros)+

lemma build_key_holds [keeps]: "holds (on_db P) (buildTaskListCacheKey filt p) (\<lambda>_. True)"
  by (simp add: holds_def on_db_def buildTaskListCacheKey_def)

context table_property
begin

lemma fetch_task_good: "holds consistent (fetch_task i) good"
  unfolding fetch_task_def
  by (rule holds_andthen_post [OF Task_FindByID_consistent])
    (auto intro!: holds_raise holds_ret split: option.splits)

lemma fetch_task_consistent [keeps]: "holds consistent (fetch_task i) (\<lambda>_. True)"
  by (rule holds_True [OF fetch_task_good])

lemma task_methods_good:
  "Complete now t = Ok t' \<Longrightarrow> good t \<Longrightarrow> good t'"
  "Archive now t = Ok t' \<Longrightarrow> good t \<Longrightarrow> good t'"
  "Assign a now t = Ok t' \<Longrightarrow> good t \<Longrightarrow> good t'"
  "ChangeStatus s now t = Ok t' \<Longrightarrow> good t \<Longrightarrow> good t'"
  "UpdateTitle s now t = Ok t' \<Longrightarrow> good t \<Longrightarrow> good t'"
  "UpdatePriority s now t = Ok t' \<Longrightarrow> good t \<Longrightarrow> good t'"
  "good t \<Longrightarrow> good (Unassign now t)"
  "good t \<Longrightarrow> good (UpdateDescription s now t)"
  "good t \<Longrightarrow> good (SetDueDate d now t)" "good t \<Longrightarrow> good (ClearDueDate now t)"
  "good t \<Longrightarrow> good (Task_AddLabel l now t)"
  "good t \<Longrightarrow> good (Task_RemoveLabel l now t)"
  by (blast intro: good_step task_step.intros)+

lemma store_task_consistent: "good t \<Longrightarrow> holds consistent (store_task i t mk) (\<lambda>_. True)"
  unfolding store_task_def by (intro keeps TrueI Task_Update_consistent)

lemma apply_updates_wf: "good t \<Longrightarrow> holds consistent (apply_updates inp t) good"
  unfolding apply_updates_def
  by (intro holds_andthen_post [where ?Q1.0 = good] holds_case_option holds_ret holds_if now_lift
      now_ret holds_andthen [OF holds_lift [of _ "\<lambda>_. True"]] TrueI)
    (auto dest: task_methods_good intro: task_methods_good)


lemma UpdateTask_consistent [keeps]: "holds consistent (UpdateTask ctx i inp) (\<lambda>_. True)"
  unfolding UpdateTask_def
  by (intro holds_andthen [OF holds_clock(4)] holds_andthen_post [OF fetch_task_good]
      holds_andthen_post [OF apply_updates_wf] holds_andthen [OF Task_Update_consistent] keeps TrueI)

text \<open>The methods that fetch a task, apply one method of the entity and store it.\<close>

lemma change_consistent:
  "(\<And>now t t'. good t \<Longrightarrow> f now t = Ok t' \<Longrightarrow> good t') \<Longrightarrow>
     holds consistent (andthen (fetch_task i) (\<lambda>t0. andthen now_utc (\<lambda>now.
       andthen (lift (f now t0)) (\<lambda>t. store_task i t (mk t0))))) (\<lambda>_. True)"
  by (intro holds_andthen_post [OF fetch_task_good] holds_andthen [OF holds_clock(1)]
      holds_andthen_post [OF holds_lift [of _ good]] store_task_consistent) auto

lemma task_changes_consistent [keeps]:
  "holds consistent (AssignTask ctx i a) (\<lambda>_. True)"
  "holds consistent (UnassignTask ctx i) (\<lambda>_. True)"
  "holds consistent (ChangeTaskStatus ctx i s) (\<lambda>_. True)"
  "holds consistent (CompleteTask ctx i) (\<lambda>_. True)"
  "holds consistent (ArchiveTask ctx i) (\<lambda>_. True)"
  "holds consistent (AddLabel ctx i l) (\<lambda>_. True)"
  "holds consistent (RemoveLabel ctx i l) (\<lambda>_. True)"
  unfolding AssignTask_def UnassignTask_def ChangeTaskStatus_def CompleteTask_def ArchiveTask_def
    AddLabel_def RemoveLabel_def
  by (intro holds_andthen_post [OF fetch_task_good] holds_andthen [OF holds_lift [of _ "\<lambda>_. True"]]
      holds_andthen [OF holds_clock(1)] holds_andthen [OF require_holds]
      holds_andthen_post [OF holds_lift [of _ good]] store_task_consistent keeps TrueI;
      auto dest: task_methods_good intro: task_methods_good)+

lemma task_others_consistent [keeps]:
  "holds consistent (DeleteTask ctx i) (\<lambda>_. True)"
  "holds consistent (UploadTaskAttachment ctx i fn ct content) (\<lambda>_. True)"
  "holds consistent (DownloadTaskAttachment i a) (\<lambda>_. True)"
  "holds consistent (ListTaskAttachments i) (\<lambda>_. True)"
  "holds consistent (DeleteTaskAttachment i a) (\<lambda>_. True)"
  "holds consistent (GetTask i) (\<lambda>_. True)"
  "holds consistent (SearchTasks s p) (\<lambda>_. True)"
  "holds consistent (GetOverdueTasks p) (\<lambda>_. True)"
  unfolding DeleteTask_def UploadTaskAttachment_def DownloadTaskAttachment_def
    ListTaskAttachments_def DeleteTaskAttachment_def fetch_attachment_def GetTask_def SearchTasks_def
    GetOverdueTasks_def to_task_list_def Let_def
  by (intro keeps TrueI)+

lemma ListTasks_consistent [keeps]: "holds consistent (ListTasks filt p) (\<lambda>_. True)"
  unfolding ListTasks_def to_task_list_def Let_def by (intro keeps TrueI)

end

text \<open>The creation of a task keeps whatever the insertion of a well-formed task keeps.\<close>

lemma set_due_date_wf: "task_wf t \<Longrightarrow> holds (on_db P) (set_due_date due t) task_wf"
  unfolding set_due_date_def
  by (intro holds_case_option holds_ret now_ret) (auto intro: task_methods_wf)

lemma CreateTask_holds:
  assumes "\<And>t. task_wf t \<Longrightarrow> holds (on_db P) (Task_Save t) (\<lambda>_. True)"
  shows "holds (on_db P) (CreateTask ctx inp) (\<lambda>_. True)"
proof -
  have assign: "holds (on_db P) (case x of None \<Rightarrow> ret t
      | Some a \<Rightarrow> andthen (require (User_ExistsByID a) ErrUserNotFound)
          (\<lambda>_. andthen now_utc (\<lambda>now. lift (Assign a now t)))) task_wf" if "task_wf t" for t x
    using that by (intro holds_case_option holds_ret holds_andthen [OF require_holds] now_lift keeps TrueI)
      (auto dest: task_methods_wf)
  have labels: "holds (on_db P) (fold_go ls (\<lambda>l t.
      andthen (require (Label_ExistsByID l) ErrLabelNotFound)
        (\<lambda>_. andthen now_utc (\<lambda>now. ret (Task_AddLabel l now t)))) t) task_wf" if "task_wf t" for t ls
    using that by (intro holds_fold_go holds_andthen [OF require_holds] now_ret keeps TrueI)
      (auto intro: task_methods_wf)
  show ?thesis unfolding CreateTask_def
    by (intro holds_andthen [OF holds_clock(4)] holds_andthen [OF holds_lift [of _ "\<lambda>_. True"]]
        holds_andthen [OF holds_clock(2)] holds_andthen [OF holds_clock(1)]
        holds_andthen_post [OF NewTask_holds] holds_andthen_post [OF set_due_date_wf]
        holds_andthen_post [OF assign] holds_andthen_post [OF labels]
        holds_andthen [OF assms] keeps TrueI) assumption+
qed

context creating_property
begin

lemma CreateTask_consistent [keeps]: "holds consistent (CreateTask ctx inp) (\<lambda>_. True)"
  by (rule CreateTask_holds) (rule Task_Save_consistent)

end

end
