(* ===== verification/UserUseCase.thy ===== *)
theory UserUseCase
  imports TaskProperties
begin

text \<open>
  The user use cases (\<open>usecase/user/user\_usecase.go\<close>) with the seeding of the system roles,
  the label use cases (\<open>usecase/label/label\_usecase.go\<close>) and the role use cases
  (\<open>usecase/rbac/role\_usecase.go\<close>).  The publisher of the user use cases is not checked for
  nil before it is called.
\<close>

section \<open>Caches and events\<close>

text \<open>\<open>if err := uc.eventPublisher.Publish(...); err != nil { log }\<close>\<close>

definition publishUserEvent :: "(uuid \<Rightarrow> time \<Rightarrow> event) \<Rightarrow> unit go" where
  "publishUserEvent f = andthen (make_event f) (\<lambda>evt. ignoring (Publish TopicUserEvents evt))"

definition invalidateUserCaches :: "uuid \<Rightarrow> string \<Rightarrow> string \<Rightarrow> unit go" where
  "invalidateUserCaches userID oldEmail newEmail =
     andthen has_cache (\<lambda>present.
     if \<not> present then ret ()
     else
       andthen (uuid_str userID) (\<lambda>s.
       andthen (ignoring (Cache_Delete (KB_User cachePrefix s))) (\<lambda>_.
       andthen (whenever (oldEmail \<noteq> [])
          (ignoring (Cache_Delete (KB_UserByEmail cachePrefix oldEmail)))) (\<lambda>_.
       andthen (whenever (newEmail \<noteq> [] \<and> newEmail \<noteq> oldEmail)
          (ignoring (Cache_Delete (KB_UserByEmail cachePrefix newEmail)))) (\<lambda>_.
       ignoring (Cache_DeletePattern (KB_UserList cachePrefix [] @ ''*'')))))))"

definition invalidateUserSessions :: "uuid \<Rightarrow> unit go" where
  "invalidateUserSessions userID =
     andthen has_cache (\<lambda>present.
     if \<not> present then ret ()
     else
       andthen (uuid_str userID) (\<lambda>s.
       ignoring (Cache_DeletePattern (KB_UserSessions cachePrefix s))))"

section \<open>Users\<close>

definition new_user :: "create_user_input \<Rightarrow> user go" where
  "new_user inp =
     andthen (attempt (bcrypt_hash (cui_password inp))) (\<lambda>h.
     andthen fresh_uuid (\<lambda>i.
     andthen now_utc (\<lambda>now.
     lift (NewUser (\<lambda>_. h) (cui_email inp) (cui_password inp) (cui_name inp) i now))))"

definition CreateUser :: "create_user_input \<Rightarrow> user_output go" where
  "CreateUser inp =
     andthen (validate (VCreateUser inp)) (\<lambda>_.
     andthen (User_ExistsByEmail (cui_email inp)) (\<lambda>exists.
     if exists then raise ErrEmailAlreadyExists
     else
       andthen (new_user inp) (\<lambda>u.
       andthen (User_Save u) (\<lambda>_.
       andthen (invalidateUserCaches (u_id u) [] (u_email u)) (\<lambda>_.
       andthen (publishUserEvent (NewUserCreated (u_id u) (u_email u) (u_name u))) (\<lambda>_.
       ret (UserFromEntity u)))))))"

definition fetch_user :: "uuid \<Rightarrow> user go" where
  "fetch_user i =
     andthen (User_FindByID i) (\<lambda>u.
     case u of None \<Rightarrow> raise ErrUserNotFound | Some u \<Rightarrow> ret u)"

definition UpdateUser :: "uuid \<Rightarrow> update_user_input \<Rightarrow> user_output go" where
  "UpdateUser i inp =
     andthen (validate (VUpdateUser inp)) (\<lambda>_.
     andthen (fetch_user i) (\<lambda>u0.
     andthen
       (case uui_email inp of
          None \<Rightarrow> ret u0
        | Some email \<Rightarrow>
            if email \<noteq> u_email u0 then
              andthen (User_ExistsByEmail email) (\<lambda>exists.
              if exists then raise ErrEmailAlreadyExists else ret (u0\<lparr>u_email := email\<rparr>))
            else ret u0) (\<lambda>u1.
     andthen now_utc (\<lambda>now.
     let u2 = (case uui_name inp of None \<Rightarrow> u1 | Some name \<Rightarrow> u1\<lparr>u_name := name\<rparr>);
         u = u2\<lparr>u_updated := now\<rparr> in
     andthen (User_Update u) (\<lambda>_.
     andthen (invalidateUserCaches i (u_email u0) (u_email u)) (\<lambda>_.
     andthen (publishUserEvent (NewUserUpdated (u_id u))) (\<lambda>_.
     ret (UserFromEntity u))))))))"

definition DeleteUser :: "uuid \<Rightarrow> unit go" where
  "DeleteUser i =
     andthen (fetch_user i) (\<lambda>u.
     andthen (User_Delete i) (\<lambda>_.
     andthen (invalidateUserCaches i (u_email u) []) (\<lambda>_.
     publishUserEvent (NewUserDeleted i))))"

definition cached_user :: "string \<Rightarrow> user option go \<Rightarrow> user_output go" where
  "cached_user cacheKey find_user =
     andthen (cache_lookup as_user cacheKey) (\<lambda>cached.
     case cached of
       Some x \<Rightarrow> ret x
     | None \<Rightarrow>
         andthen find_user (\<lambda>u.
         case u of
           None \<Rightarrow> raise ErrUserNotFound
         | Some u \<Rightarrow>
             let out = UserFromEntity u in
             andthen (cache_store JUser cacheKey out entityCacheTTL) (\<lambda>_. ret out)))"

definition GetUser :: "uuid \<Rightarrow> user_output go" where
  "GetUser i = andthen (uuid_str i) (\<lambda>s. cached_user (KB_User cachePrefix s) (User_FindByID i))"

definition GetUserByEmail :: "string \<Rightarrow> user_output go" where
  "GetUserByEmail email = cached_user (KB_UserByEmail cachePrefix email) (User_FindByEmail email)"

definition user_list_key_text :: "(uuid \<Rightarrow> string) \<Rightarrow> user_filter \<Rightarrow> pagination \<Rightarrow> string" where
  "user_list_key_text show filt p =
     ''search='' @ uf_search filt @ ''|''
     @ (case uf_role filt of None \<Rightarrow> [] | Some r \<Rightarrow> ''role='' @ show r @ ''|'')
     @ ''page='' @ show_int (pg_page p) @ ''|size='' @ show_int (pg_size p) @ ''|sort=''
     @ pg_sort_by p @ ''|desc='' @ show_bool (pg_sort_desc p)"

definition buildUserListCacheKey :: "user_filter \<Rightarrow> pagination \<Rightarrow> string go" where
  "buildUserListCacheKey filt p =
     asks (\<lambda>e. e_sha256_hex e (user_list_key_text (e_uuid_string e) filt p))"

definition ListUsers :: "user_filter \<Rightarrow> pagination \<Rightarrow> user_list_output go" where
  "ListUsers filt p =
     andthen (validate (VUserFilter filt)) (\<lambda>_.
     andthen (validate (VPagination p)) (\<lambda>_.
     andthen (buildUserListCacheKey filt (to_output_pagination p)) (\<lambda>filterHash.
     let cacheKey = KB_UserList cachePrefix filterHash in
     andthen (cache_lookup as_user_list cacheKey) (\<lambda>cached.
     case cached of
       Some x \<Rightarrow> ret x
     | None \<Rightarrow>
         andthen (User_FindAll filt (to_output_pagination p)) (\<lambda>(users, res).
         let out = \<lparr>ul_users = map UserFromEntity users, ul_total = pr_total res,
                    ul_page = pr_page res, ul_size = pr_size res,
                    ul_total_pages = pr_total_pages res\<rparr> in
         andthen (cache_store JUserList cacheKey out listCacheTTL) (\<lambda>_.
         ret out))))))"

definition fetch_role :: "uuid \<Rightarrow> role go" where
  "fetch_role i =
     andthen (Role_FindByID i) (\<lambda>r.
     case r of None \<Rightarrow> raise ErrRoleNotFound | Some r \<Rightarrow> ret r)"

definition AssignRole :: "uuid \<Rightarrow> uuid \<Rightarrow> user_output go" where
  "AssignRole userID roleID =
     andthen (fetch_user userID) (\<lambda>u0.
     andthen (fetch_role roleID) (\<lambda>r.
     andthen now_utc (\<lambda>now.
     let u = User_AssignRole r now u0 in
     andthen (User_Update u) (\<lambda>_.
     andthen (invalidateUserCaches userID (u_email u) (u_email u)) (\<lambda>_.
     andthen (invalidateUserSessions userID) (\<lambda>_.
     andthen (publishUserEvent (NewUserRoleAssigned userID roleID (r_name r) userID)) (\<lambda>_.
     ret (UserFromEntity u))))))))"

definition RemoveRole :: "uuid \<Rightarrow> uuid \<Rightarrow> user_output go" where
  "RemoveRole userID roleID =
     andthen (fetch_user userID) (\<lambda>u0.
     andthen (fetch_role roleID) (\<lambda>r.
     andthen now_utc (\<lambda>now.
     let u = User_RemoveRole roleID now u0 in
     andthen (User_Update u) (\<lambda>_.
     andthen (invalidateUserCaches userID (u_email u) (u_email u)) (\<lambda>_.
     andthen (invalidateUserSessions userID) (\<lambda>_.
     andthen (publishUserEvent (NewUserRoleRemoved userID roleID (r_name r) userID)) (\<lambda>_.
     ret (UserFromEntity u))))))))"

section \<open>Seeding the system roles\<close>

record desired_role =
  dr_name :: string
  dr_description :: string
  dr_permissions :: "(resource_type \<times> permission_action) list"

definition desiredRoles :: "desired_role list" where
  "desiredRoles =
     [\<lparr>dr_name = RoleAdmin, dr_description = ''Full system access'',
       dr_permissions =
         [(ResourceTypeTask, PermissionActionAll), (ResourceTypeUser, PermissionActionAll),
          (ResourceTypeRole, PermissionActionAll), (ResourceTypePermissions, PermissionActionAll),
          (ResourceTypeLabels, PermissionActionAll)]\<rparr>,
      \<lparr>dr_name = RoleManager, dr_description = ''Management access'',
       dr_permissions =
         [(ResourceTypeTask, PermissionActionCreate), (ResourceTypeTask, PermissionActionRead),
          (ResourceTypeTask, PermissionActionUpdate), (ResourceTypeTask, PermissionActionDelete),
          (ResourceTypeTask, PermissionActionAssign), (ResourceTypeUser, PermissionActionRead),
          (ResourceTypeLabel, PermissionActionAll)]\<rparr>,
      \<lparr>dr_name = RoleMember, dr_description = ''Member access'',
       dr_permissions =
         [(ResourceTypeTask, PermissionActionCreate), (ResourceTypeTask, PermissionActionRead),
          (ResourceTypeTask, PermissionActionUpdate), (ResourceTypeLabel, PermissionActionRead)]\<rparr>,
      \<lparr>dr_name = RoleViewer, dr_description = ''Viewer access'',
       dr_permissions =
         [(ResourceTypeTask, PermissionActionRead), (ResourceTypeUser, PermissionActionRead),
          (ResourceTypeLabel, PermissionActionRead)]\<rparr>]"

definition obsolete_roles :: "role list \<Rightarrow> string list" where
  "obsolete_roles existing =
     map r_name (filter (\<lambda>er. r_name er \<notin> dr_name ` set desiredRoles) existing)"

definition sync_role :: "desired_role \<Rightarrow> unit go" where
  "sync_role dr =
     andthen (Role_FindByName (dr_name dr)) (\<lambda>found.
     andthen
       (case found of
          None \<Rightarrow>
            andthen fresh_uuid (\<lambda>i. andthen now_utc (\<lambda>now.
            lift (NewRole (dr_name dr) (dr_description dr) i now)))
        | Some r \<Rightarrow>
            andthen now_utc (\<lambda>now. andthen now_utc (\<lambda>now'.
            ret ((Role_UpdateDescription (dr_description dr) now r)\<lparr>r_updated := now'\<rparr>)))) (\<lambda>r0.
     andthen (fold_go (dr_permissions dr) (\<lambda>(resource, action) r.
        andthen fresh_uuid (\<lambda>i. andthen now_utc (\<lambda>now.
        andthen (lift (NewPermission (resource @ '':'' @ action) resource action i now)) (\<lambda>p.
        andthen now_utc (\<lambda>now'. ret (Role_AddPermission p now' r))))))
        (r0\<lparr>r_permissions := []\<rparr>)) (\<lambda>r.
     andthen (Role_RemoveAllPermissions (r_id r)) (\<lambda>_.
     Role_Save r))))"

definition SeedSystemRoles :: "unit go" where
  "SeedSystemRoles = RunInTransaction
     (andthen Role_FindAll (\<lambda>existing.
      let obsolete = obsolete_roles existing in
      andthen (if obsolete \<noteq> [] then Role_DeleteByNames obsolete else ret ()) (\<lambda>_.
      for_each desiredRoles sync_role)))"

section \<open>Labels\<close>

definition errLabelNameAlreadyExists :: go_error where
  "errLabelNameAlreadyExists = NewDomainError CodeConflict ''label name already exists''"

definition CreateLabel :: "create_label_input \<Rightarrow> label_output go" where
  "CreateLabel inp =
     andthen (validate (VCreateLabel inp)) (\<lambda>_.
     andthen (Label_FindByName (cli_name inp)) (\<lambda>existing.
     if existing \<noteq> None then raise errLabelNameAlreadyExists
     else
       andthen fresh_uuid (\<lambda>i.
       andthen now_utc (\<lambda>now.
       andthen (lift (NewLabel (cli_name inp) (cli_color inp) i now)) (\<lambda>l.
       andthen (Label_Save l) (\<lambda>_.
       ret (LabelFromEntity l)))))))"

definition UpdateLabel :: "uuid \<Rightarrow> update_label_input \<Rightarrow> label_output go" where
  "UpdateLabel i inp =
     andthen (validate (VUpdateLabel inp)) (\<lambda>_.
     andthen (Label_FindByID i) (\<lambda>found.
     case found of
       None \<Rightarrow> raise ErrLabelNotFound
     | Some l0 \<Rightarrow>
         andthen
           (case uli_name inp of
              None \<Rightarrow> ret l0
            | Some name \<Rightarrow>
                andthen (Label_FindByName name) (\<lambda>existing.
                if (case existing of None \<Rightarrow> False | Some x \<Rightarrow> l_id x \<noteq> l_id l0)
                then raise errLabelNameAlreadyExists
                else andthen now_utc (\<lambda>now. lift (Label_UpdateName name now l0)))) (\<lambda>l1.
         andthen
           (case uli_color inp of
              None \<Rightarrow> ret l1
            | Some color \<Rightarrow> andthen now_utc (\<lambda>now. lift (Label_UpdateColor color now l1))) (\<lambda>l.
         andthen (Label_Update l) (\<lambda>_.
         ret (LabelFromEntity l))))))"

definition DeleteLabel :: "uuid \<Rightarrow> unit go" where
  "DeleteLabel i = andthen (require (Label_ExistsByID i) ErrLabelNotFound) (\<lambda>_. Label_Delete i)"

definition GetLabel :: "uuid \<Rightarrow> label_output go" where
  "GetLabel i =
     andthen (Label_FindByID i) (\<lambda>found.
     case found of None \<Rightarrow> raise ErrLabelNotFound | Some l \<Rightarrow> ret (LabelFromEntity l))"

definition ListLabels :: "label_output list go" where
  "ListLabels = andthen Label_FindAll (\<lambda>ls. ret (map LabelFromEntity ls))"

section \<open>Roles\<close>

definition GetRole :: "uuid \<Rightarrow> role_output go" where
  "GetRole i = andthen (fetch_role i) (\<lambda>r. ret (RoleFromEntity r))"

definition ListRoles :: "role_output list go" where
  "ListRoles = andthen Role_FindAll (\<lambda>rs. ret (map RoleFromEntity rs))"

definition role_unsupported :: "string \<Rightarrow> 'a go" where
  "role_unsupported msg = raise (NewDomainError CodeInvalidOperation msg)"

definition CreateRole :: "role_output go" where
  "CreateRole = role_unsupported ''role creation not supported via graphql''"
definition UpdateRole :: "role_output go" where
  "UpdateRole = role_unsupported ''role update not supported via graphql''"
definition DeleteRole :: "unit go" where
  "DeleteRole = role_unsupported ''role deletion not supported via graphql''"
definition AddPermission :: "role_output go" where
  "AddPermission = role_unsupported ''permission management not supported via graphql''"
definition RemovePermission :: "role_output go" where
  "RemovePermission = role_unsupported ''permission management not supported via graphql''"

section \<open>Consistency\<close>

lemma user_caches_hold [keeps]:
  "holds (on_db P) (publishUserEvent f) (\<lambda>_. True)"
  "holds (on_db P) (invalidateUserCaches i a b) (\<lambda>_. True)"
  "holds (on_db P) (invalidateUserSessions i) (\<lambda>_. True)"
  "holds (on_db P) (new_user inp) (\<lambda>_. True)"
  "holds (on_db P) (buildUserListCacheKey filt p) (\<lambda>_. True)"
  unfolding publishUserEvent_def make_event_def invalidateUserCaches_def invalidateUserSessions_def
    new_user_def buildUserListCacheKey_def
  by (intro keeps TrueI)+

lemma fetch_holds [keeps]:
  "holds (on_db P) (fetch_user i) (\<lambda>_. True)" "holds (on_db P) (fetch_role i) (\<lambda>_. True)"
  unfolding fetch_user_def fetch_role_def by (intro keeps TrueI)+

end
