(* ===== verification/AuthUseCase.thy ===== *)
theory AuthUseCase
  imports UserUseCase
begin

text \<open>
  Tokens and sessions: the token service (\<open>infrastructure/auth/jwt/token\_service.go\<close>) over
  the JWT library, and the authentication use cases (\<open>usecase/auth/auth\_usecase.go\<close>).

  The library is the environment: \<open>e_jwt_sign\<close> makes a token of claims with the secret of the
  service, \<open>e_jwt_parse\<close> verifies the signature and the dates at a time and gives the claims,
  \<open>e_jwt_unverified\<close> reads the claims without verifying.
\<close>

section \<open>The token service\<close>

definition jwt_ErrInvalidToken :: go_error where
  "jwt_ErrInvalidToken = Sentinel ''jwt'' ''ErrInvalidToken''"
definition jwt_ErrExpiredToken :: go_error where
  "jwt_ErrExpiredToken = Sentinel ''jwt'' ''ErrExpiredToken''"

definition sign :: "string \<Rightarrow> jwt_claims \<Rightarrow> string go" where
  "sign msg claims =
     andthen (asks (\<lambda>e. e_jwt_sign e claims)) (\<lambda>r.
     case r of
       Ok s \<Rightarrow> ret s
     | Err err \<Rightarrow> raise (Errorf msg (Some err))
     | Panic p \<Rightarrow> panic p)"

definition registered_claims :: "env \<Rightarrow> uuid \<Rightarrow> time \<Rightarrow> time \<Rightarrow> uuid \<Rightarrow> jwt_claims" where
  "registered_claims e userID now expiry i =
     \<lparr>jc_issuer = e_issuer e, jc_subject = e_uuid_string e userID,
      jc_expires = Some (e_numeric_date e expiry), jc_issued = Some (e_numeric_date e now),
      jc_not_before = Some (e_numeric_date e now), jc_id = e_uuid_string e i,
      jc_user = uuid_Nil, jc_email = [], jc_roles = [], jc_role_ids = [], jc_permissions = []\<rparr>"

definition GenerateTokenPair ::
  "uuid \<Rightarrow> string \<Rightarrow> string list \<Rightarrow> uuid list \<Rightarrow> string list \<Rightarrow> auth_output go" where
  "GenerateTokenPair userID email roles roleIDs permissions =
     andthen now_utc (\<lambda>now.
     andthen (asks (\<lambda>e. now + e_access_ttl e)) (\<lambda>accessExpiry.
     andthen (asks (\<lambda>e. now + e_refresh_ttl e)) (\<lambda>refreshExpiry.
     andthen fresh_uuid (\<lambda>i.
     andthen (asks (\<lambda>e. (registered_claims e userID now accessExpiry i)
        \<lparr>jc_user := userID, jc_email := email, jc_roles := roles, jc_role_ids := roleIDs,
         jc_permissions := permissions\<rparr>)) (\<lambda>accessClaims.
     andthen (sign ''failed to sign access token'' accessClaims) (\<lambda>accessToken.
     andthen fresh_uuid (\<lambda>j.
     andthen (asks (\<lambda>e. registered_claims e userID now refreshExpiry j)) (\<lambda>refreshClaims.
     andthen (sign ''failed to sign refresh token'' refreshClaims) (\<lambda>refreshToken.
     ret \<lparr>au_access = accessToken, au_refresh = refreshToken, au_expires = accessExpiry,
          au_user = None\<rparr>)))))))))"

definition parse_token :: "string \<Rightarrow> jwt_claims go" where
  "parse_token tokenString =
     andthen now_utc (\<lambda>now.
     andthen (asks (\<lambda>e. e_jwt_parse e now tokenString)) (\<lambda>r.
     case r of
       JwtExpired \<Rightarrow> raise jwt_ErrExpiredToken
     | JwtInvalid \<Rightarrow> raise jwt_ErrInvalidToken
     | JwtValid claims \<Rightarrow> ret claims))"

definition TS_ValidateToken :: "string \<Rightarrow> token_claims go" where
  "TS_ValidateToken tokenString =
     andthen (parse_token tokenString) (\<lambda>claims.
     case jc_expires claims of
       None \<Rightarrow> panic nil_dereference
     | Some expires \<Rightarrow>
         ret \<lparr>tc_user = jc_user claims, tc_email = jc_email claims, tc_roles = jc_roles claims,
              tc_role_ids = jc_role_ids claims, tc_permissions = jc_permissions claims,
              tc_token_id = jc_id claims, tc_expires = expires\<rparr>)"

definition ExtractTokenID :: "string \<Rightarrow> string go" where
  "ExtractTokenID tokenString =
     andthen (asks (\<lambda>e. e_jwt_unverified e tokenString)) (\<lambda>r.
     case r of None \<Rightarrow> raise jwt_ErrInvalidToken | Some claims \<Rightarrow> ret (jc_id claims))"

definition RefreshTokenTTL :: "duration go" where
  "RefreshTokenTTL = asks e_refresh_ttl"

definition ValidateRefreshToken :: "string \<Rightarrow> uuid go" where
  "ValidateRefreshToken tokenString =
     andthen (parse_token tokenString) (\<lambda>claims.
     andthen (asks (\<lambda>e. e_uuid_parse e (jc_subject claims))) (\<lambda>r.
     case r of None \<Rightarrow> raise jwt_ErrInvalidToken | Some i \<Rightarrow> ret i))"

section \<open>Signing in\<close>

definition permission_strings :: "role list \<Rightarrow> string list" where
  "permission_strings roles =
     concat (map (\<lambda>r. map (\<lambda>p. p_resource p @ '':'' @ p_action p) (r_permissions r)) roles)"

text \<open>\<open>id, _ := ExtractTokenID(token)\<close>\<close>

definition token_id_or_empty :: "string \<Rightarrow> string go" where
  "token_id_or_empty tokenString =
     andthen (attempt (ExtractTokenID tokenString)) (\<lambda>r.
     case r of Ok i \<Rightarrow> ret i | Err _ \<Rightarrow> ret [] | Panic p \<Rightarrow> panic p)"

definition session_key :: "uuid \<Rightarrow> string \<Rightarrow> string go" where
  "session_key userID tokenID =
     asks (\<lambda>e. KB_UserSession cachePrefix (e_uuid_string e userID) tokenID)"

definition store_sessions :: "uuid \<Rightarrow> auth_output \<Rightarrow> unit go" where
  "store_sessions userID out =
     andthen has_cache (\<lambda>present.
     if \<not> present then ret ()
     else
       andthen (token_id_or_empty (au_access out)) (\<lambda>accessID.
       andthen (token_id_or_empty (au_refresh out)) (\<lambda>refreshID.
       if accessID = [] then ret ()
       else
         andthen now_utc (\<lambda>now.
         andthen (uuid_str userID) (\<lambda>s.
         let sess = \<lparr>sd_user = s, sd_access = accessID, sd_refresh = refreshID,
                       sd_created = now, sd_expires = au_expires out\<rparr> in
         andthen RefreshTokenTTL (\<lambda>ttl.
         andthen (session_key userID accessID) (\<lambda>k1.
         andthen (ignoring (Cache_SetJSON JSession k1 sess ttl)) (\<lambda>_.
         if refreshID = [] then ret ()
         else
           andthen (session_key userID refreshID) (\<lambda>k2.
           ignoring (Cache_SetJSON JSession k2 sess ttl)))))))))) "

definition generateAuthOutput :: "user \<Rightarrow> auth_output go" where
  "generateAuthOutput u =
     andthen (GenerateTokenPair (u_id u) (u_email u) (map r_name (u_roles u))
        (map r_id (u_roles u)) (permission_strings (u_roles u))) (\<lambda>out0.
     let out = out0\<lparr>au_user := Some (UserFromEntity u)\<rparr> in
     andthen (store_sessions (u_id u) out) (\<lambda>_.
     ret out))"

definition defaultRegistrationRole :: string where
  "defaultRegistrationRole = RoleMember"

definition Register :: "create_user_input \<Rightarrow> auth_output go" where
  "Register inp =
     andthen (validate (VCreateUser inp)) (\<lambda>_.
     andthen (User_ExistsByEmail (cui_email inp)) (\<lambda>exists.
     if exists then raise ErrEmailAlreadyExists
     else
       andthen (Role_FindByName defaultRegistrationRole) (\<lambda>found.
       case found of
         None \<Rightarrow> raise ErrRoleNotFound
       | Some r \<Rightarrow>
           andthen (new_user inp) (\<lambda>u0.
           andthen now_utc (\<lambda>now.
           let u = User_AssignRole r now u0 in
           andthen (User_Save u) (\<lambda>_.
           andthen (generateAuthOutput u) (\<lambda>out.
           andthen (publishUserEvent (NewUserCreated (u_id u) (u_email u) (u_name u))) (\<lambda>_.
           ret out))))))))"

definition Login :: "login_input \<Rightarrow> auth_output go" where
  "Login inp =
     andthen (validate (VLogin inp)) (\<lambda>_.
     andthen (User_FindByEmail (li_email inp)) (\<lambda>found.
     case found of
       None \<Rightarrow> raise ErrInvalidCredentials
     | Some u \<Rightarrow>
         andthen (asks e_bcrypt_cmp) (\<lambda>cmp.
         if \<not> VerifyPassword cmp (li_password inp) u then raise ErrInvalidCredentials
         else
           andthen (generateAuthOutput u) (\<lambda>out.
           andthen (publishUserEvent (NewUserLoggedIn (u_id u) [] [])) (\<lambda>_.
           ret out)))))"

section \<open>Signing out\<close>

definition revoked_marker :: payload where "revoked_marker = Raw ''revoked''"

text \<open>The block of \<open>Logout\<close> that runs when there is a cache.\<close>

definition revoke_session :: "uuid \<Rightarrow> string \<Rightarrow> string \<Rightarrow> unit go" where
  "revoke_session userID accessToken tokenID =
     andthen (attempt (TS_ValidateToken accessToken)) (\<lambda>r.
     andthen
       (case r of
          Ok claims \<Rightarrow>
            andthen now_utc (\<lambda>now.
            let remainingTTL = tc_expires claims - now in
            whenever (remainingTTL > 0)
              (ignoring (Cache_Set (KB_TokenBlacklist cachePrefix tokenID) revoked_marker
                 remainingTTL)))
        | Err _ \<Rightarrow> ret ()
        | Panic p \<Rightarrow> panic p) (\<lambda>_.
     andthen (session_key userID tokenID) (\<lambda>sessionKey.
     andthen (attempt (Cache_GetJSON as_session sessionKey)) (\<lambda>s.
     andthen
       (case s of
          Ok sess \<Rightarrow>
            if sd_refresh sess \<noteq> [] then
              andthen RefreshTokenTTL (\<lambda>ttl.
              andthen (ignoring (Cache_Set (KB_TokenBlacklist cachePrefix (sd_refresh sess))
                 revoked_marker ttl)) (\<lambda>_.
              andthen (session_key userID (sd_refresh sess)) (\<lambda>k.
              ignoring (Cache_Delete k))))
            else ret ()
        | Err _ \<Rightarrow> ret ()
        | Panic p \<Rightarrow> panic p) (\<lambda>_.
     ignoring (Cache_Delete sessionKey))))))"

definition Logout :: "uuid \<Rightarrow> string \<Rightarrow> unit go" where
  "Logout userID accessToken =
     andthen (ExtractTokenID accessToken) (\<lambda>tokenID.
     andthen has_cache (\<lambda>present.
     andthen (if \<not> present then ret () else revoke_session userID accessToken tokenID) (\<lambda>_.
     publishUserEvent (NewUserLoggedOut userID))))"

section \<open>Refreshing and validating\<close>

text \<open>\<open>v, _ := uc.cache.Exists(ctx, key)\<close>: false when the cache fails.\<close>

definition exists_or_false :: "string \<Rightarrow> bool go" where
  "exists_or_false key =
     andthen (attempt (Cache_Exists key)) (\<lambda>r.
     case r of Ok b \<Rightarrow> ret b | Err _ \<Rightarrow> ret False | Panic p \<Rightarrow> panic p)"

text \<open>The blacklist first, then the session of the user under the token id.\<close>

definition check_session :: "uuid \<Rightarrow> string \<Rightarrow> unit go" where
  "check_session userID tokenID =
     andthen (exists_or_false (KB_TokenBlacklist cachePrefix tokenID)) (\<lambda>revoked.
     if revoked then raise ErrInvalidToken
     else
       andthen (session_key userID tokenID) (\<lambda>k.
       andthen (exists_or_false k) (\<lambda>hasSession.
       if \<not> hasSession then raise ErrInvalidToken else ret ())))"

definition RefreshToken :: "string \<Rightarrow> auth_output go" where
  "RefreshToken refreshToken =
     andthen (attempt (ValidateRefreshToken refreshToken)) (\<lambda>r.
     case r of
       Err _ \<Rightarrow> raise ErrInvalidToken
     | Panic p \<Rightarrow> panic p
     | Ok userID \<Rightarrow>
         andthen has_cache (\<lambda>present.
         andthen
           (if \<not> present then ret ()
            else
              andthen (token_id_or_empty refreshToken) (\<lambda>tokenID.
              if tokenID = [] then ret () else check_session userID tokenID)) (\<lambda>_.
         andthen (fetch_user userID) (\<lambda>u.
         generateAuthOutput u))))"

definition ValidateToken :: "string \<Rightarrow> token_claims go" where
  "ValidateToken token =
     andthen (TS_ValidateToken token) (\<lambda>claims.
     andthen has_cache (\<lambda>present.
     andthen
       (if present \<and> tc_token_id claims \<noteq> []
        then check_session (tc_user claims) (tc_token_id claims) else ret ()) (\<lambda>_.
     ret claims)))"

definition invalidateAllUserSessions :: "uuid \<Rightarrow> unit go" where
  "invalidateAllUserSessions userID =
     andthen has_cache (\<lambda>present.
     if \<not> present then ret ()
     else
       andthen (uuid_str userID) (\<lambda>s.
       ignoring (Cache_DeletePattern (KB_UserSessions cachePrefix s))))"

definition ChangePassword :: "uuid \<Rightarrow> change_password_input \<Rightarrow> unit go" where
  "ChangePassword userID inp =
     andthen (validate (VChangePassword inp)) (\<lambda>_.
     andthen (fetch_user userID) (\<lambda>u0.
     andthen (asks e_bcrypt_cmp) (\<lambda>cmp.
     if \<not> VerifyPassword cmp (cpi_old inp) u0 then raise ErrInvalidCredentials
     else
       andthen (attempt (bcrypt_hash (cpi_new inp))) (\<lambda>h.
       andthen now_utc (\<lambda>now.
       andthen (lift (UpdatePassword (\<lambda>_. h) (cpi_new inp) now u0)) (\<lambda>u.
       andthen (User_Update u) (\<lambda>_.
       andthen (invalidateAllUserSessions userID) (\<lambda>_.
       andthen now_utc (\<lambda>t.
       publishUserEvent (\<lambda>i now. NewUserPasswordChanged userID i now t))))))))))"

section \<open>Consistency\<close>

lemma token_service_holds [keeps]:
  "holds (on_db P) (sign msg c) (\<lambda>_. True)"
  "holds (on_db P) (GenerateTokenPair i em rs ris ps) (\<lambda>_. True)"
  "holds (on_db P) (TS_ValidateToken s) (\<lambda>_. True)" "holds (on_db P) (ExtractTokenID s) (\<lambda>_. True)"
  "holds (on_db P) RefreshTokenTTL (\<lambda>_. True)"
  "holds (on_db P) (ValidateRefreshToken s) (\<lambda>_. True)"
  "holds (on_db P) (token_id_or_empty s) (\<lambda>_. True)"
  "holds (on_db P) (session_key i s) (\<lambda>_. True)"
  "holds (on_db P) (store_sessions i ao) (\<lambda>_. True)"
  "holds (on_db P) (generateAuthOutput u) (\<lambda>_. True)"
  "holds (on_db P) (exists_or_false s) (\<lambda>_. True)"
  "holds (on_db P) (check_session i s) (\<lambda>_. True)"
  "holds (on_db P) (invalidateAllUserSessions i) (\<lambda>_. True)"
proof -
  have p [keeps]: "holds (on_db P) (parse_token s) (\<lambda>_. True)" for s
    unfolding parse_token_def by (intro keeps TrueI) (auto split: jwt_parsed.splits intro: keeps)
  show s [keeps]: "holds (on_db P) (sign msg c) (\<lambda>_. True)" for msg c
    unfolding sign_def by (intro keeps TrueI)
  show g [keeps]: "holds (on_db P) (GenerateTokenPair i em rs ris ps) (\<lambda>_. True)" for i em rs ris ps
    unfolding GenerateTokenPair_def by (intro keeps TrueI)
  show "holds (on_db P) (TS_ValidateToken s) (\<lambda>_. True)"
    unfolding TS_ValidateToken_def by (intro keeps TrueI)
  show x [keeps]: "holds (on_db P) (ExtractTokenID s) (\<lambda>_. True)" for s
    unfolding ExtractTokenID_def by (intro keeps TrueI)
  show t [keeps]: "holds (on_db P) RefreshTokenTTL (\<lambda>_. True)"
    unfolding RefreshTokenTTL_def by (intro keeps TrueI)
  show "holds (on_db P) (ValidateRefreshToken s) (\<lambda>_. True)"
    unfolding ValidateRefreshToken_def by (intro keeps TrueI)
  show i [keeps]: "holds (on_db P) (token_id_or_empty s) (\<lambda>_. True)" for s
    unfolding token_id_or_empty_def by (intro keeps TrueI)
  show k [keeps]: "holds (on_db P) (session_key i s) (\<lambda>_. True)" for i s
    unfolding session_key_def by (intro keeps TrueI)
  show ss [keeps]: "holds (on_db P) (store_sessions i ao) (\<lambda>_. True)" for i ao
    unfolding store_sessions_def Let_def by (intro keeps TrueI)
  show "holds (on_db P) (generateAuthOutput u) (\<lambda>_. True)"
    unfolding generateAuthOutput_def Let_def by (intro keeps TrueI)
  show e [keeps]: "holds (on_db P) (exists_or_false s) (\<lambda>_. True)" for s
    unfolding exists_or_false_def by (intro keeps TrueI)
  show "holds (on_db P) (check_session i s) (\<lambda>_. True)"
    unfolding check_session_def by (intro keeps TrueI)
  show "holds (on_db P) (invalidateAllUserSessions i) (\<lambda>_. True)"
    unfolding invalidateAllUserSessions_def by (intro keeps TrueI)
qed

context table_property
begin

lemma auth_consistent [keeps]:
  "holds consistent (Register ci) (\<lambda>_. True)" "holds consistent (Login li) (\<lambda>_. True)"
  "holds consistent (Logout i s) (\<lambda>_. True)" "holds consistent (RefreshToken s) (\<lambda>_. True)"
  "holds consistent (ValidateToken s) (\<lambda>_. True)"
  "holds consistent (ChangePassword i cp) (\<lambda>_. True)"
  unfolding Register_def Login_def Logout_def revoke_session_def RefreshToken_def ValidateToken_def
    ChangePassword_def Let_def
  by (intro keeps TrueI)+

lemma user_consistent [keeps]:
  "holds consistent (CreateUser ci) (\<lambda>_. True)" "holds consistent (UpdateUser i ui) (\<lambda>_. True)"
  "holds consistent (DeleteUser i) (\<lambda>_. True)" "holds consistent (GetUser i) (\<lambda>_. True)"
  "holds consistent (GetUserByEmail s) (\<lambda>_. True)" "holds consistent (ListUsers f p) (\<lambda>_. True)"
  "holds consistent (AssignRole i j) (\<lambda>_. True)" "holds consistent (RemoveRole i j) (\<lambda>_. True)"
  unfolding CreateUser_def UpdateUser_def DeleteUser_def GetUser_def GetUserByEmail_def
    cached_user_def ListUsers_def AssignRole_def RemoveRole_def Let_def
  by (intro keeps TrueI)+

lemma label_role_consistent [keeps]:
  "holds consistent (CreateLabel cl) (\<lambda>_. True)" "holds consistent (UpdateLabel i ul) (\<lambda>_. True)"
  "holds consistent (DeleteLabel i) (\<lambda>_. True)" "holds consistent (GetLabel i) (\<lambda>_. True)"
  "holds consistent ListLabels (\<lambda>_. True)" "holds consistent (GetRole i) (\<lambda>_. True)"
  "holds consistent ListRoles (\<lambda>_. True)"
  unfolding CreateLabel_def UpdateLabel_def DeleteLabel_def require_def GetLabel_def
    ListLabels_def GetRole_def ListRoles_def
  by (intro keeps TrueI)+

lemma sync_role_consistent [keeps]: "holds consistent (sync_role dr) (\<lambda>_. True)"
  unfolding sync_role_def by (intro keeps TrueI)

lemma SeedSystemRoles_consistent [keeps]: "holds consistent SeedSystemRoles (\<lambda>_. True)"
  unfolding SeedSystemRoles_def Let_def by (intro keeps TrueI)

end

end
