(* ===== verification/Authorization.thy ===== *)
theory Authorization
  imports AuthUseCase
begin

text \<open>
  Access decisions: the role based authorizer (\<open>internal/auth/rbac/authorizer.go\<close>), the checker
  of access control entries (\<open>internal/auth/acl/checker.go\<close>) and the decisions of the
  authentication middleware (\<open>internal/auth/middleware.go\<close>).
\<close>

section \<open>The authorizer\<close>

definition matchPermission ::
  "resource_type \<Rightarrow> permission_action \<Rightarrow> resource_type \<Rightarrow> permission_action \<Rightarrow> bool" where
  "matchPermission pResource pAction requiredResource requiredAction =
     (let resourceMatches = pResource = ResourceTypeAll \<or> pResource = requiredResource;
          actionMatches = pAction = PermissionActionAll \<or> pAction = requiredAction
      in resourceMatches \<and> actionMatches)"

definition defaultRolePermissions ::
  "string \<Rightarrow> (resource_type \<times> permission_action) list option" where
  "defaultRolePermissions role =
     (if role = RoleAdmin then Some
        [(ResourceTypeTasks, PermissionActionAll), (ResourceTypeUsers, PermissionActionAll),
         (ResourceTypeRoles, PermissionActionAll), (ResourceTypePermissions, PermissionActionAll),
         (ResourceTypeLabels, PermissionActionAll)]
      else if role = RoleManager then Some
        [(ResourceTypeTasks, PermissionActionCreate), (ResourceTypeTasks, PermissionActionRead),
         (ResourceTypeTasks, PermissionActionUpdate), (ResourceTypeTasks, PermissionActionDelete),
         (ResourceTypeTasks, PermissionActionAssign), (ResourceTypeUsers, PermissionActionRead),
         (ResourceTypeLabels, PermissionActionAll)]
      else if role = RoleMember then Some
        [(ResourceTypeTasks, PermissionActionCreate), (ResourceTypeTasks, PermissionActionRead),
         (ResourceTypeTasks, PermissionActionUpdate), (ResourceTypeLabels, PermissionActionRead)]
      else if role = RoleViewer then Some
        [(ResourceTypeTasks, PermissionActionRead), (ResourceTypeUsers, PermissionActionRead),
         (ResourceTypeLabels, PermissionActionRead)]
      else None)"

fun claims_loop :: "string list \<Rightarrow> resource_type \<Rightarrow> permission_action \<Rightarrow> bool" where
  "claims_loop [] resource action = False"
| "claims_loop (p # ps) resource action =
     (case split_on CHR '':'' p of
        [pResource, pAction] \<Rightarrow>
          if matchPermission pResource pAction resource action then True
          else claims_loop ps resource action
      | _ \<Rightarrow> claims_loop ps resource action)"

fun policy_loop :: "string list \<Rightarrow> resource_type \<Rightarrow> permission_action \<Rightarrow> bool" where
  "policy_loop [] resource action = False"
| "policy_loop (roleName # names) resource action =
     (case defaultRolePermissions roleName of
        Some perms \<Rightarrow>
          if any_loop (\<lambda>(r, a). matchPermission r a resource action) perms then True
          else policy_loop names resource action
      | None \<Rightarrow> policy_loop names resource action)"

definition HasPermissionFromClaims ::
  "string list \<Rightarrow> string list \<Rightarrow> resource_type \<Rightarrow> permission_action \<Rightarrow> bool" where
  "HasPermissionFromClaims roles permissions resource action =
     (if claims_loop permissions resource action then True else policy_loop roles resource action)"

definition Authorizer_HasPermission ::
  "user option \<Rightarrow> resource_type \<Rightarrow> permission_action \<Rightarrow> bool" where
  "Authorizer_HasPermission u resource action =
     (case u of
        None \<Rightarrow> False
      | Some u \<Rightarrow> HasPermissionFromClaims (map r_name (u_roles u))
                    (permission_strings (u_roles u)) resource action)"

definition HasRoleFromClaims :: "string list \<Rightarrow> string \<Rightarrow> bool" where
  "HasRoleFromClaims roles roleName = any_loop (\<lambda>r. r = roleName) roles"

definition Authorizer_HasRole :: "user option \<Rightarrow> string \<Rightarrow> bool" where
  "Authorizer_HasRole u roleName =
     (case u of None \<Rightarrow> False | Some u \<Rightarrow> HasRoleFromClaims (map r_name (u_roles u)) roleName)"

definition HasAnyRoleFromClaims :: "string list \<Rightarrow> string list \<Rightarrow> bool" where
  "HasAnyRoleFromClaims userRoles roleNames = any_loop (HasRoleFromClaims userRoles) roleNames"

definition Authorizer_HasAnyRole :: "user option \<Rightarrow> string list \<Rightarrow> bool" where
  "Authorizer_HasAnyRole u roleNames =
     (case u of None \<Rightarrow> False | Some u \<Rightarrow> HasAnyRoleFromClaims (map r_name (u_roles u)) roleNames)"

definition CanManageTask :: "user option \<Rightarrow> task option \<Rightarrow> bool" where
  "CanManageTask u t =
     (case (u, t) of
        (Some user, Some task) \<Rightarrow>
          if Authorizer_HasRole u RoleAdmin then True
          else if t_creator task = u_id user then True
          else if (case t_assignee task of None \<Rightarrow> False | Some a \<Rightarrow> a = u_id user) then True
          else if Authorizer_HasRole u RoleManager then True
          else False
      | _ \<Rightarrow> False)"

definition CanViewTask :: "user option \<Rightarrow> task option \<Rightarrow> bool" where
  "CanViewTask u t =
     (if u = None \<or> t = None then False
      else Authorizer_HasPermission u ResourceTypeTasks PermissionActionRead)"

definition CanManageUser :: "user option \<Rightarrow> uuid \<Rightarrow> bool" where
  "CanManageUser actor targetUserID =
     (case actor of
        None \<Rightarrow> False
      | Some a \<Rightarrow>
          if Authorizer_HasRole actor RoleAdmin then True
          else if u_id a = targetUserID then True
          else False)"

section \<open>The checker of access control entries\<close>

fun role_checks ::
  "uuid list \<Rightarrow> resource_type \<Rightarrow> uuid \<Rightarrow> acl_permission \<Rightarrow> bool go" where
  "role_checks [] resourceType resourceID permission = ret False"
| "role_checks (roleID # roleIDs) resourceType resourceID permission =
     andthen (ACL_HasPermission resourceType resourceID ACLSubjectTypeRole roleID permission) (\<lambda>ok.
     if ok then ret True
     else
       andthen (if permission \<noteq> ACLPermissionAdmin
          then ACL_HasPermission resourceType resourceID ACLSubjectTypeRole roleID ACLPermissionAdmin
          else ret False) (\<lambda>admin.
       if admin then ret True else role_checks roleIDs resourceType resourceID permission))"

definition CanAccess ::
  "uuid \<Rightarrow> uuid list \<Rightarrow> resource_type \<Rightarrow> uuid \<Rightarrow> acl_permission \<Rightarrow> bool go" where
  "CanAccess userID roleIDs resourceType resourceID permission =
     (if userID = uuid_Nil then ret False
      else
        andthen (ACL_HasPermission resourceType resourceID ACLSubjectTypeUser userID permission) (\<lambda>ok.
        if ok then ret True
        else
          andthen (if permission \<noteq> ACLPermissionAdmin
             then ACL_HasPermission resourceType resourceID ACLSubjectTypeUser userID ACLPermissionAdmin
             else ret False) (\<lambda>admin.
          if admin then ret True
          else role_checks roleIDs resourceType resourceID permission)))"

definition GrantAccess ::
  "resource_type \<Rightarrow> uuid \<Rightarrow> acl_subject_type \<Rightarrow> uuid \<Rightarrow> acl_permission \<Rightarrow> unit go" where
  "GrantAccess resourceType resourceID subjectType subjectID permission =
     andthen fresh_uuid (\<lambda>i. andthen now_utc (\<lambda>now.
     andthen (lift (NewACLEntry resourceType resourceID subjectType subjectID permission i now))
     ACL_Save))"

definition RevokeAccess :: "uuid \<Rightarrow> unit go" where "RevokeAccess entryID = ACL_Delete entryID"
definition RevokeAllAccess :: "resource_type \<Rightarrow> uuid \<Rightarrow> unit go" where
  "RevokeAllAccess resourceType resourceID = ACL_DeleteByResource resourceType resourceID"
definition GetResourcePermissions :: "resource_type \<Rightarrow> uuid \<Rightarrow> acl_entry list go" where
  "GetResourcePermissions resourceType resourceID = ACL_FindByResource resourceType resourceID"
definition GetUserPermissions :: "uuid \<Rightarrow> acl_entry list go" where
  "GetUserPermissions userID = ACL_FindBySubject ACLSubjectTypeUser userID"

section \<open>What the authorizer decides\<close>

lemma claims_loop_iff:
  "claims_loop ps resource action \<longleftrightarrow>
     (\<exists>p\<in>set ps. \<exists>r a. split_on CHR '':'' p = [r, a] \<and> matchPermission r a resource action)"
proof (induction ps)
  case (Cons p ps)
  have head: "(case split_on CHR '':'' p of [r, a] \<Rightarrow> if matchPermission r a resource action then True else X | _ \<Rightarrow> X)
      \<longleftrightarrow> (\<exists>r a. split_on CHR '':'' p = [r, a] \<and> matchPermission r a resource action) \<or> X" for X
    by (auto split: list.splits)
  show ?case by (simp only: claims_loop.simps head Cons.IH) auto
qed simp

lemma claims_loop_pairs:
  "claims_loop ps resource action \<longleftrightarrow>
     (\<exists>r a. CHR '':'' \<notin> set r \<and> CHR '':'' \<notin> set a \<and> r @ CHR '':'' # a \<in> set ps
        \<and> matchPermission r a resource action)"
  unfolding claims_loop_iff split_on_pair_iff by metis

lemma policy_loop_iff:
  "policy_loop names resource action \<longleftrightarrow>
     (\<exists>n\<in>set names. \<exists>perms. defaultRolePermissions n = Some perms
        \<and> (\<exists>(r, a)\<in>set perms. matchPermission r a resource action))"
  by (induction names) (auto split: option.splits)

text \<open>
  The decision over the claims of a token: access is granted exactly when a permission of
  the form resource, colon, action, with one colon, matches, or when a role of the token is a
  predefined role whose policy matches.
\<close>

theorem HasPermissionFromClaims_spec:
  "HasPermissionFromClaims roles permissions resource action \<longleftrightarrow>
     (\<exists>r a. CHR '':'' \<notin> set r \<and> CHR '':'' \<notin> set a \<and> r @ '':'' @ a \<in> set permissions
        \<and> matchPermission r a resource action)
     \<or> (\<exists>n\<in>set roles. \<exists>perms. defaultRolePermissions n = Some perms
        \<and> (\<exists>(r, a)\<in>set perms. matchPermission r a resource action))"
proof -
  have "HasPermissionFromClaims roles permissions resource action \<longleftrightarrow>
      claims_loop permissions resource action \<or> policy_loop roles resource action"
    by (simp add: HasPermissionFromClaims_def)
  then show ?thesis by (simp only: claims_loop_pairs policy_loop_iff append_Cons append_Nil)
qed

text \<open>
  The permissions that the seeding writes for tasks, users and labels are for the singular
  resource names, except the administrator's on labels: on the resources the router asks for,
  no seeded permission of the manager, the member or the viewer matches any request, and
  their access comes from the predefined policy of the role name alone.
\<close>

theorem seeded_permissions_never_match:
  "\<forall>dr\<in>set desiredRoles. dr_name dr \<noteq> RoleAdmin \<longrightarrow>
     (\<forall>(r, a)\<in>set (dr_permissions dr).
        \<forall>resource\<in>{ResourceTypeTasks, ResourceTypeUsers, ResourceTypeRoles, ResourceTypeLabels}.
          \<not> matchPermission r a resource action)"
  by (simp add: desiredRoles_def matchPermission_def resource_consts role_consts)

theorem seeded_permissions_never_match_witness:
  "\<not> matchPermission ResourceTypeTask PermissionActionRead ResourceTypeTasks PermissionActionRead"
  using seeded_permissions_never_match [of PermissionActionRead]
  by (simp add: desiredRoles_def role_consts)

section \<open>What the checker decides\<close>

definition acl_grants :: "db \<Rightarrow> resource_type \<Rightarrow> uuid \<Rightarrow> acl_subject_type \<Rightarrow> uuid \<Rightarrow> acl_permission \<Rightarrow> bool"
  where
  "acl_grants d rt ri st si perm \<longleftrightarrow> (\<exists>a\<in>set (db_acl d). ACLEntry_Matches a rt ri st si perm)"

lemma q_HasPermission_grants:
  "q_HasPermission rt ri st si perm t d = (Ok (acl_grants d rt ri st si perm), d)"
  by (auto simp: q_HasPermission_def q_read_def acl_grants_def ACLEntry_Matches_def
      ACLPermissionAdmin_def)

text \<open>A query leaves the tables as they are; its answer is that of the tables, or an error.\<close>

definition answers :: "'a go \<Rightarrow> (db \<Rightarrow> 'a) \<Rightarrow> bool" where
  "answers m f \<longleftrightarrow> (\<forall>e w. w_db (snd (m e w)) = w_db w \<and> w_blobs (snd (m e w)) = w_blobs w
     \<and> (\<forall>x. fst (m e w) = Ok x \<longrightarrow> x = f (w_db w))
     \<and> ((\<forall>n. e_fault e n = None) \<longrightarrow> fst (m e w) = Ok (f (w_db w))))"

lemma answersD:
  "answers m f \<Longrightarrow> m e w = (r, w') \<Longrightarrow> w_db w' = w_db w \<and> w_blobs w' = w_blobs w
     \<and> (\<forall>x. r = Ok x \<longrightarrow> x = f (w_db w)) \<and> ((\<forall>n. e_fault e n = None) \<longrightarrow> r = Ok (f (w_db w)))"
  by (metis answers_def fst_conv snd_conv)

lemma answersI:
  "(\<And>e w r w'. m e w = (r, w') \<Longrightarrow> w_db w' = w_db w \<and> w_blobs w' = w_blobs w
     \<and> (\<forall>x. r = Ok x \<longrightarrow> x = f (w_db w)) \<and> ((\<forall>n. e_fault e n = None) \<longrightarrow> r = Ok (f (w_db w))))
   \<Longrightarrow> answers m f"
  unfolding answers_def by (metis prod.collapse)

lemma answers_ret: "answers (ret x) (\<lambda>_. x)"
  by (simp add: answers_def)

lemma answers_andthen:
  assumes "answers m f" "\<And>x. answers (g x) (\<lambda>d. h x d)"
  shows "answers (andthen m g) (\<lambda>d. h (f d) d)"
proof (rule answersI)
  fix e w r w'
  assume run: "andthen m g e w = (r, w')"
  obtain r1 w1 where m: "m e w = (r1, w1)" by fastforce
  note 1 = answersD [OF assms(1) m]
  show "w_db w' = w_db w \<and> w_blobs w' = w_blobs w \<and> (\<forall>x. r = Ok x \<longrightarrow> x = h (f (w_db w)) (w_db w))
      \<and> ((\<forall>n. e_fault e n = None) \<longrightarrow> r = Ok (h (f (w_db w)) (w_db w)))"
  proof (cases r1)
    case (Ok x)
    then have "g x e w1 = (r, w')" using run m by simp
    note 2 = answersD [OF assms(2) this]
    have "x = f (w_db w)" using 1 Ok by blast
    with 1 2 show ?thesis by metis
  next
    case (Err err)
    with run m have "r = Err err" "w' = w1" by simp_all
    with 1 Err show ?thesis by (metis result.distinct(1))
  next
    case (Panic p)
    with run m have "r = Panic p" "w' = w1" by simp_all
    with 1 Panic show ?thesis by (metis result.distinct(3))
  qed
qed

lemma answers_if: "answers m f \<Longrightarrow> answers m' f' \<Longrightarrow> answers (if b then m else m') (\<lambda>d. if b then f d else f' d)"
  by simp

lemma answers_sql_read:
  assumes "\<And>t d. q t d = (Ok (f d), d)"
  shows "answers (sql q) f"
  by (rule answersI)
    (auto simp: sql_def external_def run_sql_def Let_def assms split: option.splits fault.splits)

lemma answers_ACL: "answers (ACL_HasPermission rt ri st si perm) (\<lambda>d. acl_grants d rt ri st si perm)"
  unfolding ACL_HasPermission_def by (rule answers_sql_read) (rule q_HasPermission_grants)

text \<open>An entry with the admin permission already matches every permission.\<close>

lemma admin_grants: "acl_grants d rt ri st si ACLPermissionAdmin \<Longrightarrow> acl_grants d rt ri st si perm"
  by (auto simp: acl_grants_def ACLEntry_Matches_def)

lemma answers_role_checks:
  "answers (role_checks roleIDs rt ri perm)
     (\<lambda>d. \<exists>r\<in>set roleIDs. acl_grants d rt ri ACLSubjectTypeRole r perm)"
proof (induction roleIDs)
  case Nil
  show ?case unfolding role_checks.simps by (simp add: answers_ret del: prims_run)
next
  case (Cons r rs)
  have "answers (role_checks (r # rs) rt ri perm)
     (\<lambda>d. if acl_grants d rt ri ACLSubjectTypeRole r perm then True
          else if (if perm \<noteq> ACLPermissionAdmin then acl_grants d rt ri ACLSubjectTypeRole r ACLPermissionAdmin
                   else False) then True
          else \<exists>r\<in>set rs. acl_grants d rt ri ACLSubjectTypeRole r perm)"
    unfolding role_checks.simps
    by (intro answers_andthen [where h = "\<lambda>ok d. if ok then True else _ d"]
        answers_andthen [where h = "\<lambda>ok d. if ok then True else _ d"] answers_if answers_ACL answers_ret Cons.IH)
  moreover have "(\<lambda>d. if acl_grants d rt ri ACLSubjectTypeRole r perm then True
          else if (if perm \<noteq> ACLPermissionAdmin then acl_grants d rt ri ACLSubjectTypeRole r ACLPermissionAdmin
                   else False) then True
          else \<exists>r\<in>set rs. acl_grants d rt ri ACLSubjectTypeRole r perm)
      = (\<lambda>d. \<exists>x\<in>set (r # rs). acl_grants d rt ri ACLSubjectTypeRole x perm)"
    by (auto simp: fun_eq_iff dest: admin_grants)
  ultimately show ?case by simp
qed

definition access_spec :: "uuid \<Rightarrow> uuid list \<Rightarrow> resource_type \<Rightarrow> uuid \<Rightarrow> acl_permission \<Rightarrow> db \<Rightarrow> bool" where
  "access_spec userID roleIDs rt ri perm d \<longleftrightarrow> userID \<noteq> uuid_Nil
     \<and> (\<exists>a\<in>set (db_acl d). ACLEntry_Matches a rt ri ACLSubjectTypeUser userID perm
        \<or> (\<exists>r\<in>set roleIDs. ACLEntry_Matches a rt ri ACLSubjectTypeRole r perm))"

lemma CanAccess_answers: "answers (CanAccess u rs rt ri perm) (access_spec u rs rt ri perm)"
proof (cases "u = uuid_Nil")
  case True
  have "access_spec u rs rt ri perm = (\<lambda>_. False)"
    using True by (simp add: access_spec_def fun_eq_iff)
  then show ?thesis using True by (simp add: CanAccess_def answers_ret del: prims_run)
next
  case False
  have "answers (CanAccess u rs rt ri perm)
     (\<lambda>d. if acl_grants d rt ri ACLSubjectTypeUser u perm then True
          else if (if perm \<noteq> ACLPermissionAdmin then acl_grants d rt ri ACLSubjectTypeUser u ACLPermissionAdmin
                   else False) then True
          else \<exists>r\<in>set rs. acl_grants d rt ri ACLSubjectTypeRole r perm)"
    unfolding CanAccess_def using False
    by (simp only: if_False)
      (intro answers_andthen [where h = "\<lambda>ok d. if ok then True else _ d"]
        answers_andthen [where h = "\<lambda>ok d. if ok then True else _ d"] answers_if answers_ACL answers_ret
        answers_role_checks)
  moreover have "(\<lambda>d. if acl_grants d rt ri ACLSubjectTypeUser u perm then True
          else if (if perm \<noteq> ACLPermissionAdmin then acl_grants d rt ri ACLSubjectTypeUser u ACLPermissionAdmin
                   else False) then True
          else \<exists>r\<in>set rs. acl_grants d rt ri ACLSubjectTypeRole r perm)
      = access_spec u rs rt ri perm"
  proof
    fix d
    show "(if acl_grants d rt ri ACLSubjectTypeUser u perm then True
          else if (if perm \<noteq> ACLPermissionAdmin then acl_grants d rt ri ACLSubjectTypeUser u ACLPermissionAdmin
                   else False) then True
          else \<exists>r\<in>set rs. acl_grants d rt ri ACLSubjectTypeRole r perm)
      = access_spec u rs rt ri perm d"
      using False admin_grants [of d rt ri ACLSubjectTypeUser u perm]
      unfolding access_spec_def acl_grants_def by auto
  qed
  ultimately show ?thesis by simp
qed

text \<open>
  C17. The checker is sound and complete: whenever it answers, the answer is whether an entry of
  the table grants the permission (or admin) to the user or to one of the roles, and never true
  for the nil user; when no statement fails it does answer; and it never changes the tables.
\<close>

theorem CanAccess_sound_complete:
  "(fst (CanAccess u rs rt ri perm e w) = Ok b \<longrightarrow> b = access_spec u rs rt ri perm (w_db w))
   \<and> ((\<forall>n. e_fault e n = None) \<longrightarrow>
        fst (CanAccess u rs rt ri perm e w) = Ok (access_spec u rs rt ri perm (w_db w)))
   \<and> w_db (snd (CanAccess u rs rt ri perm e w)) = w_db w"
  using CanAccess_answers [of u rs rt ri perm] by (simp add: answers_def)

lemma acl_reads_hold [keeps]:
  "holds (on_db P) (role_checks rs rt ri perm) (\<lambda>_. True)"
  "holds (on_db P) (CanAccess u rs rt ri perm) (\<lambda>_. True)"
proof -
  show [keeps]: "holds (on_db P) (role_checks rs rt ri perm) (\<lambda>_. True)"
    by (induction rs) (simp_all only: role_checks.simps, (intro keeps TrueI | assumption)+)
  show "holds (on_db P) (CanAccess u rs rt ri perm) (\<lambda>_. True)"
    unfolding CanAccess_def by (intro keeps TrueI)
qed

end
