(* ===== verification/Rest.thy ===== *)
theory Rest
  imports Authorization
begin

text \<open>
  The REST transport: the authentication and authorization wrappers of
  \<open>transport/rest/router.go\<close> and \<open>internal/auth/middleware.go\<close>, the mapping of errors to status
  codes and the pagination parameters of \<open>handler/common.go\<close>, the recovery of panics of
  \<open>middleware/middleware.go\<close>, and the handlers of \<open>transport/rest/handler\<close>.  A request is its
  authorization header; path parameters, query parameters and decoded bodies are arguments
  of the handlers.  A response is a status code with the data of the answer.
\<close>

datatype 'a response = Answer int 'a | Refuse int string

fun response_status :: "'a response \<Rightarrow> int" where
  "response_status (Answer s x) = s"
| "response_status (Refuse s msg) = s"

type_synonym 'a handler_fun = "request \<Rightarrow> 'a response go"

section \<open>Errors and statuses\<close>

definition error_status :: "go_error \<Rightarrow> int" where
  "error_status err =
     (if (case err of ValidationError _ \<Rightarrow> True | _ \<Rightarrow> False) then 400
      else if IsNotFoundError err then 404
      else if IsValidationError err then 400
      else if IsConflictError err then 409
      else if errors_Is err ErrInvalidStatus \<or> errors_Is err ErrInvalidStatusTransition
        \<or> errors_Is err ErrTaskArchived \<or> errors_Is err ErrTaskNotDone
        \<or> errors_Is err vo_ErrInvalidTaskStatus then 400
      else if IsUnauthorizedError err then 401
      else if IsForbiddenError err then 403
      else 500)"

definition statusToCode :: "int \<Rightarrow> string" where
  "statusToCode status =
     (if status = 400 then ''BAD_REQUEST''
      else if status = 401 then ''UNAUTHORIZED''
      else if status = 403 then ''FORBIDDEN''
      else if status = 404 then ''NOT_FOUND''
      else if status = 409 then ''CONFLICT''
      else if status = 422 then ''UNPROCESSABLE_ENTITY''
      else if status = 429 then ''TOO_MANY_REQUESTS''
      else if status = 500 then ''INTERNAL_ERROR''
      else if status = 503 then ''SERVICE_UNAVAILABLE''
      else ''ERROR'')"

text \<open>\<open>x, err := call(); if err != nil { handleError(w, err); return }; JSON(w, status, x)\<close>\<close>

definition respond :: "int \<Rightarrow> 'a go \<Rightarrow> 'a response go" where
  "respond status call =
     andthen (attempt call) (\<lambda>r.
     case r of
       Ok x \<Rightarrow> ret (Answer status x)
     | Err err \<Rightarrow> ret (Refuse (error_status err) (statusToCode (error_status err)))
     | Panic p \<Rightarrow> panic p)"

definition refuse :: "int \<Rightarrow> 'a response go" where
  "refuse status = ret (Refuse status (statusToCode status))"

text \<open>\<open>Recover\<close>: a panic of the handler is answered with 500.\<close>

definition Recover :: "'a response go \<Rightarrow> 'a response go" where
  "Recover next e w =
     (case next e w of
        (Panic p, w') \<Rightarrow> (Ok (Refuse 500 ''INTERNAL_ERROR''), w')
      | other \<Rightarrow> other)"

section \<open>Authentication and authorization\<close>

text \<open>\<open>strings.SplitN(s, sep, 2)\<close>\<close>

definition split_first :: "char \<Rightarrow> string \<Rightarrow> string list" where
  "split_first c s =
     (if c \<in> set s then [takeWhile (\<lambda>x. x \<noteq> c) s, tl (dropWhile (\<lambda>x. x \<noteq> c) s)] else [s])"

definition withAuth :: "'a handler_fun \<Rightarrow> string \<Rightarrow> 'a response go" where
  "withAuth h authHeader =
     (if authHeader = [] then refuse 401
      else
        (case split_first CHR '' '' authHeader of
           [scheme, token] \<Rightarrow>
             if ToLower_ascii scheme \<noteq> ''bearer'' then refuse 401
             else
               andthen (attempt (ValidateToken token)) (\<lambda>r.
               case r of
                 Err _ \<Rightarrow> refuse 401
               | Panic p \<Rightarrow> panic p
               | Ok claims \<Rightarrow> h (Some claims))
         | _ \<Rightarrow> refuse 401))"

definition RequirePermission ::
  "resource_type \<Rightarrow> permission_action \<Rightarrow> 'a handler_fun \<Rightarrow> 'a handler_fun" where
  "RequirePermission resource action next ctx =
     (case ctx of
        None \<Rightarrow> refuse 401
      | Some claims \<Rightarrow>
          if \<not> HasPermissionFromClaims (tc_roles claims) (tc_permissions claims) resource action
          then refuse 403 else next ctx)"

definition RequireRole :: "string \<Rightarrow> 'a handler_fun \<Rightarrow> 'a handler_fun" where
  "RequireRole roleName next ctx =
     (case ctx of
        None \<Rightarrow> refuse 401
      | Some claims \<Rightarrow>
          if \<not> HasRoleFromClaims (tc_roles claims) roleName then refuse 403 else next ctx)"

definition RequireAnyRole :: "string list \<Rightarrow> 'a handler_fun \<Rightarrow> 'a handler_fun" where
  "RequireAnyRole roleNames next ctx =
     (case ctx of
        None \<Rightarrow> refuse 401
      | Some claims \<Rightarrow>
          if \<not> HasAnyRoleFromClaims (tc_roles claims) roleNames then refuse 403 else next ctx)"

definition withPermission ::
  "resource_type \<Rightarrow> permission_action \<Rightarrow> 'a handler_fun \<Rightarrow> string \<Rightarrow> 'a response go" where
  "withPermission resource action h = withAuth (RequirePermission resource action h)"

definition withAnyRole :: "string list \<Rightarrow> 'a handler_fun \<Rightarrow> string \<Rightarrow> 'a response go" where
  "withAnyRole roleNames h = withAuth (RequireAnyRole roleNames h)"

text \<open>
  \<open>checkACL\<close> of the task and user handlers, with the rest of the handler as continuation.
\<close>

definition checkACL ::
  "request \<Rightarrow> resource_type \<Rightarrow> uuid \<Rightarrow> acl_permission \<Rightarrow> 'a response go \<Rightarrow> 'a response go" where
  "checkACL ctx resourceType resourceID permission next =
     (case ctx of
        None \<Rightarrow> refuse 401
      | Some claims \<Rightarrow>
          andthen (attempt (CanAccess (tc_user claims) (tc_role_ids claims) resourceType resourceID
             permission)) (\<lambda>r.
          case r of
            Err _ \<Rightarrow> refuse 500
          | Panic p \<Rightarrow> panic p
          | Ok hasAccess \<Rightarrow> if \<not> hasAccess then refuse 403 else next))"

definition RequireResourcePermission ::
  "resource_type \<Rightarrow> acl_permission \<Rightarrow> string \<Rightarrow> 'a handler_fun \<Rightarrow> 'a handler_fun" where
  "RequireResourcePermission resourceType permission idStr next ctx =
     (case ctx of
        None \<Rightarrow> refuse 401
      | Some claims \<Rightarrow>
          if idStr = [] then refuse 400
          else
            andthen (asks (\<lambda>e. e_uuid_parse e idStr)) (\<lambda>parsed.
            case parsed of
              None \<Rightarrow> refuse 400
            | Some resourceID \<Rightarrow> checkACL ctx resourceType resourceID permission (next ctx)))"

section \<open>Pagination parameters\<close>

text \<open>\<open>strconv.Atoi\<close>: an optional sign and decimal digits within 64 bits.\<close>

fun digits_value :: "string \<Rightarrow> nat \<Rightarrow> nat option" where
  "digits_value [] acc = Some acc"
| "digits_value (c # cs) acc =
     (if is_digit c then digits_value cs (acc * 10 + (of_char c - 48)) else None)"

definition Atoi :: "string \<Rightarrow> int option" where
  "Atoi s =
     (let (neg, ds) = (case s of
        CHR ''-'' # r \<Rightarrow> (True, r) | CHR ''+'' # r \<Rightarrow> (False, r) | _ \<Rightarrow> (False, s))
      in if ds = [] then None
         else (case digits_value ds 0 of
                 None \<Rightarrow> None
               | Some n \<Rightarrow>
                   let v = (if neg then - int n else int n)
                   in if - (2 ^ 63) \<le> v \<and> v < 2 ^ 63 then Some v else None))"

definition parsePositiveInt :: "string \<Rightarrow> int option" where
  "parsePositiveInt s = (case Atoi s of None \<Rightarrow> None | Some n \<Rightarrow> if n \<le> 0 then None else Some n)"

text \<open>\<open>strconv.ParseBool\<close>\<close>

definition ParseBool :: "string \<Rightarrow> bool option" where
  "ParseBool s =
     (if s \<in> {''1'', ''t'', ''T'', ''true'', ''TRUE'', ''True''} then Some True
      else if s \<in> {''0'', ''f'', ''F'', ''false'', ''FALSE'', ''False''} then Some False
      else None)"

record page_query =
  pq_page :: string
  pq_size :: string
  pq_sort_by :: string
  pq_sort_desc :: string

definition parsePagination :: "page_query \<Rightarrow> pagination option" where
  "parsePagination q =
     (let p0 = DefaultPagination in
      (case (if pq_page q \<noteq> [] then map_option (\<lambda>n. p0\<lparr>pg_page := n\<rparr>) (parsePositiveInt (pq_page q))
             else Some p0) of
         None \<Rightarrow> None
       | Some p1 \<Rightarrow>
      (case (if pq_size q \<noteq> [] then
               (case parsePositiveInt (pq_size q) of
                  None \<Rightarrow> None
                | Some n \<Rightarrow> if n > 100 then None else Some (p1\<lparr>pg_size := n\<rparr>))
             else Some p1) of
         None \<Rightarrow> None
       | Some p2 \<Rightarrow>
      let p3 = (if pq_sort_by q \<noteq> [] then p2\<lparr>pg_sort_by := pq_sort_by q\<rparr> else p2) in
      if pq_sort_desc q \<noteq> [] then
        map_option (\<lambda>b. p3\<lparr>pg_sort_desc := b\<rparr>) (ParseBool (pq_sort_desc q))
      else Some p3)))"

section \<open>Task handlers (task\_handler.go)\<close>

text \<open>\<open>id, err := uuid.Parse(r.PathValue(...))\<close>, and a body that failed to decode is \<open>None\<close>.\<close>

definition path_id :: "string \<Rightarrow> (uuid \<Rightarrow> 'a response go) \<Rightarrow> 'a response go" where
  "path_id s f =
     andthen (asks (\<lambda>e. e_uuid_parse e s)) (\<lambda>parsed.
     case parsed of None \<Rightarrow> refuse 400 | Some i \<Rightarrow> f i)"

definition with_body :: "'b option \<Rightarrow> ('b \<Rightarrow> 'a response go) \<Rightarrow> 'a response go" where
  "with_body body f = (case body of None \<Rightarrow> refuse 400 | Some b \<Rightarrow> f b)"

definition H_CreateTask :: "create_task_input option \<Rightarrow> task_output handler_fun" where
  "H_CreateTask body ctx = with_body body (\<lambda>b. respond 201 (CreateTask ctx b))"

definition H_GetTask :: "string \<Rightarrow> task_output handler_fun" where
  "H_GetTask ident ctx = path_id ident (\<lambda>i.
     checkACL ctx ResourceTypeTask i ACLPermissionRead (respond 200 (GetTask i)))"

definition H_ListTasks :: "string \<Rightarrow> string \<Rightarrow> string \<Rightarrow> page_query \<Rightarrow> task_list_output handler_fun" where
  "H_ListTasks search status prio q ctx =
     (let filt = empty_filter\<lparr>tf_search := search,
        tf_status := (if status \<noteq> [] then Some status else None),
        tf_priority := (if prio \<noteq> [] then Some prio else None)\<rparr>
      in case parsePagination q of
           None \<Rightarrow> refuse 400
         | Some p \<Rightarrow> respond 200 (ListTasks filt p))"

definition H_UpdateTask :: "string \<Rightarrow> update_task_input option \<Rightarrow> task_output handler_fun" where
  "H_UpdateTask ident body ctx = path_id ident (\<lambda>i.
     checkACL ctx ResourceTypeTask i ACLPermissionWrite
       (with_body body (\<lambda>b. respond 200 (UpdateTask ctx i b))))"

definition H_DeleteTask :: "string \<Rightarrow> unit handler_fun" where
  "H_DeleteTask ident ctx = path_id ident (\<lambda>i.
     checkACL ctx ResourceTypeTask i ACLPermissionDelete (respond 204 (DeleteTask ctx i)))"

definition H_AssignTask :: "string \<Rightarrow> uuid option \<Rightarrow> task_output handler_fun" where
  "H_AssignTask ident body ctx = path_id ident (\<lambda>i.
     checkACL ctx ResourceTypeTask i ACLPermissionWrite
       (with_body body (\<lambda>a. respond 200 (AssignTask ctx i a))))"

definition H_UnassignTask :: "string \<Rightarrow> task_output handler_fun" where
  "H_UnassignTask ident ctx = path_id ident (\<lambda>i.
     checkACL ctx ResourceTypeTask i ACLPermissionWrite (respond 200 (UnassignTask ctx i)))"

definition H_CompleteTask :: "string \<Rightarrow> task_output handler_fun" where
  "H_CompleteTask ident ctx = path_id ident (\<lambda>i.
     checkACL ctx ResourceTypeTask i ACLPermissionWrite (respond 200 (CompleteTask ctx i)))"

definition H_ArchiveTask :: "string \<Rightarrow> task_output handler_fun" where
  "H_ArchiveTask ident ctx = path_id ident (\<lambda>i.
     checkACL ctx ResourceTypeTask i ACLPermissionWrite (respond 200 (ArchiveTask ctx i)))"

definition H_ChangeStatus :: "string \<Rightarrow> string option \<Rightarrow> task_output handler_fun" where
  "H_ChangeStatus ident body ctx = path_id ident (\<lambda>i.
     checkACL ctx ResourceTypeTask i ACLPermissionWrite
       (with_body body (\<lambda>s. respond 200 (ChangeTaskStatus ctx i s))))"

definition H_AddLabel :: "string \<Rightarrow> string \<Rightarrow> task_output handler_fun" where
  "H_AddLabel ident labelIdent ctx = path_id ident (\<lambda>i.
     checkACL ctx ResourceTypeTask i ACLPermissionWrite
       (path_id labelIdent (\<lambda>l. respond 200 (AddLabel ctx i l))))"

definition H_RemoveLabel :: "string \<Rightarrow> string \<Rightarrow> task_output handler_fun" where
  "H_RemoveLabel ident labelIdent ctx = path_id ident (\<lambda>i.
     checkACL ctx ResourceTypeTask i ACLPermissionWrite
       (path_id labelIdent (\<lambda>l. respond 200 (RemoveLabel ctx i l))))"

text \<open>The uploaded file of the multipart form, or the status its parsing is refused with.\<close>

datatype upload = FormError int | FormFile string string string

definition H_UploadAttachment :: "string \<Rightarrow> upload \<Rightarrow> attachment_output handler_fun" where
  "H_UploadAttachment ident form ctx = path_id ident (\<lambda>i.
     checkACL ctx ResourceTypeTask i ACLPermissionWrite
       (case form of
          FormError status \<Rightarrow> refuse status
        | FormFile filename contentType content \<Rightarrow>
            respond 201 (UploadTaskAttachment ctx i filename contentType content)))"

definition H_DownloadAttachment :: "string \<Rightarrow> string \<Rightarrow> (string \<times> attachment_output) handler_fun" where
  "H_DownloadAttachment ident attIdent ctx = path_id ident (\<lambda>i.
     checkACL ctx ResourceTypeTask i ACLPermissionRead
       (path_id attIdent (\<lambda>a. respond 200 (DownloadTaskAttachment i a))))"

definition H_ListAttachments :: "string \<Rightarrow> attachment_output list handler_fun" where
  "H_ListAttachments ident ctx = path_id ident (\<lambda>i.
     checkACL ctx ResourceTypeTask i ACLPermissionRead (respond 200 (ListTaskAttachments i)))"

definition H_DeleteAttachment :: "string \<Rightarrow> string \<Rightarrow> unit handler_fun" where
  "H_DeleteAttachment ident attIdent ctx = path_id ident (\<lambda>i.
     checkACL ctx ResourceTypeTask i ACLPermissionWrite
       (path_id attIdent (\<lambda>a. respond 204 (DeleteTaskAttachment i a))))"

definition H_SearchTasks :: "string \<Rightarrow> page_query \<Rightarrow> task_list_output handler_fun" where
  "H_SearchTasks query q ctx =
     (if query = [] then refuse 400
      else (case parsePagination q of
              None \<Rightarrow> refuse 400
            | Some p \<Rightarrow> respond 200 (SearchTasks query p)))"

definition H_OverdueTasks :: "page_query \<Rightarrow> task_list_output handler_fun" where
  "H_OverdueTasks q ctx =
     (case parsePagination q of None \<Rightarrow> refuse 400 | Some p \<Rightarrow> respond 200 (GetOverdueTasks p))"

section \<open>User, authentication and label handlers\<close>

definition H_ListUsers :: "string \<Rightarrow> page_query \<Rightarrow> user_list_output handler_fun" where
  "H_ListUsers search q ctx =
     (case parsePagination q of
        None \<Rightarrow> refuse 400
      | Some p \<Rightarrow> respond 200 (ListUsers \<lparr>uf_search = search, uf_role = None\<rparr> p))"

definition H_GetUser :: "string \<Rightarrow> user_output handler_fun" where
  "H_GetUser ident ctx = path_id ident (\<lambda>i.
     checkACL ctx ResourceTypeUser i ACLPermissionRead (respond 200 (GetUser i)))"

definition H_Me :: "user_output handler_fun" where
  "H_Me ctx = (case ctx of None \<Rightarrow> refuse 401 | Some claims \<Rightarrow> respond 200 (GetUser (tc_user claims)))"

definition H_UpdateUser :: "string \<Rightarrow> update_user_input option \<Rightarrow> user_output handler_fun" where
  "H_UpdateUser ident body ctx = path_id ident (\<lambda>i.
     checkACL ctx ResourceTypeUser i ACLPermissionWrite
       (with_body body (\<lambda>b. respond 200 (UpdateUser i b))))"

definition H_DeleteUser :: "string \<Rightarrow> unit handler_fun" where
  "H_DeleteUser ident ctx = path_id ident (\<lambda>i.
     checkACL ctx ResourceTypeUser i ACLPermissionDelete (respond 204 (DeleteUser i)))"

definition H_AssignRole :: "string \<Rightarrow> string \<Rightarrow> user_output handler_fun" where
  "H_AssignRole ident roleIdent ctx =
     path_id ident (\<lambda>i. path_id roleIdent (\<lambda>r. respond 200 (AssignRole i r)))"

definition H_RemoveRole :: "string \<Rightarrow> string \<Rightarrow> user_output handler_fun" where
  "H_RemoveRole ident roleIdent ctx =
     path_id ident (\<lambda>i. path_id roleIdent (\<lambda>r. respond 200 (RemoveRole i r)))"

definition H_Login :: "login_input option \<Rightarrow> auth_output response go" where
  "H_Login body = with_body body (\<lambda>b. respond 200 (Login b))"

definition H_Register :: "create_user_input option \<Rightarrow> auth_output response go" where
  "H_Register body = with_body body (\<lambda>b. respond 201 (Register b))"

definition H_RefreshToken :: "string option \<Rightarrow> auth_output response go" where
  "H_RefreshToken body = with_body body (\<lambda>s. respond 200 (RefreshToken s))"

definition H_Logout :: "string \<Rightarrow> unit handler_fun" where
  "H_Logout token ctx =
     (case ctx of None \<Rightarrow> refuse 401 | Some claims \<Rightarrow> respond 204 (Logout (tc_user claims) token))"

definition H_ChangePassword :: "change_password_input option \<Rightarrow> unit handler_fun" where
  "H_ChangePassword body ctx =
     (case ctx of
        None \<Rightarrow> refuse 401
      | Some claims \<Rightarrow> with_body body (\<lambda>b. respond 204 (ChangePassword (tc_user claims) b)))"

definition H_CreateLabel :: "create_label_input option \<Rightarrow> label_output handler_fun" where
  "H_CreateLabel body ctx = with_body body (\<lambda>b. respond 201 (CreateLabel b))"

definition H_UpdateLabel :: "string \<Rightarrow> update_label_input option \<Rightarrow> label_output handler_fun" where
  "H_UpdateLabel ident body ctx =
     path_id ident (\<lambda>i. with_body body (\<lambda>b. respond 200 (UpdateLabel i b)))"

definition H_DeleteLabel :: "string \<Rightarrow> unit handler_fun" where
  "H_DeleteLabel ident ctx = path_id ident (\<lambda>i. respond 204 (DeleteLabel i))"

definition H_GetLabel :: "string \<Rightarrow> label_output handler_fun" where
  "H_GetLabel ident ctx = path_id ident (\<lambda>i. respond 200 (GetLabel i))"

definition H_ListLabels :: "label_output list handler_fun" where
  "H_ListLabels ctx = respond 200 ListLabels"

end
