(* ===== verification/Grpc.thy ===== *)
theory Grpc
  imports Rest
begin

text \<open>
  The gRPC transport (\<open>transport/grpc/services.go\<close> and the recovering interceptor of
  \<open>server.go\<close>): one definition per method of the four services over the use cases, the
  conversions from and to the messages, and the mapping of errors to status codes.  The
  generated messages are records whose absent optional fields are \<open>None\<close>; a reply is the
  message or a status code.  The metadata of a call is the list of its \<open>authorization\<close> values,
  or \<open>None\<close> for a call without metadata.
\<close>

datatype grpc_code = Unauthenticated | InvalidArgument | NotFound | AlreadyExists
  | PermissionDenied | InternalCode | Unimplemented | ServerStopped

datatype 'a reply = Reply 'a | Fail grpc_code

type_synonym 'a rpc = "'a reply go"
type_synonym metadata = "string list option"

section \<open>Messages\<close>

datatype pb_status = TASK_STATUS_UNSPECIFIED | TASK_STATUS_TODO | TASK_STATUS_IN_PROGRESS
  | TASK_STATUS_IN_REVIEW | TASK_STATUS_DONE | TASK_STATUS_ARCHIVED

datatype pb_priority = PRIORITY_UNSPECIFIED | PRIORITY_LOW | PRIORITY_MEDIUM | PRIORITY_HIGH
  | PRIORITY_URGENT

record pb_label =
  pl_id :: string
  pl_name :: string
  pl_color :: string

record pb_task =
  pt_id :: string
  pt_title :: string
  pt_description :: string
  pt_status :: pb_status
  pt_priority :: pb_priority
  pt_due :: "time option"
  pt_assignee :: string
  pt_creator :: string
  pt_labels :: "pb_label list"
  pt_created :: time
  pt_updated :: time

record pb_permission =
  pp_id :: string
  pp_name :: string
  pp_resource :: string
  pp_action :: string

record pb_role =
  pro_id :: string
  pro_name :: string
  pro_description :: string
  pro_permissions :: "pb_permission list"

record pb_user =
  pu_id :: string
  pu_email :: string
  pu_name :: string
  pu_roles :: "pb_role list"
  pu_created :: time
  pu_updated :: time

record pb_auth =
  pa_access :: string
  pa_refresh :: string
  pa_expires :: time
  pa_user :: "pb_user option"

record 'a pb_list =
  px_items :: "'a list"
  px_total :: int
  px_page :: int
  px_size :: int

record pb_create_task =
  ct_title :: string
  ct_description :: string
  ct_priority :: pb_priority
  ct_due :: "time option"
  ct_assignee :: string
  ct_labels :: "string list"

record pb_update_task =
  ut_id :: string
  ut_title :: "string option"
  ut_description :: "string option"
  ut_priority :: "pb_priority option"
  ut_due :: "time option"

record pb_task_filter =
  ptf_status :: "pb_status option"
  ptf_priority :: "pb_priority option"
  ptf_assignee :: "string option"
  ptf_creator :: "string option"
  ptf_search :: "string option"

record pb_user_filter =
  puf_search :: "string option"
  puf_role :: "string option"

record pb_pagination =
  ppg_page :: int
  ppg_size :: int
  ppg_sort_by :: string
  ppg_sort_desc :: bool

fun taskStatusFromPB :: "pb_status \<Rightarrow> string" where
  "taskStatusFromPB TASK_STATUS_TODO = ''TODO''"
| "taskStatusFromPB TASK_STATUS_IN_PROGRESS = ''IN_PROGRESS''"
| "taskStatusFromPB TASK_STATUS_IN_REVIEW = ''IN_REVIEW''"
| "taskStatusFromPB TASK_STATUS_DONE = ''DONE''"
| "taskStatusFromPB TASK_STATUS_ARCHIVED = ''ARCHIVED''"
| "taskStatusFromPB TASK_STATUS_UNSPECIFIED = []"

definition taskStatusToPB :: "string \<Rightarrow> pb_status" where
  "taskStatusToPB value =
     (if value = ''TODO'' then TASK_STATUS_TODO
      else if value = ''IN_PROGRESS'' then TASK_STATUS_IN_PROGRESS
      else if value = ''IN_REVIEW'' then TASK_STATUS_IN_REVIEW
      else if value = ''DONE'' then TASK_STATUS_DONE
      else if value = ''ARCHIVED'' then TASK_STATUS_ARCHIVED
      else TASK_STATUS_UNSPECIFIED)"

fun priorityFromPB :: "pb_priority \<Rightarrow> string" where
  "priorityFromPB PRIORITY_LOW = ''LOW''"
| "priorityFromPB PRIORITY_MEDIUM = ''MEDIUM''"
| "priorityFromPB PRIORITY_HIGH = ''HIGH''"
| "priorityFromPB PRIORITY_URGENT = ''URGENT''"
| "priorityFromPB PRIORITY_UNSPECIFIED = []"

definition priorityToPB :: "string \<Rightarrow> pb_priority" where
  "priorityToPB value =
     (if value = ''LOW'' then PRIORITY_LOW
      else if value = ''MEDIUM'' then PRIORITY_MEDIUM
      else if value = ''HIGH'' then PRIORITY_HIGH
      else if value = ''URGENT'' then PRIORITY_URGENT
      else PRIORITY_UNSPECIFIED)"

definition labelToPB :: "(uuid \<Rightarrow> string) \<Rightarrow> label_output \<Rightarrow> pb_label" where
  "labelToPB str l = \<lparr>pl_id = str (lo_id l), pl_name = lo_name l, pl_color = lo_color l\<rparr>"

definition taskToPB :: "(uuid \<Rightarrow> string) \<Rightarrow> task_output \<Rightarrow> pb_task" where
  "taskToPB str t =
     \<lparr>pt_id = str (to_id t), pt_title = to_title t, pt_description = to_description t,
      pt_status = taskStatusToPB (to_status t), pt_priority = priorityToPB (to_priority t),
      pt_due = to_due t,
      pt_assignee = (case to_assignee t of None \<Rightarrow> [] | Some a \<Rightarrow> str a),
      pt_creator = str (to_creator t), pt_labels = map (labelToPB str) (to_labels t),
      pt_created = to_created t, pt_updated = to_updated t\<rparr>"

definition permissionToPB :: "(uuid \<Rightarrow> string) \<Rightarrow> permission_output \<Rightarrow> pb_permission" where
  "permissionToPB str p =
     \<lparr>pp_id = str (po_id p), pp_name = po_name p, pp_resource = po_resource p,
      pp_action = po_action p\<rparr>"

definition roleToPB :: "(uuid \<Rightarrow> string) \<Rightarrow> role_output \<Rightarrow> pb_role" where
  "roleToPB str r =
     \<lparr>pro_id = str (ro_id r), pro_name = ro_name r, pro_description = ro_description r,
      pro_permissions = map (permissionToPB str) (ro_permissions r)\<rparr>"

definition userToPB :: "(uuid \<Rightarrow> string) \<Rightarrow> user_output \<Rightarrow> pb_user" where
  "userToPB str u =
     \<lparr>pu_id = str (uo_id u), pu_email = uo_email u, pu_name = uo_name u,
      pu_roles = map (roleToPB str) (uo_roles u), pu_created = uo_created u,
      pu_updated = uo_updated u\<rparr>"

definition authToPB :: "(uuid \<Rightarrow> string) \<Rightarrow> auth_output \<Rightarrow> pb_auth" where
  "authToPB str a =
     \<lparr>pa_access = au_access a, pa_refresh = au_refresh a, pa_expires = au_expires a,
      pa_user = map_option (userToPB str) (au_user a)\<rparr>"

text \<open>Pages are converted to 32 bits.\<close>

definition taskListToPB :: "(uuid \<Rightarrow> string) \<Rightarrow> task_list_output \<Rightarrow> pb_task pb_list" where
  "taskListToPB str l =
     \<lparr>px_items = map (taskToPB str) (tl_tasks l), px_total = tl_total l,
      px_page = to_int32 (tl_page l), px_size = to_int32 (tl_size l)\<rparr>"

definition userListToPB :: "(uuid \<Rightarrow> string) \<Rightarrow> user_list_output \<Rightarrow> pb_user pb_list" where
  "userListToPB str l =
     \<lparr>px_items = map (userToPB str) (ul_users l), px_total = ul_total l,
      px_page = to_int32 (ul_page l), px_size = to_int32 (ul_size l)\<rparr>"

definition paginationFromPB :: "pb_pagination option \<Rightarrow> pagination" where
  "paginationFromPB p =
     (case p of
        None \<Rightarrow> DefaultPagination
      | Some p \<Rightarrow>
          let p0 = DefaultPagination;
              p1 = (if ppg_page p > 0 then p0\<lparr>pg_page := ppg_page p\<rparr> else p0);
              p2 = (if ppg_size p > 0 then p1\<lparr>pg_size := ppg_size p\<rparr> else p1);
              p3 = (if ppg_sort_by p \<noteq> [] then p2\<lparr>pg_sort_by := ppg_sort_by p\<rparr> else p2)
          in if ppg_sort_desc p then p3\<lparr>pg_sort_desc := True\<rparr> else p3)"

section \<open>Errors\<close>

definition toGRPCError :: "go_error \<Rightarrow> grpc_code" where
  "toGRPCError err =
     (if (case err of ValidationError _ \<Rightarrow> True | _ \<Rightarrow> False) then InvalidArgument
      else if IsNotFoundError err then NotFound
      else if IsValidationError err then InvalidArgument
      else if IsConflictError err then AlreadyExists
      else if IsUnauthorizedError err then Unauthenticated
      else if IsForbiddenError err then PermissionDenied
      else InternalCode)"

text \<open>\<open>x, err := call(); if err != nil { return nil, toGRPCError(err) }; return conv(x), nil\<close>\<close>

definition rpc_result :: "'a go \<Rightarrow> ((uuid \<Rightarrow> string) \<Rightarrow> 'a \<Rightarrow> 'b) \<Rightarrow> 'b rpc" where
  "rpc_result call conv =
     andthen (attempt call) (\<lambda>r.
     case r of
       Ok x \<Rightarrow> asks (\<lambda>e. Reply (conv (e_uuid_string e) x))
     | Err err \<Rightarrow> ret (Fail (toGRPCError err))
     | Panic p \<Rightarrow> panic p)"

definition no_content :: "(uuid \<Rightarrow> string) \<Rightarrow> unit \<Rightarrow> unit" where
  "no_content str x = ()"

text \<open>\<open>RecoveryInterceptor\<close>\<close>

definition RecoveryInterceptor :: "'a rpc \<Rightarrow> 'a rpc" where
  "RecoveryInterceptor handler e w =
     (case handler e w of
        (Panic p, w') \<Rightarrow> (Ok (Fail ServerStopped), w')
      | other \<Rightarrow> other)"

section \<open>Authentication\<close>

definition authorizationFromMetadata :: "metadata \<Rightarrow> string option" where
  "authorizationFromMetadata md =
     (case md of
        None \<Rightarrow> None
      | Some [] \<Rightarrow> None
      | Some (v # vs) \<Rightarrow> if TrimSpace v = [] then None else Some v)"

definition validateAuthorization :: "string \<Rightarrow> (token_claims \<Rightarrow> 'a rpc) \<Rightarrow> 'a rpc" where
  "validateAuthorization authorization next =
     (case split_first CHR '' '' (TrimSpace authorization) of
        [scheme, token] \<Rightarrow>
          if ToLower_ascii scheme \<noteq> ''bearer'' then ret (Fail Unauthenticated)
          else
            andthen (attempt (ValidateToken token)) (\<lambda>r.
            case r of
              Ok claims \<Rightarrow> next claims
            | Err err \<Rightarrow> ret (Fail (toGRPCError err))
            | Panic p \<Rightarrow> panic p)
      | _ \<Rightarrow> ret (Fail Unauthenticated))"

text \<open>\<open>ctx, err := requireAuth(ctx, h.authService); if err != nil { return nil, err }\<close>\<close>

definition grpc_requireAuth :: "metadata \<Rightarrow> (request \<Rightarrow> 'a rpc) \<Rightarrow> 'a rpc" where
  "grpc_requireAuth md next =
     (case authorizationFromMetadata md of
        None \<Rightarrow> ret (Fail Unauthenticated)
      | Some authorization \<Rightarrow> validateAuthorization authorization (\<lambda>claims. next (Some claims)))"

text \<open>
  A context: the claims and the raw token that were stored in it.  \<open>contextWithRequiredClaims\<close>
  returns the new context and the claims.
\<close>

record call_context =
  cc_claims :: "token_claims option"
  cc_token :: string

definition incoming_context :: call_context where
  "incoming_context = \<lparr>cc_claims = None, cc_token = []\<rparr>"

definition contextWithRequiredClaims ::
  "metadata \<Rightarrow> (call_context \<Rightarrow> token_claims \<Rightarrow> 'a rpc) \<Rightarrow> 'a rpc" where
  "contextWithRequiredClaims md next =
     (case authorizationFromMetadata md of
        None \<Rightarrow> ret (Fail Unauthenticated)
      | Some authorization \<Rightarrow>
          validateAuthorization authorization (\<lambda>claims.
          let ctx = incoming_context\<lparr>cc_claims := Some claims\<rparr> in
          next
            (case split_first CHR '' '' (TrimSpace authorization) of
               [scheme, token] \<Rightarrow>
                 if ToLower_ascii scheme = ''bearer'' then ctx\<lparr>cc_token := token\<rparr> else ctx
             | _ \<Rightarrow> ctx) claims))"

definition GetTokenFromContext :: "call_context \<Rightarrow> string" where
  "GetTokenFromContext ctx = cc_token ctx"

definition grpc_parseUUID :: "string \<Rightarrow> (uuid \<Rightarrow> 'a rpc) \<Rightarrow> 'a rpc" where
  "grpc_parseUUID raw next =
     andthen (asks (\<lambda>e. e_uuid_parse e raw)) (\<lambda>parsed.
     case parsed of None \<Rightarrow> ret (Fail InvalidArgument) | Some i \<Rightarrow> next i)"

text \<open>An optional id of a filter.\<close>

definition parse_optional :: "string option \<Rightarrow> (uuid option \<Rightarrow> 'a rpc) \<Rightarrow> 'a rpc" where
  "parse_optional raw next =
     (case raw of None \<Rightarrow> next None | Some s \<Rightarrow> grpc_parseUUID s (\<lambda>i. next (Some i)))"

fun parse_uuids :: "string list \<Rightarrow> (uuid list \<Rightarrow> 'a rpc) \<Rightarrow> 'a rpc" where
  "parse_uuids [] next = next []"
| "parse_uuids (raw # raws) next =
     grpc_parseUUID raw (\<lambda>i. parse_uuids raws (\<lambda>is. next (i # is)))"

definition taskFilterFromPB :: "pb_task_filter option \<Rightarrow> (task_filter \<Rightarrow> 'a rpc) \<Rightarrow> 'a rpc" where
  "taskFilterFromPB filt next =
     (case filt of
        None \<Rightarrow> next empty_filter
      | Some f \<Rightarrow>
          parse_optional (ptf_assignee f) (\<lambda>assignee.
          parse_optional (ptf_creator f) (\<lambda>creator.
          next (empty_filter\<lparr>tf_status := map_option taskStatusFromPB (ptf_status f),
            tf_priority := map_option priorityFromPB (ptf_priority f),
            tf_assignee := assignee, tf_creator := creator,
            tf_search := (case ptf_search f of None \<Rightarrow> [] | Some s \<Rightarrow> s)\<rparr>))))"

definition userFilterFromPB :: "pb_user_filter option \<Rightarrow> (user_filter \<Rightarrow> 'a rpc) \<Rightarrow> 'a rpc" where
  "userFilterFromPB filt next =
     (case filt of
        None \<Rightarrow> next \<lparr>uf_search = [], uf_role = None\<rparr>
      | Some f \<Rightarrow>
          parse_optional (puf_role f) (\<lambda>r.
          next \<lparr>uf_search = (case puf_search f of None \<Rightarrow> [] | Some s \<Rightarrow> s), uf_role = r\<rparr>))"

section \<open>The task service\<close>

definition G_CreateTask :: "metadata \<Rightarrow> pb_create_task \<Rightarrow> pb_task rpc" where
  "G_CreateTask md req =
     grpc_requireAuth md (\<lambda>ctx.
     parse_optional (if ct_assignee req \<noteq> [] then Some (ct_assignee req) else None) (\<lambda>assignee.
     parse_uuids (ct_labels req) (\<lambda>labels.
     rpc_result
       (CreateTask ctx
          \<lparr>cti_title = ct_title req, cti_description = ct_description req,
           cti_priority = priorityFromPB (ct_priority req), cti_due = ct_due req,
           cti_assignee = assignee, cti_labels = labels\<rparr>)
       taskToPB)))"

definition G_GetTask :: "metadata \<Rightarrow> string \<Rightarrow> pb_task rpc" where
  "G_GetTask md ident =
     grpc_requireAuth md (\<lambda>ctx. grpc_parseUUID ident (\<lambda>i. rpc_result (GetTask i) taskToPB))"

definition G_ListTasks ::
  "metadata \<Rightarrow> pb_task_filter option \<Rightarrow> pb_pagination option \<Rightarrow> pb_task pb_list rpc" where
  "G_ListTasks md filt p =
     grpc_requireAuth md (\<lambda>ctx.
     taskFilterFromPB filt (\<lambda>f. rpc_result (ListTasks f (paginationFromPB p)) taskListToPB))"

definition G_UpdateTask :: "metadata \<Rightarrow> pb_update_task \<Rightarrow> pb_task rpc" where
  "G_UpdateTask md req =
     grpc_requireAuth md (\<lambda>ctx. grpc_parseUUID (ut_id req) (\<lambda>i.
     rpc_result
       (UpdateTask ctx i
          \<lparr>uti_title = ut_title req, uti_description = ut_description req,
           uti_priority = map_option priorityFromPB (ut_priority req), uti_due = ut_due req,
           uti_clear_due = False\<rparr>)
       taskToPB))"

definition G_DeleteTask :: "metadata \<Rightarrow> string \<Rightarrow> unit rpc" where
  "G_DeleteTask md ident =
     grpc_requireAuth md (\<lambda>ctx. grpc_parseUUID ident (\<lambda>i. rpc_result (DeleteTask ctx i) no_content))"

definition G_AssignTask :: "metadata \<Rightarrow> string \<Rightarrow> string \<Rightarrow> pb_task rpc" where
  "G_AssignTask md taskIdent assigneeIdent =
     grpc_requireAuth md (\<lambda>ctx. grpc_parseUUID taskIdent (\<lambda>i. grpc_parseUUID assigneeIdent (\<lambda>a.
     rpc_result (AssignTask ctx i a) taskToPB)))"

definition G_ChangeTaskStatus :: "metadata \<Rightarrow> string \<Rightarrow> pb_status \<Rightarrow> pb_task rpc" where
  "G_ChangeTaskStatus md ident status =
     grpc_requireAuth md (\<lambda>ctx. grpc_parseUUID ident (\<lambda>i.
     rpc_result (ChangeTaskStatus ctx i (taskStatusFromPB status)) taskToPB))"

definition G_UnassignTask :: "metadata \<Rightarrow> string \<Rightarrow> pb_task rpc" where
  "G_UnassignTask md ident =
     grpc_requireAuth md (\<lambda>ctx. grpc_parseUUID ident (\<lambda>i. rpc_result (UnassignTask ctx i) taskToPB))"

definition G_CompleteTask :: "metadata \<Rightarrow> string \<Rightarrow> pb_task rpc" where
  "G_CompleteTask md ident =
     grpc_requireAuth md (\<lambda>ctx. grpc_parseUUID ident (\<lambda>i. rpc_result (CompleteTask ctx i) taskToPB))"

definition G_ArchiveTask :: "metadata \<Rightarrow> string \<Rightarrow> pb_task rpc" where
  "G_ArchiveTask md ident =
     grpc_requireAuth md (\<lambda>ctx. grpc_parseUUID ident (\<lambda>i. rpc_result (ArchiveTask ctx i) taskToPB))"

definition G_AddLabel :: "metadata \<Rightarrow> string \<Rightarrow> string \<Rightarrow> pb_task rpc" where
  "G_AddLabel md taskIdent labelIdent =
     grpc_requireAuth md (\<lambda>ctx. grpc_parseUUID taskIdent (\<lambda>i. grpc_parseUUID labelIdent (\<lambda>l.
     rpc_result (AddLabel ctx i l) taskToPB)))"

definition G_RemoveLabel :: "metadata \<Rightarrow> string \<Rightarrow> string \<Rightarrow> pb_task rpc" where
  "G_RemoveLabel md taskIdent labelIdent =
     grpc_requireAuth md (\<lambda>ctx. grpc_parseUUID taskIdent (\<lambda>i. grpc_parseUUID labelIdent (\<lambda>l.
     rpc_result (RemoveLabel ctx i l) taskToPB)))"

definition G_SearchTasks ::
  "metadata \<Rightarrow> string \<Rightarrow> pb_pagination option \<Rightarrow> pb_task pb_list rpc" where
  "G_SearchTasks md query p =
     grpc_requireAuth md (\<lambda>ctx. rpc_result (SearchTasks query (paginationFromPB p)) taskListToPB)"

definition G_GetOverdueTasks :: "metadata \<Rightarrow> pb_pagination option \<Rightarrow> pb_task pb_list rpc" where
  "G_GetOverdueTasks md p =
     grpc_requireAuth md (\<lambda>ctx. rpc_result (GetOverdueTasks (paginationFromPB p)) taskListToPB)"

definition G_StreamTaskUpdates :: "unit rpc" where
  "G_StreamTaskUpdates = ret (Fail Unimplemented)"

section \<open>The user service\<close>

definition G_GetMe :: "metadata \<Rightarrow> pb_user rpc" where
  "G_GetMe md =
     contextWithRequiredClaims md (\<lambda>ctx claims. rpc_result (GetUser (tc_user claims)) userToPB)"

definition G_GetUser :: "metadata \<Rightarrow> string \<Rightarrow> pb_user rpc" where
  "G_GetUser md ident =
     grpc_requireAuth md (\<lambda>ctx. grpc_parseUUID ident (\<lambda>i. rpc_result (GetUser i) userToPB))"

definition G_ListUsers ::
  "metadata \<Rightarrow> pb_user_filter option \<Rightarrow> pb_pagination option \<Rightarrow> pb_user pb_list rpc" where
  "G_ListUsers md filt p =
     grpc_requireAuth md (\<lambda>ctx.
     userFilterFromPB filt (\<lambda>f. rpc_result (ListUsers f (paginationFromPB p)) userListToPB))"

definition G_UpdateUser :: "metadata \<Rightarrow> string \<Rightarrow> string option \<Rightarrow> string option \<Rightarrow> pb_user rpc" where
  "G_UpdateUser md ident email name =
     grpc_requireAuth md (\<lambda>ctx. grpc_parseUUID ident (\<lambda>i.
     rpc_result (UpdateUser i \<lparr>uui_email = email, uui_name = name\<rparr>) userToPB))"

definition G_DeleteUser :: "metadata \<Rightarrow> string \<Rightarrow> unit rpc" where
  "G_DeleteUser md ident =
     grpc_requireAuth md (\<lambda>ctx. grpc_parseUUID ident (\<lambda>i. rpc_result (DeleteUser i) no_content))"

definition G_AssignRole :: "metadata \<Rightarrow> string \<Rightarrow> string \<Rightarrow> pb_user rpc" where
  "G_AssignRole md userIdent roleIdent =
     grpc_requireAuth md (\<lambda>ctx. grpc_parseUUID userIdent (\<lambda>u. grpc_parseUUID roleIdent (\<lambda>r.
     rpc_result (AssignRole u r) userToPB)))"

definition G_RemoveRole :: "metadata \<Rightarrow> string \<Rightarrow> string \<Rightarrow> pb_user rpc" where
  "G_RemoveRole md userIdent roleIdent =
     grpc_requireAuth md (\<lambda>ctx. grpc_parseUUID userIdent (\<lambda>u. grpc_parseUUID roleIdent (\<lambda>r.
     rpc_result (RemoveRole u r) userToPB)))"

section \<open>The authentication service\<close>

definition G_Login :: "login_input \<Rightarrow> pb_auth rpc" where
  "G_Login req = rpc_result (Login req) authToPB"

definition G_RefreshToken :: "string \<Rightarrow> pb_auth rpc" where
  "G_RefreshToken refreshToken = rpc_result (RefreshToken refreshToken) authToPB"

text \<open>
  The context that carries the token is dropped (\<open>_, claims, err :=\<close>), and the token is read
  from the context of the call.
\<close>

definition G_Logout :: "metadata \<Rightarrow> unit rpc" where
  "G_Logout md =
     contextWithRequiredClaims md (\<lambda>_ claims.
     rpc_result (Logout (tc_user claims) (GetTokenFromContext incoming_context)) no_content)"

definition G_Register :: "create_user_input \<Rightarrow> pb_auth rpc" where
  "G_Register req = rpc_result (Register req) authToPB"

definition G_ChangePassword :: "metadata \<Rightarrow> change_password_input \<Rightarrow> unit rpc" where
  "G_ChangePassword md req =
     contextWithRequiredClaims md (\<lambda>_ claims.
     rpc_result (ChangePassword (tc_user claims) req) no_content)"

section \<open>The label service\<close>

definition G_CreateLabel :: "metadata \<Rightarrow> create_label_input \<Rightarrow> pb_label rpc" where
  "G_CreateLabel md req = grpc_requireAuth md (\<lambda>ctx. rpc_result (CreateLabel req) labelToPB)"

definition G_GetLabel :: "metadata \<Rightarrow> string \<Rightarrow> pb_label rpc" where
  "G_GetLabel md ident =
     grpc_requireAuth md (\<lambda>ctx. grpc_parseUUID ident (\<lambda>i. rpc_result (GetLabel i) labelToPB))"

definition G_ListLabels :: "metadata \<Rightarrow> pb_label list rpc" where
  "G_ListLabels md =
     grpc_requireAuth md (\<lambda>ctx. rpc_result ListLabels (\<lambda>str. map (labelToPB str)))"

definition G_UpdateLabel :: "metadata \<Rightarrow> string \<Rightarrow> update_label_input \<Rightarrow> pb_label rpc" where
  "G_UpdateLabel md ident req =
     grpc_requireAuth md (\<lambda>ctx. grpc_parseUUID ident (\<lambda>i. rpc_result (UpdateLabel i req) labelToPB))"

definition G_DeleteLabel :: "metadata \<Rightarrow> string \<Rightarrow> unit rpc" where
  "G_DeleteLabel md ident =
     grpc_requireAuth md (\<lambda>ctx. grpc_parseUUID ident (\<lambda>i. rpc_result (DeleteLabel i) no_content))"

end
