(* ===== verification/Graphql.thy ===== *)
theory Graphql
  imports Grpc
begin

text \<open>
  The GraphQL transport: the optional authentication of \<open>transport/graphql/handler.go\<close>, the
  resolvers of \<open>schema.resolvers.go\<close> and \<open>task.resolvers.go\<close> over the use cases, the checks of
  \<open>resolver.go\<close> and the conversions of \<open>mappers.go\<close>.  A resolver is a computation whose error
  is the error of the field.  Enumerations are their strings, as in the generated code.
\<close>

section \<open>Values\<close>

record gq_role =
  gr_id :: uuid
  gr_name :: string
  gr_description :: "string option"
  gr_permissions :: "permission_output list"
  gr_created :: time

record gq_user =
  gu_id :: uuid
  gu_email :: string
  gu_name :: string
  gu_roles :: "gq_role list"
  gu_created :: time
  gu_updated :: time

record gq_label =
  gl_id :: uuid
  gl_name :: string
  gl_color :: string
  gl_created :: time

record gq_task =
  gt_id :: uuid
  gt_title :: string
  gt_description :: "string option"
  gt_status :: string
  gt_priority :: string
  gt_due :: "time option"
  gt_assignee :: "gq_user option"
  gt_creator :: "gq_user option"
  gt_labels :: "gq_label list"
  gt_created :: time
  gt_updated :: time

record gq_auth =
  ga_access :: string
  ga_refresh :: string
  ga_expires :: time
  ga_user :: "gq_user option"

record page_info =
  pi_next :: bool
  pi_previous :: bool
  pi_start :: "string option"
  pi_end :: "string option"

record 'a connection =
  cn_edges :: "('a \<times> string) list"
  cn_page_info :: page_info
  cn_total :: int

record gq_pagination =
  gp_page :: "int option"
  gp_size :: "int option"
  gp_sort_by :: "string option"
  gp_sort_desc :: "bool option"

record gq_create_task =
  gc_title :: string
  gc_description :: "string option"
  gc_priority :: "string option"
  gc_due :: "time option"
  gc_assignee :: "uuid option"
  gc_labels :: "uuid list"

record gq_update_task =
  gut_title :: "string option"
  gut_description :: "string option"
  gut_priority :: "string option"
  gut_due :: "time option"

record gq_task_filter =
  gf_status :: "string option"
  gf_priority :: "string option"
  gf_assignee :: "uuid option"
  gf_creator :: "uuid option"
  gf_labels :: "uuid list"
  gf_search :: "string option"

record gq_user_filter =
  guf_search :: "string option"
  guf_role :: "uuid option"

section \<open>Conversions (mappers.go)\<close>

definition roleToGraphQL :: "role_output \<Rightarrow> gq_role" where
  "roleToGraphQL r =
     \<lparr>gr_id = ro_id r, gr_name = ro_name r,
      gr_description = (if ro_description r \<noteq> [] then Some (ro_description r) else None),
      gr_permissions = ro_permissions r, gr_created = ro_created r\<rparr>"

definition userToGraphQL :: "user_output \<Rightarrow> gq_user" where
  "userToGraphQL u =
     \<lparr>gu_id = uo_id u, gu_email = uo_email u, gu_name = uo_name u,
      gu_roles = map roleToGraphQL (uo_roles u), gu_created = uo_created u, gu_updated = uo_updated u\<rparr>"

definition labelToGraphQL :: "label_output \<Rightarrow> gq_label" where
  "labelToGraphQL l =
     \<lparr>gl_id = lo_id l, gl_name = lo_name l, gl_color = lo_color l, gl_created = lo_created l\<rparr>"

definition taskToGraphQL :: "task_output \<Rightarrow> user_output option \<Rightarrow> user_output option \<Rightarrow> gq_task" where
  "taskToGraphQL t assignee creator =
     \<lparr>gt_id = to_id t, gt_title = to_title t,
      gt_description = (if to_description t \<noteq> [] then Some (to_description t) else None),
      gt_status = to_status t, gt_priority = to_priority t, gt_due = to_due t,
      gt_assignee = map_option userToGraphQL assignee, gt_creator = map_option userToGraphQL creator,
      gt_labels = map labelToGraphQL (to_labels t), gt_created = to_created t,
      gt_updated = to_updated t\<rparr>"

definition authToGraphQL :: "auth_output \<Rightarrow> gq_auth" where
  "authToGraphQL a =
     \<lparr>ga_access = au_access a, ga_refresh = au_refresh a, ga_expires = au_expires a,
      ga_user = map_option userToGraphQL (au_user a)\<rparr>"

text \<open>\<open>base64.StdEncoding.EncodeToString\<close>\<close>

definition base64_digit :: "nat \<Rightarrow> char" where
  "base64_digit n =
     (if n < 26 then char_of (65 + n)
      else if n < 52 then char_of (71 + n)
      else if n < 62 then char_of (n - 4)
      else if n = 62 then CHR ''+'' else CHR ''/'')"

fun base64 :: "string \<Rightarrow> string" where
  "base64 [] = []"
| "base64 [a] =
     (let x = of_char a :: nat
      in [base64_digit (x div 4), base64_digit (x mod 4 * 16), CHR ''='', CHR ''=''])"
| "base64 [a, b] =
     (let x = of_char a :: nat; y = of_char b :: nat
      in [base64_digit (x div 4), base64_digit (x mod 4 * 16 + y div 16),
          base64_digit (y mod 16 * 4), CHR ''=''])"
| "base64 (a # b # c # rest) =
     (let x = of_char a :: nat; y = of_char b :: nat; z = of_char c :: nat
      in [base64_digit (x div 4), base64_digit (x mod 4 * 16 + y div 16),
          base64_digit (y mod 16 * 4 + z div 64), base64_digit (z mod 64)] @ base64 rest)"

definition paginationFromInput :: "gq_pagination option \<Rightarrow> pagination" where
  "paginationFromInput p =
     (case p of
        None \<Rightarrow> DefaultPagination
      | Some p \<Rightarrow>
          let p0 = DefaultPagination;
              p1 = (case gp_page p of Some n \<Rightarrow> if n > 0 then p0\<lparr>pg_page := n\<rparr> else p0 | None \<Rightarrow> p0);
              p2 = (case gp_size p of Some n \<Rightarrow> if n > 0 then p1\<lparr>pg_size := n\<rparr> else p1 | None \<Rightarrow> p1);
              p3 = (case gp_sort_by p of Some s \<Rightarrow> p2\<lparr>pg_sort_by := s\<rparr> | None \<Rightarrow> p2)
          in (case gp_sort_desc p of Some b \<Rightarrow> p3\<lparr>pg_sort_desc := b\<rparr> | None \<Rightarrow> p3))"

text \<open>The arithmetic of cursors is that of 64 bit integers.\<close>

definition encodeCursor :: "int \<Rightarrow> string" where
  "encodeCursor i = ''cursor_'' @ show_int (to_int64 i)"

definition pageInfoFromPagination :: "int \<Rightarrow> int \<Rightarrow> int \<Rightarrow> int \<Rightarrow> page_info" where
  "pageInfoFromPagination page pageSize totalPages totalCount =
     \<lparr>pi_next = page < totalPages, pi_previous = page > 1,
      pi_start = (if totalCount > 0 then Some (encodeCursor ((page - 1) * pageSize + 1)) else None),
      pi_end = (if totalCount > 0 then Some (encodeCursor ((page - 1) * pageSize + totalCount)) else None)\<rparr>"

text \<open>\<open>for i, x := range xs\<close>: the edge of the element at index \<open>i\<close>.\<close>

definition edges :: "int \<Rightarrow> int \<Rightarrow> 'a list \<Rightarrow> ('a \<times> string) list" where
  "edges page pageSize xs =
     map (\<lambda>(i, x). (x, encodeCursor (int i + 1 + (page - 1) * pageSize))) (enumerate 0 xs)"

definition userConnectionToGraphQL :: "user_list_output \<Rightarrow> gq_user connection" where
  "userConnectionToGraphQL l =
     \<lparr>cn_edges = edges (ul_page l) (ul_size l) (map userToGraphQL (ul_users l)),
      cn_page_info = pageInfoFromPagination (ul_page l) (ul_size l) (ul_total_pages l) (ul_total l),
      cn_total = ul_total l\<rparr>"

section \<open>Authentication\<close>

text \<open>A bad or missing token leaves the request without claims, it does not refuse it.\<close>

definition withOptionalAuth :: "string \<Rightarrow> (call_context \<Rightarrow> 'a go) \<Rightarrow> 'a go" where
  "withOptionalAuth authHeader next =
     (if authHeader = [] then next incoming_context
      else
        (case split_first CHR '' '' authHeader of
           [scheme, token] \<Rightarrow>
             if ToLower_ascii scheme \<noteq> ''bearer'' then next incoming_context
             else
               andthen (attempt (ValidateToken token)) (\<lambda>r.
               case r of
                 Err _ \<Rightarrow> next incoming_context
               | Panic p \<Rightarrow> panic p
               | Ok claims \<Rightarrow> next \<lparr>cc_claims = Some claims, cc_token = token\<rparr>)
         | _ \<Rightarrow> next incoming_context))"

text \<open>\<open>claims, err := requireAuth(ctx); if err != nil { return nil, err }\<close>\<close>

definition gql_requireAuth :: "call_context \<Rightarrow> (token_claims \<Rightarrow> 'a go) \<Rightarrow> 'a go" where
  "gql_requireAuth ctx next =
     (case cc_claims ctx of None \<Rightarrow> raise ErrUnauthorized | Some claims \<Rightarrow> next claims)"

definition gql_requireAnyRole :: "call_context \<Rightarrow> string list \<Rightarrow> 'a go \<Rightarrow> 'a go" where
  "gql_requireAnyRole ctx roles next =
     gql_requireAuth ctx (\<lambda>claims.
     if \<not> HasAnyRoleFromClaims (tc_roles claims) roles then raise ErrForbidden else next)"

text \<open>\<open>x, err := r.userService.GetUser(id); if err != nil && !IsNotFoundError(err) { return }\<close>\<close>

definition found_user :: "uuid \<Rightarrow> user_output option go" where
  "found_user i =
     andthen (attempt (GetUser i)) (\<lambda>r.
     case r of
       Ok u \<Rightarrow> ret (Some u)
     | Err err \<Rightarrow> if IsNotFoundError err then ret None else raise err
     | Panic p \<Rightarrow> panic p)"

definition enrichAndMapTask :: "task_output \<Rightarrow> gq_task go" where
  "enrichAndMapTask t =
     andthen (case to_assignee t of None \<Rightarrow> ret None | Some a \<Rightarrow> found_user a) (\<lambda>assignee.
     andthen (found_user (to_creator t)) (\<lambda>creator.
     ret (taskToGraphQL t assignee creator)))"

section \<open>Mutations\<close>

definition M_Login :: "login_input \<Rightarrow> gq_auth go" where
  "M_Login inp = andthen (Login inp) (\<lambda>a. ret (authToGraphQL a))"

definition M_Register :: "create_user_input \<Rightarrow> gq_auth go" where
  "M_Register inp = andthen (Register inp) (\<lambda>a. ret (authToGraphQL a))"

definition M_RefreshToken :: "string \<Rightarrow> gq_auth go" where
  "M_RefreshToken s = andthen (RefreshToken s) (\<lambda>a. ret (authToGraphQL a))"

definition M_Logout :: "call_context \<Rightarrow> bool go" where
  "M_Logout ctx =
     gql_requireAuth ctx (\<lambda>claims.
     andthen (Logout (tc_user claims) (GetTokenFromContext ctx)) (\<lambda>_. ret True))"

definition M_CreateTask :: "call_context \<Rightarrow> gq_create_task \<Rightarrow> gq_task go" where
  "M_CreateTask ctx inp =
     gql_requireAuth ctx (\<lambda>_.
     andthen
       (CreateTask (cc_claims ctx)
          \<lparr>cti_title = gc_title inp,
           cti_description = (case gc_description inp of None \<Rightarrow> [] | Some d \<Rightarrow> d),
           cti_priority = (case gc_priority inp of None \<Rightarrow> ''MEDIUM'' | Some p \<Rightarrow> p),
           cti_due = gc_due inp, cti_assignee = gc_assignee inp, cti_labels = gc_labels inp\<rparr>)
       enrichAndMapTask)"

definition M_UpdateTask :: "call_context \<Rightarrow> uuid \<Rightarrow> gq_update_task \<Rightarrow> gq_task go" where
  "M_UpdateTask ctx i inp =
     gql_requireAuth ctx (\<lambda>_.
     andthen
       (UpdateTask (cc_claims ctx) i
          \<lparr>uti_title = gut_title inp, uti_description = gut_description inp,
           uti_priority = gut_priority inp, uti_due = gut_due inp, uti_clear_due = False\<rparr>)
       enrichAndMapTask)"

definition M_DeleteTask :: "call_context \<Rightarrow> uuid \<Rightarrow> bool go" where
  "M_DeleteTask ctx i =
     gql_requireAuth ctx (\<lambda>_. andthen (DeleteTask (cc_claims ctx) i) (\<lambda>_. ret True))"

definition M_AssignTask :: "call_context \<Rightarrow> uuid \<Rightarrow> uuid \<Rightarrow> gq_task go" where
  "M_AssignTask ctx i assigneeID =
     gql_requireAuth ctx (\<lambda>_. andthen (AssignTask (cc_claims ctx) i assigneeID) enrichAndMapTask)"

definition M_UnassignTask :: "call_context \<Rightarrow> uuid \<Rightarrow> gq_task go" where
  "M_UnassignTask ctx i =
     gql_requireAuth ctx (\<lambda>_. andthen (UnassignTask (cc_claims ctx) i) enrichAndMapTask)"

definition M_ChangeTaskStatus :: "call_context \<Rightarrow> uuid \<Rightarrow> string \<Rightarrow> gq_task go" where
  "M_ChangeTaskStatus ctx i status =
     gql_requireAuth ctx (\<lambda>_. andthen (ChangeTaskStatus (cc_claims ctx) i status) enrichAndMapTask)"

definition M_CompleteTask :: "call_context \<Rightarrow> uuid \<Rightarrow> gq_task go" where
  "M_CompleteTask ctx i =
     gql_requireAuth ctx (\<lambda>_. andthen (CompleteTask (cc_claims ctx) i) enrichAndMapTask)"

definition M_ArchiveTask :: "call_context \<Rightarrow> uuid \<Rightarrow> gq_task go" where
  "M_ArchiveTask ctx i =
     gql_requireAuth ctx (\<lambda>_. andthen (ArchiveTask (cc_claims ctx) i) enrichAndMapTask)"

definition M_AddLabelToTask :: "call_context \<Rightarrow> uuid \<Rightarrow> uuid \<Rightarrow> gq_task go" where
  "M_AddLabelToTask ctx taskID labelID =
     gql_requireAuth ctx (\<lambda>_. andthen (AddLabel (cc_claims ctx) taskID labelID) enrichAndMapTask)"

definition M_RemoveLabelFromTask :: "call_context \<Rightarrow> uuid \<Rightarrow> uuid \<Rightarrow> gq_task go" where
  "M_RemoveLabelFromTask ctx taskID labelID =
     gql_requireAuth ctx (\<lambda>_. andthen (RemoveLabel (cc_claims ctx) taskID labelID) enrichAndMapTask)"

definition M_UploadTaskAttachment ::
  "call_context \<Rightarrow> uuid \<Rightarrow> string \<Rightarrow> string \<Rightarrow> string \<Rightarrow> attachment_output go" where
  "M_UploadTaskAttachment ctx taskID filename contentType content =
     gql_requireAuth ctx (\<lambda>_.
     UploadTaskAttachment (cc_claims ctx) taskID filename contentType content)"

definition M_DeleteTaskAttachment :: "call_context \<Rightarrow> uuid \<Rightarrow> uuid \<Rightarrow> bool go" where
  "M_DeleteTaskAttachment ctx taskID attachmentID =
     gql_requireAuth ctx (\<lambda>_. andthen (DeleteTaskAttachment taskID attachmentID) (\<lambda>_. ret True))"

definition M_UpdateUser :: "call_context \<Rightarrow> uuid \<Rightarrow> update_user_input \<Rightarrow> gq_user go" where
  "M_UpdateUser ctx i inp =
     gql_requireAuth ctx (\<lambda>_. andthen (UpdateUser i inp) (\<lambda>u. ret (userToGraphQL u)))"

definition M_DeleteUser :: "call_context \<Rightarrow> uuid \<Rightarrow> bool go" where
  "M_DeleteUser ctx i = gql_requireAuth ctx (\<lambda>_. andthen (DeleteUser i) (\<lambda>_. ret True))"

definition M_AssignRole :: "call_context \<Rightarrow> uuid \<Rightarrow> uuid \<Rightarrow> gq_user go" where
  "M_AssignRole ctx u r =
     gql_requireAuth ctx (\<lambda>_. andthen (AssignRole u r) (\<lambda>x. ret (userToGraphQL x)))"

definition M_RemoveRole :: "call_context \<Rightarrow> uuid \<Rightarrow> uuid \<Rightarrow> gq_user go" where
  "M_RemoveRole ctx u r =
     gql_requireAuth ctx (\<lambda>_. andthen (RemoveRole u r) (\<lambda>x. ret (userToGraphQL x)))"

definition M_ChangePassword :: "call_context \<Rightarrow> change_password_input \<Rightarrow> bool go" where
  "M_ChangePassword ctx inp =
     gql_requireAuth ctx (\<lambda>claims. andthen (ChangePassword (tc_user claims) inp) (\<lambda>_. ret True))"

definition M_CreateLabel :: "call_context \<Rightarrow> create_label_input \<Rightarrow> gq_label go" where
  "M_CreateLabel ctx inp =
     gql_requireAuth ctx (\<lambda>_.
     gql_requireAnyRole ctx [RoleAdmin, RoleManager]
       (andthen (CreateLabel inp) (\<lambda>l. ret (labelToGraphQL l))))"

definition M_UpdateLabel :: "call_context \<Rightarrow> uuid \<Rightarrow> update_label_input \<Rightarrow> gq_label go" where
  "M_UpdateLabel ctx i inp =
     gql_requireAuth ctx (\<lambda>_.
     gql_requireAnyRole ctx [RoleAdmin, RoleManager]
       (andthen (UpdateLabel i inp) (\<lambda>l. ret (labelToGraphQL l))))"

definition M_DeleteLabel :: "call_context \<Rightarrow> uuid \<Rightarrow> bool go" where
  "M_DeleteLabel ctx i =
     gql_requireAuth ctx (\<lambda>_.
     gql_requireAnyRole ctx [RoleAdmin, RoleManager] (andthen (DeleteLabel i) (\<lambda>_. ret True)))"

section \<open>Queries\<close>

definition Q_Task :: "call_context \<Rightarrow> uuid \<Rightarrow> gq_task go" where
  "Q_Task ctx i = gql_requireAuth ctx (\<lambda>_. andthen (GetTask i) enrichAndMapTask)"

definition taskFilterFromInput :: "gq_task_filter option \<Rightarrow> task_filter" where
  "taskFilterFromInput filt =
     (case filt of
        None \<Rightarrow> empty_filter
      | Some f \<Rightarrow> empty_filter\<lparr>tf_status := gf_status f, tf_priority := gf_priority f,
          tf_assignee := gf_assignee f, tf_creator := gf_creator f, tf_labels := gf_labels f,
          tf_search := (case gf_search f of None \<Rightarrow> [] | Some s \<Rightarrow> s)\<rparr>)"

definition task_connection :: "task_list_output \<Rightarrow> gq_task connection go" where
  "task_connection l =
     andthen (fold_go (tl_tasks l) (\<lambda>t acc. andthen (enrichAndMapTask t) (\<lambda>x. ret (acc @ [x]))) []) (\<lambda>tasks.
     ret \<lparr>cn_edges = edges (tl_page l) (tl_size l) tasks,
          cn_page_info = pageInfoFromPagination (tl_page l) (tl_size l) (tl_total_pages l) (tl_total l),
          cn_total = tl_total l\<rparr>)"

definition Q_Tasks ::
  "call_context \<Rightarrow> gq_task_filter option \<Rightarrow> gq_pagination option \<Rightarrow> gq_task connection go" where
  "Q_Tasks ctx filt p =
     gql_requireAuth ctx (\<lambda>_.
     andthen (ListTasks (taskFilterFromInput filt) (paginationFromInput p)) task_connection)"

definition Q_OverdueTasks :: "call_context \<Rightarrow> gq_pagination option \<Rightarrow> gq_task connection go" where
  "Q_OverdueTasks ctx p =
     gql_requireAuth ctx (\<lambda>_. andthen (GetOverdueTasks (paginationFromInput p)) task_connection)"

definition Q_Me :: "call_context \<Rightarrow> gq_user go" where
  "Q_Me ctx =
     gql_requireAuth ctx (\<lambda>claims. andthen (GetUser (tc_user claims)) (\<lambda>u. ret (userToGraphQL u)))"

definition Q_User :: "call_context \<Rightarrow> uuid \<Rightarrow> gq_user go" where
  "Q_User ctx i = gql_requireAuth ctx (\<lambda>_. andthen (GetUser i) (\<lambda>u. ret (userToGraphQL u)))"

definition Q_Users ::
  "call_context \<Rightarrow> gq_user_filter option \<Rightarrow> gq_pagination option \<Rightarrow> gq_user connection go" where
  "Q_Users ctx filt p =
     gql_requireAuth ctx (\<lambda>_.
     andthen
       (ListUsers
          (case filt of
             None \<Rightarrow> \<lparr>uf_search = [], uf_role = None\<rparr>
           | Some f \<Rightarrow> \<lparr>uf_search = (case guf_search f of None \<Rightarrow> [] | Some s \<Rightarrow> s), uf_role = guf_role f\<rparr>)
          (paginationFromInput p))
       (\<lambda>l. ret (userConnectionToGraphQL l)))"

definition Q_Roles :: "call_context \<Rightarrow> gq_role list go" where
  "Q_Roles ctx = gql_requireAuth ctx (\<lambda>_. andthen ListRoles (\<lambda>rs. ret (map roleToGraphQL rs)))"

definition Q_Role :: "call_context \<Rightarrow> uuid \<Rightarrow> gq_role go" where
  "Q_Role ctx i = gql_requireAuth ctx (\<lambda>_. andthen (GetRole i) (\<lambda>r. ret (roleToGraphQL r)))"

definition Q_Label :: "call_context \<Rightarrow> uuid \<Rightarrow> gq_label go" where
  "Q_Label ctx i = gql_requireAuth ctx (\<lambda>_. andthen (GetLabel i) (\<lambda>l. ret (labelToGraphQL l)))"

definition Q_Labels :: "call_context \<Rightarrow> gq_label list go" where
  "Q_Labels ctx = gql_requireAuth ctx (\<lambda>_. andthen ListLabels (\<lambda>ls. ret (map labelToGraphQL ls)))"

definition Q_TaskAttachments :: "call_context \<Rightarrow> uuid \<Rightarrow> attachment_output list go" where
  "Q_TaskAttachments ctx taskID = gql_requireAuth ctx (\<lambda>_. ListTaskAttachments taskID)"

definition Q_DownloadTaskAttachment ::
  "call_context \<Rightarrow> uuid \<Rightarrow> uuid \<Rightarrow> (attachment_output \<times> string) go" where
  "Q_DownloadTaskAttachment ctx taskID attachmentID =
     gql_requireAuth ctx (\<lambda>_.
     andthen (DownloadTaskAttachment taskID attachmentID) (\<lambda>(content, a).
     ret (a, base64 content)))"

text \<open>The field \<open>attachments\<close> of a task.\<close>

definition Task_Attachments :: "uuid \<Rightarrow> attachment_output list go" where
  "Task_Attachments i =
     andthen (attempt (ListTaskAttachments i)) (\<lambda>r.
     case r of
       Ok xs \<Rightarrow> ret xs
     | Err err \<Rightarrow> if IsNotFoundError err then ret [] else raise err
     | Panic p \<Rightarrow> panic p)"

section \<open>Subscriptions\<close>

text \<open>What one event of the subscription puts on the stream of tasks, if anything.\<close>

definition stream_event :: "(event \<Rightarrow> bool) \<Rightarrow> event \<Rightarrow> gq_task option go" where
  "stream_event match evt =
     (if \<not> match evt then ret None
      else
        andthen (attempt (GetTask (AggregateID evt))) (\<lambda>r.
        case r of
          Err _ \<Rightarrow> ret None
        | Panic p \<Rightarrow> panic p
        | Ok t \<Rightarrow>
            andthen (attempt (enrichAndMapTask t)) (\<lambda>m.
            case m of Ok x \<Rightarrow> ret (Some x) | Err _ \<Rightarrow> ret None | Panic p \<Rightarrow> panic p)))"

definition matchesAssignee :: "event \<Rightarrow> uuid \<Rightarrow> bool" where
  "matchesAssignee evt assigneeID =
     (case ev_body evt of TaskAssigned a b \<Rightarrow> a = assigneeID | _ \<Rightarrow> False)"

definition S_TaskCreated :: "call_context \<Rightarrow> event \<Rightarrow> gq_task option go" where
  "S_TaskCreated ctx evt =
     gql_requireAuth ctx (\<lambda>_. stream_event (\<lambda>e. EventType e = ''task.created'') evt)"

definition S_TaskUpdated :: "call_context \<Rightarrow> uuid option \<Rightarrow> event \<Rightarrow> gq_task option go" where
  "S_TaskUpdated ctx i evt =
     gql_requireAuth ctx (\<lambda>_. stream_event (\<lambda>e.
       if EventType e \<noteq> ''task.updated'' then False
       else i = None \<or> i = Some (AggregateID e)) evt)"

definition S_TaskDeleted :: "call_context \<Rightarrow> event \<Rightarrow> uuid option go" where
  "S_TaskDeleted ctx evt =
     gql_requireAuth ctx (\<lambda>_.
     ret (if EventType evt \<noteq> ''task.deleted'' then None else Some (AggregateID evt)))"

definition S_TaskAssigned :: "call_context \<Rightarrow> uuid option \<Rightarrow> event \<Rightarrow> gq_task option go" where
  "S_TaskAssigned ctx assigneeID evt =
     gql_requireAuth ctx (\<lambda>_. stream_event (\<lambda>e.
       if EventType e \<noteq> ''task.assigned'' then False
       else (case assigneeID of None \<Rightarrow> True | Some a \<Rightarrow> matchesAssignee e a)) evt)"

end
