(* ===== verification/Application.thy ===== *)
theory Application
  imports Rest
begin

text \<open>
  The application as a whole: the calls that the transports make on the use cases, the states
  that any sequence of them reaches from an empty database, and the invariants of those states.
  Every call runs in an environment of its own, so that clocks, ids, failures of services and
  missing dependencies are arbitrary at each call.
\<close>

section \<open>Calls and reachable states\<close>

datatype call =
    CallCreateTask request create_task_input
  | CallUpdateTask request uuid update_task_input
  | CallDeleteTask request uuid
  | CallGetTask uuid
  | CallListTasks task_filter pagination
  | CallSearchTasks string pagination
  | CallOverdueTasks pagination
  | CallAssignTask request uuid uuid
  | CallUnassignTask request uuid
  | CallChangeStatus request uuid string
  | CallCompleteTask request uuid
  | CallArchiveTask request uuid
  | CallAddLabel request uuid uuid
  | CallRemoveLabel request uuid uuid
  | CallUpload request uuid string string string
  | CallDownload uuid uuid
  | CallListAttachments uuid
  | CallDeleteAttachment uuid uuid
  | CallCreateUser create_user_input
  | CallUpdateUser uuid update_user_input
  | CallDeleteUser uuid
  | CallGetUser uuid
  | CallGetUserByEmail string
  | CallListUsers user_filter pagination
  | CallAssignRole uuid uuid
  | CallRemoveRole uuid uuid
  | CallSeedRoles
  | CallRegister create_user_input
  | CallLogin login_input
  | CallLogout uuid string
  | CallRefresh string
  | CallValidate string
  | CallChangePassword uuid change_password_input
  | CallCreateLabel create_label_input
  | CallUpdateLabel uuid update_label_input
  | CallDeleteLabel uuid
  | CallGetLabel uuid
  | CallListLabels
  | CallGetRole uuid
  | CallListRoles
  | CallCleanup event

definition discard :: "'a go \<Rightarrow> unit go" where
  "discard m = andthen m (\<lambda>_. ret ())"

fun perform :: "call \<Rightarrow> unit go" where
  "perform (CallCreateTask ctx inp) = discard (CreateTask ctx inp)"
| "perform (CallUpdateTask ctx i inp) = discard (UpdateTask ctx i inp)"
| "perform (CallDeleteTask ctx i) = DeleteTask ctx i"
| "perform (CallGetTask i) = discard (GetTask i)"
| "perform (CallListTasks filt p) = discard (ListTasks filt p)"
| "perform (CallSearchTasks query p) = discard (SearchTasks query p)"
| "perform (CallOverdueTasks p) = discard (GetOverdueTasks p)"
| "perform (CallAssignTask ctx i a) = discard (AssignTask ctx i a)"
| "perform (CallUnassignTask ctx i) = discard (UnassignTask ctx i)"
| "perform (CallChangeStatus ctx i s) = discard (ChangeTaskStatus ctx i s)"
| "perform (CallCompleteTask ctx i) = discard (CompleteTask ctx i)"
| "perform (CallArchiveTask ctx i) = discard (ArchiveTask ctx i)"
| "perform (CallAddLabel ctx i l) = discard (AddLabel ctx i l)"
| "perform (CallRemoveLabel ctx i l) = discard (RemoveLabel ctx i l)"
| "perform (CallUpload ctx i fn ct content) = discard (UploadTaskAttachment ctx i fn ct content)"
| "perform (CallDownload i a) = discard (DownloadTaskAttachment i a)"
| "perform (CallListAttachments i) = discard (ListTaskAttachments i)"
| "perform (CallDeleteAttachment i a) = DeleteTaskAttachment i a"
| "perform (CallCreateUser inp) = discard (CreateUser inp)"
| "perform (CallUpdateUser i inp) = discard (UpdateUser i inp)"
| "perform (CallDeleteUser i) = DeleteUser i"
| "perform (CallGetUser i) = discard (GetUser i)"
| "perform (CallGetUserByEmail s) = discard (GetUserByEmail s)"
| "perform (CallListUsers filt p) = discard (ListUsers filt p)"
| "perform (CallAssignRole i r) = discard (AssignRole i r)"
| "perform (CallRemoveRole i r) = discard (RemoveRole i r)"
| "perform CallSeedRoles = SeedSystemRoles"
| "perform (CallRegister inp) = discard (Register inp)"
| "perform (CallLogin inp) = discard (Login inp)"
| "perform (CallLogout i s) = Logout i s"
| "perform (CallRefresh s) = discard (RefreshToken s)"
| "perform (CallValidate s) = discard (ValidateToken s)"
| "perform (CallChangePassword i inp) = ChangePassword i inp"
| "perform (CallCreateLabel inp) = discard (CreateLabel inp)"
| "perform (CallUpdateLabel i inp) = discard (UpdateLabel i inp)"
| "perform (CallDeleteLabel i) = DeleteLabel i"
| "perform (CallGetLabel i) = discard (GetLabel i)"
| "perform CallListLabels = discard ListLabels"
| "perform (CallGetRole i) = discard (GetRole i)"
| "perform CallListRoles = discard ListRoles"
| "perform (CallCleanup evt) = TaskAttachmentCleanupHandler evt"

text \<open>One call, on every exit: \<open>app_step w c r w'\<close>.\<close>

inductive app_step :: "world \<Rightarrow> call \<Rightarrow> unit result \<Rightarrow> world \<Rightarrow> bool" where
  serve: "perform c e w = (r, w') \<Longrightarrow> app_step w c r w'"

inductive app_reachable :: "world \<Rightarrow> bool" where
  start: "w_db w = empty_db \<Longrightarrow> app_reachable w"
| next_call: "app_reachable w \<Longrightarrow> app_step w c r w' \<Longrightarrow> app_reachable w'"

inductive_cases app_stepE: "app_step w c r w'"

section \<open>Every call keeps every table property\<close>

lemma discard_holds [keeps]: "holds I m (\<lambda>_. True) \<Longrightarrow> holds I (discard m) (\<lambda>_. True)"
  unfolding discard_def by (intro keeps TrueI)

lemma cleanup_holds [keeps]: "holds (on_db P) (TaskAttachmentCleanupHandler evt) (\<lambda>_. True)"
  unfolding TaskAttachmentCleanupHandler_def by (intro keeps TrueI)

fun creates_task :: "call \<Rightarrow> bool" where
  "creates_task (CallCreateTask ctx inp) = True"
| "creates_task _ = False"

lemma holds_step:
  "holds (on_db P) (perform c) (\<lambda>_. True) \<Longrightarrow> P (w_db w) \<Longrightarrow> app_step w c r w' \<Longrightarrow> P (w_db w')"
  by (auto elim!: app_stepE simp: on_db_def dest: holdsD)

context table_property
begin

lemma perform_consistent: "\<not> creates_task c \<Longrightarrow> holds consistent (perform c) (\<lambda>_. True)"
  by (cases c) (simp_all only: perform.simps creates_task.simps not_True_eq_False, (intro keeps TrueI)+)

lemma step_consistent:
  "\<not> creates_task c \<Longrightarrow> app_step w c r w' \<Longrightarrow> db_inv (w_db w) \<Longrightarrow> Q (w_db w) \<Longrightarrow>
     db_inv (w_db w') \<and> Q (w_db w')"
  using holds_step [OF perform_consistent, of c w r w'] by simp

end

context creating_property
begin

lemma perform_always: "holds consistent (perform c) (\<lambda>_. True)"
proof (cases "creates_task c")
  case True
  then show ?thesis by (cases c) (simp_all only: perform.simps creates_task.simps, intro keeps)
qed (rule perform_consistent)

lemma step_always:
  "app_step w c r w' \<Longrightarrow> db_inv (w_db w) \<Longrightarrow> Q (w_db w) \<Longrightarrow> db_inv (w_db w') \<and> Q (w_db w')"
  using holds_step [OF perform_always, of w c r w'] by simp

lemma reachable_always: "app_reachable w \<Longrightarrow> Q empty_db \<Longrightarrow> db_inv (w_db w) \<and> Q (w_db w)"
  by (induction rule: app_reachable.induct) (simp_all add: db_inv_empty, blast dest: step_always)

end

end
