(* ===== verification/Execution.thy ===== *)
theory Execution
  imports Rest
begin

text \<open>
  Running the computations: what the primitive calls do in an environment without faults, as
  rewrite rules that evaluate a use case step by step, and a calculus of postconditions,
  \<open>after e P m Q\<close>: started in a world with \<open>P\<close>, the computation \<open>m\<close> ends, when it returns
  normally, with a value and a world related by \<open>Q\<close>.
\<close>

section \<open>Environments without faults\<close>

definition fault_free :: "env \<Rightarrow> bool" where
  "fault_free e \<longleftrightarrow> (\<forall>n. e_fault e n = None)"

definition tick :: "world \<Rightarrow> world" where
  "tick w = w\<lparr>w_tick := Suc (w_tick w)\<rparr>"

lemma tick_simps [simp]:
  "w_db (tick w) = w_db w" "w_tx_time (tick w) = w_tx_time w" "w_cache (tick w) = w_cache w"
  "w_blobs (tick w) = w_blobs w" "w_bus (tick w) = w_bus w" "w_kafka (tick w) = w_kafka w"
  "w_tick (tick w) = Suc (w_tick w)"
  by (simp_all add: tick_def)

lemma external_run: "fault_free e \<Longrightarrow> external call e w = call (e_clock e (w_tick w)) (tick w)"
  by (simp add: external_def fault_free_def tick_def Let_def)

lemma clock_run:
  "now_utc e w = (Ok (e_clock e (w_tick w)), tick w)"
  "fresh_uuid e w = (Ok (e_new_uuid e (w_tick w)), tick w)"
  "bcrypt_hash pw e w = (e_bcrypt_hash e (w_tick w) pw, tick w)"
  by (simp_all add: now_utc_def fresh_uuid_def bcrypt_hash_def tick_def)

lemma sql_run:
  "fault_free e \<Longrightarrow> w_tx_time w = None \<Longrightarrow>
     sql q e w = (let (r, d) = q (e_clock e (w_tick w)) (w_db w) in (r, (tick w)\<lparr>w_db := d\<rparr>))"
  by (simp add: sql_def external_run run_sql_def)

lemma cache_run:
  "fault_free e \<Longrightarrow> e_cache e = DepLive \<Longrightarrow>
     cache_call cop e w =
       (let (r, c) = cop (e_clock e (w_tick w)) (w_cache w) in (r, (tick w)\<lparr>w_cache := c\<rparr>))"
  by (simp add: cache_call_def external_run)

lemma env_run:
  "has_cache e w = (Ok (e_cache e \<noteq> DepNone), w)"
  "uuid_str i e w = (Ok (e_uuid_string e i), w)"
  "validate d e w = (case e_validate e d of None \<Rightarrow> (Ok (), w) | Some err \<Rightarrow> (Err err, w))"
  by (simp_all add: has_cache_def uuid_str_def validate_def)

lemma attempt_run [simp]:
  "m e w = (Ok x, w1) \<Longrightarrow> attempt m e w = (Ok (Ok x), w1)"
  "m e w = (Err err, w1) \<Longrightarrow> attempt m e w = (Ok (Err err), w1)"
  "m e w = (Panic p, w1) \<Longrightarrow> attempt m e w = (Panic p, w1)"
  by (simp_all add: attempt_def)

lemma ignoring_run [simp]:
  "m e w = (Ok x, w1) \<Longrightarrow> ignoring m e w = (Ok (), w1)"
  "m e w = (Err err, w1) \<Longrightarrow> ignoring m e w = (Ok (), w1)"
  "m e w = (Panic p, w1) \<Longrightarrow> ignoring m e w = (Panic p, w1)"
  by (simp_all add: ignoring_def)

section \<open>Postconditions\<close>

named_theorems posts

definition after :: "env \<Rightarrow> (world \<Rightarrow> bool) \<Rightarrow> 'a go \<Rightarrow> ('a \<Rightarrow> world \<Rightarrow> bool) \<Rightarrow> bool" where
  "after e P m Q \<longleftrightarrow> (\<forall>w x w'. P w \<longrightarrow> m e w = (Ok x, w') \<longrightarrow> Q x w')"

lemma afterI: "(\<And>w x w'. P w \<Longrightarrow> m e w = (Ok x, w') \<Longrightarrow> Q x w') \<Longrightarrow> after e P m Q"
  by (simp add: after_def)

lemma afterD: "after e P m Q \<Longrightarrow> P w \<Longrightarrow> m e w = (Ok x, w') \<Longrightarrow> Q x w'"
  by (simp add: after_def)

lemma after_weaken:
  "after e P m Q \<Longrightarrow> (\<And>w. P' w \<Longrightarrow> P w) \<Longrightarrow> (\<And>x w. Q x w \<Longrightarrow> Q' x w) \<Longrightarrow> after e P' m Q'"
  by (simp add: after_def) blast

lemma after_ret [posts]: "(\<And>w. P w \<Longrightarrow> Q x w) \<Longrightarrow> after e P (ret x) Q"
  and after_raise [posts]: "after e P (raise err) Q"
  and after_panic [posts]: "after e P (panic p) Q"
  and after_lift [posts]: "(\<And>x w. r = Ok x \<Longrightarrow> P w \<Longrightarrow> Q x w) \<Longrightarrow> after e P (lift r) Q"
  and after_asks [posts]: "(\<And>w. P w \<Longrightarrow> Q (f e) w) \<Longrightarrow> after e P (asks f) Q"
  by (auto simp: after_def)

lemma after_andthen:
  "after e P m R \<Longrightarrow> (\<And>x. after e (R x) (f x) Q) \<Longrightarrow> after e P (andthen m f) Q"
  by (auto simp: after_def andthen_Ok_iff)

text \<open>What a computation leaves alone, on every exit.\<close>

definition stays :: "env \<Rightarrow> (world \<Rightarrow> bool) \<Rightarrow> 'a go \<Rightarrow> bool" where
  "stays e P m \<longleftrightarrow> (\<forall>w. P w \<longrightarrow> P (snd (m e w)))"

lemma staysD: "stays e P m \<Longrightarrow> P w \<Longrightarrow> m e w = (r, w') \<Longrightarrow> P w'"
  by (metis snd_conv stays_def)

lemma stays_prims [posts]:
  "stays e P (ret x)" "stays e P (raise err)" "stays e P (panic p)" "stays e P (lift r)"
  "stays e P (asks f)"
  by (simp_all add: stays_def)

lemma stays_andthen [posts]:
  "stays e P m \<Longrightarrow> (\<And>x. stays e P (f x)) \<Longrightarrow> stays e P (andthen m f)"
  by (fastforce simp: stays_def andthen_def split: prod.splits result.splits)

lemma stays_attempt [posts]: "stays e P m \<Longrightarrow> stays e P (attempt m)"
  and stays_ignoring [posts]: "stays e P m \<Longrightarrow> stays e P (ignoring m)"
  by (fastforce simp: stays_def attempt_def ignoring_def split: prod.splits result.splits)+

lemma stays_cases [posts]:
  "(b \<Longrightarrow> stays e P m) \<Longrightarrow> (\<not> b \<Longrightarrow> stays e P m') \<Longrightarrow> stays e P (if b then m else m')"
  "(\<And>y. stays e P (f y)) \<Longrightarrow> (\<And>y. stays e P (g y)) \<Longrightarrow> (\<And>y. stays e P (h y)) \<Longrightarrow>
     stays e P (case x of Ok y \<Rightarrow> f y | Err y \<Rightarrow> g y | Panic y \<Rightarrow> h y)"
  "stays e P m1 \<Longrightarrow> (\<And>y. stays e P (m2 y)) \<Longrightarrow> stays e P (case z of None \<Rightarrow> m1 | Some y \<Rightarrow> m2 y)"
  by (auto split: result.splits option.splits)

lemma stays_for_each [posts]: "(\<And>x. stays e P (f x)) \<Longrightarrow> stays e P (for_each xs f)"
  by (induction xs) (simp_all add: posts del: prims_run)

lemma after_then_stays:
  "after e P m Q \<Longrightarrow> (\<And>x w. Q x w \<Longrightarrow> R w) \<Longrightarrow>
     (\<And>x. stays e R (f x)) \<Longrightarrow> after e P (andthen m f) (\<lambda>_. R)"
  by (rule afterI) (simp add: andthen_Ok_iff, metis afterD staysD)

lemma after_stays: "stays e P m \<Longrightarrow> after e P m (\<lambda>_. P)"
  by (rule afterI) (auto dest: staysD)

text \<open>A computation that only publishes keeps what is said of the tables, the cache and the objects.\<close>

definition unmessaged :: "(db \<Rightarrow> (payload store) \<Rightarrow> (string \<Rightarrow> string option) \<Rightarrow> bool) \<Rightarrow> world \<Rightarrow> bool" where
  "unmessaged P w = P (w_db w) (w_cache w) (w_blobs w)"

lemma stays_messaging: "messaging m \<Longrightarrow> stays e (unmessaged P) m"
  by (auto simp: stays_def messaging_def only_messages_def unmessaged_def)

lemma stays_clock [posts]:
  "stays e (unmessaged P) now_utc" "stays e (unmessaged P) fresh_uuid"
  by (simp_all add: stays_messaging frames)

lemma after_prefix: "(\<And>x. after e (\<lambda>_. True) (f x) Q) \<Longrightarrow> after e P (andthen m f) Q"
  by (rule after_andthen [where R = "\<lambda>_ _. True"]) (auto simp: after_def)

lemma after_value:
  "after e P m (\<lambda>x _. x = v) \<Longrightarrow> after e (\<lambda>_. True) (f v) Q \<Longrightarrow> after e P (andthen m f) Q"
  by (auto simp: after_def andthen_Ok_iff)

lemma after_split [posts]:
  "(b \<Longrightarrow> after e P m Q) \<Longrightarrow> (\<not> b \<Longrightarrow> after e P m' Q) \<Longrightarrow> after e P (if b then m else m') Q"
  "(\<And>y. x = Ok y \<Longrightarrow> after e P (f y) Q) \<Longrightarrow> (\<And>y. x = Err y \<Longrightarrow> after e P (g y) Q) \<Longrightarrow>
   (\<And>y. x = Panic y \<Longrightarrow> after e P (h y) Q) \<Longrightarrow>
     after e P (case x of Ok y \<Rightarrow> f y | Err y \<Rightarrow> g y | Panic y \<Rightarrow> h y) Q"
  "(z = None \<Longrightarrow> after e P m1 Q) \<Longrightarrow> (\<And>y. z = Some y \<Longrightarrow> after e P (m2 y) Q) \<Longrightarrow>
     after e P (case z of None \<Rightarrow> m1 | Some y \<Rightarrow> m2 y) Q"
  by (auto split: result.splits option.splits)

end
