(* ===== verification/Examples.thy ===== *)
theory Examples
  imports Execution
begin

text \<open>
  One concrete environment and one concrete state, with two users, a role, an open and an
  archived task and an attachment, on which the properties are applied.
\<close>

definition example_env :: env where
  "example_env =
     \<lparr>e_clock = (\<lambda>n. 1000000 * int n), e_new_uuid = (\<lambda>n. 100 + of_nat n), e_fault = (\<lambda>_. None),
      e_cache = DepLive, e_storage = DepLive, e_publisher = DepLive, e_kafka = DepLive,
      e_local_bus = DepLive,
      e_uuid_string = (\<lambda>u. [char_of (unat u)]),
      e_uuid_parse = (\<lambda>s. case s of [c] \<Rightarrow> Some (of_nat (of_char c)) | _ \<Rightarrow> None),
      e_pointer_string = (\<lambda>_. ''0xc0''),
      e_bcrypt_hash = (\<lambda>_ s. Ok (''h'' @ s)), e_bcrypt_cmp = (\<lambda>h s. h = ''h'' @ s),
      e_sha256_hex = (\<lambda>s. s), e_validate = (\<lambda>_. None), e_numeric_date = (\<lambda>t. t - t mod second),
      e_jwt_sign = (\<lambda>c. Ok (jc_id c)), e_jwt_parse = (\<lambda>_ _. JwtInvalid),
      e_jwt_unverified = (\<lambda>_. None),
      e_pg_lower = (\<lambda>s. s), e_pg_ilike = (\<lambda>s pat. True), e_pg_collate = (\<lambda>_. 0),
      e_access_ttl = 900 * second, e_refresh_ttl = 86400 * second, e_issuer = ''poc''\<rparr>"

definition ada :: user_row where
  "ada = \<lparr>ur_id = 1, ur_email = ''ada@x.io'', ur_password_hash = ''hsecret'', ur_name = ''Ada'',
     ur_created = 0, ur_updated = 0\<rparr>"

definition bob :: user_row where
  "bob = \<lparr>ur_id = 2, ur_email = ''bob@x.io'', ur_password_hash = ''hsecret'', ur_name = ''Bob'',
     ur_created = 0, ur_updated = 0\<rparr>"

definition member_row :: role_row where
  "member_row = \<lparr>rr_id = 3, rr_name = RoleMember, rr_description = None, rr_created = 0,
     rr_updated = 0\<rparr>"

definition open_row :: task_row where
  "open_row = \<lparr>tr_id = 6, tr_title = ''write'', tr_description = Some ''text'',
     tr_status = TaskStatusTodo, tr_priority = PriorityLow, tr_due = None, tr_assignee = Some 2,
     tr_creator = 1, tr_created = 1000, tr_updated = 1000\<rparr>"

definition archived_row :: task_row where
  "archived_row = open_row\<lparr>tr_id := 5, tr_status := TaskStatusArchived\<rparr>"

definition file_row :: attachment_row where
  "file_row = \<lparr>ar_id = 8, ar_task = 6, ar_filename = ''a.txt'', ar_key = ''k8'',
     ar_content_type = Some ''text/plain'', ar_size = Some 3, ar_uploader = Some 1, ar_created = 1000\<rparr>"

definition example_db :: db where
  "example_db = empty_db\<lparr>db_users := [ada, bob], db_roles := [member_row],
     db_user_roles := [(1, 3)], db_tasks := [open_row, archived_row], db_attachments := [file_row]\<rparr>"

definition example_world :: world where
  "example_world = \<lparr>w_db = example_db, w_tx_time = None, w_cache = MC_NewMemoryCache,
     w_blobs = [''k8'' \<mapsto> ''abc''], w_bus = NewEventBus, w_kafka = [], w_tick = 0\<rparr>"

lemmas example_rows = ada_def bob_def member_row_def open_row_def archived_row_def file_row_def

lemma example_db_inv: "db_inv example_db"
  by (simp add: db_inv_def keys_ok_def refs_ok_def task_refs_def attachment_refs_def id_sets
      task_row_ok_def example_db_def empty_db_def example_rows TaskStatus_IsValid_def
      validTaskStatuses_def Priority_IsValid_iff AllPriorities_def)

lemma example_env_simps [simp]:
  "e_clock example_env n = 1000000 * int n" "e_new_uuid example_env n = 100 + of_nat n"
  "e_fault example_env n = None" "e_cache example_env = DepLive" "e_storage example_env = DepLive"
  "e_publisher example_env = DepLive" "e_kafka example_env = DepLive"
  "e_local_bus example_env = DepLive" "e_uuid_string example_env u = [char_of (unat u)]"
  "e_bcrypt_hash example_env n s = Ok (''h'' @ s)" "e_bcrypt_cmp example_env h s = (h = ''h'' @ s)"
  "e_sha256_hex example_env s = s" "e_validate example_env d = None"
  "e_uuid_parse example_env [c] = Some (of_nat (of_char c))"
  by (simp_all add: example_env_def)

lemma example_fault_free [simp]: "fault_free example_env"
  by (simp add: fault_free_def)

lemma example_world_simps [simp]:
  "w_db example_world = example_db" "w_tx_time example_world = None"
  "w_cache example_world = MC_NewMemoryCache" "w_blobs example_world = [''k8'' \<mapsto> ''abc'']"
  "w_bus example_world = NewEventBus" "w_kafka example_world = []" "w_tick example_world = 0"
  by (simp_all add: example_world_def)

lemma example_db_simps [simp]:
  "db_users example_db = [ada, bob]" "db_roles example_db = [member_row]"
  "db_user_roles example_db = [(1, 3)]" "db_tasks example_db = [open_row, archived_row]"
  "db_attachments example_db = [file_row]" "db_task_labels example_db = []" "db_acl example_db = []"
  "db_labels example_db = []" "db_permissions example_db = []" "db_role_permissions example_db = []"
  by (simp_all add: example_db_def empty_db_def)

lemma has_dependency [simp]:
  "\<not> isNilDependency DepLive" "isNilDependency DepNone" "isNilDependency DepNilPtr"
  by (simp_all add: isNilDependency_def)

lemmas execute = andthen_def attempt_def ignoring_def external_run clock_run sql_run cache_run env_run no_rows_is_nil_def Let_def
  q_read_def q_one_def cache_ops require_def has_storage_def has_publisher_def storage_call_def

lemmas execute_tasks = fetch_task_def Task_FindByID_def q_GetTask_def sqlcTaskToEntity_def
  or_empty_def nonempty_def store_task_def Task_Update_def q_UpdateTask_def invalidateTaskCaches_def
  invalidateTaskListCaches_def make_event_def publishTaskEvent_def

lemmas execute_messages = Publish_def Fanout_Publish_def fanout_part_def Kafka_Publish_def
  bus_call_def Bus_Publish_def errors_Join_def NewEventBus_def

section \<open>A user who is signed in\<close>

definition ada_claims :: jwt_claims where
  "ada_claims = \<lparr>jc_issuer = ''poc'', jc_subject = [char_of (1::nat)],
     jc_expires = Some (3600 * second), jc_issued = Some 0, jc_not_before = Some 0, jc_id = ''t1'',
     jc_user = 1, jc_email = ''ada@x.io'', jc_roles = [RoleMember], jc_role_ids = [3],
     jc_permissions = []\<rparr>"

definition token_env :: env where
  "token_env = example_env
     \<lparr>e_jwt_parse := (\<lambda>now s. if s = ''tok'' \<and> now \<le> 3600 * second then JwtValid ada_claims
                              else JwtInvalid),
      e_jwt_unverified := (\<lambda>s. if s = ''tok'' then Some ada_claims else None)\<rparr>"

definition ada_session :: session_data where
  "ada_session = \<lparr>sd_user = [char_of (1::nat)], sd_access = ''t1'', sd_refresh = ''t2'',
     sd_created = 0, sd_expires = 3600 * second\<rparr>"

definition signed_in :: world where
  "signed_in = example_world\<lparr>w_cache :=
     [KB_UserSession cachePrefix [char_of (1::nat)] ''t1'' \<mapsto>
        \<lparr>ci_value = JSession ada_session, ci_expiration = 86400 * second\<rparr>]\<rparr>"

lemma token_env_simps [simp]:
  "e_clock token_env n = 1000000 * int n" "e_new_uuid token_env n = 100 + of_nat n"
  "e_fault token_env n = None" "e_cache token_env = DepLive" "e_storage token_env = DepLive"
  "e_publisher token_env = DepLive" "e_kafka token_env = DepLive"
  "e_local_bus token_env = DepLive" "e_uuid_string token_env u = [char_of (unat u)]"
  "e_bcrypt_hash token_env n s = Ok (''h'' @ s)" "e_bcrypt_cmp token_env h s = (h = ''h'' @ s)"
  "e_validate token_env d = None" "e_jwt_sign token_env cl = Ok (jc_id cl)" "e_refresh_ttl token_env = 86400 * second"
  "e_uuid_parse token_env [c] = Some (of_nat (of_char c))"
  "e_jwt_parse token_env now s =
     (if s = ''tok'' \<and> now \<le> 3600 * second then JwtValid ada_claims else JwtInvalid)"
  "e_jwt_unverified token_env s = (if s = ''tok'' then Some ada_claims else None)"
  by (simp_all add: token_env_def) (simp_all add: example_env_def)

lemma token_fault_free [simp]: "fault_free token_env"
  by (simp add: fault_free_def)

lemma signed_in_simps [simp]:
  "w_db signed_in = example_db" "w_tx_time signed_in = None" "w_tick signed_in = 0"
  "w_bus signed_in = NewEventBus" "w_kafka signed_in = []"
  "w_cache signed_in = [KB_UserSession cachePrefix [char_of (1::nat)] ''t1'' \<mapsto>
     \<lparr>ci_value = JSession ada_session, ci_expiration = 86400 * second\<rparr>]"
  by (simp_all add: signed_in_def)

lemma ada_simps [simp]:
  "jc_user ada_claims = 1" "jc_id ada_claims = ''t1''" "jc_expires ada_claims = Some (3600 * second)"
  "sd_refresh ada_session = ''t2''" "jc_subject ada_claims = [char_of (1::nat)]"
  by (simp_all add: ada_claims_def ada_session_def)

lemmas execute_tokens = TS_ValidateToken_def parse_token_def ExtractTokenID_def session_key_def
  check_session_def exists_or_false_def RefreshTokenTTL_def token_id_or_empty_def revoke_session_def
  whenever_def publishUserEvent_def make_event_def MC_Exists_def IsZero_def MC_GetJSON_def
  MC_Get_def MC_Set_def MC_Delete_def second_def

lemmas execute_users = fetch_user_def User_FindByID_def loadUserRoles_def q_GetUser_def
  q_GetUserRoles_def q_GetPermissionsByRoleIDs_def VerifyPassword_def UpdatePassword_def
  User_Update_def q_UpdateUser_def syncUserRoles_def with_permissions_def sqlcUserToEntity_def
  sqlcRoleToEntity_def

end
