(* ===== verification/Guarantees.thy ===== *)
theory Guarantees
  imports Application Examples
begin

text \<open>
  What holds in every state of the application: the consistency of the tables, the finality of
  archived tasks, the fixed origin of a task, and the access entries that no call ever writes.
\<close>

section \<open>Table properties that the statements keep\<close>

lemma keptI: "(\<And>t d. db_inv d \<Longrightarrow> Q d \<Longrightarrow> Q (snd (q t d))) \<Longrightarrow> kept Q q"
  by (simp add: kept_def)

lemmas writer_defs = q_CreateUser_def q_UpdateUser_def q_DeleteUser_def q_AssignRoleToUser_def
  q_RemoveRoleFromUser_def q_UpsertRole_def q_CreateRole_def q_DeleteRolesByNames_def delete_roles_def
  q_UpsertPermission_def q_CreatePermission_def q_AddPermissionToRole_def
  q_RemoveAllPermissionsFromRole_def q_CreateLabel_def q_UpdateLabel_def q_DeleteLabel_def
  q_CreateTaskAttachment_def q_DeleteTaskAttachment_def q_DeleteTask_def delete_tasks_def
  update_of_def q_UpdateTask_def q_CreateTask_def

text \<open>No statement of the use cases touches the access control entries.\<close>

interpretation access_entries: creating_property "\<lambda>d. db_acl d = A" "\<lambda>_. True" for A
  by unfold_locales (auto intro!: keptI simp: writer_defs Let_def split: option.splits)

text \<open>
  A property of each row of the tasks that survives the loss of an assignee and every change of
  the row that a method of the entity makes.
\<close>

lemma rows_kept:
  assumes "\<And>r t. R r \<Longrightarrow> R (r\<lparr>tr_assignee := None, tr_updated := t\<rparr>)"
  shows "kept (\<lambda>d. \<forall>r\<in>set (db_tasks d). R r) (q_CreateUser ur)"
    and "kept (\<lambda>d. \<forall>r\<in>set (db_tasks d). R r) (q_UpdateUser i s n h)"
    and "kept (\<lambda>d. \<forall>r\<in>set (db_tasks d). R r) (q_DeleteUser i)"
    and "kept (\<lambda>d. \<forall>r\<in>set (db_tasks d). R r) (q_AssignRoleToUser u r)"
    and "kept (\<lambda>d. \<forall>r\<in>set (db_tasks d). R r) (q_RemoveRoleFromUser u r)"
    and "kept (\<lambda>d. \<forall>r\<in>set (db_tasks d). R r) (q_UpsertRole rr)"
    and "kept (\<lambda>d. \<forall>r\<in>set (db_tasks d). R r) (q_DeleteRolesByNames names)"
    and "kept (\<lambda>d. \<forall>r\<in>set (db_tasks d). R r) (q_UpsertPermission p)"
    and "kept (\<lambda>d. \<forall>r\<in>set (db_tasks d). R r) (q_AddPermissionToRole r i)"
    and "kept (\<lambda>d. \<forall>r\<in>set (db_tasks d). R r) (q_RemoveAllPermissionsFromRole r)"
    and "kept (\<lambda>d. \<forall>r\<in>set (db_tasks d). R r) (q_CreateLabel low l)"
    and "kept (\<lambda>d. \<forall>r\<in>set (db_tasks d). R r) (q_UpdateLabel low i s n)"
    and "kept (\<lambda>d. \<forall>r\<in>set (db_tasks d). R r) (q_DeleteLabel i)"
    and "kept (\<lambda>d. \<forall>r\<in>set (db_tasks d). R r) (q_CreateTaskAttachment a)"
    and "kept (\<lambda>d. \<forall>r\<in>set (db_tasks d). R r) (q_DeleteTaskAttachment i)"
    and "kept (\<lambda>d. \<forall>r\<in>set (db_tasks d). R r) (q_DeleteTask i)"
  using assms by (auto intro!: keptI simp: writer_defs Let_def split: option.splits if_splits)

lemma update_rows:
  assumes "r \<in> set (db_tasks (snd (update_of t now d)))"
  shows "r \<in> set (db_tasks d) \<or> (\<exists>old\<in>set (db_tasks d). tr_id old = t_id t \<and> tr_id r = t_id t
    \<and> tr_status r = t_status t \<and> tr_creator r = tr_creator old \<and> tr_created r = tr_created old)"
proof (cases "find (\<lambda>r. tr_id r = t_id t) (db_tasks d)")
  case None
  then show ?thesis using assms by (simp add: update_of_def q_UpdateTask_def)
next
  case (Some old)
  note old = find_in [OF Some]
  show ?thesis using assms old
    by (auto simp: update_of_def q_UpdateTask_def Some Let_def split: if_splits)
qed

definition archived_in :: "uuid set \<Rightarrow> task_row \<Rightarrow> bool" where
  "archived_in S r \<longleftrightarrow> (tr_id r \<in> S \<longrightarrow> tr_status r = TaskStatusArchived)"

interpretation archived: table_property
  "\<lambda>d. \<forall>r\<in>set (db_tasks d). archived_in S r" "\<lambda>t. t_id t \<in> S \<longrightarrow> t_status t = TaskStatusArchived" for S
proof (unfold_locales, goal_cases)
  case (17 t)
  then show ?case
    by (auto intro!: keptI simp: archived_in_def dest!: update_rows)
next
  case (18 d row)
  then show ?case by (auto simp: archived_in_def sqlcTaskToEntity_def)
next
  case (19 t t')
  then show ?case by (metis task_step_archived task_step_identity)
qed (rule rows_kept, simp add: archived_in_def)+

definition origin_is :: "uuid \<Rightarrow> uuid \<Rightarrow> time \<Rightarrow> task_row \<Rightarrow> bool" where
  "origin_is i c t r \<longleftrightarrow> (tr_id r = i \<longrightarrow> tr_creator r = c \<and> tr_created r = t)"

interpretation origin: table_property
  "\<lambda>d. \<forall>r\<in>set (db_tasks d). origin_is i c t r" "\<lambda>_. True" for i c t
proof (unfold_locales, goal_cases)
  case (17 t')
  then show ?case
    by (auto intro!: keptI simp: origin_is_def dest!: update_rows)
qed (simp_all add: rows_kept origin_is_def)

text \<open>A created task has an id of its own, so it cannot disturb the rows that are there.\<close>

lemma CreateTask_keeps_rows:
  assumes "creates_task c" "app_step w c r w'"
  shows "set (db_tasks (w_db w)) \<subseteq> set (db_tasks (w_db w')) \<and> (db_inv (w_db w) \<longrightarrow> db_inv (w_db w'))"
proof -
  let ?P = "\<lambda>d. set (db_tasks (w_db w)) \<subseteq> set (db_tasks d) \<and> (db_inv (w_db w) \<longrightarrow> db_inv d)"
  have "holds (on_db ?P) (Task_Save t) (\<lambda>_. True)" if "task_wf t" for t
  proof -
    have k: "stmt_keeps (q_CreateTask (row_of t))"
      using that by (intro CreateTask_keeps) (simp add: task_row_ok_def task_wf_def row_of_def)
    have g: "set (db_tasks d) \<subseteq> set (db_tasks (snd (q_CreateTask (row_of t) now d)))" for now d
      by (auto simp: q_CreateTask_def Let_def)
    have "holds (on_db ?P) (sql (q_CreateTask (row_of t))) (\<lambda>_. True)"
    proof (rule holds_sql)
      fix now d rs d'
      assume q: "q_CreateTask (row_of t) now d = (rs, d')" and P: "?P d"
      show "?P d' \<and> (\<forall>x. rs = Ok x \<longrightarrow> True)"
        using k g [of d now] q P by (simp add: stmt_keeps_def) (metis snd_conv subset_trans)
    qed
    then show ?thesis unfolding Task_Save_def row_of_def
      by (rule holds_andthen) (rule holds_ret, rule TrueI)
  qed
  from CreateTask_holds [OF this] have "holds (on_db ?P) (perform c) (\<lambda>_. True)"
    using assms(1) by (cases c) (simp_all only: perform.simps creates_task.simps, intro keeps)
  from holds_step [OF this _ assms(2)] show ?thesis by simp
qed

interpretation task_labels_table: creating_property "\<lambda>d. db_task_labels d = []" "\<lambda>_. True"
  by unfold_locales (auto intro!: keptI simp: writer_defs Let_def split: option.splits)

lemma start_example: "app_reachable (example_world\<lparr>w_db := empty_db\<rparr>)"
  by (rule app_reachable.start) simp

lemma task_row_unique:
  "db_inv d \<Longrightarrow> r \<in> set (db_tasks d) \<Longrightarrow> r' \<in> set (db_tasks d) \<Longrightarrow> tr_id r = tr_id r' \<Longrightarrow> r = r'"
  by (rule keyed_same [of tr_id "db_tasks d"]) (simp_all add: db_inv_def keys_ok_def)

section \<open>Invariants of the application\<close>

text \<open>
  C1. The tables stay consistent whatever happens: in every state that any calls reach, with
  services failing at any point of any call, keys and unique columns are unique, every foreign
  key finds its row, and every stored task has a title, a status and a priority of the domain.
\<close>

theorem application_invariant:
  assumes "app_reachable w"
  shows "db_inv (w_db w)"
  using everything.reachable_always [OF assms] by simp

theorem application_invariant_witness: "db_inv (w_db (example_world\<lparr>w_db := empty_db\<rparr>))"
  by (rule application_invariant [OF start_example])

text \<open>
  C12. An archived task never leaves the archive: a row that is archived before a call is, if it
  is still there afterwards, archived.
\<close>

theorem archived_tasks_stay:
  assumes "db_inv (w_db w)" and "app_step w c r w'"
    and "row \<in> set (db_tasks (w_db w))" and "tr_status row = TaskStatusArchived"
    and "row' \<in> set (db_tasks (w_db w'))" and "tr_id row' = tr_id row"
  shows "tr_status row' = TaskStatusArchived"
proof (cases "creates_task c")
  case True
  note ext = CreateTask_keeps_rows [OF True assms(2)]
  then have "row' = row"
    using task_row_unique [OF _ assms(5) _ assms(6)] assms(1,3) by blast
  with assms(4) show ?thesis by simp
next
  case False
  have "\<forall>r\<in>set (db_tasks (w_db w)). archived_in {tr_id row} r"
    using task_row_unique [OF assms(1) _ assms(3)] assms(4)
    by (auto simp: archived_in_def)
  from archived.step_consistent [OF False assms(2,1) this] assms(5,6) show ?thesis
    by (simp add: archived_in_def)
qed

text \<open>
  The creator and the creation time of a stored task never change.
\<close>

theorem task_origin_fixed:
  assumes "db_inv (w_db w)" and "app_step w c r w'"
    and "row \<in> set (db_tasks (w_db w))" and "row' \<in> set (db_tasks (w_db w'))"
    and "tr_id row' = tr_id row"
  shows "tr_creator row' = tr_creator row \<and> tr_created row' = tr_created row"
proof (cases "creates_task c")
  case True
  note ext = CreateTask_keeps_rows [OF True assms(2)]
  then have "row' = row"
    using task_row_unique [OF _ assms(4) _ assms(5)] assms(1,3) by blast
  then show ?thesis by simp
next
  case False
  have "\<forall>r\<in>set (db_tasks (w_db w)). origin_is (tr_id row) (tr_creator row) (tr_created row) r"
    using task_row_unique [OF assms(1) _ assms(3)] by (auto simp: origin_is_def)
  from origin.step_consistent [OF False assms(2,1) this] assms(4,5) show ?thesis
    by (simp add: origin_is_def)
qed

definition unassigned_world :: world where
  "unassigned_world = snd (UnassignTask None 5 example_env example_world)"

definition unassigned_row :: task_row where
  "unassigned_row = archived_row\<lparr>tr_assignee := None, tr_updated := pg_timestamptz 2000000\<rparr>"

lemma app_step_run: "app_step w c (fst (perform c e w)) (snd (perform c e w))"
  by (rule app_step.serve) (rule prod.collapse [symmetric])

lemma discard_world: "snd (discard m e w) = snd (m e w)"
  by (simp add: discard_def andthen_def split: prod.splits result.splits)

lemma unassigned_step: "\<exists>r. app_step example_world (CallUnassignTask None 5) r unassigned_world"
  unfolding unassigned_world_def
  using app_step_run [of example_world "CallUnassignTask None 5" example_env]
  by (auto simp: discard_world)

lemma unassigned_rows: "set (db_tasks (w_db unassigned_world)) = {open_row, unassigned_row}"
  by (simp add: unassigned_world_def unassigned_row_def UnassignTask_def execute execute_tasks
      execute_messages example_rows Unassign_def user_ids_def)

theorem archived_tasks_stay_witness:
  "tr_assignee unassigned_row = None \<and> tr_status unassigned_row = TaskStatusArchived"
proof -
  obtain r where "app_step example_world (CallUnassignTask None 5) r unassigned_world"
    using unassigned_step by blast
  from archived_tasks_stay [OF _ this, of archived_row unassigned_row] show ?thesis
    by (simp add: example_db_inv unassigned_rows) (simp add: unassigned_row_def archived_row_def)
qed

theorem task_origin_fixed_witness: "tr_creator unassigned_row = 1"
proof -
  obtain r where "app_step example_world (CallUnassignTask None 5) r unassigned_world"
    using unassigned_step by blast
  from task_origin_fixed [OF _ this, of archived_row unassigned_row] show ?thesis
    by (simp add: example_db_inv unassigned_rows) (simp add: unassigned_row_def example_rows)
qed

section \<open>What no call ever writes\<close>

text \<open>A check of access entries is refused, without running the handler, when there are none.\<close>

lemma ACL_HasPermission_calm: "fst (ACL_HasPermission rt ri st si perm e w) \<noteq> Panic p"
  by (simp add: ACL_HasPermission_def sql_def external_def run_sql_def q_HasPermission_grants Let_def
      split: option.splits fault.splits)

lemma calm_andthen:
  "(\<And>w p. fst (m e w) \<noteq> Panic p) \<Longrightarrow> (\<And>x w p. fst (f x e w) \<noteq> Panic p) \<Longrightarrow> fst (andthen m f e w) \<noteq> Panic p"
  by (auto simp: andthen_def split: prod.splits result.splits) (metis fst_conv)+

lemma role_checks_calm: "fst (role_checks rs rt ri perm e w) \<noteq> Panic p"
proof (induction rs arbitrary: w p)
  case (Cons r rs)
  then show ?case
    unfolding role_checks.simps
    by (intro calm_andthen) (simp_all add: ACL_HasPermission_calm calm_andthen)
qed simp

lemma CanAccess_calm: "fst (CanAccess u rs rt ri perm e w) \<noteq> Panic p"
  unfolding CanAccess_def
  by (simp add: ACL_HasPermission_calm role_checks_calm calm_andthen)

lemma checkACL_without_entries:
  assumes "db_acl (w_db w) = []"
  shows "\<exists>status msg w'. checkACL ctx rt ri perm next e w = (Ok (Refuse status msg), w')
    \<and> status \<in> {401, 403, 500} \<and> w_db w' = w_db w"
proof (cases ctx)
  case None
  then show ?thesis by (simp add: checkACL_def refuse_def)
next
  case (Some claims)
  obtain r w1 where run: "CanAccess (tc_user claims) (tc_role_ids claims) rt ri perm e w = (r, w1)"
    by fastforce
  have spec: "r = Ok b \<longrightarrow> \<not> b" "w_db w1 = w_db w" for b
    using answersD [OF CanAccess_answers run] assms by (auto simp: access_spec_def)
  show ?thesis
  proof (cases r)
    case (Panic p)
    with CanAccess_calm [of "tc_user claims" "tc_role_ids claims" rt ri perm e w p] run show ?thesis
      by simp
  qed (use Some run spec in \<open>auto simp: checkACL_def refuse_def attempt_def andthen_def\<close>)
qed

text \<open>
  No call writes an access control entry or attaches a label to a task in the tables: from
  an empty database both tables stay empty for ever, although the handlers of single tasks and
  users demand an entry and the outputs of tasks show labels.
\<close>

theorem no_entry_and_no_label_stored:
  assumes "app_reachable w"
  shows "db_acl (w_db w) = [] \<and> db_task_labels (w_db w) = []"
  using access_entries.reachable_always [OF assms] task_labels_table.reachable_always [OF assms]
  by (simp add: empty_db_def)

theorem no_entry_and_no_label_stored_witness:
  "db_acl (w_db (example_world\<lparr>w_db := empty_db\<rparr>)) = []"
  using no_entry_and_no_label_stored [OF start_example] by blast



section \<open>The checker on a table with an entry\<close>

theorem CanAccess_sound_complete_witness:
  "fst (CanAccess 1 [] ResourceTypeTask 6 ACLPermissionRead example_env
     (example_world\<lparr>w_db := example_db\<lparr>db_acl :=
        [\<lparr>a_id = 11, a_resource_type = ResourceTypeTask, a_resource_id = 6,
          a_subject_type = ACLSubjectTypeUser, a_subject_id = 1, a_permission = ACLPermissionAdmin,
          a_created = 0\<rparr>]\<rparr>\<rparr>)) = Ok True"
  using CanAccess_sound_complete [of 1 "[]" ResourceTypeTask 6 ACLPermissionRead example_env
     "example_world\<lparr>w_db := example_db\<lparr>db_acl :=
        [\<lparr>a_id = 11, a_resource_type = ResourceTypeTask, a_resource_id = 6,
          a_subject_type = ACLSubjectTypeUser, a_subject_id = 1, a_permission = ACLPermissionAdmin,
          a_created = 0\<rparr>]\<rparr>\<rparr>" True]
  by (simp add: access_spec_def ACLEntry_Matches_def uuid_Nil_def)

end
