(* ===== verification/Sessions.thy ===== *)
theory Sessions
  imports Examples Application
begin

text \<open>
  What tokens and sessions guarantee: which tokens are accepted, what signing out and changing
  the password revoke, and what stands between a request and a protected handler.
\<close>

section \<open>The session check\<close>

abbreviation user_session :: "env \<Rightarrow> uuid \<Rightarrow> string \<Rightarrow> string" where
  "user_session e u t \<equiv> KB_UserSession cachePrefix (e_uuid_string e u) t"

definition live_session :: "env \<Rightarrow> world \<Rightarrow> uuid \<Rightarrow> string \<Rightarrow> bool" where
  "live_session e w u t \<longleftrightarrow> (\<exists>now. MC_Exists now (user_session e u t) (w_cache w))"

definition unread :: "world \<Rightarrow> world \<Rightarrow> bool" where
  "unread w w' \<longleftrightarrow> w_db w' = w_db w \<and> w_cache w' = w_cache w \<and> w_blobs w' = w_blobs w
     \<and> w_tx_time w' = w_tx_time w"

lemma exists_or_false_run:
  assumes "e_cache e = DepLive"
  obtains b w' where "exists_or_false k e w = (Ok b, w')" "unread w w'"
    "b \<Longrightarrow> \<exists>now. MC_Exists now k (w_cache w)"
  using assms
  by (fastforce simp: exists_or_false_def Cache_Exists_def cache_call_def external_def Let_def
      unread_def andthen_def attempt_def split: option.splits fault.splits)

lemma session_key_run [simp]: "session_key u t e w = (Ok (user_session e u t), w)"
  by (simp add: session_key_def)

lemma check_session_Ok:
  assumes "e_cache e = DepLive" and run: "check_session u t e w = (Ok x, w')"
  shows "live_session e w u t \<and> unread w w'"
proof -
  obtain b1 w1 where 1: "exists_or_false (KB_TokenBlacklist cachePrefix t) e w = (Ok b1, w1)"
      "unread w w1"
    using exists_or_false_run [OF assms(1)] by metis
  obtain b2 w2 where 2: "exists_or_false (user_session e u t) e w1 = (Ok b2, w2)" "unread w1 w2"
      "b2 \<Longrightarrow> \<exists>now. MC_Exists now (user_session e u t) (w_cache w1)"
    using exists_or_false_run [OF assms(1)] by metis
  from run 1 2 show ?thesis
    by (auto simp: check_session_def live_session_def unread_def split: if_splits)
qed

lemma parse_token_Ok:
  "parse_token tok e w = (Ok c, w') \<Longrightarrow>
     e_jwt_parse e (e_clock e (w_tick w)) tok = JwtValid c \<and> w' = tick w"
  by (auto simp: parse_token_def clock_run andthen_Ok_iff split: jwt_parsed.splits)

definition claims_of :: "jwt_claims \<Rightarrow> time \<Rightarrow> token_claims" where
  "claims_of c expires = \<lparr>tc_user = jc_user c, tc_email = jc_email c, tc_roles = jc_roles c,
     tc_role_ids = jc_role_ids c, tc_permissions = jc_permissions c, tc_token_id = jc_id c,
     tc_expires = expires\<rparr>"

lemma TS_ValidateToken_Ok:
  assumes "TS_ValidateToken tok e w = (Ok claims, w')"
  shows "w' = tick w \<and> (\<exists>c expires. e_jwt_parse e (e_clock e (w_tick w)) tok = JwtValid c
    \<and> jc_expires c = Some expires \<and> claims = claims_of c expires)"
  using assms
  by (auto simp: TS_ValidateToken_def andthen_Ok_iff claims_of_def dest!: parse_token_Ok
      split: option.splits)

lemma ValidateToken_Ok:
  assumes "ValidateToken tok e w = (Ok claims, w')"
  shows "\<exists>c expires. e_jwt_parse e (e_clock e (w_tick w)) tok = JwtValid c
    \<and> jc_expires c = Some expires \<and> claims = claims_of c expires
    \<and> (e_cache e = DepNone \<or> jc_id c = [] \<or> live_session e w (jc_user c) (jc_id c))
    \<and> unread w w'"
proof -
  obtain w1 where ts: "TS_ValidateToken tok e w = (Ok claims, w1)"
    and rest: "andthen has_cache (\<lambda>present. andthen
       (if present \<and> tc_token_id claims \<noteq> []
        then check_session (tc_user claims) (tc_token_id claims) else ret ()) (\<lambda>_. ret claims)) e w1
      = (Ok claims, w')"
    using assms by (auto simp: ValidateToken_def andthen_Ok_iff env_run split: if_splits)
  obtain c expires where c: "e_jwt_parse e (e_clock e (w_tick w)) tok = JwtValid c"
      "jc_expires c = Some expires" "claims = claims_of c expires" and w1: "w1 = tick w"
    using TS_ValidateToken_Ok [OF ts] by blast
  show ?thesis
  proof (cases "e_cache e = DepNone \<or> jc_id c = []")
    case True
    with rest c w1 show ?thesis
      by (auto simp: env_run claims_of_def unread_def)
  next
    case False
    with rest c w1 obtain x where run: "check_session (jc_user c) (jc_id c) e w1 = (Ok x, w')"
      by (auto simp: env_run claims_of_def andthen_Ok_iff)
    have live: "e_cache e = DepLive"
    proof (rule ccontr)
      assume "e_cache e \<noteq> DepLive"
      with run show False
        by (simp add: check_session_def exists_or_false_def Cache_Exists_def cache_call_def
            andthen_def attempt_def)
    qed
    from check_session_Ok [OF live run] c w1 show ?thesis
      by (auto simp: live_session_def unread_def)
  qed
qed

lemma signed_in_live: "live_session token_env signed_in 1 ''t1''"
  by (auto simp: live_session_def MC_Exists_def IsZero_def second_def)


lemma token_accepted:
  "\<exists>w'. ValidateToken ''tok'' token_env signed_in = (Ok (claims_of ada_claims (3600 * second)), w')"
  by (simp add: ValidateToken_def execute execute_tokens claims_of_def)


section \<open>Revocation\<close>

definition uncached :: "string \<Rightarrow> world \<Rightarrow> bool" where
  "uncached k = unmessaged (\<lambda>d c b. c k = None)"

lemma uncached_iff [simp]: "uncached k w \<longleftrightarrow> w_cache w k = None"
  by (simp add: uncached_def unmessaged_def)

lemma delete_post:
  "fault_free e \<Longrightarrow> e_cache e = DepLive \<Longrightarrow> after e P (ignoring (Cache_Delete k)) (\<lambda>_. uncached k)"
  by (rule afterI) (auto simp: Cache_Delete_def cache_run ignoring_def MC_Delete_def)

lemma pattern_post:
  "fault_free e \<Longrightarrow> e_cache e = DepLive \<Longrightarrow> prefix p k \<Longrightarrow>
     after e P (ignoring (Cache_DeletePattern (p @ ''*''))) (\<lambda>_. uncached k)"
  by (rule afterI)
    (auto simp: Cache_DeletePattern_def cache_run ignoring_def MC_DeletePattern_def
      pattern_prefix_def prefix_def Let_def)

lemma messaging_events [frames]:
  "messaging (make_event f)" "messaging (publishUserEvent g)"
  unfolding make_event_def publishUserEvent_def by (intro frames)+

lemma uncached_stays [posts]:
  "stays e (uncached k) (publishUserEvent f)" "stays e (uncached k) now_utc"
  "stays e (uncached k) (make_event g)"
  unfolding uncached_def by (intro stays_messaging frames)+

lemma no_live_session: "w_cache w (user_session e u t) = None \<Longrightarrow> \<not> live_session e w u t"
  by (simp add: live_session_def MC_Exists_def)

lemma not_accepted:
  assumes "w_cache w (user_session e u t) = None" and "e_cache e \<noteq> DepNone"
    and "\<And>now c. e_jwt_parse e now tok = JwtValid c \<Longrightarrow> jc_user c = u \<and> jc_id c = t" and "t \<noteq> []"
  shows "fst (ValidateToken tok e w) \<noteq> Ok claims"
proof
  assume "fst (ValidateToken tok e w) = Ok claims"
  then obtain w' where "ValidateToken tok e w = (Ok claims, w')" by (metis prod.collapse)
  from ValidateToken_Ok [OF this] assms no_live_session [OF assms(1)] show False by metis
qed

lemma revoke_session_post:
  assumes "fault_free e" "e_cache e = DepLive"
  shows "after e P (revoke_session u tok t) (\<lambda>_. uncached (user_session e u t))"
  unfolding revoke_session_def
  by (rule after_prefix, rule after_prefix, rule after_value [where v = "user_session e u t"],
      simp add: after_def, rule after_prefix, rule after_prefix)
    (simp add: delete_post [OF assms])

lemma Logout_post:
  assumes "fault_free e" "e_cache e = DepLive" "e_jwt_unverified e tok = Some c"
  shows "after e P (Logout u tok) (\<lambda>_. uncached (user_session e u (jc_id c)))"
proof -
  have x: "ExtractTokenID tok e w = (Ok (jc_id c), w)" for w
    using assms(3) by (simp add: ExtractTokenID_def)
  show ?thesis
    unfolding Logout_def
    by (rule after_value [where v = "jc_id c"], simp add: after_def x,
        rule after_value [where v = True], simp add: after_def env_run assms,
        rule after_then_stays [where Q = "\<lambda>_. uncached (user_session e u (jc_id c))"])
      (simp_all add: revoke_session_post [OF assms(1,2)] posts)
qed

lemma sessions_pattern_post:
  assumes "fault_free e" "e_cache e = DepLive"
  shows "after e P (invalidateAllUserSessions u) (\<lambda>_. uncached (user_session e u t))"
  unfolding invalidateAllUserSessions_def UserSessions_pattern
  by (rule after_value [where v = True], simp add: after_def env_run assms, simp del: uncached_iff,
      rule after_value [where v = "e_uuid_string e u"], simp add: after_def env_run,
      rule pattern_post [OF assms], simp add: session_prefix_def KB_UserSession_def prefix_def)

lemma ChangePassword_post:
  assumes "fault_free e" "e_cache e = DepLive"
  shows "after e P (ChangePassword u inp) (\<lambda>_. uncached (user_session e u t))"
  unfolding ChangePassword_def
  by (rule after_prefix, rule after_prefix, rule after_prefix, rule after_split(1), rule after_raise,
      rule after_prefix, rule after_prefix, rule after_prefix, rule after_prefix,
      rule after_then_stays [OF sessions_pattern_post [OF assms]], assumption, (intro posts))



lemma signs_out: "\<exists>w'. Logout 1 ''tok'' token_env signed_in = (Ok (), w')"
  by (simp add: Logout_def execute execute_tokens execute_messages)


definition password_change :: change_password_input where
  "password_change = \<lparr>cpi_old = ''secret'', cpi_new = ''other''\<rparr>"

lemma changes_password: "\<exists>w'. ChangePassword 1 password_change token_env signed_in = (Ok (), w')"
  by (simp add: ChangePassword_def password_change_def invalidateAllUserSessions_def execute
      execute_tokens execute_users execute_messages example_rows)


section \<open>What stands before a handler\<close>

lemma withAuth_Answer:
  assumes "withAuth h header e w = (Ok (Answer s x), w')"
  shows "\<exists>scheme token claims w1. split_first CHR '' '' header = [scheme, token]
    \<and> ToLower_ascii scheme = ''bearer'' \<and> ValidateToken token e w = (Ok claims, w1)
    \<and> h (Some claims) e w1 = (Ok (Answer s x), w')"
  using assms
  by (auto simp: withAuth_def refuse_def andthen_def attempt_def
      split: if_splits list.splits prod.splits result.splits)

lemma checkACL_Answer:
  assumes "checkACL (Some claims) rt ri perm next e w = (Ok (Answer s x), w')"
  shows "access_spec (tc_user claims) (tc_role_ids claims) rt ri perm (w_db w)"
proof -
  obtain r w1 where run: "CanAccess (tc_user claims) (tc_role_ids claims) rt ri perm e w = (r, w1)"
    by fastforce
  from assms run have "r = Ok True"
    by (cases r) (auto simp: checkACL_def refuse_def attempt_def andthen_def split: if_splits)
  with answersD [OF CanAccess_answers run] show ?thesis by auto
qed

text \<open>
  C2. End to end authorization of a change: a request to update a task is answered with the task
  only if its header carries a token that the application accepts, and an access entry for
  that task grants writing (or admin) to the user of the token or to one of its roles.
\<close>

theorem update_needs_token_and_entry:
  assumes "withAuth (H_UpdateTask ident body) header e w = (Ok (Answer s out), w')"
  shows "\<exists>scheme token claims w1 i. split_first CHR '' '' header = [scheme, token]
    \<and> ToLower_ascii scheme = ''bearer'' \<and> ValidateToken token e w = (Ok claims, w1)
    \<and> e_uuid_parse e ident = Some i
    \<and> access_spec (tc_user claims) (tc_role_ids claims) ResourceTypeTask i ACLPermissionWrite (w_db w)"
proof -
  obtain scheme token claims w1 where auth: "split_first CHR '' '' header = [scheme, token]"
      "ToLower_ascii scheme = ''bearer''" "ValidateToken token e w = (Ok claims, w1)"
      "H_UpdateTask ident body (Some claims) e w1 = (Ok (Answer s out), w')"
    using withAuth_Answer [OF assms] by blast
  have db: "w_db w1 = w_db w" using ValidateToken_Ok [OF auth(3)] by (auto simp: unread_def)
  from auth(4) obtain i where "e_uuid_parse e ident = Some i"
      "checkACL (Some claims) ResourceTypeTask i ACLPermissionWrite
         (with_body body (\<lambda>b. respond 200 (UpdateTask (Some claims) i b))) e w1 = (Ok (Answer s out), w')"
    by (auto simp: H_UpdateTask_def path_id_def refuse_def split: option.splits)
  with checkACL_Answer [OF this(2)] auth db show ?thesis by metis
qed

definition write_entry :: acl_entry where
  "write_entry = \<lparr>a_id = 11, a_resource_type = ResourceTypeTask, a_resource_id = 6,
     a_subject_type = ACLSubjectTypeUser, a_subject_id = 1, a_permission = ACLPermissionWrite,
     a_created = 0\<rparr>"

definition entrusted :: world where
  "entrusted = signed_in\<lparr>w_db := example_db\<lparr>db_acl := [write_entry]\<rparr>\<rparr>"

definition retitle :: update_task_input where
  "retitle = \<lparr>uti_title = Some ''new'', uti_description = None, uti_priority = None, uti_due = None,
     uti_clear_due = False\<rparr>"

lemma bearer: "ToLower_ascii ''Bearer'' = ''bearer''"
  by (simp add: ToLower_ascii.simps ascii_lower_def is_upper_def, code_simp)

lemma accepted_entrusted:
  "ValidateToken ''tok'' token_env entrusted
     = (Ok (claims_of ada_claims (3600 * second)), tick (tick (tick entrusted)))"
  by (simp add: ValidateToken_def entrusted_def execute execute_tokens claims_of_def)

lemma retitles:
  "\<exists>out w'. withAuth (H_UpdateTask [char_of (6::nat)] (Some retitle)) ''Bearer tok'' token_env entrusted
     = (Ok (Answer 200 out), w')"
  by (simp add: withAuth_def split_first_def bearer accepted_entrusted H_UpdateTask_def path_id_def)
    (simp add: checkACL_def CanAccess_def ACL_HasPermission_def execute claims_of_def entrusted_def
      q_HasPermission_def write_entry_def acl_consts resource_consts uuid_Nil_def,
     simp add: with_body_def respond_def UpdateTask_def retitle_def apply_updates_def
      UpdateTitle_def execute execute_tasks execute_messages example_rows status_consts
      updated_event_def user_ids_def)

theorem update_needs_token_and_entry_witness:
  "\<exists>claims :: token_claims. access_spec (tc_user claims) (tc_role_ids claims) ResourceTypeTask 6 ACLPermissionWrite
     (w_db entrusted)"
proof -
  obtain out w' where "withAuth (H_UpdateTask [char_of (6::nat)] (Some retitle)) ''Bearer tok''
      token_env entrusted = (Ok (Answer 200 out), w')"
    using retitles by blast
  from update_needs_token_and_entry [OF this] show ?thesis by fastforce
qed

section \<open>Refreshing\<close>

lemma fetch_user_found:
  assumes "fault_free e" "w_tx_time w = None" "i \<in> user_ids (w_db w)"
  shows "\<exists>u w'. fetch_user i e w = (Ok u, w') \<and> w_tx_time w' = None"
proof -
  obtain r where "find (\<lambda>r. ur_id r = i) (db_users (w_db w)) = Some r"
    using find_key_some [of i ur_id "db_users (w_db w)"] assms(3) by (auto simp: user_ids_def)
  then show ?thesis
    using assms(1,2)
    by (simp add: fetch_user_def User_FindByID_def loadUserRoles_def q_GetUser_def
        q_GetUserRoles_def q_GetPermissionsByRoleIDs_def q_one_def q_read_def no_rows_is_nil_def
        sql_run andthen_def attempt_def)
qed

lemma store_sessions_Ok:
  assumes "fault_free e" "e_cache e = DepLive"
  shows "\<exists>w'. store_sessions u out e w = (Ok (), w')"
proof -
  have ids: "\<exists>s. token_id_or_empty tok e w = (Ok s, w)" for tok w
    by (simp add: token_id_or_empty_def ExtractTokenID_def attempt_def andthen_def split: option.splits)
  obtain s1 s2 where "token_id_or_empty (au_access out) e w = (Ok s1, w)"
      "token_id_or_empty (au_refresh out) e w = (Ok s2, w)"
    using ids by metis
  with assms show ?thesis
    by (simp add: store_sessions_def env_run clock_run RefreshTokenTTL_def Cache_SetJSON_def cache_run
        Let_def andthen_def ignoring_def)
qed

lemma generateAuthOutput_Ok:
  assumes "fault_free e" "e_cache e = DepLive" and sign: "\<And>c. \<exists>s. e_jwt_sign e c = Ok s"
  shows "\<exists>out w'. generateAuthOutput u e w = (Ok out, w')"
proof -
  obtain S where S: "\<And>c. e_jwt_sign e c = Ok (S c)" using sign by metis
  have "\<exists>out w'. GenerateTokenPair i em rs ris ps e w = (Ok out, w')" for i em rs ris ps
    by (simp add: GenerateTokenPair_def sign_def clock_run S andthen_def)
  then obtain out w1 where
    g: "GenerateTokenPair (u_id u) (u_email u) (map r_name (u_roles u)) (map r_id (u_roles u))
          (permission_strings (u_roles u)) e w = (Ok out, w1)"
    by blast
  obtain w2 where "store_sessions (u_id u) (out\<lparr>au_user := Some (UserFromEntity u)\<rparr>) e w1 = (Ok (), w2)"
    using store_sessions_Ok [OF assms(1,2)] by blast
  with g show ?thesis by (simp add: generateAuthOutput_def Let_def)
qed

text \<open>
  The two kinds of tokens are not told apart: an access token that is accepted refreshes its
  session as well, for a user who exists, although only a refresh token is meant to.
\<close>

theorem access_token_refreshes:
  assumes "fault_free e" and "e_cache e = DepLive" and "w_tx_time w = None"
    and "ValidateToken tok e w = (Ok claims, w1)"
    and "e_jwt_parse e (e_clock e (w_tick w)) tok = JwtValid c" and "e_jwt_unverified e tok = Some c"
    and "e_uuid_parse e (jc_subject c) = Some (jc_user c)" and "jc_id c \<noteq> []"
    and "jc_user c \<in> user_ids (w_db w)" and "\<And>cl. \<exists>s. e_jwt_sign e cl = Ok s"
  shows "\<exists>out w2. RefreshToken tok e w = (Ok out, w2)"
proof -
  have ts: "parse_token tok e w = (Ok c, tick w)"
    using assms(5) by (simp add: parse_token_def clock_run)
  have refresh: "ValidateRefreshToken tok e w = (Ok (jc_user c), tick w)"
    using ts assms(7) by (simp add: ValidateRefreshToken_def)
  obtain w3 where check: "check_session (jc_user c) (jc_id c) e (tick w) = (Ok (), w3)"
    using assms(2,4,5,8) ts
    by (auto simp: ValidateToken_def TS_ValidateToken_def env_run andthen_Ok_iff split: option.splits)
  have frame: "unread (tick w) w3" using check_session_Ok [OF assms(2) check] by blast
  obtain u w4 where user: "fetch_user (jc_user c) e w3 = (Ok u, w4)"
    using fetch_user_found [OF assms(1), of w3 "jc_user c"] frame assms(3,9) by (auto simp: unread_def)
  obtain out w5 where "generateAuthOutput u e w4 = (Ok out, w5)"
    using generateAuthOutput_Ok [OF assms(1,2,10)] by blast
  with refresh check user assms(2,6,8) show ?thesis
    by (simp add: RefreshToken_def env_run token_id_or_empty_def ExtractTokenID_def andthen_def attempt_def)
qed

theorem access_token_refreshes_witness:
  "\<exists>out w2. RefreshToken ''tok'' token_env signed_in = (Ok out, w2)"
proof -
  obtain w' where "ValidateToken ''tok'' token_env signed_in
      = (Ok (claims_of ada_claims (3600 * second)), w')"
    using token_accepted by blast
  from access_token_refreshes [OF _ _ _ this, of ada_claims] show ?thesis
    by (simp add: user_ids_def ada_def second_def)
qed

end
