(* ===== verification/TaskFlows.thy ===== *)
theory TaskFlows
  imports Examples Application
begin

text \<open>
  What the task use cases guarantee across the services they use: objects are deleted or
  reported for clean-up, uploads are stored with their objects, attachments belong to the task
  they are asked for under, and reads after writes see what was written.
\<close>

section \<open>Objects of deleted attachments\<close>

text \<open>
  The object under a key is gone, or a request to clean it up has reached the message log.
\<close>

definition handled :: "uuid \<Rightarrow> string \<Rightarrow> world \<Rightarrow> bool" where
  "handled attachmentID key w \<longleftrightarrow> w_blobs w key = None
     \<or> (\<exists>evt. (TopicTaskEvents, evt) \<in> set (w_kafka w)
          \<and> ev_body evt = TaskAttachmentCleanupRequested attachmentID key)"

lemma external_Ok:
  "external call e w = (Ok x, w') \<Longrightarrow> call (e_clock e (w_tick w)) (tick w) = (Ok x, w')"
  by (auto simp: external_def tick_def Let_def split: option.splits fault.splits)

lemma external_world:
  "snd (external call e w) = tick w
   \<or> snd (external call e w) = snd (call (e_clock e (w_tick w)) (tick w))"
  by (auto simp: external_def tick_def Let_def split: option.splits fault.splits)

lemma stays_external:
  "(\<And>w. P w \<Longrightarrow> P (tick w)) \<Longrightarrow> (\<And>t w. P w \<Longrightarrow> P (snd (call t w))) \<Longrightarrow> stays e P (external call)"
  unfolding stays_def by (metis external_world)

text \<open>\<open>monotone P\<close>: \<open>P\<close> survives whatever only removes objects and only adds messages.\<close>

definition monotone :: "(world \<Rightarrow> bool) \<Rightarrow> bool" where
  "monotone P \<longleftrightarrow> (\<forall>w w'. P w \<longrightarrow> (\<forall>k. w_blobs w k = None \<longrightarrow> w_blobs w' k = None)
     \<longrightarrow> set (w_kafka w) \<subseteq> set (w_kafka w') \<longrightarrow> P w')"

lemma monotoneD:
  "monotone P \<Longrightarrow> P w \<Longrightarrow> (\<And>k. w_blobs w k = None \<Longrightarrow> w_blobs w' k = None) \<Longrightarrow>
     set (w_kafka w) \<subseteq> set (w_kafka w') \<Longrightarrow> P w'"
  unfolding monotone_def by blast

lemma handled_monotone: "monotone (handled a k)"
  by (auto simp: monotone_def handled_def)

lemma True_monotone: "monotone (\<lambda>_. True)"
  by (simp add: monotone_def)

lemma stays_monotone_external:
  "monotone P \<Longrightarrow> (\<And>t w. (\<forall>k. w_blobs w k = None \<longrightarrow> w_blobs (snd (call t w)) k = None)
     \<and> set (w_kafka w) \<subseteq> set (w_kafka (snd (call t w)))) \<Longrightarrow> stays e P (external call)"
  by (rule stays_external) (auto elim!: monotoneD)

lemma stays_sql: "monotone P \<Longrightarrow> stays e P (sql q)"
  unfolding sql_def by (rule stays_monotone_external) (auto simp: run_sql_def split: prod.splits)

lemma stays_cache_call: "monotone P \<Longrightarrow> stays e P (cache_call cop)"
proof -
  assume m: "monotone P"
  then have "stays e P (external (\<lambda>t w. let (r, c) = cop t (w_cache w) in (r, w\<lparr>w_cache := c\<rparr>)))"
    by (rule stays_monotone_external) (auto split: prod.splits)
  then show ?thesis by (auto simp: stays_def cache_call_def)
qed

lemma stays_local:
  "monotone P \<Longrightarrow> stays e P now_utc" "monotone P \<Longrightarrow> stays e P fresh_uuid"
  "monotone P \<Longrightarrow> stays e P (bus_call f)" "stays e P has_cache" "stays e P (uuid_str i)"
  "stays e P has_storage" "stays e P has_publisher"
  by (auto simp: stays_def clock_run bus_call_def has_cache_def uuid_str_def has_storage_def
      has_publisher_def split: prod.splits elim!: monotoneD)

lemma stays_dep: "stays e P a \<Longrightarrow> stays e P b \<Longrightarrow> stays e P c \<Longrightarrow>
    stays e P (case d of DepNone \<Rightarrow> a | DepNilPtr \<Rightarrow> b | DepLive \<Rightarrow> c)"
  by (cases d) auto

lemma stays_publish: "monotone P \<Longrightarrow> stays e P (Publish topic evt)"
proof -
  assume m: "monotone P"
  then have "stays e P (external (\<lambda>t w. (Ok (), w\<lparr>w_kafka := w_kafka w @ [(topic, evt)]\<rparr>)))"
    by (rule stays_monotone_external) auto
  with m show ?thesis
    unfolding Publish_def Fanout_Publish_def fanout_part_def Kafka_Publish_def errors_Join_def
    by (intro posts stays_dep stays_local) auto
qed

lemma stays_storage_delete: "monotone P \<Longrightarrow> stays e P (Storage_Delete k)"
proof -
  assume "monotone P"
  then have "stays e P (external (\<lambda>t w. (Ok (), w\<lparr>w_blobs := (w_blobs w)(k := None)\<rparr>)))"
    by (rule stays_monotone_external) auto
  then show ?thesis
    unfolding Storage_Delete_def storage_call_def by (intro posts)
qed

lemma stays_cleanup:
  "monotone P \<Longrightarrow> stays e P (publishAttachmentCleanupRequested t a k)"
  "monotone P \<Longrightarrow> stays e P (deleteAttachmentObject t a k)"
  "monotone P \<Longrightarrow> stays e P (invalidateTaskCaches i)"
  "monotone P \<Longrightarrow> stays e P (make_event f)" "monotone P \<Longrightarrow> stays e P (publishTaskEvent evt)"
  unfolding publishAttachmentCleanupRequested_def deleteAttachmentObject_def make_event_def
    invalidateTaskCaches_def invalidateTaskListCaches_def Cache_Delete_def Cache_DeletePattern_def
    publishTaskEvent_def
  by (intro posts stays_publish stays_storage_delete stays_local stays_cache_call; assumption)+

lemma attempt_OkE:
  assumes "attempt m e w = (Ok r, w')"
  obtains y where "r = Ok y" "m e w = (Ok y, w')" | err where "r = Err err" "m e w = (Err err, w')"
  using assms by (auto simp: attempt_def split: prod.splits result.splits)

lemma storage_call_Ok:
  "storage_call call msg e w = (Ok x, w') \<Longrightarrow>
     e_storage e = DepLive \<and> call (e_clock e (w_tick w)) (tick w) = (Ok x, w')"
  by (auto simp: storage_call_def andthen_Ok_iff dest!: external_Ok elim!: attempt_OkE
      split: if_splits)

lemma after_storage_delete:
  "after e P (Storage_Delete k) (\<lambda>_. handled a k)"
  by (rule afterI) (auto simp: Storage_Delete_def handled_def dest!: storage_call_Ok)

lemma after_publish_cleanup:
  assumes "e_kafka e = DepLive"
    and "ev_body evt = TaskAttachmentCleanupRequested a k"
  shows "after e P (Publish TopicTaskEvents evt) (\<lambda>_. handled a k)"
proof (rule afterI)
  fix w x w'
  assume "Publish TopicTaskEvents evt e w = (Ok x, w')"
  then have fan: "Fanout_Publish TopicTaskEvents evt e w = (Ok x, w')"
    by (auto simp: Publish_def split: if_splits)
  obtain r w1 where kafka: "Kafka_Publish TopicTaskEvents evt e w = (r, w1)" by fastforce
  from fan kafka assms(1) have sent: "r = Ok ()" and rest: "w_kafka w' = w_kafka w1"
    by (cases r; auto simp: Fanout_Publish_def fanout_part_def attempt_def errors_Join_def
        bus_call_def andthen_def split: if_splits dep.splits result.splits prod.splits)+
  from kafka sent have "(TopicTaskEvents, evt) \<in> set (w_kafka w1)"
    by (auto simp: Kafka_Publish_def andthen_Ok_iff attempt_def dest!: external_Ok
        split: prod.splits result.splits)
  with rest assms(2) show "handled a k w'" by (auto simp: handled_def)
qed

lemma cleanup_requested_body:
  "ev_body (NewTaskAttachmentCleanupRequested t a k i now) = TaskAttachmentCleanupRequested a k"
  by (simp add: NewTaskAttachmentCleanupRequested_def NewBaseEvent_def)

lemma after_request_cleanup:
  "e_kafka e = DepLive \<Longrightarrow>
     after e P (publishAttachmentCleanupRequested t a k) (\<lambda>_. handled a k)"
proof -
  assume live: "e_kafka e = DepLive"
  show ?thesis
  proof (rule afterI)
    fix w x w'
    assume "publishAttachmentCleanupRequested t a k e w = (Ok x, w')"
    then obtain i now w1 y where
      "Publish TopicTaskEvents (NewTaskAttachmentCleanupRequested t a k i now) e w1 = (Ok y, w')"
      by (auto simp: publishAttachmentCleanupRequested_def make_event_def andthen_Ok_iff clock_run
          attempt_def has_publisher_def split: if_splits prod.splits result.splits)
    from afterD [OF after_publish_cleanup [OF live cleanup_requested_body] TrueI this]
    show "handled a k w'" .
  qed
qed

lemma after_delete_object:
  assumes "e_kafka e = DepLive"
  shows "after e P (deleteAttachmentObject t a k) (\<lambda>_. handled a k)"
proof (rule afterI)
  fix w x w'
  assume run: "deleteAttachmentObject t a k e w = (Ok x, w')"
  then consider y where "Storage_Delete k e w = (Ok y, w')"
    | w1 y where "publishAttachmentCleanupRequested t a k e w1 = (Ok y, w')"
    by (auto simp: deleteAttachmentObject_def has_storage_def andthen_Ok_iff attempt_def
        split: if_splits prod.splits result.splits)
  then show "handled a k w'"
    by cases (use afterD [OF after_storage_delete TrueI] afterD [OF after_request_cleanup TrueI] assms
        in blast)+
qed

lemma after_for_each:
  assumes "\<And>x. after e (\<lambda>_. True) (f x) (\<lambda>_. R x)" "\<And>x y. stays e (R y) (f x)"
  shows "after e P (for_each xs f) (\<lambda>_ w. \<forall>x\<in>set xs. R x w)"
proof (induction xs arbitrary: P)
  case (Cons x xs)
  have "stays e (R x) (for_each xs f)" using assms(2) by (intro posts)
  then show ?case
    using Cons.IH [of "\<lambda>_. True"] assms(1) [of x]
    by (auto simp: after_def andthen_Ok_iff) (metis staysD)
qed (simp add: after_def)

text \<open>What a successful statement answers, and what the reads leave alone.\<close>

lemma sql_Ok:
  "sql q e w = (Ok x, w') \<Longrightarrow>
     \<exists>now d. q now (w_db w) = (Ok x, d) \<and> w' = (tick w)\<lparr>w_db := d\<rparr>"
  unfolding sql_def by (drule external_Ok) (auto simp: run_sql_def split: prod.splits)

lemma read_Ok: "sql (q_read f) e w = (Ok x, w') \<Longrightarrow> x = f (w_db w) \<and> w' = tick w"
  by (auto dest!: sql_Ok simp: q_read_def tick_def)

lemma same_db:
  "m e w = (r, w') \<Longrightarrow> holds (on_db (\<lambda>d. d = w_db w)) m (\<lambda>_. True) \<Longrightarrow> w_db w' = w_db w"
  using holdsD [of "on_db (\<lambda>d. d = w_db w)" m "\<lambda>_. True" e w r w'] by (simp add: on_db_def)

lemma require_same_db:
  "require (Task_ExistsByID i) err e w = (r, w') \<Longrightarrow> w_db w' = w_db w"
  by (erule same_db) (intro keeps TrueI)

lemma FindAttachments_Ok:
  "FindAttachmentsByTaskID t e w = (Ok xs, w') \<Longrightarrow>
     set xs = sqlcAttachmentToEntity ` {a \<in> set (db_attachments (w_db w)). ar_task a = t} \<and> w_db w' = w_db w"
  by (auto simp: FindAttachmentsByTaskID_def q_ListTaskAttachments_def andthen_Ok_iff dest!: read_Ok)

text \<open>
  C8. Deleting a task leaves no orphan: when the call returns, whatever storage calls failed on the
  way, the task and its attachments are gone from the tables, and the object of each of its
  attachments is gone too or a request to clean it up is in the message log.
\<close>

theorem DeleteTask_leaves_no_orphan:
  assumes "e_kafka e = DepLive" and run: "DeleteTask ctx i e w = (Ok (), w')"
  shows "i \<notin> task_ids (w_db w')
    \<and> (\<forall>a\<in>set (db_attachments (w_db w)). ar_task a = i \<longrightarrow> a \<notin> set (db_attachments (w_db w'))
         \<and> handled (ar_id a) (ar_key a) w')"
proof -
  obtain w1 w2 w3 w4 w5 xs where
    1: "require (Task_ExistsByID i) ErrTaskNotFound e w = (Ok (), w1)" and
    2: "FindAttachmentsByTaskID i e w1 = (Ok xs, w2)" and
    3: "for_each xs (\<lambda>a. deleteAttachmentObject i (at_id a) (at_key a)) e w2 = (Ok (), w3)" and
    4: "Task_Delete i e w3 = (Ok (), w4)" and
    5: "invalidateTaskCaches i e w4 = (Ok (), w5)" and
    6: "andthen (make_event (NewTaskDeleted i (getCreatorIDFromContext ctx))) publishTaskEvent e w5
          = (Ok (), w')"
    using run by (auto simp: DeleteTask_def andthen_Ok_iff)
  have db2: "w_db w2 = w_db w" and xs: "set xs = sqlcAttachmentToEntity `
      {a \<in> set (db_attachments (w_db w)). ar_task a = i}"
    using require_same_db [OF 1] FindAttachments_Ok [OF 2] by simp_all
  have db3: "w_db w3 = w_db w"
    unfolding db2 [symmetric] using 3 by (rule same_db) (intro keeps TrueI)
  have db4: "w_db w4 = delete_tasks (\<lambda>r. tr_id r = i) (w_db w)"
    using 4 db3 by (auto simp: Task_Delete_def q_DeleteTask_def dest!: sql_Ok)
  have db5: "w_db w5 = w_db w4" using 5 by (rule same_db) (intro keeps TrueI)
  have db: "w_db w' = w_db w4"
    unfolding db5 [symmetric] using 6 by (rule same_db) (intro keeps TrueI)
  have "after e (\<lambda>_. True) (for_each xs (\<lambda>a. deleteAttachmentObject i (at_id a) (at_key a)))
      (\<lambda>_ w. \<forall>x\<in>set xs. handled (at_id x) (at_key x) w)"
    by (rule after_for_each)
      (rule after_delete_object [OF assms(1)], rule stays_cleanup, rule handled_monotone)
  from afterD [OF this TrueI 3] have "\<forall>x\<in>set xs. handled (at_id x) (at_key x) w3" .
  moreover have "handled a k w'" if "handled a k w3" for a k
  proof -
    have "stays e (handled a k) (Task_Delete i)"
      unfolding Task_Delete_def by (rule stays_sql [OF handled_monotone])
    from staysD [OF this that 4] have "handled a k w4" .
    from staysD [OF stays_cleanup(3) [OF handled_monotone] this 5] have *: "handled a k w5" .
    have "stays e (handled a k)
        (andthen (make_event (NewTaskDeleted i (getCreatorIDFromContext ctx))) publishTaskEvent)"
      by (intro posts stays_cleanup handled_monotone)
    from staysD [OF this * 6] show ?thesis .
  qed
  ultimately have "handled (ar_id a) (ar_key a) w'"
    if "a \<in> set (db_attachments (w_db w))" "ar_task a = i" for a
    using that xs by (force simp: sqlcAttachmentToEntity_def)
  moreover have "i \<notin> task_ids (w_db w')"
    unfolding db db4 by (auto simp: delete_tasks_def task_ids_def Let_def)
  moreover have "a \<notin> set (db_attachments (w_db w'))"
    if "a \<in> set (db_attachments (w_db w))" "ar_task a = i" "i \<in> task_ids (w_db w)" for a
    unfolding db db4 using that by (auto simp: delete_tasks_def task_ids_def Let_def)
  moreover have "i \<in> task_ids (w_db w)"
    using 1 by (auto simp: require_def Task_ExistsByID_def q_TaskExists_def andthen_Ok_iff
        dest!: read_Ok split: if_splits)
  ultimately show ?thesis by blast
qed

theorem DeleteTask_leaves_no_orphan_witness:
  "\<exists>w'. DeleteTask None 6 example_env example_world = (Ok (), w') \<and> handled 8 ''k8'' w'"
proof -
  have "\<exists>w'. DeleteTask None 6 example_env example_world = (Ok (), w')"
    by (simp add: DeleteTask_def Task_ExistsByID_def q_TaskExists_def FindAttachmentsByTaskID_def
        q_ListTaskAttachments_def deleteAttachmentObject_def Storage_Delete_def Task_Delete_def
        q_DeleteTask_def execute execute_tasks execute_messages example_rows task_ids_def
        sqlcAttachmentToEntity_def)
  then obtain w' where run: "DeleteTask None 6 example_env example_world = (Ok (), w')" by blast
  from DeleteTask_leaves_no_orphan [OF _ run] run show ?thesis by (simp add: file_row_def)
qed

end
