(* ===== verification/UserFlows.thy ===== *)
theory UserFlows
  imports TaskFlows
begin

text \<open>
  What the user use cases leave in the tables: an update stores exactly the roles of the user, so
  that assigning and removing a role have their effect, and only on that user.
\<close>

definition stored_roles :: "db \<Rightarrow> uuid \<Rightarrow> uuid set" where
  "stored_roles d u = {r. (u, r) \<in> set (db_user_roles d)}"

lemma remove_roles_run:
  "for_each xs (\<lambda>r. if P r then sql (q_RemoveRoleFromUser u (rr_id r)) else ret ()) e w = (Ok (), w') \<Longrightarrow>
     set (db_user_roles (w_db w')) = set (db_user_roles (w_db w)) - (\<lambda>r. (u, rr_id r)) ` {r \<in> set xs. P r}"
proof (induction xs arbitrary: w)
  case (Cons x xs)
  then obtain w1 where 1: "(if P x then sql (q_RemoveRoleFromUser u (rr_id x)) else ret ()) e w = (Ok (), w1)"
    and 2: "for_each xs (\<lambda>r. if P r then sql (q_RemoveRoleFromUser u (rr_id r)) else ret ()) e w1 = (Ok (), w')"
    by (auto simp: andthen_Ok_iff)
  from 1 have "set (db_user_roles (w_db w1)) = set (db_user_roles (w_db w)) - (if P x then {(u, rr_id x)} else {})"
    by (auto simp: q_RemoveRoleFromUser_def dest!: sql_Ok split: if_splits)
  with Cons.IH [OF 2] show ?case by auto
qed simp

lemma assign_roles_run:
  "for_each xs (\<lambda>r. if P r then ret () else sql (q_AssignRoleToUser u (r_id r))) e w = (Ok (), w') \<Longrightarrow>
     set (db_user_roles (w_db w')) = set (db_user_roles (w_db w)) \<union> (\<lambda>r. (u, r_id r)) ` {r \<in> set xs. \<not> P r}"
proof (induction xs arbitrary: w)
  case (Cons x xs)
  then obtain w1 where 1: "(if P x then ret () else sql (q_AssignRoleToUser u (r_id x))) e w = (Ok (), w1)"
    and 2: "for_each xs (\<lambda>r. if P r then ret () else sql (q_AssignRoleToUser u (r_id r))) e w1 = (Ok (), w')"
    by (auto simp: andthen_Ok_iff)
  from 1 have "set (db_user_roles (w_db w1)) = set (db_user_roles (w_db w)) \<union> (if P x then {} else {(u, r_id x)})"
    by (auto simp: q_AssignRoleToUser_def dest!: sql_Ok split: if_splits)
  with Cons.IH [OF 2] show ?case by auto
qed simp

lemma GetUserRoles_Ok:
  assumes "db_inv (w_db w)" "sql (q_GetUserRoles u) e w = (Ok xs, w')"
  shows "rr_id ` set xs = stored_roles (w_db w) u \<and> w_db w' = w_db w"
proof -
  have rows: "xs = filter (\<lambda>r. (u, rr_id r) \<in> set (db_user_roles (w_db w))) (db_roles (w_db w))"
    and "w' = tick w"
    using read_Ok [OF assms(2) [unfolded q_GetUserRoles_def]] by simp_all
  moreover have "stored_roles (w_db w) u \<subseteq> rr_id ` set (db_roles (w_db w))"
    using assms(1) by (auto simp: stored_roles_def db_inv_def refs_ok_def role_ids_def)
  then have "rr_id ` {r \<in> set (db_roles (w_db w)). rr_id r \<in> stored_roles (w_db w) u}
      = stored_roles (w_db w) u" by blast
  ultimately show ?thesis by (simp add: stored_roles_def)
qed

lemma syncUserRoles_run:
  assumes "db_inv (w_db w)" "syncUserRoles u e w = (Ok (), w')"
  shows "set (db_user_roles (w_db w')) =
    {p \<in> set (db_user_roles (w_db w)). fst p \<noteq> u_id u} \<union> Pair (u_id u) ` r_id ` set (u_roles u)"
proof -
  obtain existing w1 w2 where 1: "sql (q_GetUserRoles (u_id u)) e w = (Ok existing, w1)"
    and 2: "for_each existing (\<lambda>r. if rr_id r \<notin> r_id ` set (u_roles u)
        then sql (q_RemoveRoleFromUser (u_id u) (rr_id r)) else ret ()) e w1 = (Ok (), w2)"
    and 3: "for_each (u_roles u) (\<lambda>r. if r_id r \<in> rr_id ` set existing then ret ()
        else sql (q_AssignRoleToUser (u_id u) (r_id r))) e w2 = (Ok (), w')"
    using assms(2) by (auto simp: syncUserRoles_def andthen_Ok_iff)
  from GetUserRoles_Ok [OF assms(1) 1] have ex: "rr_id ` set existing = stored_roles (w_db w) (u_id u)"
    "w_db w1 = w_db w" by blast+
  have "(\<lambda>r. (u_id u, rr_id r)) ` {r \<in> set existing. rr_id r \<notin> r_id ` set (u_roles u)}
      = Pair (u_id u) ` (stored_roles (w_db w) (u_id u) - r_id ` set (u_roles u))"
    unfolding ex(1) [symmetric] by auto
  with remove_roles_run [OF 2] assign_roles_run [OF 3] ex show ?thesis
    by (auto simp: stored_roles_def)
qed

lemma User_Update_run:
  assumes "db_inv (w_db w)" "User_Update u e w = (Ok (), w')"
  shows "set (db_user_roles (w_db w')) =
    {p \<in> set (db_user_roles (w_db w)). fst p \<noteq> u_id u} \<union> Pair (u_id u) ` r_id ` set (u_roles u)"
proof -
  obtain x w1 where
    1: "sql (q_UpdateUser (u_id u) (u_email u) (u_name u) (u_password_hash u)) e w = (Ok x, w1)"
    and 2: "syncUserRoles u e w1 = (Ok (), w')"
    using assms(2) by (auto simp: User_Update_def andthen_Ok_iff)
  have "db_inv (w_db w1)"
    using sql_Ok [OF 1] UpdateUser_keeps assms(1) by (auto simp: stmt_keeps_def) (metis snd_conv)
  moreover have "db_user_roles (w_db w1) = db_user_roles (w_db w)"
    using sql_Ok [OF 1] by (auto simp: q_UpdateUser_def Let_def split: option.splits if_splits)
  ultimately show ?thesis using syncUserRoles_run [OF _ 2] by simp
qed

text \<open>What fetching a user or a role answers, and that it leaves the tables alone.\<close>

lemma load_role_id: "load_role row e w = (Ok (Some r), w') \<Longrightarrow> \<exists>x. row = Some x \<and> r_id r = rr_id x"
  by (auto simp: load_role_def andthen_Ok_iff sqlcRoleToEntity_def split: option.splits)

lemma one_row_Ok:
  "no_rows_is_nil (sql (q_one f)) e w = (Ok (Some x), w') \<Longrightarrow> f (w_db w) = Some x"
  by (auto simp: no_rows_is_nil_def andthen_Ok_iff q_one_def elim!: attempt_OkE dest!: sql_Ok
      split: option.splits if_splits)

lemma fetch_role_Ok: "fetch_role i e w = (Ok r, w') \<Longrightarrow> r_id r = i \<and> w_db w' = w_db w"
proof
  assume run: "fetch_role i e w = (Ok r, w')"
  then obtain w1 where "Role_FindByID i e w = (Ok (Some r), w1)"
    by (auto simp: fetch_role_def andthen_Ok_iff split: option.splits)
  then obtain row w2 where "no_rows_is_nil (sql (q_GetRole i)) e w = (Ok row, w2)"
      "load_role row e w2 = (Ok (Some r), w1)"
    by (auto simp: Role_FindByID_def andthen_Ok_iff)
  with load_role_id [OF this(2)] show "r_id r = i"
    by (auto simp: q_GetRole_def dest!: one_row_Ok find_in)
  show "w_db w' = w_db w" using run by (rule same_db) (intro keeps TrueI)
qed

lemma fetch_user_Ok:
  assumes "db_inv (w_db w)" "fetch_user i e w = (Ok u, w')"
  shows "u_id u = i \<and> r_id ` set (u_roles u) = stored_roles (w_db w) i \<and> w_db w' = w_db w
    \<and> distinct (map r_id (u_roles u))"
proof -
  obtain r w1 roles w2 where row: "no_rows_is_nil (sql (q_GetUser i)) e w = (Ok (Some r), w1)"
    and roles: "loadUserRoles i e w1 = (Ok roles, w2)" and u: "u = (sqlcUserToEntity r)\<lparr>u_roles := roles\<rparr>"
    using assms(2)
    by (auto simp: fetch_user_def User_FindByID_def andthen_Ok_iff split: option.splits)
  have db: "w_db w' = w_db w" using assms(2) by (rule same_db) (intro keeps TrueI)
  have db1: "w_db w1 = w_db w" using row by (rule same_db) (intro keeps TrueI)
  have "u_id u = i"
    using row u by (auto simp: q_GetUser_def sqlcUserToEntity_def dest!: one_row_Ok find_in)
  moreover obtain rows w3 where "sql (q_GetUserRoles i) e w1 = (Ok rows, w3)"
      "map rr_id rows = map r_id roles"
    using roles
    by (auto simp: loadUserRoles_def andthen_Ok_iff with_permissions_def sqlcRoleToEntity_def
        split: if_splits)
  moreover have "distinct (map rr_id rows)"
    using read_Ok [OF calculation(2) [unfolded q_GetUserRoles_def]] assms(1) db1
    by (simp add: db_inv_def keys_ok_def distinct_map_filter)
  moreover have "rr_id ` set rows = r_id ` set roles"
    using calculation(3) by (metis set_map)
  ultimately show ?thesis
    using GetUserRoles_Ok [of w1 i e rows w3] assms(1) db db1 u by simp
qed

text \<open>What follows the update of a user does not touch the tables.\<close>

lemma after_update_same_db:
  "invalidateUserCaches u a b e w = (r1, w1) \<Longrightarrow> w_db w1 = w_db w"
  "invalidateUserSessions u e w = (r1, w1) \<Longrightarrow> w_db w1 = w_db w"
  "publishUserEvent f e w = (r1, w1) \<Longrightarrow> w_db w1 = w_db w"
  by (erule same_db, intro keeps TrueI)+

lemma stored_update:
  assumes "db_inv (w_db w)" "User_Update u e w = (Ok (), w')"
  shows "stored_roles (w_db w') (u_id u) = r_id ` set (u_roles u)"
    and "v \<noteq> u_id u \<Longrightarrow> stored_roles (w_db w') v = stored_roles (w_db w) v"
  using User_Update_run [OF assms] by (auto simp: stored_roles_def)

lemma role_change_stored:
  assumes "db_inv (w_db w)" "fetch_user u e w = (Ok u0, w1)" "fetch_role r e w1 = (Ok rl, w2)"
    "now_utc e w2 = (Ok now, w3)" "User_Update u' e w3 = (Ok (), w4)" "w_db w' = w_db w4"
    "out = UserFromEntity u'" "u_id u' = u_id u0" "r_id ` set (u_roles u') = S"
  shows "stored_roles (w_db w') u = S
    \<and> (\<forall>v. v \<noteq> u \<longrightarrow> stored_roles (w_db w') v = stored_roles (w_db w) v)
    \<and> ro_id ` set (uo_roles out) = stored_roles (w_db w') u"
proof -
  have db: "w_db w3 = w_db w" "u_id u' = u"
    using fetch_user_Ok [OF assms(1,2)] fetch_role_Ok [OF assms(3)] assms(4,8)
    by (auto simp: clock_run)
  with stored_update [of w3 u' e w4] assms(1,5-) show ?thesis
    by (simp add: UserFromEntity_def RoleFromEntity_def image_image)
qed

lemma AssignRole_stored:
  assumes "db_inv (w_db w)" "AssignRole u r e w = (Ok out, w')"
  shows "stored_roles (w_db w') u = insert r (stored_roles (w_db w) u)
    \<and> (\<forall>v. v \<noteq> u \<longrightarrow> stored_roles (w_db w') v = stored_roles (w_db w) v)
    \<and> ro_id ` set (uo_roles out) = stored_roles (w_db w') u"
proof -
  obtain u0 w1 rl w2 now w3 w4 where run: "fetch_user u e w = (Ok u0, w1)"
    "fetch_role r e w1 = (Ok rl, w2)" "now_utc e w2 = (Ok now, w3)"
    "User_Update (User_AssignRole rl now u0) e w3 = (Ok (), w4)" "w_db w' = w_db w4"
    "out = UserFromEntity (User_AssignRole rl now u0)"
    using assms(2) by (auto simp: AssignRole_def andthen_Ok_iff Let_def dest!: after_update_same_db)
  have "stored_roles (w_db w) u = r_id ` set (u_roles u0)" "r_id rl = r"
    using fetch_user_Ok [OF assms(1) run(1)] fetch_role_Ok [OF run(2)] by simp_all
  then have "r_id ` set (u_roles (User_AssignRole rl now u0)) = insert r (stored_roles (w_db w) u)"
    by (auto simp: User_AssignRole_def) (metis imageI)
  with role_change_stored [OF assms(1) run(1-6)] show ?thesis by (simp add: User_AssignRole_def)
qed

lemma RemoveRole_stored:
  assumes "db_inv (w_db w)" "RemoveRole u r e w = (Ok out, w')"
  shows "stored_roles (w_db w') u = stored_roles (w_db w) u - {r}
    \<and> (\<forall>v. v \<noteq> u \<longrightarrow> stored_roles (w_db w') v = stored_roles (w_db w) v)
    \<and> ro_id ` set (uo_roles out) = stored_roles (w_db w') u"
proof -
  obtain u0 w1 rl w2 now w3 w4 where run: "fetch_user u e w = (Ok u0, w1)"
    "fetch_role r e w1 = (Ok rl, w2)" "now_utc e w2 = (Ok now, w3)"
    "User_Update (User_RemoveRole r now u0) e w3 = (Ok (), w4)" "w_db w' = w_db w4"
    "out = UserFromEntity (User_RemoveRole r now u0)"
    using assms(2) by (auto simp: RemoveRole_def andthen_Ok_iff Let_def dest!: after_update_same_db)
  have "stored_roles (w_db w) u = r_id ` set (u_roles u0)" "distinct (map r_id (u_roles u0))"
    using fetch_user_Ok [OF assms(1) run(1)] by simp_all
  then have "r_id ` set (u_roles (User_RemoveRole r now u0)) = stored_roles (w_db w) u - {r}"
    by (auto simp: User_RemoveRole_def drop_first_keyed)
  with role_change_stored [OF assms(1) run(1-6)] show ?thesis by (simp add: User_RemoveRole_def)
qed

section \<open>Properties\<close>

text \<open>
  C29. Assigning a role adds exactly that role to the stored roles of the user, removing one
  takes exactly that role away, no other user's roles change, and the answer shows the roles as
  they are stored.
\<close>

theorem role_changes_stored:
  assumes "db_inv (w_db w)"
  shows "(AssignRole u r e w = (Ok out, w') \<longrightarrow>
        stored_roles (w_db w') u = insert r (stored_roles (w_db w) u)
        \<and> (\<forall>v. v \<noteq> u \<longrightarrow> stored_roles (w_db w') v = stored_roles (w_db w) v)
        \<and> ro_id ` set (uo_roles out) = stored_roles (w_db w') u)
    \<and> (RemoveRole u r e w = (Ok out, w') \<longrightarrow>
        stored_roles (w_db w') u = stored_roles (w_db w) u - {r}
        \<and> (\<forall>v. v \<noteq> u \<longrightarrow> stored_roles (w_db w') v = stored_roles (w_db w) v)
        \<and> ro_id ` set (uo_roles out) = stored_roles (w_db w') u)"
  by (intro conjI impI AssignRole_stored RemoveRole_stored assms)
    (use AssignRole_stored RemoveRole_stored assms in metis)+

lemma bob_promoted:
  "\<exists>out w'. AssignRole 2 3 example_env example_world = (Ok out, w')"
  by (simp add: AssignRole_def execute execute_users execute_messages example_rows fetch_role_def
      Role_FindByID_def q_GetRole_def load_role_def q_GetRolePermissions_def sqlcRoleToEntity_def
      invalidateUserCaches_def invalidateUserSessions_def publishUserEvent_def make_event_def
      whenever_def q_AssignRoleToUser_def user_ids_def role_ids_def User_AssignRole_def or_empty_def)

theorem role_changes_stored_witness:
  "\<exists>out w'. AssignRole 2 3 example_env example_world = (Ok out, w')
     \<and> stored_roles (w_db w') 2 = {3}"
proof -
  obtain out w' where "AssignRole 2 3 example_env example_world = (Ok out, w')"
    using bob_promoted by blast
  moreover have "stored_roles example_db 2 = {}" by (simp add: stored_roles_def)
  ultimately show ?thesis
    using role_changes_stored [of example_world 2 3 example_env out w'] example_db_inv by auto
qed

end
