(* ===== verification/Transports.thy ===== *)
theory Transports
  imports Grpc Guarantees Sessions UserFlows
begin

text \<open>
  What the gRPC transport lets through compared with REST: it needs an accepted token, but checks
  neither roles nor permissions nor access entries; and its way to sign out does not.
\<close>

section \<open>Headers and replies\<close>

text \<open>A header or metadata value that both transports read as a bearer token.\<close>

definition bearer_header :: "string \<Rightarrow> string \<Rightarrow> bool" where
  "bearer_header header token \<longleftrightarrow> TrimSpace header = header
     \<and> (\<exists>scheme. split_first CHR '' '' header = [scheme, token] \<and> ToLower_ascii scheme = ''bearer'')"

lemma bearer_nonempty: "bearer_header header token \<Longrightarrow> header \<noteq> []"
  by (auto simp: bearer_header_def split_first_def)

lemma withAuth_bearer:
  "bearer_header header token \<Longrightarrow> ValidateToken token e w = (Ok claims, w1) \<Longrightarrow>
     withAuth h header e w = h (Some claims) e w1"
  using bearer_nonempty [of header token]
  by (auto simp: bearer_header_def withAuth_def)

lemma grpc_requireAuth_bearer:
  "bearer_header header token \<Longrightarrow> ValidateToken token e w = (Ok claims, w1) \<Longrightarrow>
     grpc_requireAuth (Some (header # others)) next e w = next (Some claims) e w1"
  using bearer_nonempty [of header token]
  by (auto simp: bearer_header_def grpc_requireAuth_def authorizationFromMetadata_def
      validateAuthorization_def)

lemma contextWithRequiredClaims_bearer:
  "bearer_header header token \<Longrightarrow> ValidateToken token e w = (Ok claims, w1) \<Longrightarrow>
     contextWithRequiredClaims (Some (header # others)) next e w
       = next \<lparr>cc_claims = Some claims, cc_token = token\<rparr> claims e w1"
  using bearer_nonempty [of header token]
  by (auto simp: bearer_header_def contextWithRequiredClaims_def authorizationFromMetadata_def
      validateAuthorization_def incoming_context_def Let_def)

lemma rpc_result_run:
  "call e w = (Ok x, w') \<Longrightarrow> rpc_result call conv e w = (Ok (Reply (conv (e_uuid_string e) x)), w')"
  "call e w = (Err err, w') \<Longrightarrow> rpc_result call conv e w = (Ok (Fail (toGRPCError err)), w')"
  by (simp_all add: rpc_result_def)

lemma validateAuthorization_Reply:
  assumes "validateAuthorization authorization next e w = (Ok (Reply x), w')"
  shows "\<exists>scheme token claims w1. split_first CHR '' '' (TrimSpace authorization) = [scheme, token]
    \<and> ToLower_ascii scheme = ''bearer'' \<and> ValidateToken token e w = (Ok claims, w1)
    \<and> next claims e w1 = (Ok (Reply x), w')"
  using assms
  by (auto simp: validateAuthorization_def andthen_def attempt_def
      split: list.splits if_splits prod.splits result.splits)

lemma grpc_requireAuth_Reply:
  assumes "grpc_requireAuth md next e w = (Ok (Reply x), w')"
  shows "\<exists>authorization others scheme token claims w1. md = Some (authorization # others)
    \<and> split_first CHR '' '' (TrimSpace authorization) = [scheme, token]
    \<and> ToLower_ascii scheme = ''bearer'' \<and> ValidateToken token e w = (Ok claims, w1)
    \<and> next (Some claims) e w1 = (Ok (Reply x), w')"
  using assms
  by (auto simp: grpc_requireAuth_def authorizationFromMetadata_def
      dest!: validateAuthorization_Reply split: option.splits list.splits if_splits)

lemma jwt_error_internal: "toGRPCError jwt_ErrInvalidToken = InternalCode"
  by (simp add: toGRPCError_def jwt_ErrInvalidToken_def error_classes)

text \<open>Checking a token changes neither the tables nor the cache nor the objects, on any exit.\<close>

lemma stays_unread:
  "stays e (unread w0) now_utc" "stays e (unread w0) (Cache_Exists k)" "stays e (unread w0) has_cache"
  by (auto simp: stays_def unread_def clock_run has_cache_def Cache_Exists_def cache_call_def
      external_def Let_def split: option.splits fault.splits)

lemma ValidateToken_unread: "ValidateToken token e w = (r, w') \<Longrightarrow> unread w w'"
proof -
  have parse: "stays e (unread w) (parse_token token)"
    by (auto simp: stays_def parse_token_def clock_run unread_def split: jwt_parsed.splits)
  have claims: "stays e (unread w) (TS_ValidateToken token)"
    unfolding TS_ValidateToken_def by (intro posts parse)
  have found: "stays e (unread w) (exists_or_false k)" for k
    unfolding exists_or_false_def by (intro posts stays_unread)
  have check: "stays e (unread w) (check_session u t)" for u t
    unfolding check_session_def session_key_def by (intro posts found)
  have "stays e (unread w) (ValidateToken token)"
    unfolding ValidateToken_def by (intro posts stays_unread claims check)
  then show "ValidateToken token e w = (r, w') \<Longrightarrow> unread w w'"
    by (rule staysD) (simp add: unread_def)
qed

lemma Logout_without_token:
  "e_jwt_unverified e [] = None \<Longrightarrow> Logout u [] e w = (Err jwt_ErrInvalidToken, w)"
  by (simp add: Logout_def ExtractTokenID_def)

text \<open>A call whose metadata carries a token that the application accepts, and one without an answer.\<close>

definition token_metadata :: "metadata \<Rightarrow> env \<Rightarrow> world \<Rightarrow> bool" where
  "token_metadata md e w \<longleftrightarrow>
     (\<exists>authorization others scheme token claims w1. md = Some (authorization # others)
        \<and> split_first CHR '' '' (TrimSpace authorization) = [scheme, token]
        \<and> ToLower_ascii scheme = ''bearer'' \<and> ValidateToken token e w = (Ok claims, w1))"

definition unanswered :: "'a rpc \<Rightarrow> env \<Rightarrow> world \<Rightarrow> bool" where
  "unanswered call e w \<longleftrightarrow> (\<forall>r w'. call e w = (r, w') \<longrightarrow> unread w w' \<and> (\<forall>x. r \<noteq> Ok (Reply x)))"

lemma validateAuthorization_without:
  assumes "validateAuthorization authorization next e w = (r, w')"
    and "\<not> token_metadata (Some (authorization # others)) e w"
  shows "unread w w' \<and> r \<noteq> Ok (Reply x)"
proof -
  have "ValidateToken token e w \<noteq> (Ok claims, w1)"
    if "split_first CHR '' '' (TrimSpace authorization) = [scheme, token]"
      "ToLower_ascii scheme = ''bearer''" for scheme token claims w1
    using that assms(2) by (auto simp: token_metadata_def)
  moreover have "unread w w" by (simp add: unread_def)
  ultimately show ?thesis
    using assms(1)
    by (auto simp: validateAuthorization_def andthen_def attempt_def dest: ValidateToken_unread
        split: list.splits if_splits prod.splits result.splits)
qed

lemma unanswered_requireAuth: "\<not> token_metadata md e w \<Longrightarrow> unanswered (grpc_requireAuth md next) e w"
  and unanswered_required: "\<not> token_metadata md e w \<Longrightarrow> unanswered (contextWithRequiredClaims md next2) e w"
  using validateAuthorization_without
  by (fastforce simp: unanswered_def grpc_requireAuth_def contextWithRequiredClaims_def Let_def unread_def
      authorizationFromMetadata_def split: option.splits list.splits if_splits)+

section \<open>Properties\<close>

text \<open>
  The gRPC method Logout revokes nothing: the context that carries the token is dropped, so the
  use case is asked to sign out the empty token, which the JWT library cannot read.  The
  call never answers, and the sessions, the cache and the tables are as before it; with an
  accepted token it fails with an internal error.
\<close>

theorem grpc_logout_revokes_nothing:
  assumes "e_jwt_unverified e [] = None" and "G_Logout md e w = (r, w')"
  shows "r \<noteq> Ok (Reply ()) \<and> unread w w'
    \<and> (\<forall>header others token claims w1. md = Some (header # others) \<longrightarrow> bearer_header header token \<longrightarrow>
         ValidateToken token e w = (Ok claims, w1) \<longrightarrow> r = Ok (Fail InternalCode))"
proof -
  have result: "rpc_result (Logout u []) no_content e v = (Ok (Fail InternalCode), v)" for u v
    by (simp add: rpc_result_run(2) [where err = jwt_ErrInvalidToken] Logout_without_token assms(1)
        jwt_error_internal)
  have "r \<noteq> Ok (Reply ()) \<and> unread w w'"
    using assms(2)
    by (auto simp: G_Logout_def contextWithRequiredClaims_def validateAuthorization_def
        GetTokenFromContext_def incoming_context_def Let_def result attempt_def andthen_def
        dest!: ValidateToken_unread
        split: option.splits list.splits if_splits prod.splits result.splits)
      (simp add: unread_def)+
  moreover have "r = Ok (Fail InternalCode)"
    if "md = Some (header # others)" "bearer_header header token"
      "ValidateToken token e w = (Ok claims, w1)" for header others token claims w1
    using assms(2) that(1)
    by (simp add: G_Logout_def contextWithRequiredClaims_bearer [OF that(2,3)] GetTokenFromContext_def
        incoming_context_def result)
  ultimately show ?thesis by blast
qed

lemma bearer_tok: "bearer_header ''Bearer tok'' ''tok''"
  by (simp add: bearer_header_def bearer split_first_def) code_simp

theorem grpc_logout_revokes_nothing_witness:
  "\<exists>w'. G_Logout (Some [''Bearer tok'']) token_env signed_in = (Ok (Fail InternalCode), w')
     \<and> live_session token_env w' 1 ''t1''"
proof -
  obtain r w' where run: "G_Logout (Some [''Bearer tok'']) token_env signed_in = (r, w')" by fastforce
  obtain w1 where "ValidateToken ''tok'' token_env signed_in
      = (Ok (claims_of ada_claims (3600 * second)), w1)"
    using token_accepted by blast
  with grpc_logout_revokes_nothing [OF _ run] bearer_tok
  have "r = Ok (Fail InternalCode) \<and> w_cache w' = w_cache signed_in"
    by (auto simp: unread_def)
  with signed_in_live run show ?thesis by (simp add: live_session_def)
qed

text \<open>
  Apart from signing in, registering and refreshing, every method of the four services needs an accepted bearer
  token in the metadata: without one it answers no message, and the tables, the cache and the
  objects stay as they are.
\<close>

theorem grpc_needs_token:
  assumes "\<not> token_metadata md e w"
  shows "unanswered (G_CreateTask md q1) e w \<and> unanswered (G_GetTask md s1) e w
    \<and> unanswered (G_ListTasks md f1 p1) e w \<and> unanswered (G_UpdateTask md q2) e w
    \<and> unanswered (G_DeleteTask md s1) e w \<and> unanswered (G_AssignTask md s1 s2) e w
    \<and> unanswered (G_ChangeTaskStatus md s1 st) e w \<and> unanswered (G_UnassignTask md s1) e w
    \<and> unanswered (G_CompleteTask md s1) e w \<and> unanswered (G_ArchiveTask md s1) e w
    \<and> unanswered (G_AddLabel md s1 s2) e w \<and> unanswered (G_RemoveLabel md s1 s2) e w
    \<and> unanswered (G_SearchTasks md s1 p1) e w \<and> unanswered (G_GetOverdueTasks md p1) e w
    \<and> unanswered (G_GetMe md) e w \<and> unanswered (G_GetUser md s1) e w
    \<and> unanswered (G_ListUsers md f2 p1) e w \<and> unanswered (G_UpdateUser md s1 o1 o2) e w
    \<and> unanswered (G_DeleteUser md s1) e w \<and> unanswered (G_AssignRole md s1 s2) e w
    \<and> unanswered (G_RemoveRole md s1 s2) e w \<and> unanswered (G_Logout md) e w
    \<and> unanswered (G_ChangePassword md q3) e w \<and> unanswered (G_CreateLabel md q4) e w
    \<and> unanswered (G_GetLabel md s1) e w \<and> unanswered (G_ListLabels md) e w
    \<and> unanswered (G_UpdateLabel md s1 q5) e w \<and> unanswered (G_DeleteLabel md s1) e w"
  unfolding G_CreateTask_def G_GetTask_def G_ListTasks_def G_UpdateTask_def G_DeleteTask_def
    G_AssignTask_def G_ChangeTaskStatus_def G_UnassignTask_def G_CompleteTask_def
    G_ArchiveTask_def G_AddLabel_def G_RemoveLabel_def G_SearchTasks_def G_GetOverdueTasks_def
    G_GetMe_def G_GetUser_def G_ListUsers_def G_UpdateUser_def G_DeleteUser_def G_AssignRole_def
    G_RemoveRole_def G_Logout_def G_ChangePassword_def G_CreateLabel_def G_GetLabel_def
    G_ListLabels_def G_UpdateLabel_def G_DeleteLabel_def
  by (intro conjI unanswered_requireAuth unanswered_required assms)

theorem grpc_needs_token_witness: "unanswered (G_ListLabels None) token_env signed_in"
proof -
  have "\<not> token_metadata None token_env signed_in" by (simp add: token_metadata_def)
  from grpc_needs_token [OF this] show ?thesis by blast
qed

text \<open>
  The two transports disagree on who may delete a task: with no access entry in the tables, as in
  every reachable state, the REST request is refused and changes no table, while the gRPC
  request with the same token deletes the task, whoever the user is.
\<close>

theorem grpc_skips_access_entries:
  assumes "db_acl (w_db w) = []" and "bearer_header header token"
    and "ValidateToken token e w = (Ok claims, w1)" and "e_uuid_parse e ident = Some i"
    and "DeleteTask (Some claims) i e w1 = (Ok (), w2)"
  shows "G_DeleteTask (Some [header]) ident e w = (Ok (Reply ()), w2)
    \<and> (\<exists>s m w3. withAuth (H_DeleteTask ident) header e w = (Ok (Refuse s m), w3) \<and> w_db w3 = w_db w)"
proof
  show "G_DeleteTask (Some [header]) ident e w = (Ok (Reply ()), w2)"
    by (simp add: G_DeleteTask_def grpc_requireAuth_bearer [OF assms(2,3)] grpc_parseUUID_def
        assms(4,5) rpc_result_run no_content_def)
  have db: "w_db w1 = w_db w"
    using ValidateToken_unread [OF assms(3)] by (simp add: unread_def)
  have "withAuth (H_DeleteTask ident) header e w = H_DeleteTask ident (Some claims) e w1"
    by (rule withAuth_bearer [OF assms(2,3)])
  moreover have "db_acl (w_db w1) = []" using db assms(1) by simp
  ultimately show "\<exists>s m w3. withAuth (H_DeleteTask ident) header e w = (Ok (Refuse s m), w3)
      \<and> w_db w3 = w_db w"
    using checkACL_without_entries [of w1 "Some claims" ResourceTypeTask i ACLPermissionDelete
        "respond 204 (DeleteTask (Some claims) i)" e] db
    by (auto simp: H_DeleteTask_def path_id_def assms(4))
qed

lemma ada_deletes:
  "\<exists>w1 w2. ValidateToken ''tok'' token_env signed_in = (Ok (claims_of ada_claims (3600 * second)), w1)
     \<and> DeleteTask (Some (claims_of ada_claims (3600 * second))) 5 token_env w1 = (Ok (), w2)"
  by (simp add: ValidateToken_def execute execute_tokens claims_of_def DeleteTask_def
      Task_ExistsByID_def q_TaskExists_def FindAttachmentsByTaskID_def q_ListTaskAttachments_def
      Task_Delete_def q_DeleteTask_def execute_tasks execute_messages example_rows task_ids_def
      sqlcAttachmentToEntity_def)

theorem grpc_skips_access_entries_witness:
  "\<exists>w2. G_DeleteTask (Some [''Bearer tok'']) [char_of (5::nat)] token_env signed_in = (Ok (Reply ()), w2)"
proof -
  obtain w1 w2 where
    "ValidateToken ''tok'' token_env signed_in = (Ok (claims_of ada_claims (3600 * second)), w1)"
    "DeleteTask (Some (claims_of ada_claims (3600 * second))) 5 token_env w1 = (Ok (), w2)"
    using ada_deletes by blast
  from grpc_skips_access_entries [OF _ bearer_tok this(1) _ this(2), of "[char_of (5::nat)]"]
  show ?thesis by auto
qed

text \<open>
  C31. A user without any permission makes itself an administrator through gRPC: the method that
  assigns a role runs for every accepted token and stores the role, where REST demands the
  permission to update users and answers 403.
\<close>

theorem grpc_self_promotion:
  assumes "db_inv (w_db w)" and "bearer_header header token"
    and "ValidateToken token e w = (Ok claims, w1)"
    and "\<not> HasPermissionFromClaims (tc_roles claims) (tc_permissions claims) ResourceTypeUsers PermissionActionUpdate"
    and "e_uuid_parse e userIdent = Some (tc_user claims)" and "e_uuid_parse e roleIdent = Some r"
    and "AssignRole (tc_user claims) r e w1 = (Ok out, w2)"
  shows "G_AssignRole (Some [header]) userIdent roleIdent e w
      = (Ok (Reply (userToPB (e_uuid_string e) out)), w2)
    \<and> stored_roles (w_db w2) (tc_user claims) = insert r (stored_roles (w_db w) (tc_user claims))
    \<and> withPermission ResourceTypeUsers PermissionActionUpdate (H_AssignRole userIdent roleIdent) header e w
      = (Ok (Refuse 403 ''FORBIDDEN''), w1)"
proof (intro conjI)
  show "G_AssignRole (Some [header]) userIdent roleIdent e w
      = (Ok (Reply (userToPB (e_uuid_string e) out)), w2)"
    by (simp add: G_AssignRole_def grpc_requireAuth_bearer [OF assms(2,3)] grpc_parseUUID_def
        assms(5-7) rpc_result_run)
  show "withPermission ResourceTypeUsers PermissionActionUpdate (H_AssignRole userIdent roleIdent) header e w
      = (Ok (Refuse 403 ''FORBIDDEN''), w1)"
    by (simp add: withPermission_def withAuth_bearer [OF assms(2,3)] RequirePermission_def assms(4)
        refuse_def statusToCode_def)
  have "w_db w1 = w_db w" using ValidateToken_unread [OF assms(3)] by (simp add: unread_def)
  with AssignRole_stored [of w1, OF _ assms(7)] assms(1)
  show "stored_roles (w_db w2) (tc_user claims) = insert r (stored_roles (w_db w) (tc_user claims))"
    by simp
qed

definition admin_row :: role_row where
  "admin_row = \<lparr>rr_id = 4, rr_name = RoleAdmin, rr_description = None, rr_created = 0, rr_updated = 0\<rparr>"

definition with_admin_role :: world where
  "with_admin_role = signed_in\<lparr>w_db := example_db\<lparr>db_roles := [member_row, admin_row]\<rparr>\<rparr>"

lemma with_admin_inv: "db_inv (w_db with_admin_role)"
  using example_db_inv
  by (simp add: with_admin_role_def inv_defs example_rows admin_row_def RoleAdmin_def RoleMember_def)

lemma ada_promotes:
  "\<exists>w1 out w2. ValidateToken ''tok'' token_env with_admin_role = (Ok (claims_of ada_claims (3600 * second)), w1)
     \<and> AssignRole 1 4 token_env w1 = (Ok out, w2)"
  by (simp add: ValidateToken_def execute execute_tokens claims_of_def with_admin_role_def
      AssignRole_def execute_users execute_messages example_rows admin_row_def fetch_role_def
      Role_FindByID_def q_GetRole_def load_role_def q_GetRolePermissions_def sqlcRoleToEntity_def
      invalidateUserCaches_def invalidateUserSessions_def publishUserEvent_def make_event_def
      whenever_def q_AssignRoleToUser_def user_ids_def role_ids_def User_AssignRole_def or_empty_def)

lemma member_cannot_update_users:
  "\<not> HasPermissionFromClaims [RoleMember] [] ResourceTypeUsers PermissionActionUpdate"
  by code_simp

theorem grpc_self_promotion_witness:
  "\<exists>w2 out. G_AssignRole (Some [''Bearer tok'']) [char_of (1::nat)] [char_of (4::nat)] token_env with_admin_role
      = (Ok (Reply out), w2) \<and> stored_roles (w_db w2) 1 = {3, 4}"
proof -
  obtain w1 out w2 where
    "ValidateToken ''tok'' token_env with_admin_role = (Ok (claims_of ada_claims (3600 * second)), w1)"
    and "AssignRole 1 4 token_env w1 = (Ok out, w2)"
    using ada_promotes by blast
  moreover have "stored_roles (w_db with_admin_role) 1 = {3}"
    by (auto simp: stored_roles_def with_admin_role_def)
  moreover have "claims_of ada_claims x = c \<Longrightarrow> tc_user c = 1 \<and> tc_roles c = [RoleMember] \<and> tc_permissions c = []" for x c
    by (auto simp: claims_of_def ada_claims_def)
  ultimately show ?thesis
    using grpc_self_promotion [OF with_admin_inv bearer_tok, of token_env
        "claims_of ada_claims (3600 * second)" w1 "[char_of (1::nat)]" "[char_of (4::nat)]" 4 out w2]
      member_cannot_update_users
    by (auto simp: insert_commute)
qed

end
