(* ===== verification/GraphqlFlows.thy ===== *)
theory GraphqlFlows
  imports Graphql Transports
begin

text \<open>
  What the GraphQL transport guarantees: which fields need a token or a role, that the content of
  a download can be recovered, and where the cursors of a page lead.
\<close>

section \<open>Claims and roles\<close>

lemma withOptionalAuth_Ok:
  assumes "withOptionalAuth header (\<lambda>ctx. gql_requireAuth ctx (next ctx)) e w = (Ok x, w')"
  shows "\<exists>scheme token claims w1. split_first CHR '' '' header = [scheme, token]
    \<and> ToLower_ascii scheme = ''bearer'' \<and> ValidateToken token e w = (Ok claims, w1)
    \<and> next \<lparr>cc_claims = Some claims, cc_token = token\<rparr> claims e w1 = (Ok x, w')"
  using assms
  by (auto simp: withOptionalAuth_def gql_requireAuth_def incoming_context_def andthen_def attempt_def
      split: if_splits list.splits prod.splits result.splits)

lemma requireAnyRole_Ok:
  "gql_requireAnyRole \<lparr>cc_claims = Some claims, cc_token = token\<rparr> roles next e w = (Ok x, w') \<Longrightarrow>
     HasAnyRoleFromClaims (tc_roles claims) roles \<and> next e w = (Ok x, w')"
  by (auto simp: gql_requireAnyRole_def gql_requireAuth_def split: if_splits)

section \<open>Base64\<close>

definition base64_value :: "char \<Rightarrow> nat" where
  "base64_value c =
     (let n = of_char c :: nat
      in if 65 \<le> n \<and> n < 91 then n - 65
         else if 97 \<le> n \<and> n < 123 then n - 71
         else if 48 \<le> n \<and> n < 58 then n + 4
         else if c = CHR ''+'' then 62 else 63)"

text \<open>Decoding by groups of four characters.\<close>

fun base64_decode :: "string \<Rightarrow> string" where
  "base64_decode (p # q # r # s # rest) =
     (let x = base64_value p * 4 + base64_value q div 16;
          y = base64_value q mod 16 * 16 + base64_value r div 4;
          z = base64_value r mod 4 * 64 + base64_value s
      in if r = CHR ''='' then [char_of x]
         else if s = CHR ''='' then [char_of x, char_of y]
         else [char_of x, char_of y, char_of z] @ base64_decode rest)"
| "base64_decode _ = []"

lemma base64_digit_value [simp]:
  assumes "n < 64"
  shows "base64_value (base64_digit n) = n" and "base64_digit n \<noteq> CHR ''=''"
proof -
  consider "n < 26" | "26 \<le> n" "n < 52" | "52 \<le> n" "n < 62" | "n = 62" | "n = 63"
    using assms by linarith
  then show "base64_value (base64_digit n) = n"
    by cases (auto simp: base64_digit_def base64_value_def Let_def)
  consider "n < 26" | "26 \<le> n" "n < 52" | "52 \<le> n" "n < 62" | "n = 62" | "n = 63"
    using assms by linarith
  then have "of_char (base64_digit n) \<noteq> (of_char CHR ''='' :: nat)"
    by cases (simp_all add: base64_digit_def)
  then show "base64_digit n \<noteq> CHR ''=''" by metis
qed

text \<open>The two halves of a byte that is split at a power of two.\<close>

lemma joined_div [simp]: "(c :: nat) < n \<Longrightarrow> (b * n + c) div n = b"
  and joined_mod [simp]: "(c :: nat) < n \<Longrightarrow> (b * n + c) mod n = c"
  by simp_all

lemma base64_parts:
  fixes x y z :: nat
  assumes "x < 256" "y < 256" "z < 256"
  shows "x div 4 < 64" "x mod 4 * 16 + y div 16 < 64" "y mod 16 * 4 + z div 64 < 64" "z mod 64 < 64"
    "x mod 4 * 16 < 64" "y mod 16 * 4 < 64" "y div 16 < 16" "z div 64 < 4"
proof -
  have "y div 16 < 16" "z div 64 < 4" "x mod 4 < 4" "y mod 16 < 16" using assms by simp_all
  then show "x mod 4 * 16 + y div 16 < 64" "y mod 16 * 4 + z div 64 < 64" "x mod 4 * 16 < 64"
    "y mod 16 * 4 < 64" "y div 16 < 16" "z div 64 < 4" by linarith+
qed (use assms in simp_all)

lemma base64_inverse: "base64_decode (base64 s) = s"
proof (induction s rule: base64.induct)
  case (2 a)
  note parts = base64_parts [of "of_char a" 0 0]
  show ?case by (simp add: Let_def parts)
next
  case (3 a b)
  note parts = base64_parts [of "of_char a" "of_char b" 0]
  show ?case by (simp add: Let_def parts)
next
  case (4 a b c rest)
  note parts = base64_parts [of "of_char a" "of_char b" "of_char c"]
  from 4 show ?case by (simp add: Let_def parts)
qed simp

section \<open>Cursors\<close>

lemma show_nat_digits: "set (show_nat n) \<subseteq> char_of ` {48..<58 :: nat}"
proof (induction n rule: show_nat.induct)
  case (1 n)
  then show ?case by (subst show_nat.simps) auto
qed

definition digits_back :: "string \<Rightarrow> nat" where
  "digits_back s = foldl (\<lambda>acc c. acc * 10 + (of_char c - 48)) 0 s"

lemma digits_back_show: "digits_back (show_nat n) = n"
proof (induction n rule: show_nat.induct)
  case (1 n)
  have "(of_char (char_of (48 + n mod 10) :: char) :: nat) = 48 + n mod 10" by simp
  with 1 show ?case by (subst show_nat.simps) (auto simp: digits_back_def)
qed

lemma show_int_inject [simp]: "show_int i = show_int j \<longleftrightarrow> i = j"
proof
  have minus: "CHR ''-'' \<notin> set (show_nat n)" for n
  proof
    assume "CHR ''-'' \<in> set (show_nat n)"
    then obtain k :: nat where "CHR ''-'' = char_of k" "48 \<le> k" "k < 58"
      using show_nat_digits [of n] by auto
    then have "(of_char CHR ''-'' :: nat) = of_char (char_of k :: char)" by simp
    with \<open>48 \<le> k\<close> \<open>k < 58\<close> show False by simp
  qed
  have nonneg: "show_nat a = show_nat b \<longleftrightarrow> a = b" for a b
    by (metis digits_back_show)
  have apart: "show_nat a \<noteq> CHR ''-'' # s" for a s
    using minus [of a] by (metis list.set_intros(1))
  assume "show_int i = show_int j"
  then show "i = j"
    using apart [symmetric] by (simp add: show_int_def nonneg apart split: if_splits)
qed simp

lemma edges_cursors:
  assumes "xs \<noteq> []"
  shows "snd (hd (edges page psize xs)) = encodeCursor (1 + (page - 1) * psize)"
    and "snd (last (edges page psize xs)) = encodeCursor (int (length xs) + (page - 1) * psize)"
proof -
  show "snd (hd (edges page psize xs)) = encodeCursor (1 + (page - 1) * psize)"
    using assms by (cases xs) (simp_all add: edges_def)
  have "last (enumerate 0 xs) = (length xs - 1, last xs)"
    using assms by (cases xs rule: rev_cases) (simp_all add: enumerate_append_eq)
  moreover have "enumerate 0 xs \<noteq> []" using assms by (cases xs) simp_all
  ultimately show "snd (last (edges page psize xs)) = encodeCursor (int (length xs) + (page - 1) * psize)"
    using assms by (simp add: edges_def last_map of_nat_diff Suc_leI)
qed

section \<open>Properties\<close>

text \<open>
  C32. Every field behind \<open>requireAuth\<close> needs an accepted token, although a request without one is
  let through to the resolvers; and labels are deleted only for an administrator or a manager.
\<close>

theorem graphql_needs_claims_and_roles:
  "(withOptionalAuth header (\<lambda>ctx. gql_requireAuth ctx (next ctx)) e w = (Ok x, w') \<longrightarrow>
     (\<exists>scheme token claims w1. split_first CHR '' '' header = [scheme, token]
       \<and> ToLower_ascii scheme = ''bearer'' \<and> ValidateToken token e w = (Ok claims, w1)
       \<and> next \<lparr>cc_claims = Some claims, cc_token = token\<rparr> claims e w1 = (Ok x, w')))
   \<and> (withOptionalAuth header (\<lambda>ctx. M_DeleteLabel ctx i) e w = (Ok b, w') \<longrightarrow>
     (\<exists>token claims w1. ValidateToken token e w = (Ok claims, w1)
       \<and> (RoleAdmin \<in> set (tc_roles claims) \<or> RoleManager \<in> set (tc_roles claims))
       \<and> DeleteLabel i e w1 = (Ok (), w')))"
proof (intro conjI impI)
  assume "withOptionalAuth header (\<lambda>ctx. gql_requireAuth ctx (next ctx)) e w = (Ok x, w')"
  from withOptionalAuth_Ok [OF this]
  show "\<exists>scheme token claims w1. split_first CHR '' '' header = [scheme, token]
     \<and> ToLower_ascii scheme = ''bearer'' \<and> ValidateToken token e w = (Ok claims, w1)
     \<and> next \<lparr>cc_claims = Some claims, cc_token = token\<rparr> claims e w1 = (Ok x, w')" .
next
  assume "withOptionalAuth header (\<lambda>ctx. M_DeleteLabel ctx i) e w = (Ok b, w')"
  from withOptionalAuth_Ok [OF this [unfolded M_DeleteLabel_def]]
  show "\<exists>token claims w1. ValidateToken token e w = (Ok claims, w1)
     \<and> (RoleAdmin \<in> set (tc_roles claims) \<or> RoleManager \<in> set (tc_roles claims))
     \<and> DeleteLabel i e w1 = (Ok (), w')"
    by (auto simp: HasAnyRoleFromClaims_def HasRoleFromClaims_def andthen_Ok_iff
        dest!: requireAnyRole_Ok) blast+
qed

theorem graphql_needs_claims_and_roles_witness:
  "\<exists>w'. withOptionalAuth ''Bearer tok'' (\<lambda>ctx. gql_requireAuth ctx (\<lambda>claims. ret (tc_user claims)))
      token_env signed_in = (Ok 1, w')
    \<and> (\<exists>token claims w1. ValidateToken token token_env signed_in = (Ok claims, w1) \<and> tc_user claims = 1)"
proof -
  obtain w1 where "ValidateToken ''tok'' token_env signed_in
      = (Ok (claims_of ada_claims (3600 * second)), w1)"
    using token_accepted by blast
  then have run: "withOptionalAuth ''Bearer tok'' (\<lambda>ctx. gql_requireAuth ctx (\<lambda>claims. ret (tc_user claims)))
      token_env signed_in = (Ok 1, w1)"
    by (simp add: withOptionalAuth_def split_first_def bearer gql_requireAuth_def claims_of_def)
  from graphql_needs_claims_and_roles [THEN conjunct1, rule_format, OF run] run show ?thesis
    by (fastforce simp: claims_of_def)
qed

text \<open>
  The start cursor of a page is the cursor of its first edge, but the end cursor is the cursor of its last
  edge only when the page holds every element: it counts the total instead of the page.
\<close>

theorem end_cursor_only_on_full_page:
  assumes "xs \<noteq> []" and "int (length xs) \<le> count" and "0 \<le> (page - 1) * psize"
    and "(page - 1) * psize + count < 2 ^ 63"
  shows "pi_start (pageInfoFromPagination page psize totalPages count) = Some (snd (hd (edges page psize xs)))
    \<and> (pi_end (pageInfoFromPagination page psize totalPages count) = Some (snd (last (edges page psize xs)))
        \<longleftrightarrow> int (length xs) = count)"
proof -
  have "0 < count" using assms(1,2) by (cases xs) simp_all
  then show ?thesis
    using assms edges_cursors [OF assms(1)]
    by (simp add: pageInfoFromPagination_def encodeCursor_def to_int64_id add.commute eq_commute)
qed

theorem end_cursor_only_on_full_page_witness:
  "pi_end (pageInfoFromPagination 1 2 2 3) \<noteq> Some (snd (last (edges 1 2 [7::nat, 8])))"
  using end_cursor_only_on_full_page [of "[7::nat, 8]" 3 1 2 2] by simp

text \<open>
  A download answers the content in base64 without losing a byte: whatever the stored object
  holds, decoding the field gives the content that the use case read.
\<close>

theorem download_content_recoverable:
  assumes "Q_DownloadTaskAttachment ctx taskID attachmentID e w = (Ok (a, text), w')"
  shows "DownloadTaskAttachment taskID attachmentID e w = (Ok (base64_decode text, a), w')"
  using assms
  by (auto simp: Q_DownloadTaskAttachment_def gql_requireAuth_def andthen_Ok_iff base64_inverse
      split: option.splits)

theorem download_content_recoverable_witness:
  "\<exists>a w'. Q_DownloadTaskAttachment \<lparr>cc_claims = Some (claims_of ada_claims 0), cc_token = []\<rparr> 6 8
      example_env example_world = (Ok (a, base64 ''abc''), w') \<and> base64_decode (base64 ''abc'') = ''abc''"
proof -
  obtain a w' where run: "Q_DownloadTaskAttachment \<lparr>cc_claims = Some (claims_of ada_claims 0), cc_token = []\<rparr> 6 8
      example_env example_world = (Ok (a, base64 ''abc''), w')"
    and "DownloadTaskAttachment 6 8 example_env example_world = (Ok (''abc'', a), w')"
    by (simp add: Q_DownloadTaskAttachment_def gql_requireAuth_def DownloadTaskAttachment_def
        ensureFileStorageAvailable_def fetch_attachment_def FindAttachmentByID_def
        q_GetTaskAttachment_def Storage_Download_def execute example_rows sqlcAttachmentToEntity_def)
  with download_content_recoverable [OF run] show ?thesis by auto
qed

end
