(* ===== verification/Mux.thy ===== *)
theory Mux
  imports Rest
begin

text \<open>
  HTTP requests and their routing by \<open>http.ServeMux\<close> of the standard library, as the route
  table of \<open>transport/rest/router.go\<close> uses it: patterns of a method and path segments, the
  precedence between patterns, and conflicts at registration.

  A request carries its method, the segments of its cleaned path (a trailing slash is a last
  empty segment), its headers, its query, and for every struct that a handler decodes the
  result of decoding the body into it.
\<close>

section \<open>Requests, responses, handlers\<close>

record http_request =
  hr_method :: string
  hr_path :: "string list"
  hr_authorization :: string
  hr_request_id :: string
  hr_page :: page_query
  hr_search :: string
  hr_query :: string
  hr_status :: string
  hr_priority :: string
  hr_form :: upload
  hr_create_task :: "create_task_input option"
  hr_update_task :: "update_task_input option"
  hr_assignee :: "uuid option"
  hr_new_status :: "string option"
  hr_login :: "login_input option"
  hr_create_user :: "create_user_input option"
  hr_update_user :: "update_user_input option"
  hr_refresh :: "string option"
  hr_change_password :: "change_password_input option"
  hr_create_label :: "create_label_input option"
  hr_update_label :: "update_label_input option"

section \<open>Patterns (net/http)\<close>

datatype segment = Lit string | Wild string | Subtree

datatype pattern = Pattern "string option" "segment list"

fun pattern_path :: "pattern \<Rightarrow> segment list" where
  "pattern_path (Pattern m p) = p"

text \<open>
  The bindings of the wildcards when the segments match; \<open>Subtree\<close> is the trailing slash of a
  pattern, which matches every path below.
\<close>

fun match_path :: "segment list \<Rightarrow> string list \<Rightarrow> (string \<times> string) list option" where
  "match_path [] [] = Some []"
| "match_path (Lit s # ps) (x # xs) = (if s = x then match_path ps xs else None)"
| "match_path (Wild n # ps) (x # xs) =
     (if x = [] then None else map_option ((#) (n, x)) (match_path ps xs))"
| "match_path (Subtree # ps) (x # xs) = Some []"
| "match_path _ _ = None"

text \<open>A pattern for GET also matches HEAD; one without method matches all.\<close>

fun match_method :: "string option \<Rightarrow> string \<Rightarrow> bool" where
  "match_method None m = True"
| "match_method (Some p) m = (p = m \<or> p = ''GET'' \<and> m = ''HEAD'')"

text \<open>\<open>covers q p\<close>: the paths that \<open>p\<close> matches are among those that \<open>q\<close> matches.\<close>

fun covers :: "segment list \<Rightarrow> segment list \<Rightarrow> bool" where
  "covers (Subtree # qs) (p # ps) = True"
| "covers (Wild m # qs) (Wild n # ps) = covers qs ps"
| "covers (Wild m # qs) (Lit s # ps) = (s \<noteq> [] \<and> covers qs ps)"
| "covers (Lit t # qs) (Lit s # ps) = (s = t \<and> covers qs ps)"
| "covers [] [] = True"
| "covers _ _ = False"

text \<open>Some path matches both.\<close>

fun overlap :: "segment list \<Rightarrow> segment list \<Rightarrow> bool" where
  "overlap (Subtree # qs) (p # ps) = True"
| "overlap (q # qs) (Subtree # ps) = True"
| "overlap (Wild m # qs) (Wild n # ps) = overlap qs ps"
| "overlap (Wild m # qs) (Lit s # ps) = (s \<noteq> [] \<and> overlap qs ps)"
| "overlap (Lit t # qs) (Wild n # ps) = (t \<noteq> [] \<and> overlap qs ps)"
| "overlap (Lit t # qs) (Lit s # ps) = (s = t \<and> overlap qs ps)"
| "overlap [] [] = True"
| "overlap _ _ = False"

fun methods_meet :: "string option \<Rightarrow> string option \<Rightarrow> bool" where
  "methods_meet (Some m) (Some n) =
     (m = n \<or> m = ''GET'' \<and> n = ''HEAD'' \<or> m = ''HEAD'' \<and> n = ''GET'')"
| "methods_meet _ _ = True"

fun method_covers :: "string option \<Rightarrow> string option \<Rightarrow> bool" where
  "method_covers None _ = True"
| "method_covers (Some m) n = (n = Some m \<or> m = ''GET'' \<and> n = Some ''HEAD'')"

text \<open>
  One pattern takes precedence over another when it matches a subset of its requests.  Registering two patterns that overlap
  without precedence, or a pattern twice, panics.
\<close>

fun precedes :: "pattern \<Rightarrow> pattern \<Rightarrow> bool" where
  "precedes (Pattern m p) (Pattern n q) = (method_covers n m \<and> covers q p)"

fun conflict :: "pattern \<Rightarrow> pattern \<Rightarrow> bool" where
  "conflict (Pattern m p) (Pattern n q) =
     (methods_meet m n \<and> overlap p q
      \<and> (precedes (Pattern m p) (Pattern n q) \<longleftrightarrow> precedes (Pattern n q) (Pattern m p)))"

fun registers :: "pattern list \<Rightarrow> bool" where
  "registers [] = True"
| "registers (p # ps) = (list_all (\<lambda>q. \<not> conflict p q) ps \<and> registers ps)"

fun matches :: "http_request \<Rightarrow> pattern \<Rightarrow> bool" where
  "matches r (Pattern m p) = (match_method m (hr_method r) \<and> match_path p (hr_path r) \<noteq> None)"

text \<open>The registered pattern that takes precedence among those that match.\<close>

fun best_match :: "(pattern \<times> 'h) list \<Rightarrow> (pattern \<times> 'h) option" where
  "best_match [] = None"
| "best_match (x # xs) =
     (case best_match xs of
        None \<Rightarrow> Some x
      | Some y \<Rightarrow> if precedes (fst x) (fst y) then Some x else Some y)"

definition mux_find :: "(pattern \<times> 'h) list \<Rightarrow> http_request \<Rightarrow> (pattern \<times> 'h) option" where
  "mux_find table r = best_match (filter (\<lambda>(p, h). matches r p) table)"

text \<open>\<open>r.PathValue(name)\<close>\<close>

fun path_value :: "pattern \<Rightarrow> http_request \<Rightarrow> string \<Rightarrow> string" where
  "path_value (Pattern m p) r name =
     (case match_path p (hr_path r) of
        None \<Rightarrow> []
      | Some b \<Rightarrow> (case map_of b name of None \<Rightarrow> [] | Some v \<Rightarrow> v))"

section \<open>Precedence\<close>

lemma covers_sound: "covers q p \<Longrightarrow> match_path p x \<noteq> None \<Longrightarrow> match_path q x \<noteq> None"
  by (induction q p arbitrary: x rule: covers.induct; case_tac x; auto split: if_splits)

lemma overlap_complete: "match_path p x \<noteq> None \<Longrightarrow> match_path q x \<noteq> None \<Longrightarrow> overlap p q"
  by (induction p q arbitrary: x rule: overlap.induct; case_tac x; auto split: if_splits)

lemma covers_cases:
  "covers [] p \<longleftrightarrow> p = []"
  "covers (Subtree # qs) p \<longleftrightarrow> p \<noteq> []"
  "covers (Lit t # qs) p \<longleftrightarrow> (\<exists>ps. p = Lit t # ps \<and> covers qs ps)"
  "covers (Wild m # qs) p \<longleftrightarrow> (\<exists>a ps. p = a # ps \<and> a \<noteq> Lit [] \<and> a \<noteq> Subtree \<and> covers qs ps)"
proof -
  show "covers [] p \<longleftrightarrow> p = []" "covers (Subtree # qs) p \<longleftrightarrow> p \<noteq> []" by (cases p; simp)+
  show "covers (Lit t # qs) p \<longleftrightarrow> (\<exists>ps. p = Lit t # ps \<and> covers qs ps)"
    "covers (Wild m # qs) p \<longleftrightarrow> (\<exists>a ps. p = a # ps \<and> a \<noteq> Lit [] \<and> a \<noteq> Subtree \<and> covers qs ps)"
    by (cases p; cases "hd p"; auto)+
qed

lemma covers_nonempty: "covers q p \<Longrightarrow> q = [] \<longleftrightarrow> p = []"
  by (induction q p rule: covers.induct) simp_all

lemma covers_trans: "covers r q \<Longrightarrow> covers q p \<Longrightarrow> covers r p"
proof (induction r arbitrary: q p)
  case (Cons a r)
  show ?case
  proof (cases a)
    case (Lit t)
    with Cons show ?thesis by (auto simp: covers_cases)
  next
    case (Wild m)
    with Cons.prems obtain b qs where q: "q = b # qs" "b \<noteq> Lit []" "b \<noteq> Subtree" "covers r qs"
      by (auto simp: covers_cases)
    with Cons Wild show ?thesis by (cases b) (auto simp: covers_cases)
  next
    case Subtree
    with Cons.prems show ?thesis using covers_nonempty [of q p] by (simp add: covers_cases)
  qed
qed (simp add: covers_cases)

lemma methods_meet_complete: "match_method m x \<Longrightarrow> match_method n x \<Longrightarrow> methods_meet m n"
  by (cases m; cases n) auto

lemma precedes_trans: "precedes a b \<Longrightarrow> precedes b c \<Longrightarrow> precedes a c"
  by (cases a; cases b; cases c) (auto intro: covers_trans elim!: method_covers.elims)

lemma no_conflict:
  "\<not> conflict p q \<Longrightarrow> matches r p \<Longrightarrow> matches r q \<Longrightarrow> precedes p q \<longleftrightarrow> \<not> precedes q p"
  using overlap_complete [of "pattern_path p" "hr_path r" "pattern_path q"]
  by (cases p; cases q) (simp del: precedes.simps, blast dest: methods_meet_complete)

lemma best_match_precedes:
  assumes "registers (map fst xs)" "\<forall>(q, h)\<in>set xs. matches r q" "best_match xs = Some (p, h)"
  shows "(p, h) \<in> set xs \<and> (\<forall>(q, h')\<in>set xs. (q, h') \<noteq> (p, h) \<longrightarrow> precedes p q)"
  using assms
proof (induction xs arbitrary: p h)
  case (Cons x xs)
  show ?case
  proof (cases "best_match xs")
    case None
    then have "xs = []" by (cases xs; cases "best_match (tl xs)"; simp split: if_splits)
    with None Cons.prems show ?thesis by simp
  next
    case (Some y)
    have y: "y \<in> set xs" "\<forall>(q, h')\<in>set xs. (q, h') \<noteq> y \<longrightarrow> precedes (fst y) q"
      using Cons.IH [of "fst y" "snd y"] Cons.prems Some by auto
    with Cons.prems have "\<not> conflict (fst x) (fst y)" "matches r (fst x)" "matches r (fst y)"
      by (auto simp: list_all_iff)
    from no_conflict [OF this] have "precedes (fst x) (fst y) \<longleftrightarrow> \<not> precedes (fst y) (fst x)" .
    then show ?thesis
      using Cons.prems(3) Some y precedes_trans [of "fst x" "fst y"] by (force split: if_splits)
  qed
qed simp

lemma mux_find_None:
  fixes table :: "(pattern \<times> 'h) list"
  shows "mux_find table r = None \<longleftrightarrow> (\<forall>(p, h)\<in>set table. \<not> matches r p)"
proof -
  have "best_match xs = None \<longleftrightarrow> xs = []" for xs :: "(pattern \<times> 'h) list"
    by (cases xs; cases "best_match (tl xs)"; simp)
  then show ?thesis by (simp add: mux_find_def filter_empty_conv split_beta)
qed

lemma registers_filter: "registers (map fst xs) \<Longrightarrow> registers (map fst (filter P xs))"
  by (induction xs) (auto simp: list_all_iff)

lemma mux_find_precedes:
  assumes "registers (map fst table)" "mux_find table r = Some (p, h)"
  shows "(p, h) \<in> set table \<and> matches r p
    \<and> (\<forall>(q, h')\<in>set table. matches r q \<longrightarrow> (q, h') \<noteq> (p, h) \<longrightarrow> precedes p q)"
  using best_match_precedes [OF registers_filter [OF assms(1)], of "\<lambda>(q, h). matches r q" r p h] assms(2)
  by (auto simp: mux_find_def)

end
