(* ===== verification/Channels.thy ===== *)
theory Channels
  imports Prelude
begin

text \<open>
  Go channels with a bounded buffer, as the realtime transports use them.  A channel is an
  index; \<open>c_buf\<close> holds the buffered messages of each and \<open>c_closed\<close> the closed ones.  An
  operation that may block or panic answers with an \<open>outcome\<close>.  The locale \<open>channel_broker\<close>
  is the contract of the brokers: their members' channels are distinct, open and bounded.
\<close>

datatype 'a outcome = Done 'a | Blocks | Panics string

record 'm channels =
  c_buf :: "nat \<Rightarrow> 'm list"
  c_closed :: "nat list"

definition no_channels :: "'m channels" where
  "no_channels = \<lparr>c_buf = (\<lambda>_. []), c_closed = []\<rparr>"

text \<open>\<open>make(chan T, n)\<close>\<close>

definition chan_make :: "nat \<Rightarrow> 'm channels \<Rightarrow> 'm channels" where
  "chan_make ch cs = cs\<lparr>c_buf := (c_buf cs)(ch := [])\<rparr>"

text \<open>\<open>ch <- m\<close>, and the same in a \<open>select\<close> with an empty \<open>default\<close> branch: was it sent?\<close>

definition chan_send :: "nat \<Rightarrow> nat \<Rightarrow> 'm \<Rightarrow> 'm channels \<Rightarrow> 'm channels outcome" where
  "chan_send cap ch m cs =
     (if ch \<in> set (c_closed cs) then Panics ''send on closed channel''
      else if length (c_buf cs ch) < cap then Done (cs\<lparr>c_buf := (c_buf cs)(ch := c_buf cs ch @ [m])\<rparr>)
      else Blocks)"

definition chan_offer :: "nat \<Rightarrow> nat \<Rightarrow> 'm \<Rightarrow> 'm channels \<Rightarrow> (bool \<times> 'm channels) outcome" where
  "chan_offer cap ch m cs =
     (case chan_send cap ch m cs of
        Done cs' \<Rightarrow> Done (True, cs')
      | Blocks \<Rightarrow> Done (False, cs)
      | Panics p \<Rightarrow> Panics p)"

definition chan_close :: "nat \<Rightarrow> 'm channels \<Rightarrow> 'm channels outcome" where
  "chan_close ch cs =
     (if ch \<in> set (c_closed cs) then Panics ''close of closed channel''
      else Done (cs\<lparr>c_closed := ch # c_closed cs\<rparr>))"

text \<open>\<open>m, ok := <-ch\<close>: a closed channel is drained first, then answers \<open>ok = false\<close>.\<close>

definition chan_recv :: "nat \<Rightarrow> 'm channels \<Rightarrow> ('m option \<times> 'm channels) outcome" where
  "chan_recv ch cs =
     (case c_buf cs ch of
        m # ms \<Rightarrow> Done (Some m, cs\<lparr>c_buf := (c_buf cs)(ch := ms)\<rparr>)
      | [] \<Rightarrow> if ch \<in> set (c_closed cs) then Done (None, cs) else Blocks)"

section \<open>Members with open channels\<close>

definition registry :: "nat \<Rightarrow> nat list \<Rightarrow> nat \<Rightarrow> 'm channels \<Rightarrow> bool" where
  "registry cap members next cs \<longleftrightarrow> distinct members
     \<and> (\<forall>ch\<in>set members. ch < next \<and> ch \<notin> set (c_closed cs))
     \<and> (\<forall>ch\<in>set (c_closed cs). ch < next)
     \<and> (\<forall>ch. length (c_buf cs ch) \<le> cap)"

lemma registry_start [simp]: "registry cap [] n no_channels"
  by (simp add: registry_def no_channels_def)

lemma registry_join:
  "registry cap members n cs \<Longrightarrow> registry cap (n # members) (Suc n) (chan_make n cs)"
  by (auto simp: registry_def chan_make_def less_Suc_eq)

lemma registry_leave:
  "registry cap members n cs \<Longrightarrow> chan_close ch cs = Done cs' \<Longrightarrow> ch \<in> set members \<Longrightarrow>
     registry cap (removeAll ch members) n cs'"
  by (auto simp: registry_def chan_close_def distinct_removeAll split: if_splits)

lemma registry_send:
  "registry cap members n cs \<Longrightarrow> chan_send cap ch m cs = Done cs' \<Longrightarrow> registry cap members n cs'"
  by (auto simp: registry_def chan_send_def split: if_splits)

lemma registry_offer:
  "registry cap members n cs \<Longrightarrow> chan_offer cap ch m cs = Done (b, cs') \<Longrightarrow> registry cap members n cs'"
  by (auto simp: chan_offer_def intro: registry_send split: outcome.splits)

lemma registry_recv:
  "registry cap members n cs \<Longrightarrow> chan_recv ch cs = Done (r, cs') \<Longrightarrow> registry cap members n cs'"
  by (auto simp: registry_def chan_recv_def split: list.splits if_splits)
    (metis Suc_leD length_Cons)

lemma chan_send_length: "chan_send cap ch m cs = Done cs' \<Longrightarrow> length (c_buf cs c) \<le> length (c_buf cs' c)"
  by (auto simp: chan_send_def split: if_splits)

lemma chan_recv_length:
  "chan_recv ch cs = Done (r, cs') \<Longrightarrow>
     length (c_buf cs' c) = (if c = ch then length (c_buf cs c) - 1 else length (c_buf cs c))"
  by (auto simp: chan_recv_def split: list.splits if_splits)

lemma member_offered:
  "registry cap members n cs \<Longrightarrow> ch \<in> set members \<Longrightarrow>
     chan_offer cap ch m cs =
       (if length (c_buf cs ch) < cap then Done (True, cs\<lparr>c_buf := (c_buf cs)(ch := c_buf cs ch @ [m])\<rparr>)
        else Done (False, cs))"
  by (auto simp: registry_def chan_offer_def chan_send_def)

lemma member_closed:
  "registry cap members n cs \<Longrightarrow> ch \<in> set members \<Longrightarrow>
     chan_close ch cs = Done (cs\<lparr>c_closed := ch # c_closed cs\<rparr>)"
  by (auto simp: registry_def chan_close_def)

text \<open>
  \<open>for ch := range members { select { case ch <- m: default: } }\<close>, the loop of the brokers that
  skip a member whose buffer is full.
\<close>

fun offer_all :: "nat \<Rightarrow> 'm \<Rightarrow> nat list \<Rightarrow> 'm channels \<Rightarrow> 'm channels outcome" where
  "offer_all cap m [] cs = Done cs"
| "offer_all cap m (ch # chs) cs =
     (case chan_offer cap ch m cs of
        Done (_, cs') \<Rightarrow> offer_all cap m chs cs'
      | Blocks \<Rightarrow> Blocks
      | Panics p \<Rightarrow> Panics p)"

definition offered_to :: "nat \<Rightarrow> 'm \<Rightarrow> nat list \<Rightarrow> 'm channels \<Rightarrow> nat \<Rightarrow> 'm list" where
  "offered_to cap m members cs ch =
     (if ch \<in> set members \<and> length (c_buf cs ch) < cap then c_buf cs ch @ [m] else c_buf cs ch)"

lemma offer_all_spec:
  "distinct chs \<Longrightarrow> set chs \<inter> set (c_closed cs) = {} \<Longrightarrow>
     offer_all cap m chs cs = Done (cs\<lparr>c_buf := offered_to cap m chs cs\<rparr>)"
proof (induction chs arbitrary: cs)
  case Nil
  then show ?case by (simp add: offered_to_def [abs_def])
next
  case (Cons ch chs)
  then show ?case
    by (auto simp: chan_offer_def chan_send_def offered_to_def [abs_def] fun_eq_iff
        intro!: channels.equality)
qed

lemma offer_all_members:
  assumes "registry cap members n cs"
  shows "offer_all cap m members cs = Done (cs\<lparr>c_buf := offered_to cap m members cs\<rparr>)"
    and "registry cap members n (cs\<lparr>c_buf := offered_to cap m members cs\<rparr>)"
  using assms by (auto simp: registry_def offered_to_def intro: offer_all_spec)

section \<open>Brokers\<close>

locale channel_broker =
  fixes start :: 's and step :: "'s \<Rightarrow> 's \<Rightarrow> bool" and inv :: "'s \<Rightarrow> bool"
    and cap :: nat and members :: "'s \<Rightarrow> nat list" and made :: "'s \<Rightarrow> nat"
    and chans :: "'s \<Rightarrow> 'm channels"
  assumes start_inv: "inv start"
    and step_inv: "inv s \<Longrightarrow> step s s' \<Longrightarrow> inv s'"
    and inv_registry: "inv s \<Longrightarrow> registry cap (members s) (made s) (chans s)"
begin

lemma reachable_inv: "step\<^sup>*\<^sup>* start s \<Longrightarrow> inv s"
  by (induction rule: rtranclp_induct) (auto intro: start_inv step_inv)

lemmas reachable_registry = reachable_inv [THEN inv_registry]

lemma reachable_bounded: "step\<^sup>*\<^sup>* start s \<Longrightarrow> length (c_buf (chans s) ch) \<le> cap"
  by (drule reachable_registry) (simp add: registry_def)

lemma reachable_open:
  "step\<^sup>*\<^sup>* start s \<Longrightarrow> ch \<in> set (members s) \<Longrightarrow> ch \<notin> set (c_closed (chans s))"
  by (drule reachable_registry) (simp add: registry_def)

lemma reachable_offer:
  "step\<^sup>*\<^sup>* start s \<Longrightarrow>
     offer_all cap m (members s) (chans s)
       = Done ((chans s)\<lparr>c_buf := offered_to cap m (members s) (chans s)\<rparr>)"
  by (rule offer_all_members) (rule reachable_registry)

end

end
