(* ===== verification/WebSocket.thy ===== *)
theory WebSocket
  imports Channels Events
begin

text \<open>
  The WebSocket transport (\<open>transport/websocket/handler.go\<close>) as a state machine: the hub with
  its \<open>broadcast\<close> channel, one \<open>Send\<close> channel per client, and the two pumps of a client.
  A client is the index of its channel.  \<open>hub_reading\<close> are the clients whose \<open>readPump\<close> is in
  its loop, \<open>hub_pump\<close> is where the \<open>writePump\<close> of a client stands and \<open>hub_frames\<close> what it
  has written.  \<open>register\<close> and \<open>unregister\<close> are unbuffered: sending on them is one step with the
  hub's receive and blocks once the hub has returned.  Each critical section is one step.
\<close>

record ws_message =
  wm_type :: string
  wm_payload :: "event option"

datatype write_pump =
    Waiting
  | Counting "ws_message list"
  | Batching "ws_message list" nat
  | Stopped

record hub =
  hub_clients :: "nat list"
  hub_queue :: "ws_message list"
  hub_chans :: "ws_message channels"
  hub_running :: bool
  hub_made :: nat
  hub_reading :: "nat list"
  hub_topics :: "nat \<Rightarrow> string set"
  hub_pump :: "nat \<Rightarrow> write_pump"
  hub_frames :: "nat \<Rightarrow> ws_message list list"

definition hub_capacity :: nat where "hub_capacity = 256"
definition send_capacity :: nat where "send_capacity = 256"

definition NewHub :: hub where
  "NewHub = \<lparr>hub_clients = [], hub_queue = [], hub_chans = no_channels, hub_running = True,
     hub_made = 0, hub_reading = [], hub_topics = (\<lambda>_. {}), hub_pump = (\<lambda>_. Stopped),
     hub_frames = (\<lambda>_. [])\<rparr>"

section \<open>The hub\<close>

text \<open>\<open>ServeHTTP\<close> after the upgrade: a new client is registered and its pumps start.\<close>

definition WS_ServeHTTP :: "hub \<Rightarrow> hub outcome" where
  "WS_ServeHTTP h =
     (if \<not> hub_running h then Blocks
      else let c = hub_made h in
        Done (h\<lparr>hub_clients := c # hub_clients h, hub_chans := chan_make c (hub_chans h),
                hub_made := Suc c, hub_reading := c # hub_reading h,
                hub_topics := (hub_topics h)(c := {}), hub_pump := (hub_pump h)(c := Waiting),
                hub_frames := (hub_frames h)(c := [])\<rparr>))"

definition hub_unregister :: "nat \<Rightarrow> hub \<Rightarrow> hub outcome" where
  "hub_unregister c h =
     (if c \<in> set (hub_clients h) then
        (case chan_close c (hub_chans h) of
           Done cs \<Rightarrow> Done (h\<lparr>hub_clients := removeAll c (hub_clients h), hub_chans := cs\<rparr>)
         | Blocks \<Rightarrow> Blocks
         | Panics p \<Rightarrow> Panics p)
      else Done h)"

text \<open>The loop over the clients for one message: a client that is too slow is dropped.\<close>

fun hub_deliver :: "ws_message \<Rightarrow> nat list \<Rightarrow> hub \<Rightarrow> hub outcome" where
  "hub_deliver m [] h = Done h"
| "hub_deliver m (c # cs) h =
     (case chan_offer send_capacity c m (hub_chans h) of
        Panics p \<Rightarrow> Panics p
      | Blocks \<Rightarrow> Blocks
      | Done (sent, chs) \<Rightarrow>
          if sent then hub_deliver m cs (h\<lparr>hub_chans := chs\<rparr>)
          else
            (case chan_close c (hub_chans h) of
               Panics p \<Rightarrow> Panics p
             | Blocks \<Rightarrow> Blocks
             | Done chs' \<Rightarrow>
                 hub_deliver m cs (h\<lparr>hub_chans := chs', hub_clients := removeAll c (hub_clients h)\<rparr>)))"

definition hub_broadcast :: "hub \<Rightarrow> hub outcome" where
  "hub_broadcast h =
     (case hub_queue h of
        [] \<Rightarrow> Blocks
      | m # ms \<Rightarrow>
          if \<not> hub_running h then Blocks
          else hub_deliver m (hub_clients h) (h\<lparr>hub_queue := ms\<rparr>))"

definition hub_stop :: "hub \<Rightarrow> hub" where
  "hub_stop h = h\<lparr>hub_running := False\<rparr>"

text \<open>\<open>BroadcastEvent\<close>: the payload always marshals.\<close>

definition BroadcastEvent :: "string \<Rightarrow> event \<Rightarrow> hub \<Rightarrow> hub outcome" where
  "BroadcastEvent eventType evt h =
     (if length (hub_queue h) < hub_capacity
      then Done (h\<lparr>hub_queue := hub_queue h @ [\<lparr>wm_type = eventType, wm_payload = Some evt\<rparr>]\<rparr>)
      else Blocks)"

definition ws_message_types :: "(string \<times> string) list" where
  "ws_message_types =
     [(''task.created'', ''task.created''), (''task.updated'', ''task.updated''),
      (''task.deleted'', ''task.deleted''), (''task.assigned'', ''task.assigned''),
      (''task.unassigned'', ''task.unassigned''), (''task.completed'', ''task.completed''),
      (''task.archived'', ''task.archived''), (''task.status_changed'', ''task.status_changed''),
      (''task.label_added'', ''task.label_added''), (''task.label_removed'', ''task.label_removed'')]"

definition WS_HandleEvent :: "event \<Rightarrow> hub \<Rightarrow> hub outcome" where
  "WS_HandleEvent evt h =
     (case map_of ws_message_types (EventType evt) of
        None \<Rightarrow> Done h
      | Some msgType \<Rightarrow> BroadcastEvent msgType evt h)"

section \<open>The pumps of a client\<close>

text \<open>A decoded message of the client, with the topic of its payload when that decodes.\<close>

record ws_incoming =
  wi_type :: string
  wi_topic :: "string option"

definition pong :: ws_message where
  "pong = \<lparr>wm_type = ''pong'', wm_payload = None\<rparr>"

definition handleMessage :: "nat \<Rightarrow> ws_incoming \<Rightarrow> hub \<Rightarrow> hub outcome" where
  "handleMessage c msg h =
     (if wi_type msg = ''subscribe'' then
        (case wi_topic msg of
           None \<Rightarrow> Done h
         | Some t \<Rightarrow> Done (h\<lparr>hub_topics := (hub_topics h)(c := insert t (hub_topics h c))\<rparr>))
      else if wi_type msg = ''unsubscribe'' then
        (case wi_topic msg of
           None \<Rightarrow> Done h
         | Some t \<Rightarrow> Done (h\<lparr>hub_topics := (hub_topics h)(c := hub_topics h c - {t})\<rparr>))
      else if wi_type msg = ''ping'' then
        (case chan_send send_capacity c pong (hub_chans h) of
           Done cs \<Rightarrow> Done (h\<lparr>hub_chans := cs\<rparr>)
         | Blocks \<Rightarrow> Blocks
         | Panics p \<Rightarrow> Panics p)
      else Done h)"

text \<open>One round of the loop of \<open>readPump\<close>; \<open>None\<close> is a message that does not decode.\<close>

definition readPump_message :: "nat \<Rightarrow> ws_incoming option \<Rightarrow> hub \<Rightarrow> hub outcome" where
  "readPump_message c incoming h =
     (if c \<notin> set (hub_reading h) then Blocks
      else (case incoming of None \<Rightarrow> Done h | Some msg \<Rightarrow> handleMessage c msg h))"

text \<open>A read error ends the loop, and the deferred function unregisters the client.\<close>

definition readPump_end :: "nat \<Rightarrow> hub \<Rightarrow> hub outcome" where
  "readPump_end c h =
     (if c \<notin> set (hub_reading h) \<or> \<not> hub_running h then Blocks
      else hub_unregister c (h\<lparr>hub_reading := removeAll c (hub_reading h)\<rparr>))"

text \<open>
  \<open>writePump\<close>: it receives a message, counts what waits behind it, takes that many messages
  more into the same frame and flushes it; \<open>ok\<close> says whether the connection takes the write.
\<close>

definition writePump :: "nat \<Rightarrow> bool \<Rightarrow> hub \<Rightarrow> hub outcome" where
  "writePump c ok h =
     (case hub_pump h c of
        Stopped \<Rightarrow> Blocks
      | Waiting \<Rightarrow>
          (case chan_recv c (hub_chans h) of
             Blocks \<Rightarrow> if ok then Blocks else Done (h\<lparr>hub_pump := (hub_pump h)(c := Stopped)\<rparr>)
           | Panics p \<Rightarrow> Panics p
           | Done (None, cs) \<Rightarrow> Done (h\<lparr>hub_pump := (hub_pump h)(c := Stopped)\<rparr>)
           | Done (Some m, cs) \<Rightarrow>
               Done (h\<lparr>hub_chans := cs,
                  hub_pump := (hub_pump h)(c := if ok then Counting [m] else Stopped)\<rparr>))
      | Counting ms \<Rightarrow>
          Done (h\<lparr>hub_pump := (hub_pump h)(c := Batching ms (length (c_buf (hub_chans h) c)))\<rparr>)
      | Batching ms 0 \<Rightarrow>
          if ok then Done (h\<lparr>hub_pump := (hub_pump h)(c := Waiting),
                             hub_frames := (hub_frames h)(c := hub_frames h c @ [ms])\<rparr>)
          else Done (h\<lparr>hub_pump := (hub_pump h)(c := Stopped)\<rparr>)
      | Batching ms (Suc n) \<Rightarrow>
          (case chan_recv c (hub_chans h) of
             Blocks \<Rightarrow> Blocks
           | Panics p \<Rightarrow> Panics p
           | Done (m, cs) \<Rightarrow>
               Done (h\<lparr>hub_chans := cs,
                  hub_pump := (hub_pump h)(c := Batching (ms @ (case m of None \<Rightarrow> [] | Some x \<Rightarrow> [x])) n)\<rparr>)))"

inductive ws_step :: "hub \<Rightarrow> hub \<Rightarrow> bool" where
  connect: "WS_ServeHTTP h = Done h' \<Longrightarrow> ws_step h h'"
| handle_event: "WS_HandleEvent evt h = Done h' \<Longrightarrow> ws_step h h'"
| broadcast: "hub_broadcast h = Done h' \<Longrightarrow> ws_step h h'"
| stop: "ws_step h (hub_stop h)"
| incoming: "readPump_message c msg h = Done h' \<Longrightarrow> ws_step h h'"
| disconnect: "readPump_end c h = Done h' \<Longrightarrow> ws_step h h'"
| flush: "writePump c ok h = Done h' \<Longrightarrow> ws_step h h'"

abbreviation ws_reachable :: "hub \<Rightarrow> bool" where
  "ws_reachable h \<equiv> ws_step\<^sup>*\<^sup>* NewHub h"

section \<open>What the hub keeps\<close>

definition pump_ok :: "hub \<Rightarrow> bool" where
  "pump_ok h \<longleftrightarrow>
     (\<forall>c ms n. hub_pump h c = Batching ms n \<longrightarrow> n \<le> length (c_buf (hub_chans h) c))"

definition hub_wf :: "hub \<Rightarrow> bool" where
  "hub_wf h \<longleftrightarrow> registry send_capacity (hub_clients h) (hub_made h) (hub_chans h)
     \<and> length (hub_queue h) \<le> hub_capacity \<and> pump_ok h
     \<and> (\<forall>c. hub_made h \<le> c \<longrightarrow> hub_pump h c = Stopped)"

definition slow :: "hub \<Rightarrow> nat list \<Rightarrow> nat list" where
  "slow h cs = filter (\<lambda>c. send_capacity \<le> length (c_buf (hub_chans h) c)) cs"

lemma hub_deliver_spec:
  "distinct cs \<Longrightarrow> set cs \<inter> set (c_closed (hub_chans h)) = {} \<Longrightarrow>
     hub_deliver m cs h = Done (h\<lparr>
       hub_chans := \<lparr>c_buf = offered_to send_capacity m cs (hub_chans h),
                     c_closed = rev (slow h cs) @ c_closed (hub_chans h)\<rparr>,
       hub_clients := filter (\<lambda>c. c \<notin> set (slow h cs)) (hub_clients h)\<rparr>)"
proof (induction cs arbitrary: h)
  case Nil
  then show ?case by (simp add: slow_def offered_to_def [abs_def])
next
  case (Cons c cs)
  then show ?case
    by (auto simp: chan_offer_def chan_send_def chan_close_def slow_def offered_to_def [abs_def]
        fun_eq_iff removeAll_filter_not_eq conj_commute cong: filter_cong intro!: hub.equality
        filter_cong)
qed

lemma hub_wf_registry: "hub_wf h \<Longrightarrow> registry send_capacity (hub_clients h) (hub_made h) (hub_chans h)"
  by (simp add: hub_wf_def)

lemma hub_broadcast_spec:
  assumes "hub_wf h" "hub_running h" "hub_queue h = m # ms"
  shows "hub_broadcast h = Done (h\<lparr>hub_queue := ms,
       hub_chans := \<lparr>c_buf = offered_to send_capacity m (hub_clients h) (hub_chans h),
                     c_closed = rev (slow h (hub_clients h)) @ c_closed (hub_chans h)\<rparr>,
       hub_clients := filter (\<lambda>c. c \<notin> set (slow h (hub_clients h))) (hub_clients h)\<rparr>)"
  using assms hub_deliver_spec [of "hub_clients h" "h\<lparr>hub_queue := ms\<rparr>" m]
  by (auto simp: hub_broadcast_def hub_wf_def registry_def slow_def)

lemma offered_to_bounds:
  "length (c_buf cs c) \<le> cap \<Longrightarrow> length (offered_to cap m members cs c) \<le> cap"
  "length (c_buf cs c) \<le> length (offered_to cap m members cs c)"
  by (auto simp: offered_to_def)

lemma hub_broadcast_wf: "hub_wf h \<Longrightarrow> hub_broadcast h = Done h' \<Longrightarrow> hub_wf h'"
proof -
  assume wf: "hub_wf h" and run: "hub_broadcast h = Done h'"
  then obtain m ms where q: "hub_running h" "hub_queue h = m # ms"
    by (auto simp: hub_broadcast_def split: list.splits if_splits)
  from hub_broadcast_spec [OF wf q] run wf q(2) show "hub_wf h'"
    by (auto simp: hub_wf_def registry_def pump_ok_def slow_def
        intro: offered_to_bounds le_trans [OF _ offered_to_bounds(2)])
qed

lemma connect_wf: "hub_wf h \<Longrightarrow> WS_ServeHTTP h = Done h' \<Longrightarrow> hub_wf h'"
  by (auto simp: WS_ServeHTTP_def hub_wf_def pump_ok_def Let_def chan_make_def registry_join
      split: if_splits dest: registry_join)

lemma handle_event_wf: "hub_wf h \<Longrightarrow> WS_HandleEvent evt h = Done h' \<Longrightarrow> hub_wf h'"
  by (auto simp: WS_HandleEvent_def BroadcastEvent_def hub_wf_def pump_ok_def
      split: option.splits if_splits)

lemma pump_ok_grows:
  "pump_ok h \<Longrightarrow> (\<And>c. length (c_buf (hub_chans h) c) \<le> length (c_buf cs c)) \<Longrightarrow>
     pump_ok (h\<lparr>hub_chans := cs\<rparr>)"
  by (simp add: pump_ok_def) (meson le_trans)

lemma message_wf: "hub_wf h \<Longrightarrow> readPump_message c msg h = Done h' \<Longrightarrow> hub_wf h'"
  by (auto simp: readPump_message_def handleMessage_def hub_wf_def
      split: option.splits if_splits outcome.splits
      intro: pump_ok_grows chan_send_length dest: registry_send)
    (simp_all add: pump_ok_def)

lemma disconnect_wf: "hub_wf h \<Longrightarrow> readPump_end c h = Done h' \<Longrightarrow> hub_wf h'"
  by (auto simp: readPump_end_def hub_unregister_def hub_wf_def pump_ok_def registry_def
      chan_close_def distinct_removeAll split: outcome.splits if_splits)

lemma stop_wf: "hub_wf h \<Longrightarrow> hub_wf (hub_stop h)"
  by (simp add: hub_stop_def hub_wf_def pump_ok_def)

lemma batch_receives:
  "hub_wf h \<Longrightarrow> hub_pump h c = Batching ms (Suc n) \<Longrightarrow>
     \<exists>m rest. c_buf (hub_chans h) c = m # rest \<and> n \<le> length rest
       \<and> chan_recv c (hub_chans h) = Done (Some m, (hub_chans h)\<lparr>c_buf := (c_buf (hub_chans h))(c := rest)\<rparr>)"
  by (cases "c_buf (hub_chans h) c") (fastforce simp: hub_wf_def pump_ok_def chan_recv_def)+

lemma writePump_wf: "hub_wf h \<Longrightarrow> writePump c ok h = Done h' \<Longrightarrow> hub_wf h'"
proof -
  assume wf: "hub_wf h" and run: "writePump c ok h = Done h'"
  then have "hub_made h \<le> x \<longrightarrow> hub_pump h' x = Stopped" for x
    by (auto simp: hub_wf_def writePump_def
        split: write_pump.splits nat.splits outcome.splits option.splits if_splits)
  moreover have "hub_made h' = hub_made h \<and> hub_clients h' = hub_clients h \<and> hub_queue h' = hub_queue h
      \<and> registry send_capacity (hub_clients h) (hub_made h) (hub_chans h')"
    using wf run by (auto simp: hub_wf_def writePump_def registry_recv
        split: write_pump.splits nat.splits outcome.splits option.splits if_splits)
  moreover have "pump_ok h'"
  proof (cases "\<exists>ms n. hub_pump h c = Batching ms (Suc n)")
    case True
    then obtain ms n where "hub_pump h c = Batching ms (Suc n)" by blast
    with batch_receives [OF wf this] wf run show ?thesis
      by (auto simp: hub_wf_def pump_ok_def writePump_def)
  next
    case False
    with wf run show ?thesis
      by (auto simp: hub_wf_def pump_ok_def writePump_def chan_recv_length
          split: write_pump.splits nat.splits outcome.splits option.splits if_splits)
  qed
  ultimately show ?thesis using wf by (simp add: hub_wf_def)
qed

lemma ws_step_wf: "hub_wf h \<Longrightarrow> ws_step h h' \<Longrightarrow> hub_wf h'"
  by (erule ws_step.cases)
    (blast intro: connect_wf handle_event_wf hub_broadcast_wf stop_wf message_wf disconnect_wf
      writePump_wf)+

lemma NewHub_wf: "hub_wf NewHub"
  by (simp add: NewHub_def hub_wf_def pump_ok_def)

interpretation ws: channel_broker NewHub ws_step hub_wf send_capacity hub_clients hub_made hub_chans
  by unfold_locales (fact NewHub_wf, erule (1) ws_step_wf, erule hub_wf_registry)

text \<open>Only a ping to a closed channel makes a step of the transport panic.\<close>

lemma unregister_safe: "hub_wf h \<Longrightarrow> hub_unregister c h \<noteq> Panics p"
  by (auto simp: hub_unregister_def dest!: hub_wf_registry simp: member_closed)

lemma writePump_safe: "writePump c ok h \<noteq> Panics p"
  by (auto simp: writePump_def chan_recv_def
      split: write_pump.splits nat.splits outcome.splits option.splits list.splits if_splits)

lemma broadcast_safe: "hub_wf h \<Longrightarrow> hub_broadcast h \<noteq> Panics p"
proof
  assume wf: "hub_wf h" and "hub_broadcast h = Panics p"
  moreover from this(2) obtain m ms where "hub_running h" "hub_queue h = m # ms"
    by (auto simp: hub_broadcast_def split: list.splits if_splits)
  ultimately show False using hub_broadcast_spec [OF wf] by simp
qed

lemma handle_event_safe: "WS_HandleEvent evt h \<noteq> Panics p"
  by (auto simp: WS_HandleEvent_def BroadcastEvent_def split: option.splits)

lemma message_panics_iff:
  "(\<exists>p. readPump_message c msg h = Panics p) \<longleftrightarrow>
     c \<in> set (hub_reading h) \<and> (\<exists>x. msg = Some x \<and> wi_type x = ''ping'') \<and> c \<in> set (c_closed (hub_chans h))"
  by (auto simp: readPump_message_def handleMessage_def chan_send_def split: option.splits)

lemma disconnect_safe: "hub_wf h \<Longrightarrow> readPump_end c h \<noteq> Panics p"
proof
  assume wf: "hub_wf h" and "readPump_end c h = Panics p"
  moreover have "hub_wf (h\<lparr>hub_reading := removeAll c (hub_reading h)\<rparr>)"
    using wf by (simp add: hub_wf_def pump_ok_def)
  ultimately show False
    by (auto simp: readPump_end_def unregister_safe split: if_splits)
qed

section \<open>What a connection gets\<close>

text \<open>What is written, in hand and waiting for a client, in this order.\<close>

fun in_hand :: "write_pump \<Rightarrow> ws_message list" where
  "in_hand Waiting = []"
| "in_hand (Counting ms) = ms"
| "in_hand (Batching ms n) = ms"
| "in_hand Stopped = []"

definition stream :: "hub \<Rightarrow> nat \<Rightarrow> ws_message list" where
  "stream h c = concat (hub_frames h c) @ in_hand (hub_pump h c) @ c_buf (hub_chans h) c"

lemma writePump_stream:
  assumes "hub_wf h" "writePump c True h = Done h'"
  shows "stream h' c = stream h c"
proof (cases "\<exists>ms n. hub_pump h c = Batching ms (Suc n)")
  case True
  then obtain ms n where "hub_pump h c = Batching ms (Suc n)" by blast
  with batch_receives [OF assms(1) this] assms show ?thesis
    by (auto simp: stream_def writePump_def)
next
  case False
  with assms show ?thesis
    by (auto simp: stream_def writePump_def chan_recv_def
        split: write_pump.splits nat.splits outcome.splits option.splits list.splits if_splits)
qed

lemma broadcast_stream:
  assumes "hub_wf h" "hub_running h" "hub_queue h = m # ms" "hub_broadcast h = Done h'"
    and "c \<in> set (hub_clients h)"
  shows "if length (c_buf (hub_chans h) c) < send_capacity
    then stream h' c = stream h c @ [m] \<and> c \<in> set (hub_clients h')
    else stream h' c = stream h c \<and> c \<notin> set (hub_clients h') \<and> c \<in> set (c_closed (hub_chans h'))"
  using assms hub_broadcast_spec [OF assms(1-3)]
  by (auto simp: stream_def offered_to_def slow_def)

definition ping :: ws_incoming where
  "ping = \<lparr>wi_type = ''ping'', wi_topic = None\<rparr>"

definition deleted_event :: event where
  "deleted_event = NewTaskDeleted 7 100 1 2"

definition deleted_message :: ws_message where
  "deleted_message = \<lparr>wm_type = ''task.deleted'', wm_payload = Some deleted_event\<rparr>"

lemma deleted_handled:
  "length (hub_queue h) < hub_capacity \<Longrightarrow>
     WS_HandleEvent deleted_event h = Done (h\<lparr>hub_queue := hub_queue h @ [deleted_message]\<rparr>)"
  by (simp add: WS_HandleEvent_def BroadcastEvent_def deleted_event_def deleted_message_def
      NewTaskDeleted_def NewBaseEvent_def EventType_def ws_message_types_def)

text \<open>One client that never takes a message from the connection, after \<open>n\<close> events.\<close>

definition flooded :: "nat \<Rightarrow> hub \<Rightarrow> bool" where
  "flooded n h \<longleftrightarrow> ws_reachable h \<and> hub_running h \<and> hub_clients h = [0] \<and> hub_queue h = []
     \<and> length (c_buf (hub_chans h) 0) = n \<and> hub_reading h = [0]"

lemma flooded_start: "\<exists>h. flooded 0 h"
proof -
  obtain h where h: "WS_ServeHTTP NewHub = Done h"
    by (simp add: WS_ServeHTTP_def NewHub_def Let_def)
  then have "ws_reachable h" by (blast intro: ws_step.connect)
  with h show ?thesis
    by (intro exI [where x = h])
      (auto simp: flooded_def WS_ServeHTTP_def NewHub_def Let_def chan_make_def no_channels_def)
qed

lemma flooded_event:
  assumes "flooded n h"
  obtains h' where "ws_reachable h'" "hub_reading h' = [0]"
    "n < send_capacity \<Longrightarrow> flooded (Suc n) h'"
    "send_capacity \<le> n \<Longrightarrow> 0 \<in> set (c_closed (hub_chans h'))"
proof -
  define h1 where "h1 = h\<lparr>hub_queue := [deleted_message]\<rparr>"
  have "WS_HandleEvent deleted_event h = Done h1"
    using assms deleted_handled [of h] by (simp add: h1_def flooded_def hub_capacity_def)
  then have h1: "ws_reachable h1"
    using assms by (auto simp: flooded_def intro: rtranclp.rtrancl_into_rtrancl ws_step.handle_event)
  from ws.reachable_inv [OF this] have "hub_wf h1" .
  from hub_broadcast_spec [OF this] obtain h2 where h2: "hub_broadcast h1 = Done h2" "h2 = h1\<lparr>hub_queue := [],
       hub_chans := \<lparr>c_buf = offered_to send_capacity deleted_message (hub_clients h1) (hub_chans h1),
                     c_closed = rev (slow h1 (hub_clients h1)) @ c_closed (hub_chans h1)\<rparr>,
       hub_clients := filter (\<lambda>c. c \<notin> set (slow h1 (hub_clients h1))) (hub_clients h1)\<rparr>"
    using assms by (simp add: h1_def flooded_def)
  have "ws_reachable h2" using h1 h2(1) by (blast intro: rtranclp.rtrancl_into_rtrancl ws_step.broadcast)
  with h2(2) assms show thesis
    by (intro that [of h2]) (auto simp: flooded_def h1_def offered_to_def slow_def)
qed

lemma flooded_reachable: "n \<le> send_capacity \<Longrightarrow> \<exists>h. flooded n h"
proof (induction n)
  case (Suc n)
  then obtain h where "flooded n h" by auto
  from flooded_event [OF this] Suc.prems show ?case by (metis Suc_le_lessD)
qed (rule flooded_start)

section \<open>Properties\<close>

text \<open>
  C23. Delivering an event, closing a connection and writing to it never panic, whatever
  interleaving of the hub and the pumps led to the state: no channel is closed twice and the hub
  never sends on a closed one; buffers stay within capacity, and a pump that has counted the
  messages it takes into a frame never waits for one of them.  The only panic of the transport is
  a ping of a client whose channel the hub has closed.
\<close>

theorem hub_panics_only_on_ping:
  assumes "ws_reachable h"
  shows "hub_broadcast h \<noteq> Panics p \<and> readPump_end c h \<noteq> Panics p \<and> writePump c ok h \<noteq> Panics p
    \<and> WS_HandleEvent evt h \<noteq> Panics p
    \<and> length (c_buf (hub_chans h) c) \<le> send_capacity
    \<and> (hub_pump h c = Batching ms (Suc n) \<longrightarrow> writePump c ok h \<noteq> Blocks)
    \<and> ((\<exists>p. readPump_message c msg h = Panics p) \<longleftrightarrow>
         c \<in> set (hub_reading h) \<and> (\<exists>x. msg = Some x \<and> wi_type x = ''ping'')
         \<and> c \<in> set (c_closed (hub_chans h)))"
proof -
  note wf = ws.reachable_inv [OF assms]
  have "hub_pump h c = Batching ms (Suc n) \<longrightarrow> writePump c ok h \<noteq> Blocks"
    using batch_receives [OF wf, of c ms n] by (auto simp: writePump_def)
  then show ?thesis
    using wf ws.reachable_bounded [OF assms]
    by (simp add: broadcast_safe disconnect_safe writePump_safe handle_event_safe message_panics_iff)
qed

theorem hub_panics_only_on_ping_witness: "hub_broadcast NewHub \<noteq> Panics []"
  using hub_panics_only_on_ping [OF rtranclp.rtrancl_refl] by blast

text \<open>
  A slow client can stop the server: the hub closes the channel of a client that is 256
  messages behind while its read pump goes on, and a ping it then sends is a send on a
  closed channel, a panic in a goroutine without recovery.  Some state that the transport reaches is such a
  state.
\<close>

theorem slow_client_ping_panics:
  "\<exists>h. ws_reachable h \<and> readPump_message 0 (Some ping) h = Panics ''send on closed channel''"
proof -
  obtain h where "flooded send_capacity h" using flooded_reachable [of send_capacity] by blast
  from flooded_event [OF this] obtain h' where "ws_reachable h'" "hub_reading h' = [0]"
      "0 \<in> set (c_closed (hub_chans h'))" by blast
  then show ?thesis
    by (intro exI [where x = h'])
      (simp add: readPump_message_def handleMessage_def ping_def chan_send_def)
qed

text \<open>
  C24. Order and topics: the hub appends each message to the stream of every connected client,
  whatever topics the client has subscribed to, or drops the client when its buffer is full;
  and the write pump moves messages from the buffer through frames to the connection without
  losing, repeating or reordering any.
\<close>

theorem hub_streams_in_order:
  assumes "ws_reachable h" and "hub_running h" and "hub_queue h = m # ms"
    and "c \<in> set (hub_clients h)"
  shows "\<exists>h'. hub_broadcast h = Done h'
    \<and> (if length (c_buf (hub_chans h) c) < send_capacity
        then stream h' c = stream h c @ [m] \<and> c \<in> set (hub_clients h')
        else stream h' c = stream h c \<and> c \<notin> set (hub_clients h')
             \<and> c \<in> set (c_closed (hub_chans h')))
    \<and> (\<forall>h2. writePump c True h' = Done h2 \<longrightarrow> stream h2 c = stream h' c)"
proof -
  note wf = ws.reachable_inv [OF assms(1)]
  obtain h' where run: "hub_broadcast h = Done h'"
    using hub_broadcast_spec [OF wf assms(2,3)] by blast
  from broadcast_stream [OF wf assms(2,3) this assms(4)] writePump_stream [OF hub_broadcast_wf [OF wf run]]
  show ?thesis using run by blast
qed

theorem hub_streams_in_order_witness:
  "\<exists>h h'. hub_broadcast h = Done h' \<and> stream h' 0 = stream h 0 @ [deleted_message]"
proof -
  obtain h0 where h0: "flooded 0 h0" using flooded_start by blast
  define h where "h = h0\<lparr>hub_queue := [deleted_message]\<rparr>"
  have "WS_HandleEvent deleted_event h0 = Done h"
    using h0 deleted_handled [of h0] by (simp add: h_def flooded_def hub_capacity_def)
  then have "ws_reachable h"
    using h0 by (auto simp: flooded_def intro: rtranclp.rtrancl_into_rtrancl ws_step.handle_event)
  from hub_streams_in_order [OF this, of deleted_message "[]" 0] h0 show ?thesis
    by (auto simp: h_def flooded_def send_capacity_def)
qed

end
