(* ===== verification/Realtime.thy ===== *)
theory Realtime
  imports WebSocket
begin

text \<open>
  The other realtime transports over the event bus: the broker of server-sent events
  (\<open>transport/sse/handler.go\<close>), the subscription broker of GraphQL
  (\<open>transport/graphql/subscription\_broker.go\<close>), the Socket.IO handler
  (\<open>transport/socketio/handler.go\<close>, over the rooms of the library), and the handler that
  \<open>cmd/server/main.go\<close> registers for every type of task event.
\<close>

section \<open>Server-sent events\<close>

datatype sse_data = DomainEvent event | Timestamp int

record sse_event =
  se_type :: string
  se_id :: uuid
  se_data :: sse_data

text \<open>
  Where the loop of \<open>Run\<close> stands: in its \<open>select\<close>, sending a heartbeat to its own channel, or
  returned.
\<close>

datatype sse_loop = Looping | Beating sse_event | Returned

record sse =
  sse_clients :: "nat list"
  sse_queue :: "sse_event list"
  sse_chans :: "sse_event channels"
  sse_run :: sse_loop
  sse_made :: nat
  sse_serving :: "nat list"
  sse_leaving :: "nat list"
  sse_written :: "nat \<Rightarrow> sse_event list"

definition sse_capacity :: nat where "sse_capacity = 256"
definition sse_client_capacity :: nat where "sse_client_capacity = 100"

definition SSE_NewBroker :: sse where
  "SSE_NewBroker = \<lparr>sse_clients = [], sse_queue = [], sse_chans = no_channels, sse_run = Looping,
     sse_made = 0, sse_serving = [], sse_leaving = [], sse_written = (\<lambda>_. [])\<rparr>"

definition SSE_Publish :: "string \<Rightarrow> uuid \<Rightarrow> sse_data \<Rightarrow> sse \<Rightarrow> sse outcome" where
  "SSE_Publish eventType i data b =
     (if length (sse_queue b) < sse_capacity
      then Done (b\<lparr>sse_queue := sse_queue b @ [\<lparr>se_type = eventType, se_id = i, se_data = data\<rparr>]\<rparr>)
      else Blocks)"

text \<open>\<open>ServeHTTP\<close> up to its loop, and the client's registration with the broker.\<close>

definition SSE_ServeHTTP :: "sse \<Rightarrow> sse outcome" where
  "SSE_ServeHTTP b =
     (if sse_run b \<noteq> Looping then Blocks
      else let c = sse_made b in
        Done (b\<lparr>sse_clients := c # sse_clients b, sse_chans := chan_make c (sse_chans b),
                sse_made := Suc c, sse_serving := c # sse_serving b,
                sse_written := (sse_written b)(c := [])\<rparr>))"

definition sse_unregister :: "nat \<Rightarrow> sse \<Rightarrow> sse outcome" where
  "sse_unregister c b =
     (if sse_run b \<noteq> Looping then Blocks
      else if c \<in> set (sse_clients b) then
        (case chan_close c (sse_chans b) of
           Done cs \<Rightarrow> Done (b\<lparr>sse_chans := cs, sse_clients := removeAll c (sse_clients b)\<rparr>)
         | Blocks \<Rightarrow> Blocks
         | Panics p \<Rightarrow> Panics p)
      else Done b)"

definition sse_broadcast :: "sse \<Rightarrow> sse outcome" where
  "sse_broadcast b =
     (case sse_queue b of
        [] \<Rightarrow> Blocks
      | evt # evts \<Rightarrow>
          if sse_run b \<noteq> Looping then Blocks
          else
            (case offer_all sse_client_capacity evt (sse_clients b) (sse_chans b) of
               Done cs \<Rightarrow> Done (b\<lparr>sse_queue := evts, sse_chans := cs\<rparr>)
             | Blocks \<Rightarrow> Blocks
             | Panics p \<Rightarrow> Panics p))"

definition sse_tick :: "uuid \<Rightarrow> int \<Rightarrow> sse \<Rightarrow> sse outcome" where
  "sse_tick i now b =
     (if sse_run b \<noteq> Looping then Blocks
      else Done (b\<lparr>sse_run := Beating \<lparr>se_type = ''heartbeat'', se_id = i, se_data = Timestamp now\<rparr>\<rparr>))"

definition sse_beat :: "sse \<Rightarrow> sse outcome" where
  "sse_beat b =
     (case sse_run b of
        Beating evt \<Rightarrow>
          if length (sse_queue b) < sse_capacity
          then Done (b\<lparr>sse_queue := sse_queue b @ [evt], sse_run := Looping\<rparr>)
          else Blocks
      | _ \<Rightarrow> Blocks)"

fun close_all :: "nat list \<Rightarrow> 'm channels \<Rightarrow> 'm channels outcome" where
  "close_all [] cs = Done cs"
| "close_all (c # ch) cs =
     (case chan_close c cs of
        Done cs' \<Rightarrow> close_all ch cs'
      | Blocks \<Rightarrow> Blocks
      | Panics p \<Rightarrow> Panics p)"

text \<open>\<open>ctx.Done()\<close> in the loop: every client is closed and the loop returns.\<close>

definition sse_shutdown :: "sse \<Rightarrow> sse outcome" where
  "sse_shutdown b =
     (if sse_run b \<noteq> Looping then Blocks
      else
        (case close_all (sse_clients b) (sse_chans b) of
           Done cs \<Rightarrow> Done (b\<lparr>sse_chans := cs, sse_clients := [], sse_run := Returned\<rparr>)
         | Blocks \<Rightarrow> Blocks
         | Panics p \<Rightarrow> Panics p))"

text \<open>The loop of \<open>ServeHTTP\<close>: an event is written, a closed channel or a gone request ends it.\<close>

definition sse_serve :: "nat \<Rightarrow> sse \<Rightarrow> sse outcome" where
  "sse_serve c b =
     (if c \<notin> set (sse_serving b) then Blocks
      else
        (case chan_recv c (sse_chans b) of
           Done (Some evt, cs) \<Rightarrow>
             Done (b\<lparr>sse_chans := cs, sse_written := (sse_written b)(c := sse_written b c @ [evt])\<rparr>)
         | Done (None, cs) \<Rightarrow>
             Done (b\<lparr>sse_serving := removeAll c (sse_serving b), sse_leaving := c # sse_leaving b\<rparr>)
         | Blocks \<Rightarrow> Blocks
         | Panics p \<Rightarrow> Panics p))"

definition sse_gone :: "nat \<Rightarrow> sse \<Rightarrow> sse outcome" where
  "sse_gone c b =
     (if c \<notin> set (sse_serving b) then Blocks
      else Done (b\<lparr>sse_serving := removeAll c (sse_serving b), sse_leaving := c # sse_leaving b\<rparr>))"

text \<open>The deferred \<open>unregister <- client\<close>.\<close>

definition sse_leave :: "nat \<Rightarrow> sse \<Rightarrow> sse outcome" where
  "sse_leave c b =
     (if c \<notin> set (sse_leaving b) then Blocks
      else sse_unregister c (b\<lparr>sse_leaving := removeAll c (sse_leaving b)\<rparr>))"

definition sse_event_types :: "(string \<times> string) list" where
  "sse_event_types =
     [(''task.created'', ''task.created''), (''task.updated'', ''task.updated''),
      (''task.deleted'', ''task.deleted''), (''task.assigned'', ''task.assigned''),
      (''task.unassigned'', ''task.unassigned''), (''task.completed'', ''task.completed''),
      (''task.archived'', ''task.archived''), (''task.status_changed'', ''task.status_changed''),
      (''task.label_added'', ''task.label_added''), (''task.label_removed'', ''task.label_removed'')]"

definition SSE_HandleEvent :: "uuid \<Rightarrow> event \<Rightarrow> sse \<Rightarrow> sse outcome" where
  "SSE_HandleEvent i evt b =
     (case map_of sse_event_types (EventType evt) of
        None \<Rightarrow> Done b
      | Some eventType \<Rightarrow> SSE_Publish eventType i (DomainEvent evt) b)"

inductive sse_step :: "sse \<Rightarrow> sse \<Rightarrow> bool" where
  connect: "SSE_ServeHTTP b = Done b' \<Longrightarrow> sse_step b b'"
| handle_event: "SSE_HandleEvent i evt b = Done b' \<Longrightarrow> sse_step b b'"
| broadcast: "sse_broadcast b = Done b' \<Longrightarrow> sse_step b b'"
| heartbeat: "sse_tick i now b = Done b' \<Longrightarrow> sse_step b b'"
| beat: "sse_beat b = Done b' \<Longrightarrow> sse_step b b'"
| shutdown: "sse_shutdown b = Done b' \<Longrightarrow> sse_step b b'"
| serve: "sse_serve c b = Done b' \<Longrightarrow> sse_step b b'"
| gone: "sse_gone c b = Done b' \<Longrightarrow> sse_step b b'"
| leave: "sse_leave c b = Done b' \<Longrightarrow> sse_step b b'"

abbreviation sse_reachable :: "sse \<Rightarrow> bool" where
  "sse_reachable b \<equiv> sse_step\<^sup>*\<^sup>* SSE_NewBroker b"

section \<open>The subscription broker of GraphQL\<close>

record subscriptions =
  sub_members :: "nat list"
  sub_chans :: "event channels"
  sub_made :: nat
  sub_waiting :: "nat list"

definition subscription_capacity :: nat where "subscription_capacity = 32"

definition NewSubscriptionBroker :: subscriptions where
  "NewSubscriptionBroker =
     \<lparr>sub_members = [], sub_chans = no_channels, sub_made = 0, sub_waiting = []\<rparr>"

text \<open>The goroutine of a subscription waits in \<open>sub_waiting\<close> for the end of its context.\<close>

definition Sub_Subscribe :: "subscriptions \<Rightarrow> nat \<times> subscriptions" where
  "Sub_Subscribe b =
     (let c = sub_made b in
      (c, b\<lparr>sub_members := c # sub_members b, sub_chans := chan_make c (sub_chans b),
            sub_made := Suc c, sub_waiting := c # sub_waiting b\<rparr>))"

definition Sub_done :: "nat \<Rightarrow> subscriptions \<Rightarrow> subscriptions outcome" where
  "Sub_done c b =
     (if c \<notin> set (sub_waiting b) then Blocks
      else
        let b1 = b\<lparr>sub_waiting := removeAll c (sub_waiting b)\<rparr> in
        if c \<in> set (sub_members b) then
          (case chan_close c (sub_chans b) of
             Done cs \<Rightarrow> Done (b1\<lparr>sub_chans := cs, sub_members := removeAll c (sub_members b)\<rparr>)
           | Blocks \<Rightarrow> Blocks
           | Panics p \<Rightarrow> Panics p)
        else Done b1)"

definition Sub_Publish :: "event \<Rightarrow> subscriptions \<Rightarrow> subscriptions outcome" where
  "Sub_Publish evt b =
     (case offer_all subscription_capacity evt (sub_members b) (sub_chans b) of
        Done cs \<Rightarrow> Done (b\<lparr>sub_chans := cs\<rparr>)
      | Blocks \<Rightarrow> Blocks
      | Panics p \<Rightarrow> Panics p)"

definition Sub_receive :: "nat \<Rightarrow> subscriptions \<Rightarrow> (event option \<times> subscriptions) outcome" where
  "Sub_receive c b =
     (case chan_recv c (sub_chans b) of
        Done (r, cs) \<Rightarrow> Done (r, b\<lparr>sub_chans := cs\<rparr>)
      | Blocks \<Rightarrow> Blocks
      | Panics p \<Rightarrow> Panics p)"

inductive sub_step :: "subscriptions \<Rightarrow> subscriptions \<Rightarrow> bool" where
  subscribe: "Sub_Subscribe b = (c, b') \<Longrightarrow> sub_step b b'"
| finish: "Sub_done c b = Done b' \<Longrightarrow> sub_step b b'"
| publish: "Sub_Publish evt b = Done b' \<Longrightarrow> sub_step b b'"
| receive: "Sub_receive c b = Done (r, b') \<Longrightarrow> sub_step b b'"

section \<open>Socket.IO and the registered handler\<close>

text \<open>\<open>BroadcastToRoom\<close> hands the marshalled event to the library: room, name and event.\<close>

type_synonym room_log = "(string \<times> string \<times> event) list"

definition RoomTasks :: string where "RoomTasks = ''tasks''"

definition BroadcastToRoom :: "string \<Rightarrow> string \<Rightarrow> event \<Rightarrow> room_log \<Rightarrow> room_log" where
  "BroadcastToRoom room eventName evt log = log @ [(room, eventName, evt)]"

definition BroadcastToAll :: "string \<Rightarrow> event \<Rightarrow> room_log \<Rightarrow> room_log" where
  "BroadcastToAll = BroadcastToRoom RoomTasks"

definition socketio_names :: "(string \<times> string) list" where
  "socketio_names =
     [(''task.created'', ''task:created''), (''task.updated'', ''task:updated''),
      (''task.deleted'', ''task:deleted''), (''task.assigned'', ''task:assigned''),
      (''task.unassigned'', ''task:unassigned''), (''task.completed'', ''task:completed''),
      (''task.archived'', ''task:archived''), (''task.status_changed'', ''task:status_changed''),
      (''task.label_added'', ''task:label_added''), (''task.label_removed'', ''task:label_removed'')]"

definition SocketIO_HandleEvent :: "event \<Rightarrow> room_log \<Rightarrow> room_log" where
  "SocketIO_HandleEvent evt log =
     (case map_of socketio_names (EventType evt) of
        None \<Rightarrow> log
      | Some eventName \<Rightarrow> BroadcastToAll eventName evt log)"

record realtime =
  rt_hub :: hub
  rt_sse :: sse
  rt_rooms :: room_log
  rt_subs :: subscriptions

definition realtime_types :: "string list" where
  "realtime_types =
     [''task.created'', ''task.updated'', ''task.deleted'', ''task.assigned'', ''task.unassigned'',
      ''task.completed'', ''task.archived'', ''task.status_changed'', ''task.label_added'',
      ''task.label_removed'']"

text \<open>
  The function that \<open>registerRealtimeHandler\<close> registers: the transports one after the other; it
  waits where one of them blocks.
\<close>

definition realtime_handler :: "uuid \<Rightarrow> event \<Rightarrow> realtime \<Rightarrow> realtime outcome" where
  "realtime_handler i evt s =
     (case WS_HandleEvent evt (rt_hub s) of
        Blocks \<Rightarrow> Blocks
      | Panics p \<Rightarrow> Panics p
      | Done h \<Rightarrow>
     (case SSE_HandleEvent i evt (rt_sse s) of
        Blocks \<Rightarrow> Blocks
      | Panics p \<Rightarrow> Panics p
      | Done b \<Rightarrow>
     (case Sub_Publish evt (rt_subs s) of
        Blocks \<Rightarrow> Blocks
      | Panics p \<Rightarrow> Panics p
      | Done subs \<Rightarrow>
          Done \<lparr>rt_hub = h, rt_sse = b, rt_rooms = SocketIO_HandleEvent evt (rt_rooms s),
                rt_subs = subs\<rparr>)))"

section \<open>Invariants of the brokers\<close>

definition sse_wf :: "sse \<Rightarrow> bool" where
  "sse_wf b \<longleftrightarrow> registry sse_client_capacity (sse_clients b) (sse_made b) (sse_chans b)
     \<and> length (sse_queue b) \<le> sse_capacity"

definition sub_wf :: "subscriptions \<Rightarrow> bool" where
  "sub_wf b \<longleftrightarrow> registry subscription_capacity (sub_members b) (sub_made b) (sub_chans b)"

lemma close_all_spec:
  "distinct chs \<Longrightarrow> set chs \<inter> set (c_closed cs) = {} \<Longrightarrow>
     close_all chs cs = Done (cs\<lparr>c_closed := rev chs @ c_closed cs\<rparr>)"
  by (induction chs arbitrary: cs) (auto simp: chan_close_def)

lemma close_members:
  assumes "registry cap members n cs"
  shows "close_all members cs = Done (cs\<lparr>c_closed := rev members @ c_closed cs\<rparr>)"
    and "registry cap [] n (cs\<lparr>c_closed := rev members @ c_closed cs\<rparr>)"
  using assms by (auto simp: registry_def intro: close_all_spec)

lemma sse_unregister_wf: "sse_wf b \<Longrightarrow> sse_unregister c b = Done b' \<Longrightarrow> sse_wf b'"
  by (auto simp: sse_unregister_def sse_wf_def split: if_splits outcome.splits
      intro: registry_leave)

lemma sse_step_wf: "sse_wf b \<Longrightarrow> sse_step b b' \<Longrightarrow> sse_wf b'"
proof (erule sse_step.cases, goal_cases)
  case (1 a a')
  then show ?case
    by (auto simp: SSE_ServeHTTP_def sse_wf_def Let_def registry_join split: if_splits)
next
  case (2 i evt a a')
  then show ?case
    by (auto simp: SSE_HandleEvent_def SSE_Publish_def sse_wf_def split: option.splits if_splits)
next
  case (3 a a')
  then show ?case
    by (auto simp: sse_broadcast_def sse_wf_def offer_all_members split: list.splits if_splits)
next
  case (9 c a a')
  then have "sse_wf (a\<lparr>sse_leaving := removeAll c (sse_leaving a)\<rparr>)" by (simp add: sse_wf_def)
  with 9 show ?case by (auto simp: sse_leave_def intro: sse_unregister_wf split: if_splits)
qed (auto simp: sse_wf_def sse_tick_def sse_beat_def sse_shutdown_def sse_serve_def sse_gone_def
    close_members registry_recv split: sse_loop.splits if_splits outcome.splits option.splits)

interpretation sse: channel_broker SSE_NewBroker sse_step sse_wf sse_client_capacity sse_clients
  sse_made sse_chans
  by unfold_locales (simp add: sse_wf_def SSE_NewBroker_def, erule (1) sse_step_wf,
    simp add: sse_wf_def)

lemma sub_step_wf: "sub_wf b \<Longrightarrow> sub_step b b' \<Longrightarrow> sub_wf b'"
proof (erule sub_step.cases, goal_cases)
  case (2 c a a')
  then show ?case
    by (auto simp: sub_wf_def Sub_done_def Let_def split: if_splits outcome.splits
        intro: registry_leave)
qed (auto simp: sub_wf_def Sub_Subscribe_def Let_def Sub_Publish_def Sub_receive_def
    offer_all_members registry_join registry_recv split: outcome.splits)

interpretation sub: channel_broker NewSubscriptionBroker sub_step sub_wf subscription_capacity
  sub_members sub_made sub_chans
  by unfold_locales (simp add: sub_wf_def NewSubscriptionBroker_def, erule (1) sub_step_wf,
    simp add: sub_wf_def)

section \<open>The heartbeat of a full broker\<close>

definition sse_stuck :: "sse \<Rightarrow> bool" where
  "sse_stuck b \<longleftrightarrow> (\<exists>evt. sse_run b = Beating evt) \<and> length (sse_queue b) = sse_capacity"

lemma sse_stuck_blocks:
  "sse_stuck b \<Longrightarrow> sse_broadcast b = Blocks" "sse_stuck b \<Longrightarrow> sse_shutdown b = Blocks"
  "sse_stuck b \<Longrightarrow> sse_beat b = Blocks" "sse_stuck b \<Longrightarrow> SSE_ServeHTTP b = Blocks"
  "sse_stuck b \<Longrightarrow> SSE_Publish t i x b = Blocks" "sse_stuck b \<Longrightarrow> sse_tick i now b = Blocks"
  "sse_stuck b \<Longrightarrow> sse_unregister c b = Blocks"
  by (auto simp: sse_stuck_def sse_broadcast_def sse_shutdown_def sse_beat_def SSE_ServeHTTP_def
      SSE_Publish_def sse_tick_def sse_unregister_def split: list.splits)

lemma sse_stuck_step: "sse_step b b' \<Longrightarrow> sse_stuck b \<Longrightarrow> sse_stuck b'"
proof (erule sse_step.cases, goal_cases)
  case (9 c a a')
  then have "sse_stuck (a\<lparr>sse_leaving := removeAll c (sse_leaving a)\<rparr>)" by (simp add: sse_stuck_def)
  with 9 show ?case by (simp add: sse_leave_def sse_stuck_blocks split: if_splits)
qed (auto simp: sse_stuck_blocks SSE_HandleEvent_def sse_serve_def sse_gone_def sse_stuck_def
    split: option.splits if_splits outcome.splits)

lemma sse_stuck_steps: "sse_step\<^sup>*\<^sup>* b b' \<Longrightarrow> sse_stuck b \<Longrightarrow> sse_stuck b'"
  by (induction rule: rtranclp_induct) (auto intro: sse_stuck_step)

lemma sse_filled:
  "n \<le> sse_capacity \<Longrightarrow> \<exists>b. sse_reachable b \<and> sse_run b = Looping \<and> length (sse_queue b) = n"
proof (induction n)
  case 0
  show ?case by (rule exI [where x = SSE_NewBroker]) (simp add: SSE_NewBroker_def)
next
  case (Suc n)
  then obtain b where b: "sse_reachable b" "sse_run b = Looping" "length (sse_queue b) = n" by auto
  with Suc.prems obtain b' where "SSE_HandleEvent 1 deleted_event b = Done b'"
      "sse_run b' = Looping" "length (sse_queue b') = Suc n"
    by (simp add: SSE_HandleEvent_def SSE_Publish_def sse_event_types_def deleted_event_def
        NewTaskDeleted_def NewBaseEvent_def EventType_def)
  with b(1) show ?case by (blast intro: rtranclp.rtrancl_into_rtrancl sse_step.handle_event)
qed

lemma sse_stuck_reachable: "\<exists>b. sse_reachable b \<and> sse_stuck b"
proof -
  obtain b where b: "sse_reachable b" "sse_run b = Looping" "length (sse_queue b) = sse_capacity"
    using sse_filled by blast
  then obtain b' where "sse_tick 1 0 b = Done b'" "sse_stuck b'"
    by (simp add: sse_tick_def sse_stuck_def)
  with b(1) show ?thesis by (blast intro: rtranclp.rtrancl_into_rtrancl sse_step.heartbeat)
qed

lemma registered_types:
  "map fst ws_message_types = realtime_types" "map fst sse_event_types = realtime_types"
  "map fst socketio_names = realtime_types"
  by (simp_all add: ws_message_types_def sse_event_types_def socketio_names_def realtime_types_def)

lemma registered_mapped:
  "t \<in> set realtime_types \<Longrightarrow> map_of ws_message_types t = Some t"
  "t \<in> set realtime_types \<Longrightarrow> map_of sse_event_types t = Some t"
  "t \<in> set realtime_types \<Longrightarrow> map_of socketio_names t \<noteq> None"
  by (auto simp: realtime_types_def ws_message_types_def sse_event_types_def socketio_names_def)

lemma realtime_handler_stuck:
  assumes "sse_stuck (rt_sse s)" "EventType evt \<in> set realtime_types"
  shows "realtime_handler i evt s = Blocks"
  using assms handle_event_safe [of evt "rt_hub s"]
  by (simp add: realtime_handler_def SSE_HandleEvent_def registered_mapped sse_stuck_blocks
      split: outcome.splits)

section \<open>Properties\<close>

text \<open>
  C25. The brokers of server-sent events and of GraphQL subscriptions never panic: in every
  reachable state no event is sent to a closed channel and none is closed twice, buffers stay
  within capacity, and so the handler that feeds all the transports does not panic either.
\<close>

theorem realtime_never_panics:
  assumes "sse_reachable (rt_sse s)" and "sub_step\<^sup>*\<^sup>* NewSubscriptionBroker (rt_subs s)"
  shows "realtime_handler i evt s \<noteq> Panics p
    \<and> sse_broadcast (rt_sse s) \<noteq> Panics p \<and> sse_shutdown (rt_sse s) \<noteq> Panics p
    \<and> sse_leave c (rt_sse s) \<noteq> Panics p \<and> Sub_done c (rt_subs s) \<noteq> Panics p
    \<and> length (c_buf (sse_chans (rt_sse s)) c) \<le> sse_client_capacity
    \<and> length (c_buf (sub_chans (rt_subs s)) c) \<le> subscription_capacity"
proof -
  have sse: "sse_wf (rt_sse s)" and sub: "sub_wf (rt_subs s)"
    using assms by (simp_all add: sse.reachable_inv sub.reachable_inv)
  have publish: "Sub_Publish evt (rt_subs s) \<noteq> Panics p"
    by (simp add: Sub_Publish_def sub.reachable_offer [OF assms(2)])
  have "SSE_HandleEvent i evt (rt_sse s) \<noteq> Panics p"
    by (auto simp: SSE_HandleEvent_def SSE_Publish_def split: option.splits)
  with publish have "realtime_handler i evt s \<noteq> Panics p"
    by (auto simp: realtime_handler_def handle_event_safe split: outcome.splits)
  moreover have "sse_broadcast (rt_sse s) \<noteq> Panics p"
    by (simp add: sse_broadcast_def sse.reachable_offer [OF assms(1)] split: list.splits)
  moreover have "sse_shutdown (rt_sse s) \<noteq> Panics p"
    using close_members(1) [OF sse [unfolded sse_wf_def, THEN conjunct1]]
    by (simp add: sse_shutdown_def)
  moreover have "sse_leave c (rt_sse s) \<noteq> Panics p"
    using sse by (auto simp: sse_leave_def sse_unregister_def sse_wf_def member_closed)
  moreover have "Sub_done c (rt_subs s) \<noteq> Panics p"
    using sub by (auto simp: Sub_done_def sub_wf_def member_closed Let_def)
  ultimately show ?thesis
    using sse.reachable_bounded [OF assms(1)] sub.reachable_bounded [OF assms(2)] by blast
qed

definition idle_realtime :: realtime where
  "idle_realtime = \<lparr>rt_hub = NewHub, rt_sse = SSE_NewBroker, rt_rooms = [],
     rt_subs = snd (Sub_Subscribe NewSubscriptionBroker)\<rparr>"

lemma idle_subscribed: "sub_step\<^sup>*\<^sup>* NewSubscriptionBroker (rt_subs idle_realtime)"
  by (auto simp: idle_realtime_def intro!: sub_step.subscribe prod.collapse [symmetric])

theorem realtime_never_panics_witness:
  "realtime_handler 1 deleted_event idle_realtime \<noteq> Panics ''send on closed channel''"
  using realtime_never_panics [of idle_realtime, OF _ idle_subscribed]
  by (simp add: idle_realtime_def)

text \<open>
  C26. A heartbeat can stop all realtime delivery for good: the loop of the broker sends its
  heartbeat to the channel that only the loop itself drains.  Some reachable state is one from
  which the broker never again delivers an event nor notices a shutdown, and in which the handler of the task
  events blocks on every event, so that nothing reaches the subscribers of GraphQL either.
\<close>

theorem heartbeat_deadlock:
  "\<exists>b. sse_reachable b \<and> (\<forall>b'. sse_step\<^sup>*\<^sup>* b b' \<longrightarrow>
     sse_broadcast b' = Blocks \<and> sse_shutdown b' = Blocks
     \<and> (\<forall>i evt s. rt_sse s = b' \<longrightarrow> EventType evt \<in> set realtime_types \<longrightarrow>
          realtime_handler i evt s = Blocks))"
proof -
  obtain b where "sse_reachable b" "sse_stuck b" using sse_stuck_reachable by blast
  then show ?thesis
    using sse_stuck_steps [of b] sse_stuck_blocks realtime_handler_stuck by blast
qed

theorem heartbeat_deadlock_witness:
  "\<exists>b. sse_reachable b
     \<and> realtime_handler 1 deleted_event (idle_realtime\<lparr>rt_sse := b\<rparr>) = Blocks"
proof -
  have "EventType deleted_event \<in> set realtime_types"
    by (simp add: deleted_event_def NewTaskDeleted_def NewBaseEvent_def EventType_def realtime_types_def)
  moreover obtain b where "sse_reachable b" "\<forall>b'. sse_step\<^sup>*\<^sup>* b b' \<longrightarrow>
     (\<forall>i evt s. rt_sse s = b' \<longrightarrow> EventType evt \<in> set realtime_types \<longrightarrow> realtime_handler i evt s = Blocks)"
    using heartbeat_deadlock by blast
  ultimately show ?thesis
    by (intro exI [where x = b] conjI) (assumption, metis realtime.select_convs(2) realtime.surjective
        realtime.update_convs(2) rtranclp.rtrancl_refl)
qed

text \<open>
  One task event reaches every transport once: when neither broker is full, the handler
  queues it for the WebSocket clients and for the SSE clients, broadcasts it to the room of all
  tasks and puts it at the end of the buffer of every GraphQL subscription that has room.
\<close>

theorem realtime_event_reaches_all:
  assumes "sub_step\<^sup>*\<^sup>* NewSubscriptionBroker (rt_subs s)"
    and "EventType evt \<in> set realtime_types"
    and "length (hub_queue (rt_hub s)) < hub_capacity" and "length (sse_queue (rt_sse s)) < sse_capacity"
  shows "\<exists>s' name. realtime_handler i evt s = Done s'
    \<and> hub_queue (rt_hub s') = hub_queue (rt_hub s) @ [\<lparr>wm_type = EventType evt, wm_payload = Some evt\<rparr>]
    \<and> sse_queue (rt_sse s') = sse_queue (rt_sse s)
        @ [\<lparr>se_type = EventType evt, se_id = i, se_data = DomainEvent evt\<rparr>]
    \<and> rt_rooms s' = rt_rooms s @ [(RoomTasks, name, evt)]
    \<and> (\<forall>c\<in>set (sub_members (rt_subs s)).
         length (c_buf (sub_chans (rt_subs s)) c) < subscription_capacity \<longrightarrow>
         c_buf (sub_chans (rt_subs s')) c = c_buf (sub_chans (rt_subs s)) c @ [evt])"
proof -
  obtain name where "map_of socketio_names (EventType evt) = Some name"
    using registered_mapped(3) [OF assms(2)] by blast
  then show ?thesis
    using assms(2-) sub.reachable_offer [OF assms(1), of evt]
    by (simp add: realtime_handler_def WS_HandleEvent_def BroadcastEvent_def SSE_HandleEvent_def
        SSE_Publish_def Sub_Publish_def registered_mapped SocketIO_HandleEvent_def
        BroadcastToAll_def BroadcastToRoom_def offered_to_def)
qed

theorem realtime_event_reaches_all_witness:
  "\<exists>s'. realtime_handler 1 deleted_event idle_realtime = Done s'
     \<and> c_buf (sub_chans (rt_subs s')) 0 = [deleted_event]"
proof -
  have "EventType deleted_event \<in> set realtime_types"
    by (simp add: deleted_event_def NewTaskDeleted_def NewBaseEvent_def EventType_def realtime_types_def)
  from realtime_event_reaches_all [OF idle_subscribed this, of 1] show ?thesis
    by (auto simp: idle_realtime_def NewHub_def SSE_NewBroker_def hub_capacity_def sse_capacity_def
        Sub_Subscribe_def NewSubscriptionBroker_def chan_make_def no_channels_def
        subscription_capacity_def)
qed

end
