(* ===== verification/Router.thy ===== *)
theory Router
  imports Mux Realtime
begin

text \<open>
  The HTTP server in front of the handlers: the route table of
  \<open>transport/rest/router.go\<close> and of \<open>cmd/server/main.go\<close>, the handler behind each route, and
  the global middleware of \<open>middleware/middleware.go\<close>; and the authentication middleware of
  \<open>internal/auth/middleware.go\<close> that the router does not use.

  The state is the world of the use cases with the brokers of the realtime transports.  What
  is not code of the repository behind a route (the Swagger pages, the executable GraphQL
  schema, the variables of \<open>expvar\<close>, the Socket.IO library, the upgrade to WebSocket) is an
  argument.
\<close>

section \<open>Responses and handlers\<close>

text \<open>
  A response writer: which optional interfaces of \<open>net/http\<close> its dynamic type implements.
\<close>

record response_writer =
  rw_flusher :: bool
  rw_hijacker :: bool

record server =
  sv_world :: world
  sv_sse :: sse
  sv_hub :: hub

text \<open>How a handler ends: with a status, never, or with a panic.\<close>

datatype finish = Status int | Hangs | Panicked string

type_synonym http_handler = "response_writer \<Rightarrow> http_request \<Rightarrow> env \<Rightarrow> server \<Rightarrow> finish \<times> server"

text \<open>A handler of \<open>transport/rest/handler\<close>; all of them answer, they return no error.\<close>

definition rest_serve :: "'a response go \<Rightarrow> env \<Rightarrow> server \<Rightarrow> finish \<times> server" where
  "rest_serve h e s =
     (case h e (sv_world s) of
        (Ok x, w) \<Rightarrow> (Status (response_status x), s\<lparr>sv_world := w\<rparr>)
      | (Err err, w) \<Rightarrow> (Status (error_status err), s\<lparr>sv_world := w\<rparr>)
      | (Panic p, w) \<Rightarrow> (Panicked p, s\<lparr>sv_world := w\<rparr>))"

section \<open>The route table\<close>

datatype endpoint =
    Health | Swagger
  | LoginEndpoint | RegisterEndpoint | RefreshEndpoint | LogoutEndpoint | ChangePasswordEndpoint
  | SearchEndpoint | OverdueEndpoint | ListTasksEndpoint | CreateTaskEndpoint | GetTaskEndpoint
  | UpdateTaskEndpoint | DeleteTaskEndpoint | AssignEndpoint | UnassignEndpoint
  | CompleteEndpoint | ArchiveEndpoint | StatusEndpoint | AddLabelEndpoint | RemoveLabelEndpoint
  | UploadEndpoint | ListAttachmentsEndpoint | DownloadEndpoint | DeleteAttachmentEndpoint
  | ListLabelsEndpoint | GetLabelEndpoint | CreateLabelEndpoint | UpdateLabelEndpoint
  | DeleteLabelEndpoint
  | ListUsersEndpoint | MeEndpoint | GetUserEndpoint | UpdateUserEndpoint | DeleteUserEndpoint
  | AssignRoleEndpoint | RemoveRoleEndpoint
  | GraphqlPost | GraphqlGet | Playground | DebugVars | WebSocketEndpoint | EventsEndpoint
  | SocketIoEndpoint

definition api :: "segment list \<Rightarrow> segment list" where
  "api segs = Lit ''api'' # Lit ''v1'' # segs"

definition tasks_id :: "segment list \<Rightarrow> segment list" where
  "tasks_id segs = api (Lit ''tasks'' # Wild ''id'' # segs)"

definition users_id :: "segment list \<Rightarrow> segment list" where
  "users_id segs = api (Lit ''users'' # Wild ''id'' # segs)"

definition registerRoutes :: "(pattern \<times> endpoint) list" where
  "registerRoutes =
     [(Pattern (Some ''GET'') [Lit ''health''], Health),
      (Pattern None [Lit ''swagger'', Subtree], Swagger),
      (Pattern (Some ''POST'') (api [Lit ''auth'', Lit ''login'']), LoginEndpoint),
      (Pattern (Some ''POST'') (api [Lit ''auth'', Lit ''register'']), RegisterEndpoint),
      (Pattern (Some ''POST'') (api [Lit ''auth'', Lit ''refresh'']), RefreshEndpoint),
      (Pattern (Some ''POST'') (api [Lit ''auth'', Lit ''logout'']), LogoutEndpoint),
      (Pattern (Some ''POST'') (api [Lit ''auth'', Lit ''change-password'']), ChangePasswordEndpoint),
      (Pattern (Some ''GET'') (api [Lit ''tasks'', Lit ''search'']), SearchEndpoint),
      (Pattern (Some ''GET'') (api [Lit ''tasks'', Lit ''overdue'']), OverdueEndpoint),
      (Pattern (Some ''GET'') (api [Lit ''tasks'']), ListTasksEndpoint),
      (Pattern (Some ''POST'') (api [Lit ''tasks'']), CreateTaskEndpoint),
      (Pattern (Some ''GET'') (tasks_id []), GetTaskEndpoint),
      (Pattern (Some ''PUT'') (tasks_id []), UpdateTaskEndpoint),
      (Pattern (Some ''DELETE'') (tasks_id []), DeleteTaskEndpoint),
      (Pattern (Some ''POST'') (tasks_id [Lit ''assign'']), AssignEndpoint),
      (Pattern (Some ''POST'') (tasks_id [Lit ''unassign'']), UnassignEndpoint),
      (Pattern (Some ''POST'') (tasks_id [Lit ''complete'']), CompleteEndpoint),
      (Pattern (Some ''POST'') (tasks_id [Lit ''archive'']), ArchiveEndpoint),
      (Pattern (Some ''POST'') (tasks_id [Lit ''status'']), StatusEndpoint),
      (Pattern (Some ''POST'') (tasks_id [Lit ''labels'', Wild ''labelId'']), AddLabelEndpoint),
      (Pattern (Some ''DELETE'') (tasks_id [Lit ''labels'', Wild ''labelId'']), RemoveLabelEndpoint),
      (Pattern (Some ''POST'') (tasks_id [Lit ''attachments'']), UploadEndpoint),
      (Pattern (Some ''GET'') (tasks_id [Lit ''attachments'']), ListAttachmentsEndpoint),
      (Pattern (Some ''GET'') (tasks_id [Lit ''attachments'', Wild ''attachmentId'']), DownloadEndpoint),
      (Pattern (Some ''DELETE'') (tasks_id [Lit ''attachments'', Wild ''attachmentId'']),
         DeleteAttachmentEndpoint),
      (Pattern (Some ''GET'') (api [Lit ''labels'']), ListLabelsEndpoint),
      (Pattern (Some ''GET'') (api [Lit ''labels'', Wild ''id'']), GetLabelEndpoint),
      (Pattern (Some ''POST'') (api [Lit ''labels'']), CreateLabelEndpoint),
      (Pattern (Some ''PUT'') (api [Lit ''labels'', Wild ''id'']), UpdateLabelEndpoint),
      (Pattern (Some ''DELETE'') (api [Lit ''labels'', Wild ''id'']), DeleteLabelEndpoint),
      (Pattern (Some ''GET'') (api [Lit ''users'']), ListUsersEndpoint),
      (Pattern (Some ''GET'') (api [Lit ''users'', Lit ''me'']), MeEndpoint),
      (Pattern (Some ''GET'') (users_id []), GetUserEndpoint),
      (Pattern (Some ''PUT'') (users_id []), UpdateUserEndpoint),
      (Pattern (Some ''DELETE'') (users_id []), DeleteUserEndpoint),
      (Pattern (Some ''POST'') (users_id [Lit ''roles'', Wild ''roleId'']), AssignRoleEndpoint),
      (Pattern (Some ''DELETE'') (users_id [Lit ''roles'', Wild ''roleId'']), RemoveRoleEndpoint)]"

text \<open>The routes that \<open>cmd/server/main.go\<close> adds, when Socket.IO could be initialised.\<close>

definition graphql_routes :: "(pattern \<times> endpoint) list" where
  "graphql_routes =
     [(Pattern (Some ''POST'') [Lit ''graphql''], GraphqlPost),
      (Pattern (Some ''GET'') [Lit ''graphql''], GraphqlGet),
      (Pattern (Some ''GET'') [Lit ''graphql'', Lit ''playground''], Playground),
      (Pattern (Some ''GET'') [Lit ''debug'', Lit ''vars''], DebugVars)]"

definition realtime_routes :: "(pattern \<times> endpoint) list" where
  "realtime_routes =
     [(Pattern (Some ''GET'') [Lit ''ws''], WebSocketEndpoint),
      (Pattern (Some ''GET'') [Lit ''events''], EventsEndpoint),
      (Pattern None [Lit ''socket.io'', Subtree], SocketIoEndpoint)]"

definition routes :: "(pattern \<times> endpoint) list" where
  "routes = registerRoutes @ graphql_routes @ realtime_routes"

section \<open>Serving an endpoint\<close>

text \<open>
  What is not code of the repository: the status with which an upgrade to WebSocket is
  refused, if it is; the handlers of third parties; and the status of the redirection to a
  path with a trailing slash.
\<close>

record foreign =
  fo_upgrade :: "response_writer \<Rightarrow> http_request \<Rightarrow> int option"
  fo_serve :: "endpoint \<Rightarrow> response_writer \<Rightarrow> http_request \<Rightarrow> env \<Rightarrow> world \<Rightarrow> finish \<times> world"
  fo_redirect :: int

definition third_party :: "foreign \<Rightarrow> endpoint \<Rightarrow> http_handler" where
  "third_party fo ep rw r e s =
     (let (f, w) = fo_serve fo ep rw r e (sv_world s) in (f, s\<lparr>sv_world := w\<rparr>))"

text \<open>\<open>ServeHTTP\<close> of the WebSocket handler and of the SSE handler, up to their loops.\<close>

definition WebSocket_ServeHTTP :: "foreign \<Rightarrow> http_handler" where
  "WebSocket_ServeHTTP fo rw r e s =
     (case fo_upgrade fo rw r of
        Some status \<Rightarrow> (Status status, s)
      | None \<Rightarrow>
          (case WS_ServeHTTP (sv_hub s) of
             Done h \<Rightarrow> (Status 101, s\<lparr>sv_hub := h\<rparr>)
           | Blocks \<Rightarrow> (Hangs, s)
           | Panics p \<Rightarrow> (Panicked p, s)))"

definition Events_ServeHTTP :: http_handler where
  "Events_ServeHTTP rw r e s =
     (if \<not> rw_flusher rw then (Status 500, s)
      else
        (case SSE_ServeHTTP (sv_sse s) of
           Done b \<Rightarrow> (Status 200, s\<lparr>sv_sse := b\<rparr>)
         | Blocks \<Rightarrow> (Hangs, s)
         | Panics p \<Rightarrow> (Panicked p, s)))"

definition token_of :: "string \<Rightarrow> string" where
  "token_of header = (case split_first CHR '' '' header of [scheme, token] \<Rightarrow> token | _ \<Rightarrow> [])"

fun handle :: "foreign \<Rightarrow> endpoint \<Rightarrow> (string \<Rightarrow> string) \<Rightarrow> http_handler" where
  "handle fo Health v rw r e s = (Status 200, s)"
| "handle fo LoginEndpoint v rw r e s = rest_serve (H_Login (hr_login r)) e s"
| "handle fo RegisterEndpoint v rw r e s = rest_serve (H_Register (hr_create_user r)) e s"
| "handle fo RefreshEndpoint v rw r e s = rest_serve (H_RefreshToken (hr_refresh r)) e s"
| "handle fo LogoutEndpoint v rw r e s =
     rest_serve (withAuth (H_Logout (token_of (hr_authorization r))) (hr_authorization r)) e s"
| "handle fo ChangePasswordEndpoint v rw r e s =
     rest_serve (withAuth (H_ChangePassword (hr_change_password r)) (hr_authorization r)) e s"
| "handle fo SearchEndpoint v rw r e s =
     rest_serve (withAuth (H_SearchTasks (hr_query r) (hr_page r)) (hr_authorization r)) e s"
| "handle fo OverdueEndpoint v rw r e s =
     rest_serve (withAuth (H_OverdueTasks (hr_page r)) (hr_authorization r)) e s"
| "handle fo ListTasksEndpoint v rw r e s =
     rest_serve (withAuth (H_ListTasks (hr_search r) (hr_status r) (hr_priority r) (hr_page r))
       (hr_authorization r)) e s"
| "handle fo CreateTaskEndpoint v rw r e s =
     rest_serve (withPermission ResourceTypeTasks PermissionActionCreate
       (H_CreateTask (hr_create_task r)) (hr_authorization r)) e s"
| "handle fo GetTaskEndpoint v rw r e s =
     rest_serve (withAuth (H_GetTask (v ''id'')) (hr_authorization r)) e s"
| "handle fo UpdateTaskEndpoint v rw r e s =
     rest_serve (withAuth (H_UpdateTask (v ''id'') (hr_update_task r)) (hr_authorization r)) e s"
| "handle fo DeleteTaskEndpoint v rw r e s =
     rest_serve (withAuth (H_DeleteTask (v ''id'')) (hr_authorization r)) e s"
| "handle fo AssignEndpoint v rw r e s =
     rest_serve (withAuth (H_AssignTask (v ''id'') (hr_assignee r)) (hr_authorization r)) e s"
| "handle fo UnassignEndpoint v rw r e s =
     rest_serve (withAuth (H_UnassignTask (v ''id'')) (hr_authorization r)) e s"
| "handle fo CompleteEndpoint v rw r e s =
     rest_serve (withAuth (H_CompleteTask (v ''id'')) (hr_authorization r)) e s"
| "handle fo ArchiveEndpoint v rw r e s =
     rest_serve (withAuth (H_ArchiveTask (v ''id'')) (hr_authorization r)) e s"
| "handle fo StatusEndpoint v rw r e s =
     rest_serve (withAuth (H_ChangeStatus (v ''id'') (hr_new_status r)) (hr_authorization r)) e s"
| "handle fo AddLabelEndpoint v rw r e s =
     rest_serve (withAuth (H_AddLabel (v ''id'') (v ''labelId'')) (hr_authorization r)) e s"
| "handle fo RemoveLabelEndpoint v rw r e s =
     rest_serve (withAuth (H_RemoveLabel (v ''id'') (v ''labelId'')) (hr_authorization r)) e s"
| "handle fo UploadEndpoint v rw r e s =
     rest_serve (withAuth (H_UploadAttachment (v ''id'') (hr_form r)) (hr_authorization r)) e s"
| "handle fo ListAttachmentsEndpoint v rw r e s =
     rest_serve (withAuth (H_ListAttachments (v ''id'')) (hr_authorization r)) e s"
| "handle fo DownloadEndpoint v rw r e s =
     rest_serve (withAuth (H_DownloadAttachment (v ''id'') (v ''attachmentId'')) (hr_authorization r)) e s"
| "handle fo DeleteAttachmentEndpoint v rw r e s =
     rest_serve (withAuth (H_DeleteAttachment (v ''id'') (v ''attachmentId'')) (hr_authorization r)) e s"
| "handle fo ListLabelsEndpoint v rw r e s = rest_serve (withAuth H_ListLabels (hr_authorization r)) e s"
| "handle fo GetLabelEndpoint v rw r e s =
     rest_serve (withAuth (H_GetLabel (v ''id'')) (hr_authorization r)) e s"
| "handle fo CreateLabelEndpoint v rw r e s =
     rest_serve (withAnyRole [RoleAdmin, RoleManager] (H_CreateLabel (hr_create_label r))
       (hr_authorization r)) e s"
| "handle fo UpdateLabelEndpoint v rw r e s =
     rest_serve (withAnyRole [RoleAdmin, RoleManager] (H_UpdateLabel (v ''id'') (hr_update_label r))
       (hr_authorization r)) e s"
| "handle fo DeleteLabelEndpoint v rw r e s =
     rest_serve (withAnyRole [RoleAdmin, RoleManager] (H_DeleteLabel (v ''id'')) (hr_authorization r)) e s"
| "handle fo ListUsersEndpoint v rw r e s =
     rest_serve (withPermission ResourceTypeUsers PermissionActionRead
       (H_ListUsers (hr_search r) (hr_page r)) (hr_authorization r)) e s"
| "handle fo MeEndpoint v rw r e s = rest_serve (withAuth H_Me (hr_authorization r)) e s"
| "handle fo GetUserEndpoint v rw r e s =
     rest_serve (withAuth (H_GetUser (v ''id'')) (hr_authorization r)) e s"
| "handle fo UpdateUserEndpoint v rw r e s =
     rest_serve (withAuth (H_UpdateUser (v ''id'') (hr_update_user r)) (hr_authorization r)) e s"
| "handle fo DeleteUserEndpoint v rw r e s =
     rest_serve (withAuth (H_DeleteUser (v ''id'')) (hr_authorization r)) e s"
| "handle fo AssignRoleEndpoint v rw r e s =
     rest_serve (withPermission ResourceTypeUsers PermissionActionUpdate
       (H_AssignRole (v ''id'') (v ''roleId'')) (hr_authorization r)) e s"
| "handle fo RemoveRoleEndpoint v rw r e s =
     rest_serve (withPermission ResourceTypeUsers PermissionActionUpdate
       (H_RemoveRole (v ''id'') (v ''roleId'')) (hr_authorization r)) e s"
| "handle fo WebSocketEndpoint v rw r e s = WebSocket_ServeHTTP fo rw r e s"
| "handle fo EventsEndpoint v rw r e s = Events_ServeHTTP rw r e s"
| "handle fo ep v rw r e s = third_party fo ep rw r e s"

text \<open>\<open>ServeMux.ServeHTTP\<close> on a cleaned path.\<close>

definition mux_serve :: "foreign \<Rightarrow> http_handler" where
  "mux_serve fo rw r e s =
     (case mux_find routes r of
        Some (p, ep) \<Rightarrow> handle fo ep (path_value p r) rw r e s
      | None \<Rightarrow>
          if mux_find routes (r\<lparr>hr_path := hr_path r @ [[]]\<rparr>) \<noteq> None then (Status (fo_redirect fo), s)
          else if list_ex (\<lambda>(p, h). match_path (pattern_path p) (hr_path r) \<noteq> None) routes
          then (Status 405, s) else (Status 404, s))"

section \<open>Global middleware\<close>

definition CORSMiddleware :: "http_handler \<Rightarrow> http_handler" where
  "CORSMiddleware next rw r e s =
     (if hr_method r = ''OPTIONS'' then (Status 200, s) else next rw r e s)"

definition RequestIDMiddleware :: "http_handler \<Rightarrow> http_handler" where
  "RequestIDMiddleware next rw r e s =
     (if hr_request_id r = [] then
        (case fresh_uuid e (sv_world s) of
           (_, w) \<Rightarrow> next rw r e (s\<lparr>sv_world := w\<rparr>))
      else next rw r e s)"

text \<open>
  \<open>NewResponseWriter\<close>: a struct that embeds the interface \<open>http.ResponseWriter\<close> has the methods
  of that interface only, whatever the dynamic type of the writer it wraps.
\<close>

definition NewResponseWriter :: "response_writer \<Rightarrow> response_writer" where
  "NewResponseWriter rw = \<lparr>rw_flusher = False, rw_hijacker = False\<rparr>"

definition LoggerMiddleware :: "http_handler \<Rightarrow> http_handler" where
  "LoggerMiddleware next rw = next (NewResponseWriter rw)"

definition RecoverMiddleware :: "http_handler \<Rightarrow> http_handler" where
  "RecoverMiddleware next rw r e s =
     (case next rw r e s of
        (Panicked p, s') \<Rightarrow> (Status 500, s')
      | other \<Rightarrow> other)"

definition applyMiddleware :: "http_handler \<Rightarrow> http_handler" where
  "applyMiddleware h =
     CORSMiddleware (RequestIDMiddleware (LoggerMiddleware (RecoverMiddleware h)))"

definition Router_ServeHTTP :: "foreign \<Rightarrow> http_handler" where
  "Router_ServeHTTP fo = applyMiddleware (mux_serve fo)"

section \<open>The table registers\<close>

lemma conflict_stepwise:
  "conflict (Pattern m p) (Pattern n q) =
     (if methods_meet m n then if overlap p q then
        (precedes (Pattern m p) (Pattern n q) \<longleftrightarrow> precedes (Pattern n q) (Pattern m p)) else False else False)"
  by simp

lemma routes_registers: "registers (map fst routes)"
  by (simp add: routes_def registerRoutes_def graphql_routes_def realtime_routes_def api_def tasks_id_def users_id_def
      conflict_stepwise del: conflict.simps)

section \<open>The middleware of internal/auth that the router does not use\<close>

text \<open>\<open>strings.Split(s, sep)\<close> for a separator of one character\<close>

fun split_all :: "char \<Rightarrow> string \<Rightarrow> string list" where
  "split_all c [] = [[]]"
| "split_all c (x # xs) =
     (if x = c then [] # split_all c xs
      else (case split_all c xs of [] \<Rightarrow> [[x]] | part # parts \<Rightarrow> (x # part) # parts))"

definition Authenticate :: "'a handler_fun \<Rightarrow> string \<Rightarrow> 'a response go" where
  "Authenticate next authHeader =
     (if authHeader = [] then refuse 401
      else
        (case split_all CHR '' '' authHeader of
           [scheme, token] \<Rightarrow>
             if ToLower_ascii scheme \<noteq> ''bearer'' then refuse 401
             else
               andthen (attempt (ValidateToken token)) (\<lambda>r.
               case r of
                 Err _ \<Rightarrow> refuse 401
               | Panic p \<Rightarrow> panic p
               | Ok claims \<Rightarrow> next (Some claims))
         | _ \<Rightarrow> refuse 401))"

definition AuthenticateOptional :: "'a handler_fun \<Rightarrow> string \<Rightarrow> 'a response go" where
  "AuthenticateOptional next authHeader =
     (if authHeader = [] then next None
      else
        (case split_all CHR '' '' authHeader of
           [scheme, token] \<Rightarrow>
             if ToLower_ascii scheme \<noteq> ''bearer'' then next None
             else
               andthen (attempt (ValidateToken token)) (\<lambda>r.
               case r of
                 Err _ \<Rightarrow> next None
               | Panic p \<Rightarrow> panic p
               | Ok claims \<Rightarrow> next (Some claims))
         | _ \<Rightarrow> next None))"

lemma split_all_absent: "c \<notin> set s \<Longrightarrow> split_all c s = [s]"
  by (induction s) auto

lemma split_all_first:
  "split_all c s = (if c \<in> set s then takeWhile (\<lambda>x. x \<noteq> c) s # split_all c (tl (dropWhile (\<lambda>x. x \<noteq> c) s))
     else [s])"
  by (induction s) auto

text \<open>Both read a header with a single space alike; with more, \<open>Authenticate\<close> refuses it.\<close>

lemma Authenticate_withAuth:
  assumes "CHR '' '' \<notin> set (tl (dropWhile (\<lambda>x. x \<noteq> CHR '' '') header))"
  shows "Authenticate h header = withAuth h header"
  using assms
  by (simp add: Authenticate_def withAuth_def split_first_def split_all_first [of _ header] split_all_absent)

end
