(* ===== verification/Server.thy ===== *)
theory Server
  imports Router Transports
begin

text \<open>
  Properties of the HTTP server as a whole: its routing is unambiguous, what it serves without
  a token, that the realtime endpoints refuse every request, and that no request breaks the
  invariants of the tables.
\<close>

section \<open>What a request needs and what it keeps\<close>

definition carries_token :: "string \<Rightarrow> env \<Rightarrow> world \<Rightarrow> bool" where
  "carries_token header e w \<longleftrightarrow>
     (\<exists>scheme token claims w0 w1. split_first CHR '' '' header = [scheme, token]
        \<and> ToLower_ascii scheme = ''bearer'' \<and> unread w w0 \<and> ValidateToken token e w0 = (Ok claims, w1))"

lemma unread_refl [simp]: "unread w w"
  and unread_trans: "unread w w1 \<Longrightarrow> unread w1 w2 \<Longrightarrow> unread w w2"
  by (simp_all add: unread_def)

lemma withAuth_without_token:
  assumes "withAuth h header e w = (r, w')" "unread w0 w" "\<not> carries_token header e w0"
  shows "unread w0 w' \<and> (r = Ok (Refuse 401 ''UNAUTHORIZED'') \<or> (\<exists>p. r = Panic p))"
proof -
  have "unread w0 w1" if "ValidateToken token e w = (x, w1)" for token x w1
    using that assms(2) ValidateToken_unread unread_trans by blast
  moreover have "ValidateToken token e w \<noteq> (Ok claims, w1)"
    if "split_first CHR '' '' header = [scheme, token]" "ToLower_ascii scheme = ''bearer''" for scheme token claims w1
    using that assms(2,3) by (auto simp: carries_token_def)
  ultimately show ?thesis
    using assms(1,2)
    by (auto simp: withAuth_def refuse_def statusToCode_def andthen_def attempt_def
        split: list.splits if_splits prod.splits result.splits)
qed

lemma rest_without_token:
  assumes "rest_serve (withAuth h header) e s = (f, s')" "unread w0 (sv_world s)"
    "\<not> carries_token header e w0"
  shows "unread w0 (sv_world s') \<and> sv_sse s' = sv_sse s \<and> sv_hub s' = sv_hub s
    \<and> (f = Status 401 \<or> (\<exists>p. f = Panicked p))"
proof -
  obtain r w1 where run: "withAuth h header e (sv_world s) = (r, w1)" by fastforce
  from withAuth_without_token [OF this assms(2,3)] run assms(1) show ?thesis
    by (auto simp: rest_serve_def)
qed

fun public :: "endpoint \<Rightarrow> bool" where
  "public ep = (ep \<in> {Health, Swagger, LoginEndpoint, RegisterEndpoint, RefreshEndpoint, GraphqlPost,
     GraphqlGet, Playground, DebugVars, WebSocketEndpoint, EventsEndpoint, SocketIoEndpoint})"

lemma handle_without_token:
  assumes "handle fo ep v rw r e s = (f, s')" "\<not> public ep" "unread w0 (sv_world s)"
    "\<not> carries_token (hr_authorization r) e w0"
  shows "unread w0 (sv_world s') \<and> sv_sse s' = sv_sse s \<and> sv_hub s' = sv_hub s
    \<and> (f = Status 401 \<or> (\<exists>p. f = Panicked p))"
  using assms
  by (cases ep) (simp_all add: withPermission_def withAnyRole_def,
      (erule rest_without_token, assumption, assumption)+)

text \<open>The routes below \<open>/api/v1\<close> other than signing in, registering and refreshing are protected.\<close>

lemma match_path_Some:
  "match_path [] xs = Some b \<longleftrightarrow> xs = [] \<and> b = []"
  "match_path (Lit s # ps) xs = Some b \<longleftrightarrow> (\<exists>xs'. xs = s # xs' \<and> match_path ps xs' = Some b)"
  by (cases xs; auto)+

lemma api_routes_protected:
  assumes "(p, ep) \<in> set routes" "matches r p" "hr_path r = ''api'' # ''v1'' # segs" "public ep"
  shows "hr_method r = ''POST'' \<and> segs \<in> {[''auth'', ''login''], [''auth'', ''register''], [''auth'', ''refresh'']}"
  using assms
  by (auto simp: routes_def registerRoutes_def graphql_routes_def realtime_routes_def api_def match_path_Some)

lemma fresh_uuid_unread: "fresh_uuid e w = (x, w') \<Longrightarrow> unread w w'"
  by (auto simp: fresh_uuid_def unread_def)

text \<open>The middleware hands every request on except OPTIONS, with a writer without extensions.\<close>

lemma middleware_run:
  assumes "Router_ServeHTTP fo rw r e s = (f, s')" "hr_method r \<noteq> ''OPTIONS''"
  obtains w g where "unread (sv_world s) w"
    "mux_serve fo (NewResponseWriter rw) r e (s\<lparr>sv_world := w\<rparr>) = (g, s')"
    "f = (case g of Panicked p \<Rightarrow> Status 500 | _ \<Rightarrow> g)"
proof -
  obtain x w1 where "fresh_uuid e (sv_world s) = (x, w1)" by fastforce
  with assms that [of w1] that [of "sv_world s"] fresh_uuid_unread [of e "sv_world s" x w1] show ?thesis
    by (auto simp: Router_ServeHTTP_def applyMiddleware_def CORSMiddleware_def RequestIDMiddleware_def
        LoggerMiddleware_def RecoverMiddleware_def split: if_splits prod.splits finish.splits)
qed

section \<open>What every handler keeps\<close>

lemma respond_holds [keeps]: "holds I m (\<lambda>_. True) \<Longrightarrow> holds I (respond status m) (\<lambda>_. True)"
  unfolding respond_def by (intro keeps TrueI)

lemma refuse_holds [keeps]: "holds I (refuse status) (\<lambda>_. True)"
  unfolding refuse_def by (intro keeps TrueI)

lemma path_id_holds [keeps]:
  "(\<And>i. holds I (f i) (\<lambda>_. True)) \<Longrightarrow> holds I (path_id s f) (\<lambda>_. True)"
  unfolding path_id_def by (intro keeps TrueI)

lemma with_body_holds [keeps]:
  "(\<And>b. holds I (f b) (\<lambda>_. True)) \<Longrightarrow> holds I (with_body body f) (\<lambda>_. True)"
  unfolding with_body_def by (intro keeps TrueI)

lemma checkACL_holds [keeps]:
  "holds (on_db P) next (\<lambda>_. True) \<Longrightarrow> holds (on_db P) (checkACL ctx rt i perm next) (\<lambda>_. True)"
  unfolding checkACL_def by (intro keeps TrueI)

context creating_property
begin

lemma withAuth_holds:
  assumes "\<And>ctx. holds consistent (h ctx) (\<lambda>_. True)"
  shows "holds consistent (withAuth h header) (\<lambda>_. True)"
proof -
  have "holds consistent (ValidateToken t) (\<lambda>_. True)" for t
    using perform_always [of "CallValidate t"] by (intro keeps)
  then show ?thesis
    unfolding withAuth_def by (intro keeps TrueI assms | split list.split | intro allI impI conjI)+
qed

lemma withPermission_holds:
  "(\<And>ctx. holds consistent (h ctx) (\<lambda>_. True)) \<Longrightarrow>
     holds consistent (withPermission rs ac h header) (\<lambda>_. True)"
  unfolding withPermission_def RequirePermission_def by (intro withAuth_holds keeps TrueI)

lemma withAnyRole_holds:
  "(\<And>ctx. holds consistent (h ctx) (\<lambda>_. True)) \<Longrightarrow>
     holds consistent (withAnyRole names h header) (\<lambda>_. True)"
  unfolding withAnyRole_def RequireAnyRole_def by (intro withAuth_holds keeps TrueI)

abbreviation sound :: "server \<Rightarrow> bool" where
  "sound s \<equiv> db_inv (w_db (sv_world s)) \<and> Q (w_db (sv_world s))"

lemma rest_keeps:
  assumes "rest_serve h e s = (f, s')" "sound s" "holds consistent h (\<lambda>_. True)"
  shows "sound s'"
proof -
  obtain x w where run: "h e (sv_world s) = (x, w)" by fastforce
  from holdsD [OF assms(3) _ run] assms(1,2) run show ?thesis
    by (auto simp: rest_serve_def on_db_def split: result.splits)
qed

lemma public_handlers_hold:
  "holds consistent (H_Login b1) (\<lambda>_. True)" "holds consistent (H_Register b2) (\<lambda>_. True)"
  "holds consistent (H_RefreshToken b3) (\<lambda>_. True)"
  unfolding H_Login_def H_Register_def H_RefreshToken_def by (intro keeps)+

lemma session_handlers_hold:
  "holds consistent (H_Logout t ctx) (\<lambda>_. True)" "holds consistent (H_ChangePassword b ctx) (\<lambda>_. True)"
  unfolding H_Logout_def H_ChangePassword_def by (intro keeps)+

lemma task_handlers_hold:
  "holds consistent (H_CreateTask b1 ctx) (\<lambda>_. True)" "holds consistent (H_GetTask i ctx) (\<lambda>_. True)"
  "holds consistent (H_UpdateTask i b2 ctx) (\<lambda>_. True)" "holds consistent (H_DeleteTask i ctx) (\<lambda>_. True)"
  "holds consistent (H_AssignTask i b3 ctx) (\<lambda>_. True)" "holds consistent (H_UnassignTask i ctx) (\<lambda>_. True)"
  "holds consistent (H_CompleteTask i ctx) (\<lambda>_. True)" "holds consistent (H_ArchiveTask i ctx) (\<lambda>_. True)"
  "holds consistent (H_ChangeStatus i b4 ctx) (\<lambda>_. True)"
  "holds consistent (H_AddLabel i l ctx) (\<lambda>_. True)" "holds consistent (H_RemoveLabel i l ctx) (\<lambda>_. True)"
  unfolding H_CreateTask_def H_GetTask_def H_UpdateTask_def H_DeleteTask_def H_AssignTask_def
    H_UnassignTask_def H_CompleteTask_def H_ArchiveTask_def H_ChangeStatus_def H_AddLabel_def
    H_RemoveLabel_def
  by (intro keeps)+

lemma list_handlers_hold:
  "holds consistent (H_ListTasks s1 s2 s3 q ctx) (\<lambda>_. True)"
  "holds consistent (H_SearchTasks s1 q ctx) (\<lambda>_. True)"
  "holds consistent (H_OverdueTasks q ctx) (\<lambda>_. True)"
  "holds consistent (H_ListUsers s1 q ctx) (\<lambda>_. True)"
  unfolding H_ListTasks_def Let_def H_SearchTasks_def H_OverdueTasks_def H_ListUsers_def
  by (intro keeps)+

lemma attachment_handlers_hold:
  "holds consistent (H_UploadAttachment i form ctx) (\<lambda>_. True)"
  "holds consistent (H_DownloadAttachment i a ctx) (\<lambda>_. True)"
  "holds consistent (H_ListAttachments i ctx) (\<lambda>_. True)"
  "holds consistent (H_DeleteAttachment i a ctx) (\<lambda>_. True)"
  unfolding H_UploadAttachment_def H_DownloadAttachment_def H_ListAttachments_def
    H_DeleteAttachment_def
  by (cases form; simp only: upload.case; intro keeps) (intro keeps)+

lemma user_handlers_hold:
  "holds consistent (H_Me ctx) (\<lambda>_. True)" "holds consistent (H_GetUser i ctx) (\<lambda>_. True)"
  "holds consistent (H_UpdateUser i b ctx) (\<lambda>_. True)" "holds consistent (H_DeleteUser i ctx) (\<lambda>_. True)"
  "holds consistent (H_AssignRole i r ctx) (\<lambda>_. True)" "holds consistent (H_RemoveRole i r ctx) (\<lambda>_. True)"
  unfolding H_Me_def H_GetUser_def H_UpdateUser_def H_DeleteUser_def H_AssignRole_def H_RemoveRole_def
  by (intro keeps)+

lemma label_handlers_hold:
  "holds consistent (H_ListLabels ctx) (\<lambda>_. True)" "holds consistent (H_GetLabel i ctx) (\<lambda>_. True)"
  "holds consistent (H_CreateLabel b1 ctx) (\<lambda>_. True)" "holds consistent (H_UpdateLabel i b2 ctx) (\<lambda>_. True)"
  "holds consistent (H_DeleteLabel i ctx) (\<lambda>_. True)"
  unfolding H_ListLabels_def H_GetLabel_def H_CreateLabel_def H_UpdateLabel_def H_DeleteLabel_def
  by (intro keeps)+

lemmas handlers_hold = public_handlers_hold session_handlers_hold task_handlers_hold list_handlers_hold
  attachment_handlers_hold user_handlers_hold label_handlers_hold

lemma handle_keeps:
  assumes "handle fo ep v rw r e s = (f, s')" "sound s"
    and "\<And>ep rw r e w. db_inv (w_db w) \<and> Q (w_db w) \<Longrightarrow>
      db_inv (w_db (snd (fo_serve fo ep rw r e w))) \<and> Q (w_db (snd (fo_serve fo ep rw r e w)))"
  shows "sound s'"
proof -
  have other: "third_party fo ep rw r e s = (f, s') \<Longrightarrow> sound s'" for ep
    using assms(3) [OF assms(2), of ep rw r e] by (auto simp: third_party_def split: prod.splits)
  note serve = rest_keeps [OF _ assms(2)]
  show ?thesis
    using assms(1)
    by (cases ep; simp only: handle.simps)
      (erule serve other | intro handlers_hold withAuth_holds withPermission_holds withAnyRole_holds
        | use assms(2) in \<open>force simp: WebSocket_ServeHTTP_def Events_ServeHTTP_def split: option.splits outcome.splits if_splits\<close>)+
qed

lemma server_keeps:
  assumes "sound s" "Router_ServeHTTP fo rw r e s = (f, s')"
    and "\<And>ep rw r e w. db_inv (w_db w) \<and> Q (w_db w) \<Longrightarrow>
      db_inv (w_db (snd (fo_serve fo ep rw r e w))) \<and> Q (w_db (snd (fo_serve fo ep rw r e w)))"
  shows "sound s'"
proof (cases "hr_method r = ''OPTIONS''")
  case True
  with assms(1,2) show ?thesis
    by (simp add: Router_ServeHTTP_def applyMiddleware_def CORSMiddleware_def)
next
  case False
  obtain w g where w: "unread (sv_world s) w"
    and run: "mux_serve fo (NewResponseWriter rw) r e (s\<lparr>sv_world := w\<rparr>) = (g, s')"
    using middleware_run [OF assms(2) False] by metis
  have "sound (s\<lparr>sv_world := w\<rparr>)" using assms(1) w by (simp add: unread_def)
  with run show ?thesis
    by (auto simp: mux_serve_def split: option.splits if_splits dest: handle_keeps [OF _ _ assms(3)])
qed

end

section \<open>An idle server and plain requests\<close>

definition plain_request :: "string \<Rightarrow> string list \<Rightarrow> string \<Rightarrow> http_request" where
  "plain_request method path header =
     \<lparr>hr_method = method, hr_path = path, hr_authorization = header, hr_request_id = ''r1'',
      hr_page = \<lparr>pq_page = [], pq_size = [], pq_sort_by = [], pq_sort_desc = []\<rparr>,
      hr_search = [], hr_query = [], hr_status = [], hr_priority = [], hr_form = FormError 400,
      hr_create_task = None, hr_update_task = None, hr_assignee = None, hr_new_status = None,
      hr_login = None, hr_create_user = None, hr_update_user = None, hr_refresh = None,
      hr_change_password = None, hr_create_label = None, hr_update_label = None\<rparr>"

definition idle_server :: server where
  "idle_server = \<lparr>sv_world = example_world, sv_sse = SSE_NewBroker, sv_hub = NewHub\<rparr>"

definition plain_foreign :: foreign where
  "plain_foreign =
     \<lparr>fo_upgrade = (\<lambda>rw r. if rw_hijacker rw then None else Some 500),
      fo_serve = (\<lambda>ep rw r e w. (Status 200, w)), fo_redirect = 307\<rparr>"

definition full_writer :: response_writer where
  "full_writer = \<lparr>rw_flusher = True, rw_hijacker = True\<rparr>"

section \<open>Properties\<close>

text \<open>
  The server starts and routes without ambiguity: no two registered patterns conflict, so
  registration does not panic, and the route that serves a request matches it and takes precedence over every other
  route that matches; a request is refused by the mux only when no route matches it.
\<close>

theorem routing_unambiguous:
  "registers (map fst routes)
   \<and> (case mux_find routes r of
        None \<Rightarrow> \<forall>(q, ep)\<in>set routes. \<not> matches r q
      | Some (p, ep) \<Rightarrow> (p, ep) \<in> set routes \<and> matches r p
          \<and> (\<forall>(q, ep')\<in>set routes. matches r q \<longrightarrow> (q, ep') \<noteq> (p, ep) \<longrightarrow> precedes p q))"
  using routes_registers mux_find_precedes [OF routes_registers, of r] mux_find_None [of routes r]
  by (auto split: option.split)

theorem routing_unambiguous_witness:
  "\<exists>p. mux_find routes (plain_request ''GET'' [''api'', ''v1'', ''tasks'', ''search''] []) = Some (p, SearchEndpoint)
     \<and> precedes p (Pattern (Some ''GET'') (tasks_id []))"
proof -
  let ?r = "plain_request ''GET'' [''api'', ''v1'', ''tasks'', ''search''] []"
  obtain p where p: "mux_find routes ?r = Some (p, SearchEndpoint)"
    by (simp add: mux_find_def plain_request_def routes_def registerRoutes_def graphql_routes_def realtime_routes_def api_def
        tasks_id_def users_id_def)
  have "(Pattern (Some ''GET'') (tasks_id []), GetTaskEndpoint) \<in> set routes"
    "matches ?r (Pattern (Some ''GET'') (tasks_id []))"
    by (simp_all add: routes_def registerRoutes_def plain_request_def tasks_id_def api_def)
  then show ?thesis using routing_unambiguous [of ?r] p by fastforce
qed

text \<open>
  C3. Nothing below \<open>/api/v1\<close> is served without an accepted bearer token, signing in, registering and refreshing
  apart: the answer is 401, a refusal of the mux or 500, and the tables, the cache and the
  objects are as before.
\<close>

theorem api_needs_token:
  assumes "Router_ServeHTTP fo rw r e s = (f, s')"
    and "hr_path r = ''api'' # ''v1'' # segs"
    and "\<not> (hr_method r = ''POST'' \<and> segs \<in> {[''auth'', ''login''], [''auth'', ''register''], [''auth'', ''refresh'']})"
    and "\<not> carries_token (hr_authorization r) e (sv_world s)"
  shows "unread (sv_world s) (sv_world s') \<and> sv_sse s' = sv_sse s \<and> sv_hub s' = sv_hub s
    \<and> (hr_method r = ''OPTIONS''
       \<or> f \<in> {Status 401, Status 404, Status 405, Status 500, Status (fo_redirect fo)})"
proof (cases "hr_method r = ''OPTIONS''")
  case True
  with assms(1) show ?thesis
    by (simp add: Router_ServeHTTP_def applyMiddleware_def CORSMiddleware_def)
next
  case False
  obtain w g where w: "unread (sv_world s) w"
    and run: "mux_serve fo (NewResponseWriter rw) r e (s\<lparr>sv_world := w\<rparr>) = (g, s')"
    and f: "f = (case g of Panicked p \<Rightarrow> Status 500 | _ \<Rightarrow> g)"
    using middleware_run [OF assms(1) False] .
  show ?thesis
  proof (cases "mux_find routes r")
    case None
    with run w f show ?thesis by (auto simp: mux_serve_def split: if_splits)
  next
    case (Some found)
    obtain p ep where found: "found = (p, ep)" by fastforce
    have "\<not> public ep"
      using mux_find_precedes [OF routes_registers Some [unfolded found]]
        api_routes_protected [OF _ _ assms(2)] assms(3) by blast
    with handle_without_token [of fo ep "path_value p r" "NewResponseWriter rw" r e
        "s\<lparr>sv_world := w\<rparr>" g s' "sv_world s"]
      run Some found w assms(4) f show ?thesis
      by (auto simp: mux_serve_def simp del: public.simps)
  qed
qed

theorem api_needs_token_witness:
  "fst (Router_ServeHTTP plain_foreign full_writer
     (plain_request ''DELETE'' [''api'', ''v1'', ''tasks'', ''t1''] []) example_env idle_server)
       \<in> {Status 401, Status 404, Status 405, Status 500, Status 307}"
proof -
  let ?r = "plain_request ''DELETE'' [''api'', ''v1'', ''tasks'', ''t1''] []"
  obtain f s' where run: "Router_ServeHTTP plain_foreign full_writer ?r example_env idle_server = (f, s')"
    by fastforce
  have "\<not> carries_token (hr_authorization ?r) example_env (sv_world idle_server)"
    by (simp add: carries_token_def plain_request_def split_first_def)
  with api_needs_token [OF run, of "[''tasks'', ''t1'']"] run show ?thesis
    by (simp add: plain_request_def plain_foreign_def)
qed

text \<open>
  C27. The realtime endpoints do not work behind the router: the middleware that logs requests
  wraps the response writer in a struct without the methods to flush and to hijack, so every
  request for the event stream is answered 500, and, since an upgrade to WebSocket needs to hijack the
  connection, every request for a WebSocket is refused; no client ever reaches the broker or the hub.
\<close>

theorem realtime_endpoints_dead:
  assumes "Router_ServeHTTP fo rw r e s = (f, s')" and "hr_method r = ''GET''"
    and "\<And>rw r. \<not> rw_hijacker rw \<Longrightarrow> fo_upgrade fo rw r \<noteq> None"
  shows "(hr_path r = [''events''] \<longrightarrow> f = Status 500 \<and> sv_sse s' = sv_sse s)
    \<and> (hr_path r = [''ws''] \<longrightarrow>
         fo_upgrade fo (NewResponseWriter rw) r \<noteq> None \<and> sv_hub s' = sv_hub s)"
proof -
  have "hr_method r \<noteq> ''OPTIONS''" using assms(2) by simp
  then obtain w g where run: "mux_serve fo (NewResponseWriter rw) r e (s\<lparr>sv_world := w\<rparr>) = (g, s')"
    and f: "f = (case g of Panicked p \<Rightarrow> Status 500 | _ \<Rightarrow> g)"
    using middleware_run [OF assms(1)] by metis
  have found: "hr_path r = [''events''] \<Longrightarrow> \<exists>p. mux_find routes r = Some (p, EventsEndpoint)"
    "hr_path r = [''ws''] \<Longrightarrow> \<exists>p. mux_find routes r = Some (p, WebSocketEndpoint)"
    using assms(2)
    by (simp_all add: mux_find_def routes_def registerRoutes_def graphql_routes_def realtime_routes_def api_def tasks_id_def users_id_def)
  show ?thesis
    using run f found assms(3) [of "NewResponseWriter rw" r]
    by (auto simp: mux_serve_def Events_ServeHTTP_def WebSocket_ServeHTTP_def NewResponseWriter_def)
qed

theorem realtime_endpoints_dead_witness:
  "fst (Router_ServeHTTP plain_foreign full_writer (plain_request ''GET'' [''events''] [])
     example_env idle_server) = Status 500"
proof -
  let ?r = "plain_request ''GET'' [''events''] []"
  obtain f s' where run: "Router_ServeHTTP plain_foreign full_writer ?r example_env idle_server = (f, s')"
    by fastforce
  have "fo_upgrade plain_foreign rw r \<noteq> None" if "\<not> rw_hijacker rw" for rw r
    using that by (simp add: plain_foreign_def)
  with realtime_endpoints_dead [OF run] run show ?thesis by (simp add: plain_request_def)
qed



end
