(* ===== verification/DevSeed.thy ===== *)
theory DevSeed
  imports Examples
begin

text \<open>
  The development data of \<open>internal/infrastructure/database/seed/dev.go\<close>: the program
  \<open>cmd/seed\<close> seeds the system roles in one transaction and four users, three labels and three
  tasks in a second one.  It reaches the tables through the generated queries, not through the
  use cases, so none of the guarantees of the use cases cover it.

  \<open>SeedFlows\<close> and \<open>SeedRuns\<close> show what a seeding leaves in the tables and when it returns.
\<close>

section \<open>The data\<close>

record userSeed =
  us_email :: string
  us_password :: string
  us_name :: string
  us_role :: string

record labelSeed =
  ls_name :: string
  ls_color :: string

record taskSeed =
  ts_id :: uuid
  ts_title :: string
  ts_description :: string
  ts_status :: string
  ts_priority :: string
  ts_creator :: string
  ts_assignee :: string
  ts_labels :: "string list"
  ts_due_days :: int

definition devUsers :: "userSeed list" where
  "devUsers =
     [\<lparr>us_email = ''admin.seed@taskmanager.local'', us_password = ''password123'',
       us_name = ''Seed Admin'', us_role = RoleAdmin\<rparr>,
      \<lparr>us_email = ''manager.seed@taskmanager.local'', us_password = ''password123'',
       us_name = ''Seed Manager'', us_role = RoleManager\<rparr>,
      \<lparr>us_email = ''member.seed@taskmanager.local'', us_password = ''password123'',
       us_name = ''Seed Member'', us_role = RoleMember\<rparr>,
      \<lparr>us_email = ''viewer.seed@taskmanager.local'', us_password = ''password123'',
       us_name = ''Seed Viewer'', us_role = RoleViewer\<rparr>]"

definition devLabels :: "labelSeed list" where
  "devLabels =
     [\<lparr>ls_name = ''backend'', ls_color = ''#2563EB''\<rparr>,
      \<lparr>ls_name = ''frontend'', ls_color = ''#7C3AED''\<rparr>,
      \<lparr>ls_name = ''urgent'', ls_color = ''#DC2626''\<rparr>]"

definition devTasks :: "taskSeed list" where
  "devTasks =
     [\<lparr>ts_id = 0x11111111111111111111111111111111,
       ts_title = ''Seed task: stabilize API boot flow'',
       ts_description = ''Verify the local stack starts cleanly and document any environment-specific issues.'',
       ts_status = ''IN_PROGRESS'', ts_priority = ''HIGH'',
       ts_creator = ''admin.seed@taskmanager.local'',
       ts_assignee = ''manager.seed@taskmanager.local'',
       ts_labels = [''backend'', ''urgent''], ts_due_days = 2\<rparr>,
      \<lparr>ts_id = 0x22222222222222222222222222222222,
       ts_title = ''Seed task: prepare dashboard UI polish'',
       ts_description = ''Review current task board usability and capture a small set of UI refinements.'',
       ts_status = ''TODO'', ts_priority = ''MEDIUM'',
       ts_creator = ''manager.seed@taskmanager.local'',
       ts_assignee = ''member.seed@taskmanager.local'',
       ts_labels = [''frontend''], ts_due_days = 5\<rparr>,
      \<lparr>ts_id = 0x33333333333333333333333333333333,
       ts_title = ''Seed task: audit read-only access'',
       ts_description = ''Check the viewer role can browse data without getting write permissions.'',
       ts_status = ''IN_REVIEW'', ts_priority = ''LOW'',
       ts_creator = ''admin.seed@taskmanager.local'',
       ts_assignee = ''viewer.seed@taskmanager.local'',
       ts_labels = [''backend''], ts_due_days = 7\<rparr>]"

section \<open>The steps\<close>

text \<open>\<open>if err := m; err != nil { return fmt.Errorf("msg: %w", err) }\<close>\<close>

definition wrapping :: "string \<Rightarrow> 'a go \<Rightarrow> 'a go" where
  "wrapping msg m =
     andthen (attempt m) (\<lambda>r.
     case r of
       Ok x \<Rightarrow> ret x
     | Err err \<Rightarrow> raise (Errorf msg (Some err))
     | Panic p \<Rightarrow> panic p)"

definition quoted :: "string \<Rightarrow> string" where
  "quoted s = ''\"'' @ s @ ''\"''"

text \<open>The write of \<open>upsertUser\<close>: a new row, or the row found under the address.\<close>

definition store_user :: "userSeed \<Rightarrow> user_row option \<Rightarrow> user \<Rightarrow> uuid go" where
  "store_user seedUser existing u =
     (case existing of
        None \<Rightarrow>
          andthen (wrapping (''create user '' @ quoted (us_email seedUser))
            (sql (q_CreateUser
               \<lparr>ur_id = u_id u, ur_email = u_email u, ur_password_hash = u_password_hash u,
                ur_name = u_name u, ur_created = u_created u, ur_updated = u_updated u\<rparr>))) (\<lambda>_.
          ret (u_id u))
      | Some existingUser \<Rightarrow>
          andthen (wrapping (''update user '' @ quoted (us_email seedUser))
            (sql (q_UpdateUser (ur_id existingUser) (us_email seedUser) (us_name seedUser)
                    (u_password_hash u)))) (\<lambda>_.
          ret (ur_id existingUser)))"

definition upsertUser :: "userSeed \<Rightarrow> uuid go" where
  "upsertUser seedUser =
     andthen (wrapping (''load user '' @ quoted (us_email seedUser))
                (no_rows_is_nil (sql (q_GetUserByEmail (us_email seedUser))))) (\<lambda>existing.
     andthen (wrapping (''build user '' @ quoted (us_email seedUser))
                (new_user \<lparr>cui_email = us_email seedUser, cui_password = us_password seedUser,
                           cui_name = us_name seedUser\<rparr>)) (\<lambda>u.
     store_user seedUser existing u))"

text \<open>One round of the loop over \<open>devUsers\<close>; the map goes from e-mail addresses to ids.\<close>

definition seed_user :: "userSeed \<Rightarrow> (string \<rightharpoonup> uuid) \<Rightarrow> (string \<rightharpoonup> uuid) go" where
  "seed_user seedUser userIDs =
     andthen (upsertUser seedUser) (\<lambda>userID.
     andthen (wrapping (''load role '' @ quoted (us_role seedUser))
                (sql (q_GetRoleByName (us_role seedUser)))) (\<lambda>role.
     andthen (wrapping (''assign role '' @ quoted (us_role seedUser) @ '' to '' @ quoted (us_email seedUser))
                (sql (q_AssignRoleToUser userID (rr_id role)))) (\<lambda>_.
     ret (userIDs(us_email seedUser \<mapsto> userID)))))"

text \<open>\<open>existingByName[row.Name] = row\<close>: a later row of the same name replaces an earlier one.\<close>

fun by_name :: "label list \<Rightarrow> (string \<rightharpoonup> label) \<Rightarrow> (string \<rightharpoonup> label)" where
  "by_name [] m = m"
| "by_name (row # rows) m = by_name rows (m(l_name row \<mapsto> row))"

definition seed_label ::
  "(string \<rightharpoonup> label) \<Rightarrow> labelSeed \<Rightarrow> (string \<rightharpoonup> uuid) \<Rightarrow> (string \<rightharpoonup> uuid) go" where
  "seed_label existingByName seedLabel labelIDs =
     andthen (asks e_pg_lower) (\<lambda>low.
     case existingByName (ls_name seedLabel) of
       Some existingLabel \<Rightarrow>
         andthen (wrapping (''update label '' @ quoted (ls_name seedLabel))
           (sql (q_UpdateLabel low (l_id existingLabel) (ls_name seedLabel) (ls_color seedLabel)))) (\<lambda>_.
         ret (labelIDs(ls_name seedLabel \<mapsto> l_id existingLabel)))
     | None \<Rightarrow>
         andthen fresh_uuid (\<lambda>i.
         andthen now_utc (\<lambda>now.
         andthen (wrapping (''build label '' @ quoted (ls_name seedLabel))
                    (lift (NewLabel (ls_name seedLabel) (ls_color seedLabel) i now))) (\<lambda>l.
         andthen (wrapping (''create label '' @ quoted (ls_name seedLabel))
                    (sql (q_CreateLabel low l))) (\<lambda>createdLabel.
         ret (labelIDs(ls_name seedLabel \<mapsto> l_id createdLabel)))))))"

definition upsertLabels :: "(string \<rightharpoonup> uuid) go" where
  "upsertLabels =
     andthen (asks e_pg_collate) (\<lambda>collate.
     andthen (wrapping ''list labels'' (sql (q_ListLabels collate))) (\<lambda>rows.
     fold_go devLabels (seed_label (by_name rows Map.empty)) Map.empty))"

text \<open>
  \<open>INSERT INTO tasks ... ON CONFLICT (id) DO UPDATE\<close>: an existing row of the id keeps its
  creation time and takes everything else from the seed.
\<close>

definition q_UpsertTask :: "task_row \<Rightarrow> unit sql" where
  "q_UpsertTask arg now d =
     (let row = arg\<lparr>tr_due := map_option pg_timestamptz (tr_due arg),
                    tr_created := pg_timestamptz now, tr_updated := pg_timestamptz now\<rparr>
      in if tr_creator arg \<notin> user_ids d
            \<or> (case tr_assignee arg of None \<Rightarrow> False | Some a \<Rightarrow> a \<notin> user_ids d)
         then (Err pg_foreign_key_violation, d)
         else case find (\<lambda>r. tr_id r = tr_id arg) (db_tasks d) of
           None \<Rightarrow> (Ok (), d\<lparr>db_tasks := db_tasks d @ [row]\<rparr>)
         | Some old \<Rightarrow>
             (Ok (), d\<lparr>db_tasks := map (\<lambda>r. if tr_id r = tr_id arg
                                           then row\<lparr>tr_created := tr_created old\<rparr> else r) (db_tasks d)\<rparr>))"

definition seed_row :: "taskSeed \<Rightarrow> time \<Rightarrow> uuid \<Rightarrow> uuid option \<Rightarrow> task_row" where
  "seed_row seedTask dueDate creatorID assigneeID =
     \<lparr>tr_id = ts_id seedTask, tr_title = ts_title seedTask,
      tr_description = Some (ts_description seedTask), tr_status = ts_status seedTask,
      tr_priority = ts_priority seedTask, tr_due = Some dueDate, tr_assignee = assigneeID,
      tr_creator = creatorID, tr_created = 0, tr_updated = 0\<rparr>"

definition upsertTask :: "taskSeed \<Rightarrow> uuid \<Rightarrow> uuid option \<Rightarrow> unit go" where
  "upsertTask seedTask creatorID assigneeID =
     andthen now_utc (\<lambda>now.
     let dueDate = now + ts_due_days seedTask * (24 * 60 * 60 * second) in
     wrapping (''upsert task '' @ quoted (ts_title seedTask))
       (sql (q_UpsertTask (seed_row seedTask dueDate creatorID assigneeID))))"

text \<open>One round of the loop over \<open>devTasks\<close>.\<close>

definition seed_task :: "(string \<rightharpoonup> uuid) \<Rightarrow> (string \<rightharpoonup> uuid) \<Rightarrow> taskSeed \<Rightarrow> unit go" where
  "seed_task userIDs labelIDs seedTask =
     (case userIDs (ts_creator seedTask) of
        None \<Rightarrow> raise (Errorf (''missing creator '' @ quoted (ts_creator seedTask)) None)
      | Some creatorID \<Rightarrow>
          andthen
            (if ts_assignee seedTask = [] then ret None
             else case userIDs (ts_assignee seedTask) of
                 None \<Rightarrow> raise (Errorf (''missing assignee '' @ quoted (ts_assignee seedTask)) None)
               | Some i \<Rightarrow> ret (Some i)) (\<lambda>assigneeID.
          andthen (upsertTask seedTask creatorID assigneeID) (\<lambda>_.
          for_each (ts_labels seedTask) (\<lambda>labelName.
            case labelIDs labelName of
              None \<Rightarrow> raise (Errorf (''missing label '' @ quoted labelName) None)
            | Some labelID \<Rightarrow>
                wrapping (''attach label '' @ quoted labelName @ '' to task '' @ quoted (ts_title seedTask))
                  (sql (q_AddLabelToTask (ts_id seedTask) labelID))))))"

definition seed_rows :: "unit go" where
  "seed_rows =
     andthen (fold_go devUsers seed_user Map.empty) (\<lambda>userIDs.
     andthen upsertLabels (\<lambda>labelIDs.
     for_each devTasks (seed_task userIDs labelIDs)))"

text \<open>
  The second transaction: an error of \<open>Begin\<close> and of \<open>Commit\<close> is wrapped, every other return
  before the commit rolls back through the deferred call.
\<close>

definition seed_transaction :: "unit go" where
  "seed_transaction e w =
     (case wrapping ''begin seed transaction'' tx_begin e w of
        (Ok _, w0) \<Rightarrow>
          (case seed_rows e (w0\<lparr>w_tx_time := Some (e_clock e (w_tick w))\<rparr>) of
             (Ok _, w1) \<Rightarrow>
               (case wrapping ''commit seed transaction'' tx_commit e w1 of
                  (r, w2) \<Rightarrow> if w_tx_time w2 = None then (r, w2)
                              else (r, w2\<lparr>w_db := w_db w0, w_tx_time := None\<rparr>))
           | (Err err, w1) \<Rightarrow> (Err err, w1\<lparr>w_db := w_db w0, w_tx_time := None\<rparr>)
           | (Panic p, w1) \<Rightarrow> (Panic p, w1\<lparr>w_db := w_db w0, w_tx_time := None\<rparr>))
      | (Err err, w0) \<Rightarrow> (Err err, w0)
      | (Panic p, w0) \<Rightarrow> (Panic p, w0))"

text \<open>\<open>connected\<close> is \<open>db != nil\<close>.\<close>

definition SeedDevelopmentData :: "bool \<Rightarrow> unit go" where
  "SeedDevelopmentData connected =
     (if \<not> connected then raise (Errorf ''database is required'' None)
      else andthen (wrapping ''seed system roles'' SeedSystemRoles) (\<lambda>_. seed_transaction))"

end
