(* ===== verification/SeedFlows.thy ===== *)
theory SeedFlows
  imports DevSeed TaskFlows Guarantees
begin

text \<open>
  What the seeding of the development data guarantees (\<open>DevSeed\<close>): consistency on every exit,
  all or nothing, and completeness of a seeding that returns.
  The postconditions are of the tables alone: \<open>tables e P m Q\<close> says that a normal return of
  \<open>m\<close> from tables with \<open>P\<close> leaves tables with \<open>Q\<close>, whatever fails in between.
\<close>

section \<open>Postconditions of the tables\<close>

named_theorems tabs

definition tables :: "env \<Rightarrow> (db \<Rightarrow> bool) \<Rightarrow> 'a go \<Rightarrow> ('a \<Rightarrow> db \<Rightarrow> bool) \<Rightarrow> bool" where
  "tables e P m Q \<longleftrightarrow> (\<forall>w x w'. P (w_db w) \<longrightarrow> m e w = (Ok x, w') \<longrightarrow> Q x (w_db w'))"

lemma tablesI: "(\<And>w x w'. P (w_db w) \<Longrightarrow> m e w = (Ok x, w') \<Longrightarrow> Q x (w_db w')) \<Longrightarrow> tables e P m Q"
  by (simp add: tables_def)

lemma tablesD: "tables e P m Q \<Longrightarrow> P (w_db w) \<Longrightarrow> m e w = (Ok x, w') \<Longrightarrow> Q x (w_db w')"
  by (simp add: tables_def)

lemma tables_weaken: "tables e P m Q \<Longrightarrow> (\<And>x d. Q x d \<Longrightarrow> Q' x d) \<Longrightarrow> tables e P m Q'"
  by (simp add: tables_def)

lemma tables_pre: "tables e P m Q \<Longrightarrow> (\<And>d. P' d \<Longrightarrow> P d) \<Longrightarrow> tables e P' m Q"
  unfolding tables_def by blast

lemma tables_prims [tabs]:
  "(\<And>d. P d \<Longrightarrow> Q x d) \<Longrightarrow> tables e P (ret x) Q" "tables e P (raise err) Q"
  "tables e P (panic p) Q" "(\<And>y d. r = Ok y \<Longrightarrow> P d \<Longrightarrow> Q y d) \<Longrightarrow> tables e P (lift r) Q"
  "(\<And>d. P d \<Longrightarrow> Q' (f e) d) \<Longrightarrow> tables e P (asks f) Q'"
  by (auto simp: tables_def)

lemma tables_andthen:
  "tables e P m R \<Longrightarrow> (\<And>x. tables e (R x) (f x) Q) \<Longrightarrow> tables e P (andthen m f) Q"
  by (auto simp: tables_def andthen_Ok_iff)

text \<open>The value is fixed before the last step, or known after the first.\<close>

lemma tables_value: "tables e P m (\<lambda>_. Q x) \<Longrightarrow> tables e P (andthen m (\<lambda>_. ret x)) Q"
  by (auto simp: tables_def andthen_Ok_iff)

lemma tables_fact:
  "tables e P m (\<lambda>x d. P d \<and> R x) \<Longrightarrow> (\<And>x. R x \<Longrightarrow> tables e P (f x) Q) \<Longrightarrow>
     tables e P (andthen m f) Q"
  by (auto simp: tables_def andthen_Ok_iff) blast

text \<open>A step that says nothing of its value, and one that reads the environment.\<close>

lemma tables_then [tabs]:
  "tables e P m (\<lambda>_. P) \<Longrightarrow> (\<And>x. tables e P (f x) Q) \<Longrightarrow> tables e P (andthen m f) Q"
  by (rule tables_andthen)

lemma tables_asks: "tables e P (f (g e)) Q \<Longrightarrow> tables e P (andthen (asks g) f) Q"
  by (auto simp: tables_def andthen_Ok_iff)

lemma tables_lift:
  "(\<And>x. r = Ok x \<Longrightarrow> tables e P (f x) Q) \<Longrightarrow> tables e P (andthen (lift r) f) Q"
  by (auto simp: tables_def andthen_Ok_iff)

lemma tables_cases [tabs]:
  "(b \<Longrightarrow> tables e P m Q) \<Longrightarrow> (\<not> b \<Longrightarrow> tables e P m' Q) \<Longrightarrow> tables e P (if b then m else m') Q"
  "(z = None \<Longrightarrow> tables e P m1 Q) \<Longrightarrow> (\<And>y. z = Some y \<Longrightarrow> tables e P (m2 y) Q) \<Longrightarrow>
     tables e P (case z of None \<Rightarrow> m1 | Some y \<Rightarrow> m2 y) Q"
  by (auto split: option.splits)

lemma tables_sql:
  "(\<And>t d x d'. P d \<Longrightarrow> q t d = (Ok x, d') \<Longrightarrow> Q x d') \<Longrightarrow> tables e P (sql q) Q"
  by (rule tablesI) (auto simp: sql_def run_sql_def dest!: external_Ok split: prod.splits)

lemma tables_clock [tabs]:
  "tables e P now_utc (\<lambda>_. P)" "tables e P fresh_uuid (\<lambda>_. P)"
  "tables e P (attempt (bcrypt_hash pw)) (\<lambda>_. P)"
  by (auto simp: tables_def clock_run attempt_def split: result.splits)

lemma new_user_tables:
  "tables e P (new_user inp) (\<lambda>u d. P d \<and> u_email u = cui_email inp \<and> u_name u = cui_name inp
     \<and> (\<exists>n. e_bcrypt_hash e n (cui_password inp) = Ok (u_password_hash u)))"
  by (rule tablesI) (auto simp: new_user_def andthen_def attempt_def clock_run NewUser_def
      split: result.splits if_splits)

lemma wrapping_run:
  "wrapping msg m e w = (case m e w of
     (Ok x, w') \<Rightarrow> (Ok x, w') | (Err err, w') \<Rightarrow> (Err (Errorf msg (Some err)), w')
   | (Panic p, w') \<Rightarrow> (Panic p, w'))"
  by (auto simp: wrapping_def andthen_def attempt_def split: prod.splits result.splits)

lemma wrapping_Ok_iff: "wrapping msg m e w = (Ok x, w') \<longleftrightarrow> m e w = (Ok x, w')"
  by (auto simp: wrapping_run split: prod.splits result.splits)

lemma wrapping_world: "wrapping msg m e w = (r, w') \<Longrightarrow> snd (m e w) = w'"
  by (auto simp: wrapping_run split: prod.splits result.splits)

lemma tables_wrapping [tabs]: "tables e P m Q \<Longrightarrow> tables e P (wrapping msg m) Q"
  by (simp add: tables_def wrapping_Ok_iff)

lemma tables_wrapped_lift:
  "(\<And>x. r = Ok x \<Longrightarrow> tables e P (f x) Q) \<Longrightarrow> tables e P (andthen (wrapping msg (lift r)) f) Q"
  by (auto simp: tables_def andthen_Ok_iff wrapping_Ok_iff)

lemma no_rows_is_nil_Ok:
  "no_rows_is_nil m e w = (Ok x, w') \<Longrightarrow>
     (\<exists>y. x = Some y \<and> m e w = (Ok y, w')) \<or> (\<exists>err. x = None \<and> m e w = (Err err, w')
       \<and> errors_Is err pgx_ErrNoRows)"
  by (auto simp: no_rows_is_nil_def andthen_def attempt_def go_prims
      split: prod.splits result.splits if_splits)

text \<open>
  Loops: a property of the accumulator and the tables per element that a round establishes for
  its own element and keeps for the others.
\<close>

lemma tables_fold_go:
  assumes "\<And>xs y zs acc. ys = xs @ y # zs \<Longrightarrow> tables e (J (set xs) acc) (f y acc) (J (insert y (set xs)))"
  shows "tables e (J {} acc) (fold_go ys f acc) (J (set ys))"
proof -
  have "tables e (J (set xs) acc) (fold_go zs f acc) (J (set ys))" if "ys = xs @ zs" for xs zs acc
    using that
  proof (induction zs arbitrary: xs acc)
    case Nil
    then show ?case by (simp add: tables_def)
  next
    case (Cons z zs)
    have "tables e (J (set (xs @ [z])) acc') (fold_go zs f acc') (J (set ys))" for acc'
      by (rule Cons.IH) (simp add: Cons.prems)
    then show ?case
      using assms [OF Cons.prems, of acc] by (auto intro!: tables_andthen)
  qed
  from this [of "[]" ys] show ?thesis by simp
qed

lemma tables_for_each:
  assumes "\<And>xs y zs. ys = xs @ y # zs \<Longrightarrow> tables e (J (set xs)) (f y) (\<lambda>_. J (insert y (set xs)))"
  shows "tables e (J {}) (for_each ys f) (\<lambda>_. J (set ys))"
proof -
  have "tables e (J (set xs)) (for_each zs f) (\<lambda>_. J (set ys))" if "ys = xs @ zs" for xs zs
    using that
  proof (induction zs arbitrary: xs)
    case Nil
    then show ?case by (simp add: tables_def)
  next
    case (Cons z zs)
    have "tables e (J (set (xs @ [z]))) (for_each zs f) (\<lambda>_. J (set ys))"
      by (rule Cons.IH) (simp add: Cons.prems)
    then show ?case
      using assms [OF Cons.prems] by (auto intro!: tables_andthen)
  qed
  from this [of "[]" ys] show ?thesis by simp
qed

lemma distinct_before:
  assumes "distinct (map f ys)" "ys = xs @ y # zs"
  shows "\<forall>x\<in>set xs. f x \<noteq> f y"
proof
  fix x assume "x \<in> set xs"
  then have "f x \<in> f ` set xs" by (rule imageI)
  with assms show "f x \<noteq> f y" by auto
qed

section \<open>Consistency on every exit\<close>

lemma wrapping_holds [keeps]: "holds I m (\<lambda>_. True) \<Longrightarrow> holds I (wrapping msg m) (\<lambda>_. True)"
  unfolding wrapping_def by (intro keeps TrueI)

lemma devTasks_valid:
  "seedTask \<in> set devTasks \<Longrightarrow> task_row_ok (seed_row seedTask due c a)"
  by (auto simp: devTasks_def seed_row_def task_row_ok_def TaskStatus_IsValid_def validTaskStatuses_def
      Priority_IsValid_iff AllPriorities_def status_consts priority_consts)

lemma UpsertTask_keeps:
  assumes "task_row_ok arg"
  shows "stmt_keeps (q_UpsertTask arg)"
proof (rule stmt_keepsI)
  fix t d assume inv: "db_inv d"
  define row where "row = arg\<lparr>tr_due := map_option pg_timestamptz (tr_due arg),
      tr_created := pg_timestamptz t, tr_updated := pg_timestamptz t\<rparr>"
  have ok: "task_row_ok row" "task_row_ok (row\<lparr>tr_created := c\<rparr>)" for c
    using assms by (simp_all add: row_def task_row_ok_def)
  have refs: "tr_creator row = tr_creator arg" "tr_assignee row = tr_assignee arg" "tr_id row = tr_id arg"
    by (simp_all add: row_def)
  show "db_inv (snd (q_UpsertTask arg t d))"
  proof (cases "tr_creator arg \<in> user_ids d \<and> set_option (tr_assignee arg) \<subseteq> user_ids d")
    case False
    then show ?thesis using inv by (auto simp: q_UpsertTask_def Let_def split: option.splits)
  next
    case True
    then have refs_new: "task_refs d (row\<lparr>tr_created := c\<rparr>)" "task_refs d row" for c
      by (simp_all add: task_refs_def refs)
    have run: "snd (q_UpsertTask arg t d) =
        (case find (\<lambda>r. tr_id r = tr_id arg) (db_tasks d) of
           None \<Rightarrow> d\<lparr>db_tasks := db_tasks d @ [row]\<rparr>
         | Some old \<Rightarrow> d\<lparr>db_tasks := map (\<lambda>r. if tr_id r = tr_id arg
             then row\<lparr>tr_created := tr_created old\<rparr> else r) (db_tasks d)\<rparr>)"
      using True by (auto simp: q_UpsertTask_def Let_def row_def split: option.splits)
    show ?thesis
    proof (cases "find (\<lambda>r. tr_id r = tr_id arg) (db_tasks d)")
      case None
      then have "tr_id row \<notin> tr_id ` set (db_tasks d)" by (simp add: find_key_None refs)
      then show ?thesis using inv refs_new ok run None by (auto simp: inv_defs)
    next
      case (Some old)
      define new where "new = row\<lparr>tr_created := tr_created old\<rparr>"
      have id: "tr_id new = tr_id arg" by (simp add: new_def refs)
      have "db_inv (d\<lparr>db_tasks := map (\<lambda>r. if tr_id r = tr_id arg then new else r) (db_tasks d)\<rparr>)"
      proof (rule db_inv_tasks [OF inv])
        show "task_refs d r \<and> task_row_ok r"
          if "r \<in> set (map (\<lambda>r. if tr_id r = tr_id arg then new else r) (db_tasks d))" for r
          using that inv refs_new ok by (auto simp: db_inv_def refs_ok_def new_def split: if_splits)
      qed (use replace_by_id [OF Some id] inv in \<open>simp_all only: inv_defs\<close>)
      then have "db_inv (d\<lparr>db_tasks := map (\<lambda>r. if tr_id r = tr_id arg
          then row\<lparr>tr_created := tr_created old\<rparr> else r) (db_tasks d)\<rparr>)" by (simp only: new_def)
      then show ?thesis using run Some by simp
    qed
  qed
qed

text \<open>
  What the statements of the use cases keep, and the two further statements of the seeding keep,
  the seeding keeps on every exit.
\<close>

lemma seed_transaction_run:
  assumes "seed_transaction e w = (r, w')"
  shows "\<exists>r'. RunInTransaction seed_rows e w = (r', w') \<and> (\<forall>x. r = Ok x \<longleftrightarrow> r' = Ok x)
    \<and> ((\<exists>err. r = Err err) \<longleftrightarrow> (\<exists>err. r' = Err err))"
  using assms unfolding seed_transaction_def RunInTransaction_def
  by (auto simp: wrapping_run split: prod.splits result.splits if_splits)

locale seeding_property = table_property +
  assumes attach_label: "kept Q (q_AddLabelToTask i l)"
    and upsert_task: "seedTask \<in> set devTasks \<Longrightarrow> kept Q (q_UpsertTask (seed_row seedTask due c a))"
begin

lemma seed_statements_hold [keeps]:
  "holds consistent (sql (q_AddLabelToTask i l)) (\<lambda>_. True)"
  "seedTask \<in> set devTasks \<Longrightarrow> holds consistent (upsertTask seedTask c a) (\<lambda>_. True)"
  unfolding upsertTask_def Let_def
  by (intro keeps TrueI sql_kept attach_label upsert_task UpsertTask_keeps devTasks_valid;
      assumption)+

lemma seed_rows_hold: "holds consistent seed_rows (\<lambda>_. True)"
  unfolding seed_rows_def seed_user_def upsertUser_def new_user_def store_user_def upsertLabels_def seed_label_def seed_task_def
  by (intro keeps TrueI; assumption?)

lemma seed_transaction_holds: "holds consistent seed_transaction (\<lambda>_. True)"
proof (rule holdsI)
  fix e w r w'
  assume "consistent e w" and "seed_transaction e w = (r, w')"
  then show "consistent e w' \<and> (\<forall>x. r = Ok x \<longrightarrow> True)"
    using seed_transaction_run holdsD [OF holds_transaction [OF seed_rows_hold]] by blast
qed

lemma seed_holds: "holds consistent (SeedDevelopmentData connected) (\<lambda>_. True)"
  unfolding SeedDevelopmentData_def
  by (intro keeps TrueI seed_transaction_holds)

end

text \<open>Neither the use cases nor the seeding touch the access entries.\<close>

interpretation seed_acl: seeding_property "\<lambda>d. db_acl d = A" "\<lambda>_. True" for A
  by unfold_locales
    (auto intro!: keptI simp: q_AddLabelToTask_def q_UpsertTask_def writer_defs Let_def split: option.splits)

interpretation everything: seeding_property "\<lambda>_. True" "\<lambda>_. True"
  by unfold_locales (simp_all add: kept_True)

section \<open>All or nothing\<close>

lemma external_no_loss:
  assumes "\<forall>n err. e_fault e n \<noteq> Some (FailAfter err)" "external call e w = (Err err, w')"
  shows "w' = tick w \<or> call (e_clock e (w_tick w)) (tick w) = (Err err, w')"
  using assms by (auto simp: external_def tick_def Let_def split: option.splits fault.splits)

text \<open>No statement ends the transaction it runs in.\<close>

abbreviation within :: "time option \<Rightarrow> world \<Rightarrow> bool" where
  "within t w \<equiv> w_tx_time w = t"

lemma stays_within [posts]:
  "stays e (within t) now_utc" "stays e (within t) fresh_uuid" "stays e (within t) (bcrypt_hash pw)"
  "stays e (within t) (sql q)"
  by (simp_all add: stays_def clock_run)
    (auto simp: sql_def external_def run_sql_def Let_def split: option.splits fault.splits prod.splits)

lemma stays_fold_go [posts]: "(\<And>x acc. stays e P (f x acc)) \<Longrightarrow> stays e P (fold_go xs f acc)"
  by (induction xs arbitrary: acc) (simp_all add: posts del: prims_run)

lemma stays_case_prod [posts]:
  "(\<And>a b. stays e P (f a b)) \<Longrightarrow> stays e P (case x of (a, b) \<Rightarrow> f a b)"
  "(\<And>a b. stays e P (h a b y)) \<Longrightarrow> stays e P ((case x of (a, b) \<Rightarrow> h a b) y)"
  by (auto split: prod.splits)

lemma stays_wrapping [posts]: "stays e P m \<Longrightarrow> stays e P (wrapping msg m)"
  and stays_no_rows [posts]: "stays e P m \<Longrightarrow> stays e P (no_rows_is_nil m)"
  unfolding wrapping_def no_rows_is_nil_def by (intro posts; assumption)+

lemma seed_rows_in_transaction: "stays e (within t) seed_rows"
  unfolding seed_rows_def seed_user_def upsertUser_def new_user_def store_user_def upsertLabels_def seed_label_def seed_task_def
    upsertTask_def Let_def
  by (intro posts)

text \<open>An error of the commit leaves the transaction open, so the tables go back.\<close>

lemma transaction_rolls_back:
  assumes live: "\<forall>n err. e_fault e n \<noteq> Some (FailAfter err)"
    and fn: "\<And>t. stays e (within t) fn"
    and run: "RunInTransaction fn e w = (Err err, w')"
  shows "w_db w' = w_db w"
proof -
  obtain r0 w0 where b: "tx_begin e w = (r0, w0)" by fastforce
  have w0: "w_db w0 = w_db w" using b tx_begin_db [of e w] by simp
  show ?thesis
  proof (cases r0)
    case (Ok u)
    define wt where "wt = w0\<lparr>w_tx_time := Some (e_clock e (w_tick w))\<rparr>"
    obtain r1 w1 where f: "fn e wt = (r1, w1)" by fastforce
    obtain r2 w2 where c: "tx_commit e w1 = (r2, w2)" by fastforce
    have still: "w_tx_time w2 \<noteq> None" if e2: "r2 = Err err"
    proof -
      have "w2 = tick w1"
        using c external_no_loss [OF live, of _ w1 err w2] unfolding e2 tx_commit_def by fastforce
      then show ?thesis using staysD [OF fn _ f, of "Some (e_clock e (w_tick w))"]
        by (simp add: wt_def)
    qed
    show ?thesis
    proof (cases r1)
      case (Ok v)
      then show ?thesis using run b \<open>r0 = Ok u\<close> f c w0 still
        by (auto simp: RunInTransaction_def wt_def split: if_splits)
    qed (use run b Ok f w0 in \<open>auto simp: RunInTransaction_def wt_def\<close>)
  qed (use run b w0 in \<open>auto simp: RunInTransaction_def\<close>)
qed

lemma SeedSystemRoles_within: "stays e (within t)
  (andthen Role_FindAll (\<lambda>existing.
      let obsolete = obsolete_roles existing in
      andthen (if obsolete \<noteq> [] then Role_DeleteByNames obsolete else ret ()) (\<lambda>_.
      for_each desiredRoles sync_role)))"
  unfolding Let_def Role_FindAll_def load_role_def Role_DeleteByNames_def sync_role_def
    Role_FindByName_def Role_RemoveAllPermissions_def Role_Save_def
  by (intro posts)

text \<open>
  When the seeding of development data stops with an error and no answer of the database is
  lost, the tables are as before, or as the seeding of the system roles left them.
\<close>

theorem seed_all_or_nothing:
  assumes "\<forall>n err. e_fault e n \<noteq> Some (FailAfter err)"
    and run: "SeedDevelopmentData connected e w = (Err err, w')"
  shows "w_db w' = w_db w \<or> (\<exists>w1. SeedSystemRoles e w = (Ok (), w1) \<and> w_db w' = w_db w1)"
proof (cases "fst (SeedSystemRoles e w) = Ok () \<and> connected")
  case True
  then obtain w1 where r: "SeedSystemRoles e w = (Ok (), w1)" by (metis prod.collapse)
  with run True have "seed_transaction e w1 = (Err err, w')"
    by (simp add: SeedDevelopmentData_def wrapping_run andthen_def)
  then obtain err' where "RunInTransaction seed_rows e w1 = (Err err', w')"
    using seed_transaction_run by blast
  from transaction_rolls_back [OF assms(1) seed_rows_in_transaction this] r show ?thesis by blast
next
  case False
  show ?thesis
  proof (cases connected)
    case True
    with False run obtain err' where "SeedSystemRoles e w = (Err err', w')"
      by (auto simp: SeedDevelopmentData_def wrapping_run andthen_def split: prod.splits result.splits)
    from transaction_rolls_back [OF assms(1) SeedSystemRoles_within this [unfolded SeedSystemRoles_def]]
    show ?thesis by simp
  qed (use run in \<open>simp add: SeedDevelopmentData_def\<close>)
qed

section \<open>What a seeding that returns has written\<close>

lemma stmt_keepsD: "stmt_keeps q \<Longrightarrow> q t d = (r, d') \<Longrightarrow> db_inv d \<Longrightarrow> db_inv d'"
  by (metis snd_conv stmt_keeps_def)

lemma tables_optional:
  "tables e P (no_rows_is_nil (sql (q_one f))) (\<lambda>x d. P d \<and> (\<forall>y. x = Some y \<longrightarrow> f d = Some y))"
proof (rule tablesI)
  fix w x w'
  assume P: "P (w_db w)" and run: "no_rows_is_nil (sql (q_one f)) e w = (Ok x, w')"
  from no_rows_is_nil_Ok [OF run] obtain r where "sql (q_one f) e w = (r, w')" by blast
  from holdsD [OF sql_reads [OF reads_read(2)] _ this, of P] P have "P (w_db w')"
    by (simp add: on_db_def)
  moreover have "f (w_db w') = Some y" if "x = Some y" for y
    using no_rows_is_nil_Ok [OF run] that
    by (auto simp: sql_def run_sql_def q_one_def dest!: external_Ok split: option.splits prod.splits)
  ultimately show "P (w_db w') \<and> (\<forall>y. x = Some y \<longrightarrow> f (w_db w') = Some y)" by blast
qed

subsection \<open>Users\<close>

definition user_row_seeded :: "env \<Rightarrow> db \<Rightarrow> userSeed \<Rightarrow> uuid \<Rightarrow> bool" where
  "user_row_seeded e d u i \<longleftrightarrow>
     (\<exists>r\<in>set (db_users d). ur_id r = i \<and> ur_email r = us_email u \<and> ur_name r = us_name u
        \<and> (\<exists>n. e_bcrypt_hash e n (us_password u) = Ok (ur_password_hash r)))"

definition user_seeded :: "env \<Rightarrow> db \<Rightarrow> userSeed \<Rightarrow> uuid \<Rightarrow> bool" where
  "user_seeded e d u i \<longleftrightarrow> user_row_seeded e d u i
     \<and> (\<exists>ro\<in>set (db_roles d). rr_name ro = us_role u \<and> (i, rr_id ro) \<in> set (db_user_roles d))"

definition users_seeded :: "env \<Rightarrow> userSeed set \<Rightarrow> (string \<rightharpoonup> uuid) \<Rightarrow> db \<Rightarrow> bool" where
  "users_seeded e S m d \<longleftrightarrow> db_inv d
     \<and> (\<forall>u\<in>S. \<exists>i. m (us_email u) = Some i \<and> user_seeded e d u i)"

lemma CreateUser_rows:
  assumes "q_CreateUser arg t d = (Ok x, d')"
  shows "\<exists>row. d' = d\<lparr>db_users := db_users d @ [row]\<rparr> \<and> ur_id row = ur_id arg
    \<and> ur_email row = ur_email arg \<and> ur_name row = ur_name arg
    \<and> ur_password_hash row = ur_password_hash arg"
  using assms by (auto simp: q_CreateUser_def Let_def split: if_splits)

lemma UpdateUser_rows:
  assumes "q_UpdateUser i email name h t d = (Ok x, d')"
  shows "\<exists>us. d' = d\<lparr>db_users := us\<rparr> \<and> map ur_id us = map ur_id (db_users d)
    \<and> (\<forall>r\<in>set (db_users d). ur_id r \<noteq> i \<longrightarrow> r \<in> set us)
    \<and> (\<exists>r\<in>set us. ur_id r = i \<and> ur_email r = email \<and> ur_name r = name \<and> ur_password_hash r = h)"
proof -
  obtain old where old: "find (\<lambda>r. ur_id r = i) (db_users d) = Some old"
    using assms by (auto simp: q_UpdateUser_def split: option.splits)
  define row where "row = old\<lparr>ur_email := email, ur_name := name, ur_password_hash := h,
    ur_updated := pg_timestamptz t\<rparr>"
  define us where "us = map (\<lambda>r. if ur_id r = i then row else r) (db_users d)"
  note in_users = find_in [OF old]
  have d': "d' = d\<lparr>db_users := us\<rparr>"
    using assms old by (auto simp: q_UpdateUser_def Let_def row_def us_def split: if_splits)
  have row: "ur_id row = i" using in_users by (simp add: row_def)
  then have "map ur_id us = map ur_id (db_users d)" by (auto simp: us_def)
  moreover have "row \<in> set us" using in_users by (auto simp: us_def image_iff)
  moreover have "\<forall>r\<in>set (db_users d). ur_id r \<noteq> i \<longrightarrow> r \<in> set us"
    by (auto simp: us_def image_iff)
  moreover have "ur_email row = email \<and> ur_name row = name \<and> ur_password_hash row = h"
    by (simp add: row_def)
  ultimately show ?thesis using d' row by blast
qed

lemma seeded_frames [simp]:
  "user_seeded e (d\<lparr>db_labels := ls\<rparr>) = user_seeded e d"
  "user_seeded e (d\<lparr>db_tasks := ts\<rparr>) = user_seeded e d"
  "user_seeded e (d\<lparr>db_task_labels := tls\<rparr>) = user_seeded e d"
  by (simp_all add: user_seeded_def user_row_seeded_def fun_eq_iff)

text \<open>The row of one user is written; the rows of the users seeded before stay, by their addresses.\<close>

lemma store_user_writes:
  assumes other: "\<forall>u\<in>S. us_email u \<noteq> us_email y"
    and u: "u_email u = us_email y" "u_name u = us_name y"
      "\<exists>n. e_bcrypt_hash e n (us_password y) = Ok (u_password_hash u)"
  shows "tables e (\<lambda>d. users_seeded e S m d
      \<and> (\<forall>r. found = Some r \<longrightarrow> find (\<lambda>r. ur_email r = us_email y) (db_users d) = Some r))
    (store_user y found u) (\<lambda>i d. users_seeded e S m d \<and> user_row_seeded e d y i)"
proof (cases found)
  case None
  show ?thesis unfolding store_user_def None option.case
  proof (rule tables_value [OF tables_wrapping [OF tables_sql]], goal_cases)
    case (1 t d x d')
    from CreateUser_rows [OF 1(2)] u obtain row where
      "d' = d\<lparr>db_users := db_users d @ [row]\<rparr>" "ur_id row = u_id u" "ur_email row = us_email y"
      "ur_name row = us_name y" "ur_password_hash row = u_password_hash u" by auto
    moreover have "db_inv d'" using stmt_keepsD [OF CreateUser_keeps 1(2)] 1(1)
      by (simp add: users_seeded_def)
    ultimately show ?case using 1(1) u(3)
      by (fastforce simp: users_seeded_def user_seeded_def user_row_seeded_def)
  qed
next
  case (Some r)
  show ?thesis unfolding store_user_def Some option.case
  proof (rule tables_value [OF tables_wrapping [OF tables_sql]], goal_cases)
    case (1 t d x d')
    have inv: "db_inv d" and r: "r \<in> set (db_users d)" "ur_email r = us_email y"
      using 1(1) by (auto simp: users_seeded_def dest: find_in)
    from UpdateUser_rows [OF 1(2)] obtain us where us: "d' = d\<lparr>db_users := us\<rparr>"
      "\<forall>r'\<in>set (db_users d). ur_id r' \<noteq> ur_id r \<longrightarrow> r' \<in> set us"
      "\<exists>r'\<in>set us. ur_id r' = ur_id r \<and> ur_email r' = us_email y \<and> ur_name r' = us_name y
         \<and> ur_password_hash r' = u_password_hash u" by blast
    have stays: "r' \<in> set us" if "r' \<in> set (db_users d)" "ur_email r' \<noteq> us_email y" for r'
      using us(2) that r keyed_same [of ur_id "db_users d" r' r] inv by (auto simp: inv_defs)
    have "user_row_seeded e d' v i" if "user_row_seeded e d v i" "v \<in> S" for v i
      using that other us(1) stays unfolding user_row_seeded_def by fastforce
    moreover have "user_row_seeded e d' y (ur_id r)"
      using us(1,3) u(3) unfolding user_row_seeded_def by fastforce
    moreover have "db_inv d'" using stmt_keepsD [OF UpdateUser_keeps 1(2) inv] .
    ultimately show ?case using 1(1) us(1)
      by (fastforce simp: users_seeded_def user_seeded_def)
  qed
qed

lemma upsertUser_writes:
  assumes other: "\<forall>u\<in>S. us_email u \<noteq> us_email y"
  shows "tables e (users_seeded e S m) (upsertUser y)
           (\<lambda>i d. users_seeded e S m d \<and> user_row_seeded e d y i)"
  unfolding upsertUser_def q_GetUserByEmail_def
  by (rule tables_andthen [OF tables_wrapping [OF tables_optional]],
      rule tables_fact [OF tables_wrapping [OF new_user_tables]], rule store_user_writes [OF other])
    auto

text \<open>One round of the loop.\<close>

lemma seed_user_round:
  assumes other: "\<forall>u\<in>S. us_email u \<noteq> us_email y"
  shows "tables e (users_seeded e S m) (seed_user y m) (users_seeded e (insert y S))"
  unfolding seed_user_def
proof (rule tables_andthen [OF upsertUser_writes [OF other]], goal_cases)
  case (1 i)
  show ?case
  proof (rule tables_andthen [OF tables_wrapping [OF tables_sql [where Q =
        "\<lambda>ro d. (users_seeded e S m d \<and> user_row_seeded e d y i) \<and> ro \<in> set (db_roles d) \<and> rr_name ro = us_role y"]]],
        goal_cases)
    case (1 t d ro d')
    then show ?case
      by (auto simp: q_GetRoleByName_def q_one_def dest: find_in split: option.splits)
  next
    case (2 ro)
    show ?case
    proof (rule tables_value [OF tables_wrapping [OF tables_sql]], goal_cases)
      case (1 t d x d')
      have inv: "db_inv d'"
        using stmt_keepsD [OF junctions_keep(1) 1(2)] 1(1) by (simp add: users_seeded_def)
      have "\<exists>prs. d' = d\<lparr>db_user_roles := prs\<rparr> \<and> set (db_user_roles d) \<subseteq> set prs \<and> (i, rr_id ro) \<in> set prs"
        using 1(2) by (intro exI [of _ "db_user_roles d'"])
          (auto simp: q_AssignRoleToUser_def split: if_splits)
      then obtain prs where "d' = d\<lparr>db_user_roles := prs\<rparr>" "set (db_user_roles d) \<subseteq> set prs"
        "(i, rr_id ro) \<in> set prs" by blast
      then show ?case using 1(1) inv other
        by (fastforce simp: users_seeded_def user_seeded_def user_row_seeded_def)
    qed
  qed
qed

lemma devUsers_tables:
  "tables e db_inv (fold_go devUsers seed_user Map.empty) (users_seeded e (set devUsers))"
proof -
  have d: "distinct (map us_email devUsers)" by (simp add: devUsers_def)
  have "tables e (users_seeded e {} Map.empty) (fold_go devUsers seed_user Map.empty)
    (users_seeded e (set devUsers))"
  proof (rule tables_fold_go)
    fix xs y zs m
    assume "devUsers = xs @ y # zs"
    from distinct_before [OF d this] have "\<forall>u\<in>set xs. us_email u \<noteq> us_email y" .
    then show "tables e (users_seeded e (set xs) m) (seed_user y m) (users_seeded e (insert y (set xs)))"
      by (rule seed_user_round)
  qed
  then show ?thesis by (simp add: users_seeded_def [abs_def])
qed

subsection \<open>Labels\<close>

definition label_seeded :: "db \<Rightarrow> labelSeed \<Rightarrow> uuid \<Rightarrow> bool" where
  "label_seeded d l i \<longleftrightarrow>
     (\<exists>r\<in>set (db_labels d). l_id r = i \<and> l_name r = ls_name l \<and> l_color r = ls_color l)"

text \<open>The labels listed at the start keep their names until their own round.\<close>

definition known_labels :: "(string \<rightharpoonup> label) \<Rightarrow> db \<Rightarrow> bool" where
  "known_labels B d \<longleftrightarrow>
     (\<forall>n l. B n = Some l \<longrightarrow> (\<exists>r\<in>set (db_labels d). l_id r = l_id l \<and> l_name r = n))"

definition labels_seeded ::
  "(db \<Rightarrow> bool) \<Rightarrow> (string \<rightharpoonup> label) \<Rightarrow> labelSeed set \<Rightarrow> (string \<rightharpoonup> uuid) \<Rightarrow> db \<Rightarrow> bool" where
  "labels_seeded U B S m d \<longleftrightarrow> U d \<and> db_inv d \<and> known_labels B d
     \<and> (\<forall>l\<in>S. \<exists>i. m (ls_name l) = Some i \<and> label_seeded d l i)"

lemma by_name_listed: "by_name rows m n = Some l \<Longrightarrow> (l \<in> set rows \<and> l_name l = n) \<or> m n = Some l"
  by (induction rows arbitrary: m) (fastforce split: if_splits)+

lemma UpdateLabel_rows:
  assumes "q_UpdateLabel low i name color t d = (Ok x, d')"
  shows "\<exists>ls. d' = d\<lparr>db_labels := ls\<rparr> \<and> map l_id ls = map l_id (db_labels d)
    \<and> (\<forall>r\<in>set (db_labels d). l_id r \<noteq> i \<longrightarrow> r \<in> set ls)
    \<and> (\<exists>r\<in>set ls. l_id r = i \<and> l_name r = name \<and> l_color r = color)"
proof -
  obtain old where old: "find (\<lambda>r. l_id r = i) (db_labels d) = Some old"
    using assms by (auto simp: q_UpdateLabel_def split: option.splits)
  define row where "row = old\<lparr>l_name := name, l_color := color, l_updated := pg_timestamptz t\<rparr>"
  define ls where "ls = map (\<lambda>r. if l_id r = i then row else r) (db_labels d)"
  note in_labels = find_in [OF old]
  have d': "d' = d\<lparr>db_labels := ls\<rparr>"
    using assms old by (auto simp: q_UpdateLabel_def Let_def row_def ls_def split: if_splits)
  have row: "l_id row = i" "l_name row = name \<and> l_color row = color"
    using in_labels by (simp_all add: row_def)
  then have "map l_id ls = map l_id (db_labels d)" by (auto simp: ls_def)
  moreover have "row \<in> set ls" using in_labels by (auto simp: ls_def image_iff)
  moreover have "\<forall>r\<in>set (db_labels d). l_id r \<noteq> i \<longrightarrow> r \<in> set ls"
    by (auto simp: ls_def image_iff)
  ultimately show ?thesis using d' row by blast
qed

lemma CreateLabel_rows:
  assumes "q_CreateLabel low arg t d = (Ok x, d')"
  shows "\<exists>row. d' = d\<lparr>db_labels := db_labels d @ [row]\<rparr> \<and> l_id row = l_id x
    \<and> l_name row = l_name arg \<and> l_color row = l_color arg"
  using assms by (auto simp: q_CreateLabel_def Let_def split: if_splits)

lemma seed_label_round:
  assumes other: "\<forall>l\<in>S. ls_name l \<noteq> ls_name y"
    and U: "\<And>d ls. U d \<Longrightarrow> U (d\<lparr>db_labels := ls\<rparr>)"
  shows "tables e (labels_seeded U B S m) (seed_label B y m) (labels_seeded U B (insert y S))"
  unfolding seed_label_def
proof (rule tables_asks, cases "B (ls_name y)", goal_cases)
  case 1
  show ?case unfolding 1 option.case
  proof (rule tables_then [OF tables_clock(2)], rule tables_then [OF tables_clock(1)],
      rule tables_wrapped_lift, rule tables_andthen [OF tables_wrapping [OF tables_sql]], goal_cases)
    case (1 i now l t d x d')
    from CreateLabel_rows [OF 1(3)] 1(1) obtain row where row:
      "d' = d\<lparr>db_labels := db_labels d @ [row]\<rparr>" "l_id row = l_id x" "l_name row = ls_name y"
      "l_color row = ls_color y" by (auto simp: NewLabel_def split: if_splits)
    have "db_inv d'" using stmt_keepsD [OF CreateLabel_keeps 1(3)] 1(2)
      by (simp add: labels_seeded_def)
    with 1(2) row other U show "labels_seeded U B (insert y S) (m(ls_name y \<mapsto> l_id x)) d'"
      by (fastforce simp: labels_seeded_def known_labels_def label_seeded_def)
  qed (auto intro: tabs)
next
  case (2 l)
  show ?case unfolding 2 option.case
  proof (rule tables_value [OF tables_wrapping [OF tables_sql]], goal_cases)
    case (1 t d x d')
    then have inv: "db_inv d" and known: "known_labels B d"
      by (simp_all add: labels_seeded_def)
    from known 2 obtain r where r: "r \<in> set (db_labels d)" "l_id r = l_id l" "l_name r = ls_name y"
      unfolding known_labels_def by blast
    from UpdateLabel_rows [OF 1(2)] obtain ls where ls: "d' = d\<lparr>db_labels := ls\<rparr>"
      "\<forall>r\<in>set (db_labels d). l_id r \<noteq> l_id l \<longrightarrow> r \<in> set ls"
      "\<exists>r\<in>set ls. l_id r = l_id l \<and> l_name r = ls_name y \<and> l_color r = ls_color y" by blast
    have stays: "r' \<in> set ls" if "r' \<in> set (db_labels d)" "l_name r' \<noteq> ls_name y" for r'
      using ls(2) that r keyed_same [of l_id "db_labels d" r' r] inv by (auto simp: inv_defs)
    have "known_labels B d'"
      unfolding known_labels_def
    proof (intro allI impI)
      fix n k assume "B n = Some k"
      with known obtain r' where r': "r' \<in> set (db_labels d)" "l_id r' = l_id k" "l_name r' = n"
        unfolding known_labels_def by blast
      show "\<exists>r\<in>set (db_labels d'). l_id r = l_id k \<and> l_name r = n"
      proof (cases "n = ls_name y")
        case True
        with \<open>B n = Some k\<close> 2 have "k = l" by simp
        with ls True show ?thesis by auto
      qed (use r' stays ls(1) in auto)
    qed
    moreover have "label_seeded d' v i" if "label_seeded d v i" "v \<in> S" for v i
      using that other ls(1) stays unfolding label_seeded_def by fastforce
    moreover have "label_seeded d' y (l_id l)" using ls unfolding label_seeded_def by fastforce
    moreover have "db_inv d'" using stmt_keepsD [OF UpdateLabel_keeps 1(2) inv] .
    ultimately show ?case using 1(1) ls(1) U other
      by (fastforce simp: labels_seeded_def)
  qed
qed

lemma upsertLabels_tables:
  assumes U: "\<And>d ls. U d \<Longrightarrow> U (d\<lparr>db_labels := ls\<rparr>)"
  shows "tables e (\<lambda>d. U d \<and> db_inv d) upsertLabels
    (\<lambda>m d. U d \<and> db_inv d \<and> (\<forall>l\<in>set devLabels. \<exists>i. m (ls_name l) = Some i \<and> label_seeded d l i))"
  unfolding upsertLabels_def
proof (rule tables_asks, rule tables_andthen [OF tables_wrapping [OF tables_sql [where Q =
      "\<lambda>rows. labels_seeded U (by_name rows Map.empty) {} Map.empty"]]], goal_cases)
  case (1 t d rows d')
  then have "d' = d" "set rows = set (db_labels d)" by (auto simp: q_ListLabels_def q_read_def)
  with 1(1) show ?case
    by (auto simp: labels_seeded_def known_labels_def dest: by_name_listed)
next
  case (2 rows)
  have d: "distinct (map ls_name devLabels)" by (simp add: devLabels_def)
  show ?case
  proof (rule tables_weaken [OF tables_fold_go [where J = "labels_seeded U (by_name rows Map.empty)"]])
    fix xs y zs m
    assume "devLabels = xs @ y # zs"
    from distinct_before [OF d this]
    show "tables e (labels_seeded U (by_name rows Map.empty) (set xs) m)
        (seed_label (by_name rows Map.empty) y m)
        (labels_seeded U (by_name rows Map.empty) (insert y (set xs)))"
      by (rule seed_label_round) (rule U)
  qed (auto simp: labels_seeded_def)
qed

subsection \<open>Tasks\<close>

definition task_seeded ::
  "env \<Rightarrow> (string \<rightharpoonup> uuid) \<Rightarrow> (string \<rightharpoonup> uuid) \<Rightarrow> db \<Rightarrow> taskSeed \<Rightarrow> bool" where
  "task_seeded e userIDs labelIDs d s \<longleftrightarrow>
     (\<exists>r\<in>set (db_tasks d). tr_id r = ts_id s \<and> tr_title r = ts_title s
        \<and> tr_description r = Some (ts_description s) \<and> tr_status r = ts_status s
        \<and> tr_priority r = ts_priority s
        \<and> (\<exists>n. tr_due r = Some (pg_timestamptz (e_clock e n + ts_due_days s * (86400 * second))))
        \<and> Some (tr_creator r) = userIDs (ts_creator s) \<and> tr_assignee r = userIDs (ts_assignee s))
     \<and> (\<forall>n\<in>set (ts_labels s). \<exists>l. labelIDs n = Some l \<and> (ts_id s, l) \<in> set (db_task_labels d))"

definition tasks_seeded ::
  "env \<Rightarrow> (db \<Rightarrow> bool) \<Rightarrow> (string \<rightharpoonup> uuid) \<Rightarrow> (string \<rightharpoonup> uuid) \<Rightarrow> taskSeed set \<Rightarrow> db \<Rightarrow> bool" where
  "tasks_seeded e U m k S d \<longleftrightarrow> U d \<and> (\<forall>s\<in>S. task_seeded e m k d s)"

lemma UpsertTask_rows:
  assumes "q_UpsertTask arg t d = (Ok x, d')"
  shows "\<exists>ts. d' = d\<lparr>db_tasks := ts\<rparr>
    \<and> (\<forall>r\<in>set (db_tasks d). tr_id r \<noteq> tr_id arg \<longrightarrow> r \<in> set ts)
    \<and> (\<exists>c u. arg\<lparr>tr_due := map_option pg_timestamptz (tr_due arg), tr_created := c, tr_updated := u\<rparr> \<in> set ts)"
proof -
  define row where "row c = arg\<lparr>tr_due := map_option pg_timestamptz (tr_due arg),
    tr_created := c, tr_updated := pg_timestamptz t\<rparr>" for c
  show ?thesis
  proof (cases "find (\<lambda>r. tr_id r = tr_id arg) (db_tasks d)")
    case None
    then have "d' = d\<lparr>db_tasks := db_tasks d @ [row (pg_timestamptz t)]\<rparr>"
      using assms by (auto simp: q_UpsertTask_def Let_def row_def split: if_splits)
    then show ?thesis unfolding row_def by (intro exI conjI) auto
  next
    case (Some old)
    define ts where "ts = map (\<lambda>r. if tr_id r = tr_id arg then row (tr_created old) else r) (db_tasks d)"
    have "d' = d\<lparr>db_tasks := ts\<rparr>"
      using assms Some by (auto simp: q_UpsertTask_def Let_def row_def ts_def split: if_splits)
    moreover have "row (tr_created old) \<in> set ts"
      using find_in [OF Some] by (auto simp: ts_def image_iff)
    moreover have "\<forall>r\<in>set (db_tasks d). tr_id r \<noteq> tr_id arg \<longrightarrow> r \<in> set ts"
      by (auto simp: ts_def image_iff)
    ultimately show ?thesis unfolding row_def by blast
  qed
qed

lemma db_task_rows: "d' = d\<lparr>db_tasks := ts\<rparr> \<Longrightarrow> db_tasks d' = ts"
  by simp

lemma AddLabel_rows:
  assumes "q_AddLabelToTask i l t d = (Ok x, d')"
  shows "\<exists>tls. d' = d\<lparr>db_task_labels := tls\<rparr> \<and> set (db_task_labels d) \<subseteq> set tls \<and> (i, l) \<in> set tls"
  using assms by (intro exI [of _ "db_task_labels d'"]) (auto simp: q_AddLabelToTask_def split: if_splits)

text \<open>A round first writes the task without its labels, then each label.\<close>

lemma attach_labels:
  assumes U: "\<And>d tls. U d \<Longrightarrow> U (d\<lparr>db_task_labels := tls\<rparr>)"
    and y: "ts_id y = i"
  shows "tables e (\<lambda>d. tasks_seeded e U m k S d \<and> task_seeded e m k d (y\<lparr>ts_labels := []\<rparr>))
    (for_each (ts_labels y) (\<lambda>labelName.
            case k labelName of
              None \<Rightarrow> raise (err labelName)
            | Some labelID \<Rightarrow> wrapping (msg labelName) (sql (q_AddLabelToTask i labelID))))
    (\<lambda>_. tasks_seeded e U m k (insert y S))"
proof -
  define J where "J L d \<longleftrightarrow> tasks_seeded e U m k S d \<and> task_seeded e m k d (y\<lparr>ts_labels := []\<rparr>)
    \<and> (\<forall>n\<in>L. \<exists>l. k n = Some l \<and> (i, l) \<in> set (db_task_labels d))" for L d
  have "tables e (J {}) (for_each (ts_labels y) (\<lambda>labelName.
            case k labelName of
              None \<Rightarrow> raise (err labelName)
            | Some labelID \<Rightarrow> wrapping (msg labelName) (sql (q_AddLabelToTask i labelID))))
    (\<lambda>_. J (set (ts_labels y)))"
  proof (rule tables_for_each)
    fix xs n zs
    show "tables e (J (set xs)) (case k n of None \<Rightarrow> raise (err n)
        | Some labelID \<Rightarrow> wrapping (msg n) (sql (q_AddLabelToTask i labelID)))
      (\<lambda>_. J (insert n (set xs)))"
    proof (cases "k n")
      case (Some l)
      have "tables e (J (set xs)) (sql (q_AddLabelToTask i l)) (\<lambda>_. J (insert n (set xs)))"
      proof (rule tables_sql, goal_cases)
        case (1 t d x d')
        from AddLabel_rows [OF 1(2)] obtain tls where "d' = d\<lparr>db_task_labels := tls\<rparr>"
          "set (db_task_labels d) \<subseteq> set tls" "(i, l) \<in> set tls" by blast
        then show ?case using 1(1) U Some
          by (fastforce simp: J_def tasks_seeded_def task_seeded_def)
      qed
      then show ?thesis using Some by (simp add: tables_wrapping)
    qed (simp add: tables_def)
  qed
  moreover have "J {} = (\<lambda>d. tasks_seeded e U m k S d \<and> task_seeded e m k d (y\<lparr>ts_labels := []\<rparr>))"
    by (simp add: J_def fun_eq_iff)
  ultimately show ?thesis
    by (auto elim!: tables_weaken simp: J_def tasks_seeded_def task_seeded_def y)
qed

lemma seed_task_round:
  assumes other: "\<forall>s\<in>S. ts_id s \<noteq> ts_id y" and assigned: "ts_assignee y \<noteq> []"
    and U: "\<And>d tls. U d \<Longrightarrow> U (d\<lparr>db_task_labels := tls\<rparr>)" "\<And>d ts. U d \<Longrightarrow> U (d\<lparr>db_tasks := ts\<rparr>)"
  shows "tables e (tasks_seeded e U m k S) (seed_task m k y) (\<lambda>_. tasks_seeded e U m k (insert y S))"
proof (cases "m (ts_creator y)")
  case (Some c)
  show ?thesis
  proof (cases "m (ts_assignee y)")
    case (Some a)
    have up: "tables e (tasks_seeded e U m k S) (upsertTask y c (Some a))
      (\<lambda>_ d. tasks_seeded e U m k S d \<and> task_seeded e m k d (y\<lparr>ts_labels := []\<rparr>))"
      unfolding upsertTask_def Let_def
    proof (rule tables_fact [where R = "\<lambda>now. \<exists>n. now = e_clock e n"], goal_cases)
      case 1
      then show ?case by (auto simp: tables_def clock_run)
    next
      case (2 now)
      then obtain n where n: "now = e_clock e n" by blast
      show ?case
      proof (rule tables_wrapping [OF tables_sql], goal_cases)
        case (1 t d x d')
        from UpsertTask_rows [OF 1(2)] obtain ts cr u where ts: "d' = d\<lparr>db_tasks := ts\<rparr>"
          "\<forall>r\<in>set (db_tasks d). tr_id r \<noteq> ts_id y \<longrightarrow> r \<in> set ts"
          and row: "(seed_row y (now + ts_due_days y * (24 * 60 * 60 * second)) c (Some a))
            \<lparr>tr_due := Some (pg_timestamptz (now + ts_due_days y * (24 * 60 * 60 * second))),
             tr_created := cr, tr_updated := u\<rparr> \<in> set ts"
          by (auto simp: seed_row_def)
        note row' = row [folded db_task_rows [OF ts(1)]]
        have "task_seeded e m k d' (y\<lparr>ts_labels := []\<rparr>)"
          unfolding task_seeded_def using n \<open>m (ts_creator y) = Some c\<close> Some
          by (intro conjI bexI [OF _ row']) (auto simp: seed_row_def)
        moreover have "tasks_seeded e U m k S d'"
          using 1(1) ts U other by (fastforce simp: tasks_seeded_def task_seeded_def)
        ultimately show ?case by simp
      qed
    qed
    show ?thesis
      unfolding seed_task_def \<open>m (ts_creator y) = Some c\<close> Some option.case
      using assigned
      by (auto intro!: tables_andthen [OF up] attach_labels U
          simp: andthen_prims simp del: prims_run)
  qed (use assigned Some in \<open>simp add: seed_task_def tables_def\<close>)
qed (simp add: seed_task_def tables_def)

subsection \<open>The whole seeding\<close>

lemma tables_transaction: "tables e P fn Q \<Longrightarrow> tables e P (RunInTransaction fn) Q"
proof (rule tablesI)
  fix w x w'
  assume fn: "tables e P fn Q" and P: "P (w_db w)" and run: "RunInTransaction fn e w = (Ok x, w')"
  obtain r0 w0 where b: "tx_begin e w = (r0, w0)" by fastforce
  define wt where "wt = w0\<lparr>w_tx_time := Some (e_clock e (w_tick w))\<rparr>"
  obtain r1 w1 where f: "fn e wt = (r1, w1)" by fastforce
  obtain r2 w2 where c: "tx_commit e w1 = (r2, w2)" by fastforce
  have r1: "r1 = Ok ()" and r2: "r2 = Ok ()"
    using run b f c unfolding RunInTransaction_def wt_def
    by (auto split: result.splits if_splits)
  have "w_tx_time w2 = None"
    using c unfolding r2 tx_commit_def by (auto dest!: external_Ok)
  then have "w_db w' = w_db w1" "x = ()"
    using run b f c r1 r2 tx_commit_db [of e w1] unfolding RunInTransaction_def wt_def
    by (auto split: result.splits)
  moreover have "P (w_db wt)" using P b tx_begin_db [of e w] by (simp add: wt_def)
  ultimately show "Q x (w_db w')" using tablesD [OF fn _ f [unfolded r1]] by simp
qed

lemma stored_label_frames [simp]:
  "label_seeded (d\<lparr>db_tasks := ts\<rparr>) = label_seeded d"
  "label_seeded (d\<lparr>db_task_labels := tls\<rparr>) = label_seeded d"
  by (simp_all add: label_seeded_def fun_eq_iff)

definition seeded :: "env \<Rightarrow> db \<Rightarrow> bool" where
  "seeded e d \<longleftrightarrow> (\<exists>userIDs labelIDs.
     (\<forall>u\<in>set devUsers. \<exists>i. userIDs (us_email u) = Some i \<and> user_seeded e d u i)
     \<and> (\<forall>l\<in>set devLabels. \<exists>i. labelIDs (ls_name l) = Some i \<and> label_seeded d l i)
     \<and> (\<forall>s\<in>set devTasks. task_seeded e userIDs labelIDs d s))"

lemma seed_rows_tables: "tables e db_inv seed_rows (\<lambda>_. seeded e)"
  unfolding seed_rows_def
proof (rule tables_andthen [OF devUsers_tables], goal_cases)
  case (1 m)
  define U where "U d \<longleftrightarrow> (\<forall>u\<in>set devUsers. \<exists>i. m (us_email u) = Some i \<and> user_seeded e d u i)" for d
  have U: "U d \<Longrightarrow> U (d\<lparr>db_labels := ls\<rparr>)" "U d \<Longrightarrow> U (d\<lparr>db_tasks := ts\<rparr>)"
    "U d \<Longrightarrow> U (d\<lparr>db_task_labels := tls\<rparr>)" for d ls ts tls by (simp_all add: U_def)
  have P: "users_seeded e (set devUsers) m = (\<lambda>d. U d \<and> db_inv d)"
    by (auto simp: users_seeded_def U_def fun_eq_iff)
  show ?case unfolding P
  proof (rule tables_andthen [OF upsertLabels_tables], goal_cases)
    case 1
    then show ?case by (rule U(1))
  next
    case (2 k)
    define V where "V d \<longleftrightarrow> U d \<and> db_inv d
      \<and> (\<forall>l\<in>set devLabels. \<exists>i. k (ls_name l) = Some i \<and> label_seeded d l i)" for d
    define W where "W d \<longleftrightarrow> U d
      \<and> (\<forall>l\<in>set devLabels. \<exists>i. k (ls_name l) = Some i \<and> label_seeded d l i)" for d
    have W: "W d \<Longrightarrow> W (d\<lparr>db_task_labels := tls\<rparr>)" "W d \<Longrightarrow> W (d\<lparr>db_tasks := ts\<rparr>)" for d ts tls
      using U by (simp_all add: W_def)
    have d: "distinct (map ts_id devTasks)" "s \<in> set devTasks \<Longrightarrow> ts_assignee s \<noteq> []" for s
      by (auto simp: devTasks_def)
    have "tables e (tasks_seeded e W m k {}) (for_each devTasks (seed_task m k))
      (\<lambda>_. tasks_seeded e W m k (set devTasks))"
    proof (rule tables_for_each)
      fix xs y zs
      assume split: "devTasks = xs @ y # zs"
      have assigned: "ts_assignee y \<noteq> []" by (rule d(2)) (simp add: split)
      from distinct_before [OF d(1) split]
      show "tables e (tasks_seeded e W m k (set xs)) (seed_task m k y)
          (\<lambda>_. tasks_seeded e W m k (insert y (set xs)))"
        by (rule seed_task_round) (use assigned W in simp_all)
    qed
    then have "tables e (\<lambda>d. tasks_seeded e W m k {} d) (for_each devTasks (seed_task m k)) (\<lambda>_. seeded e)"
      by (rule tables_weaken)
        (unfold seeded_def tasks_seeded_def W_def U_def, blast)
    then show ?case
      by (rule tables_pre) (simp add: tasks_seeded_def W_def)
  qed
qed

text \<open>
  C15. A seeding of the development data that returns normally has stored, under any failures
  and any earlier contents of consistent tables, every user with its address, name, password
  and role, every label with its colour, and every task with its texts, status, priority, due date, creator,
  assignee and labels.
\<close>

theorem seed_complete:
  assumes "SeedDevelopmentData connected e w = (Ok (), w')" and "db_inv (w_db w)"
  shows "seeded e (w_db w')"
proof -
  from assms(1) obtain w1 where r: "SeedSystemRoles e w = (Ok (), w1)"
    and s: "seed_transaction e w1 = (Ok (), w')"
    by (auto simp: SeedDevelopmentData_def andthen_Ok_iff wrapping_Ok_iff go_prims split: if_splits)
  have "db_inv (w_db w1)"
    using holdsD [OF everything.SeedSystemRoles_consistent _ r] assms(2) by (simp add: on_db_def)
  moreover from seed_transaction_run [OF s] have "RunInTransaction seed_rows e w1 = (Ok (), w')" by auto
  ultimately show ?thesis by (rule tablesD [OF tables_transaction [OF seed_rows_tables]])
qed

text \<open>
  Seeding keeps the consistency of the tables and all access entries on every exit,
  whatever fails.
\<close>

theorem seed_consistent:
  assumes "SeedDevelopmentData connected e w = (r, w')" and "db_inv (w_db w)"
  shows "db_inv (w_db w') \<and> db_acl (w_db w') = db_acl (w_db w)"
  using holdsD [OF seed_acl.seed_holds _ assms(1), of "db_acl (w_db w)"] assms(2)
  by (simp add: on_db_def)

section \<open>A label in other letters stops the seeding\<close>

text \<open>
  The labels are looked up by their exact names, but the names are unique up to letter case: a
  label \<open>Backend\<close> that a user has created makes every seeding fail.
\<close>

definition foreign_label :: "env \<Rightarrow> label list \<Rightarrow> bool" where
  "foreign_label e ls \<longleftrightarrow> e_pg_lower e ''backend'' \<in> (e_pg_lower e \<circ> l_name) ` set ls
     \<and> (\<forall>k\<in>set ls. l_name k \<noteq> ''backend'')"

lemma sql_labels [keeps]:
  "(\<And>t d. db_labels (snd (q t d)) = db_labels d) \<Longrightarrow>
     holds (on_db (\<lambda>d. P (db_labels d))) (sql q) (\<lambda>_. True)"
  by (rule holds_sql) (metis snd_conv)

lemma roles_keep_labels:
  "holds (on_db (\<lambda>d. P (db_labels d))) SeedSystemRoles (\<lambda>_. True)"
  unfolding SeedSystemRoles_def Let_def sync_role_def Role_DeleteByNames_def Role_Save_def
    Role_RemoveAllPermissions_def
  by (intro keeps TrueI)
    (simp_all add: writer_defs Let_def split: option.splits)

lemma users_keep_labels:
  "holds (on_db (\<lambda>d. P (db_labels d))) (fold_go devUsers seed_user Map.empty) (\<lambda>_. True)"
  unfolding seed_user_def upsertUser_def new_user_def store_user_def
  by (intro keeps TrueI)
    (simp_all add: writer_defs Let_def split: option.splits)

lemma by_name_None: "(\<forall>r\<in>set rows. l_name r \<noteq> n) \<Longrightarrow> by_name rows m n = m n"
  by (induction rows arbitrary: m) auto

lemma foreign_label_blocks: "tables e (\<lambda>d. foreign_label e (db_labels d)) upsertLabels (\<lambda>_ _. False)"
  unfolding upsertLabels_def
proof (rule tables_asks, rule tables_andthen [OF tables_wrapping [OF tables_sql [where Q =
      "\<lambda>rows d. foreign_label e (db_labels d) \<and> set rows = set (db_labels d)"]]], goal_cases)
  case (1 t d rows d')
  then show ?case by (auto simp: q_ListLabels_def q_read_def)
next
  case (2 rows)
  obtain y ys where y: "devLabels = y # ys" "ls_name y = ''backend''" by (simp add: devLabels_def)
  show ?case
  proof (cases "by_name rows Map.empty ''backend''")
    case None
    have "tables e (\<lambda>d. foreign_label e (db_labels d) \<and> set rows = set (db_labels d))
      (seed_label (by_name rows Map.empty) y Map.empty) (\<lambda>_ _. False)"
      unfolding seed_label_def y None option.case
    proof (rule tables_asks, rule tables_then [OF tables_clock(2)], rule tables_then [OF tables_clock(1)],
        rule tables_wrapped_lift,
        rule tables_andthen [OF tables_wrapping [OF tables_sql [where Q = "\<lambda>_ _. False"]]], goal_cases)
      case (1 i now l t d x d')
      then have "l_name l = ''backend''" by (auto simp: NewLabel_def split: if_splits)
      with 1(2,3) show ?case by (auto simp: q_CreateLabel_def foreign_label_def Let_def split: if_splits)
    qed (simp add: tables_def)
    then show ?thesis unfolding y fold_go.simps
      by (rule tables_andthen) (simp add: tables_def)
  next
    case (Some l)
    then have "\<exists>r\<in>set rows. l_name r = ''backend''" using by_name_listed [OF Some] by auto
    then show ?thesis by (auto intro!: tablesI simp: foreign_label_def)
  qed
qed

text \<open>
  A label whose name differs from the seeded label \<open>backend\<close> only in letter case, with no
  label of exactly that name, makes every seeding fail.
\<close>

theorem seed_blocked_by_label:
  assumes "l \<in> set (db_labels (w_db w))"
    and "e_pg_lower e (l_name l) = e_pg_lower e ''backend''"
    and "\<forall>k\<in>set (db_labels (w_db w)). l_name k \<noteq> ''backend''"
  shows "fst (SeedDevelopmentData connected e w) \<noteq> Ok ()"
proof
  assume ok: "fst (SeedDevelopmentData connected e w) = Ok ()"
  then obtain w' where "SeedDevelopmentData connected e w = (Ok (), w')" by (metis prod.collapse)
  then obtain w1 where r: "SeedSystemRoles e w = (Ok (), w1)"
    and s: "seed_transaction e w1 = (Ok (), w')"
    by (auto simp: SeedDevelopmentData_def andthen_Ok_iff wrapping_Ok_iff go_prims split: if_splits)
  have "foreign_label e (db_labels (w_db w))"
    using assms by (auto simp: foreign_label_def image_iff intro!: bexI [of _ l])
  then have f: "foreign_label e (db_labels (w_db w1))"
    using holdsD [OF roles_keep_labels [of "foreign_label e"] _ r] by (simp add: on_db_def)
  have u: "tables e (\<lambda>d. foreign_label e (db_labels d)) (fold_go devUsers seed_user Map.empty)
    (\<lambda>_ d. foreign_label e (db_labels d))"
  proof (rule tablesI)
    fix w x w'
    assume "foreign_label e (db_labels (w_db w))"
      and run: "fold_go devUsers seed_user Map.empty e w = (Ok x, w')"
    then show "foreign_label e (db_labels (w_db w'))"
      using holdsD [OF users_keep_labels [of "foreign_label e"] _ run] by (simp add: on_db_def)
  qed
  have "tables e (\<lambda>d. foreign_label e (db_labels d)) seed_rows (\<lambda>_ _. False)"
    unfolding seed_rows_def
    by (rule tables_andthen [OF u], rule tables_andthen [OF foreign_label_blocks]) (simp add: tables_def)
  note never = tables_transaction [OF this]
  from seed_transaction_run [OF s] have "RunInTransaction seed_rows e w1 = (Ok (), w')" by auto
  from tablesD [OF never _ this] f show False by blast
qed

end
