(* ===== verification/SeedRuns.thy ===== *)
theory SeedRuns
  imports SeedFlows
begin

text \<open>
  The seeding returns: with working services, ids that are new and labels that do not collide
  in letter case, the system roles and the development data are seeded without an error.
  \<open>runs N e P m Q\<close> is total: from every tick and consistent tables with \<open>P\<close> the computation \<open>m\<close>
  returns normally, with \<open>Q\<close>.
\<close>

section \<open>Total postconditions\<close>

definition later :: "env \<Rightarrow> 'a go \<Rightarrow> bool" where
  "later e m \<longleftrightarrow> (\<forall>w. w_tick w \<le> w_tick (snd (m e w)))"

definition runs ::
  "nat \<Rightarrow> env \<Rightarrow> (nat \<Rightarrow> db \<Rightarrow> bool) \<Rightarrow> 'a go \<Rightarrow> ('a \<Rightarrow> nat \<Rightarrow> db \<Rightarrow> bool) \<Rightarrow> bool" where
  "runs N e P m Q \<longleftrightarrow> later e m \<and>
     (\<forall>w. w_tick (snd (m e w)) \<le> N \<longrightarrow> db_inv (w_db w) \<longrightarrow> P (w_tick w) (w_db w) \<longrightarrow>
       (\<exists>x w'. m e w = (Ok x, w') \<and> db_inv (w_db w') \<and> Q x (w_tick w') (w_db w')))"

lemma runsI:
  "later e m \<Longrightarrow> (\<And>w. w_tick (snd (m e w)) \<le> N \<Longrightarrow> db_inv (w_db w) \<Longrightarrow> P (w_tick w) (w_db w) \<Longrightarrow>
     \<exists>x w'. m e w = (Ok x, w') \<and> db_inv (w_db w') \<and> Q x (w_tick w') (w_db w')) \<Longrightarrow> runs N e P m Q"
  by (simp add: runs_def)

lemma runsD:
  "runs N e P m Q \<Longrightarrow> w_tick (snd (m e w)) \<le> N \<Longrightarrow> db_inv (w_db w) \<Longrightarrow> P (w_tick w) (w_db w) \<Longrightarrow>
     \<exists>x w'. m e w = (Ok x, w') \<and> db_inv (w_db w') \<and> Q x (w_tick w') (w_db w')"
  by (simp add: runs_def)

lemma runs_later: "runs N e P m Q \<Longrightarrow> later e m"
  by (simp add: runs_def)

lemma laterD: "later e m \<Longrightarrow> w_tick w \<le> w_tick (snd (m e w))"
  by (simp add: later_def)

lemma later_prims [simp]:
  "later e (ret x)" "later e (raise err)" "later e (panic p)" "later e (lift r)" "later e (asks f)"
  "later e now_utc" "later e fresh_uuid" "later e (bcrypt_hash pw)"
  by (simp_all add: later_def clock_run)

lemma later_sql [simp]: "later e (sql q)"
  by (auto simp: later_def sql_def external_def run_sql_def Let_def
      split: option.splits fault.splits prod.splits)

lemma later_andthen [simp]: "later e m \<Longrightarrow> (\<And>x. later e (f x)) \<Longrightarrow> later e (andthen m f)"
  unfolding later_def andthen_def
  by (auto split: prod.splits result.splits) (metis le_trans snd_conv)+

lemma same_world:
  "snd (attempt m e w) = snd (m e w)" "snd (wrapping msg m e w) = snd (m e w)"
  by (auto simp: attempt_def wrapping_run split: prod.splits result.splits)

lemma optional_world: "snd (no_rows_is_nil m e w) = snd (m e w)"
  by (auto simp: no_rows_is_nil_def andthen_def attempt_def go_prims split: prod.splits result.splits)

lemma later_attempt [simp]: "later e (attempt m) = later e m"
  and later_wrapping [simp]: "later e (wrapping msg m) = later e m"
  by (simp_all add: later_def same_world)

lemma later_cases [simp]:
  "later e m \<Longrightarrow> later e m' \<Longrightarrow> later e (if b then m else m')"
  "later e m \<Longrightarrow> (\<And>y. later e (f y)) \<Longrightarrow> later e (case z of None \<Rightarrow> m | Some y \<Rightarrow> f y)"
  by (auto split: option.splits)

lemma later_for_each [simp]: "(\<And>x. later e (f x)) \<Longrightarrow> later e (for_each xs f)"
  by (induction xs) (simp_all del: prims_run)

lemma later_optional [simp]: "later e m \<Longrightarrow> later e (no_rows_is_nil m)"
  unfolding no_rows_is_nil_def by (rule later_andthen) (auto split: result.splits)

lemma runs_weaken: "runs N e P m Q \<Longrightarrow> (\<And>x n d. Q x n d \<Longrightarrow> Q' x n d) \<Longrightarrow> runs N e P m Q'"
  unfolding runs_def by meson

lemma runs_pre: "runs N e P m Q \<Longrightarrow> (\<And>n d. db_inv d \<Longrightarrow> P' n d \<Longrightarrow> P n d) \<Longrightarrow> runs N e P' m Q"
  unfolding runs_def by meson

lemma runs_ret: "(\<And>n d. P n d \<Longrightarrow> Q x n d) \<Longrightarrow> runs N e P (ret x) Q"
  by (simp add: runs_def)

lemma runs_andthen:
  assumes "runs N e P m R" "\<And>x. runs N e (R x) (f x) Q"
  shows "runs N e P (andthen m f) Q"
proof (rule runsI)
  show "later e (andthen m f)" using assms by (intro later_andthen runs_later)
  fix w :: world
  assume N: "w_tick (snd (andthen m f e w)) \<le> N" and w: "db_inv (w_db w)" "P (w_tick w) (w_db w)"
  have "w_tick (snd (m e w)) \<le> w_tick (snd (andthen m f e w))"
    using laterD [OF runs_later [OF assms(2)]] by (auto simp: andthen_def split: prod.splits result.splits)
  from runsD [OF assms(1) order_trans [OF this N] w] obtain x w1 where
    m: "m e w = (Ok x, w1)" "db_inv (w_db w1)" "R x (w_tick w1) (w_db w1)" by blast
  from runsD [OF assms(2) _ m(2,3)] m(1) N
  show "\<exists>y w'. andthen m f e w = (Ok y, w') \<and> db_inv (w_db w') \<and> Q y (w_tick w') (w_db w')"
    by simp
qed

lemma runs_fact: "later e m \<Longrightarrow> (R \<Longrightarrow> runs N e P m Q) \<Longrightarrow> runs N e (\<lambda>n d. P n d \<and> R) m Q"
  by (auto simp: runs_def)

lemma runs_now:
  "(\<And>n d. P n d \<Longrightarrow> P (Suc n) d) \<Longrightarrow> (\<And>x. runs N e P (f x) Q) \<Longrightarrow> runs N e P (andthen now_utc f) Q"
  by (rule runs_andthen [where R = "\<lambda>_. P"]) (simp_all add: runs_def clock_run)

lemma runs_uuid:
  "(\<And>k. runs N e (\<lambda>n d. n = Suc k \<and> k < N \<and> P k d) (f (e_new_uuid e k)) Q) \<Longrightarrow>
     (\<And>x. later e (f x)) \<Longrightarrow> runs N e P (andthen fresh_uuid f) Q"
proof (rule runsI, rule later_andthen, simp)
  fix w :: world
  assume f: "\<And>k. runs N e (\<lambda>n d. n = Suc k \<and> k < N \<and> P k d) (f (e_new_uuid e k)) Q"
    "\<And>x. later e (f x)"
    and w: "w_tick (snd (andthen fresh_uuid f e w)) \<le> N" "db_inv (w_db w)" "P (w_tick w) (w_db w)"
  let ?g = "f (e_new_uuid e (w_tick w))"
  have run: "andthen fresh_uuid f e w = ?g e (tick w)" by (simp add: andthen_def clock_run)
  have "Suc (w_tick w) \<le> w_tick (snd (?g e (tick w)))" using laterD [OF f(2), of "tick w"] by simp
  with w run have "w_tick w < N" by simp
  from runsD [OF f(1) [of "w_tick w"], where w = "tick w"] w run this
  show "\<exists>x w'. andthen fresh_uuid f e w = (Ok x, w') \<and> db_inv (w_db w') \<and> Q x (w_tick w') (w_db w')"
    by simp
qed

lemma runs_lift: "r = Ok x \<Longrightarrow> runs N e P (f x) Q \<Longrightarrow> runs N e P (andthen (lift r) f) Q"
  by (simp add: runs_def later_def)

lemma runs_asks: "runs N e P (f (g e)) Q \<Longrightarrow> runs N e P (andthen (asks g) f) Q"
  by (simp add: runs_def later_def)

lemma runs_wrapping: "runs N e P m Q \<Longrightarrow> runs N e P (wrapping msg m) Q"
  by (simp add: runs_def wrapping_Ok_iff same_world)

lemma sql_total:
  "fault_free e \<Longrightarrow> \<exists>t. sql q e w = (let (r, d) = q t (w_db w) in (r, (tick w)\<lparr>w_db := d\<rparr>))"
  by (auto simp: sql_def external_run run_sql_def)

lemma runs_sql:
  assumes "fault_free e" "stmt_keeps q"
    and "\<And>n t d. db_inv d \<Longrightarrow> P n d \<Longrightarrow> \<exists>x d'. q t d = (Ok x, d') \<and> Q x (Suc n) d'"
  shows "runs N e P (sql q) Q"
proof (rule runsI, simp)
  fix w :: world assume w: "db_inv (w_db w)" "P (w_tick w) (w_db w)"
  from sql_total [OF assms(1)] obtain t where
    t: "sql q e w = (let (r, d) = q t (w_db w) in (r, (tick w)\<lparr>w_db := d\<rparr>))" by blast
  from assms(3) [OF w, of t] obtain x d' where q: "q t (w_db w) = (Ok x, d')" "Q x (Suc (w_tick w)) d'"
    by blast
  with t stmt_keepsD [OF assms(2) q(1) w(1)]
  show "\<exists>x w'. sql q e w = (Ok x, w') \<and> db_inv (w_db w') \<and> Q x (w_tick w') (w_db w')" by simp
qed

lemma stmt_reads: "reads q \<Longrightarrow> stmt_keeps q"
  by (simp add: reads_def stmt_keeps_def)

text \<open>An optional row: found, or \<open>ErrNoRows\<close>.\<close>

lemma runs_optional:
  assumes "fault_free e" and "\<And>n d. P n d \<Longrightarrow> Q (f d) (Suc n) d"
  shows "runs N e P (no_rows_is_nil (sql (q_one f))) Q"
proof (rule runsI, simp)
  fix w :: world assume w: "db_inv (w_db w)" "P (w_tick w) (w_db w)"
  from sql_total [OF assms(1)] obtain t where
    t: "sql (q_one f) e w = (let (r, d) = q_one f t (w_db w) in (r, (tick w)\<lparr>w_db := d\<rparr>))" by blast
  have "errors_Is pgx_ErrNoRows pgx_ErrNoRows" by simp
  with t have "no_rows_is_nil (sql (q_one f)) e w = (Ok (f (w_db w)), (tick w)\<lparr>w_db := w_db w\<rparr>)"
    by (cases "f (w_db w)") (simp_all add: no_rows_is_nil_def andthen_def attempt_def q_one_def)
  with assms(2) [OF w(2)] w(1)
  show "\<exists>x w'. no_rows_is_nil (sql (q_one f)) e w = (Ok x, w') \<and> db_inv (w_db w')
      \<and> Q x (w_tick w') (w_db w')" by simp
qed

lemma runs_for_each:
  assumes "\<And>xs y zs. ys = xs @ y # zs \<Longrightarrow> runs N e (J xs (y # zs)) (f y) (\<lambda>_. J (xs @ [y]) zs)"
  shows "runs N e (J [] ys) (for_each ys f) (\<lambda>_. J ys [])"
proof -
  have "runs N e (J xs zs) (for_each zs f) (\<lambda>_. J ys [])" if "ys = xs @ zs" for xs zs
    using that
  proof (induction zs arbitrary: xs)
    case (Cons z zs)
    show ?case unfolding for_each.simps
      by (rule runs_andthen [OF assms [OF Cons.prems]], rule Cons.IH) (simp add: Cons.prems)
  qed (simp add: runs_def)
  from this [of "[]" ys] show ?thesis by simp
qed

lemma runs_fold_go:
  assumes "\<And>xs y zs acc. ys = xs @ y # zs \<Longrightarrow>
      runs N e (J xs (y # zs) acc) (f y acc) (J (xs @ [y]) zs)"
  shows "runs N e (J [] ys acc) (fold_go ys f acc) (J ys [])"
proof -
  have "runs N e (J xs zs acc) (fold_go zs f acc) (J ys [])" if "ys = xs @ zs" for xs zs acc
    using that
  proof (induction zs arbitrary: xs acc)
    case (Cons z zs)
    show ?case unfolding fold_go.simps
      by (rule runs_andthen [OF assms [OF Cons.prems]], rule Cons.IH) (simp add: Cons.prems)
  qed (simp add: runs_def)
  from this [of "[]" ys] show ?thesis by simp
qed

lemma tx_run:
  assumes "fault_free e"
  shows "tx_begin e w = (Ok (), tick w)" "tx_commit e w = (Ok (), (tick w)\<lparr>w_tx_time := None\<rparr>)"
  using assms by (simp_all add: tx_begin_def tx_commit_def external_run)

lemma transaction_run:
  assumes "fault_free e"
  defines "wt \<equiv> \<lambda>w. (tick w)\<lparr>w_tx_time := Some (e_clock e (w_tick w))\<rparr>"
  shows "RunInTransaction fn e w = (case fn e (wt w) of
      (Ok u, w1) \<Rightarrow> (Ok (), (tick w1)\<lparr>w_tx_time := None\<rparr>)
    | (Err err, w1) \<Rightarrow> (Err err, w1\<lparr>w_db := w_db w, w_tx_time := None\<rparr>)
    | (Panic p, w1) \<Rightarrow> (Panic p, w1\<lparr>w_db := w_db w, w_tx_time := None\<rparr>))"
  by (simp add: RunInTransaction_def tx_run [OF assms(1)] wt_def split: prod.splits result.splits)

lemma runs_transaction:
  assumes ff: "fault_free e" and fn: "runs N e P fn (\<lambda>_. Q)"
    and step: "\<And>n d. P n d \<Longrightarrow> P (Suc n) d" "\<And>n d. Q n d \<Longrightarrow> Q (Suc n) d"
  shows "runs N e P (RunInTransaction fn) (\<lambda>_. Q)"
proof (rule runsI)
  define wt where "wt w = (tick w)\<lparr>w_tx_time := Some (e_clock e (w_tick w))\<rparr>" for w
  have wt: "w_tick w \<le> w_tick (wt w)" "w_tick (wt w) = Suc (w_tick w)" "w_db (wt w) = w_db w" for w
    by (simp_all add: wt_def)
  have grow: "w_tick (snd (fn e (wt w))) \<le> w_tick (snd (RunInTransaction fn e w))" for w
    by (simp add: transaction_run [OF ff] wt_def split: prod.splits result.splits)
  show "later e (RunInTransaction fn)"
    using wt(1) laterD [OF runs_later [OF fn]] grow unfolding later_def by (meson order_trans)
  fix w
  assume N: "w_tick (snd (RunInTransaction fn e w)) \<le> N" and w: "db_inv (w_db w)" "P (w_tick w) (w_db w)"
  then have "db_inv (w_db (wt w))" "P (w_tick (wt w)) (w_db (wt w))" using step(1) by (simp_all add: wt)
  from runsD [OF fn order_trans [OF grow N] this] obtain u w1 where "fn e (wt w) = (Ok u, w1)"
    "db_inv (w_db w1)" "Q (w_tick w1) (w_db w1)" by blast
  then show "\<exists>x w'. RunInTransaction fn e w = (Ok x, w') \<and> db_inv (w_db w') \<and> Q (w_tick w') (w_db w')"
    using step(2) by (simp add: transaction_run [OF ff] wt_def)
qed

section \<open>The system roles\<close>

text \<open>The ids that the generator gives from tick \<open>n\<close> on are in no table.\<close>

definition used_ids :: "db \<Rightarrow> uuid set" where
  "used_ids d = user_ids d \<union> role_ids d \<union> permission_ids d \<union> label_ids d"

definition new_ids :: "nat \<Rightarrow> env \<Rightarrow> nat \<Rightarrow> db \<Rightarrow> bool" where
  "new_ids N e n d \<longleftrightarrow> (\<forall>k\<ge>n. k < N \<longrightarrow> e_new_uuid e k \<notin> used_ids d)"

lemma new_ids_grow:
  assumes "new_ids N e n d" "inj_on (e_new_uuid e) {..<N}" "used_ids d' \<subseteq> insert i (used_ids d)"
    and "i \<in> used_ids d \<or> (\<exists>k<n. i = e_new_uuid e k)"
  shows "new_ids N e (Suc n) d'"
  unfolding new_ids_def
proof (intro allI impI notI)
  fix k assume k: "Suc n \<le> k" "k < N" "e_new_uuid e k \<in> used_ids d'"
  then have "e_new_uuid e k \<notin> used_ids d" using assms(1) by (simp add: new_ids_def)
  with k(3) assms(3,4) obtain j where "j < n" "e_new_uuid e k = e_new_uuid e j" by auto
  with assms(2) k(1,2) have "k = j" by (auto dest: inj_onD)
  with k \<open>j < n\<close> show False by simp
qed

definition roles_at :: "nat \<Rightarrow> env \<Rightarrow> label list \<Rightarrow> string set \<Rightarrow> nat \<Rightarrow> db \<Rightarrow> bool" where
  "roles_at N e L S n d \<longleftrightarrow> new_ids N e n d \<and> db_labels d = L \<and> S \<subseteq> rr_name ` set (db_roles d)"

lemma new_ids_shrink: "new_ids N e n d \<Longrightarrow> used_ids d' \<subseteq> used_ids d \<Longrightarrow> new_ids N e (Suc n) d'"
  by (fastforce simp: new_ids_def)

lemma new_ids_Suc: "new_ids N e n d \<Longrightarrow> new_ids N e (Suc n) d"
  by (simp add: new_ids_def)

lemma roles_at_Suc: "roles_at N e L S n d \<Longrightarrow> roles_at N e L S (Suc n) d"
  by (simp add: roles_at_def new_ids_Suc)

text \<open>
  The role in memory is the row of its name, or has an id that no row has; its permissions have
  ids of their own.
\<close>

definition role_ready :: "env \<Rightarrow> string \<Rightarrow> role \<Rightarrow> nat \<Rightarrow> db \<Rightarrow> bool" where
  "role_ready e name r n d \<longleftrightarrow> r_name r = name
     \<and> ((\<exists>row\<in>set (db_roles d). rr_id row = r_id r \<and> rr_name row = name)
        \<or> (name \<notin> rr_name ` set (db_roles d) \<and> r_id r \<notin> role_ids d \<and> (\<exists>k<n. r_id r = e_new_uuid e k)))"

definition ids_ready :: "env \<Rightarrow> permission list \<Rightarrow> nat \<Rightarrow> db \<Rightarrow> bool" where
  "ids_ready e ps n d \<longleftrightarrow> distinct (map p_id ps)
     \<and> (\<forall>p\<in>set ps. p_id p \<notin> permission_ids d \<and> (\<exists>k<n. p_id p = e_new_uuid e k))"

lemma ready_Suc:
  "role_ready e name r n d \<Longrightarrow> role_ready e name r (Suc n) d"
  "ids_ready e ps n d \<Longrightarrow> ids_ready e ps (Suc n) d"
  by (auto simp: role_ready_def ids_ready_def less_Suc_eq)

lemma unkeyed_frames [simp]:
  "new_ids N e n (d\<lparr>db_role_permissions := prs\<rparr>) = new_ids N e n d"
  "ids_ready e ps n (d\<lparr>db_role_permissions := prs\<rparr>) = ids_ready e ps n d"
  "new_ids N e n (d\<lparr>db_user_roles := urs\<rparr>) = new_ids N e n d"
  "user_ids (d\<lparr>db_user_roles := urs\<rparr>) = user_ids d"
  "role_ids (d\<lparr>db_role_permissions := prs\<rparr>) = role_ids d"
  "role_ready e name r n (d\<lparr>db_role_permissions := prs\<rparr>) = role_ready e name r n d"
  by (simp_all add: new_ids_def used_ids_def ids_ready_def role_ready_def id_sets)

lemma ids_ready_tail:
  assumes "ids_ready e (p # ps) n d" "permission_ids d' \<subseteq> insert (p_id p) (permission_ids d)"
  shows "ids_ready e ps (Suc n) d'"
  unfolding ids_ready_def
proof (intro conjI ballI)
  fix q assume q: "q \<in> set ps"
  with assms(1) have "p_id q \<noteq> p_id p" by (metis ids_ready_def distinct.simps(2) imageI list.set_map list.simps(9))
  with assms q show "p_id q \<notin> permission_ids d'" by (auto simp: ids_ready_def)
  show "\<exists>k<Suc n. p_id q = e_new_uuid e k"
    using assms(1) q by (auto simp: ids_ready_def less_Suc_eq)
qed (use assms(1) in \<open>simp add: ids_ready_def\<close>)

lemma UpsertRole_total:
  assumes ready: "role_ready e (rr_name arg) r n d" and id: "rr_id arg = r_id r" and inv: "db_inv d"
  shows "\<exists>x rs. q_UpsertRole arg t d = (Ok x, d\<lparr>db_roles := rs\<rparr>)
    \<and> rr_name ` set rs = insert (rr_name arg) (rr_name ` set (db_roles d))
    \<and> rr_id ` set rs = insert (r_id r) (role_ids d)"
proof (cases "find (\<lambda>x. rr_name x = rr_name arg) (db_roles d)")
  case None
  then have absent: "rr_name arg \<notin> rr_name ` set (db_roles d)" by (simp add: find_key_None)
  moreover have "rr_name arg \<in> rr_name ` set (db_roles d)"
    if "row \<in> set (db_roles d)" "rr_name row = rr_name arg" for row
    using that by (metis imageI)
  ultimately have "r_id r \<notin> role_ids d" using ready unfolding role_ready_def by blast
  define new where "new = arg\<lparr>rr_created := pg_timestamptz (rr_created arg),
        rr_updated := pg_timestamptz (rr_updated arg)\<rparr>"
  have "q_UpsertRole arg t d = (Ok new, d\<lparr>db_roles := db_roles d @ [new]\<rparr>)"
    using None absent \<open>r_id r \<notin> role_ids d\<close> id
    by (simp add: q_UpsertRole_def q_CreateRole_def Let_def new_def)
  moreover have "rr_name new = rr_name arg" "rr_id new = r_id r" using id by (simp_all add: new_def)
  ultimately show ?thesis
    by (intro exI [of _ new] exI [of _ "db_roles d @ [new]"]) (auto simp: role_ids_def)
next
  case (Some old)
  define row where "row = old\<lparr>rr_description := rr_description arg, rr_updated := pg_timestamptz t\<rparr>"
  define rs where "rs = map (\<lambda>x. if rr_name x = rr_name arg then row else x) (db_roles d)"
  note found = find_in [OF Some]
  have d: "distinct (map rr_name (db_roles d))" using inv by (simp add: inv_defs)
  have "map rr_id rs = map rr_id (db_roles d) \<and> map rr_name rs = map rr_name (db_roles d)"
    unfolding rs_def by (rule replace_by_name [OF Some d]) (simp_all add: row_def)
  then have same: "rr_id ` set rs = role_ids d" "rr_name ` set rs = rr_name ` set (db_roles d)"
    unfolding role_ids_def by (metis set_map)+
  have "rr_name arg \<in> rr_name ` set (db_roles d)" using found by (metis imageI)
  moreover from this ready have "r_id r \<in> role_ids d"
    unfolding role_ready_def role_ids_def by (metis imageI)
  moreover have "q_UpsertRole arg t d = (Ok row, d\<lparr>db_roles := rs\<rparr>)"
    by (simp add: q_UpsertRole_def Some row_def rs_def Let_def)
  ultimately show ?thesis using same by blast
qed

lemma UpsertPermission_total:
  assumes "p_id p \<notin> permission_ids d"
  shows "\<exists>x ps. q_UpsertPermission p t d = (Ok x, d\<lparr>db_permissions := ps\<rparr>)
    \<and> p_id x \<in> p_id ` set ps \<and> p_id ` set ps \<subseteq> insert (p_id p) (permission_ids d)"
proof (cases "find (\<lambda>x. p_name x = p_name p) (db_permissions d)")
  case None
  then have "p_name p \<notin> p_name ` set (db_permissions d)" by (simp add: find_key_None)
  define new where "new = p\<lparr>p_created := pg_timestamptz (p_created p)\<rparr>"
  have "q_UpsertPermission p t d = (Ok new, d\<lparr>db_permissions := db_permissions d @ [new]\<rparr>)"
    using None assms \<open>p_name p \<notin> _\<close>
    by (simp add: q_UpsertPermission_def q_CreatePermission_def Let_def new_def)
  moreover have "p_id new = p_id p" by (simp add: new_def)
  ultimately show ?thesis
    by (intro exI [of _ new] exI [of _ "db_permissions d @ [new]"]) (auto simp: permission_ids_def)
next
  case (Some old)
  define row where "row = old\<lparr>p_resource := p_resource p, p_action := p_action p\<rparr>"
  define ps where "ps = map (\<lambda>x. if p_name x = p_name p then row else x) (db_permissions d)"
  note found = find_in [OF Some]
  have "row \<in> set ps" using found by (auto simp: ps_def image_iff)
  moreover have "p_id row = p_id old" by (simp add: row_def)
  then have "p_id ` set ps \<subseteq> permission_ids d"
    using found(1) by (auto simp: ps_def permission_ids_def)
  moreover have "q_UpsertPermission p t d = (Ok row, d\<lparr>db_permissions := ps\<rparr>)"
    by (simp add: q_UpsertPermission_def Some row_def ps_def Let_def)
  ultimately show ?thesis by blast
qed

text \<open>Saving a role: its row, then each permission with its entry in the junction table.\<close>

definition saving :: "nat \<Rightarrow> env \<Rightarrow> label list \<Rightarrow> string set \<Rightarrow> role \<Rightarrow> permission list \<Rightarrow> nat \<Rightarrow> db \<Rightarrow> bool" where
  "saving N e L S r ps n d \<longleftrightarrow> roles_at N e L S n d \<and> r_id r \<in> role_ids d \<and> ids_ready e ps n d"

lemma Role_Save_runs:
  assumes ff: "fault_free e" and inj: "inj_on (e_new_uuid e) {..<N}"
  shows "runs N e (\<lambda>n d. roles_at N e L S n d \<and> role_ready e name r n d \<and> ids_ready e (r_permissions r) n d)
    (Role_Save r) (\<lambda>_. roles_at N e L (insert name S))"
  unfolding Role_Save_def
proof (rule runs_andthen [OF runs_sql [OF ff UpsertRole_keeps, where Q =
      "\<lambda>_. saving N e L (insert name S) r (r_permissions r)"]], goal_cases)
  case (1 n t d)
  then have name: "r_name r = name" by (simp add: role_ready_def)
  have "\<exists>x rs. q_UpsertRole
       \<lparr>rr_id = r_id r, rr_name = r_name r, rr_description = nonempty (r_description r),
        rr_created = r_created r, rr_updated = r_updated r\<rparr> t d = (Ok x, d\<lparr>db_roles := rs\<rparr>)
    \<and> rr_name ` set rs = insert name (rr_name ` set (db_roles d))
    \<and> rr_id ` set rs = insert (r_id r) (role_ids d)"
    using UpsertRole_total [of e "\<lparr>rr_id = r_id r, rr_name = r_name r,
      rr_description = nonempty (r_description r), rr_created = r_created r,
      rr_updated = r_updated r\<rparr>" r n d t] 1 name by simp
  then obtain x rs where q: "q_UpsertRole
       \<lparr>rr_id = r_id r, rr_name = r_name r, rr_description = nonempty (r_description r),
        rr_created = r_created r, rr_updated = r_updated r\<rparr> t d = (Ok x, d\<lparr>db_roles := rs\<rparr>)"
    "rr_name ` set rs = insert name (rr_name ` set (db_roles d))"
    "rr_id ` set rs = insert (r_id r) (role_ids d)" by blast
  have "r_id r \<in> role_ids d \<or> (\<exists>k<n. r_id r = e_new_uuid e k)"
    using 1(2) unfolding role_ready_def role_ids_def by (metis imageI)
  then have "new_ids N e (Suc n) (d\<lparr>db_roles := rs\<rparr>)"
    using 1(2) q(3)
    by (intro new_ids_grow [OF _ inj, of n d _ "r_id r"]) (auto simp: roles_at_def used_ids_def id_sets)
  then have "saving N e L (insert name S) r (r_permissions r) (Suc n) (d\<lparr>db_roles := rs\<rparr>)"
    using 1(2) q(2,3) ready_Suc(2) [of e "r_permissions r" n d]
    by (auto simp: saving_def roles_at_def ids_ready_def id_sets)
  with q(1) show ?case by blast
next
  case (2 u)
  show ?case
  proof (rule runs_weaken [OF runs_for_each
      [where J = "\<lambda>xs ps. saving N e L (insert name S) r ps"]])
    fix xs p zs
    assume "r_permissions r = xs @ p # zs"
    show "runs N e (saving N e L (insert name S) r (p # zs))
        (andthen (sql (q_UpsertPermission p)) (\<lambda>pRow. sql (q_AddPermissionToRole (r_id r) (p_id pRow))))
        (\<lambda>_. saving N e L (insert name S) r zs)"
    proof (rule runs_andthen [OF runs_sql [OF ff UpsertPermission_keeps, where Q =
          "\<lambda>x n d. saving N e L (insert name S) r zs n d \<and> p_id x \<in> permission_ids d"]], goal_cases)
      case (1 n t d)
      then have "p_id p \<notin> permission_ids d" "\<exists>k<n. p_id p = e_new_uuid e k"
        by (auto simp: saving_def ids_ready_def)
      from UpsertPermission_total [OF this(1), of t] this obtain x ps k where
        q: "q_UpsertPermission p t d = (Ok x, d\<lparr>db_permissions := ps\<rparr>)" "p_id x \<in> p_id ` set ps"
        "p_id ` set ps \<subseteq> insert (e_new_uuid e k) (permission_ids d)" "k < n" "p_id p = e_new_uuid e k"
        by auto
      have "new_ids N e (Suc n) (d\<lparr>db_permissions := ps\<rparr>)"
        using 1(2) q(3,4)
        by (intro new_ids_grow [OF _ inj, of n d _ "e_new_uuid e k"])
          (auto simp: saving_def roles_at_def used_ids_def id_sets)
      moreover have "ids_ready e zs (Suc n) (d\<lparr>db_permissions := ps\<rparr>)"
        using 1(2) q(3,5) by (intro ids_ready_tail [of e p zs n d]) (auto simp: saving_def permission_ids_def)
      ultimately have "saving N e L (insert name S) r zs (Suc n) (d\<lparr>db_permissions := ps\<rparr>)
          \<and> p_id x \<in> permission_ids (d\<lparr>db_permissions := ps\<rparr>)"
        using 1(2) q(2) by (simp add: saving_def roles_at_def id_sets)
      with q(1) show ?case by blast
    next
      case (2 x)
      show ?case
      proof (rule runs_sql [OF ff junctions_keep(3)])
        fix n t d
        assume s: "saving N e L (insert name S) r zs n d \<and> p_id x \<in> permission_ids d"
        define prs where "prs = (if (r_id r, p_id x) \<in> set (db_role_permissions d)
          then db_role_permissions d else db_role_permissions d @ [(r_id r, p_id x)])"
        have "q_AddPermissionToRole (r_id r) (p_id x) t d = (Ok (), d\<lparr>db_role_permissions := prs\<rparr>)"
          using s by (auto simp: q_AddPermissionToRole_def saving_def prs_def)
        moreover have "saving N e L (insert name S) r zs (Suc n) (d\<lparr>db_role_permissions := prs\<rparr>)"
          using s by (simp add: saving_def roles_at_def new_ids_Suc ready_Suc)
        ultimately show "\<exists>y d'. q_AddPermissionToRole (r_id r) (p_id x) t d = (Ok y, d')
            \<and> saving N e L (insert name S) r zs (Suc n) d'" by blast
      qed
    qed
  qed (simp add: saving_def)
qed

lemma Role_FindByName_runs:
  assumes ff: "fault_free e"
  shows "runs N e (roles_at N e L S) (Role_FindByName name) (\<lambda>found n d. roles_at N e L S n d
    \<and> (case found of None \<Rightarrow> name \<notin> rr_name ` set (db_roles d)
       | Some r \<Rightarrow> role_ready e name r n d))"
  unfolding Role_FindByName_def q_GetRoleByName_def
proof (rule runs_andthen [OF runs_optional [OF ff, where P = "roles_at N e L S" and Q =
      "\<lambda>found n d. roles_at N e L S n d \<and> found = find (\<lambda>r. rr_name r = name) (db_roles d)"]], goal_cases)
  case (1 n d)
  then show ?case by (simp add: roles_at_Suc)
next
  case (2 found)
  show ?case
  proof (cases found)
    case None
    then show ?thesis
      by (auto intro!: runs_ret simp: load_role_def find_key_None [symmetric] simp del: prims_run)
  next
    case (Some row)
    show ?thesis unfolding load_role_def Some option.case
    proof (rule runs_andthen [OF runs_sql [OF ff stmt_reads [OF readers(18)], where Q =
          "\<lambda>_ n d. roles_at N e L S n d \<and> row \<in> set (db_roles d) \<and> rr_name row = name"]], goal_cases)
      case (1 n t d)
      then show ?case
        by (auto simp: q_GetRolePermissions_def q_read_def roles_at_Suc dest: find_in [OF sym])
    next
      case (2 ps)
      show ?case by (rule runs_ret) (auto simp: role_ready_def sqlcRoleToEntity_def)
    qed
  qed
qed

text \<open>The permissions of a role are made with new ids, one after the other.\<close>

definition building :: "nat \<Rightarrow> env \<Rightarrow> label list \<Rightarrow> string set \<Rightarrow> string \<Rightarrow> role \<Rightarrow> nat \<Rightarrow> db \<Rightarrow> bool" where
  "building N e L S name r n d \<longleftrightarrow> roles_at N e L S n d \<and> role_ready e name r n d
     \<and> ids_ready e (r_permissions r) n d"

lemma building_Suc: "building N e L S name r n d \<Longrightarrow> building N e L S name r (Suc n) d"
  by (simp add: building_def roles_at_Suc ready_Suc)

lemma add_permission_runs:
  assumes inj: "inj_on (e_new_uuid e) {..<N}" and ne: "resource \<noteq> []" "action \<noteq> []"
  shows "runs N e (building N e L S name r)
    (andthen fresh_uuid (\<lambda>i. andthen now_utc (\<lambda>now.
        andthen (lift (NewPermission (resource @ '':'' @ action) resource action i now)) (\<lambda>p.
        andthen now_utc (\<lambda>now'. ret (Role_AddPermission p now' r))))))
    (building N e L S name)"
proof (rule runs_uuid)
  fix k
  let ?p = "\<lambda>now. \<lparr>p_id = e_new_uuid e k, p_name = resource @ '':'' @ action, p_resource = resource,
      p_action = action, p_created = now\<rparr>"
  let ?P = "\<lambda>n d. k < n \<and> building N e L S name r n d \<and> e_new_uuid e k \<notin> permission_ids d
    \<and> (\<forall>p\<in>set (r_permissions r). p_id p \<noteq> e_new_uuid e k)"
  have "runs N e ?P (andthen now_utc (\<lambda>now.
        andthen (lift (NewPermission (resource @ '':'' @ action) resource action (e_new_uuid e k) now)) (\<lambda>p.
        andthen now_utc (\<lambda>now'. ret (Role_AddPermission p now' r))))) (building N e L S name)"
  proof (rule runs_now, goal_cases)
    case (2 now)
    show ?case
    proof (rule runs_lift [where x = "?p now"])
      show "runs N e ?P (andthen now_utc (\<lambda>now'. ret (Role_AddPermission (?p now) now' r)))
        (building N e L S name)"
      proof (rule runs_now, goal_cases)
        case (2 now')
        show ?case
          by (rule runs_ret)
            (auto simp: building_def Role_AddPermission_def role_ready_def ids_ready_def)
      qed (simp add: building_Suc)
    qed (use ne in \<open>simp add: NewPermission_def\<close>)
  qed (simp add: building_Suc)
  then show "runs N e (\<lambda>n d. n = Suc k \<and> k < N \<and> building N e L S name r k d)
      (andthen now_utc (\<lambda>now.
        andthen (lift (NewPermission (resource @ '':'' @ action) resource action (e_new_uuid e k) now)) (\<lambda>p.
        andthen now_utc (\<lambda>now'. ret (Role_AddPermission p now' r))))) (building N e L S name)"
  proof (rule runs_pre)
    fix n d assume b: "n = Suc k \<and> k < N \<and> building N e L S name r k d"
    then have "e_new_uuid e k \<notin> permission_ids d"
      by (auto simp: building_def roles_at_def new_ids_def used_ids_def)
    moreover have "p_id p \<noteq> e_new_uuid e k" if "p \<in> set (r_permissions r)" for p
    proof -
      from b that obtain j where "j < k" "p_id p = e_new_uuid e j"
        by (auto simp: building_def ids_ready_def)
      with inj b show ?thesis by (auto dest: inj_onD)
    qed
    ultimately show "?P n d" using b by (simp add: building_Suc)
  qed
qed simp

lemma sync_role_runs:
  assumes ff: "fault_free e" and inj: "inj_on (e_new_uuid e) {..<N}"
    and dr: "dr_name dr \<noteq> []" "\<forall>(r, a)\<in>set (dr_permissions dr). r \<noteq> [] \<and> a \<noteq> []"
  shows "runs N e (roles_at N e L S) (sync_role dr) (\<lambda>_. roles_at N e L (insert (dr_name dr) S))"
  unfolding sync_role_def
proof (rule runs_andthen [OF Role_FindByName_runs [OF ff]], goal_cases)
  case (1 found)
  let ?R = "\<lambda>r0 n d. roles_at N e L S n d \<and> role_ready e (dr_name dr) r0 n d"
  show ?case
  proof (rule runs_andthen [where R = ?R], goal_cases)
    case 1
    show ?case
    proof (cases found)
      case None
      show ?thesis unfolding None option.case
      proof (rule runs_uuid)
        fix k
        let ?r = "\<lambda>now. \<lparr>r_id = e_new_uuid e k, r_name = dr_name dr,
            r_description = dr_description dr, r_permissions = [], r_created = now, r_updated = now\<rparr>"
        have "runs N e (\<lambda>n d. \<forall>now. ?R (?r now) n d) (andthen now_utc (\<lambda>now.
            lift (NewRole (dr_name dr) (dr_description dr) (e_new_uuid e k) now))) ?R"
        proof (rule runs_now, goal_cases)
          case (2 now)
          then show ?case using dr(1) by (simp add: runs_def NewRole_def)
        qed (simp add: roles_at_Suc ready_Suc)
        then show "runs N e (\<lambda>n d. n = Suc k \<and> k < N \<and> roles_at N e L S k d \<and> dr_name dr \<notin> rr_name ` set (db_roles d))
            (andthen now_utc (\<lambda>now.
              lift (NewRole (dr_name dr) (dr_description dr) (e_new_uuid e k) now))) ?R"
          by (rule runs_pre) (auto simp: roles_at_Suc role_ready_def roles_at_def new_ids_def used_ids_def)
      qed simp
    next
      case (Some r)
      show ?thesis unfolding Some option.case
      proof (rule runs_now, goal_cases)
        case (2 now)
        show ?case
        proof (rule runs_now, goal_cases)
          case (2 now')
          show ?case by (rule runs_ret) (simp add: role_ready_def Role_UpdateDescription_def)
        qed (simp add: roles_at_Suc ready_Suc)
      qed (simp add: roles_at_Suc ready_Suc)
    qed
  next
    case (2 r0)
    have add: "runs N e (?R r0) (fold_go (dr_permissions dr) (\<lambda>(resource, action) r.
        andthen fresh_uuid (\<lambda>i. andthen now_utc (\<lambda>now.
        andthen (lift (NewPermission (resource @ '':'' @ action) resource action i now)) (\<lambda>p.
        andthen now_utc (\<lambda>now'. ret (Role_AddPermission p now' r))))))
        (r0\<lparr>r_permissions := []\<rparr>)) (building N e L S (dr_name dr))"
    proof (rule runs_pre [OF runs_fold_go [where J = "\<lambda>_ _. building N e L S (dr_name dr)"]])
      fix xs y zs r
      assume "dr_permissions dr = xs @ y # zs"
      then have "fst y \<noteq> []" "snd y \<noteq> []" using dr(2) by (auto split: prod.splits)
      from add_permission_runs [OF inj this, of L S "dr_name dr" r]
      show "runs N e (building N e L S (dr_name dr) r)
        ((case y of (resource, action) \<Rightarrow> \<lambda>r.
          andthen fresh_uuid (\<lambda>i. andthen now_utc (\<lambda>now.
          andthen (lift (NewPermission (resource @ '':'' @ action) resource action i now)) (\<lambda>p.
          andthen now_utc (\<lambda>now'. ret (Role_AddPermission p now' r)))))) r)
        (building N e L S (dr_name dr))" by (simp add: case_prod_beta)
    qed (simp add: building_def role_ready_def ids_ready_def)
    show ?case
    proof (rule runs_andthen [OF add], rule runs_andthen)
      fix r
      show "runs N e (building N e L S (dr_name dr) r) (Role_RemoveAllPermissions (r_id r))
          (\<lambda>_ n d. roles_at N e L S n d \<and> role_ready e (dr_name dr) r n d \<and> ids_ready e (r_permissions r) n d)"
        unfolding Role_RemoveAllPermissions_def
        by (rule runs_sql [OF ff junctions_keep(5)])
          (simp add: q_RemoveAllPermissionsFromRole_def building_def ready_Suc roles_at_def new_ids_Suc)
      show "runs N e (\<lambda>n d. roles_at N e L S n d \<and> role_ready e (dr_name dr) r n d
          \<and> ids_ready e (r_permissions r) n d) (Role_Save r) (\<lambda>_. roles_at N e L (insert (dr_name dr) S))"
        by (rule Role_Save_runs [OF ff inj])
    qed
  qed
qed

lemma SeedSystemRoles_runs:
  assumes ff: "fault_free e" and inj: "inj_on (e_new_uuid e) {..<N}"
  shows "runs N e (\<lambda>n d. new_ids N e n d \<and> db_labels d = L) SeedSystemRoles
    (\<lambda>_. roles_at N e L (dr_name ` set desiredRoles))"
  unfolding SeedSystemRoles_def
proof (rule runs_transaction [OF ff])
  have each: "runs N e (roles_at N e L {}) (for_each desiredRoles sync_role)
      (\<lambda>_. roles_at N e L (dr_name ` set desiredRoles))"
  proof (rule runs_for_each [where J = "\<lambda>xs _. roles_at N e L (dr_name ` set xs)", simplified])
    fix xs y zs assume "desiredRoles = xs @ y # zs"
    then have y: "y \<in> set desiredRoles" by (metis in_set_conv_decomp)
    then have "dr_name y \<noteq> []" "\<forall>(r, a)\<in>set (dr_permissions y). r \<noteq> [] \<and> a \<noteq> []"
      by (auto simp: desiredRoles_def role_consts resource_consts action_consts)
    from sync_role_runs [OF ff inj this]
    show "runs N e (roles_at N e L (dr_name ` set xs)) (sync_role y)
        (\<lambda>_. roles_at N e L (insert (dr_name y) (dr_name ` set xs)))" .
  qed
  show "runs N e (\<lambda>n d. new_ids N e n d \<and> db_labels d = L)
     (andthen Role_FindAll (\<lambda>existing.
      let obsolete = obsolete_roles existing in
      andthen (if obsolete \<noteq> [] then Role_DeleteByNames obsolete else ret ()) (\<lambda>_.
      for_each desiredRoles sync_role))) (\<lambda>_. roles_at N e L (dr_name ` set desiredRoles))"
    unfolding Let_def Role_FindAll_def
  proof (rule runs_andthen [where R = "\<lambda>_. roles_at N e L {}"], goal_cases)
    case 1
    show ?case
    proof (rule runs_asks, rule runs_andthen [OF runs_sql [OF ff stmt_reads [OF readers(10)], where Q =
          "\<lambda>_. roles_at N e L {}"]], goal_cases)
      case (1 n t d)
      then show ?case by (auto simp: q_ListRoles_def q_read_def roles_at_def new_ids_Suc)
    next
      case (2 rows)
      have "runs N e (roles_at N e L {}) (sql (q_GetPermissionsByRoleIDs is)) (\<lambda>_. roles_at N e L {})" for "is"
        by (rule runs_sql [OF ff stmt_reads [OF readers(19)]])
          (simp add: q_GetPermissionsByRoleIDs_def q_read_def roles_at_Suc)
      then show ?case by (auto intro!: runs_ret runs_andthen simp del: prims_run)
    qed
  next
    case (2 existing)
    have "runs N e (roles_at N e L {}) (Role_DeleteByNames names) (\<lambda>_. roles_at N e L {})" for names
      unfolding Role_DeleteByNames_def
      by (rule runs_sql [OF ff role_deletes_keep(3)])
        (clarsimp simp: q_DeleteRolesByNames_def delete_roles_def roles_at_def Let_def,
          erule new_ids_shrink, auto simp: used_ids_def id_sets)
    then show ?case
      by (intro runs_andthen [OF _ each]) (auto intro!: runs_ret simp del: prims_run)
  qed
qed (simp_all add: new_ids_Suc roles_at_Suc)

section \<open>The development data\<close>

definition users_at :: "nat \<Rightarrow> env \<Rightarrow> label list \<Rightarrow> (string \<rightharpoonup> uuid) \<Rightarrow> string set \<Rightarrow> nat \<Rightarrow> db \<Rightarrow> bool" where
  "users_at N e L m S n d \<longleftrightarrow> roles_at N e L (dr_name ` set desiredRoles) n d
     \<and> (\<forall>s\<in>S. \<exists>i\<in>user_ids d. m s = Some i)"

lemma users_at_Suc: "users_at N e L m S n d \<Longrightarrow> users_at N e L m S (Suc n) d"
  by (simp add: users_at_def roles_at_Suc)

lemma new_user_runs:
  assumes "\<And>n. \<exists>h. e_bcrypt_hash e n (cui_password inp) = Ok h"
    and "cui_email inp \<noteq> []" "cui_password inp \<noteq> []" "cui_name inp \<noteq> []"
  shows "runs N e P (new_user inp) (\<lambda>u n d. \<exists>k j. j \<le> k \<and> k < n \<and> k < N \<and> P j d \<and> u_id u = e_new_uuid e k
    \<and> u_email u = cui_email inp)"
proof (rule runsI)
  show "later e (new_user inp)" by (simp add: new_user_def)
  fix w :: world
  assume N: "w_tick (snd (new_user inp e w)) \<le> N"
    and w: "db_inv (w_db w)" "P (w_tick w) (w_db w)"
  from assms(1) obtain h where "e_bcrypt_hash e (w_tick w) (cui_password inp) = Ok h" by blast
  with assms(2-4) have run: "\<exists>u. new_user inp e w = (Ok u, tick (tick (tick w)))
      \<and> u_id u = e_new_uuid e (Suc (w_tick w)) \<and> u_email u = cui_email inp"
    by (simp add: new_user_def andthen_def attempt_def clock_run NewUser_def)
  then obtain u where "new_user inp e w = (Ok u, tick (tick (tick w)))"
    "u_id u = e_new_uuid e (Suc (w_tick w))" "u_email u = cui_email inp" by blast
  moreover have "\<exists>k j. j \<le> k \<and> k < w_tick (tick (tick (tick w))) \<and> k < N
      \<and> P j (w_db (tick (tick (tick w)))) \<and> u_id u = e_new_uuid e k \<and> u_email u = cui_email inp"
    by (rule exI [of _ "Suc (w_tick w)"], rule exI [of _ "w_tick w"]) (use calculation N w in simp)
  ultimately show "\<exists>x w'. new_user inp e w = (Ok x, w') \<and> db_inv (w_db w')
      \<and> (\<exists>k j. j \<le> k \<and> k < w_tick w' \<and> k < N \<and> P j (w_db w') \<and> u_id x = e_new_uuid e k
         \<and> u_email x = cui_email inp)"
    using w(1) by (intro exI [of _ u], intro exI [of _ "tick (tick (tick w))"]) simp
qed

lemma roles_at_later: "roles_at N e L S j d \<Longrightarrow> j \<le> n \<Longrightarrow> roles_at N e L S n d"
  by (auto simp: roles_at_def new_ids_def)

lemma devUsers_valid:
  assumes "y \<in> set devUsers"
  shows "us_email y \<noteq> []" "us_password y = ''password123''" "us_name y \<noteq> []"
    "us_role y \<in> dr_name ` set desiredRoles"
  using assms by (auto simp: devUsers_def desiredRoles_def)

lemma UpdateUser_total:
  assumes "db_inv d" "r \<in> set (db_users d)" "ur_email r = email"
  shows "\<exists>x us. q_UpdateUser (ur_id r) email name h t d = (Ok x, d\<lparr>db_users := us\<rparr>)
    \<and> ur_id ` set us = user_ids d"
proof -
  have d: "distinct (map ur_id (db_users d))" "distinct (map ur_email (db_users d))"
    using assms(1) by (simp_all add: inv_defs)
  from find_key_unique [OF d(1) assms(2)]
  have found: "find (\<lambda>x. ur_id x = ur_id r) (db_users d) = Some r" .
  have "\<not> (\<exists>x\<in>set (db_users d). ur_id x \<noteq> ur_id r \<and> ur_email x = email)"
    using keyed_same [OF d(2) _ assms(2)] assms(3) by metis
  then obtain x d' where q: "q_UpdateUser (ur_id r) email name h t d = (Ok x, d')"
    using found by (simp add: q_UpdateUser_def Let_def)
  from UpdateUser_rows [OF q] obtain us where "d' = d\<lparr>db_users := us\<rparr>"
    "map ur_id us = map ur_id (db_users d)" by blast
  then show ?thesis using q unfolding user_ids_def by (metis set_map)
qed

lemma store_user_runs:
  assumes ff: "fault_free e" and inj: "inj_on (e_new_uuid e) {..<N}" and u: "u_email u = us_email y"
  shows "runs N e (\<lambda>n d. users_at N e L m S n d
      \<and> find (\<lambda>r. ur_email r = us_email y) (db_users d) = found
      \<and> u_id u \<notin> user_ids d \<and> (\<exists>k<n. u_id u = e_new_uuid e k)) (store_user y found u)
    (\<lambda>i n d. users_at N e L m S n d \<and> i \<in> user_ids d)"
proof (cases found)
  case None
  show ?thesis unfolding store_user_def None option.case
  proof (rule runs_andthen [OF runs_wrapping [OF runs_sql [OF ff CreateUser_keeps, where Q =
        "\<lambda>_ n d. users_at N e L m S n d \<and> u_id u \<in> user_ids d"]]], goal_cases)
    case (1 n t d)
    from 1(2) have absent: "us_email y \<notin> ur_email ` set (db_users d)" by (simp add: find_key_None)
    obtain x d' where q: "q_CreateUser
         \<lparr>ur_id = u_id u, ur_email = u_email u, ur_password_hash = u_password_hash u,
          ur_name = u_name u, ur_created = u_created u, ur_updated = u_updated u\<rparr> t d = (Ok x, d')"
      using 1(2) absent u by (simp add: q_CreateUser_def Let_def)
    from CreateUser_rows [OF q] obtain row where d': "d' = d\<lparr>db_users := db_users d @ [row]\<rparr>"
      "ur_id row = u_id u" by auto
    have "new_ids N e (Suc n) d'"
      using 1(2) d'
      by (intro new_ids_grow [OF _ inj, of n d _ "u_id u"])
        (auto simp: users_at_def roles_at_def used_ids_def id_sets)
    then show ?case using q d' 1(2) by (auto simp: users_at_def roles_at_def user_ids_def)
  qed (auto intro: runs_ret simp del: prims_run)
next
  case (Some r)
  show ?thesis unfolding store_user_def Some option.case
  proof (rule runs_andthen [OF runs_wrapping [OF runs_sql [OF ff UpdateUser_keeps, where Q =
        "\<lambda>_ n d. users_at N e L m S n d \<and> ur_id r \<in> user_ids d"]]], goal_cases)
    case (1 n t d)
    then have r: "r \<in> set (db_users d)" "ur_email r = us_email y" by (auto dest: find_in)
    from UpdateUser_total [OF 1(1) r] obtain x us where
      q: "q_UpdateUser (ur_id r) (us_email y) (us_name y) (u_password_hash u) t d
        = (Ok x, d\<lparr>db_users := us\<rparr>)" and us: "ur_id ` set us = user_ids d" by blast
    have "new_ids N e (Suc n) (d\<lparr>db_users := us\<rparr>)"
      using 1(2) us by (intro new_ids_shrink [of N e n d]) (auto simp: users_at_def roles_at_def used_ids_def id_sets)
    moreover have "ur_id r \<in> user_ids d" using r by (simp add: user_ids_def)
    moreover have "user_ids (d\<lparr>db_users := us\<rparr>) = user_ids d" using us by (simp add: user_ids_def)
    ultimately show ?case using q 1(2) by (auto simp: users_at_def roles_at_def)
  qed (auto intro: runs_ret simp del: prims_run)
qed

lemma upsertUser_runs:
  assumes ff: "fault_free e" and inj: "inj_on (e_new_uuid e) {..<N}"
    and pw: "\<And>n. \<exists>h. e_bcrypt_hash e n ''password123'' = Ok h" and y: "y \<in> set devUsers"
  shows "runs N e (users_at N e L m S) (upsertUser y) (\<lambda>i n d. users_at N e L m S n d \<and> i \<in> user_ids d)"
  unfolding upsertUser_def q_GetUserByEmail_def
proof (rule runs_andthen [OF runs_wrapping [OF runs_optional [OF ff, where P = "users_at N e L m S" and Q =
      "\<lambda>found n d. users_at N e L m S n d
        \<and> find (\<lambda>r. ur_email r = us_email y) (db_users d) = found"]]], goal_cases)
  case (1 n d)
  then show ?case by (simp add: users_at_Suc)
next
  case (2 found)
  let ?P = "\<lambda>n d. users_at N e L m S n d \<and> find (\<lambda>r. ur_email r = us_email y) (db_users d) = found"
  note v = devUsers_valid [OF y]
  show ?case
  proof (rule runs_andthen [OF runs_wrapping [OF new_user_runs]], goal_cases)
    case (5 u)
    show ?case
    proof (cases "u_email u = us_email y")
      case True
      show ?thesis
      proof (rule runs_pre [OF store_user_runs [OF ff inj True]])
        fix n d
        assume "\<exists>k j. j \<le> k \<and> k < n \<and> k < N \<and> ?P j d \<and> u_id u = e_new_uuid e k \<and> u_email u
          = cui_email \<lparr>cui_email = us_email y, cui_password = us_password y, cui_name = us_name y\<rparr>"
        then obtain k j where k: "j \<le> k" "k < n" "k < N" "?P j d" "u_id u = e_new_uuid e k" by blast
        then have "u_id u \<notin> user_ids d" by (auto simp: users_at_def roles_at_def new_ids_def used_ids_def)
        with k roles_at_later [of N e L _ j d n]
        show "users_at N e L m S n d \<and> find (\<lambda>r. ur_email r = us_email y) (db_users d) = found
          \<and> u_id u \<notin> user_ids d \<and> (\<exists>k<n. u_id u = e_new_uuid e k)"
          by (auto simp: users_at_def)
      qed
    qed (simp add: runs_def store_user_def)
  qed (simp_all add: v pw)
qed

lemma seed_user_runs:
  assumes ff: "fault_free e" and inj: "inj_on (e_new_uuid e) {..<N}"
    and pw: "\<And>n. \<exists>h. e_bcrypt_hash e n ''password123'' = Ok h" and y: "y \<in> set devUsers"
  shows "runs N e (users_at N e L m S) (seed_user y m) (\<lambda>m'. users_at N e L m' (insert (us_email y) S))"
  unfolding seed_user_def
proof (rule runs_andthen [OF upsertUser_runs [OF ff inj pw y]], goal_cases)
  case (1 i)
  show ?case
  proof (rule runs_andthen [OF runs_wrapping [OF runs_sql [OF ff stmt_reads [OF readers(9)], where Q =
        "\<lambda>ro n d. users_at N e L m S n d \<and> i \<in> user_ids d \<and> rr_id ro \<in> role_ids d"]]], goal_cases)
    case (1 n t d)
    then have "us_role y \<in> rr_name ` set (db_roles d)"
      using devUsers_valid(4) [OF y] by (auto simp: users_at_def roles_at_def)
    from find_key_some [OF this] obtain ro where "find (\<lambda>r. rr_name r = us_role y) (db_roles d) = Some ro"
      by blast
    with 1(2) show ?case
      by (auto simp: q_GetRoleByName_def q_one_def users_at_Suc role_ids_def dest: find_in)
  next
    case (2 ro)
    show ?case
    proof (rule runs_andthen [OF runs_wrapping [OF runs_sql [OF ff junctions_keep(1), where Q =
          "\<lambda>_ n d. users_at N e L m S n d \<and> i \<in> user_ids d"]]], goal_cases)
      case (1 n t d)
      define prs where "prs = (if (i, rr_id ro) \<in> set (db_user_roles d) then db_user_roles d
        else db_user_roles d @ [(i, rr_id ro)])"
      have "q_AssignRoleToUser i (rr_id ro) t d = (Ok (), d\<lparr>db_user_roles := prs\<rparr>)"
        using 1(2) by (auto simp: q_AssignRoleToUser_def prs_def)
      moreover have "users_at N e L m S (Suc n) (d\<lparr>db_user_roles := prs\<rparr>)"
        using 1(2) users_at_Suc [of N e L m S n d]
        by (simp add: users_at_def roles_at_def)
      ultimately show ?case using 1(2) by simp
    next
      case (2 u)
      show ?case by (rule runs_ret) (auto simp: users_at_def)
    qed
  qed
qed

subsection \<open>Labels\<close>

text \<open>
  What the seeding needs of the labels: the server folds the seeded names apart, no two labels
  have names that it folds together, and a label folded with a seeded name has that name.
\<close>

definition labels_clear :: "(string \<Rightarrow> string) \<Rightarrow> label list \<Rightarrow> bool" where
  "labels_clear low ls \<longleftrightarrow> inj_on low (ls_name ` set devLabels) \<and> distinct (map (low \<circ> l_name) ls)
     \<and> (\<forall>l\<in>set ls. \<forall>y\<in>set devLabels. low (l_name l) = low (ls_name y) \<longrightarrow> l_name l = ls_name y)"

definition labelling ::
  "nat \<Rightarrow> env \<Rightarrow> (db \<Rightarrow> bool) \<Rightarrow> (string \<rightharpoonup> label) \<Rightarrow> labelSeed list \<Rightarrow> labelSeed list \<Rightarrow>
     (string \<rightharpoonup> uuid) \<Rightarrow> nat \<Rightarrow> db \<Rightarrow> bool" where
  "labelling N e U B xs zs m n d \<longleftrightarrow> U d \<and> new_ids N e n d \<and> known_labels B d
     \<and> distinct (map (e_pg_lower e \<circ> l_name) (db_labels d))
     \<and> (\<forall>y\<in>set zs. B (ls_name y) = None \<longrightarrow>
           e_pg_lower e (ls_name y) \<notin> (e_pg_lower e \<circ> l_name) ` set (db_labels d))
     \<and> (\<forall>x\<in>set xs. \<exists>i\<in>label_ids d. m (ls_name x) = Some i)"

lemma by_name_dom: "by_name rows m n = None \<Longrightarrow> (\<forall>r\<in>set rows. l_name r \<noteq> n) \<and> m n = None"
proof (induction rows arbitrary: m)
  case (Cons a rows)
  then have "by_name rows (m(l_name a \<mapsto> a)) n = None" by simp
  from Cons.IH [OF this] show ?case by (auto split: if_splits)
qed simp

lemma UpdateLabel_total:
  assumes "db_inv d" and r: "r \<in> set (db_labels d)" "l_name r = name"
    and low: "distinct (map (low \<circ> l_name) (db_labels d))"
  shows "\<exists>x ls. q_UpdateLabel low (l_id r) name color t d = (Ok x, d\<lparr>db_labels := ls\<rparr>)
    \<and> map l_id ls = map l_id (db_labels d) \<and> map l_name ls = map l_name (db_labels d)"
proof -
  have d: "distinct (map l_id (db_labels d))" using assms(1) by (simp add: inv_defs)
  note found = find_key_unique [OF d r(1)]
  define row where "row = r\<lparr>l_name := name, l_color := color, l_updated := pg_timestamptz t\<rparr>"
  define ls where "ls = map (\<lambda>l. if l_id l = l_id r then row else l) (db_labels d)"
  have "\<not> (\<exists>l\<in>set (db_labels d). l_id l \<noteq> l_id r \<and> low (l_name l) = low name)"
    using keyed_same [OF low _ r(1)] r(2) by (metis comp_apply)
  then have "q_UpdateLabel low (l_id r) name color t d = (Ok row, d\<lparr>db_labels := ls\<rparr>)"
    using found by (simp add: q_UpdateLabel_def Let_def row_def ls_def)
  moreover have "l_name row = l_name r" "l_id row = l_id r" using r(2) by (simp_all add: row_def)
  then have "map l_id ls = map l_id (db_labels d)" "map l_name ls = map l_name (db_labels d)"
    unfolding ls_def by (auto dest: keyed_same [OF d _ r(1)])
  ultimately show ?thesis by blast
qed

lemma map_eq_conv_pairs:
  "map f xs = map f ys \<Longrightarrow> map g xs = map g ys \<Longrightarrow> map (\<lambda>r. (f r, g r)) xs = map (\<lambda>r. (f r, g r)) ys"
  by (induction xs ys rule: list_induct2') auto

lemma known_labels_pairs:
  "known_labels B d \<longleftrightarrow> (\<forall>n l. B n = Some l \<longrightarrow>
     (l_id l, n) \<in> set (map (\<lambda>r. (l_id r, l_name r)) (db_labels d)))"
proof -
  have "(\<exists>r\<in>set rs. l_id r = i \<and> l_name r = n)
    \<longleftrightarrow> (i, n) \<in> set (map (\<lambda>r. (l_id r, l_name r)) rs)" for rs :: "label list" and i n by auto
  then show ?thesis by (simp only: known_labels_def)
qed

lemma known_labels_same:
  assumes "map l_id ls = map l_id (db_labels d)" "map l_name ls = map l_name (db_labels d)"
  shows "known_labels B (d\<lparr>db_labels := ls\<rparr>) = known_labels B d"
proof -
  have "map (\<lambda>r. (l_id r, l_name r)) (db_labels (d\<lparr>db_labels := ls\<rparr>))
    = map (\<lambda>r. (l_id r, l_name r)) (db_labels d)"
    using map_eq_conv_pairs [OF assms] by simp
  then show ?thesis unfolding known_labels_pairs by (simp only:)
qed

lemma seed_label_runs:
  assumes ff: "fault_free e" and inj: "inj_on (e_new_uuid e) {..<N}"
    and low: "inj_on (e_pg_lower e) (ls_name ` set devLabels)"
    and split: "devLabels = xs @ y # zs" and U: "\<And>d ls. U d \<Longrightarrow> U (d\<lparr>db_labels := ls\<rparr>)"
  shows "runs N e (labelling N e U B xs (y # zs) m) (seed_label B y m) (labelling N e U B (xs @ [y]) zs)"
  unfolding seed_label_def
proof (rule runs_asks, cases "B (ls_name y)", goal_cases)
  case 1
  note none = 1
  have y: "y \<in> set devLabels" using split by (metis in_set_conv_decomp)
  have named: "ls_name y \<noteq> [] \<and> ls_color y \<noteq> []" using y by (auto simp: devLabels_def)
  show ?case unfolding 1 option.case
  proof (rule runs_uuid, goal_cases)
    case (1 k)
    let ?J = "\<lambda>n d. labelling N e U B xs (y # zs) m n d \<and> k < n \<and> e_new_uuid e k \<notin> label_ids d"
    have create: "runs N e ?J (andthen (wrapping m1 (sql (q_CreateLabel (e_pg_lower e) l))) (\<lambda>createdLabel.
         ret (m(ls_name y \<mapsto> l_id createdLabel)))) (labelling N e U B (xs @ [y]) zs)"
      if l: "l_id l = e_new_uuid e k" "l_name l = ls_name y" for l m1
    proof (rule runs_andthen [OF runs_wrapping [OF runs_sql [OF ff CreateLabel_keeps, where Q =
          "\<lambda>x n d. labelling N e U B (xs @ [y]) zs (m(ls_name y \<mapsto> l_id x)) n d"]]], goal_cases)
      case (1 n t d)
      have free: "e_pg_lower e (ls_name y) \<notin> (e_pg_lower e \<circ> l_name) ` set (db_labels d)"
        using 1(2) none by (simp add: labelling_def)
      define row where "row = l\<lparr>l_created := pg_timestamptz (l_created l),
          l_updated := pg_timestamptz (l_updated l)\<rparr>"
      have row: "l_id row = e_new_uuid e k" "l_name row = ls_name y" using l by (simp_all add: row_def)
      have q: "q_CreateLabel (e_pg_lower e) l t d = (Ok row, d\<lparr>db_labels := db_labels d @ [row]\<rparr>)"
        using 1(2) free l by (simp add: q_CreateLabel_def Let_def row_def)
      have apart: "e_pg_lower e (ls_name z) \<noteq> e_pg_lower e (ls_name y)"
        if "z \<in> set zs \<or> z \<in> set xs" for z
      proof -
        have "distinct (map ls_name devLabels)" by (simp add: devLabels_def)
        then have "ls_name z \<noteq> ls_name y" using that unfolding split by auto (metis imageI)+
        moreover have "z \<in> set devLabels" using that unfolding split by auto
        ultimately show ?thesis using low y by (auto dest: inj_onD)
      qed
      have "new_ids N e (Suc n) (d\<lparr>db_labels := db_labels d @ [row]\<rparr>)"
        using 1(2) row
        by (intro new_ids_grow [OF _ inj, of n d _ "e_new_uuid e k"])
          (auto simp: labelling_def used_ids_def id_sets)
      moreover have "known_labels B (d\<lparr>db_labels := db_labels d @ [row]\<rparr>)"
        using 1(2) by (fastforce simp: labelling_def known_labels_def)
      moreover have "\<forall>x\<in>set (xs @ [y]). \<exists>i\<in>label_ids (d\<lparr>db_labels := db_labels d @ [row]\<rparr>).
          (m(ls_name y \<mapsto> l_id row)) (ls_name x) = Some i"
        using 1(2) apart by (auto simp: labelling_def label_ids_def)
      ultimately show ?case using q 1(2) free apart row U
        by (auto simp: labelling_def)
    qed (rule runs_ret)
    show ?case
    proof (rule runs_pre [OF runs_now [where P = ?J]], goal_cases)
      case (2 now)
      show ?case
        by (rule runs_andthen [OF runs_wrapping, where R = "\<lambda>l n d. ?J n d \<and> l_id l = e_new_uuid e k
              \<and> l_name l = ls_name y"])
          (simp add: runs_def NewLabel_def named, rule runs_fact, simp, rule create, simp_all)
    next
      case (3 n d)
      then show ?case
        by (auto simp: labelling_def new_ids_Suc) (auto simp: new_ids_def used_ids_def)
    qed (simp add: labelling_def new_ids_Suc)
  qed (simp del: prims_run)
next
  case (2 l)
  note known = 2
  show ?case unfolding 2 option.case
  proof (rule runs_andthen [OF runs_wrapping [OF runs_sql [OF ff UpdateLabel_keeps, where Q =
        "\<lambda>_ n d. labelling N e U B (xs @ [y]) zs (m(ls_name y \<mapsto> l_id l)) n d"]]], goal_cases)
    case (1 n t d)
    then have "known_labels B d" by (simp add: labelling_def)
    with known obtain r where r: "r \<in> set (db_labels d)" "l_id r = l_id l" "l_name r = ls_name y"
      unfolding known_labels_def by blast
    have "distinct (map (e_pg_lower e \<circ> l_name) (db_labels d))" using 1(2) by (simp add: labelling_def)
    from UpdateLabel_total [OF 1(1) r(1,3) this, of "ls_color y" t] r(2) obtain x ls where
      q: "q_UpdateLabel (e_pg_lower e) (l_id l) (ls_name y) (ls_color y) t d = (Ok x, d\<lparr>db_labels := ls\<rparr>)"
      and same: "map l_id ls = map l_id (db_labels d)" "map l_name ls = map l_name (db_labels d)" by auto
    have low_same: "map (e_pg_lower e \<circ> l_name) ls = map (e_pg_lower e \<circ> l_name) (db_labels d)"
      using same(2) by (metis map_map)
    have ids: "label_ids (d\<lparr>db_labels := ls\<rparr>) = label_ids d"
      using same(1) by (simp add: label_ids_def) (metis set_map)
    have "new_ids N e (Suc n) (d\<lparr>db_labels := ls\<rparr>)"
      using 1(2) ids by (intro new_ids_shrink [of N e n d])
        (auto simp: labelling_def used_ids_def user_ids_def role_ids_def permission_ids_def)
    moreover have "known_labels B (d\<lparr>db_labels := ls\<rparr>)"
      using 1(2) same known_labels_same [OF same] by (simp add: labelling_def)
    moreover have "l_id l \<in> label_ids d" using r by (metis imageI label_ids_def)
    moreover have "(e_pg_lower e \<circ> l_name) ` set ls = (e_pg_lower e \<circ> l_name) ` set (db_labels d)"
      using low_same by (metis set_map)
    ultimately show ?case using q 1(2) U low_same ids by (auto simp: labelling_def)
  qed (rule runs_ret)
qed

subsection \<open>Tasks and the whole seeding\<close>

text \<open>The users and labels that the tasks name.\<close>

definition named :: "(string \<rightharpoonup> uuid) \<Rightarrow> (string \<rightharpoonup> uuid) \<Rightarrow> db \<Rightarrow> bool" where
  "named m k d \<longleftrightarrow> (\<forall>u\<in>set devUsers. \<exists>i\<in>user_ids d. m (us_email u) = Some i)
     \<and> (\<forall>l\<in>set devLabels. \<exists>i\<in>label_ids d. k (ls_name l) = Some i)"

lemma named_frames [simp]:
  "named m k (d\<lparr>db_tasks := ts\<rparr>) = named m k d" "named m k (d\<lparr>db_task_labels := tls\<rparr>) = named m k d"
  by (simp_all add: named_def id_sets)

lemma devTasks_named:
  assumes "y \<in> set devTasks"
  shows "ts_creator y \<in> us_email ` set devUsers" "ts_assignee y \<in> us_email ` set devUsers"
    "ts_assignee y \<noteq> []" "set (ts_labels y) \<subseteq> ls_name ` set devLabels"
  using assms by (auto simp: devTasks_def devUsers_def devLabels_def)

lemma UpsertTask_total:
  assumes "tr_creator arg \<in> user_ids d" "set_option (tr_assignee arg) \<subseteq> user_ids d"
  shows "\<exists>ts. q_UpsertTask arg t d = (Ok (), d\<lparr>db_tasks := ts\<rparr>) \<and> tr_id arg \<in> tr_id ` set ts"
proof -
  have "fst (q_UpsertTask arg t d) = Ok ()"
    using assms by (auto simp: q_UpsertTask_def Let_def split: option.splits)
  then obtain d' where q: "q_UpsertTask arg t d = (Ok (), d')" by (metis prod.collapse)
  from UpsertTask_rows [OF q] obtain ts c u where ts: "d' = d\<lparr>db_tasks := ts\<rparr>"
    "arg\<lparr>tr_due := map_option pg_timestamptz (tr_due arg), tr_created := c, tr_updated := u\<rparr> \<in> set ts"
    by blast
  from ts(2) have "tr_id arg \<in> tr_id ` set ts" by (rule rev_image_eqI) simp
  with q ts(1) show ?thesis by blast
qed

lemma seed_task_runs:
  assumes ff: "fault_free e" and y: "y \<in> set devTasks"
  shows "runs N e (\<lambda>_. named m k) (seed_task m k y) (\<lambda>_ _. named m k)"
proof (rule runsI)
  show "later e (seed_task m k y)" by (simp add: seed_task_def upsertTask_def Let_def del: prims_run)
  fix w :: world
  assume N: "w_tick (snd (seed_task m k y e w)) \<le> N"
    and w: "db_inv (w_db w)" "named m k (w_db w)"
  note v = devTasks_named [OF y]
  have "\<exists>i\<in>user_ids (w_db w). m s = Some i" if "s \<in> us_email ` set devUsers" for s
    using w(2) that by (auto simp: named_def)
  with v(1,2) obtain c a where ca: "m (ts_creator y) = Some c" "m (ts_assignee y) = Some a"
    "c \<in> user_ids (w_db w)" "a \<in> user_ids (w_db w)" by meson
  have up: "runs N e (\<lambda>_ d. named m k d \<and> c \<in> user_ids d \<and> a \<in> user_ids d) (upsertTask y c (Some a))
    (\<lambda>_ _ d. named m k d \<and> ts_id y \<in> task_ids d)"
    unfolding upsertTask_def Let_def
  proof (rule runs_now [OF _ runs_wrapping [OF runs_sql [OF ff UpsertTask_keeps [OF devTasks_valid [OF y]]]]],
      goal_cases)
    case (2 now n t d)
    let ?row = "seed_row y (now + ts_due_days y * (24 * 60 * 60 * second)) c (Some a)"
    obtain ts where "q_UpsertTask ?row t d = (Ok (), d\<lparr>db_tasks := ts\<rparr>)" "ts_id y \<in> tr_id ` set ts"
      using UpsertTask_total [of ?row d t] 2(2) by (auto simp: seed_row_def)
    with 2(2) show ?case by (auto simp: task_ids_def)
  qed
  have labels: "runs N e (\<lambda>_ d. named m k d \<and> ts_id y \<in> task_ids d) (for_each (ts_labels y) (\<lambda>labelName.
            case k labelName of
              None \<Rightarrow> raise (Errorf (''missing label '' @ quoted labelName) None)
            | Some labelID \<Rightarrow>
                wrapping (''attach label '' @ quoted labelName @ '' to task '' @ quoted (ts_title y))
                  (sql (q_AddLabelToTask (ts_id y) labelID))))
    (\<lambda>_ _ d. named m k d \<and> ts_id y \<in> task_ids d)"
  proof (rule runs_for_each)
    fix xs l zs assume "ts_labels y = xs @ l # zs"
    then have "l \<in> ls_name ` set devLabels" using v(4) by auto
    then have some: "\<exists>i\<in>label_ids d. k l = Some i" if "named m k d" for d
      using that by (auto simp: named_def)
    show "runs N e (\<lambda>_ d. named m k d \<and> ts_id y \<in> task_ids d) (case k l of
              None \<Rightarrow> raise (Errorf (''missing label '' @ quoted l) None)
            | Some labelID \<Rightarrow> wrapping (''attach label '' @ quoted l @ '' to task '' @ quoted (ts_title y))
                  (sql (q_AddLabelToTask (ts_id y) labelID)))
      (\<lambda>_ _ d. named m k d \<and> ts_id y \<in> task_ids d)"
    proof (cases "k l")
      case None
      then show ?thesis using some by (auto simp: runs_def)
    next
      case (Some i)
      show ?thesis unfolding Some option.case
      proof (rule runs_wrapping [OF runs_sql [OF ff junctions_keep(6)]], goal_cases)
        case (1 n t d)
        with some [of d] Some have "i \<in> label_ids d" by auto
        with 1(2) show ?case by (auto simp: q_AddLabelToTask_def task_ids_def)
      qed
    qed
  qed
  have "runs N e (\<lambda>_ d. named m k d \<and> c \<in> user_ids d \<and> a \<in> user_ids d) (seed_task m k y) (\<lambda>_ _. named m k)"
    unfolding seed_task_def ca option.case using v(3)
    by (auto intro!: runs_andthen [OF up] runs_weaken [OF labels] simp del: prims_run)
  from runsD [OF this N w(1)] w(2) ca(3,4)
  show "\<exists>x w'. seed_task m k y e w = (Ok x, w') \<and> db_inv (w_db w') \<and> named m k (w_db w')" by simp
qed

lemma seed_rows_runs:
  assumes ff: "fault_free e" and inj: "inj_on (e_new_uuid e) {..<N}"
    and pw: "\<And>n. \<exists>h. e_bcrypt_hash e n ''password123'' = Ok h"
    and clear: "labels_clear (e_pg_lower e) L"
  shows "runs N e (roles_at N e L (dr_name ` set desiredRoles)) seed_rows (\<lambda>_ _ _. True)"
  unfolding seed_rows_def
proof (rule runs_andthen [where R = "\<lambda>m. users_at N e L m (us_email ` set devUsers)"], goal_cases)
  case 1
  show ?case
  proof (rule runs_pre [OF runs_fold_go [where J = "\<lambda>xs _ m. users_at N e L m (us_email ` set xs)"]])
    fix xs y zs m assume "devUsers = xs @ y # zs"
    then have "y \<in> set devUsers" by (metis in_set_conv_decomp)
    from seed_user_runs [OF ff inj pw this, of L m "us_email ` set xs"]
    show "runs N e (users_at N e L m (us_email ` set xs)) (seed_user y m)
      (\<lambda>m'. users_at N e L m' (us_email ` set (xs @ [y])))" by simp
  qed (simp add: users_at_def)
next
  case (2 m)
  define U where "U d \<longleftrightarrow> (\<forall>u\<in>set devUsers. \<exists>i\<in>user_ids d. m (us_email u) = Some i)" for d
  have U: "U d \<Longrightarrow> U (d\<lparr>db_labels := ls\<rparr>)" for d ls by (simp add: U_def user_ids_def)
  have low: "inj_on (e_pg_lower e) (ls_name ` set devLabels)" using clear by (simp add: labels_clear_def)
  show ?case
  proof (rule runs_andthen [where R = "\<lambda>k _. named m k"], goal_cases)
    case 1
    show ?case unfolding upsertLabels_def
    proof (rule runs_asks, rule runs_andthen [OF runs_wrapping [OF runs_sql [OF ff stmt_reads [OF readers(22)],
          where Q = "\<lambda>rows. labelling N e U (by_name rows Map.empty) [] devLabels Map.empty"]]], goal_cases)
      case (1 n t d)
      let ?rows = "sort_key (\<lambda>l. e_pg_collate e (l_name l)) (db_labels d)"
      have L: "db_labels d = L" using 1(2) by (simp add: users_at_def roles_at_def)
      have "e_pg_lower e (ls_name y) \<notin> (e_pg_lower e \<circ> l_name) ` set (db_labels d)"
        if "y \<in> set devLabels" "by_name ?rows Map.empty (ls_name y) = None" for y
        using clear by_name_dom [OF that(2)] that(1) unfolding L labels_clear_def
        by auto
      moreover have "known_labels (by_name ?rows Map.empty) d"
        unfolding known_labels_def
      proof (intro allI impI)
        fix n l assume "by_name ?rows Map.empty n = Some l"
        from by_name_listed [OF this] show "\<exists>r\<in>set (db_labels d). l_id r = l_id l \<and> l_name r = n" by auto
      qed
      ultimately show ?case using 1(2) clear L
        by (auto simp: q_ListLabels_def q_read_def labelling_def users_at_def roles_at_def U_def
            new_ids_Suc labels_clear_def)
    next
      case (2 rows)
      show ?case
      proof (rule runs_weaken [OF runs_fold_go [where
            J = "labelling N e U (by_name rows Map.empty)"]])
        fix xs y zs k assume "devLabels = xs @ y # zs"
        then show "runs N e (labelling N e U (by_name rows Map.empty) xs (y # zs) k)
          (seed_label (by_name rows Map.empty) y k)
          (labelling N e U (by_name rows Map.empty) (xs @ [y]) zs)"
          by (rule seed_label_runs [OF ff inj low]) (rule U)
      qed (simp add: labelling_def named_def U_def)
    qed
  next
    case (2 k)
    show ?case
    proof (rule runs_weaken [OF runs_for_each [where J = "\<lambda>_ _ _. named m k"]])
      fix xs y zs assume "devTasks = xs @ y # zs"
      then have "y \<in> set devTasks" by (metis in_set_conv_decomp)
      then show "runs N e (\<lambda>_. named m k) (seed_task m k y) (\<lambda>_ _. named m k)"
        by (rule seed_task_runs [OF ff])
    qed simp
  qed
qed

lemma seed_runs:
  assumes "fault_free e" and inj: "inj_on (e_new_uuid e) {..<N}"
    and N: "w_tick (snd (SeedDevelopmentData True e w)) \<le> N"
    and "\<forall>n. \<exists>h. e_bcrypt_hash e n ''password123'' = Ok h"
    and "labels_clear (e_pg_lower e) (db_labels (w_db w))"
    and inv: "db_inv (w_db w)" and new: "new_ids N e (w_tick w) (w_db w)"
  shows "fst (SeedDevelopmentData True e w) = Ok ()"
proof -
  let ?L = "db_labels (w_db w)"
  let ?I = "roles_at N e ?L (dr_name ` set desiredRoles)"
  have tx: "runs N e ?I (RunInTransaction seed_rows) (\<lambda>_ _ _. True)"
    by (rule runs_transaction [OF assms(1) seed_rows_runs [OF assms(1) inj]])
      (use assms(4,5) in \<open>simp_all add: roles_at_Suc\<close>)
  obtain r1 w1 where s: "SeedSystemRoles e w = (r1, w1)" by fastforce
  obtain r2 w2 where t: "seed_transaction e w1 = (r2, w2)" by fastforce
  from seed_transaction_run [OF t] obtain r3 where r3: "RunInTransaction seed_rows e w1 = (r3, w2)"
    "r3 = Ok () \<Longrightarrow> r2 = Ok ()" by blast
  have whole: "SeedDevelopmentData True e w = (case r1 of Ok _ \<Rightarrow> (r2, w2)
      | Err err \<Rightarrow> (Err (Errorf ''seed system roles'' (Some err)), w1) | Panic p \<Rightarrow> (Panic p, w1))"
    by (cases r1) (simp_all add: SeedDevelopmentData_def andthen_def wrapping_run s t)
  have "w_tick w1 \<le> w_tick w2" using laterD [OF runs_later [OF tx], of w1] r3(1) by simp
  with N whole have t1: "w_tick w1 \<le> N" by (cases r1) auto
  from runsD [OF SeedSystemRoles_runs [OF assms(1) inj, of ?L] _ inv] s t1 new
  have one: "r1 = Ok ()" "db_inv (w_db w1)" "?I (w_tick w1) (w_db w1)" by auto
  with N whole have t2: "w_tick w2 \<le> N" by simp
  from runsD [OF tx _ one(2,3)] r3(1) t2 have "r3 = Ok ()" by auto
  with r3(2) one(1) whole show ?thesis by simp
qed

section \<open>How many calls a seeding makes\<close>

definition costs :: "env \<Rightarrow> nat \<Rightarrow> 'a go \<Rightarrow> bool" where
  "costs e c m \<longleftrightarrow> (\<forall>w. w_tick (snd (m e w)) \<le> w_tick w + c)"

named_theorems cost

lemma small_costs: "(2::nat) = Suc (Suc 0)" "(3::nat) = Suc (Suc (Suc 0))" by simp_all

lemma costs_prims [cost]:
  "costs e c (ret x)" "costs e c (raise err)" "costs e c (panic p)" "costs e c (lift r)"
  "costs e c (asks f)" "costs e (Suc c) now_utc" "costs e (Suc c) fresh_uuid"
  "costs e (Suc c) (bcrypt_hash pw)"
  by (simp_all add: costs_def clock_run)

lemma costs_sql [cost]: "costs e (Suc c) (sql q)"
  by (auto simp: costs_def sql_def external_def run_sql_def Let_def
      split: option.splits fault.splits prod.splits)

lemma costs_then:
  assumes "costs e k m" "\<And>x. costs e c (f x)"
  shows "costs e (k + c) (andthen m f)"
  unfolding costs_def
proof
  fix w
  show "w_tick (snd (andthen m f e w)) \<le> w_tick w + (k + c)"
  proof (cases "m e w")
    case (Pair r w1)
    then have "w_tick w1 \<le> w_tick w + k" using assms(1) by (metis costs_def snd_conv)
    moreover have "w_tick (snd (f x e w1)) \<le> w_tick w1 + c" for x using assms(2) by (simp add: costs_def)
    ultimately have "w_tick (snd (f x e w1)) \<le> w_tick w + (k + c)" for x by (metis add.assoc add_le_mono1 le_trans)
    with \<open>w_tick w1 \<le> w_tick w + k\<close> Pair show ?thesis by (cases r) (auto simp: andthen_def)
  qed
qed

lemma costs_weaken: "costs e k m \<Longrightarrow> k \<le> c \<Longrightarrow> costs e c m"
  by (auto simp: costs_def intro: order_trans)

lemma costs_step [cost]: "costs e (Suc 0) m \<Longrightarrow> (\<And>x. costs e c (f x)) \<Longrightarrow> costs e (Suc c) (andthen m f)"
  using costs_then [of e "Suc 0" m c f] by simp

lemma costs_wrapped_lift: "costs e c (wrapping msg (lift r))"
  by (simp add: costs_def same_world)

lemma costs_free:
  "(\<And>x. costs e c (f x)) \<Longrightarrow> costs e c (andthen (lift r) f)"
  "(\<And>x. costs e c (f x)) \<Longrightarrow> costs e c (andthen (wrapping msg (lift r)) f)"
  "(\<And>x. costs e c (f x)) \<Longrightarrow> costs e c (andthen (asks g) f)"
  by (auto intro!: costs_then [where k = 0, simplified] costs_prims costs_wrapped_lift)

lemma costs_same [cost]:
  "costs e c m \<Longrightarrow> costs e c (attempt m)" "costs e c m \<Longrightarrow> costs e c (wrapping msg m)"
  "costs e c m \<Longrightarrow> costs e c (no_rows_is_nil m)"
  by (simp_all add: costs_def same_world optional_world)

lemma costs_cases [cost]:
  "costs e c m \<Longrightarrow> costs e c m' \<Longrightarrow> costs e c (if b then m else m')"
  "costs e c m \<Longrightarrow> (\<And>y. costs e c (f y)) \<Longrightarrow> costs e c (case z of None \<Rightarrow> m | Some y \<Rightarrow> f y)"
  by (auto split: option.splits)

lemma costs_for_each: "(\<And>x. x \<in> set xs \<Longrightarrow> costs e c (f x)) \<Longrightarrow> costs e (length xs * c) (for_each xs f)"
proof (induction xs)
  case (Cons x xs)
  have "costs e (c + length xs * c) (andthen (f x) (\<lambda>_. for_each xs f))"
    by (rule costs_then) (use Cons in auto)
  then show ?case by simp
qed (simp add: costs_prims)

lemma costs_fold_go: "(\<And>x acc. x \<in> set xs \<Longrightarrow> costs e c (f x acc)) \<Longrightarrow> costs e (length xs * c) (fold_go xs f acc)"
proof (induction xs arbitrary: acc)
  case (Cons x xs)
  have "costs e (c + length xs * c) (andthen (f x acc) (\<lambda>acc'. fold_go xs f acc'))"
    by (rule costs_then) (use Cons in auto)
  then show ?case by simp
qed (simp add: costs_prims)

lemma costs_loop:
  "(\<And>x. x \<in> set xs \<Longrightarrow> costs e c (f x)) \<Longrightarrow> length xs * c \<le> k \<Longrightarrow> costs e k (for_each xs f)"
  by (rule costs_weaken [OF costs_for_each])

lemma costs_known:
  assumes "costs e k m" "\<And>w x w'. m e w = (Ok x, w') \<Longrightarrow> R x" "\<And>x. R x \<Longrightarrow> costs e c (f x)"
  shows "costs e (k + c) (andthen m f)"
proof -
  have "costs e (k + c) (andthen m (\<lambda>x. if R x then f x else ret undefined))"
    by (rule costs_then [OF assms(1)]) (simp add: assms(3) costs_prims(1) del: prims_run)
  moreover have "andthen m (\<lambda>x. if R x then f x else ret undefined) e w = andthen m f e w" for w
    using assms(2) by (auto simp: andthen_def split: prod.splits result.splits)
  ultimately show ?thesis by (simp add: costs_def)
qed

definition add_permission :: "resource_type \<times> permission_action \<Rightarrow> role \<Rightarrow> role go" where
  "add_permission = (\<lambda>(resource, action) r.
        andthen fresh_uuid (\<lambda>i. andthen now_utc (\<lambda>now.
        andthen (lift (NewPermission (resource @ '':'' @ action) resource action i now)) (\<lambda>p.
        andthen now_utc (\<lambda>now'. ret (Role_AddPermission p now' r))))))"

lemma add_permission_costs: "costs e 3 (add_permission x r)"
  unfolding add_permission_def case_prod_beta small_costs
  by (rule costs_step costs_free cost)+

lemma add_permission_length:
  "add_permission x r e w = (Ok r', w') \<Longrightarrow> length (r_permissions r') \<le> Suc (length (r_permissions r))"
  by (auto simp: add_permission_def andthen_Ok_iff clock_run go_prims Role_AddPermission_def
      split: prod.splits if_splits)

lemma added_length:
  "fold_go ps add_permission r e w = (Ok r', w') \<Longrightarrow>
     length (r_permissions r') \<le> length (r_permissions r) + length ps"
proof (induction ps arbitrary: r w)
  case (Cons p ps)
  then obtain r1 w1 where "add_permission p r e w = (Ok r1, w1)" "fold_go ps add_permission r1 e w1 = (Ok r', w')"
    by (auto simp: andthen_Ok_iff)
  with Cons.IH [OF this(2)] add_permission_length [OF this(1)] show ?case by simp
qed simp

lemma Role_Save_costs: "costs e (1 + length (r_permissions r) * 2) (Role_Save r)"
  unfolding Role_Save_def
  by (rule costs_then, simp add: cost, rule costs_for_each, unfold small_costs, (rule cost)+)

lemma sync_role_costs: "costs e (6 + 5 * length (dr_permissions dr)) (sync_role dr)"
proof -
  let ?n = "length (dr_permissions dr)"
  have save: "costs e (length (dr_permissions dr) * 3 + (1 + (1 + ?n * 2)))
    (andthen (fold_go (dr_permissions dr) add_permission (r0\<lparr>r_permissions := []\<rparr>)) (\<lambda>r.
       andthen (Role_RemoveAllPermissions (r_id r)) (\<lambda>_. Role_Save r)))" for r0
  proof (rule costs_known [where R = "\<lambda>r. length (r_permissions r) \<le> ?n"])
    show "costs e (length (dr_permissions dr) * 3)
        (fold_go (dr_permissions dr) add_permission (r0\<lparr>r_permissions := []\<rparr>))"
      by (rule costs_fold_go) (rule add_permission_costs)
    show "length (r_permissions r) \<le> ?n"
      if "fold_go (dr_permissions dr) add_permission (r0\<lparr>r_permissions := []\<rparr>) e w = (Ok r, w')" for w r w'
      using added_length [OF that] by simp
    show "costs e (1 + (1 + ?n * 2)) (andthen (Role_RemoveAllPermissions (r_id r)) (\<lambda>_. Role_Save r))"
      if "length (r_permissions r) \<le> ?n" for r
      by (rule costs_then, simp add: Role_RemoveAllPermissions_def cost,
          rule costs_weaken [OF Role_Save_costs], use that in simp)
  qed
  have find: "costs e 2 (Role_FindByName (dr_name dr))"
    unfolding Role_FindByName_def load_role_def q_GetRoleByName_def small_costs by (rule cost)+
  have build: "costs e 2 (case found of
          None \<Rightarrow>
            andthen fresh_uuid (\<lambda>i. andthen now_utc (\<lambda>now.
            lift (NewRole (dr_name dr) (dr_description dr) i now)))
        | Some r \<Rightarrow>
            andthen now_utc (\<lambda>now. andthen now_utc (\<lambda>now'.
            ret ((Role_UpdateDescription (dr_description dr) now r)\<lparr>r_updated := now'\<rparr>))))" for found
    unfolding small_costs by (rule cost)+
  have "costs e (2 + (2 + (?n * 3 + (1 + (1 + ?n * 2))))) (sync_role dr)"
    unfolding sync_role_def add_permission_def [symmetric]
    by (rule costs_then [OF find], rule costs_then [OF build], rule save)
  then show ?thesis by (rule costs_weaken) simp
qed

lemma transaction_costs: "fault_free e \<Longrightarrow> costs e c fn \<Longrightarrow> costs e (c + 2) (RunInTransaction fn)"
  unfolding costs_def
proof
  fix w
  assume ff: "fault_free e" and fn: "\<forall>w. w_tick (snd (fn e w)) \<le> w_tick w + c"
  define wt where "wt = (tick w)\<lparr>w_tx_time := Some (e_clock e (w_tick w))\<rparr>"
  have "w_tick (snd (fn e wt)) \<le> Suc (w_tick w) + c" using fn [THEN spec, of wt] by (simp add: wt_def)
  then show "w_tick (snd (RunInTransaction fn e w)) \<le> w_tick w + (c + 2)"
    unfolding transaction_run [OF ff] wt_def [symmetric]
    by (auto split: prod.splits result.splits)
qed

lemma SeedSystemRoles_costs:
  assumes "fault_free e"
  shows "costs e 200 (SeedSystemRoles)"
proof -
  have each: "costs e (length desiredRoles * 41) (for_each desiredRoles sync_role)"
  proof (rule costs_for_each)
    fix dr assume "dr \<in> set desiredRoles"
    then have "length (dr_permissions dr) \<le> 7" by (auto simp: desiredRoles_def)
    then show "costs e 41 (sync_role dr)" by (intro costs_weaken [OF sync_role_costs]) simp
  qed
  have find: "costs e 2 Role_FindAll"
    unfolding Role_FindAll_def small_costs by (rule costs_free cost)+
  have delete: "costs e 1 (if obs \<noteq> [] then Role_DeleteByNames obs else ret ())" for obs
    by (auto simp: Role_DeleteByNames_def cost simp del: prims_run)
  have "costs e ((2 + (1 + length desiredRoles * 41)) + 2) SeedSystemRoles"
    unfolding SeedSystemRoles_def Let_def
    by (intro transaction_costs [OF assms] costs_then [OF find] costs_then [OF delete] each)
  then show ?thesis by (rule costs_weaken) (simp add: desiredRoles_def)
qed

lemma seed_rows_costs: "costs e 50 seed_rows"
proof -
  have new: "costs e 3 (new_user inp)" for inp
    unfolding new_user_def small_costs by (rule cost)+
  have store: "costs e 1 (store_user y found u)" for y found u
    unfolding store_user_def One_nat_def by (rule cost)+
  have up: "costs e (1 + (3 + 1)) (upsertUser y)" for y
    unfolding upsertUser_def
    by (intro costs_then costs_same new store) (simp add: cost)
  have rest: "costs e 2 (andthen (wrapping m1 (sql q1)) (\<lambda>x. andthen (wrapping (m2 x) (sql (q2 x))) (\<lambda>_. ret y)))"
    for m1 m2 q1 q2 y unfolding small_costs by (rule cost)+
  have user: "costs e ((1 + (3 + 1)) + 2) (seed_user y m)" for y m
    unfolding seed_user_def by (rule costs_then [OF up rest])
  have label: "costs e 3 (seed_label B y m)" for B y m
    unfolding seed_label_def small_costs by (rule costs_free cost)+
  have task: "costs e 4 (seed_task m k y)" if "y \<in> set devTasks" for m k y
  proof -
    have assignee: "costs e 0 (if ts_assignee y = [] then ret None
             else case m (ts_assignee y) of
                 None \<Rightarrow> raise err
               | Some i \<Rightarrow> ret (Some i))" for err by (rule cost)+
    have up: "costs e 2 (upsertTask y c a)" for c a
      unfolding upsertTask_def Let_def small_costs by (rule cost)+
    have attach: "costs e 2 (for_each (ts_labels y) (\<lambda>l. case k l of None \<Rightarrow> raise (err l)
          | Some i \<Rightarrow> wrapping (msg l) (sql (q_AddLabelToTask (ts_id y) i))))" for err msg
    proof (rule costs_loop)
      show "length (ts_labels y) * 1 \<le> 2" using that by (auto simp: devTasks_def)
    qed (unfold One_nat_def, (rule cost)+)
    show ?thesis
    proof (cases "m (ts_creator y)")
      case (Some c)
      have "costs e (0 + (2 + 2)) (seed_task m k y)"
        unfolding seed_task_def Some option.case
        by (rule costs_then [OF assignee], rule costs_then [OF up], rule attach)
      then show ?thesis by simp
    qed (simp add: seed_task_def costs_prims del: prims_run)
  qed
  have labels: "costs e (1 + length devLabels * 3) upsertLabels"
    unfolding upsertLabels_def
    by (rule costs_free, rule costs_then, simp add: cost, rule costs_fold_go, rule label)
  have "costs e (length devUsers * ((1 + (3 + 1)) + 2) + ((1 + length devLabels * 3) + length devTasks * 4)) seed_rows"
    unfolding seed_rows_def
    by (intro costs_then costs_fold_go costs_for_each user task labels)
  then show ?thesis by (rule costs_weaken) (simp add: devUsers_def devLabels_def devTasks_def)
qed

lemma seed_costs:
  assumes "fault_free e"
  shows "w_tick (snd (SeedDevelopmentData True e w)) \<le> w_tick w + 252"
proof -
  obtain r1 w1 where s: "SeedSystemRoles e w = (r1, w1)" by fastforce
  obtain r2 w2 where t: "seed_transaction e w1 = (r2, w2)" by fastforce
  from seed_transaction_run [OF t] obtain r3 where r3: "RunInTransaction seed_rows e w1 = (r3, w2)" by blast
  have "w_tick w1 \<le> w_tick w + 200"
    using SeedSystemRoles_costs [OF assms] s by (metis costs_def snd_conv)
  moreover have "w_tick w2 \<le> w_tick w1 + (50 + 2)"
    using transaction_costs [OF assms seed_rows_costs] r3 by (metis costs_def snd_conv)
  ultimately show ?thesis
    by (cases r1) (simp_all add: SeedDevelopmentData_def andthen_def wrapping_run s t)
qed

section \<open>The seeding succeeds\<close>


section \<open>A concrete seeding\<close>

definition blank_world :: world where
  "blank_world = example_world\<lparr>w_db := empty_db\<rparr>"

lemma blank_world_simps [simp]: "w_db blank_world = empty_db" "w_tick blank_world = 0"
  by (simp_all add: blank_world_def)

lemma example_ids: "inj_on (e_new_uuid example_env) {..<252}"
proof (rule inj_onI)
  fix i j :: nat
  assume ij: "i \<in> {..<252}" "j \<in> {..<252}" and "e_new_uuid example_env i = e_new_uuid example_env j"
  then have "(of_nat i :: uuid) = of_nat j" by simp
  then have "unat (of_nat i :: uuid) = unat (of_nat j :: uuid)" by (rule arg_cong)
  with ij show "i = j" by (simp add: unat_of_nat take_bit_nat_eq_self)
qed

lemma blank_ids: "\<forall>k<252. e_new_uuid example_env k \<notin> used_ids (w_db blank_world)"
  by (simp add: used_ids_def id_sets empty_db_def)

lemma blank_hash: "\<forall>n. \<exists>h. e_bcrypt_hash example_env n ''password123'' = Ok h"
  by simp

lemma blank_clear: "labels_clear (e_pg_lower example_env) (db_labels (w_db blank_world))"
proof -
  have "e_pg_lower example_env = (\<lambda>s. s)" by (simp add: example_env_def)
  then show ?thesis by (simp add: labels_clear_def empty_db_def)
qed

lemma blank_inv: "db_inv (w_db blank_world)"
  by (simp add: db_inv_empty)


lemma blank_seeded:
  obtains w' where "SeedDevelopmentData True example_env blank_world = (Ok (), w')"
proof -
  have "w_tick (snd (SeedDevelopmentData True example_env blank_world)) \<le> 252"
    using seed_costs [OF example_fault_free, of blank_world] unfolding blank_world_simps by (simp only: add_0)
  moreover have "new_ids 252 example_env (w_tick blank_world) (w_db blank_world)"
    using blank_ids unfolding new_ids_def by blast
  ultimately have "fst (SeedDevelopmentData True example_env blank_world) = Ok ()"
    by (rule seed_runs [OF example_fault_free example_ids _ blank_hash blank_clear blank_inv])
  then show ?thesis using that by (metis prod.collapse)
qed

theorem seed_complete_witness: "\<exists>d. seeded example_env d"
proof -
  obtain w' where "SeedDevelopmentData True example_env blank_world = (Ok (), w')" by (rule blank_seeded)
  from seed_complete [OF this blank_inv] show ?thesis by (rule exI)
qed

definition down_env :: env where
  "down_env = example_env\<lparr>e_fault := (\<lambda>_. Some (FailBefore (Errorf ''connection refused'' None)))\<rparr>"

lemma down_run:
  obtains err where "SeedDevelopmentData True down_env blank_world = (Err err, tick blank_world)"
  by (simp add: SeedDevelopmentData_def SeedSystemRoles_def RunInTransaction_def tx_begin_def
      external_def down_env_def wrapping_def andthen_def tick_def Let_def)

theorem seed_all_or_nothing_witness:
  "w_db (snd (SeedDevelopmentData True down_env blank_world)) = empty_db
   \<or> (\<exists>w1. SeedSystemRoles down_env blank_world = (Ok (), w1))"
proof -
  have "\<forall>n err. e_fault down_env n \<noteq> Some (FailAfter err)" by (simp add: down_env_def)
  moreover obtain err where "SeedDevelopmentData True down_env blank_world = (Err err, tick blank_world)"
    by (rule down_run)
  ultimately show ?thesis using seed_all_or_nothing by fastforce
qed

definition capital_world :: world where
  "capital_world = blank_world\<lparr>w_db := empty_db\<lparr>db_labels :=
     [\<lparr>l_id = 7, l_name = ''Backend'', l_color = ''#000000'', l_created = 0, l_updated = 0\<rparr>]\<rparr>\<rparr>"

definition lower_env :: env where
  "lower_env = example_env\<lparr>e_pg_lower := (\<lambda>s. if s = ''Backend'' then ''backend'' else s)\<rparr>"

theorem seed_blocked_by_label_witness: "fst (SeedDevelopmentData True lower_env capital_world) \<noteq> Ok ()"
  by (rule seed_blocked_by_label [where l = "hd (db_labels (w_db capital_world))"])
    (simp_all add: capital_world_def lower_env_def empty_db_def)

end
