(* ===== verification/FileTree.thy ===== *)
theory FileTree
  imports Errors "HOL-Library.List_Lexorder" "HOL-Library.Char_ord"
begin

text \<open>
  The part of Go's packages \<open>os\<close>, \<open>io\<close> and \<open>path/filepath\<close> that
  \<open>internal/infrastructure/storage/local\<close> uses: a tree of directories and files, the calls on it,
  and the lexical path functions of Unix.  Directories list their entries by name, in the byte order in
  which \<open>filepath.Walk\<close> visits them.  There are no links.  Any call may fail for a reason of the
  system (\<open>os\_fault\<close>), and a call that does several writes may have done some of them before.
\<close>

section \<open>Trees\<close>

datatype node = File string time | Folder "(string \<times> node) list"

fun put_entry :: "string \<Rightarrow> 'a \<Rightarrow> (string \<times> 'a) list \<Rightarrow> (string \<times> 'a) list" where
  "put_entry n x [] = [(n, x)]"
| "put_entry n x ((m, y) # es) =
     (if m = n then (n, x) # es
      else if n < m then (n, x) # (m, y) # es
      else (m, y) # put_entry n x es)"

lemma map_of_put_entry [simp]: "map_of (put_entry n x es) = (map_of es)(n \<mapsto> x)"
  by (induction n x es rule: put_entry.induct) auto

lemma set_put_entry: "set (put_entry n x es) \<subseteq> insert (n, x) (set es)"
  by (induction n x es rule: put_entry.induct) auto

lemma names_put_entry: "fst ` set (put_entry n x es) = insert n (fst ` set es)"
  by (induction n x es rule: put_entry.induct) auto

lemma sorted_put_entry:
  "sorted_wrt (<) (map fst es) \<Longrightarrow> sorted_wrt (<) (map fst (put_entry n x es))"
proof (induction n x es rule: put_entry.induct)
  case (2 n x m y es)
  then have "\<forall>k\<in>fst ` set es. m < k" by auto
  moreover have "m < n" if "m \<noteq> n" "\<not> n < m" using that by simp
  ultimately show ?case using 2 by (auto simp: names_put_entry)
qed simp

lemma map_of_without:
  "map_of (filter (\<lambda>e. fst e \<noteq> n) es) m = (if m = n then None else map_of es m)"
  by (induction es) auto

section \<open>Errors\<close>

definition fs_ErrNotExist :: go_error where
  "fs_ErrNotExist = Sentinel ''fs'' ''ErrNotExist''"
definition ENOTDIR :: go_error where
  "ENOTDIR = External ''not a directory''"
definition EISDIR :: go_error where
  "EISDIR = External ''is a directory''"
definition ENOTEMPTY :: go_error where
  "ENOTEMPTY = External ''directory not empty''"
definition EBUSY :: go_error where
  "EBUSY = External ''device or resource busy''"
definition EINVAL :: go_error where
  "EINVAL = External ''invalid argument''"

definition os_IsNotExist :: "go_error \<Rightarrow> bool" where
  "os_IsNotExist err \<longleftrightarrow> err = fs_ErrNotExist"

lemma other_errors [simp]:
  "os_IsNotExist fs_ErrNotExist" "\<not> os_IsNotExist ENOTDIR" "\<not> os_IsNotExist EISDIR"
  "\<not> os_IsNotExist (External msg)" "\<not> os_IsNotExist EINVAL" "\<not> os_IsNotExist ENOTEMPTY" "\<not> os_IsNotExist EBUSY"
  by (simp_all add: os_IsNotExist_def fs_ErrNotExist_def ENOTDIR_def EISDIR_def EINVAL_def
      ENOTEMPTY_def EBUSY_def)

section \<open>Walking down a tree\<close>

fun resolve :: "node \<Rightarrow> string list \<Rightarrow> node result" where
  "resolve t [] = Ok t"
| "resolve (File c m) (n # p) = Err ENOTDIR"
| "resolve (Folder es) (n # p) =
     (case map_of es n of None \<Rightarrow> Err fs_ErrNotExist | Some t \<Rightarrow> resolve t p)"

fun put_node :: "node \<Rightarrow> string list \<Rightarrow> node \<Rightarrow> node" where
  "put_node t [] x = x"
| "put_node (File c m) (n # p) x = File c m"
| "put_node (Folder es) (n # p) x =
     (case map_of es n of
        Some t \<Rightarrow> Folder (put_entry n (put_node t p x) es)
      | None \<Rightarrow> if p = [] then Folder (put_entry n x es) else Folder es)"

fun drop_node :: "node \<Rightarrow> string list \<Rightarrow> node" where
  "drop_node t [] = t"
| "drop_node (File c m) (n # p) = File c m"
| "drop_node (Folder es) (n # p) =
     (if p = [] then Folder (filter (\<lambda>e. fst e \<noteq> n) es)
      else case map_of es n of
        Some t \<Rightarrow> Folder (put_entry n (drop_node t p) es)
      | None \<Rightarrow> Folder es)"

definition file_at :: "node \<Rightarrow> string list \<Rightarrow> string option" where
  "file_at t p = (case resolve t p of Ok (File c m) \<Rightarrow> Some c | _ \<Rightarrow> None)"

definition folder_at :: "node \<Rightarrow> string list \<Rightarrow> bool" where
  "folder_at t p \<longleftrightarrow> (case resolve t p of Ok (Folder es) \<Rightarrow> True | _ \<Rightarrow> False)"

definition is_folder :: "node \<Rightarrow> bool" where
  "is_folder t \<longleftrightarrow> (case t of Folder es \<Rightarrow> True | File c m \<Rightarrow> False)"

lemma is_folder_simps [simp]: "is_folder (Folder es)" "\<not> is_folder (File c m)"
  by (simp_all add: is_folder_def)

lemma at_simps [simp]:
  "file_at (File c m) [] = Some c" "file_at (Folder es) [] = None"
  "file_at (File c m) (n # p) = None"
  "file_at (Folder es) (n # p) = (case map_of es n of None \<Rightarrow> None | Some t \<Rightarrow> file_at t p)"
  "\<not> folder_at (File c m) p" "folder_at (Folder es) []"
  "folder_at (Folder es) (n # p) = (case map_of es n of None \<Rightarrow> False | Some t \<Rightarrow> folder_at t p)"
proof -
  show "\<not> folder_at (File c m) p" by (cases p) (simp_all add: folder_at_def)
qed (simp_all add: file_at_def folder_at_def split: option.splits)

lemma resolve_no_panic [simp]: "resolve t p \<noteq> Panic s"
  by (induction t p rule: resolve.induct) (auto split: option.splits)

lemma resolve_append:
  "resolve t (p @ q) = (case resolve t p of Ok x \<Rightarrow> resolve x q | Err err \<Rightarrow> Err err | Panic s \<Rightarrow> Panic s)"
  by (induction t p rule: resolve.induct) (auto split: option.splits)

lemma folder_at_iff: "folder_at t p \<longleftrightarrow> (\<exists>es. resolve t p = Ok (Folder es))"
  by (auto simp: folder_at_def split: result.splits node.splits)

lemma file_at_iff: "file_at t p = Some c \<longleftrightarrow> (\<exists>m. resolve t p = Ok (File c m))"
  by (auto simp: file_at_def split: result.splits node.splits)

lemma resolve_parent:
  assumes "resolve t p = Ok x" "p \<noteq> []"
  shows "folder_at t (butlast p)"
proof -
  have "resolve t (butlast p @ [last p]) = Ok x" using assms by simp
  then show ?thesis unfolding resolve_append
    by (auto simp: folder_at_iff split: result.splits elim: resolve.elims)
qed

text \<open>A file has nothing below it, so a file stays away from every other file.\<close>

lemma file_at_below: "file_at t p = Some c \<Longrightarrow> q \<noteq> [] \<Longrightarrow> file_at t (p @ q) = None"
proof -
  assume "file_at t p = Some c" and "q \<noteq> []"
  then obtain m n r where "resolve t p = Ok (File c m)" "q = n # r"
    by (auto simp: file_at_iff neq_Nil_conv)
  then show ?thesis by (simp add: file_at_def resolve_append)
qed

lemma put_here: "p \<noteq> [] \<Longrightarrow> folder_at t (butlast p) \<Longrightarrow> resolve (put_node t p x) (p @ q) = resolve x q"
proof (induction t p x rule: put_node.induct)
  case (3 es n p x)
  then show ?case by (cases "p = []") (auto split: option.splits)
qed simp_all

lemma put_elsewhere: "\<not> prefix p q \<Longrightarrow> file_at (put_node t p x) q = file_at t q"
proof (induction t p x arbitrary: q rule: put_node.induct)
  case (3 es n p x)
  then show ?case by (cases q) (auto split: option.splits)
qed simp_all

lemma drop_here: "p \<noteq> [] \<Longrightarrow> file_at (drop_node t p) (p @ q) = None"
proof (induction t p rule: drop_node.induct)
  case (3 es n p)
  then show ?case by (auto simp: map_of_without split: option.splits)
qed simp_all

lemma drop_elsewhere: "\<not> prefix p q \<Longrightarrow> file_at (drop_node t p) q = file_at t q"
proof (induction t p arbitrary: q rule: drop_node.induct)
  case (3 es n p)
  then show ?case by (cases q) (auto simp: map_of_without split: option.splits)
qed simp_all

text \<open>Writing a file where none or a file was changes the contents there and nowhere else.\<close>

lemma file_at_put_file:
  assumes "p \<noteq> []" "folder_at t (butlast p)" "\<not> folder_at t p"
  shows "file_at (put_node t p (File c m)) q = (if q = p then Some c else file_at t q)"
proof (cases "prefix p q")
  case True
  then obtain r where q: "q = p @ r" by (auto simp: prefix_def)
  have "file_at t (p @ r) = None" if "r \<noteq> []"
    using assms(3) that by (auto simp: file_at_def resolve_append folder_at_def neq_Nil_conv
        split: result.splits node.splits)
  then show ?thesis using q put_here [OF assms(1,2), of "File c m" r]
    by (cases r) (simp_all add: file_at_def)
qed (auto simp: put_elsewhere)

lemma file_at_put_folder:
  assumes "p \<noteq> []" "folder_at t (butlast p)" "\<forall>x. resolve t p \<noteq> Ok x"
  shows "file_at (put_node t p (Folder [])) q = file_at t q"
proof (cases "prefix p q")
  case True
  then obtain r where q: "q = p @ r" by (auto simp: prefix_def)
  have "file_at t (p @ r) = None"
    using assms(3) by (auto simp: file_at_def resolve_append split: result.splits)
  then show ?thesis using q put_here [OF assms(1,2), of "Folder []" r]
    by (cases r) (simp_all add: file_at_def)
qed (simp add: put_elsewhere)

lemma file_at_drop:
  assumes "p \<noteq> []" "\<not> folder_at t p \<or> resolve t p = Ok (Folder [])"
  shows "file_at (drop_node t p) q = (if q = p then None else file_at t q)"
proof (cases "prefix p q")
  case True
  then obtain r where q: "q = p @ r" by (auto simp: prefix_def)
  have "file_at t (p @ r) = None" if "r \<noteq> []"
    using assms(2) that by (auto simp: file_at_def resolve_append folder_at_def neq_Nil_conv
        split: result.splits node.splits)
  then show ?thesis using q drop_here [OF assms(1), of t r] by auto
qed (auto simp: drop_elsewhere)

section \<open>Lexical paths\<close>

text \<open>\<open>filepath.Clean\<close> on the elements of a path; the elements kept so far are in reverse.\<close>

definition clean_step :: "bool \<Rightarrow> string list \<Rightarrow> string \<Rightarrow> string list" where
  "clean_step rooted kept x =
     (if x = [] \<or> x = ''.'' then kept
      else if x = ''..'' then
        (case kept of
           [] \<Rightarrow> if rooted then [] else [''..'']
         | k # ks \<Rightarrow> if k = ''..'' then ''..'' # kept else ks)
      else x # kept)"

definition clean_elems :: "bool \<Rightarrow> string list \<Rightarrow> string list \<Rightarrow> string list" where
  "clean_elems rooted kept xs = rev (foldl (clean_step rooted) kept xs)"

fun join_with :: "char \<Rightarrow> string list \<Rightarrow> string" where
  "join_with c [] = []"
| "join_with c [x] = x"
| "join_with c (x # y # ys) = x @ c # join_with c (y # ys)"

abbreviation slash :: char where "slash \<equiv> CHR ''/''"

definition is_rooted :: "string \<Rightarrow> bool" where
  "is_rooted p \<longleftrightarrow> (case p of [] \<Rightarrow> False | c # _ \<Rightarrow> c = slash)"

definition path_text :: "bool \<Rightarrow> string list \<Rightarrow> string" where
  "path_text rooted xs =
     (if rooted then slash # join_with slash xs
      else if xs = [] then ''.'' else join_with slash xs)"

definition elements :: "string \<Rightarrow> string list" where
  "elements p = clean_elems (is_rooted p) [] (split_on slash p)"

definition filepath_Clean :: "string \<Rightarrow> string" where
  "filepath_Clean p = path_text (is_rooted p) (elements p)"

definition filepath_Join :: "string \<Rightarrow> string \<Rightarrow> string" where
  "filepath_Join a b =
     (if a \<noteq> [] then filepath_Clean (a @ slash # b)
      else if b \<noteq> [] then filepath_Clean b else [])"

text \<open>Everything up to the last slash, cleaned.\<close>

definition filepath_Dir :: "string \<Rightarrow> string" where
  "filepath_Dir p = filepath_Clean (rev (dropWhile (\<lambda>c. c \<noteq> slash) (rev p)))"

text \<open>
  The elements of \<open>base\<close> that \<open>targ\<close> does not share are left by \<open>..\<close>, unless the first of them is
  itself \<open>..\<close>.
\<close>

fun rel_elems :: "string list \<Rightarrow> string list \<Rightarrow> string list option" where
  "rel_elems (b # bs) (t # ts) =
     (if b = t then rel_elems bs ts
      else if b = ''..'' then None else Some (map (\<lambda>_. ''..'') (b # bs) @ t # ts))"
| "rel_elems [] ts = Some ts"
| "rel_elems (b # bs) [] = (if b = ''..'' then None else Some (map (\<lambda>_. ''..'') (b # bs)))"

definition filepath_Rel :: "string \<Rightarrow> string \<Rightarrow> string option" where
  "filepath_Rel basepath targpath =
     (if is_rooted basepath \<noteq> is_rooted targpath then None
      else map_option (path_text False) (rel_elems (elements basepath) (elements targpath)))"


text \<open>Elements of a cleaned path are names or \<open>..\<close>, and cleaning again changes nothing.\<close>

definition plain :: "string \<Rightarrow> bool" where
  "plain x \<longleftrightarrow> x \<noteq> [] \<and> x \<noteq> ''.'' \<and> slash \<notin> set x"

lemma split_on_part: "x \<in> set (split_on c s) \<Longrightarrow> c \<notin> set x"
proof (induction s arbitrary: x)
  case (Cons a s)
  then show ?case by (cases "split_on c s") (auto split: if_splits)
qed simp

lemma split_on_join:
  "xs \<noteq> [] \<Longrightarrow> \<forall>x\<in>set xs. c \<notin> set x \<Longrightarrow> split_on c (join_with c xs) = xs"
  by (induction c xs rule: join_with.induct) (auto simp: split_on_append split_on_absent)

lemma split_on_both: "split_on c (a @ c # b) = split_on c a @ split_on c b"
proof (induction a)
  case (Cons x a)
  then show ?case by (cases "split_on c a") simp_all
qed simp

lemma clean_step_plain:
  "\<forall>x\<in>set kept. plain x \<Longrightarrow> slash \<notin> set x \<Longrightarrow> \<forall>y\<in>set (clean_step r kept x). plain y"
  by (cases kept) (simp_all add: clean_step_def plain_def)

lemma clean_elems_plain:
  "\<forall>x\<in>set kept. plain x \<Longrightarrow> \<forall>x\<in>set xs. slash \<notin> set x \<Longrightarrow> \<forall>x\<in>set (clean_elems r kept xs). plain x"
proof (induction xs arbitrary: kept)
  case (Cons x xs)
  then show ?case using clean_step_plain [of kept x r] by (simp add: clean_elems_def)
qed (simp add: clean_elems_def)

lemma clean_elems_append:
  "clean_elems r kept (xs @ ys) = clean_elems r (rev (clean_elems r kept xs)) ys"
  by (simp add: clean_elems_def)

lemma clean_elems_names:
  "\<forall>x\<in>set xs. x \<noteq> ''..'' \<Longrightarrow> clean_elems r kept xs = rev kept @ filter (\<lambda>x. x \<noteq> [] \<and> x \<noteq> ''.'') xs"
proof (induction xs arbitrary: kept)
  case (Cons x xs)
  then show ?case by (simp add: clean_elems_def clean_step_def)
qed (simp add: clean_elems_def)

lemma elements_plain: "\<forall>x\<in>set (elements p). plain x"
  unfolding elements_def by (rule clean_elems_plain) (auto dest: split_on_part)

text \<open>Cleaning the elements first gives the same walk from any start.\<close>

lemma clean_first:
  assumes "\<forall>x\<in>set kept. plain x" "\<not> r \<or> (r' \<and> base = [])" "\<forall>x\<in>set xs. slash \<notin> set x"
  shows "foldl (clean_step r') base (rev (foldl (clean_step r) kept xs))
    = foldl (clean_step r') base (rev kept @ xs)"
  using assms
proof (induction xs arbitrary: kept)
  case (Cons x xs)
  have "foldl (clean_step r') base (rev (clean_step r kept x)) = foldl (clean_step r') base (rev kept @ [x])"
    using Cons.prems by (cases kept) (auto simp: clean_step_def plain_def)
  moreover have "\<forall>y\<in>set (clean_step r kept x). plain y" using Cons.prems by (intro clean_step_plain) auto
  ultimately show ?case using Cons by simp
qed simp

lemma clean_elems_first:
  assumes "\<forall>x\<in>set xs. slash \<notin> set x" "\<not> r \<or> (r' \<and> base = [])"
  shows "clean_elems r' base (clean_elems r [] xs) = clean_elems r' base xs"
  using clean_first [of "[]" r r' base xs] assms by (simp add: clean_elems_def)

lemma is_rooted_text: "\<forall>x\<in>set xs. plain x \<Longrightarrow> is_rooted (path_text r xs) = r"
proof (cases xs)
  case (Cons x ys)
  moreover assume "\<forall>x\<in>set xs. plain x"
  ultimately show ?thesis
    by (cases ys; cases x) (auto simp: path_text_def is_rooted_def plain_def)
qed (simp add: path_text_def is_rooted_def)

lemma split_text:
  assumes "\<forall>x\<in>set xs. plain x"
  shows "filter plain (split_on slash (path_text r xs)) = xs"
proof -
  have "split_on slash (join_with slash xs) = xs" if "xs \<noteq> []"
    using that assms by (intro split_on_join) (auto simp: plain_def)
  then show ?thesis using assms by (auto simp: path_text_def plain_def filter_id_conv)
qed

lemma clean_elems_filter: 
  "\<forall>x\<in>set xs. slash \<notin> set x \<Longrightarrow> clean_elems r kept (filter plain xs) = clean_elems r kept xs"
proof (induction xs arbitrary: kept)
  case (Cons x xs)
  then show ?case by (auto simp: clean_elems_def clean_step_def plain_def)
qed simp

lemma clean_text:
  assumes "\<forall>x\<in>set xs. plain x"
  shows "clean_elems r' base (split_on slash (path_text r xs)) = clean_elems r' base xs"
proof -
  have "\<forall>x\<in>set (split_on slash (path_text r xs)). slash \<notin> set x" by (auto dest: split_on_part)
  from clean_elems_filter [OF this] show ?thesis using split_text [OF assms, of r] by metis
qed

lemma is_rooted_Clean [simp]: "is_rooted (filepath_Clean p) = is_rooted p"
  by (simp add: filepath_Clean_def is_rooted_text elements_plain)

lemma elements_Clean [simp]: "elements (filepath_Clean p) = elements p"
proof -
  have "clean_elems (is_rooted p) [] (elements p) = elements p"
    unfolding elements_def by (rule clean_elems_first) (auto dest: split_on_part)
  then show ?thesis
    unfolding elements_def [of "filepath_Clean p"] is_rooted_Clean
    using clean_text [OF elements_plain, of "is_rooted p" "[]" "is_rooted p" p]
    by (simp add: filepath_Clean_def)
qed

lemma filepath_Clean_nonempty [simp]: "filepath_Clean p \<noteq> []"
proof (cases "elements p")
  case (Cons x ys)
  then show ?thesis using elements_plain [of p]
    by (cases ys) (auto simp: filepath_Clean_def path_text_def plain_def)
qed (simp add: filepath_Clean_def path_text_def)

section \<open>Calls of the system\<close>

text \<open>
  \<open>os\_fault n = Some (k, msg)\<close>: the call of that number fails for a reason of the system, other than
  a missing file, after \<open>k\<close> of its steps (elements of a path made directories, bytes written).  \<open>os\_dir\<close>: size and time that \<open>Stat\<close> reports of a directory.
\<close>

record os_env =
  os_cwd :: "string list"
  os_fault :: "nat \<Rightarrow> (nat \<times> string) option"
  os_clock :: "nat \<Rightarrow> time"
  os_dir :: "nat \<Rightarrow> int \<times> time"

record disk =
  dk_root :: node
  dk_calls :: nat

type_synonym 'a file_op = "os_env \<Rightarrow> disk \<Rightarrow> 'a result \<times> disk"

definition fret :: "'a \<Rightarrow> 'a file_op" where
  "fret x e d = (Ok x, d)"

definition fthen :: "'a file_op \<Rightarrow> ('a \<Rightarrow> 'b file_op) \<Rightarrow> 'b file_op" where
  "fthen m f e d =
     (case m e d of
        (Ok x, d') \<Rightarrow> f x e d'
      | (Err err, d') \<Rightarrow> (Err err, d')
      | (Panic p, d') \<Rightarrow> (Panic p, d'))"

text \<open>The error of a call, mapped as the code maps it.\<close>

definition on_error :: "'a file_op \<Rightarrow> (go_error \<Rightarrow> 'a result) \<Rightarrow> 'a file_op" where
  "on_error m f e d =
     (case m e d of (Err err, d') \<Rightarrow> (f err, d') | (r, d') \<Rightarrow> (r, d'))"

definition failing :: "string \<Rightarrow> 'a file_op \<Rightarrow> 'a file_op" where
  "failing msg m = on_error m (\<lambda>err. Err (Errorf msg (Some err)))"

definition os_call ::
  "(os_env \<Rightarrow> nat \<Rightarrow> node \<Rightarrow> 'a result \<times> node) \<Rightarrow> (os_env \<Rightarrow> nat \<Rightarrow> nat \<Rightarrow> node \<Rightarrow> node) \<Rightarrow> 'a file_op" where
  "os_call act partial e d =
     (let n = dk_calls d in
      case os_fault e n of
        Some (k, msg) \<Rightarrow> (Err (External msg), \<lparr>dk_root = partial e n k (dk_root d), dk_calls = Suc n\<rparr>)
      | None \<Rightarrow> (case act e n (dk_root d) of (r, t) \<Rightarrow> (r, \<lparr>dk_root = t, dk_calls = Suc n\<rparr>)))"

definition no_effect :: "os_env \<Rightarrow> nat \<Rightarrow> nat \<Rightarrow> node \<Rightarrow> node" where
  "no_effect e n k t = t"

definition time_Now :: "time file_op" where
  "time_Now e d = (Ok (os_clock e (dk_calls d)), d\<lparr>dk_calls := Suc (dk_calls d)\<rparr>)"

text \<open>Where a path leads from the working directory; \<open>..\<close> at the root stays there.\<close>

definition NUL :: char where "NUL = CHR 0x00"

definition place :: "string list \<Rightarrow> string \<Rightarrow> string list" where
  "place cwd p =
     clean_elems True (if is_rooted p then [] else rev cwd) (split_on slash p)"

lemma place_Clean [simp]: "place cwd (filepath_Clean p) = place cwd p"
proof -
  have "place cwd (filepath_Clean p) = clean_elems True (if is_rooted p then [] else rev cwd) (elements p)"
    using clean_text [OF elements_plain, of True _ "is_rooted p" p]
    by (simp add: place_def filepath_Clean_def is_rooted_text elements_plain)
  then show ?thesis
    unfolding place_def elements_def by (simp add: clean_elems_first split_on_part)
qed

lemma place_Join:
  assumes "a \<noteq> []"
  shows "place cwd (filepath_Join a b) = clean_elems True (rev (place cwd a)) (split_on slash b)"
proof -
  have "is_rooted (a @ slash # b) = is_rooted a" using assms by (cases a) (simp_all add: is_rooted_def)
  then have "place cwd (a @ slash # b) = clean_elems True (rev (place cwd a)) (split_on slash b)"
    by (simp add: place_def split_on_both clean_elems_append)
  then show ?thesis using assms by (simp add: filepath_Join_def)
qed

definition locate :: "os_env \<Rightarrow> string \<Rightarrow> string list result" where
  "locate e p =
     (if p = [] then Err fs_ErrNotExist
      else if NUL \<in> set p then Err EINVAL
      else Ok (place (os_cwd e) p))"

fun mkdir_elems :: "string list \<Rightarrow> string list \<Rightarrow> node \<Rightarrow> unit result \<times> node" where
  "mkdir_elems cur [] t =
     (case resolve t cur of
        Ok (Folder es) \<Rightarrow> (Ok (), t)
      | Ok (File c m) \<Rightarrow> (Err ENOTDIR, t)
      | Err err \<Rightarrow> (Err err, t)
      | Panic p \<Rightarrow> (Panic p, t))"
| "mkdir_elems cur (x # xs) t =
     (if x = [] \<or> x = ''.'' then mkdir_elems cur xs t
      else if x = ''..'' then mkdir_elems (butlast cur) xs t
      else if NUL \<in> set x then (Err EINVAL, t)
      else case resolve t (cur @ [x]) of
        Ok (Folder es) \<Rightarrow> mkdir_elems (cur @ [x]) xs t
      | Ok (File c m) \<Rightarrow> (Err ENOTDIR, t)
      | Err err \<Rightarrow>
          if folder_at t cur then mkdir_elems (cur @ [x]) xs (put_node t (cur @ [x]) (Folder []))
          else (Err err, t)
      | Panic p \<Rightarrow> (Panic p, t))"

definition mkdir_start :: "os_env \<Rightarrow> string \<Rightarrow> string list" where
  "mkdir_start e p = (if is_rooted p then [] else os_cwd e)"

definition os_MkdirAll :: "string \<Rightarrow> unit file_op" where
  "os_MkdirAll p =
     os_call (\<lambda>e n t. if p = [] then (Err fs_ErrNotExist, t)
                      else mkdir_elems (mkdir_start e p) (split_on slash p) t)
             (\<lambda>e n k t. snd (mkdir_elems (mkdir_start e p) (take k (split_on slash p)) t))"

text \<open>A handle is the place of the node it was opened at: nothing is renamed while one is open.\<close>

definition os_Open :: "string \<Rightarrow> string list file_op" where
  "os_Open p = os_call (\<lambda>e n t.
     (case locate e p of
        Ok q \<Rightarrow> (case resolve t q of Ok x \<Rightarrow> Ok q | Err err \<Rightarrow> Err err | Panic s \<Rightarrow> Panic s)
      | Err err \<Rightarrow> Err err
      | Panic s \<Rightarrow> Panic s, t)) no_effect"

text \<open>\<open>O\_CREATE\<close> and \<open>O\_TRUNC\<close>: an existing file is emptied.\<close>

definition os_Create :: "string \<Rightarrow> string list file_op" where
  "os_Create p = os_call (\<lambda>e n t.
     case locate e p of
       Ok q \<Rightarrow>
         if q = [] then (Err EISDIR, t)
         else (case resolve t q of
             Ok (Folder es) \<Rightarrow> (Err EISDIR, t)
           | Ok (File c m) \<Rightarrow> (Ok q, put_node t q (File [] (os_clock e n)))
           | Err err \<Rightarrow>
               if folder_at t (butlast q) then (Ok q, put_node t q (File [] (os_clock e n)))
               else (Err err, t)
           | Panic s \<Rightarrow> (Panic s, t))
     | Err err \<Rightarrow> (Err err, t)
     | Panic s \<Rightarrow> (Panic s, t)) no_effect"

record file_info =
  fi_dir :: bool
  fi_size :: int
  fi_time :: time

definition node_info :: "os_env \<Rightarrow> nat \<Rightarrow> node \<Rightarrow> file_info" where
  "node_info e n x =
     (case x of
        File c m \<Rightarrow> \<lparr>fi_dir = False, fi_size = int (length c), fi_time = m\<rparr>
      | Folder es \<Rightarrow> \<lparr>fi_dir = True, fi_size = fst (os_dir e n), fi_time = snd (os_dir e n)\<rparr>)"

definition stat_place :: "string list \<Rightarrow> os_env \<Rightarrow> nat \<Rightarrow> node \<Rightarrow> file_info result" where
  "stat_place q e n t =
     (case resolve t q of Ok x \<Rightarrow> Ok (node_info e n x) | Err err \<Rightarrow> Err err | Panic s \<Rightarrow> Panic s)"

definition file_Stat :: "string list \<Rightarrow> file_info file_op" where
  "file_Stat h = os_call (\<lambda>e n t. (stat_place h e n t, t)) no_effect"

definition os_Stat :: "string \<Rightarrow> file_info file_op" where
  "os_Stat p = os_call (\<lambda>e n t.
     (case locate e p of
        Ok q \<Rightarrow> stat_place q e n t
      | Err err \<Rightarrow> Err err
      | Panic s \<Rightarrow> Panic s, t)) no_effect"

definition os_Remove :: "string \<Rightarrow> unit file_op" where
  "os_Remove p = os_call (\<lambda>e n t.
     case locate e p of
       Ok q \<Rightarrow>
         if q = [] then (Err EBUSY, t)
         else (case resolve t q of
             Ok (Folder (c # cs)) \<Rightarrow> (Err ENOTEMPTY, t)
           | Ok x \<Rightarrow> (Ok (), drop_node t q)
           | Err err \<Rightarrow> (Err err, t)
           | Panic s \<Rightarrow> (Panic s, t))
     | Err err \<Rightarrow> (Err err, t)
     | Panic s \<Rightarrow> (Panic s, t)) no_effect"

text \<open>
  A reader delivers its bytes and then the end of the file or an error; reading a directory is an
  error.  \<open>io.Copy\<close> writes what the reader delivers at the time of the copy.
\<close>

record reader =
  rd_bytes :: string
  rd_error :: "go_error option"

definition opened :: "string list \<Rightarrow> node \<Rightarrow> reader" where
  "opened h t =
     (case resolve t h of
        Ok (File c m) \<Rightarrow> \<lparr>rd_bytes = c, rd_error = None\<rparr>
      | _ \<Rightarrow> \<lparr>rd_bytes = [], rd_error = Some EISDIR\<rparr>)"

definition write_bytes :: "string list \<Rightarrow> string \<Rightarrow> time \<Rightarrow> node \<Rightarrow> node" where
  "write_bytes h bs now t = (if bs = [] then t else put_node t h (File bs now))"

definition io_Copy :: "string list \<Rightarrow> (node \<Rightarrow> reader) \<Rightarrow> int file_op" where
  "io_Copy dst src = os_call
     (\<lambda>e n t. let rd = src t in
        (case rd_error rd of None \<Rightarrow> Ok (int (length (rd_bytes rd))) | Some err \<Rightarrow> Err err,
         write_bytes dst (rd_bytes rd) (os_clock e n) t))
     (\<lambda>e n k t. write_bytes dst (take k (rd_bytes (src t))) (os_clock e n) t)"

end
