(* ===== verification/LocalStorage.thy ===== *)
theory LocalStorage
  imports FileTree Messaging
begin

text \<open>
  The local file storage of \<open>internal/infrastructure/storage/local/storage.go\<close>: the port
  \<open>output.FileStorage\<close> on a directory of the file system.  A download is what reading the returned
  handle delivers; closing files has no effect on the tree, nor do the contexts.
\<close>

section \<open>Operations\<close>

record local_config =
  lc_base_path :: string
  lc_base_url :: string

record local_storage =
  ls_base_path :: string
  ls_base_url :: string

record local_metadata = file_metadata +
  lm_modified :: time
  lm_metadata :: "(string \<times> string) list"

record upload_options =
  uo_content_type :: string
  uo_metadata :: "(string \<times> string) list"

definition NewLocalStorage :: "local_config \<Rightarrow> local_storage file_op" where
  "NewLocalStorage cfg =
     fthen (failing ''failed to create base directory'' (os_MkdirAll (lc_base_path cfg))) (\<lambda>_.
     fret \<lparr>ls_base_path = lc_base_path cfg, ls_base_url = lc_base_url cfg\<rparr>)"

definition full_path :: "local_storage \<Rightarrow> string \<Rightarrow> string" where
  "full_path s key = filepath_Join (ls_base_path s) key"

definition Local_Upload ::
  "local_storage \<Rightarrow> string \<Rightarrow> reader \<Rightarrow> upload_options \<Rightarrow> local_metadata file_op" where
  "Local_Upload s key rd options =
     (let fullPath = full_path s key; dir = filepath_Dir fullPath in
      fthen (failing ''failed to create directory'' (os_MkdirAll dir)) (\<lambda>_.
      fthen (failing ''failed to create file'' (os_Create fullPath)) (\<lambda>file.
      fthen (failing ''failed to write file'' (io_Copy file (\<lambda>t. rd))) (\<lambda>written.
      fthen time_Now (\<lambda>now.
      fret \<lparr>fm_key = key, fm_content_type = uo_content_type options, fm_size = written,
            lm_modified = now, lm_metadata = uo_metadata options\<rparr>)))))"

definition no_file :: "string \<Rightarrow> go_error" where
  "no_file key = Errorf (''file not found: '' @ key) None"

definition Local_Download :: "local_storage \<Rightarrow> string \<Rightarrow> (reader \<times> local_metadata) file_op" where
  "Local_Download s key =
     fthen (on_error (os_Open (full_path s key))
       (\<lambda>err. if os_IsNotExist err then Err (no_file key)
              else Err (Errorf ''failed to open file'' (Some err)))) (\<lambda>file.
     fthen (failing ''failed to stat file'' (file_Stat file)) (\<lambda>info.
     \<lambda>e d. (Ok (opened file (dk_root d),
                \<lparr>fm_key = key, fm_content_type = [], fm_size = fi_size info,
                 lm_modified = fi_time info, lm_metadata = []\<rparr>), d)))"

definition Local_Delete :: "local_storage \<Rightarrow> string \<Rightarrow> unit file_op" where
  "Local_Delete s key =
     on_error (os_Remove (full_path s key))
       (\<lambda>err. if os_IsNotExist err then Ok ()
              else Err (Errorf ''failed to delete file'' (Some err)))"

definition Local_Exists :: "local_storage \<Rightarrow> string \<Rightarrow> bool file_op" where
  "Local_Exists s key =
     on_error (fthen (os_Stat (full_path s key)) (\<lambda>_. fret True))
       (\<lambda>err. if os_IsNotExist err then Ok False
              else Err (Errorf ''failed to check file'' (Some err)))"

definition Local_GetMetadata :: "local_storage \<Rightarrow> string \<Rightarrow> local_metadata file_op" where
  "Local_GetMetadata s key =
     fthen (on_error (os_Stat (full_path s key))
       (\<lambda>err. if os_IsNotExist err then Err (no_file key)
              else Err (Errorf ''failed to stat file'' (Some err)))) (\<lambda>info.
     fret \<lparr>fm_key = key, fm_content_type = [], fm_size = fi_size info,
           lm_modified = fi_time info, lm_metadata = []\<rparr>)"

definition Local_GeneratePresignedURL :: "local_storage \<Rightarrow> string \<Rightarrow> duration \<Rightarrow> string file_op" where
  "Local_GeneratePresignedURL s key expiration = fret (ls_base_url s @ slash # key)"

definition Local_GenerateUploadURL ::
  "local_storage \<Rightarrow> string \<Rightarrow> string \<Rightarrow> duration \<Rightarrow> string file_op" where
  "Local_GenerateUploadURL s key contentType expiration = Local_GeneratePresignedURL s key expiration"

definition Local_Copy :: "local_storage \<Rightarrow> string \<Rightarrow> string \<Rightarrow> local_metadata file_op" where
  "Local_Copy s sourceKey destKey =
     (let srcPath = full_path s sourceKey; dstPath = full_path s destKey in
      fthen (failing ''failed to create directory'' (os_MkdirAll (filepath_Dir dstPath))) (\<lambda>_.
      fthen (failing ''failed to open source'' (os_Open srcPath)) (\<lambda>src.
      fthen (failing ''failed to create destination'' (os_Create dstPath)) (\<lambda>dst.
      fthen (failing ''failed to copy file'' (io_Copy dst (opened src))) (\<lambda>written.
      fthen time_Now (\<lambda>now.
      fret \<lparr>fm_key = destKey, fm_content_type = [], fm_size = written, lm_modified = now,
            lm_metadata = []\<rparr>))))))"

section \<open>Listing\<close>

text \<open>
  \<open>filepath.Walk\<close> with the callback of \<open>List\<close>: it goes on, or the callback has answered
  \<open>filepath.SkipDir\<close>.  On a file that leaves the rest of its directory, on a directory its entries.
  An error inside the walk ends it with this error, like a failing call.
\<close>

datatype walk_end = Walk_on | SkipDir

record listing =
  li_files :: "local_metadata list"
  li_count :: int

definition list_visit ::
  "local_storage \<Rightarrow> int \<Rightarrow> string \<Rightarrow> file_info \<Rightarrow> listing \<Rightarrow> walk_end \<times> listing" where
  "list_visit s maxKeys path info acc =
     (if li_count acc \<ge> maxKeys then (SkipDir, acc)
      else if fi_dir info then (Walk_on, acc)
      else case filepath_Rel (ls_base_path s) path of
          None \<Rightarrow> (Walk_on, acc)
        | Some key \<Rightarrow>
            (Walk_on,
             \<lparr>li_files = li_files acc @
                [\<lparr>fm_key = key, fm_content_type = [], fm_size = fi_size info,
                  lm_modified = fi_time info, lm_metadata = []\<rparr>],
              li_count = li_count acc + 1\<rparr>))"

fun walk :: "(string \<Rightarrow> node \<Rightarrow> 'a \<Rightarrow> walk_end \<times> 'a) \<Rightarrow> string \<Rightarrow> node \<Rightarrow> 'a \<Rightarrow> walk_end \<times> 'a"
  and walk_names ::
    "(string \<Rightarrow> node \<Rightarrow> 'a \<Rightarrow> walk_end \<times> 'a) \<Rightarrow> string \<Rightarrow> (string \<times> node) list \<Rightarrow> 'a \<Rightarrow> walk_end \<times> 'a"
  where
  "walk fn path (File c m) acc = fn path (File c m) acc"
| "walk fn path (Folder es) acc =
     (case fn path (Folder es) acc of
        (Walk_on, acc') \<Rightarrow> walk_names fn path es acc'
      | (SkipDir, acc') \<Rightarrow> (SkipDir, acc'))"
| "walk_names fn path [] acc = (Walk_on, acc)"
| "walk_names fn path ((name, t) # es) acc =
     (case walk fn (filepath_Join path name) t acc of
        (Walk_on, acc') \<Rightarrow> walk_names fn path es acc'
      | (SkipDir, acc') \<Rightarrow> if is_folder t then walk_names fn path es acc' else (SkipDir, acc'))"

definition filepath_Walk ::
  "string \<Rightarrow> (os_env \<Rightarrow> nat \<Rightarrow> string \<Rightarrow> node \<Rightarrow> 'a \<Rightarrow> walk_end \<times> 'a) \<Rightarrow> 'a \<Rightarrow> 'a file_op" where
  "filepath_Walk root fn acc = os_call (\<lambda>e n t.
     (case locate e root of
        Ok q \<Rightarrow> (case resolve t q of
             Ok x \<Rightarrow> Ok (snd (walk (fn e n) root x acc))
           | Err err \<Rightarrow> Err err
           | Panic p \<Rightarrow> Panic p)
      | Err err \<Rightarrow> Err err
      | Panic p \<Rightarrow> Panic p, t)) no_effect"

definition Local_List :: "local_storage \<Rightarrow> string \<Rightarrow> int \<Rightarrow> local_metadata list file_op" where
  "Local_List s pre maxKeys =
     (let dir = filepath_Dir (full_path s pre) in
      fthen (failing ''failed to list files''
        (filepath_Walk dir (\<lambda>e n path x. list_visit s maxKeys path (node_info e n x))
           \<lparr>li_files = [], li_count = 0\<rparr>)) (\<lambda>acc.
      fret (li_files acc)))"

end
