(* ===== verification/LocalFlows.thy ===== *)
theory LocalFlows
  imports LocalStorage TaskUseCase
begin

text \<open>
  What the local file storage does to the files of the system: which file an operation touches, that
  it implements the same store of named contents as the S3 adapter, where it differs, and what
  \<open>List\<close> returns.
\<close>

section \<open>Contents after a call\<close>

definition files :: "disk \<Rightarrow> string list \<Rightarrow> string option" where
  "files d = file_at (dk_root d)"

lemma os_call_cases:
  assumes "os_call act partial e d = (r, d')"
  obtains (fault) k msg where "os_fault e (dk_calls d) = Some (k, msg)" "r = Err (External msg)"
      "dk_root d' = partial e (dk_calls d) k (dk_root d)"
    | (acts) "os_fault e (dk_calls d) = None" "act e (dk_calls d) (dk_root d) = (r, dk_root d')"
  using assms by (auto simp: os_call_def Let_def split: option.splits prod.splits)

lemma fthen_Ok_iff:
  "fthen m f e d = (Ok y, d') \<longleftrightarrow> (\<exists>x d1. m e d = (Ok x, d1) \<and> f x e d1 = (Ok y, d'))"
  by (auto simp: fthen_def split: prod.splits result.splits)

lemma failing_Ok_iff [simp]: "failing msg m e d = (Ok x, d') \<longleftrightarrow> m e d = (Ok x, d')"
  by (auto simp: failing_def on_error_def split: prod.splits result.splits)

lemma mkdir_elems_files: "file_at (snd (mkdir_elems cur xs t)) q = file_at t q"
proof (induction cur xs t rule: mkdir_elems.induct)
  case (2 cur x xs t)
  show ?case
  proof (cases "x \<in> {[], ''.'', ''..''} \<or> NUL \<in> set x \<or> (\<forall>err. resolve t (cur @ [x]) \<noteq> Err err)
      \<or> \<not> folder_at t cur")
    case False
    then obtain err where "resolve t (cur @ [x]) = Err err" by blast
    with 2(4) [OF _ _ _ this] False show ?thesis
      by (simp add: file_at_put_folder)
  qed (use 2(1-3) in \<open>auto split: result.splits node.splits\<close>)
qed (auto split: result.splits node.splits)

lemma MkdirAll_files: "os_MkdirAll p e d = (r, d') \<Longrightarrow> files d' = files d"
  unfolding os_MkdirAll_def
  by (erule os_call_cases) (auto simp: files_def fun_eq_iff mkdir_elems_files split: if_splits
      dest!: arg_cong [where f = snd], metis mkdir_elems_files snd_conv)

lemma folder_parent: "folder_at t p \<Longrightarrow> p \<noteq> [] \<Longrightarrow> folder_at t (butlast p)"
  by (auto simp: folder_at_iff dest: resolve_parent)

lemma Create_files:
  assumes "os_Create p e d = (r, d')"
  shows "(\<exists>q. locate e p = Ok q \<and> r = Ok q \<and> q \<noteq> [] \<and> folder_at (dk_root d') (butlast q)
            \<and> \<not> folder_at (dk_root d') q \<and> files d' = (files d)(q \<mapsto> []))
         \<or> (\<exists>err. r = Err err \<and> dk_root d' = dk_root d)"
  using assms unfolding os_Create_def
proof (cases rule: os_call_cases)
  case acts
  let ?t = "dk_root d"
  have made: ?thesis
    if q: "locate e p = Ok q" "q \<noteq> []" "folder_at ?t (butlast q)" "\<not> folder_at ?t q"
      and r: "r = Ok q" "dk_root d' = put_node ?t q (File [] (os_clock e (dk_calls d)))" for q
  proof -
    have "resolve (dk_root d') q = Ok (File [] (os_clock e (dk_calls d)))"
      using put_here [OF q(2,3), of _ "[]"] r(2) by simp
    then have "folder_at (dk_root d') (butlast q)" "\<not> folder_at (dk_root d') q"
      using resolve_parent q(2) by (auto simp: folder_at_def)
    moreover have "files d' = (files d)(q \<mapsto> [])"
      using file_at_put_file [OF q(2-4)] r(2) by (auto simp: files_def)
    ultimately show ?thesis using q r by blast
  qed
  show ?thesis
  proof (cases "locate e p")
    case (Ok q)
    show ?thesis
    proof (cases "q = []")
      case False
      show ?thesis
      proof (cases "resolve ?t q")
        case (Ok x)
        then show ?thesis
        proof (cases x)
          case (File c m)
          with Ok have "folder_at ?t (butlast q)" "\<not> folder_at ?t q"
            using resolve_parent [OF Ok False] by (auto simp: folder_at_def)
          then show ?thesis using acts Ok File \<open>locate e p = Ok q\<close> False by (intro made) auto
        qed (use acts \<open>locate e p = Ok q\<close> False in auto)
      next
        case (Err err)
        then have "\<not> folder_at ?t q" by (simp add: folder_at_def)
        then show ?thesis
          using acts Err \<open>locate e p = Ok q\<close> False made by (auto split: if_splits)
      qed simp
    qed (use acts Ok in auto)
  qed (use acts in \<open>auto simp: locate_def split: if_splits\<close>)
qed (auto simp: no_effect_def)

text \<open>Writing to a file that has just been created.\<close>

lemma Copy_files:
  assumes "io_Copy h src e d = (r, d')"
    and "h \<noteq> []" "folder_at (dk_root d) (butlast h)" "\<not> folder_at (dk_root d) h" "files d h = Some []"
  shows "\<exists>bs. files d' = (files d)(h \<mapsto> bs)
    \<and> (r = Ok (int (length bs)) \<and> rd_error (src (dk_root d)) = None \<and> bs = rd_bytes (src (dk_root d))
       \<or> (\<exists>err. r = Err err))"
proof -
  have put: "file_at (write_bytes h bs now (dk_root d)) = (files d)(h \<mapsto> bs)" for bs now
    using file_at_put_file [OF assms(2-4)] assms(5) by (auto simp: write_bytes_def files_def)
  have written: "files d' = (files d)(h \<mapsto> bs)"
    if "dk_root d' = write_bytes h bs now (dk_root d)" for bs now
    using that put by (simp add: files_def [of d'])
  from assms(1) show ?thesis unfolding io_Copy_def
  proof (cases rule: os_call_cases)
    case fault
    then show ?thesis using written by blast
  next
    case acts
    then have "dk_root d' = write_bytes h (rd_bytes (src (dk_root d))) (os_clock e (dk_calls d)) (dk_root d)"
      by (simp add: Let_def)
    from written [OF this] acts show ?thesis by (auto simp: Let_def split: option.splits)
  qed
qed

lemma Open_files:
  assumes "os_Open p e d = (r, d')"
  shows "dk_root d' = dk_root d" and "r = Ok q \<Longrightarrow> locate e p = Ok q \<and> (\<exists>x. resolve (dk_root d) q = Ok x)"
  using assms unfolding os_Open_def
  by (auto elim!: os_call_cases simp: no_effect_def split: result.splits)

lemma reads_files:
  "file_Stat h e d = (r, d') \<Longrightarrow> dk_root d' = dk_root d"
  "os_Stat p e d = (r', d') \<Longrightarrow> dk_root d' = dk_root d"
  unfolding file_Stat_def os_Stat_def
  by (auto elim!: os_call_cases simp: no_effect_def)

lemma Remove_files:
  assumes "os_Remove p e d = (r, d')"
  shows "(\<exists>q. locate e p = Ok q \<and> r = Ok () \<and> files d' = (files d)(q := None))
         \<or> (\<exists>err. r = Err err \<and> dk_root d' = dk_root d
              \<and> (os_IsNotExist err \<longrightarrow> p = [] \<or> (\<exists>q. locate e p = Ok q \<and> files d q = None)))"
  using assms unfolding os_Remove_def
proof (cases rule: os_call_cases)
  case acts
  let ?t = "dk_root d"
  show ?thesis
  proof (cases "locate e p")
    case (Ok q)
    show ?thesis
    proof (cases "q = []")
      case False
      show ?thesis
      proof (cases "resolve ?t q")
        case (Ok x)
        show ?thesis
        proof (cases "\<exists>c cs. x = Folder (c # cs)")
          case True
          then show ?thesis using acts Ok \<open>locate e p = Ok q\<close> False by auto
        next
          case other: False
          then have "dk_root d' = drop_node ?t q" "r = Ok ()"
            using acts Ok \<open>locate e p = Ok q\<close> False by (cases x; auto split: list.splits)+
          moreover have "\<not> folder_at ?t q \<or> resolve ?t q = Ok (Folder [])"
          proof (cases x)
            case (Folder es)
            with Ok other show ?thesis by (cases es) auto
          qed (use Ok in \<open>simp add: folder_at_def\<close>)
          ultimately show ?thesis
            using file_at_drop [OF False] \<open>locate e p = Ok q\<close> by (auto simp: files_def fun_eq_iff)
        qed
      next
        case (Err err)
        then show ?thesis
          using acts \<open>locate e p = Ok q\<close> False by (auto simp: files_def file_at_def)
      qed simp
    qed (use acts Ok in auto)
  qed (use acts in \<open>auto simp: locate_def split: if_splits\<close>)
qed (auto simp: no_effect_def)

section \<open>The operations\<close>

definition key_place :: "os_env \<Rightarrow> local_storage \<Rightarrow> string \<Rightarrow> string list" where
  "key_place e s key = place (os_cwd e) (full_path s key)"

lemma locate_Ok: "locate e p = Ok q \<Longrightarrow> q = place (os_cwd e) p"
  by (simp add: locate_def split: if_splits)

text \<open>Making a file for a key and copying into it, the common end of \<open>Upload\<close> and \<open>Copy\<close>.\<close>

lemma create_and_copy:
  assumes c: "os_Create (full_path s key) e d = (Ok h, d1)" and w: "io_Copy h src e d1 = (r, d2)"
  shows "h = key_place e s key"
    and "\<exists>bs. files d2 = (files d)(key_place e s key \<mapsto> bs)
      \<and> (r = Ok (int (length bs)) \<and> rd_error (src (dk_root d1)) = None \<and> bs = rd_bytes (src (dk_root d1))
         \<or> (\<exists>err. r = Err err))"
    and "files d1 = (files d)(key_place e s key \<mapsto> [])"
proof -
  from Create_files [OF c] have q: "locate e (full_path s key) = Ok h" "h \<noteq> []"
      "folder_at (dk_root d1) (butlast h)" "\<not> folder_at (dk_root d1) h" "files d1 = (files d)(h \<mapsto> [])"
    by auto
  from locate_Ok [OF q(1)] show h: "h = key_place e s key" by (simp add: key_place_def)
  with q(5) show "files d1 = (files d)(key_place e s key \<mapsto> [])" by simp
  from Copy_files [OF w q(2-4)] q(5) h
  show "\<exists>bs. files d2 = (files d)(key_place e s key \<mapsto> bs)
      \<and> (r = Ok (int (length bs)) \<and> rd_error (src (dk_root d1)) = None \<and> bs = rd_bytes (src (dk_root d1))
         \<or> (\<exists>err. r = Err err))" by simp
qed

lemma time_Now_files: "time_Now e d = (r, d') \<Longrightarrow> files d' = files d"
  by (auto simp: time_Now_def files_def)

lemma Local_Upload_Ok:
  assumes "Local_Upload s key rd opts e d = (Ok m, d')"
  shows "files d' = (files d)(key_place e s key \<mapsto> rd_bytes rd)" and "rd_error rd = None"
    and "fm_key m = key" and "fm_size m = int (length (rd_bytes rd))"
proof -
  from assms obtain d1 h d2 n d3 now where mk: "os_MkdirAll (filepath_Dir (full_path s key)) e d = (Ok (), d1)"
    and c: "os_Create (full_path s key) e d1 = (Ok h, d2)" and w: "io_Copy h (\<lambda>t. rd) e d2 = (Ok n, d3)"
    and now: "time_Now e d3 = (Ok now, d')" and m: "fm_key m = key" "fm_size m = n"
    by (auto simp: Local_Upload_def Let_def fthen_Ok_iff fret_def)
  from create_and_copy(2) [OF c w] MkdirAll_files [OF mk] time_Now_files [OF now] m
  show "files d' = (files d)(key_place e s key \<mapsto> rd_bytes rd)" and "rd_error rd = None"
    and "fm_key m = key" and "fm_size m = int (length (rd_bytes rd))"
    by auto
qed

lemma Local_Copy_Ok:
  assumes "Local_Copy s a b e d = (Ok m, d')"
  shows "files d' = (files d)(key_place e s b \<mapsto>
      (if key_place e s a = key_place e s b then [] else the (files d (key_place e s a))))"
    and "key_place e s a \<noteq> key_place e s b \<Longrightarrow> files d (key_place e s a) \<noteq> None"
    and "key_place e s a = key_place e s b \<Longrightarrow> fm_size m = 0"
proof -
  from assms obtain d1 g d2 h d3 n d4 now
    where mk: "os_MkdirAll (filepath_Dir (full_path s b)) e d = (Ok (), d1)"
    and o: "os_Open (full_path s a) e d1 = (Ok g, d2)"
    and c: "os_Create (full_path s b) e d2 = (Ok h, d3)" and w: "io_Copy h (opened g) e d3 = (Ok n, d4)"
    and now: "time_Now e d4 = (Ok now, d')" and m: "fm_size m = n"
    by (auto simp: Local_Copy_def Let_def fthen_Ok_iff fret_def)
  have g: "g = key_place e s a" using Open_files(2) [OF o refl] locate_Ok by (auto simp: key_place_def)
  have d2: "files d2 = files d" using Open_files(1) [OF o] MkdirAll_files [OF mk] by (simp add: files_def)
  have d3: "files d3 = (files d)(key_place e s b \<mapsto> [])" using create_and_copy(3) [OF c w] d2 by simp
  have r: "rd_error (opened g (dk_root d3)) = None \<Longrightarrow> files d3 g = Some (rd_bytes (opened g (dk_root d3)))"
    by (auto simp: opened_def files_def file_at_def split: result.splits node.splits)
  from create_and_copy(2) [OF c w] d2 time_Now_files [OF now]
  have *: "files d' = (files d)(key_place e s b \<mapsto> rd_bytes (opened g (dk_root d3)))"
    "rd_error (opened g (dk_root d3)) = None" "n = int (length (rd_bytes (opened g (dk_root d3))))"
    by auto
  show "files d' = (files d)(key_place e s b \<mapsto>
      (if key_place e s a = key_place e s b then [] else the (files d (key_place e s a))))"
    and "key_place e s a \<noteq> key_place e s b \<Longrightarrow> files d (key_place e s a) \<noteq> None"
    and "key_place e s a = key_place e s b \<Longrightarrow> fm_size m = 0"
    using * r [OF *(2)] d3 g m by (auto split: if_splits)
qed

lemma Local_Delete_Ok:
  assumes "Local_Delete s key e d = (Ok (), d')" "ls_base_path s \<noteq> []"
  shows "files d' = (files d)(key_place e s key := None)"
proof -
  obtain r where r: "os_Remove (full_path s key) e d = (r, d')"
    using assms(1) by (auto simp: Local_Delete_def on_error_def split: prod.splits result.splits)
  have "full_path s key \<noteq> []"
    using assms(2) by (simp add: full_path_def filepath_Join_def)
  with Remove_files [OF r] show ?thesis
    using assms(1) r by (auto simp: Local_Delete_def on_error_def key_place_def files_def [of d']
        files_def [of d] fun_upd_idem dest!: locate_Ok split: if_splits)
qed

lemma Local_Download_Ok:
  assumes "Local_Download s key e d = (Ok (rd, m), d')"
  shows "dk_root d' = dk_root d" and "rd = opened (key_place e s key) (dk_root d)"
    and "rd_error rd = None \<longleftrightarrow> files d (key_place e s key) = Some (rd_bytes rd)"
proof -
  from assms obtain h d1 i where o: "os_Open (full_path s key) e d = (Ok h, d1)"
    and st: "file_Stat h e d1 = (Ok i, d')" and rd: "rd = opened h (dk_root d')"
    by (auto simp: Local_Download_def fthen_Ok_iff on_error_def split: prod.splits result.splits if_splits)
  then show d: "dk_root d' = dk_root d" using Open_files(1) [OF o] reads_files(1) [OF st] by simp
  have "h = key_place e s key" using Open_files(2) [OF o refl] locate_Ok by (auto simp: key_place_def)
  with rd d show r: "rd = opened (key_place e s key) (dk_root d)" by simp
  show "rd_error rd = None \<longleftrightarrow> files d (key_place e s key) = Some (rd_bytes rd)"
    unfolding r by (auto simp: opened_def files_def file_at_def split: result.splits node.splits)
qed

end
