(* ===== verification/FileStore.thy ===== *)
theory FileStore
  imports LocalFlows TaskFlows
begin

text \<open>
  The contract of the file storage port, and that both adapters keep it: successful operations act on
  a map from places to contents.  The local storage breaks it where a file is copied onto itself.
  Then: uploads of attachments stay below the base directory, and what \<open>List\<close> returns.
\<close>

section \<open>The contract\<close>

datatype store_op = Put string string | Drop string | CopyTo string string

fun store_spec :: "(string \<Rightarrow> 'k) \<Rightarrow> store_op \<Rightarrow> ('k \<rightharpoonup> string) \<Rightarrow> ('k \<rightharpoonup> string)" where
  "store_spec pl (Put k c) m = m(pl k \<mapsto> c)"
| "store_spec pl (Drop k) m = m(pl k := None)"
| "store_spec pl (CopyTo a b) m = m(pl b := m (pl a))"

fun self_copy :: "(string \<Rightarrow> 'k) \<Rightarrow> store_op \<Rightarrow> bool" where
  "self_copy pl (CopyTo a b) = (pl a = pl b)"
| "self_copy pl _ = False"

fun target :: "store_op \<Rightarrow> string" where
  "target (Put k c) = k"
| "target (Drop k) = k"
| "target (CopyTo a b) = b"

text \<open>A run of operations that all return normally.\<close>

fun run_store :: "(store_op \<Rightarrow> 'w \<Rightarrow> 'w option) \<Rightarrow> store_op list \<Rightarrow> 'w \<Rightarrow> 'w option" where
  "run_store step [] w = Some w"
| "run_store step (op # ops) w =
     (case step op w of None \<Rightarrow> None | Some w' \<Rightarrow> run_store step ops w')"

lemma store_spec_frame: "pl (target op) \<noteq> q \<Longrightarrow> store_spec pl op m q = m q"
  by (cases op) auto

locale file_store =
  fixes step :: "store_op \<Rightarrow> 'w \<Rightarrow> 'w option"
    and pl :: "string \<Rightarrow> 'k"
    and contents :: "'w \<Rightarrow> 'k \<Rightarrow> string option"
    and get :: "string \<Rightarrow> 'w \<Rightarrow> string option"
  assumes step_put: "step (Put k c) w = Some w' \<Longrightarrow> contents w' = (contents w)(pl k \<mapsto> c)"
    and step_drop: "step (Drop k) w = Some w' \<Longrightarrow> contents w' = (contents w)(pl k := None)"
    and step_copy: "step (CopyTo a b) w = Some w' \<Longrightarrow> pl a \<noteq> pl b \<Longrightarrow>
          contents w' = (contents w)(pl b := contents w (pl a))"
    and get_content: "get k w = Some c \<Longrightarrow> contents w (pl k) = Some c"
begin

lemma step_refines:
  "step op w = Some w' \<Longrightarrow> \<not> self_copy pl op \<Longrightarrow> contents w' = store_spec pl op (contents w)"
  by (cases op) (simp_all add: step_put step_drop step_copy)

lemma run_refines:
  "run_store step ops w = Some w' \<Longrightarrow> \<forall>op\<in>set ops. \<not> self_copy pl op \<Longrightarrow>
     contents w' = fold (store_spec pl) ops (contents w)"
proof (induction ops arbitrary: w)
  case (Cons op ops)
  then obtain w1 where "step op w = Some w1" "run_store step ops w1 = Some w'"
    by (auto split: option.splits)
  with Cons step_refines [of op w w1] show ?case by simp
qed simp

lemma last_write_read:
  assumes "run_store step (Put k c # ops) w = Some w'"
    and "\<forall>op\<in>set ops. \<not> self_copy pl op \<and> pl (target op) \<noteq> pl k" and "get k w' = Some c'"
  shows "c' = c"
proof -
  have "fold (store_spec pl) ops m (pl k) = m (pl k)" for m
    using assms(2) by (induction ops arbitrary: m) (simp_all add: store_spec_frame)
  then have "contents w' (pl k) = Some c" using run_refines [OF assms(1)] assms(2) by simp
  with get_content [OF assms(3)] show ?thesis by simp
qed

end

text \<open>A store in which copying onto itself changes nothing refines the map without exception.\<close>

locale exact_file_store = file_store +
  assumes step_self_copy: "step (CopyTo a b) w = Some w' \<Longrightarrow> pl a = pl b \<Longrightarrow> contents w' = contents w"
begin

lemma exact_refines:
  "run_store step ops w = Some w' \<Longrightarrow> contents w' = fold (store_spec pl) ops (contents w)"
proof (induction ops arbitrary: w)
  case (Cons op ops)
  then obtain w1 where s: "step op w = Some w1" and r: "run_store step ops w1 = Some w'"
    by (auto split: option.splits)
  have "contents w1 = store_spec pl op (contents w)"
  proof (cases "self_copy pl op")
    case True
    then obtain a b where ab: "op = CopyTo a b" "pl a = pl b" by (cases op) auto
    with s have "contents w1 = contents w" by (simp add: step_self_copy)
    with ab show ?thesis by (simp add: fun_upd_idem)
  qed (rule step_refines [OF s])
  with Cons.IH [OF r] show ?case by simp
qed simp

end

section \<open>The adapters\<close>

definition returned :: "'a result \<times> 'w \<Rightarrow> 'w option" where
  "returned rw = (case rw of (Ok x, w) \<Rightarrow> Some w | _ \<Rightarrow> None)"

lemma returned_Some [simp]: "returned rw = Some w \<longleftrightarrow> (\<exists>x. rw = (Ok x, w))"
  by (auto simp: returned_def split: prod.splits result.splits)

text \<open>A storage without a base path is not constructed.\<close>

definition local_step :: "os_env \<Rightarrow> local_storage \<Rightarrow> store_op \<Rightarrow> disk \<Rightarrow> disk option" where
  "local_step e s op d =
     (if ls_base_path s = [] then None
      else case op of
          Put k c \<Rightarrow> returned (Local_Upload s k \<lparr>rd_bytes = c, rd_error = None\<rparr>
                                \<lparr>uo_content_type = [], uo_metadata = []\<rparr> e d)
        | Drop k \<Rightarrow> returned (Local_Delete s k e d)
        | CopyTo a b \<Rightarrow> returned (Local_Copy s a b e d))"

definition local_get :: "os_env \<Rightarrow> local_storage \<Rightarrow> string \<Rightarrow> disk \<Rightarrow> string option" where
  "local_get e s k d =
     (case Local_Download s k e d of
        (Ok (rd, m), d') \<Rightarrow> if rd_error rd = None then Some (rd_bytes rd) else None
      | _ \<Rightarrow> None)"

definition s3_step :: "env \<Rightarrow> store_op \<Rightarrow> world \<Rightarrow> world option" where
  "s3_step e op w =
     (case op of
        Put k c \<Rightarrow> returned (Storage_Upload k c e w)
      | Drop k \<Rightarrow> returned (Storage_Delete k e w)
      | CopyTo a b \<Rightarrow> returned (Storage_Copy a b e w))"

definition s3_get :: "env \<Rightarrow> string \<Rightarrow> world \<Rightarrow> string option" where
  "s3_get e k w = (case Storage_Download k e w of (Ok c, w') \<Rightarrow> Some c | _ \<Rightarrow> None)"

interpretation local_files: file_store "local_step e s" "key_place e s" files "local_get e s"
  for e s
proof
  fix k c d d'
  show "local_step e s (Put k c) d = Some d' \<Longrightarrow> files d' = (files d)(key_place e s k \<mapsto> c)"
    by (auto simp: local_step_def dest!: Local_Upload_Ok(1) split: if_splits)
  show "local_step e s (Drop k) d = Some d' \<Longrightarrow> files d' = (files d)(key_place e s k := None)"
    by (auto simp: local_step_def dest!: Local_Delete_Ok split: if_splits)
  show "local_get e s k d = Some c \<Longrightarrow> files d (key_place e s k) = Some c"
    by (auto simp: local_get_def dest!: Local_Download_Ok(3) split: prod.splits result.splits if_splits)
next
  fix a b d d'
  assume "local_step e s (CopyTo a b) d = Some d'" and ab: "key_place e s a \<noteq> key_place e s b"
  then obtain m where m: "Local_Copy s a b e d = (Ok m, d')" by (auto simp: local_step_def split: if_splits)
  from Local_Copy_Ok(2) [OF m ab] obtain c where "files d (key_place e s a) = Some c" by auto
  with Local_Copy_Ok(1) [OF m] ab
  show "files d' = (files d)(key_place e s b := files d (key_place e s a))" by simp
qed

lemma GetMetadata_Ok: "Storage_GetMetadata k e w = (Ok m, w') \<Longrightarrow> w_blobs w' = w_blobs w"
  by (auto simp: Storage_GetMetadata_def tick_def dest!: storage_call_Ok split: option.splits)

interpretation s3_objects: exact_file_store "s3_step e" id w_blobs "s3_get e"
  for e
proof
  fix k c and w w' :: world
  show "s3_step e (Put k c) w = Some w' \<Longrightarrow> w_blobs w' = (w_blobs w)(id k \<mapsto> c)"
    by (auto simp: s3_step_def Storage_Upload_def andthen_Ok_iff tick_def dest!: GetMetadata_Ok storage_call_Ok)
  show "s3_step e (Drop k) w = Some w' \<Longrightarrow> w_blobs w' = (w_blobs w)(id k := None)"
    by (auto simp: s3_step_def Storage_Delete_def tick_def dest!: storage_call_Ok)
  show "s3_get e k w = Some c \<Longrightarrow> w_blobs w (id k) = Some c"
    by (auto simp: s3_get_def Storage_Download_def tick_def dest!: storage_call_Ok
        split: prod.splits result.splits option.splits)
next
  fix a b and w w' :: world
  assume "s3_step e (CopyTo a b) w = Some w'"
  then have *: "w_blobs w' = (w_blobs w)(b := w_blobs w a)"
    by (auto simp: s3_step_def Storage_Copy_def andthen_Ok_iff tick_def dest!: GetMetadata_Ok storage_call_Ok
        split: option.splits)
  then show "w_blobs w' = (w_blobs w)(id b := w_blobs w (id a))" by simp
  from * show "id a = id b \<Longrightarrow> w_blobs w' = w_blobs w" by (simp add: fun_upd_idem)
qed


text \<open>
  What is read back from either storage is what was last written there.
\<close>

theorem storages_return_last_write:
  "(run_store (local_step e s) (Put k c # ops) d = Some d' \<and> local_get e s k d' = Some c'
      \<and> (\<forall>op\<in>set ops. \<not> self_copy (key_place e s) op \<and> key_place e s (target op) \<noteq> key_place e s k)
      \<longrightarrow> c' = c)
   \<and> (run_store (s3_step e') (Put k c # ops) w = Some w' \<and> s3_get e' k w' = Some c'
      \<and> (\<forall>op\<in>set ops. \<not> self_copy id op \<and> id (target op) \<noteq> id k) \<longrightarrow> c' = c)"
  using local_files.last_write_read s3_objects.last_write_read by meson

text \<open>
  Copying a file of the local storage onto itself, under the same or another spelling of its key,
  reports success and leaves the file empty; the S3 adapter leaves it alone.
\<close>

theorem copy_onto_itself_empties:
  "(Local_Copy s a b e d = (Ok m, d') \<and> key_place e s a = key_place e s b
      \<longrightarrow> fm_size m = 0 \<and> files d' = (files d)(key_place e s a \<mapsto> []))
   \<and> (Storage_Copy k k e' w = (Ok m', w') \<longrightarrow> w_blobs w' = w_blobs w)"
proof -
  have "w_blobs w' = w_blobs w" if "Storage_Copy k k e' w = (Ok m', w')"
    using s3_objects.exact_refines [of e' "[CopyTo k k]" w w'] that by (simp add: s3_step_def returned_def fun_upd_idem)
  then show ?thesis using Local_Copy_Ok [of s a b e d m d'] by auto
qed

section \<open>Attachments stay below the base directory\<close>

lemma key_place_names:
  assumes "ls_base_path s \<noteq> []" "\<forall>x\<in>set (split_on slash key). x \<noteq> ''..''"
  shows "key_place e s key = place (os_cwd e) (ls_base_path s) @
    filter (\<lambda>x. x \<noteq> [] \<and> x \<noteq> ''.'') (split_on slash key)"
  using assms by (simp add: key_place_def full_path_def place_Join clean_elems_names)

lemma path_Base_slash: "slash \<in> set (path_Base p) \<Longrightarrow> path_Base p = ''/''"
  by (auto simp: path_Base_def Let_def dest: set_takeWhileD split: if_splits)

lemma fthen_cases:
  assumes "fthen m f e d = (r, d')"
  obtains x d1 where "m e d = (Ok x, d1)" "f x e d1 = (r, d')" | r1 where "m e d = (r1, d')" "\<forall>x. r1 \<noteq> Ok x"
  using assms by (auto simp: fthen_def split: prod.splits result.splits)

lemma failing_world: "failing msg m e d = (r, d') \<Longrightarrow> \<exists>r1. m e d = (r1, d')"
  by (auto simp: failing_def on_error_def split: prod.splits result.splits)

lemma Local_Upload_frame:
  assumes "Local_Upload s key rd opts e d = (r, d')" "q \<noteq> key_place e s key"
  shows "files d' q = files d q"
  using assms(1) unfolding Local_Upload_def Let_def
proof (cases rule: fthen_cases)
  case (1 x d1)
  from 1(1) have d1: "files d1 = files d" using MkdirAll_files by (auto dest: failing_world)
  from 1(2) show ?thesis
  proof (cases rule: fthen_cases)
    case (1 h d2)
    then have c: "os_Create (full_path s key) e d1 = (Ok h, d2)" by simp
    from 1(2) show ?thesis
    proof (cases rule: fthen_cases)
      case (1 n d3)
      then have "io_Copy h (\<lambda>t. rd) e d2 = (Ok n, d3)" "files d' = files d3"
        by (auto simp: fthen_def fret_def time_Now_def files_def)
      then show ?thesis using create_and_copy(2) [OF c] d1 assms(2) by fastforce
    next
      case (2 r1)
      from failing_world [OF 2(1)] obtain r2 where "io_Copy h (\<lambda>t. rd) e d2 = (r2, d')" by blast
      then show ?thesis using create_and_copy(2) [OF c] d1 assms(2) by fastforce
    qed
  next
    case (2 r1)
    from failing_world [OF 2(1)] obtain r2 where c: "os_Create (full_path s key) e d1 = (r2, d')" by blast
    have "r2 \<noteq> Ok x" for x
    proof
      assume "r2 = Ok x"
      with c have "failing ''failed to create file'' (os_Create (full_path s key)) e d1 = (Ok x, d')" by simp
      with 2(1) have "r1 = Ok x" by simp
      with 2(2) show False by simp
    qed
    then show ?thesis using Create_files [OF c] d1 by (auto simp: files_def)
  qed
next
  case (2 r1)
  then show ?thesis using MkdirAll_files by (auto dest!: failing_world)
qed

text \<open>
  C13. Whatever name a client gives to an attachment, uploading it to the local storage under the key
  that \<open>UploadTaskAttachment\<close> builds changes no file outside the base directory, and none inside other
  than that of this very upload.
\<close>

theorem attachments_confined:
  assumes "ls_base_path s \<noteq> []" and "slash \<notin> set taskID" "slash \<notin> set n" and "taskID \<notin> {[], ''.'', ''..''}"
    and "sanitizeAttachmentFilename filename \<noteq> ''/''"
    and "Local_Upload s (FK_TaskAttachment ''attachments'' taskID
           (n @ ''-'' @ sanitizeAttachmentFilename filename)) rd opts e d = (r, d')"
    and "q \<noteq> place (os_cwd e) (ls_base_path s) @
           [''attachments'', ''tasks'', taskID, ''attachments'', n @ ''-'' @ sanitizeAttachmentFilename filename]"
  shows "files d' q = files d q"
proof (rule Local_Upload_frame [OF assms(6)])
  let ?f = "n @ ''-'' @ sanitizeAttachmentFilename filename"
  let ?key = "FK_TaskAttachment ''attachments'' taskID ?f"
  have "slash \<notin> set (sanitizeAttachmentFilename filename)"
    using assms(5) path_Base_slash by (auto simp: sanitizeAttachmentFilename_def)
  then have f: "slash \<notin> set ?f" using assms(3) by simp
  have "''attachments'' @ slash # ''tasks'' @ slash # taskID @ slash # ''attachments'' @ slash # ?f = ?key"
    by (simp add: FK_TaskAttachment_def)
  then have "split_on slash ?key = split_on slash (''attachments'' @ slash # ''tasks'' @ slash # taskID @ slash # ''attachments'' @ slash # ?f)"
    by (rule arg_cong [OF sym])
  also have "\<dots> = [''attachments'', ''tasks'', taskID, ''attachments'', ?f]"
    unfolding split_on_both using f assms(2) by (simp add: split_on_absent)
  finally have split: "split_on slash ?key = [''attachments'', ''tasks'', taskID, ''attachments'', ?f]" .
  have "x \<noteq> ''..''" "x \<noteq> ''.''" "x \<noteq> []" if "CHR ''-'' \<in> set x" for x using that by auto
  from this [of ?f] have "?f \<noteq> ''..''" "?f \<noteq> ''.''" "?f \<noteq> []" by simp_all
  with split assms(4) have "key_place e s ?key = place (os_cwd e) (ls_base_path s) @
      [''attachments'', ''tasks'', taskID, ''attachments'', ?f]"
    using key_place_names [OF assms(1), of ?key] by simp
  then show "q \<noteq> key_place e s ?key" using assms(7) by simp
qed

end
