(* ===== verification/LocalListing.thy ===== *)
theory LocalListing
  imports FileStore
begin

text \<open>
  What \<open>List\<close> of the local storage returns: the first files of the walk through the directory that
  the prefix is in, whatever the rest of the prefix is; and for the empty prefix, a directory too many.
\<close>

section \<open>The walk with a limit\<close>

text \<open>All files below a path, in the order of the walk, under their keys.\<close>

fun listed :: "local_storage \<Rightarrow> (node \<Rightarrow> file_info) \<Rightarrow> string \<Rightarrow> node \<Rightarrow> local_metadata list"
  and listed_names ::
    "local_storage \<Rightarrow> (node \<Rightarrow> file_info) \<Rightarrow> string \<Rightarrow> (string \<times> node) list \<Rightarrow> local_metadata list"
  where
  "listed s info path (File c m) =
     (case filepath_Rel (ls_base_path s) path of
        None \<Rightarrow> []
      | Some key \<Rightarrow> [\<lparr>fm_key = key, fm_content_type = [], fm_size = fi_size (info (File c m)),
                      lm_modified = fi_time (info (File c m)), lm_metadata = []\<rparr>])"
| "listed s info path (Folder es) = listed_names s info path es"
| "listed_names s info path [] = []"
| "listed_names s info path ((n, t) # es) =
     listed s info (filepath_Join path n) t @ listed_names s info path es"

definition room :: "int \<Rightarrow> listing \<Rightarrow> nat" where
  "room maxKeys acc = nat (maxKeys - li_count acc)"

definition extended :: "listing \<Rightarrow> local_metadata list \<Rightarrow> listing" where
  "extended acc fs = \<lparr>li_files = li_files acc @ fs, li_count = li_count acc + int (length fs)\<rparr>"

lemma extended_simps [simp]:
  "extended acc [] = acc" "extended (extended acc fs) gs = extended acc (fs @ gs)"
  "room mk (extended acc fs) = room mk acc - length fs"
  by (simp_all add: extended_def room_def nat_diff_distrib')

definition visit :: "local_storage \<Rightarrow> int \<Rightarrow> (node \<Rightarrow> file_info) \<Rightarrow> string \<Rightarrow> node \<Rightarrow> listing \<Rightarrow> walk_end \<times> listing" where
  "visit s mk info path x = list_visit s mk path (info x)"

lemma visit_file:
  assumes "\<And>x. fi_dir (info x) = is_folder x"
  shows "visit s mk info path (File c m) acc =
    (if room mk acc = 0 then SkipDir else Walk_on,
     extended acc (take (room mk acc) (listed s info path (File c m))))"
  using assms by (auto simp: visit_def list_visit_def room_def extended_def take_Cons' split: option.splits)

lemma visit_folder:
  assumes "\<And>x. fi_dir (info x) = is_folder x"
  shows "visit s mk info path (Folder es) acc = (if room mk acc = 0 then SkipDir else Walk_on, acc)"
  using assms by (auto simp: visit_def list_visit_def room_def)

text \<open>\<open>SkipDir\<close> is answered only when the limit is reached, so what it skips would not be taken.\<close>

lemma walk_takes:
  assumes info: "\<And>x. fi_dir (info x) = is_folder x"
  shows "\<exists>c. walk (visit s mk info) path t acc = (c, extended acc (take (room mk acc) (listed s info path t)))
      \<and> (c = SkipDir \<longrightarrow> room mk acc \<le> length (listed s info path t))"
    and "\<exists>c. walk_names (visit s mk info) path es acc =
          (c, extended acc (take (room mk acc) (listed_names s info path es)))
      \<and> (c = SkipDir \<longrightarrow> room mk acc \<le> length (listed_names s info path es))"
proof (induction "visit s mk info" path t acc and "visit s mk info" path es acc
    rule: walk_walk_names.induct)
  case (1 path c m acc)
  then show ?case by (simp add: visit_file [OF info])
next
  case (2 path es acc)
  then show ?case by (cases "room mk acc = 0") (simp_all add: visit_folder [OF info])
next
  case (4 path n t es acc)
  let ?l = "listed s info (filepath_Join path n) t"
  from 4(1) obtain c where c: "walk (visit s mk info) (filepath_Join path n) t acc =
      (c, extended acc (take (room mk acc) ?l))" "c = SkipDir \<longrightarrow> room mk acc \<le> length ?l" by blast
  show ?case
  proof (cases c)
    case Walk_on
    from 4(2) [OF c(1) [symmetric] Walk_on] c Walk_on show ?thesis
      by (cases "length ?l \<le> room mk acc") auto
  next
    case SkipDir
    show ?thesis
    proof (cases "is_folder t")
      case True
      from 4(3) [OF c(1) [symmetric] SkipDir True] c SkipDir True show ?thesis
        by (cases "length ?l \<le> room mk acc") auto
    next
      case False
      with c SkipDir show ?thesis by auto
    qed
  qed
qed simp

section \<open>The result of List\<close>

lemma node_info_folder: "fi_dir (node_info e n x) = is_folder x"
  by (cases x) (simp_all add: node_info_def)

definition list_dir :: "local_storage \<Rightarrow> string \<Rightarrow> string" where
  "list_dir s pre = filepath_Dir (full_path s pre)"

lemma Local_List_Ok:
  assumes "Local_List s pre mk e d = (Ok fs, d')"
  shows "\<exists>x. resolve (dk_root d) (place (os_cwd e) (list_dir s pre)) = Ok x \<and> dk_root d' = dk_root d
    \<and> fs = take (nat mk) (listed s (node_info e (dk_calls d)) (list_dir s pre) x)"
proof -
  let ?v = "visit s mk (node_info e (dk_calls d))" and ?a = "\<lparr>li_files = [], li_count = 0\<rparr>"
  from assms obtain acc where w: "filepath_Walk (list_dir s pre)
      (\<lambda>e n path x. list_visit s mk path (node_info e n x)) ?a e d = (Ok acc, d')"
    and fs: "fs = li_files acc"
    by (auto simp: Local_List_def Let_def fthen_Ok_iff fret_def list_dir_def)
  from w obtain q x where "locate e (list_dir s pre) = Ok q" and x: "resolve (dk_root d) q = Ok x"
    and acc: "acc = snd (walk (\<lambda>path x. list_visit s mk path (node_info e (dk_calls d) x)) (list_dir s pre) x ?a)"
    and d': "dk_root d' = dk_root d"
    unfolding filepath_Walk_def
  proof (cases rule: os_call_cases)
    case acts
    then have d': "dk_root d' = dk_root d" by simp
    from acts obtain q where q: "locate e (list_dir s pre) = Ok q"
      by (cases "locate e (list_dir s pre)") simp_all
    with acts obtain x where "resolve (dk_root d) q = Ok x"
      by (cases "resolve (dk_root d) q") simp_all
    with acts q d' show thesis by (intro that [of q x]) simp_all
  qed simp
  have v: "(\<lambda>path x. list_visit s mk path (node_info e (dk_calls d) x)) = ?v"
    by (simp add: visit_def fun_eq_iff)
  obtain c where "walk ?v (list_dir s pre) x ?a =
      (c, extended ?a (take (room mk ?a) (listed s (node_info e (dk_calls d)) (list_dir s pre) x)))"
    using walk_takes(1) [where info = "node_info e (dk_calls d)" and s = s and mk = mk and t = x
      and path = "list_dir s pre" and acc = ?a, OF node_info_folder] by blast
  then have "fs = take (nat mk) (listed s (node_info e (dk_calls d)) (list_dir s pre) x)"
    using fs acc v by (simp add: extended_def room_def)
  moreover have "q = place (os_cwd e) (list_dir s pre)"
    using \<open>locate e (list_dir s pre) = Ok q\<close> by (rule locate_Ok)
  ultimately show ?thesis using x d' by blast
qed

lemma os_call_run:
  "os_fault e (dk_calls d) = None \<Longrightarrow>
     os_call act partial e d = (case act e (dk_calls d) (dk_root d) of (r, t) \<Rightarrow> (r, \<lparr>dk_root = t, dk_calls = Suc (dk_calls d)\<rparr>))"
  by (simp add: os_call_def Let_def)

lemma split_on_chars: "x \<in> set (split_on c s) \<Longrightarrow> set x \<subseteq> set s"
proof (induction s arbitrary: x)
  case (Cons a s)
  then show ?case by (cases "split_on c s") (fastforce split: if_splits)+
qed simp

text \<open>On a working system listing succeeds as soon as the directory exists.\<close>

lemma Local_List_runs:
  assumes "os_fault e (dk_calls d) = None" "locate e (list_dir s pre) = Ok q" "resolve (dk_root d) q = Ok x"
  shows "\<exists>d'. Local_List s pre mk e d =
    (Ok (take (nat mk) (listed s (node_info e (dk_calls d)) (list_dir s pre) x)), d')"
proof -
  have "\<exists>fs d'. Local_List s pre mk e d = (Ok fs, d')"
    using assms by (simp add: Local_List_def Let_def list_dir_def fthen_def fret_def failing_def on_error_def
        filepath_Walk_def os_call_run)
  then obtain fs d' where run: "Local_List s pre mk e d = (Ok fs, d')" by blast
  with Local_List_Ok [OF run] assms(3) locate_Ok [OF assms(2)] show ?thesis by auto
qed

text \<open>
  C18. \<open>List\<close> returns the first \<open>maxKeys\<close> files of the walk through the directory of its prefix, with
  their keys and sizes, although its walk skips the rest of a directory as soon as it has enough, and
  changes nothing; on a working system it does so whenever the directory exists.
\<close>

theorem list_first_keys:
  "(Local_List s pre maxKeys e d = (Ok fs, d') \<longrightarrow>
      files d' = files d \<and> (\<exists>x. resolve (dk_root d) (place (os_cwd e) (list_dir s pre)) = Ok x
        \<and> fs = take (nat maxKeys) (listed s (node_info e (dk_calls d)) (list_dir s pre) x)))
   \<and> (os_fault e (dk_calls d) = None \<and> NUL \<notin> set (list_dir s pre)
        \<and> resolve (dk_root d) (place (os_cwd e) (list_dir s pre)) = Ok x \<longrightarrow>
      (\<exists>d'. Local_List s pre maxKeys e d =
         (Ok (take (nat maxKeys) (listed s (node_info e (dk_calls d)) (list_dir s pre) x)), d')))"
proof -
  have "list_dir s pre \<noteq> []" by (simp add: list_dir_def filepath_Dir_def filepath_Clean_nonempty)
  then show ?thesis using Local_List_Ok [of s pre maxKeys e d fs d'] Local_List_runs [of e d s pre _ x maxKeys]
    by (auto simp: files_def locate_def)
qed

section \<open>The empty prefix\<close>

lemma elements_slash:
  assumes "a \<noteq> []"
  shows "elements (a @ slash # b) = clean_elems (is_rooted a) (rev (elements a)) (split_on slash b)"
    and "is_rooted (a @ slash # b) = is_rooted a"
proof -
  show r: "is_rooted (a @ slash # b) = is_rooted a" using assms by (cases a) (simp_all add: is_rooted_def)
  show "elements (a @ slash # b) = clean_elems (is_rooted a) (rev (elements a)) (split_on slash b)"
    by (simp add: elements_def r split_on_both clean_elems_append)
qed

lemma Clean_slash: "a \<noteq> [] \<Longrightarrow> filepath_Clean (a @ [slash]) = filepath_Clean a"
  using elements_slash [of a "[]"] by (simp add: filepath_Clean_def clean_elems_def clean_step_def)

lemma Clean_text:
  assumes "\<forall>x\<in>set xs. plain x" "elements (path_text r xs) = xs"
  shows "filepath_Clean (path_text r xs) = path_text r xs"
  using assms by (simp add: filepath_Clean_def is_rooted_text)

lemma elements_text:
  assumes "\<forall>x\<in>set xs. plain x" "\<forall>x\<in>set xs. x \<noteq> ''..''"
  shows "elements (path_text r xs) = xs"
proof -
  have "filter (\<lambda>x. x \<noteq> [] \<and> x \<noteq> ''.'') xs = xs"
    using assms(1) by (auto simp: plain_def filter_id_conv)
  then show ?thesis
    using assms clean_text [OF assms(1), of r "[]" r]
    by (simp add: elements_def is_rooted_text clean_elems_names)
qed

lemma join_snoc: "xs \<noteq> [] \<Longrightarrow> join_with c (xs @ [b]) = join_with c xs @ c # b"
  by (induction c xs rule: join_with.induct) auto

lemma Dir_text:
  assumes "\<forall>x\<in>set (xs @ [b]). plain x" "\<forall>x\<in>set xs. x \<noteq> ''..''"
  shows "filepath_Dir (path_text r (xs @ [b])) = path_text r xs"
proof -
  have b: "slash \<notin> set b" using assms(1) by (simp add: plain_def)
  have upto: "rev (dropWhile (\<lambda>c. c \<noteq> slash) (rev (u @ slash # b))) = u @ [slash]" for u
  proof -
    have "\<And>c. c \<in> set (rev b) \<Longrightarrow> c \<noteq> slash" using b by auto
    from dropWhile_append2 [of "rev b" "\<lambda>c. c \<noteq> slash" "slash # rev u", OF this] show ?thesis by simp
  qed
  have none: "rev (dropWhile (\<lambda>c. c \<noteq> slash) (rev b)) = []" using b by auto
  show ?thesis
  proof (cases "xs = []")
    case True
    have "filepath_Dir (slash # b) = filepath_Clean [slash]" "filepath_Dir b = filepath_Clean []"
      using upto [of "[]"] none unfolding filepath_Dir_def by (simp_all only: append_Nil)
    moreover have "filepath_Clean [slash] = path_text True []" "filepath_Clean [] = path_text False []"
      by (simp_all add: path_text_def filepath_Clean_def elements_def is_rooted_def clean_elems_def clean_step_def)
    moreover have "path_text r (xs @ [b]) = (if r then slash # b else b)" using True by (simp add: path_text_def)
    ultimately show ?thesis using True by (cases r) simp_all
  next
    case False
    let ?p = "path_text r xs"
    have xs: "elements ?p = xs" using assms by (intro elements_text) auto
    then have p: "filepath_Clean ?p = ?p" using assms by (intro Clean_text) auto
    then have "?p \<noteq> []" using filepath_Clean_nonempty [of ?p] by simp
    from Clean_slash [OF this] p have "filepath_Clean (?p @ [slash]) = ?p" by simp
    moreover have "path_text r (xs @ [b]) = ?p @ slash # b"
      using False by (simp add: path_text_def join_snoc)
    ultimately show ?thesis using upto [of ?p] by (simp add: filepath_Dir_def)
  qed
qed

lemma listed_entry:
  "(n, t) \<in> set es \<Longrightarrow> set (listed s info (filepath_Join path n) t) \<subseteq> set (listed_names s info path es)"
  by (induction es) auto

lemma clean_elems_set: "set (clean_elems r ac xs) \<subseteq> insert ''..'' (set ac \<union> set xs)"
proof (induction xs arbitrary: ac)
  case (Cons x xs)
  have "set (clean_step r ac x) \<subseteq> insert ''..'' (set ac \<union> {x})"
    by (cases ac) (auto simp: clean_step_def)
  with Cons [of "clean_step r ac x"] show ?case by (auto simp: clean_elems_def)
qed (auto simp: clean_elems_def)

lemma path_text_chars:
  "set (path_text r xs) \<subseteq> {slash, CHR ''.''} \<union> (\<Union>x\<in>set xs. set x)"
proof -
  have "set (join_with slash xs) \<subseteq> insert slash (\<Union>x\<in>set xs. set x)"
    by (induction slash xs rule: join_with.induct) auto
  then show ?thesis by (auto simp: path_text_def)
qed

lemma elements_chars: "x \<in> set (elements p) \<Longrightarrow> set x \<subseteq> insert CHR ''.'' (set p)"
  using subsetD [OF clean_elems_set, of x "is_rooted p" "[]" "split_on slash p"] split_on_chars [of x slash p]
  by (auto simp: elements_def)

text \<open>
  With the empty prefix \<open>List\<close> walks the parent of the base directory: for a base path without
  \<open>..\<close> and on a working system it answers, as soon as the limit allows, with every file beside the base
  directory, under a key that begins with \<open>../\<close>.
\<close>

theorem empty_prefix_lists_parent:
  assumes "elements (ls_base_path s) = xs @ [b]" "\<forall>x\<in>set (xs @ [b]). x \<noteq> ''..''" "NUL \<notin> set (ls_base_path s)"
    and "plain n" "n \<noteq> ''..''" "n \<noteq> b" "os_fault e (dk_calls d) = None"
    and "files d (place (os_cwd e) (path_text (is_rooted (ls_base_path s)) xs) @ [n]) = Some c"
  shows "\<exists>N. \<forall>maxKeys\<ge>N. \<exists>fs d'. Local_List s [] maxKeys e d = (Ok fs, d') \<and> ''../'' @ n \<in> fm_key ` set fs"
proof -
  let ?b = "ls_base_path s" and ?r = "is_rooted (ls_base_path s)"
  let ?dir = "path_text ?r xs" and ?info = "node_info e (dk_calls d)"
  have plains: "\<forall>x\<in>set (xs @ [b]). plain x" using elements_plain [of ?b] assms(1) by simp
  have "?b \<noteq> []" using assms(1) by (auto simp: elements_def is_rooted_def clean_elems_def clean_step_def)
  then have "full_path s [] = path_text ?r (xs @ [b])"
    using assms(1) Clean_slash [of ?b] by (simp add: full_path_def filepath_Join_def filepath_Clean_def [of ?b])
  then have dir: "list_dir s [] = ?dir"
    using Dir_text [OF plains, of ?r] assms(2) by (simp add: list_dir_def)
  have x: "''../'' @ n \<in> fm_key ` set (listed s ?info ?dir x)"
    if "resolve (dk_root d) (place (os_cwd e) ?dir) = Ok x" for x
  proof -
    from assms(8) that have "file_at x [n] = Some c" by (simp add: files_def file_at_def resolve_append)
    then obtain es m where es: "x = Folder es" "map_of es n = Some (File c m)"
      by (cases x) (auto split: option.splits simp: file_at_def split: result.splits node.splits)
    then have "(n, File c m) \<in> set es" by (simp add: map_of_SomeD)
    then have "set (listed s ?info (filepath_Join ?dir n) (File c m)) \<subseteq> set (listed s ?info ?dir x)"
      unfolding es(1) listed.simps(2) by (rule listed_entry)
    moreover have "filepath_Rel ?b (filepath_Join ?dir n) = Some (''../'' @ n)"
    proof -
      have ns: "split_on slash n = [n]" using assms(4) by (simp add: plain_def split_on_absent)
      have "elements ?dir = xs" using plains assms(2) by (intro elements_text) auto
      moreover have "is_rooted ?dir = ?r" using plains by (intro is_rooted_text) auto
      moreover have "?dir \<noteq> []" using calculation plains filepath_Clean_nonempty [of ?dir] Clean_text [of xs ?r] by auto
      ultimately have "elements (filepath_Join ?dir n) = xs @ [n]" "is_rooted (filepath_Join ?dir n) = ?r"
        using elements_slash [of ?dir n] ns assms(4,5)
        by (simp_all add: filepath_Join_def clean_elems_def clean_step_def plain_def)
      moreover have "rel_elems (xs @ [b]) (xs @ [n]) = Some [''..'', n]" for xs
        using assms(2,6) by (induction xs) auto
      ultimately show ?thesis using assms(1) by (simp add: filepath_Rel_def path_text_def)
    qed
    ultimately show ?thesis by force
  qed
  from assms(8) obtain x0 where r: "resolve (dk_root d) (place (os_cwd e) ?dir) = Ok x0"
    by (auto simp: files_def file_at_def resolve_append split: result.splits)
  have "NUL \<notin> set ?dir"
  proof
    assume "NUL \<in> set ?dir"
    then obtain x where "x \<in> set (elements ?b)" "NUL \<in> set x"
      using path_text_chars [of ?r xs] assms(1) by (auto simp: NUL_def)
    then show False using elements_chars [of x ?b] assms(3) by (auto simp: NUL_def)
  qed
  moreover have "?dir \<noteq> []"
  proof (cases xs)
    case (Cons x ys)
    then show ?thesis using plains by (cases ys) (auto simp: path_text_def plain_def)
  qed (simp add: path_text_def)
  ultimately have "locate e (list_dir s []) = Ok (place (os_cwd e) ?dir)" by (simp add: dir locate_def)
  note run = Local_List_runs [OF assms(7) this r]
  have "\<exists>fs d'. Local_List s [] mk e d = (Ok fs, d') \<and> ''../'' @ n \<in> fm_key ` set fs"
    if "int (length (listed s ?info ?dir x0)) \<le> mk" for mk
    using run [of mk] x [OF r] that by (auto simp: dir)
  then show ?thesis by blast
qed

end
