(* ===== verification/LocalRoundTrip.thy ===== *)
theory LocalRoundTrip
  imports LocalListing
begin

text \<open>
  With a working system an upload to the local storage succeeds unless a file or a directory is in
  the way, and its download returns what was uploaded.
\<close>

definition names :: "string list \<Rightarrow> string list" where
  "names = filter (\<lambda>x. x \<noteq> [] \<and> x \<noteq> ''.'')"

lemma names_simps [simp]:
  "names [] = []" "names (x # xs) = (if x = [] \<or> x = ''.'' then names xs else x # names xs)"
  by (simp_all add: names_def)

lemma folder_at_put_folder:
  assumes "p \<noteq> []" "folder_at t (butlast p)"
  shows "folder_at (put_node t p (Folder [])) p"
    and "folder_at (put_node t p (Folder [])) q \<Longrightarrow> folder_at t q \<or> prefix p q"
proof -
  show "folder_at (put_node t p (Folder [])) p"
    using put_here [OF assms, of "Folder []" "[]"] by (simp add: folder_at_def)
  have "\<not> prefix p q \<Longrightarrow> folder_at (put_node t p x) q \<Longrightarrow> folder_at t q" for x
  proof (induction t p x arbitrary: q rule: put_node.induct)
    case (3 es n p x)
    then show ?case by (cases q) (auto split: option.splits if_splits)
  qed simp_all
  then show "folder_at (put_node t p (Folder [])) q \<Longrightarrow> folder_at t q \<or> prefix p q" by blast
qed

lemma put_folder_below:
  assumes "p \<noteq> []" "folder_at t (butlast p)" "folder_at (put_node t p (Folder [])) q" "prefix p q"
  shows "q = p"
proof -
  from assms(4) obtain r where q: "q = p @ r" by (auto simp: prefix_def)
  with assms(3) put_here [OF assms(1,2), of "Folder []" r] show ?thesis
    by (cases r) (simp_all add: folder_at_def)
qed

lemma mkdir_succeeds:
  assumes "folder_at t cur" "\<forall>x\<in>set xs. x \<noteq> ''..'' \<and> NUL \<notin> set x"
    and "\<forall>p. prefix p (cur @ names xs) \<longrightarrow> file_at t p = None"
  shows "\<exists>t'. mkdir_elems cur xs t = (Ok (), t') \<and> folder_at t' (cur @ names xs)
    \<and> (\<forall>p. folder_at t' p \<longrightarrow> folder_at t p \<or> prefix p (cur @ names xs))"
  using assms
proof (induction xs arbitrary: cur t)
  case Nil
  then show ?case by (auto simp: folder_at_iff)
next
  case (Cons x xs)
  show ?case
  proof (cases "x = [] \<or> x = ''.''")
    case True
    with Cons.prems Cons.IH [of t cur] show ?thesis by auto
  next
    case False
    let ?p = "cur @ [x]"
    have path: "cur @ names (x # xs) = ?p @ names xs" using False by simp
    show ?thesis
    proof (cases "resolve t ?p")
      case (Ok y)
      have "file_at t ?p = None" using Cons.prems(3) unfolding path by simp
      with Ok obtain es where y: "y = Folder es" by (cases y) (auto simp: file_at_def)
      with Ok have "folder_at t ?p" by (simp add: folder_at_def)
      with Cons.IH [of t ?p] Cons.prems(2,3) Ok y False show ?thesis unfolding path by simp
    next
      case (Err err)
      let ?t = "put_node t ?p (Folder [])"
      have at: "?p \<noteq> []" "folder_at t (butlast ?p)" using Cons.prems(1) by simp_all
      have "file_at ?t q = file_at t q" for q
        by (rule file_at_put_folder [OF at]) (simp add: Err)
      with Cons.IH [of ?t ?p] folder_at_put_folder(1) [OF at] Cons.prems(2,3) obtain t' where
        t': "mkdir_elems ?p xs ?t = (Ok (), t')" "folder_at t' (?p @ names xs)"
        "\<forall>q. folder_at t' q \<longrightarrow> folder_at ?t q \<or> prefix q (?p @ names xs)"
        unfolding path by auto
      have "folder_at t q \<or> prefix q (?p @ names xs)" if "folder_at t' q" for q
      proof -
        from t'(3) that consider "prefix q (?p @ names xs)" | "folder_at ?t q" by blast
        then show ?thesis
        proof cases
          case 2
          with folder_at_put_folder(2) [OF at 2] put_folder_below [OF at 2] show ?thesis by auto
        qed simp
      qed
      with t' Err False Cons.prems(1,2) show ?thesis unfolding path by simp
    qed simp
  qed
qed

lemma split_names:
  assumes "\<forall>x\<in>set xs. plain x"
  shows "names (split_on slash (path_text r xs)) = xs"
proof -
  have "names (split_on slash (path_text r xs)) = filter plain (split_on slash (path_text r xs))"
    unfolding names_def by (rule filter_cong) (auto simp: plain_def dest: split_on_part)
  then show ?thesis using split_text [OF assms] by simp
qed

section \<open>Uploads that succeed\<close>

lemma Create_succeeds:
  assumes "os_fault e (dk_calls d) = None" "locate e p = Ok q" "q \<noteq> []"
    and "folder_at (dk_root d) (butlast q)" "\<not> folder_at (dk_root d) q"
  shows "\<exists>d'. os_Create p e d = (Ok q, d')"
  using assms by (cases "resolve (dk_root d) q")
    (auto simp: os_Create_def os_call_run folder_at_def split: node.splits result.splits)

definition clear_way :: "os_env \<Rightarrow> local_storage \<Rightarrow> string \<Rightarrow> disk \<Rightarrow> bool" where
  "clear_way e s key d \<longleftrightarrow>
     NUL \<notin> set (full_path s key) \<and> names (split_on slash key) \<noteq> []
     \<and> (\<forall>x\<in>set (elements (ls_base_path s)) \<union> set (split_on slash key). x \<noteq> ''..'')
     \<and> folder_at (dk_root d) [] \<and> folder_at (dk_root d) (os_cwd e)
     \<and> (\<forall>p. strict_prefix p (key_place e s key) \<longrightarrow> files d p = None)
     \<and> \<not> folder_at (dk_root d) (key_place e s key)"

lemma Upload_succeeds:
  assumes base: "ls_base_path s \<noteq> []" and way: "clear_way e s key d" and ok: "\<forall>n. os_fault e n = None"
  shows "\<exists>m d'. Local_Upload s key \<lparr>rd_bytes = bs, rd_error = None\<rparr> opts e d = (Ok m, d')"
proof -
  let ?b = "ls_base_path s" and ?full = "full_path s key" and ?q = "key_place e s key"
  define r where "r = is_rooted ?b"
  define ns where "ns = elements ?b @ names (split_on slash key)"
  define start where "start = (if r then [] else os_cwd e)"
  have "elements (?b @ slash # key) = ns"
    using elements_slash(1) [OF base, of key] way by (simp add: clear_way_def ns_def clean_elems_names names_def)
  then have plains: "\<forall>x\<in>set ns. plain x" and full: "?full = path_text r ns"
    using elements_plain [of "?b @ slash # key"] base elements_slash(2) [OF base, of key]
    by (auto simp: full_path_def filepath_Join_def filepath_Clean_def r_def)
  have nodots: "\<forall>x\<in>set ns. x \<noteq> ''..''" using way by (auto simp: clear_way_def ns_def names_def)
  obtain xs b where xs: "ns = xs @ [b]" using way by (auto simp: clear_way_def ns_def names_def intro: that [OF append_butlast_last_id [symmetric]])
  have dir: "filepath_Dir ?full = path_text r xs"
    using plains nodots unfolding full xs by (intro Dir_text) auto
  have q: "?q = start @ ns"
  proof -
    have "?q = clean_elems True (rev start) ns"
      using clean_text [OF plains, of True _ r] plains
      by (simp add: key_place_def full place_def is_rooted_text start_def split del: if_split)
        (simp add: start_def)
    moreover have "names ns = ns" using plains by (auto simp: names_def plain_def filter_id_conv)
    ultimately show ?thesis using nodots by (simp add: clean_elems_names flip: names_def)
  qed
  have "set (path_text r xs) \<subseteq> insert slash (insert CHR ''.'' (set ?full))"
    unfolding full xs by (cases "xs = []") (auto simp: path_text_def join_snoc)
  then have nul: "\<forall>x\<in>set (split_on slash (path_text r xs)). NUL \<notin> set x"
    using way split_on_chars by (fastforce simp: clear_way_def NUL_def)
  have rooted: "is_rooted (path_text r xs) = r" using plains xs by (intro is_rooted_text) auto
  have nm: "names (split_on slash (path_text r xs)) = xs" using plains xs by (intro split_names) auto
  have nodots': "\<forall>x\<in>set (split_on slash (path_text r xs)). x \<noteq> ''..''"
  proof (intro ballI notI)
    fix x assume "x \<in> set (split_on slash (path_text r xs))" "x = ''..''"
    then have "x \<in> set (names (split_on slash (path_text r xs)))" by (simp add: names_def)
    then show False using nm nodots xs \<open>x = ''..''\<close> by auto
  qed
  let ?es = "split_on slash (path_text r xs)"
  have "\<exists>t'. mkdir_elems start ?es (dk_root d) = (Ok (), t') \<and> folder_at t' (start @ names ?es)
      \<and> (\<forall>p. folder_at t' p \<longrightarrow> folder_at (dk_root d) p \<or> prefix p (start @ names ?es))"
  proof (rule mkdir_succeeds)
    show "folder_at (dk_root d) start" using way by (auto simp: start_def clear_way_def)
    show "\<forall>x\<in>set (split_on slash (path_text r xs)). x \<noteq> ''..'' \<and> NUL \<notin> set x" using nul nodots' by blast
    show "\<forall>p. prefix p (start @ names (split_on slash (path_text r xs))) \<longrightarrow> file_at (dk_root d) p = None"
    proof (intro allI impI)
      fix p assume "prefix p (start @ names ?es)"
      then obtain zs where z: "start @ xs = p @ zs" by (auto simp: nm prefix_def)
      have "?q = p @ zs @ [b]" using arg_cong [OF z, of "\<lambda>u. u @ [b]"] by (simp add: q xs)
      then have "strict_prefix p ?q" by (auto simp: strict_prefix_def prefix_def)
      then show "file_at (dk_root d) p = None" using way by (simp add: clear_way_def files_def)
    qed
  qed
  note mk = this [unfolded nm]
  from mk obtain t' where t': "mkdir_elems start (split_on slash (path_text r xs)) (dk_root d) = (Ok (), t')"
    "folder_at t' (start @ xs)" "\<And>p. folder_at t' p \<Longrightarrow> folder_at (dk_root d) p \<or> prefix p (start @ xs)" by blast
  have "path_text r xs \<noteq> []" using dir by (metis filepath_Clean_nonempty filepath_Dir_def)
  then obtain d1 where d1: "os_MkdirAll (filepath_Dir ?full) e d = (Ok (), d1)" "dk_root d1 = t'"
    using t'(1) ok by (simp add: os_MkdirAll_def os_call_run dir mkdir_start_def rooted start_def)
  have "?full \<noteq> []" using base by (simp add: full_path_def filepath_Join_def)
  then have loc: "locate e ?full = Ok ?q" using way by (simp add: locate_def clear_way_def key_place_def)
  have "\<not> folder_at t' ?q"
  proof
    assume "folder_at t' ?q"
    with t'(3) way have "prefix ?q (start @ xs)" by (auto simp: clear_way_def)
    then show False by (auto simp: q xs prefix_def)
  qed
  then obtain d2 where d2: "os_Create ?full e d1 = (Ok ?q, d2)"
    using Create_succeeds [of e d1 ?full ?q] ok loc t'(2) d1(2) by (auto simp: q xs butlast_append)
  show ?thesis
    using d1(1) d2 ok
    by (auto simp: Local_Upload_def Let_def fthen_def failing_def on_error_def io_Copy_def os_call_run
        time_Now_def fret_def)
qed

text \<open>
  C33. With a working system and a way that is clear, an upload to the local storage succeeds, and
  downloading the key afterwards succeeds with the uploaded bytes, both with the right size.
\<close>

theorem local_upload_download:
  assumes "ls_base_path s \<noteq> []" "clear_way e s key d" "\<forall>n. os_fault e n = None"
  shows "\<exists>m d1 m' d2. Local_Upload s key \<lparr>rd_bytes = bs, rd_error = None\<rparr> opts e d = (Ok m, d1)
    \<and> Local_Download s key e d1 = (Ok (\<lparr>rd_bytes = bs, rd_error = None\<rparr>, m'), d2)
    \<and> fm_size m = int (length bs) \<and> fm_size m' = int (length bs)"
proof -
  from Upload_succeeds [OF assms] obtain m d1
    where up: "Local_Upload s key \<lparr>rd_bytes = bs, rd_error = None\<rparr> opts e d = (Ok m, d1)" by blast
  from Local_Upload_Ok(1) [OF up] obtain t where t: "resolve (dk_root d1) (key_place e s key) = Ok (File bs t)"
  proof -
    have "file_at (dk_root d1) (key_place e s key) = Some bs"
      using Local_Upload_Ok(1) [OF up] by (simp add: files_def)
    then show thesis using that by (auto simp: file_at_iff)
  qed
  have "full_path s key \<noteq> []" using assms(1) by (simp add: full_path_def filepath_Join_def)
  then have "locate e (full_path s key) = Ok (key_place e s key)"
    using assms(2) by (simp add: locate_def clear_way_def key_place_def)
  with t assms(3) have "\<exists>m' d2. Local_Download s key e d1 = (Ok (\<lparr>rd_bytes = bs, rd_error = None\<rparr>, m'), d2)
      \<and> fm_size m' = int (length bs)"
    by (simp add: Local_Download_def fthen_def failing_def on_error_def os_Open_def file_Stat_def
        os_call_run stat_place_def node_info_def no_effect_def opened_def)
  with up Local_Upload_Ok(4) [OF up] show ?thesis by auto
qed

end
