(* ===== verification/ReadWrite.thy ===== *)
theory ReadWrite
  imports TaskFlows Guarantees Sessions
begin

text \<open>
  Reads after writes: what the readers of a task see once a use case has answered, what a
  download returns after an upload, and what is lost when two requests interleave, since a use
  case reads the whole row, changes it in memory and writes the whole row back in separate statements.
\<close>

section \<open>Writing a task and reading it back\<close>

text \<open>What a stored row shows of a task, and what two answers agree on.\<close>

definition shows_task :: "task \<Rightarrow> task_row \<Rightarrow> bool" where
  "shows_task t row \<longleftrightarrow> tr_id row = t_id t \<and> tr_title row = t_title t \<and> tr_status row = t_status t
     \<and> tr_priority row = t_priority t \<and> tr_assignee row = t_assignee t"

definition same_task :: "task_output \<Rightarrow> task_output \<Rightarrow> bool" where
  "same_task out out' \<longleftrightarrow> to_id out' = to_id out \<and> to_title out' = to_title out
     \<and> to_status out' = to_status out \<and> to_priority out' = to_priority out
     \<and> to_assignee out' = to_assignee out"

text \<open>The first row of the task shows it, and the cache has no entry for it.\<close>

definition settled :: "env \<Rightarrow> task \<Rightarrow> db \<Rightarrow> payload store \<Rightarrow> (string \<Rightarrow> string option) \<Rightarrow> bool" where
  "settled e t d c b \<longleftrightarrow>
     (\<exists>row. find (\<lambda>r. tr_id r = t_id t) (db_tasks d) = Some row \<and> shows_task t row)
     \<and> c (KB_Task cachePrefix (e_uuid_string e (t_id t))) = None"

lemma find_updated:
  "find (\<lambda>r. f r = i) xs = Some x \<Longrightarrow> f y = i \<Longrightarrow>
     find (\<lambda>r. f r = i) (map (\<lambda>r. if f r = i then y else r) xs) = Some y"
  by (induction xs) auto

lemma Task_Update_stored:
  assumes "Task_Update t e w = (Ok (), w')"
  shows "\<exists>row. find (\<lambda>r. tr_id r = t_id t) (db_tasks (w_db w')) = Some row \<and> shows_task t row"
proof -
  obtain now row d where q: "q_UpdateTask (t_id t) (t_title t) (nonempty (t_description t)) (t_status t)
      (t_priority t) (t_due t) (t_assignee t) now (w_db w) = (Ok row, d)" and d: "w_db w' = d"
    using assms by (auto simp: Task_Update_def andthen_Ok_iff dest!: sql_Ok)
  then obtain old where old: "find (\<lambda>r. tr_id r = t_id t) (db_tasks (w_db w)) = Some old"
    by (auto simp: q_UpdateTask_def split: option.splits)
  moreover from this have "tr_id old = t_id t" by (rule find_in [THEN conjunct2])
  ultimately have "shows_task t row"
    and "db_tasks d = map (\<lambda>r. if tr_id r = t_id t then row else r) (db_tasks (w_db w))"
    using q by (auto simp: q_UpdateTask_def Let_def shows_task_def split: if_splits)
  with find_updated [OF old, of row] d show ?thesis by (simp add: shows_task_def)
qed

lemma settledD:
  "settled e t d c b \<Longrightarrow> t_id t = i \<Longrightarrow>
     \<exists>row. find (\<lambda>r. tr_id r = i) (db_tasks d) = Some row \<and> shows_task t row"
  by (auto simp: settled_def)

text \<open>In an environment without faults the cache loses its entry, on every exit.\<close>

lemma cache_removal:
  assumes "fault_free e" "e_cache e = DepLive"
  shows "ignoring (Cache_Delete k) e w = (Ok (), (tick w)\<lparr>w_cache := MC_Delete k (w_cache w)\<rparr>)"
    and "ignoring (Cache_DeletePattern pat) e w
      = (Ok (), (tick w)\<lparr>w_cache := MC_DeletePattern pat (w_cache w)\<rparr>)"
  by (simp_all add: ignoring_def Cache_Delete_def Cache_DeletePattern_def cache_run [OF assms])

lemma invalidateTaskCaches_removes:
  assumes "fault_free e" "e_cache e = DepLive" "invalidateTaskCaches i e w = (r, w')"
  shows "w_db w' = w_db w \<and> w_cache w' (KB_Task cachePrefix (e_uuid_string e i)) = None"
  using assms(3)
  by (auto simp: invalidateTaskCaches_def invalidateTaskListCaches_def andthen_def env_run assms(2)
      cache_removal [OF assms(1,2)] MC_Delete_def MC_DeletePattern_def Let_def)

text \<open>Saving a task and invalidating its caches settles it, and messages keep it settled.\<close>

lemma stays_settled: "messaging m \<Longrightarrow> stays e (unmessaged (settled e t)) m"
  by (rule stays_messaging)

lemma saved_settled:
  assumes "fault_free e" "e_cache e = DepLive"
    and "Task_Update t e w = (Ok (), w1)" "invalidateTaskCaches (t_id t) e w1 = (Ok (), w2)"
  shows "unmessaged (settled e t) w2"
  using Task_Update_stored [OF assms(3)] invalidateTaskCaches_removes [OF assms(1,2,4)]
  by (auto simp: unmessaged_def settled_def)

lemma stays_events:
  "stays e (unmessaged P) (make_event f)" "stays e (unmessaged P) (publishTaskEvent evt)"
  unfolding publishTaskEvent_def has_publisher_def by (rule stays_messaging, intro frames)+

section \<open>Reading back\<close>

lemma one_run:
  "fault_free e \<Longrightarrow> sql (q_one f) e w =
     (case f (w_db w) of None \<Rightarrow> Err pgx_ErrNoRows | Some x \<Rightarrow> Ok x, tick w)"
  by (auto simp: sql_def external_run run_sql_def q_one_def tick_def split: option.splits)

lemma read_run: "fault_free e \<Longrightarrow> sql (q_read f) e w = (Ok (f (w_db w)), tick w)"
  by (simp add: sql_def external_run run_sql_def q_read_def tick_def)

lemma fetch_task_run:
  "fault_free e \<Longrightarrow> find (\<lambda>r. tr_id r = i) (db_tasks (w_db w)) = Some row \<Longrightarrow>
     fetch_task i e w = (Ok (sqlcTaskToEntity row), tick w)"
  by (simp add: fetch_task_def Task_FindByID_def q_GetTask_def andthen_def no_rows_is_nil_def
      attempt_def one_run)

lemma cache_lookup_missing:
  assumes "fault_free e" "e_cache e = DepLive" "w_cache w key = None"
  shows "cache_lookup dec key e w = (Ok None, tick w)"
  by (simp add: cache_lookup_def andthen_def env_run assms(2) Cache_GetJSON_def
      cache_run [OF assms(1,2)] MC_GetJSON_def MC_Get_def assms(3) attempt_def tick_def)

lemma GetTask_fresh:
  assumes "fault_free e" "e_cache e = DepLive" "w_cache w (KB_Task cachePrefix (e_uuid_string e i)) = None"
    and "find (\<lambda>r. tr_id r = i) (db_tasks (w_db w)) = Some row"
  shows "\<exists>out w'. GetTask i e w = (Ok out, w') \<and> to_id out = tr_id row \<and> to_title out = tr_title row
    \<and> to_status out = tr_status row \<and> to_priority out = tr_priority row
    \<and> to_assignee out = tr_assignee row"
  using assms
  by (simp add: GetTask_def env_run andthen_def cache_lookup_missing fetch_task_run clock_run
      Label_FindByTaskID_def q_GetTaskLabels_def read_run attempt_def cache_store_def ignoring_def
      Cache_SetJSON_def cache_run Let_def TaskFromEntity_def sqlcTaskToEntity_def)

lemma settled_read:
  assumes "fault_free e" "e_cache e = DepLive" "unmessaged (settled e t) w"
  shows "\<exists>out' w'. GetTask (t_id t) e w = (Ok out', w') \<and> same_task (TaskFromEntity now t) out'"
proof -
  from assms(3) obtain row where row: "find (\<lambda>r. tr_id r = t_id t) (db_tasks (w_db w)) = Some row"
      "shows_task t row" and miss: "w_cache w (KB_Task cachePrefix (e_uuid_string e (t_id t))) = None"
    by (auto simp: unmessaged_def settled_def)
  from GetTask_fresh [OF assms(1,2) miss row(1)] row(2) show ?thesis
    by (auto simp: shows_task_def same_task_def TaskFromEntity_def)
qed

lemma stays_events_option [posts]:
  "stays e (unmessaged P)
     (case mk of None \<Rightarrow> ret () | Some f \<Rightarrow> andthen (make_event f) publishTaskEvent)"
  by (intro posts stays_events)

lemma store_task_settled:
  assumes "fault_free e" "e_cache e = DepLive" "store_task i t mk e w = (Ok out, w')" "t_id t = i"
  shows "\<exists>now t. out = TaskFromEntity now t \<and> t_id t = i \<and> unmessaged (settled e t) w'"
proof -
  obtain w1 w2 w3 where "Task_Update t e w = (Ok (), w1)" "invalidateTaskCaches (t_id t) e w1 = (Ok (), w2)"
    and events: "(case mk of None \<Rightarrow> ret () | Some f \<Rightarrow> andthen (make_event f) publishTaskEvent) e w2
      = (Ok (), w3)"
    and out: "out = TaskFromEntity (e_clock e (w_tick w3)) t" "w' = tick w3"
    using assms(3,4) by (auto simp: store_task_def andthen_Ok_iff clock_run)
  then have "unmessaged (settled e t) w2" using saved_settled [OF assms(1,2)] by blast
  from staysD [OF stays_events_option this events] out assms(4) show ?thesis
    by (auto simp: unmessaged_def)
qed

lemma no_rows_Some: "no_rows_is_nil m e w = (Ok (Some x), w') \<Longrightarrow> m e w = (Ok x, w')"
  by (auto simp: no_rows_is_nil_def andthen_def attempt_def go_prims
      split: prod.splits result.splits if_splits)

lemma one_Ok: "sql (q_one f) e w = (Ok x, w') \<Longrightarrow> f (w_db w) = Some x \<and> w' = tick w"
  by (auto dest!: sql_Ok simp: q_one_def tick_def split: option.splits)

lemma fetch_task_Ok:
  assumes "fetch_task i e w = (Ok t, w')"
  shows "\<exists>row. find (\<lambda>r. tr_id r = i) (db_tasks (w_db w)) = Some row \<and> t = sqlcTaskToEntity row
    \<and> w' = tick w"
proof -
  obtain row where "no_rows_is_nil (sql (q_GetTask i)) e w = (Ok (Some row), w')"
    and t: "t = sqlcTaskToEntity row"
    using assms by (auto simp: fetch_task_def Task_FindByID_def andthen_Ok_iff go_prims split: option.splits)
  from one_Ok [OF no_rows_Some [OF this(1), unfolded q_GetTask_def]] t show ?thesis by blast
qed

lemma fetch_task_id: "fetch_task i e w = (Ok t, w') \<Longrightarrow> t_id t = i"
  by (auto dest!: fetch_task_Ok find_in simp: sqlcTaskToEntity_def)

lemma method_ids:
  "Assign a now t = Ok t' \<Longrightarrow> t_id t' = t_id t" "t_id (Unassign now t) = t_id t"
  "ChangeStatus s now t = Ok t' \<Longrightarrow> t_id t' = t_id t" "Complete now t = Ok t' \<Longrightarrow> t_id t' = t_id t"
  "Archive now t = Ok t' \<Longrightarrow> t_id t' = t_id t"
  by (auto simp: task_method_defs split: if_splits option.splits)

lemma apply_updates_id: "apply_updates inp t e w = (Ok t', w') \<Longrightarrow> t_id t' = t_id t"
  by (auto simp: apply_updates_def andthen_Ok_iff go_prims task_method_defs split: option.splits if_splits)

text \<open>The rest of \<open>UpdateTask\<close> once it has read the task.\<close>

definition UpdateTask_resumed :: "request \<Rightarrow> uuid \<Rightarrow> update_task_input \<Rightarrow> task \<Rightarrow> task_output go" where
  "UpdateTask_resumed ctx i inp t0 =
     andthen (apply_updates inp t0) (\<lambda>t.
     andthen (Task_Update t) (\<lambda>_.
     andthen (invalidateTaskCaches i) (\<lambda>_.
     andthen (make_event (NewTaskUpdated (t_id t) (getCreatorIDFromContext ctx))) (\<lambda>evt.
     andthen (publishTaskEvent (updated_event inp evt)) (\<lambda>_.
     andthen now_utc (\<lambda>now.
     ret (TaskFromEntity now t)))))))"

lemma UpdateTask_reads_first:
  "UpdateTask ctx i inp = andthen (validate (VUpdateTask inp)) (\<lambda>_.
     andthen (fetch_task i) (UpdateTask_resumed ctx i inp))"
  by (simp add: UpdateTask_def UpdateTask_resumed_def [abs_def])

lemma UpdateTask_resumed_settled:
  assumes "fault_free e" "e_cache e = DepLive" "UpdateTask_resumed ctx (t_id t0) inp t0 e w = (Ok out, w')"
  shows "\<exists>now t. out = TaskFromEntity now t \<and> t_id t = t_id t0 \<and> unmessaged (settled e t) w'"
proof -
  obtain t w0 w1 w2 w3 w4 evt where t: "apply_updates inp t0 e w = (Ok t, w0)"
    and update: "Task_Update t e w0 = (Ok (), w1)" "invalidateTaskCaches (t_id t0) e w1 = (Ok (), w2)"
    and events: "make_event (NewTaskUpdated (t_id t) (getCreatorIDFromContext ctx)) e w2 = (Ok evt, w3)"
      "publishTaskEvent (updated_event inp evt) e w3 = (Ok (), w4)"
    and out: "out = TaskFromEntity (e_clock e (w_tick w4)) t" "w' = tick w4"
    using assms(3) by (auto simp: UpdateTask_resumed_def andthen_Ok_iff clock_run)
  have "unmessaged (settled e t) w2"
    using saved_settled [OF assms(1,2) update(1)] update(2) by (simp add: apply_updates_id [OF t])
  from staysD [OF stays_events(2) staysD [OF stays_events(1) this events(1)] events(2)] out
    apply_updates_id [OF t] show ?thesis
    by (auto simp: unmessaged_def)
qed

section \<open>Two requests that interleave\<close>

text \<open>What a write leaves in the table, whatever the cache and the publishers do.\<close>

lemma tail_db:
  "andthen (invalidateTaskCaches i) (\<lambda>_. m) e w = (Ok x, w') \<Longrightarrow>
     holds (on_db (\<lambda>d. d = w_db w)) m (\<lambda>_. True) \<Longrightarrow> w_db w' = w_db w"
  by (erule same_db) (intro keeps TrueI; assumption)

lemma stored_then:
  assumes "andthen (Task_Update t) (\<lambda>_. andthen (invalidateTaskCaches i) (\<lambda>_. m)) e w = (Ok x, w')"
    and "\<And>P. holds (on_db P) m (\<lambda>_. True)" and "t_id t = i"
  shows "\<exists>row. find (\<lambda>r. tr_id r = i) (db_tasks (w_db w')) = Some row \<and> shows_task t row"
proof -
  obtain w1 where "Task_Update t e w = (Ok (), w1)"
    and "andthen (invalidateTaskCaches i) (\<lambda>_. m) e w1 = (Ok x, w')"
    using assms(1) by (auto simp: andthen_Ok_iff)
  with Task_Update_stored [OF this(1)] tail_db [OF this(2) assms(2)] assms(3) show ?thesis by simp
qed

lemma store_task_row:
  assumes "store_task i t mk e w = (Ok out, w')" "t_id t = i"
  shows "(\<exists>row. find (\<lambda>r. tr_id r = i) (db_tasks (w_db w')) = Some row \<and> shows_task t row)
    \<and> (\<exists>now. out = TaskFromEntity now t)"
proof
  have tail: "holds (on_db P) (andthen (case mk of None \<Rightarrow> ret () | Some f \<Rightarrow> andthen (make_event f) publishTaskEvent)
      (\<lambda>_. andthen now_utc (\<lambda>now. ret (TaskFromEntity now t)))) (\<lambda>_. True)" for P
    by (intro keeps TrueI)
  show "\<exists>row. find (\<lambda>r. tr_id r = i) (db_tasks (w_db w')) = Some row \<and> shows_task t row"
    by (rule stored_then [OF assms(1) [unfolded store_task_def] tail assms(2)])
  show "\<exists>now. out = TaskFromEntity now t"
    using assms(1) by (auto simp: store_task_def andthen_Ok_iff)
qed

lemma ArchiveTask_row:
  assumes "ArchiveTask ctx i e w = (Ok out, w')"
  shows "to_status out = TaskStatusArchived
    \<and> (\<exists>row. find (\<lambda>r. tr_id r = i) (db_tasks (w_db w)) = Some row \<and> tr_status row = TaskStatusDone)
    \<and> (\<exists>row. find (\<lambda>r. tr_id r = i) (db_tasks (w_db w')) = Some row \<and> tr_status row = TaskStatusArchived)"
proof -
  obtain t0 now w1 w2 mk where fetch: "fetch_task i e w = (Ok t0, w1)" and finished: "t_status t0 = TaskStatusDone"
    and run: "store_task i (t0\<lparr>t_status := TaskStatusArchived, t_updated := now\<rparr>) mk e w2 = (Ok out, w')"
    using assms by (auto simp: ArchiveTask_def Archive_def andthen_Ok_iff go_prims split: if_splits)
  from store_task_row [OF run] fetch_task_id [OF fetch] fetch_task_Ok [OF fetch] finished show ?thesis
    by (auto simp: shows_task_def TaskFromEntity_def sqlcTaskToEntity_def)
qed

lemma apply_updates_status: "apply_updates inp t e w = (Ok t', w') \<Longrightarrow> t_status t' = t_status t"
  by (auto simp: apply_updates_def andthen_Ok_iff go_prims task_method_defs split: option.splits if_splits)

lemma UpdateTask_resumed_row:
  assumes "UpdateTask_resumed ctx i inp t0 e w = (Ok out, w')" "t_id t0 = i"
  shows "\<exists>row. find (\<lambda>r. tr_id r = i) (db_tasks (w_db w')) = Some row \<and> tr_status row = t_status t0"
proof -
  obtain t w1 where t: "apply_updates inp t0 e w = (Ok t, w1)"
    and run: "andthen (Task_Update t) (\<lambda>_. andthen (invalidateTaskCaches i) (\<lambda>_.
       andthen (make_event (NewTaskUpdated (t_id t) (getCreatorIDFromContext ctx))) (\<lambda>evt.
       andthen (publishTaskEvent (updated_event inp evt)) (\<lambda>_.
       andthen now_utc (\<lambda>now. ret (TaskFromEntity now t)))))) e w1 = (Ok out, w')"
    using assms(1) by (auto simp: UpdateTask_resumed_def andthen_Ok_iff)
  have "t_id t = i" using apply_updates_id [OF t] assms(2) by simp
  have "\<exists>row. find (\<lambda>r. tr_id r = i) (db_tasks (w_db w')) = Some row \<and> shows_task t row"
    by (rule stored_then [OF run _ \<open>t_id t = i\<close>]) (intro keeps TrueI)
  then show ?thesis using apply_updates_status [OF t] by (auto simp: shows_task_def)
qed

section \<open>Properties\<close>



text \<open>
  C10. Interleaved requests lose updates: a use case that read the task before another request archived it
  writes the whole row back, so the task that was answered as archived is out of the archive
  again, done as before, and can be changed; in a single statement or a transaction this could not happen.
\<close>

theorem concurrent_update_unarchives:
  assumes "fetch_task i e w = (Ok t0, w1)"
    and "ArchiveTask ctx' i e' w1 = (Ok archived, w2)"
    and "UpdateTask_resumed ctx i inp t0 e w2 = (Ok out, w3)"
  shows "UpdateTask ctx i inp = andthen (validate (VUpdateTask inp)) (\<lambda>_.
      andthen (fetch_task i) (UpdateTask_resumed ctx i inp))
    \<and> to_status archived = TaskStatusArchived
    \<and> (\<exists>row. find (\<lambda>r. tr_id r = i) (db_tasks (w_db w2)) = Some row \<and> tr_status row = TaskStatusArchived)
    \<and> (\<exists>row. find (\<lambda>r. tr_id r = i) (db_tasks (w_db w3)) = Some row \<and> tr_status row = TaskStatusDone)"
  using ArchiveTask_row [OF assms(2)] fetch_task_Ok [OF assms(1)] fetch_task_id [OF assms(1)]
    UpdateTask_resumed_row [OF assms(3)] UpdateTask_reads_first
  by (auto simp: sqlcTaskToEntity_def)

definition finished_world :: world where
  "finished_world = example_world\<lparr>w_db := example_db\<lparr>db_tasks := [open_row\<lparr>tr_status := TaskStatusDone\<rparr>]\<rparr>\<rparr>"

lemma finished_interleaving:
  "\<exists>t0 w1 archived w2 out w3. fetch_task 6 example_env finished_world = (Ok t0, w1)
     \<and> ArchiveTask None 6 example_env w1 = (Ok archived, w2)
     \<and> UpdateTask_resumed None 6 retitle t0 example_env w2 = (Ok out, w3)"
  by (simp add: finished_world_def ArchiveTask_def Archive_def UpdateTask_resumed_def apply_updates_def
      retitle_def execute execute_tasks execute_messages example_rows UpdateTitle_def
      TaskFromEntity_def updated_event_def user_ids_def)

theorem concurrent_update_unarchives_witness:
  "\<exists>w2 (w3 :: world) row. (\<exists>w1 archived. ArchiveTask None 6 example_env w1 = (Ok archived, w2)
       \<and> to_status archived = TaskStatusArchived)
     \<and> find (\<lambda>r. tr_id r = 6) (db_tasks (w_db w3)) = Some row \<and> tr_status row = TaskStatusDone"
proof -
  obtain t0 w1 archived w2 out w3 where
    read: "fetch_task 6 example_env finished_world = (Ok t0, w1)" and
    archive: "ArchiveTask None 6 example_env w1 = (Ok archived, w2)" and
    resumed: "UpdateTask_resumed None 6 retitle t0 example_env w2 = (Ok out, w3)"
    using finished_interleaving by blast
  from concurrent_update_unarchives [OF read archive resumed] archive show ?thesis by blast
qed

section \<open>Uploading and downloading\<close>

text \<open>The key of the object of an upload; \<open>n\<close> is the random id in its name.\<close>

definition upload_key :: "env \<Rightarrow> uuid \<Rightarrow> string \<Rightarrow> uuid \<Rightarrow> string" where
  "upload_key e taskID filename n =
     FK_TaskAttachment ''attachments'' (e_uuid_string e taskID)
       (e_uuid_string e n @ ''-'' @ sanitizeAttachmentFilename filename)"

lemma storage_run:
  assumes "fault_free e" "e_storage e = DepLive"
  shows "Storage_Upload k content e w = (Ok \<lparr>fm_key = k, fm_content_type = [], fm_size = int (length content)\<rparr>,
      (tick (tick w))\<lparr>w_blobs := (w_blobs w)(k \<mapsto> content)\<rparr>)"
    and "Storage_Delete k e w = (Ok (), (tick w)\<lparr>w_blobs := (w_blobs w)(k := None)\<rparr>)"
    and "w_blobs w k = Some content \<Longrightarrow> Storage_Download k e w = (Ok content, tick w)"
  using assms
  by (simp_all add: Storage_Upload_def Storage_Delete_def Storage_Download_def Storage_GetMetadata_def
      storage_call_def andthen_def attempt_def external_run tick_def)

lemma storage_available: "e_storage e = DepLive \<Longrightarrow> ensureFileStorageAvailable e w = (Ok (), w)"
  "e_storage e = DepLive \<Longrightarrow> has_storage e w = (Ok True, w)"
  by (simp_all add: ensureFileStorageAvailable_def require_def has_storage_def andthen_def)

lemma uploads_found:
  assumes "find (\<lambda>a. ar_id a = i) (db_attachments (w_db w)) = Some row" "ar_task row = t"
    and "w_blobs w (ar_key row) = Some content" "fault_free e" "e_storage e = DepLive"
  shows "DownloadTaskAttachment t i e w
    = (Ok (content, attachment_to_output (sqlcAttachmentToEntity row)), tick (tick w))"
proof -
  have "fetch_attachment t i e w = (Ok (sqlcAttachmentToEntity row), tick w)"
    using assms(1,2,4)
    by (simp add: fetch_attachment_def FindAttachmentByID_def q_GetTaskAttachment_def andthen_def
        no_rows_is_nil_def attempt_def one_run sqlcAttachmentToEntity_def)
  with assms(3-) storage_run(3) [OF assms(4,5), of "tick w" "ar_key row" content] show ?thesis
    by (simp add: DownloadTaskAttachment_def storage_available sqlcAttachmentToEntity_def)
qed

lemma find_last: "i \<notin> f ` set xs \<Longrightarrow> f y = i \<Longrightarrow> find (\<lambda>r. f r = i) (xs @ [y]) = Some y"
  by (induction xs) auto

lemma SaveAttachment_run:
  assumes "fault_free e"
  shows "(\<exists>err. SaveAttachment a e w = (Err err, tick w))
    \<or> (\<exists>row w'. SaveAttachment a e w = (Ok (), w')
         \<and> find (\<lambda>r. ar_id r = at_id a) (db_attachments (w_db w')) = Some row
         \<and> ar_task row = at_task a \<and> ar_key row = at_key a \<and> ar_filename row = at_filename a
         \<and> w_blobs w' = w_blobs w)"
proof -
  define arg where "arg = \<lparr>ar_id = at_id a, ar_task = at_task a, ar_filename = at_filename a,
    ar_key = at_key a, ar_content_type = nonempty (at_content_type a),
    ar_size = (if at_size a > 0 then Some (at_size a) else None),
    ar_uploader = (if at_uploader a \<noteq> uuid_Nil then Some (at_uploader a) else None),
    ar_created = at_created a\<rparr>"
  define now where "now = (case w_tx_time w of None \<Rightarrow> e_clock e (w_tick w) | Some t0 \<Rightarrow> t0)"
  have run: "sql (q_CreateTaskAttachment arg) e w =
      (fst (q_CreateTaskAttachment arg now (w_db w)), (tick w)\<lparr>w_db := snd (q_CreateTaskAttachment arg now (w_db w))\<rparr>)"
    using assms by (simp add: sql_def external_run run_sql_def now_def case_prod_beta)
  define row where "row = arg\<lparr>ar_created := pg_timestamptz (ar_created arg)\<rparr>"
  have "(\<exists>err. q_CreateTaskAttachment arg now (w_db w) = (Err err, w_db w))
    \<or> (q_CreateTaskAttachment arg now (w_db w)
         = (Ok row, (w_db w)\<lparr>db_attachments := db_attachments (w_db w) @ [row]\<rparr>)
       \<and> at_id a \<notin> ar_id ` set (db_attachments (w_db w)))"
    by (auto simp: q_CreateTaskAttachment_def row_def arg_def Let_def)
  then show ?thesis
  proof (elim disjE exE conjE)
    fix err
    assume "q_CreateTaskAttachment arg now (w_db w) = (Err err, w_db w)"
    with run show ?thesis by (auto simp: SaveAttachment_def arg_def andthen_def tick_def)
  next
    assume q: "q_CreateTaskAttachment arg now (w_db w)
         = (Ok row, (w_db w)\<lparr>db_attachments := db_attachments (w_db w) @ [row]\<rparr>)"
      and fresh: "at_id a \<notin> ar_id ` set (db_attachments (w_db w))"
    have "find (\<lambda>r. ar_id r = at_id a) (db_attachments (w_db w) @ [row]) = Some row"
      by (rule find_last [OF fresh]) (simp add: row_def arg_def)
    with q run show ?thesis
      by (auto simp: SaveAttachment_def arg_def [symmetric] andthen_def) (simp_all add: row_def arg_def)
  qed
qed

text \<open>The upload after its guards, with the ids and the time it draws.\<close>

lemma cleanup_run:
  "fault_free e \<Longrightarrow> e_storage e = DepLive \<Longrightarrow>
     cleanupUploadedAttachmentObject t a k e w = (Ok (), (tick w)\<lparr>w_blobs := (w_blobs w)(k := None)\<rparr>)"
  by (simp add: cleanupUploadedAttachmentObject_def andthen_def storage_available storage_run(2))

lemma UploadTaskAttachment_run:
  assumes "fault_free e" "e_storage e = DepLive" "UploadTaskAttachment ctx t filename ctype content e w = (r, w')"
    and fresh: "\<And>n. w_tick w \<le> n \<Longrightarrow> w_blobs w (upload_key e t filename (e_new_uuid e n)) = None"
  shows "(\<exists>err. r = Err err) \<and> w_blobs w' = w_blobs w \<and> w_db w' = w_db w
    \<or> (\<exists>out row. r = Ok out \<and> find (\<lambda>a. ar_id a = ao_id out) (db_attachments (w_db w')) = Some row
         \<and> ar_task row = t \<and> w_blobs w' (ar_key row) = Some content
         \<and> ar_filename row = sanitizeAttachmentFilename filename)"
proof (cases "t \<in> task_ids (w_db w) \<and> sanitizeAttachmentFilename filename \<notin> {[], ''.'', ''/''}")
  case False
  with assms(1-3) show ?thesis
    by (auto simp: UploadTaskAttachment_def andthen_def storage_available require_def Task_ExistsByID_def
        q_TaskExists_def read_run Let_def split: if_splits)
next
  case True
  define n where "n = e_new_uuid e (Suc (w_tick w))"
  define k where "k = upload_key e t filename n"
  define w1 where "w1 = (tick (tick (tick (tick w))))\<lparr>w_blobs := (w_blobs w)(k \<mapsto> content)\<rparr>"
  define a where "a = NewTaskAttachment t (sanitizeAttachmentFilename filename) k ctype (int (length content))
     (getCreatorIDFromContext ctx) (e_new_uuid e (w_tick w1)) (e_clock e (Suc (w_tick w1)))"
  have none: "w_blobs w k = None" using fresh [of "Suc (w_tick w)"] by (simp add: k_def n_def)
  have run: "UploadTaskAttachment ctx t filename ctype content e w =
      andthen (attempt (SaveAttachment a)) (\<lambda>saved.
           case saved of
             Err err \<Rightarrow>
               andthen (cleanupUploadedAttachmentObject t (at_id a) k) (\<lambda>_.
               raise (Errorf ''failed to save attachment'' (Some err)))
           | Panic p \<Rightarrow> panic p
           | Ok _ \<Rightarrow> ret (attachment_to_output a)) e (tick (tick w1))"
    using True assms(1,2)
    by (simp add: UploadTaskAttachment_def storage_available require_def Task_ExistsByID_def
        q_TaskExists_def read_run Let_def clock_run env_run storage_run(1) a_def w1_def k_def n_def
        upload_key_def cong: result.case_cong)
  show ?thesis
    using SaveAttachment_run [OF assms(1), of a "tick (tick w1)"]
  proof (elim disjE exE conjE)
    fix err
    assume "SaveAttachment a e (tick (tick w1)) = (Err err, tick (tick (tick w1)))"
    with assms(1-3) run none show ?thesis
      by (auto simp: cleanup_run w1_def fun_upd_idem)
  next
    fix row w2
    assume "SaveAttachment a e (tick (tick w1)) = (Ok (), w2)"
      and row: "find (\<lambda>r. ar_id r = at_id a) (db_attachments (w_db w2)) = Some row"
        "ar_task row = at_task a" "ar_key row = at_key a" "ar_filename row = at_filename a"
        "w_blobs w2 = w_blobs (tick (tick w1))"
    with assms(3) run have "r = Ok (attachment_to_output a)" "w' = w2" by simp_all
    with row show ?thesis
      by (auto simp: attachment_to_output_def a_def NewTaskAttachment_def w1_def)
  qed
qed

section \<open>Attachments\<close>

text \<open>
  C11. An upload is all or nothing: with working services it is answered with an attachment whose download
  returns the very bytes that were uploaded under the sanitised name, or it is refused, and then the tables and the objects are as
  before, since the object is deleted again when its row cannot be saved.
\<close>

theorem upload_all_or_nothing:
  assumes "fault_free e" and "e_storage e = DepLive"
    and "UploadTaskAttachment ctx t filename ctype content e w = (r, w')"
    and "\<And>n. w_tick w \<le> n \<Longrightarrow> w_blobs w (upload_key e t filename (e_new_uuid e n)) = None"
  shows "(\<exists>err. r = Err err) \<and> w_blobs w' = w_blobs w \<and> w_db w' = w_db w
    \<or> (\<exists>out out' w''. r = Ok out
         \<and> DownloadTaskAttachment t (ao_id out) e w' = (Ok (content, out'), w'')
         \<and> ao_filename out' = sanitizeAttachmentFilename filename)"
  using UploadTaskAttachment_run [OF assms] uploads_found [OF _ _ _ assms(1,2)]
  by (fastforce simp: attachment_to_output_def sqlcAttachmentToEntity_def)

lemma safe_name: "sanitizeAttachmentFilename ''b.txt'' = ''b.txt''"
  by code_simp

theorem upload_all_or_nothing_witness:
  "\<exists>out out' w' w''. UploadTaskAttachment (Some (claims_of ada_claims 0)) 6 ''b.txt'' ''text/plain'' ''xyz''
       example_env example_world = (Ok out, w')
     \<and> DownloadTaskAttachment 6 (ao_id out) example_env w' = (Ok (''xyz'', out'), w'')"
proof -
  let ?m = "UploadTaskAttachment (Some (claims_of ada_claims 0)) 6 ''b.txt'' ''text/plain'' ''xyz''"
  have "\<exists>out w'. ?m example_env example_world = (Ok out, w')"
    by (simp add: UploadTaskAttachment_def safe_name ensureFileStorageAvailable_def execute
        Task_ExistsByID_def q_TaskExists_def task_ids_def user_ids_def Storage_Upload_def
        Storage_GetMetadata_def SaveAttachment_def q_CreateTaskAttachment_def NewTaskAttachment_def
        example_rows claims_of_def FK_TaskAttachment_def getCreatorIDFromContext_def)
  then obtain out w' where run: "?m example_env example_world = (Ok out, w')" by blast
  have "w_blobs example_world (upload_key example_env 6 ''b.txt'' n) = None" for n
    by (simp add: upload_key_def FK_TaskAttachment_def)
  from upload_all_or_nothing [OF example_fault_free _ run this] run show ?thesis by auto
qed

end
