(* ===== verification/LocalExamples.thy ===== *)
theory LocalExamples
  imports LocalRoundTrip ReadWrite
begin

text \<open>A small file system, and runs of the local storage on it.\<close>

definition demo_env :: os_env where
  "demo_env = \<lparr>os_cwd = [''srv''], os_fault = (\<lambda>_. None), os_clock = (\<lambda>n. int n), os_dir = (\<lambda>_. (64, 0))\<rparr>"

definition demo_store :: local_storage where
  "demo_store = \<lparr>ls_base_path = ''./uploads'', ls_base_url = ''http://files''\<rparr>"

definition demo_disk :: disk where
  "demo_disk = \<lparr>dk_root = Folder [(''srv'', Folder
     [(''app.env'', File ''key'' 0), (''uploads'', Folder [(''a'', File ''hi'' 0)])])], dk_calls = 0\<rparr>"

definition demo_ops :: "store_op list" where
  "demo_ops = [Put ''t/k'' ''xy'', CopyTo ''t/k'' ''b'', Drop ''a'']"

definition demo_end :: disk where
  "demo_end = \<lparr>dk_root = Folder [(''srv'', Folder
     [(''app.env'', File ''key'' 0), (''uploads'', Folder
        [(''b'', File ''xy'' 7), (''t'', Folder [(''k'', File ''xy'' 2)])])])], dk_calls = 10\<rparr>"

lemma demo_run: "run_store (local_step demo_env demo_store) demo_ops demo_disk = Some demo_end"
  by code_simp

lemma demo_places: "map (key_place demo_env demo_store) [''t/k'', ''b'', ''a'', ''./a'']
  = [[''srv'', ''uploads'', ''t'', ''k''], [''srv'', ''uploads'', ''b''], [''srv'', ''uploads'', ''a''], [''srv'', ''uploads'', ''a'']]"
  by code_simp

lemma demo_get: "local_get demo_env demo_store ''t/k'' demo_end = Some ''xy''"
  by code_simp

lemma demo_self_copies: "\<forall>op\<in>set demo_ops. \<not> self_copy (key_place demo_env demo_store) op"
  by code_simp

lemma copy_run:
  assumes "fault_free e" "e_storage e = DepLive" "w_blobs w a = Some c"
  shows "Storage_Copy a b e w = (Ok \<lparr>fm_key = b, fm_content_type = [], fm_size = int (length c)\<rparr>,
      (tick (tick w))\<lparr>w_blobs := (w_blobs w)(b \<mapsto> c)\<rparr>)"
  using assms
  by (simp add: Storage_Copy_def Storage_GetMetadata_def storage_call_def andthen_def attempt_def
      external_run tick_def)

lemma demo_objects: "\<exists>w. run_store (s3_step example_env) demo_ops example_world = Some w"
  by (simp add: demo_ops_def s3_step_def returned_def storage_run copy_run)


theorem storages_return_last_write_witness:
  "local_get demo_env demo_store ''t/k'' demo_end = Some ''xy'' \<and> ''xy'' = ''x'' @ ''y''"
proof -
  have ops: "demo_ops = Put ''t/k'' (''x'' @ ''y'') # [CopyTo ''t/k'' ''b'', Drop ''a'']" by (simp add: demo_ops_def)
  have "\<forall>op\<in>set [CopyTo ''t/k'' ''b'', Drop ''a'']. \<not> self_copy (key_place demo_env demo_store) op
      \<and> key_place demo_env demo_store (target op) \<noteq> key_place demo_env demo_store ''t/k''"
    by code_simp
  then show ?thesis using storages_return_last_write demo_run demo_get unfolding ops by blast
qed

theorem copy_onto_itself_empties_witness:
  "\<exists>m d. Local_Copy demo_store ''a'' ''./a'' demo_env demo_disk = (Ok m, d)
     \<and> fm_size m = 0 \<and> files d [''srv'', ''uploads'', ''a''] = Some []"
proof -
  have "returned (Local_Copy demo_store ''a'' ''./a'' demo_env demo_disk) \<noteq> None" by code_simp
  then obtain m d where r: "Local_Copy demo_store ''a'' ''./a'' demo_env demo_disk = (Ok m, d)" by auto
  have "key_place demo_env demo_store ''a'' = [''srv'', ''uploads'', ''a'']"
    "key_place demo_env demo_store ''a'' = key_place demo_env demo_store ''./a''" by code_simp+
  with r show ?thesis using copy_onto_itself_empties by (metis fun_upd_same)
qed

definition tag :: string where "tag = ''123''"

theorem attachments_confined_witness:
  "files (snd (Local_Upload demo_store (FK_TaskAttachment ''attachments'' tag (tag @ ''-'' @ sanitizeAttachmentFilename ''../../app.env''))
       \<lparr>rd_bytes = ''xy'', rd_error = None\<rparr> \<lparr>uo_content_type = [], uo_metadata = []\<rparr> demo_env demo_disk))
     [''srv'', ''app.env''] = Some ''key''"
proof -
  have f: "sanitizeAttachmentFilename ''../../app.env'' = ''app.env''" by code_simp
  have p: "place (os_cwd demo_env) (ls_base_path demo_store) = [''srv'', ''uploads'']" by code_simp
  have "files demo_disk [''srv'', ''app.env''] = Some ''key''" by code_simp
  moreover have "files (snd (Local_Upload demo_store (FK_TaskAttachment ''attachments'' tag (tag @ ''-'' @ sanitizeAttachmentFilename ''../../app.env''))
       \<lparr>rd_bytes = ''xy'', rd_error = None\<rparr> \<lparr>uo_content_type = [], uo_metadata = []\<rparr> demo_env demo_disk))
     [''srv'', ''app.env''] = files demo_disk [''srv'', ''app.env'']"
    by (rule attachments_confined [OF _ _ _ _ _ prod.collapse [symmetric]])
      (simp_all add: f p tag_def demo_store_def)
  ultimately show ?thesis by simp
qed

theorem list_first_keys_witness:
  "\<exists>fs d. Local_List demo_store ''x'' 9 demo_env demo_disk = (Ok fs, d) \<and> map fm_key fs = [''a'']
     \<and> files d = files demo_disk"
proof -
  let ?x = "Folder [(''a'', File ''hi'' 0)]"
  have l: "list_dir demo_store ''x'' = ''uploads''" "place (os_cwd demo_env) ''uploads'' = [''srv'', ''uploads'']"
    "resolve (dk_root demo_disk) [''srv'', ''uploads''] = Ok ?x" "NUL \<notin> set ''uploads''"
    "os_fault demo_env (dk_calls demo_disk) = None"
    "map fm_key (listed demo_store (node_info demo_env (dk_calls demo_disk)) ''uploads'' ?x) = [''a'']"
    by code_simp+
  let ?fs = "take (nat 9) (listed demo_store (node_info demo_env (dk_calls demo_disk)) ''uploads'' ?x)"
  from list_first_keys [of demo_store "''x''" 9 demo_env demo_disk ?fs _ ?x] l
  obtain d where run: "Local_List demo_store ''x'' 9 demo_env demo_disk = (Ok ?fs, d)" by auto
  moreover have "files d = files demo_disk"
    using list_first_keys [of demo_store "''x''" 9 demo_env demo_disk ?fs d ?x] run by blast
  moreover have "map fm_key ?fs = [''a'']" unfolding take_map [symmetric] l(6) by simp
  ultimately show ?thesis by (intro exI conjI)
qed

theorem empty_prefix_lists_parent_witness:
  "\<exists>maxKeys fs d. Local_List demo_store [] maxKeys demo_env demo_disk = (Ok fs, d) \<and> ''../app.env'' \<in> fm_key ` set fs"
proof -
  have "elements (ls_base_path demo_store) = [] @ [''uploads'']" by code_simp
  moreover have "files demo_disk (place (os_cwd demo_env) (path_text (is_rooted (ls_base_path demo_store)) []) @ [''app.env''])
      = Some ''key''" by code_simp
  ultimately obtain N where "\<forall>maxKeys\<ge>N. \<exists>fs d'. Local_List demo_store [] maxKeys demo_env demo_disk = (Ok fs, d')
     \<and> ''../'' @ ''app.env'' \<in> fm_key ` set fs"
    using empty_prefix_lists_parent [of demo_store "[]" "''uploads''" "''app.env''" demo_env demo_disk "''key''"]
    by (auto simp: plain_def demo_store_def demo_env_def NUL_def)
  then have "\<exists>fs d'. Local_List demo_store [] N demo_env demo_disk = (Ok fs, d') \<and> ''../'' @ ''app.env'' \<in> fm_key ` set fs"
    by blast
  then show ?thesis by auto
qed

theorem local_upload_download_witness:
  "\<exists>m d1 m' d2. Local_Upload demo_store ''t//./k'' \<lparr>rd_bytes = ''xy'', rd_error = None\<rparr>
        \<lparr>uo_content_type = [], uo_metadata = []\<rparr> demo_env demo_disk = (Ok m, d1)
    \<and> Local_Download demo_store ''t//./k'' demo_env d1 = (Ok (\<lparr>rd_bytes = ''xy'', rd_error = None\<rparr>, m'), d2)
    \<and> fm_size m = 2 \<and> fm_size m' = 2"
proof -
  have q: "key_place demo_env demo_store ''t//./k'' = [''srv'', ''uploads'', ''t'', ''k'']" by code_simp
  have n: "names (split_on slash ''t//./k'') = [''t'', ''k'']" by code_simp
  have x: "NUL \<notin> set (full_path demo_store ''t//./k'')"
    "\<forall>x\<in>set (elements (ls_base_path demo_store)) \<union> set (split_on slash ''t//./k''). x \<noteq> ''..''"
    "folder_at (dk_root demo_disk) []" "folder_at (dk_root demo_disk) (os_cwd demo_env)"
    "\<not> folder_at (dk_root demo_disk) [''srv'', ''uploads'', ''t'', ''k'']"
    by code_simp+
  have "files demo_disk p = None" if "strict_prefix p [''srv'', ''uploads'', ''t'', ''k'']" for p
  proof -
    have "\<forall>i\<in>set [0, 1, 2, 3]. files demo_disk (take i [''srv'', ''uploads'', ''t'', ''k'']) = None" by code_simp
    then have all: "\<forall>i<4. files demo_disk (take i [''srv'', ''uploads'', ''t'', ''k'']) = None"
      by (simp add: less_Suc_eq numeral_eq_Suc)
    have len: "length p < 4" using prefix_length_less [OF that] by simp
    have p: "take (length p) [''srv'', ''uploads'', ''t'', ''k''] = p"
    proof -
      from that obtain r where r: "[''srv'', ''uploads'', ''t'', ''k''] = p @ r"
        unfolding strict_prefix_def prefix_def by blast
      show ?thesis unfolding r by simp
    qed
    show ?thesis by (rule subst [OF p]) (rule all [rule_format, OF len])
  qed
  then have "clear_way demo_env demo_store ''t//./k'' demo_disk"
    using x unfolding clear_way_def q n by blast
  then show ?thesis
    using local_upload_download [of demo_store demo_env "''t//./k''" demo_disk "''xy''"]
    by (simp add: demo_store_def demo_env_def)
qed

end
