(* ===== verification/QueryBuilders.thy ===== *)
theory QueryBuilders
  imports Examples "HOL-Library.Multiset"
begin

text \<open>
  The query builders of \<open>infrastructure/database/querybuilder\<close> that no use case calls yet:
  \<open>FindWithFilter\<close> for tasks, \<open>FindWithFilter\<close> and \<open>Search\<close> for users.  \<open>Repositories\<close> has the
  task search, the paging and the sorting that both builders share.
\<close>

section \<open>Tasks\<close>

text \<open>An absent status and an empty one are the same; labels and \<open>IsOverdue\<close> are not looked at.\<close>

definition stringPtrToString :: "string option \<Rightarrow> string" where
  "stringPtrToString s = (case s of None \<Rightarrow> [] | Some x \<Rightarrow> x)"

definition task_matches :: "(string \<Rightarrow> string \<Rightarrow> bool) \<Rightarrow> task_filter \<Rightarrow> task_row \<Rightarrow> bool" where
  "task_matches ilike f r \<longleftrightarrow>
     (stringPtrToString (tf_status f) = [] \<or> tr_status r = stringPtrToString (tf_status f))
     \<and> (stringPtrToString (tf_priority f) = [] \<or> tr_priority r = stringPtrToString (tf_priority f))
     \<and> (case tf_assignee f of None \<Rightarrow> True | Some a \<Rightarrow> tr_assignee r = Some a)
     \<and> (case tf_creator f of None \<Rightarrow> True | Some c \<Rightarrow> tr_creator r = c)
     \<and> title_matches ilike (tf_search f) r"

definition sort_column :: "pagination \<Rightarrow> string" where
  "sort_column p = (if pg_sort_by p = [] then ''created_at'' else pg_sort_by p)"

definition TQB_FindWithFilter :: "task_filter \<Rightarrow> pagination \<Rightarrow> (task list \<times> int) go" where
  "TQB_FindWithFilter f p =
     andthen (asks e_pg_ilike) (\<lambda>ilike.
     andthen (asks e_pg_collate) (\<lambda>collate.
     andthen (sql (count_rows (task_matches ilike f))) (\<lambda>total.
     if total = 0 then ret ([], 0)
     else
       andthen (sql (\<lambda>now d. (builder_page p
           (let rows = filter (task_matches ilike f) (db_tasks d) in
            case allowed_column (sort_column p) of
              Some col \<Rightarrow> order_rows collate col (pg_sort_desc p) rows
            | None \<Rightarrow> rows), d))) (\<lambda>rows.
       andthen (lift (scanTasks rows)) (\<lambda>tasks. ret (tasks, total))))))"

section \<open>Users\<close>

definition UserAllowedSortColumns :: "string list" where
  "UserAllowedSortColumns = [''name'', ''email'', ''created_at'', ''updated_at'']"

definition user_column :: "string \<Rightarrow> string option" where
  "user_column sortBy = find (\<lambda>c. fold_case sortBy = c) UserAllowedSortColumns"

definition user_column_value :: "(string \<Rightarrow> nat) \<Rightarrow> string \<Rightarrow> user_row \<Rightarrow> int" where
  "user_column_value collate col r =
     (if col = ''name'' then int (collate (ur_name r))
      else if col = ''email'' then int (collate (ur_email r))
      else if col = ''created_at'' then ur_created r
      else ur_updated r)"

definition order_users :: "(string \<Rightarrow> nat) \<Rightarrow> string \<Rightarrow> bool \<Rightarrow> user_row list \<Rightarrow> user_row list" where
  "order_users collate col desc rows =
     sort_key (\<lambda>r. (if desc then -1 else 1) * user_column_value collate col r) rows"

definition user_matches ::
  "(string \<Rightarrow> string \<Rightarrow> bool) \<Rightarrow> user_filter \<Rightarrow> db \<Rightarrow> user_row \<Rightarrow> bool" where
  "user_matches ilike f d r \<longleftrightarrow>
     (uf_search f = [] \<or> ilike (ur_name r) (''%'' @ uf_search f @ ''%''))
     \<and> (case uf_role f of None \<Rightarrow> True | Some i \<Rightarrow> ur_id r \<in> fst ` {x \<in> set (db_user_roles d). snd x = i})"

definition user_text_matches ::
  "(string \<Rightarrow> string \<Rightarrow> bool) \<Rightarrow> string \<Rightarrow> db \<Rightarrow> user_row \<Rightarrow> bool" where
  "user_text_matches ilike query d r \<longleftrightarrow>
     query = [] \<or> ilike (ur_name r) (''%'' @ query @ ''%'') \<or> ilike (ur_email r) (''%'' @ query @ ''%'')"

definition scanUsers :: "user_row list \<Rightarrow> user list" where
  "scanUsers rows = map sqlcUserToEntity rows"

text \<open>
  The common shape of both: count, stop at zero, select a page of the matching rows in the order
  of the column, when one is asked for that is allowed.
\<close>

definition user_query ::
  "((string \<Rightarrow> string \<Rightarrow> bool) \<Rightarrow> db \<Rightarrow> user_row \<Rightarrow> bool) \<Rightarrow> string \<Rightarrow> pagination \<Rightarrow> (user list \<times> int) go" where
  "user_query test sortBy p =
     andthen (asks e_pg_ilike) (\<lambda>ilike.
     andthen (asks e_pg_collate) (\<lambda>collate.
     andthen (sql (q_read (\<lambda>d. int (length (filter (test ilike d) (db_users d)))))) (\<lambda>total.
     if total = 0 then ret ([], 0)
     else
       andthen (sql (\<lambda>now d. (builder_page p
           (let rows = filter (test ilike d) (db_users d) in
            case user_column sortBy of
              Some col \<Rightarrow> order_users collate col (pg_sort_desc p) rows
            | None \<Rightarrow> rows), d))) (\<lambda>rows.
       ret (scanUsers rows, total)))))"

definition UQB_FindWithFilter :: "user_filter \<Rightarrow> pagination \<Rightarrow> (user list \<times> int) go" where
  "UQB_FindWithFilter f p = user_query (\<lambda>ilike. user_matches ilike f) (sort_column p) p"

text \<open>No column is allowed that is empty, so an empty \<open>SortBy\<close> leaves the order to the server.\<close>

definition UQB_Search :: "string \<Rightarrow> pagination \<Rightarrow> (user list \<times> int) go" where
  "UQB_Search query p = user_query (\<lambda>ilike. user_text_matches ilike query) (pg_sort_by p) p"

section \<open>Paging through a result\<close>

lemma concat_pages:
  "concat (map (\<lambda>i. take k (drop (i * k) xs)) [0..<m]) = take (m * k) xs"
proof (induction m)
  case (Suc m)
  have "take (k + m * k) xs = take (m * k) xs @ take k (drop (m * k) xs)"
    by (metis add.commute take_add)
  with Suc show ?case by simp
qed simp

definition page_no :: "pagination \<Rightarrow> nat \<Rightarrow> pagination" where
  "page_no p i = p\<lparr>pg_page := int (Suc i)\<rparr>"

lemma page_no_simps [simp]:
  "pg_page (page_no p i) = int (Suc i)" "pg_size (page_no p i) = pg_size p"
  "pg_sort_by (page_no p i) = pg_sort_by p" "pg_sort_desc (page_no p i) = pg_sort_desc p"
  by (simp_all add: page_no_def)

lemma builder_page_no:
  assumes "i < 2 ^ 50"
  shows "builder_page (page_no p i) rows =
    Ok (take (nat (builder_page_size p)) (drop (i * nat (builder_page_size p)) rows))"
proof -
  have k: "0 < builder_page_size p" "builder_page_size p \<le> 100" by (auto simp: builder_page_size_def Let_def)
  have "int i < 2 ^ 50" using assms by (simp add: of_nat_less_iff [symmetric] del: of_nat_less_iff)
  then have b: "int i * builder_page_size p \<le> 2 ^ 50 * 100" using k by (intro mult_mono) auto
  then have "to_int64 (to_int64 (int i) * builder_page_size p) = int i * builder_page_size p"
  proof -
    have "0 \<le> int i * builder_page_size p" using k by simp
    with b have "to_int64 (int i * builder_page_size p) = int i * builder_page_size p"
      by (intro to_int64_id) simp_all
    moreover have "to_int64 (int i) = int i" using \<open>int i < 2 ^ 50\<close> by (intro to_int64_id) simp_all
    ultimately show ?thesis by simp
  qed
  moreover have "builder_page_size (page_no p i) = builder_page_size p"
    by (simp add: builder_page_size_def)
  ultimately have "builder_offset (page_no p i) = int i * builder_page_size p"
    by (simp add: builder_offset_def)
  moreover have "\<not> int i * builder_page_size p < 0" using k by (simp add: not_less)
  ultimately show ?thesis using k \<open>builder_page_size (page_no p i) = builder_page_size p\<close>
    by (simp add: builder_page_def nat_mult_distrib)
qed

text \<open>The matching users, in the order of the query.\<close>

definition query_rows ::
  "env \<Rightarrow> ((string \<Rightarrow> string \<Rightarrow> bool) \<Rightarrow> db \<Rightarrow> user_row \<Rightarrow> bool) \<Rightarrow> string \<Rightarrow> pagination \<Rightarrow> db \<Rightarrow> user_row list" where
  "query_rows e test sortBy p d =
     (let rows = filter (test (e_pg_ilike e) d) (db_users d) in
      case user_column sortBy of
        Some col \<Rightarrow> order_users (e_pg_collate e) col (pg_sort_desc p) rows
      | None \<Rightarrow> rows)"

lemma query_rows_mset [simp]:
  "mset (query_rows e test sortBy p d) = mset (filter (test (e_pg_ilike e) d) (db_users d))"
  by (simp add: query_rows_def order_users_def Let_def split: option.splits)

lemma query_rows_length:
  "length (query_rows e test sortBy p d) = length (filter (test (e_pg_ilike e) d) (db_users d))"
  using mset_eq_length [OF query_rows_mset] .

lemma query_rows_page_no [simp]: "query_rows e test sortBy (page_no p i) d = query_rows e test sortBy p d"
  by (cases "user_column sortBy") (simp_all add: query_rows_def)

definition page_of :: "nat \<Rightarrow> pagination \<Rightarrow> 'a list \<Rightarrow> 'a list" where
  "page_of i p xs = take (nat (builder_page_size p)) (drop (i * nat (builder_page_size p)) xs)"

lemma user_query_run:
  assumes "fault_free e" "w_tx_time w = None" "i < 2 ^ 50"
  shows "fst (user_query test sortBy (page_no p i) e w) =
    Ok (map sqlcUserToEntity (page_of i p (query_rows e test sortBy p (w_db w))),
        int (length (query_rows e test sortBy p (w_db w))))"
proof (cases "filter (test (e_pg_ilike e) (w_db w)) (db_users (w_db w)) = []")
  case True
  then have "query_rows e test sortBy p (w_db w) = []" using query_rows_length [of e test sortBy p "w_db w"] by simp
  then show ?thesis using True assms by (simp add: user_query_def andthen_def sql_run q_read_def page_of_def)
next
  case False
  have "builder_page (page_no p i) (let rows = filter (test (e_pg_ilike e) (w_db w)) (db_users (w_db w)) in
            case user_column sortBy of
              Some col \<Rightarrow> order_users (e_pg_collate e) col (pg_sort_desc (page_no p i)) rows
            | None \<Rightarrow> rows) = Ok (page_of i p (query_rows e test sortBy p (w_db w)))"
    using builder_page_no [OF assms(3)]
    by (cases "user_column sortBy") (simp_all add: query_rows_def page_of_def)
  then show ?thesis using False assms
    by (simp add: user_query_def andthen_def sql_run q_read_def scanUsers_def query_rows_length)
qed

definition answered :: "('a list \<times> int) result \<Rightarrow> 'a list" where
  "answered r = (case r of Ok (xs, n) \<Rightarrow> xs | _ \<Rightarrow> [])"

lemma user_pages:
  assumes "fault_free e" "w_tx_time w = None" "m \<le> 2 ^ 50"
  shows "concat (map (\<lambda>i. answered (fst (user_query test sortBy (page_no p i) e w))) [0..<m]) =
    map sqlcUserToEntity (take (m * nat (builder_page_size p)) (query_rows e test sortBy p (w_db w)))"
proof -
  let ?rows = "query_rows e test sortBy p (w_db w)"
  have "map (\<lambda>i. answered (fst (user_query test sortBy (page_no p i) e w))) [0..<m] =
    map (\<lambda>i. map sqlcUserToEntity (page_of i p ?rows)) [0..<m]"
    using assms by (intro map_cong) (simp_all add: user_query_run answered_def)
  also have "concat \<dots> = map sqlcUserToEntity (concat (map (\<lambda>i. page_of i p ?rows) [0..<m]))"
    by (simp add: map_concat comp_def)
  finally show ?thesis unfolding page_of_def concat_pages .
qed

text \<open>
  Paging through \<open>FindWithFilter\<close> of the users gives every matching user exactly once: while the
  tables stay the same, the pages together are the matching rows, up to their order, as soon as there
  are enough pages for the total that every page reports.
\<close>

theorem user_pages_complete:
  assumes "fault_free e" "w_tx_time w = None" "m \<le> 2 ^ 50"
    and "length (filter (user_matches (e_pg_ilike e) f (w_db w)) (db_users (w_db w))) \<le> m * nat (builder_page_size p)"
  shows "mset (concat (map (\<lambda>i. answered (fst (UQB_FindWithFilter f (page_no p i) e w))) [0..<m]))
      = mset (map sqlcUserToEntity (filter (user_matches (e_pg_ilike e) f (w_db w)) (db_users (w_db w))))
    \<and> (\<forall>i<m. \<exists>us. fst (UQB_FindWithFilter f (page_no p i) e w) =
          Ok (us, int (length (filter (user_matches (e_pg_ilike e) f (w_db w)) (db_users (w_db w))))))"
proof -
  let ?t = "\<lambda>ilike. user_matches ilike f"
  let ?rows = "query_rows e ?t (sort_column p) p (w_db w)"
  have s: "sort_column (page_no p i) = sort_column p" for i by (simp add: sort_column_def)
  have "concat (map (\<lambda>i. answered (fst (UQB_FindWithFilter f (page_no p i) e w))) [0..<m]) =
      map sqlcUserToEntity (take (m * nat (builder_page_size p)) ?rows)"
    using user_pages [OF assms(1-3), of ?t "sort_column p" p] by (simp add: UQB_FindWithFilter_def s)
  also have "take (m * nat (builder_page_size p)) ?rows = ?rows"
    using assms(4) query_rows_length [of e ?t "sort_column p" p "w_db w"] by simp
  finally show ?thesis using user_query_run [OF assms(1,2), of _ ?t "sort_column p" p] assms(3)
    by (auto simp: UQB_FindWithFilter_def s query_rows_length mset_map)
qed

theorem user_pages_complete_witness:
  "mset (concat (map (\<lambda>i. answered (fst (UQB_FindWithFilter \<lparr>uf_search = [], uf_role = None\<rparr>
       (page_no \<lparr>pg_page = 1, pg_size = 1, pg_sort_by = ''name'', pg_sort_desc = True\<rparr> i) example_env example_world))) [0..<2]))
   = mset (map sqlcUserToEntity [ada, bob])"
  using user_pages_complete [of example_env example_world 2 "\<lparr>uf_search = [], uf_role = None\<rparr>"
      "\<lparr>pg_page = 1, pg_size = 1, pg_sort_by = ''name'', pg_sort_desc = True\<rparr>"]
  by (simp add: user_matches_def builder_page_size_def)

end
