(* ===== verification/RedisCache.thy ===== *)
theory RedisCache
  imports MemoryCache
begin

text \<open>
  The Redis cache of \<open>internal/infrastructure/cache/redis/cache\_repository.go\<close>, the one that
  \<open>cmd/server\<close> connects to.  The client of the Redis library is a parameter: one function per command
  that the code sends, on the state of the server.  \<open>redis\_documented\<close> collects what the
  documentation of the commands promises; everything shown here is shown under it.
\<close>

section \<open>The client\<close>

record 's redis_client =
  rc_get :: "string \<Rightarrow> 's \<Rightarrow> string result \<times> 's"
  rc_set :: "string \<Rightarrow> string \<Rightarrow> duration \<Rightarrow> 's \<Rightarrow> unit result \<times> 's"
  rc_del :: "string \<Rightarrow> 's \<Rightarrow> int result \<times> 's"
  rc_exists :: "string \<Rightarrow> 's \<Rightarrow> int result \<times> 's"
  rc_setnx :: "string \<Rightarrow> string \<Rightarrow> duration \<Rightarrow> 's \<Rightarrow> bool result \<times> 's"
  rc_expire :: "string \<Rightarrow> duration \<Rightarrow> 's \<Rightarrow> bool result \<times> 's"
  rc_incrby :: "string \<Rightarrow> int \<Rightarrow> 's \<Rightarrow> int result \<times> 's"
  rc_scan :: "nat \<Rightarrow> string \<Rightarrow> int \<Rightarrow> 's \<Rightarrow> (string list \<times> nat) result \<times> 's"
  rc_mget :: "string list \<Rightarrow> 's \<Rightarrow> string option list result \<times> 's"
  rc_pipeline :: "(string \<times> string \<times> duration) list \<Rightarrow> 's \<Rightarrow> unit result \<times> 's"
  rc_ping :: "'s \<Rightarrow> unit result \<times> 's"

definition redis_Nil :: go_error where
  "redis_Nil = Sentinel ''redis'' ''Nil''"

text \<open>\<open>if err != nil { return ..., fmt.Errorf(msg, err) }\<close>, and what is made of an answer.\<close>

definition redis_call :: "string \<Rightarrow> ('a \<Rightarrow> 'b result) \<Rightarrow> 'a result \<times> 's \<Rightarrow> 'b result \<times> 's" where
  "redis_call msg f rs =
     (case rs of
        (Ok x, s) \<Rightarrow> (f x, s)
      | (Err err, s) \<Rightarrow> (Err (Errorf msg (Some err)), s)
      | (Panic p, s) \<Rightarrow> (Panic p, s))"

section \<open>The methods\<close>

definition NewCacheRepository :: "'s redis_client \<Rightarrow> 's \<Rightarrow> 's redis_client result \<times> 's" where
  "NewCacheRepository c s = redis_call ''failed to connect to Redis'' (\<lambda>_. Ok c) (rc_ping c s)"

definition Redis_Get :: "'s redis_client \<Rightarrow> string \<Rightarrow> 's \<Rightarrow> string option result \<times> 's" where
  "Redis_Get c key s =
     (case rc_get c key s of
        (Ok val, s') \<Rightarrow> (Ok (Some val), s')
      | (Err err, s') \<Rightarrow>
          if err = redis_Nil then (Ok None, s')
          else (Err (Errorf ''redis get failed'' (Some err)), s')
      | (Panic p, s') \<Rightarrow> (Panic p, s'))"

definition Redis_Set :: "'s redis_client \<Rightarrow> string \<Rightarrow> string \<Rightarrow> duration \<Rightarrow> 's \<Rightarrow> unit result \<times> 's" where
  "Redis_Set c key v expiration s = redis_call ''redis set failed'' Ok (rc_set c key v expiration s)"

definition Redis_Delete :: "'s redis_client \<Rightarrow> string \<Rightarrow> 's \<Rightarrow> unit result \<times> 's" where
  "Redis_Delete c key s = redis_call ''redis delete failed'' (\<lambda>_. Ok ()) (rc_del c key s)"

definition Redis_Exists :: "'s redis_client \<Rightarrow> string \<Rightarrow> 's \<Rightarrow> bool result \<times> 's" where
  "Redis_Exists c key s = redis_call ''redis exists failed'' (\<lambda>n. Ok (n > 0)) (rc_exists c key s)"

definition Redis_SetNX ::
  "'s redis_client \<Rightarrow> string \<Rightarrow> string \<Rightarrow> duration \<Rightarrow> 's \<Rightarrow> bool result \<times> 's" where
  "Redis_SetNX c key v expiration s = redis_call ''redis setnx failed'' Ok (rc_setnx c key v expiration s)"

definition Redis_Expire :: "'s redis_client \<Rightarrow> string \<Rightarrow> duration \<Rightarrow> 's \<Rightarrow> unit result \<times> 's" where
  "Redis_Expire c key expiration s = redis_call ''redis expire failed'' (\<lambda>_. Ok ()) (rc_expire c key expiration s)"

definition Redis_Increment :: "'s redis_client \<Rightarrow> string \<Rightarrow> int \<Rightarrow> 's \<Rightarrow> int result \<times> 's" where
  "Redis_Increment c key v s = redis_call ''redis incrby failed'' Ok (rc_incrby c key v s)"

text \<open>
  The iterator of the library walks through a page, then asks for the next one unless the cursor of
  the last answer is 0.  Nothing bounds the number of pages but the server: the loop may run for ever.
\<close>

fun delete_page :: "'s redis_client \<Rightarrow> string list \<Rightarrow> 's \<Rightarrow> unit result \<times> 's" where
  "delete_page c [] s = (Ok (), s)"
| "delete_page c (k # ks) s =
     (case redis_call ''redis delete pattern failed'' (\<lambda>_. Ok ()) (rc_del c k s) of
        (Ok _, s') \<Rightarrow> delete_page c ks s'
      | (r, s') \<Rightarrow> (r, s'))"

partial_function (option) scan_loop ::
  "'s redis_client \<Rightarrow> string \<Rightarrow> nat \<Rightarrow> 's \<Rightarrow> (unit result \<times> 's) option" where
  "scan_loop c pat cursor s =
     (case rc_scan c cursor pat 100 s of
        (Ok (page, cursor'), s1) \<Rightarrow>
          (case delete_page c page s1 of
             (Ok _, s2) \<Rightarrow> if cursor' = 0 then Some (Ok (), s2) else scan_loop c pat cursor' s2
           | (Err err, s2) \<Rightarrow> Some (Err err, s2)
           | (Panic p, s2) \<Rightarrow> Some (Panic p, s2))
      | (Err err, s1) \<Rightarrow> Some (Err (Errorf ''redis scan failed'' (Some err)), s1)
      | (Panic p, s1) \<Rightarrow> Some (Panic p, s1))"

definition Redis_DeletePattern :: "'s redis_client \<Rightarrow> string \<Rightarrow> 's \<Rightarrow> (unit result \<times> 's) option" where
  "Redis_DeletePattern c pat s = scan_loop c pat 0 s"

fun found_values :: "string list \<Rightarrow> string option list \<Rightarrow> (string \<rightharpoonup> string) \<Rightarrow> (string \<rightharpoonup> string)" where
  "found_values (k # ks) (v # vs) m =
     found_values ks vs (case v of None \<Rightarrow> m | Some x \<Rightarrow> m(k \<mapsto> x))"
| "found_values _ _ m = m"

definition Redis_GetMultiple ::
  "'s redis_client \<Rightarrow> string list \<Rightarrow> 's \<Rightarrow> (string \<rightharpoonup> string) result \<times> 's" where
  "Redis_GetMultiple c keys s =
     (if keys = [] then (Ok Map.empty, s)
      else redis_call ''redis mget failed''
        (\<lambda>values. if length values < length keys then Panic ''index out of range''
                  else Ok (found_values keys values Map.empty)) (rc_mget c keys s))"

text \<open>The pairs in the order in which the map is walked through.\<close>

definition Redis_SetMultiple ::
  "'s redis_client \<Rightarrow> (string \<times> string) list \<Rightarrow> duration \<Rightarrow> 's \<Rightarrow> unit result \<times> 's" where
  "Redis_SetMultiple c values expiration s =
     redis_call ''redis pipeline exec failed'' Ok
       (rc_pipeline c (map (\<lambda>(k, v). (k, v, expiration)) values) s)"

definition Redis_Health :: "'s redis_client \<Rightarrow> 's \<Rightarrow> unit result \<times> 's" where
  "Redis_Health c s = rc_ping c s"

definition Redis_GetJSON :: "(string \<Rightarrow> 'a result) \<Rightarrow> 's redis_client \<Rightarrow> string \<Rightarrow> 's \<Rightarrow> 'a result \<times> 's" where
  "Redis_GetJSON dec c key s =
     (case Redis_Get c key s of
        (Ok None, s') \<Rightarrow> (Err ErrCacheMiss, s')
      | (Ok (Some data), s') \<Rightarrow> (dec data, s')
      | (Err err, s') \<Rightarrow> (Err err, s')
      | (Panic p, s') \<Rightarrow> (Panic p, s'))"

definition Redis_SetJSON ::
  "('a \<Rightarrow> string result) \<Rightarrow> 's redis_client \<Rightarrow> string \<Rightarrow> 'a \<Rightarrow> duration \<Rightarrow> 's \<Rightarrow> unit result \<times> 's" where
  "Redis_SetJSON enc c key v expiration s =
     (case enc v of
        Ok data \<Rightarrow> Redis_Set c key data expiration s
      | Err err \<Rightarrow> (Err (Errorf ''json marshal failed'' (Some err)), s)
      | Panic p \<Rightarrow> (Panic p, s))"

section \<open>What the commands are documented to do\<close>

text \<open>
  \<open>view s t k\<close> is what the key holds at time \<open>t\<close> when no command is sent after the state \<open>s\<close>, whose
  own time is \<open>at s\<close>.  An expired key does not come back by itself.  A failing \<open>DEL\<close> may have had
  its effect.  A full iteration of \<open>SCAN\<close> returns every matching key that is present from its start
  to its end, only matching keys, and it comes to an end (\<open>rank\<close>) unless keys are added meanwhile.
\<close>

record 's redis_view =
  view :: "'s \<Rightarrow> time \<Rightarrow> string \<Rightarrow> string option"
  at :: "'s \<Rightarrow> time"
  glob :: "string \<Rightarrow> string \<Rightarrow> bool"
  rank :: "nat \<Rightarrow> 's \<Rightarrow> nat"

definition has_key :: "'s redis_view \<Rightarrow> 's \<Rightarrow> string \<Rightarrow> bool" where
  "has_key v s k \<longleftrightarrow> view v s (at v s) k \<noteq> None"

definition plain_pattern :: "string \<Rightarrow> bool" where
  "plain_pattern p \<longleftrightarrow> set p \<inter> {CHR ''*'', CHR ''?'', CHR ''['', CHR '']'', char_of (92::nat)} = {}"

text \<open>The states in which the commands of a full iteration from a cursor are sent, with their pages.\<close>

fun full_scan :: "'s redis_client \<Rightarrow> string \<Rightarrow> nat \<Rightarrow> ('s \<times> string list) list \<Rightarrow> bool" where
  "full_scan c pat cursor [] = False"
| "full_scan c pat cursor ((s, page) # rest) =
     (case rc_scan c cursor pat 100 s of
        (Ok (page', next), s') \<Rightarrow> page' = page \<and> (if next = 0 then rest = [] else full_scan c pat next rest)
      | _ \<Rightarrow> False)"

definition redis_reads :: "'s redis_client \<Rightarrow> 's redis_view \<Rightarrow> bool" where
  "redis_reads c v \<longleftrightarrow>
     (\<forall>s t k. view v s (at v s) k = None \<longrightarrow> at v s \<le> t \<longrightarrow> view v s t k = None)
     \<and> (\<forall>k s r s'. rc_get c k s = (r, s') \<longrightarrow> view v s' = view v s \<and> at v s \<le> at v s'
          \<and> (\<forall>x. r = Ok x \<longrightarrow> view v s (at v s) k = Some x)
          \<and> (r = Err redis_Nil \<longrightarrow> view v s (at v s) k = None))"

definition redis_writes :: "'s redis_client \<Rightarrow> 's redis_view \<Rightarrow> bool" where
  "redis_writes c v \<longleftrightarrow>
     (\<forall>k x d s s'. rc_set c k x d s = (Ok (), s') \<longrightarrow> at v s \<le> at v s'
        \<and> (\<forall>t k'. k' \<noteq> k \<longrightarrow> view v s' t k' = view v s t k')
        \<and> (\<forall>t. (d = 0 \<or> t < at v s + d) \<longrightarrow> view v s' t k = Some x))
     \<and> (\<forall>k s r s'. rc_del c k s = (r, s') \<longrightarrow> at v s \<le> at v s'
          \<and> (view v s' = (\<lambda>t. (view v s t)(k := None)) \<or> view v s' = view v s \<and> (\<forall>n. r \<noteq> Ok n)))"

definition redis_scans :: "'s redis_client \<Rightarrow> 's redis_view \<Rightarrow> bool" where
  "redis_scans c v \<longleftrightarrow>
     (\<forall>cur pat n s r s'. rc_scan c cur pat n s = (r, s') \<longrightarrow> at v s \<le> at v s' \<and> view v s' = view v s
        \<and> (\<forall>page next. r = Ok (page, next) \<longrightarrow> (\<forall>k\<in>set page. glob v pat k)
             \<and> (next \<noteq> 0 \<longrightarrow> rank v next s' < rank v cur s)))
     \<and> (\<forall>k s r s' cur. rc_del c k s = (r, s') \<longrightarrow> rank v cur s' \<le> rank v cur s)
     \<and> (\<forall>pat steps k. full_scan c pat 0 steps \<longrightarrow> glob v pat k
          \<longrightarrow> (\<forall>(s, page)\<in>set steps. has_key v s k) \<longrightarrow> (\<exists>(s, page)\<in>set steps. k \<in> set page))
     \<and> (\<forall>p k. plain_pattern p \<longrightarrow> glob v (p @ ''*'') k = prefix p k)"

definition redis_documented :: "'s redis_client \<Rightarrow> 's redis_view \<Rightarrow> bool" where
  "redis_documented c v \<longleftrightarrow> redis_reads c v \<and> redis_writes c v \<and> redis_scans c v"

section \<open>Deleting by pattern\<close>

text \<open>A key that is gone stays gone while nothing but \<open>DEL\<close> and \<open>SCAN\<close> is sent.\<close>

definition shrinks :: "'s redis_view \<Rightarrow> 's \<Rightarrow> 's \<Rightarrow> (string \<Rightarrow> bool) \<Rightarrow> bool" where
  "shrinks v s s' P \<longleftrightarrow> at v s \<le> at v s' \<and> (\<forall>t k. view v s' t k = view v s t k \<or> (view v s' t k = None \<and> P k))"

lemma shrinks_refl: "shrinks v s s P"
  by (simp add: shrinks_def)

lemma shrinks_trans: "shrinks v s s1 P \<Longrightarrow> shrinks v s1 s2 P \<Longrightarrow> shrinks v s s2 P"
  unfolding shrinks_def by (metis order_trans)

lemma shrinks_gone:
  assumes "redis_reads c v" "shrinks v s s' P" "\<not> has_key v s k"
  shows "\<not> has_key v s' k"
proof -
  have "view v s (at v s') k = None"
    using assms unfolding redis_reads_def has_key_def shrinks_def by blast
  then show ?thesis using assms(2) unfolding shrinks_def has_key_def by metis
qed

lemma shrinks_mono: "shrinks v s s' P \<Longrightarrow> (\<And>k. P k \<Longrightarrow> Q k) \<Longrightarrow> shrinks v s s' Q"
  unfolding shrinks_def by blast

lemma shrinks_None: "shrinks v s s' P \<Longrightarrow> view v s t k = None \<Longrightarrow> view v s' t k = None"
  unfolding shrinks_def by metis

lemma del_shrinks:
  assumes "redis_writes c v" "rc_del c k s = (r, s')"
  shows "shrinks v s s' (\<lambda>x. x = k)" and "r = Ok n \<Longrightarrow> view v s' t k = None"
proof -
  from assms have at: "at v s \<le> at v s'"
    and v: "view v s' = (\<lambda>t. (view v s t)(k := None)) \<or> view v s' = view v s \<and> (\<forall>n. r \<noteq> Ok n)"
    unfolding redis_writes_def by blast+
  from v show "shrinks v s s' (\<lambda>x. x = k)" using at by (auto simp: shrinks_def split: if_splits)
  from v show "r = Ok n \<Longrightarrow> view v s' t k = None" by auto
qed

lemma delete_page_shrinks:
  assumes "redis_writes c v"
  shows "delete_page c ks s = (r, s') \<Longrightarrow> shrinks v s s' (\<lambda>k. k \<in> set ks)
      \<and> (redis_scans c v \<longrightarrow> rank v cur s' \<le> rank v cur s)
      \<and> (r = Ok () \<longrightarrow> (\<forall>k\<in>set ks. \<forall>t. view v s' t k = None))"
proof (induction ks arbitrary: s)
  case Nil
  then show ?case by (simp add: shrinks_refl)
next
  case (Cons k ks)
  obtain r0 s0 where del: "rc_del c k s = (r0, s0)" by fastforce
  note first = del_shrinks [OF assms del]
  have rank: "redis_scans c v \<longrightarrow> rank v cur s0 \<le> rank v cur s"
    using del unfolding redis_scans_def by blast
  show ?case
  proof (cases r0)
    case (Ok n)
    with Cons.prems del have "delete_page c ks s0 = (r, s')" by (simp add: redis_call_def)
    from Cons.IH [OF this] have rest: "shrinks v s0 s' (\<lambda>k. k \<in> set ks)"
      "redis_scans c v \<longrightarrow> rank v cur s' \<le> rank v cur s0"
      "r = Ok () \<longrightarrow> (\<forall>k\<in>set ks. \<forall>t. view v s' t k = None)" by blast+
    have "view v s' t k = None" for t
      using shrinks_None [OF rest(1)] first(2) [OF Ok] by blast
    moreover have "shrinks v s s' (\<lambda>x. x \<in> set (k # ks))"
      using shrinks_trans [OF shrinks_mono [OF first(1)] shrinks_mono [OF rest(1)]] by simp
    ultimately show ?thesis using rest rank by auto
  qed (use Cons.prems del first(1) rank in \<open>auto simp: redis_call_def intro: shrinks_mono\<close>)
qed

definition scanned :: "'s redis_view \<Rightarrow> 's \<Rightarrow> ('s \<times> string list) list \<Rightarrow> bool" where
  "scanned v s' steps \<longleftrightarrow>
     (\<forall>(s, page)\<in>set steps. \<forall>k. k \<in> set page \<or> \<not> has_key v s k \<longrightarrow> \<not> has_key v s' k)"

lemma scanned_Cons:
  "(\<And>k. k \<in> set page \<or> \<not> has_key v s k \<Longrightarrow> \<not> has_key v s' k) \<Longrightarrow> scanned v s' steps
     \<Longrightarrow> scanned v s' ((s, page) # steps)"
  by (auto simp: scanned_def)

lemma scan_loop_deletes:
  assumes doc: "redis_documented c v"
  shows "\<exists>r s'. scan_loop c pat cur s = Some (r, s') \<and> shrinks v s s' (glob v pat)
    \<and> (r = Ok () \<longrightarrow> (\<exists>steps. full_scan c pat cur steps \<and> scanned v s' steps))"
proof (induction "rank v cur s" arbitrary: cur s rule: less_induct)
  case less
  have reads: "redis_reads c v" and writes: "redis_writes c v" and scans: "redis_scans c v"
    using doc by (simp_all add: redis_documented_def)
  obtain r1 s1 where scan: "rc_scan c cur pat 100 s = (r1, s1)" by fastforce
  have sh1: "shrinks v s s1 (glob v pat)" and page_glob: "\<And>page next. r1 = Ok (page, next) \<Longrightarrow> \<forall>k\<in>set page. glob v pat k"
    and smaller: "\<And>page next. r1 = Ok (page, next) \<Longrightarrow> next \<noteq> 0 \<Longrightarrow> rank v next s1 < rank v cur s"
    using scans scan unfolding redis_scans_def shrinks_def by metis+
  show ?case
  proof (cases r1)
    case (Ok pn)
    obtain page "next" where pn: "pn = (page, next)" by fastforce
    obtain r2 s2 where del: "delete_page c page s1 = (r2, s2)" by fastforce
    note d = delete_page_shrinks [OF writes del]
    have sh2: "shrinks v s s2 (glob v pat)"
      using shrinks_trans [OF sh1 shrinks_mono [OF conjunct1 [OF d]]] page_glob Ok pn by blast
    have gone: "\<not> has_key v s2 k" if "r2 = Ok ()" "k \<in> set page \<or> \<not> has_key v s k" for k
      using that d shrinks_gone [OF reads sh2] by (auto simp: has_key_def)
    show ?thesis
    proof (cases "r2 = Ok () \<and> next \<noteq> 0")
      case True
      then have "rank v next s2 < rank v cur s"
        using smaller [of page "next"] d [of "next"] scans Ok pn by fastforce
      from less [OF this] obtain r s' where l: "scan_loop c pat next s2 = Some (r, s')"
        "shrinks v s2 s' (glob v pat)"
        "r = Ok () \<longrightarrow> (\<exists>steps. full_scan c pat next steps \<and> scanned v s' steps)"
        by blast
      have "scan_loop c pat cur s = Some (r, s')"
        by (subst scan_loop.simps) (use True scan Ok pn del l(1) in simp)
      moreover have "\<not> has_key v s' k" if "k \<in> set page \<or> \<not> has_key v s k" for k
        using shrinks_gone [OF reads l(2)] gone True that by blast
      moreover have "full_scan c pat cur ((s, page) # steps)" if "full_scan c pat next steps" for steps
        using that True scan Ok pn by simp
      ultimately have "r = Ok () \<longrightarrow> (\<exists>steps. full_scan c pat cur steps \<and> scanned v s' steps)"
        using l(3) scanned_Cons by metis
      with \<open>scan_loop c pat cur s = Some (r, s')\<close> shrinks_trans [OF sh2 l(2)] show ?thesis by blast
    next
      case False
      then have "scan_loop c pat cur s = Some (r2, s2)"
        by (subst scan_loop.simps) (use scan Ok pn del in \<open>cases r2; simp\<close>)
      moreover have "full_scan c pat cur [(s, page)]" if "r2 = Ok ()" using that False scan Ok pn by simp
      moreover have "scanned v s2 [(s, page)]" if "r2 = Ok ()" using gone that by (auto simp: scanned_def)
      ultimately show ?thesis using sh2 by blast
    qed
  next
    case (Err err)
    then have "scan_loop c pat cur s = Some (Err (Errorf ''redis scan failed'' (Some err)), s1)"
      by (subst scan_loop.simps) (simp add: scan)
    with sh1 show ?thesis by auto
  next
    case (Panic p)
    then have "scan_loop c pat cur s = Some (Panic p, s1)" by (subst scan_loop.simps) (simp add: scan)
    with sh1 show ?thesis by auto
  qed
qed

text \<open>
  C30. Under the documented behaviour of Redis, and as long as nothing else writes meanwhile, deleting
  by a pattern that ends in a star comes to an end; it never touches a key outside the pattern, and
  when it returns normally no key with the prefix can be read any more.
\<close>

theorem redis_DeletePattern_deletes:
  assumes "redis_documented c v" "plain_pattern p"
  shows "\<exists>r s'. Redis_DeletePattern c (p @ ''*'') s = Some (r, s')
    \<and> (\<forall>t k. \<not> prefix p k \<longrightarrow> view v s' t k = view v s t k)
    \<and> (r = Ok () \<longrightarrow> (\<forall>k x. prefix p k \<longrightarrow> fst (Redis_Get c k s') \<noteq> Ok (Some x)))"
proof -
  have reads: "redis_reads c v" and scans: "redis_scans c v"
    using assms(1) by (simp_all add: redis_documented_def)
  from scan_loop_deletes [OF assms(1), of "p @ ''*''" 0 s] obtain r s'
    where run: "Redis_DeletePattern c (p @ ''*'') s = Some (r, s')"
      and sh: "shrinks v s s' (glob v (p @ ''*''))"
      and ok: "r = Ok () \<longrightarrow> (\<exists>steps. full_scan c (p @ ''*'') 0 steps \<and> scanned v s' steps)"
    unfolding Redis_DeletePattern_def by blast
  have star: "glob v (p @ ''*'') k = prefix p k" for k
    using scans assms(2) unfolding redis_scans_def by blast
  have "\<not> has_key v s' k" if "r = Ok ()" "prefix p k" for k
  proof
    assume has: "has_key v s' k"
    from ok that(1) obtain steps where steps: "full_scan c (p @ ''*'') 0 steps" "scanned v s' steps" by blast
    with has have "\<forall>(s, page)\<in>set steps. has_key v s k" by (auto simp: scanned_def)
    moreover have "glob v (p @ ''*'') k" using star that(2) by simp
    ultimately have "\<exists>(s, page)\<in>set steps. k \<in> set page"
      using scans steps(1) unfolding redis_scans_def by blast
    with steps(2) has show False by (auto simp: scanned_def)
  qed
  moreover have "has_key v s' k" if "fst (Redis_Get c k s') = Ok (Some x)" for k x
  proof -
    obtain r2 s2 where g: "rc_get c k s' = (r2, s2)" by fastforce
    with that have "r2 = Ok x" by (auto simp: Redis_Get_def split: result.splits if_splits)
    then show ?thesis using reads g unfolding redis_reads_def has_key_def by blast
  qed
  moreover have "view v s' t k = view v s t k" if "\<not> prefix p k" for t k
    using sh star that unfolding shrinks_def by blast
  ultimately show ?thesis using run by blast
qed

text \<open>
  Under the documented behaviour of Redis, what \<open>SetJSON\<close> has stored is what \<open>GetJSON\<close> decodes
  before its lifetime is over: it is never reported as a miss, only a failing command can keep it back.
\<close>

theorem redis_json_roundtrip:
  assumes "redis_documented c v" "enc a = Ok x" "dec x = Ok a"
    and "Redis_SetJSON enc c k a d s = (Ok (), s1)" "d = 0 \<or> at v s1 < at v s + d"
  shows "fst (Redis_GetJSON dec c k s1) = Ok a
    \<or> (\<exists>err. fst (Redis_GetJSON dec c k s1) = Err (Errorf ''redis get failed'' (Some err)))
    \<or> (\<exists>p. fst (Redis_GetJSON dec c k s1) = Panic p)"
proof -
  have reads: "redis_reads c v" and writes: "redis_writes c v"
    using assms(1) by (simp_all add: redis_documented_def)
  from assms(2,4) have "rc_set c k x d s = (Ok (), s1)"
    by (auto simp: Redis_SetJSON_def Redis_Set_def redis_call_def split: prod.splits result.splits)
  with writes assms(5) have stored: "view v s1 (at v s1) k = Some x"
    unfolding redis_writes_def by blast
  obtain r s2 where g: "rc_get c k s1 = (r, s2)" by fastforce
  show ?thesis
  proof (cases r)
    case (Ok y)
    with reads g stored have "y = x" unfolding redis_reads_def by fastforce
    with Ok g assms(3) show ?thesis by (simp add: Redis_GetJSON_def Redis_Get_def)
  next
    case (Err err)
    with reads g stored have "err \<noteq> redis_Nil" unfolding redis_reads_def by fastforce
    with Err g show ?thesis by (simp add: Redis_GetJSON_def Redis_Get_def)
  next
    case (Panic p)
    with g show ?thesis by (simp add: Redis_GetJSON_def Redis_Get_def)
  qed
qed

section \<open>A server that behaves as documented\<close>

type_synonym pairs = "(string \<times> string) list"

definition without :: "string \<Rightarrow> pairs \<Rightarrow> pairs" where
  "without k s = filter (\<lambda>e. fst e \<noteq> k) s"

definition star_glob :: "string \<Rightarrow> string \<Rightarrow> bool" where
  "star_glob pat k = prefix (butlast pat) k"

definition list_client :: "pairs redis_client" where
  "list_client =
     \<lparr>rc_get = (\<lambda>k s. (case map_of s k of None \<Rightarrow> Err redis_Nil | Some x \<Rightarrow> Ok x, s)),
      rc_set = (\<lambda>k x d s. (Ok (), (k, x) # without k s)),
      rc_del = (\<lambda>k s. (Ok 1, without k s)),
      rc_exists = (\<lambda>k s. (Ok (if map_of s k = None then 0 else 1), s)),
      rc_setnx = (\<lambda>k x d s. if map_of s k = None then (Ok True, (k, x) # s) else (Ok False, s)),
      rc_expire = (\<lambda>k d s. (Ok True, s)),
      rc_incrby = (\<lambda>k n s. (Err (External ''not an integer''), s)),
      rc_scan = (\<lambda>cur pat n s. (Ok (filter (star_glob pat) (map fst s), 0), s)),
      rc_mget = (\<lambda>ks s. (Ok (map (map_of s) ks), s)),
      rc_pipeline = (\<lambda>xs s. (Ok (), map (\<lambda>(k, x, d). (k, x)) xs @ s)),
      rc_ping = (\<lambda>s. (Ok (), s))\<rparr>"

definition list_view :: "pairs redis_view" where
  "list_view = \<lparr>view = (\<lambda>s t. map_of s), at = (\<lambda>_. 0), glob = star_glob, rank = (\<lambda>_ _. 0)\<rparr>"

lemma map_of_without_key: "map_of (without k s) = (map_of s)(k := None)"
  by (induction s) (auto simp: without_def fun_eq_iff)

lemma list_documented: "redis_documented list_client list_view"
proof -
  have steps: "\<exists>(s, page)\<in>set steps. k \<in> set page"
    if f: "full_scan list_client pat 0 steps" and g: "star_glob pat k"
      and h: "\<forall>(s, page)\<in>set steps. has_key list_view s k" for pat steps k
  proof (cases steps)
    case (Cons a rest)
    obtain s page where a: "a = (s, page)" by fastforce
    from f h have "page = filter (star_glob pat) (map fst s)" "map_of s k \<noteq> None"
      unfolding Cons a by (auto simp: list_client_def has_key_def list_view_def)
    then have "k \<in> fst ` set s" by (simp add: map_of_eq_None_iff)
    then have "k \<in> set page" using g \<open>page = _\<close> by simp
    then show ?thesis using Cons a by auto
  qed (use f in simp)
  show ?thesis
    unfolding redis_documented_def redis_reads_def redis_writes_def redis_scans_def
    using steps
    by (auto simp: list_view_def list_client_def map_of_without_key star_glob_def split: option.splits)
qed

theorem redis_DeletePattern_deletes_witness:
  "\<exists>r s. Redis_DeletePattern list_client ''u:*'' [(''u:1'', ''a''), (''v'', ''b'')] = Some (r, s) \<and> map_of s ''v'' = Some ''b''"
proof -
  have "plain_pattern ''u:''" by code_simp
  from redis_DeletePattern_deletes [OF list_documented this, of "[(''u:1'', ''a''), (''v'', ''b'')]"]
  obtain r s where "Redis_DeletePattern list_client ''u:*'' [(''u:1'', ''a''), (''v'', ''b'')] = Some (r, s)"
    and "\<forall>k. \<not> prefix ''u:'' k \<longrightarrow> map_of s k = map_of [(''u:1'', ''a''), (''v'', ''b'')] k"
    by (auto simp: list_view_def)
  moreover have "\<not> prefix ''u:'' ''v''" by simp
  ultimately show ?thesis by force
qed

theorem redis_json_roundtrip_witness:
  "fst (Redis_GetJSON Ok list_client ''k'' [(''k'', ''x'')]) \<noteq> Err ErrCacheMiss"
  using redis_json_roundtrip [OF list_documented, of Ok "''x''" "''x''" Ok "''k''" 0 "[]" "[(''k'', ''x'')]"]
  by (auto simp: Redis_SetJSON_def Redis_Set_def redis_call_def list_client_def without_def ErrCacheMiss_def)

end
