(* ===== verification/Validation.thy ===== *)
theory Validation
  imports Errors
begin

text \<open>
  The validator of \<open>internal/application/validation/validator.go\<close>: the rule \<open>hexcolor\<close> that it
  registers, and what it makes of the failures that the validation library reports.  The library is a
  parameter: \<open>lib\<close> is the answer of \<open>validate.Struct\<close> for the data.
\<close>

section \<open>The rule for colours\<close>

text \<open>\<open>code\<close> is the byte; the loop goes over the positions 1 to 6.\<close>

definition code :: "char \<Rightarrow> nat" where
  "code c = of_char c"

fun hex_loop :: "nat \<Rightarrow> nat \<Rightarrow> string \<Rightarrow> bool" where
  "hex_loop i 0 color = True"
| "hex_loop i (Suc n) color =
     (let c = code (color ! i) in
      if \<not> ((c \<ge> code (CHR ''0'') \<and> c \<le> code (CHR ''9'')) \<or> (c \<ge> code (CHR ''a'') \<and> c \<le> code (CHR ''f''))
            \<or> (c \<ge> code (CHR ''A'') \<and> c \<le> code (CHR ''F'')))
      then False else hex_loop (Suc i) n color)"

definition validateHexColor :: "string \<Rightarrow> bool" where
  "validateHexColor color =
     (if length color \<noteq> 7 \<or> color ! 0 \<noteq> CHR ''#'' then False else hex_loop 1 6 color)"

section \<open>The error\<close>

record field_error =
  fe_field :: string
  fe_message :: string
  fe_tag :: string
  fe_value :: string

text \<open>A failure as the library reports it; the value is a string, or something else.\<close>

datatype field_value = StringValue string | OtherValue

record lib_failure =
  lf_field :: string
  lf_tag :: string
  lf_param :: string
  lf_value :: field_value

datatype lib_result = Valid | Invalid "lib_failure list" | OtherError go_error

definition getErrorMessage :: "lib_failure \<Rightarrow> string" where
  "getErrorMessage err =
     (if lf_tag err = ''required'' then ''This field is required''
      else if lf_tag err = ''email'' then ''Invalid email format''
      else if lf_tag err = ''min'' then ''Value is too short, minimum is '' @ lf_param err
      else if lf_tag err = ''max'' then ''Value is too long, maximum is '' @ lf_param err
      else if lf_tag err = ''oneof'' then ''Value must be one of: '' @ lf_param err
      else if lf_tag err = ''hexcolor'' then ''Invalid hex color format (e.g., #FF5733)''
      else if lf_tag err = ''uuid'' then ''Invalid UUID format''
      else ''Invalid value'')"

definition formatValue :: "field_value \<Rightarrow> string" where
  "formatValue v =
     (case v of
        StringValue s \<Rightarrow> if length s > 50 then take 50 s @ ''...'' else s
      | OtherValue \<Rightarrow> [])"

fun new_field_errors :: "lib_failure list \<Rightarrow> field_error list \<Rightarrow> field_error list" where
  "new_field_errors [] acc = acc"
| "new_field_errors (err # errs) acc =
     new_field_errors errs (acc @
       [\<lparr>fe_field = lf_field err, fe_message = getErrorMessage err, fe_tag = lf_tag err,
         fe_value = formatValue (lf_value err)\<rparr>])"

definition NewValidationError :: "lib_failure list \<Rightarrow> field_error list" where
  "NewValidationError errs = new_field_errors errs []"

text \<open>\<open>Error()\<close>: the loop writes a separator before every entry but the first.\<close>

fun error_loop :: "nat \<Rightarrow> field_error list \<Rightarrow> string \<Rightarrow> string" where
  "error_loop i [] sb = sb"
| "error_loop i (err # errs) sb =
     error_loop (Suc i) errs
       ((if i > 0 then sb @ ''; '' else sb) @ fe_field err @ '': '' @ fe_message err)"

definition ValidationError_Error :: "field_error list \<Rightarrow> string" where
  "ValidationError_Error es =
     (if es = [] then ''validation error'' else error_loop 0 es ''validation errors: '')"

datatype validate_result = NoError | Fields "field_error list" | Unchanged go_error

definition StructValidator_Validate :: "lib_result \<Rightarrow> validate_result" where
  "StructValidator_Validate lib =
     (case lib of
        Valid \<Rightarrow> NoError
      | Invalid errs \<Rightarrow> Fields (NewValidationError errs)
      | OtherError err \<Rightarrow> Unchanged err)"

text \<open>The values of \<open>go_error\<close> that the handlers see: fields and messages.\<close>

definition as_go_error :: "validate_result \<Rightarrow> go_error option" where
  "as_go_error r =
     (case r of
        NoError \<Rightarrow> None
      | Fields es \<Rightarrow> Some (ValidationError (map (\<lambda>e. (fe_field e, fe_message e)) es))
      | Unchanged err \<Rightarrow> Some err)"

definition validation_IsValidationError :: "go_error \<Rightarrow> bool" where
  "validation_IsValidationError err = (case err of ValidationError _ \<Rightarrow> True | _ \<Rightarrow> False)"

section \<open>What they compute\<close>

definition hex_digit :: "char \<Rightarrow> bool" where
  "hex_digit c \<longleftrightarrow> c \<in> set ''0123456789abcdefABCDEF''"

lemma hex_digit_code:
  "hex_digit c \<longleftrightarrow> (code c \<ge> code (CHR ''0'') \<and> code c \<le> code (CHR ''9''))
     \<or> (code c \<ge> code (CHR ''a'') \<and> code c \<le> code (CHR ''f''))
     \<or> (code c \<ge> code (CHR ''A'') \<and> code c \<le> code (CHR ''F''))"
proof -
  have "c = char_of (code c)" by (simp add: code_def)
  then have eq: "c = d \<longleftrightarrow> code c = code d" for d by (metis code_def char_of_char)
  show ?thesis unfolding hex_digit_def by (simp add: eq) (simp add: code_def, presburger)
qed

lemma hex_loop_iff: "hex_loop i n color \<longleftrightarrow> (\<forall>j\<in>{i..<i + n}. hex_digit (color ! j))"
proof (induction n arbitrary: i)
  case (Suc n)
  have "{i..<i + Suc n} = insert i {Suc i..<Suc i + n}" by auto
  with Suc show ?case by (simp add: hex_digit_code Let_def)
qed simp

text \<open>
  The rule for colours accepts exactly a hash sign followed by six hexadecimal digits of either
  case.
\<close>

theorem validateHexColor_spec:
  "validateHexColor color \<longleftrightarrow> (\<exists>ds. color = CHR ''#'' # ds \<and> length ds = 6 \<and> (\<forall>d\<in>set ds. hex_digit d))"
proof (cases color)
  case (Cons c ds)
  show ?thesis
  proof (cases "length ds = 6")
    case True
    have "(\<forall>j\<in>{1..<1 + 6}. P j) \<longleftrightarrow> (\<forall>j<6. P (Suc j))" for P :: "nat \<Rightarrow> bool"
    proof -
      have "{1..<1 + 6} = Suc ` {0..<6::nat}" by (simp add: image_Suc_atLeastLessThan)
      then show ?thesis by (simp only: ball_simps(9)) auto
    qed
    then have "(\<forall>j\<in>{1..<1 + 6}. hex_digit (color ! j)) \<longleftrightarrow> (\<forall>j<6. hex_digit (ds ! j))"
      using Cons by simp
    also have "\<dots> \<longleftrightarrow> (\<forall>d\<in>set ds. hex_digit d)" using True by (metis all_set_conv_all_nth)
    finally show ?thesis using Cons True by (simp add: validateHexColor_def hex_loop_iff)
  qed (use Cons in \<open>auto simp: validateHexColor_def\<close>)
qed (simp add: validateHexColor_def)

lemma new_field_errors_map:
  "new_field_errors errs acc = acc @ map (\<lambda>err. \<lparr>fe_field = lf_field err, fe_message = getErrorMessage err,
     fe_tag = lf_tag err, fe_value = formatValue (lf_value err)\<rparr>) errs"
  by (induction errs acc rule: new_field_errors.induct) simp_all

lemma formatValue_length: "length (formatValue v) \<le> 53"
  by (auto simp: formatValue_def split: field_value.splits)

fun joined_with :: "string \<Rightarrow> string list \<Rightarrow> string" where
  "joined_with sep [] = []"
| "joined_with sep [x] = x"
| "joined_with sep (x # y # ys) = x @ sep @ joined_with sep (y # ys)"

lemma error_loop_later:
  "error_loop (Suc i) es sb = sb @ concat (map (\<lambda>e. ''; '' @ fe_field e @ '': '' @ fe_message e) es)"
  by (induction es arbitrary: i sb) simp_all

lemma error_text:
  "es \<noteq> [] \<Longrightarrow> ValidationError_Error es =
     ''validation errors: '' @ joined_with ''; '' (map (\<lambda>e. fe_field e @ '': '' @ fe_message e) es)"
proof -
  have join: "joined_with ''; '' (x # xs) = x @ concat (map (\<lambda>y. ''; '' @ y) xs)" for x xs
    by (induction xs arbitrary: x) simp_all
  assume "es \<noteq> []"
  then obtain e rest where "es = e # rest" by (cases es) auto
  then show ?thesis
    by (simp add: ValidationError_Error_def error_loop_later join comp_def del: joined_with.simps)
qed

text \<open>
  An invalid input is reported with one entry per failure of the library, in its order, none of
  them carrying more than 53 bytes of the value, and the text of the error names every field with its
  message.
\<close>

theorem Validate_reports_all:
  "StructValidator_Validate (Invalid errs) = Fields es \<Longrightarrow>
     map fe_field es = map lf_field errs \<and> map fe_message es = map getErrorMessage errs
     \<and> (\<forall>e\<in>set es. length (fe_value e) \<le> 53)
     \<and> (errs \<noteq> [] \<longrightarrow> ValidationError_Error es = ''validation errors: '' @
          joined_with ''; '' (map (\<lambda>e. lf_field e @ '': '' @ getErrorMessage e) errs))"
  by (auto simp: StructValidator_Validate_def NewValidationError_def new_field_errors_map comp_def
      formatValue_length error_text)

theorem Validate_reports_all_witness:
  "ValidationError_Error [\<lparr>fe_field = ''name'', fe_message = ''This field is required'', fe_tag = ''required'', fe_value = []\<rparr>]
   = ''validation errors: name: This field is required''"
  using Validate_reports_all [of "[\<lparr>lf_field = ''name'', lf_tag = ''required'', lf_param = [], lf_value = OtherValue\<rparr>]"
    "[\<lparr>fe_field = ''name'', fe_message = ''This field is required'', fe_tag = ''required'', fe_value = []\<rparr>]"]
  by (simp add: StructValidator_Validate_def NewValidationError_def getErrorMessage_def formatValue_def)

end
