(* ===== verification/Factory.thy ===== *)
theory Factory
  imports EventBus LocalStorage
begin

text \<open>
  The factory of \<open>internal/infrastructure/factory\<close>: which adapter a driver name selects.  What the
  constructors of the connecting adapters (PostgreSQL, Redis, Kafka, S3) answer is a parameter.  A
  returned interface is nil, holds a nil pointer (Go converts the pointer that a failed constructor
  returned), or holds an adapter; a bus is a place in the heap of buses.
\<close>

section \<open>Selection\<close>

datatype 'a interface = NilInterface | NilPointer | Pointer 'a

datatype any_config = DatabaseConfig | RedisConfig | KafkaConfig | S3Config
  | LocalConfig local_config | OtherConfig

datatype database = Postgres
datatype cache = RedisRepository | MemoryCacheAt nat
datatype messaging = KafkaAdapter | BusAt nat
datatype storage = S3Storage | LocalFiles local_storage

record connectors =
  co_postgres :: "go_error option"
  co_redis :: "go_error option"
  co_kafka_publisher :: "go_error option"
  co_kafka_subscriber :: "go_error option"
  co_s3 :: "go_error option"

text \<open>The buses and the number of memory caches that the process has created.\<close>

record heap =
  hp_buses :: "bus list"
  hp_caches :: nat

definition ErrInvalidConfig :: go_error where
  "ErrInvalidConfig = Sentinel ''factory'' ''ErrInvalidConfig''"
definition ErrDriverNotFound :: go_error where
  "ErrDriverNotFound = Sentinel ''factory'' ''ErrDriverNotFound''"

type_synonym 'a created = "'a interface \<times> go_error option"

definition driver_not_found :: "string \<Rightarrow> 'a created" where
  "driver_not_found driver = (NilInterface, Some (Errorf driver (Some ErrDriverNotFound)))"

definition invalid_config :: "'a created" where
  "invalid_config = (NilInterface, Some ErrInvalidConfig)"

definition connected :: "go_error option \<Rightarrow> 'a \<Rightarrow> 'a created" where
  "connected err x = (case err of None \<Rightarrow> (Pointer x, None) | Some e \<Rightarrow> (NilPointer, Some e))"

definition CreateDatabase :: "connectors \<Rightarrow> string \<Rightarrow> any_config \<Rightarrow> database created" where
  "CreateDatabase co driver cfg =
     (if driver = ''postgres'' then
        (case cfg of DatabaseConfig \<Rightarrow> connected (co_postgres co) Postgres | _ \<Rightarrow> invalid_config)
      else driver_not_found driver)"

definition CreateCache :: "connectors \<Rightarrow> string \<Rightarrow> any_config \<Rightarrow> heap \<Rightarrow> cache created \<times> heap" where
  "CreateCache co driver cfg h =
     (if driver = ''redis'' then
        ((case cfg of RedisConfig \<Rightarrow> connected (co_redis co) RedisRepository | _ \<Rightarrow> invalid_config), h)
      else if driver = ''memory'' then
        ((Pointer (MemoryCacheAt (hp_caches h)), None), h\<lparr>hp_caches := Suc (hp_caches h)\<rparr>)
      else (driver_not_found driver, h))"

definition new_bus :: "heap \<Rightarrow> messaging created \<times> heap" where
  "new_bus h = ((Pointer (BusAt (length (hp_buses h))), None), h\<lparr>hp_buses := hp_buses h @ [NewEventBus]\<rparr>)"

definition CreateEventPublisher ::
  "connectors \<Rightarrow> string \<Rightarrow> any_config \<Rightarrow> heap \<Rightarrow> messaging created \<times> heap" where
  "CreateEventPublisher co driver cfg h =
     (if driver = ''kafka'' then
        ((case cfg of KafkaConfig \<Rightarrow> connected (co_kafka_publisher co) KafkaAdapter | _ \<Rightarrow> invalid_config), h)
      else if driver = ''memory'' then new_bus h
      else (driver_not_found driver, h))"

definition CreateEventSubscriber ::
  "connectors \<Rightarrow> string \<Rightarrow> any_config \<Rightarrow> heap \<Rightarrow> messaging created \<times> heap" where
  "CreateEventSubscriber co driver cfg h =
     (if driver = ''kafka'' then
        ((case cfg of KafkaConfig \<Rightarrow> connected (co_kafka_subscriber co) KafkaAdapter | _ \<Rightarrow> invalid_config), h)
      else if driver = ''memory'' then new_bus h
      else (driver_not_found driver, h))"

definition CreateFileStorage ::
  "connectors \<Rightarrow> string \<Rightarrow> any_config \<Rightarrow> os_env \<Rightarrow> disk \<Rightarrow> storage created \<times> disk" where
  "CreateFileStorage co driver cfg e d =
     (if driver = ''s3'' then
        ((case cfg of S3Config \<Rightarrow> connected (co_s3 co) S3Storage | _ \<Rightarrow> invalid_config), d)
      else if driver = ''local'' then
        (case cfg of
           LocalConfig lc \<Rightarrow>
             (case NewLocalStorage lc e d of
                (Ok s, d') \<Rightarrow> ((Pointer (LocalFiles s), None), d')
              | (Err err, d') \<Rightarrow> ((NilPointer, Some err), d')
              | (Panic p, d') \<Rightarrow> ((NilInterface, Some (External p)), d'))
         | _ \<Rightarrow> (invalid_config, d))
      else (driver_not_found driver, d))"

section \<open>What callers get\<close>

text \<open>An adapter exactly when there is no error.\<close>

definition sound :: "'a created \<Rightarrow> bool" where
  "sound r \<longleftrightarrow> ((\<exists>x. fst r = Pointer x) \<longleftrightarrow> snd r = None)"

lemma sound_parts [simp]: "sound (driver_not_found d)" "sound invalid_config" "sound (connected err x)"
  "sound (Pointer x, None)" "sound (NilPointer, Some e)" "sound (NilInterface, Some e)"
  by (auto simp: sound_def driver_not_found_def invalid_config_def connected_def split: option.splits)

text \<open>
  Every constructor of the factory answers with an adapter exactly when it answers without an
  error, and a driver that it does not know with an error that \<open>errors.Is\<close> recognises as
  \<open>ErrDriverNotFound\<close>.
\<close>

theorem factory_sound:
  "sound (CreateDatabase co driver cfg) \<and> sound (fst (CreateCache co driver cfg h))
   \<and> sound (fst (CreateEventPublisher co driver cfg h)) \<and> sound (fst (CreateEventSubscriber co driver cfg h))
   \<and> sound (fst (CreateFileStorage co driver cfg e d))
   \<and> (driver \<notin> {''postgres''} \<longrightarrow>
        (\<exists>err. CreateDatabase co driver cfg = (NilInterface, Some err) \<and> errors_Is err ErrDriverNotFound))
   \<and> (driver \<notin> {''kafka'', ''memory''} \<longrightarrow>
        (\<exists>err. fst (CreateEventPublisher co driver cfg h) = (NilInterface, Some err) \<and> errors_Is err ErrDriverNotFound))"
  by (auto simp: CreateDatabase_def CreateCache_def CreateEventPublisher_def CreateEventSubscriber_def
      CreateFileStorage_def new_bus_def driver_not_found_def [of driver] ErrDriverNotFound_def errors_Is_wrapped
      split: any_config.splits prod.splits result.splits)

section \<open>The memory driver for messages\<close>

datatype heap_op = PublishOn nat string event | SubscribeOn nat string | ReceiveOn nat nat

definition on_bus :: "nat \<Rightarrow> (bus \<Rightarrow> bus) \<Rightarrow> heap \<Rightarrow> heap" where
  "on_bus i f h =
     (if i < length (hp_buses h) then h\<lparr>hp_buses := (hp_buses h)[i := f (hp_buses h ! i)]\<rparr> else h)"

fun heap_apply :: "heap_op \<Rightarrow> heap \<Rightarrow> heap" where
  "heap_apply (PublishOn i topic evt) h = on_bus i (\<lambda>b. snd (Bus_Publish topic evt b)) h"
| "heap_apply (SubscribeOn i topic) h = on_bus i (\<lambda>b. snd (Bus_Subscribe topic b)) h"
| "heap_apply (ReceiveOn i ch) h = on_bus i (\<lambda>b. snd (Bus_Receive ch b)) h"

definition silent :: "nat \<Rightarrow> heap \<Rightarrow> bool" where
  "silent q h \<longleftrightarrow> q < length (hp_buses h) \<and> (\<forall>ch. b_bufs (hp_buses h ! q) ch = [])"

lemma silent_apply:
  assumes "silent q h" "\<And>t e. op \<noteq> PublishOn q t e"
  shows "silent q (heap_apply op h)"
  using assms by (cases op)
    (auto simp: silent_def on_bus_def nth_list_update Bus_Subscribe_def Bus_Receive_def Let_def split: list.splits)

lemma new_busD:
  assumes "new_bus h = ((Pointer (BusAt p), None), h')"
  shows "p = length (hp_buses h)" and "hp_buses h' = hp_buses h @ [NewEventBus]"
  using arg_cong [OF assms, of "\<lambda>r. fst (fst r)"] arg_cong [OF assms, of "\<lambda>r. hp_buses (snd r)"]
  by (simp_all add: new_bus_def)

text \<open>
  With the memory driver for messages the factory makes one bus for the publisher and another
  for the subscriber: whatever is published through the one, every channel of the other stays empty.
\<close>

theorem memory_drivers_disconnected:
  assumes "CreateEventPublisher co ''memory'' cfg h = ((Pointer (BusAt p), None), h1)"
    and "CreateEventSubscriber co ''memory'' cfg' h1 = ((Pointer (BusAt q), None), h2)"
    and "\<forall>op\<in>set ops. \<forall>i t e. op = PublishOn i t e \<longrightarrow> i = p"
  shows "b_bufs (hp_buses (fold heap_apply ops h2) ! q) ch = []"
proof -
  from assms(1,2) have new: "new_bus h = ((Pointer (BusAt p), None), h1)" "new_bus h1 = ((Pointer (BusAt q), None), h2)"
    by (simp_all add: CreateEventPublisher_def CreateEventSubscriber_def)
  have pq: "p \<noteq> q" and "q = length (hp_buses h1)" "hp_buses h2 = hp_buses h1 @ [NewEventBus]"
    using new_busD [OF new(1)] new_busD [OF new(2)] by auto
  then have q: "silent q h2" by (simp add: silent_def NewEventBus_def)
  from q assms(3) have "silent q (fold heap_apply ops h2)"
  proof (induction ops arbitrary: h2)
    case (Cons op ops)
    have "silent q (heap_apply op h2)" using Cons.prems pq by (intro silent_apply) auto
    with Cons show ?case by simp
  qed simp
  then show ?thesis by (simp add: silent_def)
qed

definition no_connectors :: connectors where
  "no_connectors = \<lparr>co_postgres = None, co_redis = None, co_kafka_publisher = None,
     co_kafka_subscriber = None, co_s3 = None\<rparr>"

theorem memory_drivers_disconnected_witness:
  "b_bufs (hp_buses (fold heap_apply [SubscribeOn 1 ''task.deleted'', PublishOn 0 ''task.deleted'' example_event]
      \<lparr>hp_buses = [NewEventBus, NewEventBus], hp_caches = 0\<rparr>) ! 1) 0 = []"
proof -
  let ?h = "\<lparr>hp_buses = [], hp_caches = 0\<rparr>"
  have p: "CreateEventPublisher no_connectors ''memory'' OtherConfig ?h =
      ((Pointer (BusAt 0), None), \<lparr>hp_buses = [NewEventBus], hp_caches = 0\<rparr>)"
    by (simp add: CreateEventPublisher_def new_bus_def)
  have q: "CreateEventSubscriber no_connectors ''memory'' OtherConfig \<lparr>hp_buses = [NewEventBus], hp_caches = 0\<rparr> =
      ((Pointer (BusAt 1), None), \<lparr>hp_buses = [NewEventBus, NewEventBus], hp_caches = 0\<rparr>)"
    by (simp add: CreateEventSubscriber_def new_bus_def)
  show ?thesis by (rule memory_drivers_disconnected [OF p q]) simp
qed

end
