(* ===== verification/Config.thy ===== *)
theory Config
  imports TaskUseCase
begin

text \<open>
  The configuration of \<open>pkg/config/config.go\<close>.  The Viper library is a parameter: the value that it
  gives to a key, from the defaults, the bound variables, the environment and the optional file, and its
  conversions to the types of the fields.  \<open>viper\_documented\<close> collects what its documentation says of
  their precedence.
\<close>

section \<open>The structs\<close>

record server_config =
  sv_host :: string
  sv_port :: int
  sv_read_timeout :: duration
  sv_write_timeout :: duration
  sv_idle_timeout :: duration

record database_config =
  dc_host :: string
  dc_port :: int
  dc_user :: string
  dc_password :: string
  dc_name :: string
  dc_sslmode :: string
  dc_max_conns :: int
  dc_min_conns :: int
  dc_max_conn_lifetime :: duration
  dc_max_conn_idle_time :: duration

record redis_config =
  rd_host :: string
  rd_port :: int
  rd_password :: string
  rd_db :: int
  rd_pool_size :: int
  rd_min_idle_conns :: int
  rd_dial_timeout :: duration
  rd_read_timeout :: duration
  rd_write_timeout :: duration

record kafka_config =
  kc_brokers :: "string list"
  kc_consumer_group :: string
  kc_auto_offset_reset :: string

record s3_config =
  sc_endpoint :: string
  sc_region :: string
  sc_access_key_id :: string
  sc_secret_access_key :: string
  sc_bucket :: string
  sc_use_path_style :: bool

record jwt_config =
  jc_secret :: string
  jc_access_ttl :: duration
  jc_refresh_ttl :: duration
  jc_issuer :: string

record otel_config =
  oc_service_name :: string
  oc_service_version :: string
  oc_exporter_endpoint :: string
  oc_enabled :: bool

record log_config =
  gc_level :: string
  gc_format :: string

record grpc_config =
  pc_port :: int

record config =
  cf_server :: server_config
  cf_database :: database_config
  cf_redis :: redis_config
  cf_kafka :: kafka_config
  cf_s3 :: s3_config
  cf_jwt :: jwt_config
  cf_otel :: otel_config
  cf_log :: log_config
  cf_grpc :: grpc_config

definition DSN :: "database_config \<Rightarrow> string" where
  "DSN c = ''host='' @ dc_host c @ '' port='' @ show_int (dc_port c) @ '' user='' @ dc_user c
     @ '' password='' @ dc_password c @ '' dbname='' @ dc_name c @ '' sslmode='' @ dc_sslmode c"

definition Redis_Addr :: "redis_config \<Rightarrow> string" where
  "Redis_Addr c = rd_host c @ '':'' @ show_int (rd_port c)"

section \<open>Defaults and variables\<close>

datatype setting = Text string | Number int | Flag bool | Texts "string list"

definition setDefaults :: "(string \<times> setting) list" where
  "setDefaults =
     [(''server.host'', Text ''0.0.0.0''), (''server.port'', Number 8080),
      (''server.read_timeout'', Text ''30s''), (''server.write_timeout'', Text ''30s''),
      (''server.idle_timeout'', Text ''120s''),
      (''db.host'', Text ''localhost''), (''db.port'', Number 5433), (''db.user'', Text ''taskmanager''),
      (''db.password'', Text ''taskmanager_secret''), (''db.name'', Text ''taskmanager''),
      (''db.sslmode'', Text ''disable''), (''db.max_conns'', Number 25), (''db.min_conns'', Number 5),
      (''db.max_conn_lifetime'', Text ''1h''), (''db.max_conn_idle_time'', Text ''30m''),
      (''redis.host'', Text ''localhost''), (''redis.port'', Number 6379),
      (''redis.password'', Text ''redis_secret''), (''redis.db'', Number 0), (''redis.pool_size'', Number 10),
      (''redis.min_idle_conns'', Number 5), (''redis.dial_timeout'', Text ''5s''),
      (''redis.read_timeout'', Text ''3s''), (''redis.write_timeout'', Text ''3s''),
      (''kafka.brokers'', Texts [''localhost:9092'']), (''kafka.consumer_group'', Text ''taskmanager''),
      (''kafka.auto_offset_reset'', Text ''earliest''),
      (''s3.endpoint'', Text ''http://localhost:9000''), (''s3.region'', Text ''us-east-1''),
      (''s3.access_key_id'', Text ''minioadmin''), (''s3.secret_access_key'', Text ''minioadmin123''),
      (''s3.bucket'', Text ''taskmanager''), (''s3.use_path_style'', Flag True),
      (''jwt.secret'', Text ''your-super-secret-jwt-key-change-in-production''),
      (''jwt.access_token_ttl'', Text ''15m''), (''jwt.refresh_token_ttl'', Text ''168h''),
      (''jwt.issuer'', Text ''taskmanager''),
      (''otel.service_name'', Text ''taskmanager''), (''otel.service_version'', Text ''1.0.0''),
      (''otel.exporter_endpoint'', Text ''localhost:4317''), (''otel.enabled'', Flag False),
      (''log.level'', Text ''info''), (''log.format'', Text ''json''),
      (''grpc.port'', Number 9090)]"

definition bindEnvVars :: "(string \<times> string) list" where
  "bindEnvVars =
     [(''server.host'', ''SERVER_HOST''), (''server.port'', ''SERVER_PORT''),
      (''server.read_timeout'', ''SERVER_READ_TIMEOUT''), (''server.write_timeout'', ''SERVER_WRITE_TIMEOUT''),
      (''server.idle_timeout'', ''SERVER_IDLE_TIMEOUT''),
      (''db.host'', ''DB_HOST''), (''db.port'', ''DB_PORT''), (''db.user'', ''DB_USER''),
      (''db.password'', ''DB_PASSWORD''), (''db.name'', ''DB_NAME''), (''db.sslmode'', ''DB_SSLMODE''),
      (''db.max_conns'', ''DB_MAX_CONNS''), (''db.min_conns'', ''DB_MIN_CONNS''),
      (''db.max_conn_lifetime'', ''DB_MAX_CONN_LIFETIME''),
      (''db.max_conn_idle_time'', ''DB_MAX_CONN_IDLE_TIME''),
      (''redis.host'', ''REDIS_HOST''), (''redis.port'', ''REDIS_PORT''), (''redis.password'', ''REDIS_PASSWORD''),
      (''redis.db'', ''REDIS_DB''), (''redis.pool_size'', ''REDIS_POOL_SIZE''),
      (''redis.min_idle_conns'', ''REDIS_MIN_IDLE_CONNS''),
      (''kafka.brokers'', ''KAFKA_BROKERS''), (''kafka.consumer_group'', ''KAFKA_CONSUMER_GROUP''),
      (''kafka.auto_offset_reset'', ''KAFKA_AUTO_OFFSET_RESET''),
      (''s3.endpoint'', ''S3_ENDPOINT''), (''s3.region'', ''S3_REGION''), (''s3.access_key_id'', ''S3_ACCESS_KEY_ID''),
      (''s3.secret_access_key'', ''S3_SECRET_ACCESS_KEY''), (''s3.bucket'', ''S3_BUCKET''),
      (''s3.use_path_style'', ''S3_USE_PATH_STYLE''),
      (''jwt.secret'', ''JWT_SECRET''), (''jwt.access_token_ttl'', ''JWT_ACCESS_TOKEN_TTL''),
      (''jwt.refresh_token_ttl'', ''JWT_REFRESH_TOKEN_TTL''), (''jwt.issuer'', ''JWT_ISSUER''),
      (''otel.service_name'', ''OTEL_SERVICE_NAME''), (''otel.service_version'', ''OTEL_SERVICE_VERSION''),
      (''otel.exporter_endpoint'', ''OTEL_EXPORTER_ENDPOINT''), (''otel.enabled'', ''OTEL_ENABLED''),
      (''log.level'', ''LOG_LEVEL''), (''log.format'', ''LOG_FORMAT''),
      (''grpc.port'', ''GRPC_PORT'')]"

section \<open>Load\<close>

text \<open>
  \<open>vp\_get\<close> is given the defaults, the bindings, whether \<open>AutomaticEnv\<close> was called, the environment,
  the settings of the file and the key.  A key without a value leaves its field zero.
\<close>

type_synonym environment = "string \<Rightarrow> string option"

record viper =
  vp_get :: "(string \<times> setting) list \<Rightarrow> (string \<times> string) list \<Rightarrow> bool \<Rightarrow> environment
    \<Rightarrow> (string \<Rightarrow> setting option) \<Rightarrow> string \<Rightarrow> setting option"
  vp_text :: "setting \<Rightarrow> string result"
  vp_number :: "setting \<Rightarrow> int result"
  vp_number32 :: "setting \<Rightarrow> int result"
  vp_flag :: "setting \<Rightarrow> bool result"
  vp_duration :: "setting \<Rightarrow> duration result"
  vp_texts :: "setting \<Rightarrow> string list result"

definition field :: "(setting \<Rightarrow> 'a result) \<Rightarrow> 'a \<Rightarrow> setting option \<Rightarrow> ('a \<Rightarrow> 'b result) \<Rightarrow> 'b result" where
  "field dec zero v k =
     (case v of
        None \<Rightarrow> k zero
      | Some x \<Rightarrow> (case dec x of Ok a \<Rightarrow> k a | Err err \<Rightarrow> Err err | Panic p \<Rightarrow> Panic p))"

definition read_server :: "viper \<Rightarrow> (string \<Rightarrow> setting option) \<Rightarrow> (server_config \<Rightarrow> 'b result) \<Rightarrow> 'b result" where
  "read_server vp get k =
     field (vp_text vp) [] (get ''server.host'') (\<lambda>a1.
     field (vp_number vp) 0 (get ''server.port'') (\<lambda>a2.
     field (vp_duration vp) 0 (get ''server.read_timeout'') (\<lambda>a3.
     field (vp_duration vp) 0 (get ''server.write_timeout'') (\<lambda>a4.
     field (vp_duration vp) 0 (get ''server.idle_timeout'') (\<lambda>a5.
     k \<lparr>sv_host = a1, sv_port = a2, sv_read_timeout = a3, sv_write_timeout = a4, sv_idle_timeout = a5\<rparr>)))))"

definition read_database :: "viper \<Rightarrow> (string \<Rightarrow> setting option) \<Rightarrow> (database_config \<Rightarrow> 'b result) \<Rightarrow> 'b result" where
  "read_database vp get k =
     field (vp_text vp) [] (get ''db.host'') (\<lambda>a1.
     field (vp_number vp) 0 (get ''db.port'') (\<lambda>a2.
     field (vp_text vp) [] (get ''db.user'') (\<lambda>a3.
     field (vp_text vp) [] (get ''db.password'') (\<lambda>a4.
     field (vp_text vp) [] (get ''db.name'') (\<lambda>a5.
     field (vp_text vp) [] (get ''db.sslmode'') (\<lambda>a6.
     field (vp_number32 vp) 0 (get ''db.max_conns'') (\<lambda>a7.
     field (vp_number32 vp) 0 (get ''db.min_conns'') (\<lambda>a8.
     field (vp_duration vp) 0 (get ''db.max_conn_lifetime'') (\<lambda>a9.
     field (vp_duration vp) 0 (get ''db.max_conn_idle_time'') (\<lambda>a10.
     k \<lparr>dc_host = a1, dc_port = a2, dc_user = a3, dc_password = a4, dc_name = a5, dc_sslmode = a6,
        dc_max_conns = a7, dc_min_conns = a8, dc_max_conn_lifetime = a9, dc_max_conn_idle_time = a10\<rparr>))))))))))"

definition read_redis :: "viper \<Rightarrow> (string \<Rightarrow> setting option) \<Rightarrow> (redis_config \<Rightarrow> 'b result) \<Rightarrow> 'b result" where
  "read_redis vp get k =
     field (vp_text vp) [] (get ''redis.host'') (\<lambda>a1.
     field (vp_number vp) 0 (get ''redis.port'') (\<lambda>a2.
     field (vp_text vp) [] (get ''redis.password'') (\<lambda>a3.
     field (vp_number vp) 0 (get ''redis.db'') (\<lambda>a4.
     field (vp_number vp) 0 (get ''redis.pool_size'') (\<lambda>a5.
     field (vp_number vp) 0 (get ''redis.min_idle_conns'') (\<lambda>a6.
     field (vp_duration vp) 0 (get ''redis.dial_timeout'') (\<lambda>a7.
     field (vp_duration vp) 0 (get ''redis.read_timeout'') (\<lambda>a8.
     field (vp_duration vp) 0 (get ''redis.write_timeout'') (\<lambda>a9.
     k \<lparr>rd_host = a1, rd_port = a2, rd_password = a3, rd_db = a4, rd_pool_size = a5, rd_min_idle_conns = a6,
        rd_dial_timeout = a7, rd_read_timeout = a8, rd_write_timeout = a9\<rparr>)))))))))"

definition read_kafka :: "viper \<Rightarrow> (string \<Rightarrow> setting option) \<Rightarrow> (kafka_config \<Rightarrow> 'b result) \<Rightarrow> 'b result" where
  "read_kafka vp get k =
     field (vp_texts vp) [] (get ''kafka.brokers'') (\<lambda>a1.
     field (vp_text vp) [] (get ''kafka.consumer_group'') (\<lambda>a2.
     field (vp_text vp) [] (get ''kafka.auto_offset_reset'') (\<lambda>a3.
     k \<lparr>kc_brokers = a1, kc_consumer_group = a2, kc_auto_offset_reset = a3\<rparr>)))"

definition read_s3 :: "viper \<Rightarrow> (string \<Rightarrow> setting option) \<Rightarrow> (s3_config \<Rightarrow> 'b result) \<Rightarrow> 'b result" where
  "read_s3 vp get k =
     field (vp_text vp) [] (get ''s3.endpoint'') (\<lambda>a1.
     field (vp_text vp) [] (get ''s3.region'') (\<lambda>a2.
     field (vp_text vp) [] (get ''s3.access_key_id'') (\<lambda>a3.
     field (vp_text vp) [] (get ''s3.secret_access_key'') (\<lambda>a4.
     field (vp_text vp) [] (get ''s3.bucket'') (\<lambda>a5.
     field (vp_flag vp) False (get ''s3.use_path_style'') (\<lambda>a6.
     k \<lparr>sc_endpoint = a1, sc_region = a2, sc_access_key_id = a3, sc_secret_access_key = a4, sc_bucket = a5,
        sc_use_path_style = a6\<rparr>))))))"

definition read_jwt :: "viper \<Rightarrow> (string \<Rightarrow> setting option) \<Rightarrow> (jwt_config \<Rightarrow> 'b result) \<Rightarrow> 'b result" where
  "read_jwt vp get k =
     field (vp_text vp) [] (get ''jwt.secret'') (\<lambda>a1.
     field (vp_duration vp) 0 (get ''jwt.access_token_ttl'') (\<lambda>a2.
     field (vp_duration vp) 0 (get ''jwt.refresh_token_ttl'') (\<lambda>a3.
     field (vp_text vp) [] (get ''jwt.issuer'') (\<lambda>a4.
     k \<lparr>jc_secret = a1, jc_access_ttl = a2, jc_refresh_ttl = a3, jc_issuer = a4\<rparr>))))"

definition read_rest ::
  "viper \<Rightarrow> (string \<Rightarrow> setting option) \<Rightarrow> (otel_config \<Rightarrow> log_config \<Rightarrow> grpc_config \<Rightarrow> 'b result) \<Rightarrow> 'b result" where
  "read_rest vp get k =
     field (vp_text vp) [] (get ''otel.service_name'') (\<lambda>a1.
     field (vp_text vp) [] (get ''otel.service_version'') (\<lambda>a2.
     field (vp_text vp) [] (get ''otel.exporter_endpoint'') (\<lambda>a3.
     field (vp_flag vp) False (get ''otel.enabled'') (\<lambda>a4.
     field (vp_text vp) [] (get ''log.level'') (\<lambda>a5.
     field (vp_text vp) [] (get ''log.format'') (\<lambda>a6.
     field (vp_number vp) 0 (get ''grpc.port'') (\<lambda>a7.
     k \<lparr>oc_service_name = a1, oc_service_version = a2, oc_exporter_endpoint = a3, oc_enabled = a4\<rparr>
       \<lparr>gc_level = a5, gc_format = a6\<rparr> \<lparr>pc_port = a7\<rparr>)))))))"

definition Unmarshal :: "viper \<Rightarrow> (string \<Rightarrow> setting option) \<Rightarrow> config result" where
  "Unmarshal vp get =
     read_server vp get (\<lambda>c1. read_database vp get (\<lambda>c2. read_redis vp get (\<lambda>c3. read_kafka vp get (\<lambda>c4.
     read_s3 vp get (\<lambda>c5. read_jwt vp get (\<lambda>c6. read_rest vp get (\<lambda>c7 c8 c9.
     Ok \<lparr>cf_server = c1, cf_database = c2, cf_redis = c3, cf_kafka = c4, cf_s3 = c5, cf_jwt = c6,
         cf_otel = c7, cf_log = c8, cf_grpc = c9\<rparr>)))))))"

text \<open>The file is optional: an error of \<open>MergeInConfig\<close> is ignored and leaves it without settings.\<close>

definition Load :: "viper \<Rightarrow> environment \<Rightarrow> (string \<Rightarrow> setting option) \<Rightarrow> config result" where
  "Load vp en file =
     (case Unmarshal vp (vp_get vp setDefaults bindEnvVars True en file) of
        Err err \<Rightarrow> Err (Errorf ''failed to unmarshal config'' (Some err))
      | r \<Rightarrow> r)"

section \<open>The connection pool\<close>

text \<open>
  \<open>NewDatabase\<close> of \<open>database/postgres/connection.go\<close> over the pool library: the pool, and whether a pool
  has been closed again.
\<close>

record pool =
  po_dsn :: string
  po_max_conns :: int
  po_min_conns :: int
  po_max_lifetime :: duration
  po_max_idle_time :: duration

record pool_library =
  pl_parse :: "string \<Rightarrow> go_error option"
  pl_create :: "pool \<Rightarrow> go_error option"
  pl_ping :: "pool \<Rightarrow> go_error option"

definition NewDatabase :: "pool_library \<Rightarrow> database_config \<Rightarrow> pool result \<times> bool" where
  "NewDatabase lib cfg =
     (case pl_parse lib (DSN cfg) of
        Some err \<Rightarrow> (Err (Errorf ''failed to parse database config'' (Some err)), False)
      | None \<Rightarrow>
          let p = \<lparr>po_dsn = DSN cfg, po_max_conns = dc_max_conns cfg, po_min_conns = dc_min_conns cfg,
                   po_max_lifetime = dc_max_conn_lifetime cfg, po_max_idle_time = dc_max_conn_idle_time cfg\<rparr>
          in case pl_create lib p of
               Some err \<Rightarrow> (Err (Errorf ''failed to create connection pool'' (Some err)), False)
             | None \<Rightarrow>
                 (case pl_ping lib p of
                    Some err \<Rightarrow> (Err (Errorf ''failed to ping database'' (Some err)), True)
                  | None \<Rightarrow> (Ok p, False)))"

end
