(* ===== verification/KafkaConsumer.thy ===== *)
theory KafkaConsumer
  imports Config "HOL-Library.Sublist"
begin

text \<open>
  The Kafka subscriber of \<open>messaging/kafka/event\_publisher.go\<close>: the goroutine of \<open>Subscribe\<close>, which
  runs one session of the consumer group after another, \<open>ConsumeClaim\<close> for every partition that
  the group has assigned, and the channel to the worker.  Each step of the relation is one statement
  that can block or interleave.  What the library does is described by what it keeps: a session starts at the
  committed offset of each partition, marks are committed from time to time and when a session ends, and
  \<open>Consume\<close> returns when every claim has returned.
\<close>

section \<open>State\<close>

record message =
  mg_headers :: "(string \<times> string) list"
  mg_value :: event

datatype initial_offset = OffsetNewest | OffsetOldest

text \<open>\<open>connect\<close> is \<open>sarama.NewConsumerGroup\<close>: its error, if any.\<close>

definition NewEventSubscriber ::
  "(string list \<Rightarrow> string \<Rightarrow> go_error option) \<Rightarrow> kafka_config \<Rightarrow> initial_offset result" where
  "NewEventSubscriber connect cfg =
     (let initial = (if kc_auto_offset_reset cfg = ''earliest'' then OffsetOldest else OffsetNewest) in
      case connect (kc_brokers cfg) (kc_consumer_group cfg) of
        None \<Rightarrow> Ok initial
      | Some err \<Rightarrow> Err (Errorf ''failed to create consumer group'' (Some err)))"

record claim =
  cl_log :: "message list"
  cl_next :: nat
  cl_hand :: "event option"
  cl_done :: bool
  cl_marked :: "nat option"
  cl_committed :: "nat option"

text \<open>\<open>sb\_received\<close> are the events that the worker has taken from the channel so far.\<close>

record subscription =
  sb_initial :: initial_offset
  sb_claims :: "claim list"
  sb_chan :: "event list"
  sb_closed :: bool
  sb_session :: bool
  sb_ending :: bool
  sb_cancelled :: bool
  sb_group_closed :: bool
  sb_stopped :: bool
  sb_received :: "event list"

definition new_claim :: claim where
  "new_claim = \<lparr>cl_log = [], cl_next = 0, cl_hand = None, cl_done = False, cl_marked = None, cl_committed = None\<rparr>"

definition Kafka_Subscribe :: "initial_offset \<Rightarrow> nat \<Rightarrow> subscription" where
  "Kafka_Subscribe initial n =
     \<lparr>sb_initial = initial, sb_claims = replicate n new_claim, sb_chan = [], sb_closed = False,
      sb_session = False, sb_ending = False, sb_cancelled = False, sb_group_closed = False,
      sb_stopped = False, sb_received = []\<rparr>"

section \<open>The claims\<close>

fun event_type_header :: "(string \<times> string) list \<Rightarrow> string" where
  "event_type_header [] = []"
| "event_type_header ((key, v) # headers) = (if key = ''event_type'' then v else event_type_header headers)"

definition read_message :: "(string \<Rightarrow> event \<Rightarrow> event result) \<Rightarrow> message \<Rightarrow> event result" where
  "read_message reread m = deserializeEvent reread (event_type_header (mg_headers m)) (mg_value m)"

definition MarkMessage :: "claim \<Rightarrow> claim" where
  "MarkMessage c = c\<lparr>cl_next := Suc (cl_next c), cl_hand := None, cl_marked := Some (Suc (cl_next c))\<rparr>"

definition begin_claim :: "initial_offset \<Rightarrow> claim \<Rightarrow> claim" where
  "begin_claim initial c =
     c\<lparr>cl_next := (case cl_committed c of
                     Some n \<Rightarrow> n
                   | None \<Rightarrow> if initial = OffsetOldest then 0 else length (cl_log c)),
       cl_hand := None, cl_done := False, cl_marked := cl_committed c\<rparr>"

definition commit :: "claim \<Rightarrow> claim" where
  "commit c = c\<lparr>cl_committed := cl_marked c\<rparr>"

definition on_claim :: "nat \<Rightarrow> (claim \<Rightarrow> claim) \<Rightarrow> subscription \<Rightarrow> subscription" where
  "on_claim p f s = s\<lparr>sb_claims := (sb_claims s)[p := f (sb_claims s ! p)]\<rparr>"

text \<open>The claim can go on: it belongs to the running session and has not returned.\<close>

definition claim_runs :: "nat \<Rightarrow> subscription \<Rightarrow> bool" where
  "claim_runs p s \<longleftrightarrow> sb_session s \<and> p < length (sb_claims s) \<and> \<not> cl_done (sb_claims s ! p)"

definition capacity :: nat where "capacity = 100"

section \<open>Steps\<close>

inductive consumer_step ::
  "(string \<Rightarrow> event \<Rightarrow> event result) \<Rightarrow> subscription \<Rightarrow> subscription \<Rightarrow> bool" for reread where
  arrive: "p < length (sb_claims s) \<Longrightarrow>
     consumer_step reread s (on_claim p (\<lambda>c. c\<lparr>cl_log := cl_log c @ [m]\<rparr>) s)"
| begin_session: "\<not> sb_session s \<Longrightarrow> \<not> sb_closed s \<Longrightarrow> \<not> sb_group_closed s \<Longrightarrow>
     consumer_step reread s
       (s\<lparr>sb_session := True, sb_ending := sb_cancelled s,
          sb_claims := map (begin_claim (sb_initial s)) (sb_claims s)\<rparr>)"
| take_message: "claim_runs p s \<Longrightarrow> cl_hand (sb_claims s ! p) = None \<Longrightarrow>
     cl_next (sb_claims s ! p) < length (cl_log (sb_claims s ! p)) \<Longrightarrow>
     read_message reread (cl_log (sb_claims s ! p) ! cl_next (sb_claims s ! p)) = Ok evt \<Longrightarrow>
     consumer_step reread s (on_claim p (\<lambda>c. c\<lparr>cl_hand := Some evt\<rparr>) s)"
| skip_message: "claim_runs p s \<Longrightarrow> cl_hand (sb_claims s ! p) = None \<Longrightarrow>
     cl_next (sb_claims s ! p) < length (cl_log (sb_claims s ! p)) \<Longrightarrow>
     read_message reread (cl_log (sb_claims s ! p) ! cl_next (sb_claims s ! p)) = Err err \<Longrightarrow>
     consumer_step reread s (on_claim p MarkMessage s)"
| send: "claim_runs p s \<Longrightarrow> cl_hand (sb_claims s ! p) = Some evt \<Longrightarrow> length (sb_chan s) < capacity \<Longrightarrow>
     consumer_step reread s (on_claim p MarkMessage (s\<lparr>sb_chan := sb_chan s @ [evt]\<rparr>))"
| abandon: "claim_runs p s \<Longrightarrow> cl_hand (sb_claims s ! p) = Some evt \<Longrightarrow> sb_ending s \<Longrightarrow>
     consumer_step reread s (on_claim p (\<lambda>c. c\<lparr>cl_hand := None, cl_done := True\<rparr>) s)"
| drained: "claim_runs p s \<Longrightarrow> cl_hand (sb_claims s ! p) = None \<Longrightarrow> sb_ending s \<Longrightarrow>
     consumer_step reread s (on_claim p (\<lambda>c. c\<lparr>cl_done := True\<rparr>) s)"
| interrupt: "sb_session s \<Longrightarrow> consumer_step reread s (s\<lparr>sb_ending := True\<rparr>)"
| cancel: "consumer_step reread s (s\<lparr>sb_cancelled := True, sb_ending := sb_session s\<rparr>)"
| close_group: "consumer_step reread s (s\<lparr>sb_group_closed := True, sb_ending := sb_session s\<rparr>)"
| auto_commit: "sb_session s \<Longrightarrow> p < length (sb_claims s) \<Longrightarrow> consumer_step reread s (on_claim p commit s)"
| end_session: "sb_session s \<Longrightarrow> sb_ending s \<Longrightarrow> \<forall>c\<in>set (sb_claims s). cl_done c \<Longrightarrow>
     consumer_step reread s
       (s\<lparr>sb_session := False, sb_ending := False,
          sb_claims := (if committed then map commit (sb_claims s) else sb_claims s),
          sb_closed := sb_cancelled s\<rparr>)"
| leave_loop: "\<not> sb_session s \<Longrightarrow> \<not> sb_closed s \<Longrightarrow> sb_group_closed s \<or> sb_cancelled s \<Longrightarrow>
     consumer_step reread s (s\<lparr>sb_closed := True\<rparr>)"
| receive: "\<not> sb_stopped s \<Longrightarrow> sb_chan s = evt # evts \<Longrightarrow>
     consumer_step reread s (s\<lparr>sb_chan := evts, sb_received := sb_received s @ [evt]\<rparr>)"
| stop_worker: "consumer_step reread s (s\<lparr>sb_stopped := True\<rparr>)"

text \<open>
  The next start of the process: what was in memory is gone, the log and the committed offsets stay.
\<close>

definition restart :: "subscription \<Rightarrow> subscription" where
  "restart s =
     s\<lparr>sb_claims := map (\<lambda>c. c\<lparr>cl_hand := None, cl_done := False, cl_marked := cl_committed c\<rparr>) (sb_claims s),
       sb_chan := [], sb_closed := False, sb_session := False, sb_ending := False, sb_cancelled := False,
       sb_group_closed := False, sb_stopped := False\<rparr>"

section \<open>Delivery\<close>

definition decoded :: "(string \<Rightarrow> event \<Rightarrow> event result) \<Rightarrow> message list \<Rightarrow> event list" where
  "decoded reread ms = concat (map (\<lambda>m. case read_message reread m of Ok evt \<Rightarrow> [evt] | _ \<Rightarrow> []) ms)"

lemma decoded_simps [simp]:
  "decoded reread [] = []"
  "decoded reread (ms @ ms') = decoded reread ms @ decoded reread ms'"
  "decoded reread [m] = (case read_message reread m of Ok evt \<Rightarrow> [evt] | _ \<Rightarrow> [])"
  by (simp_all add: decoded_def)

definition claim_ok :: "(string \<Rightarrow> event \<Rightarrow> event result) \<Rightarrow> event list \<Rightarrow> claim \<Rightarrow> bool" where
  "claim_ok reread sent c \<longleftrightarrow>
     (\<forall>k. k = cl_next c \<or> cl_marked c = Some k \<or> cl_committed c = Some k \<longrightarrow>
        k \<le> length (cl_log c) \<and> subseq (decoded reread (take k (cl_log c))) sent)
     \<and> (\<forall>evt. cl_hand c = Some evt \<longrightarrow> cl_next c < length (cl_log c)
          \<and> read_message reread (cl_log c ! cl_next c) = Ok evt)"

definition delivered :: "subscription \<Rightarrow> event list" where
  "delivered s = sb_received s @ sb_chan s"

lemma claim_ok_sent: "claim_ok reread sent c \<Longrightarrow> claim_ok reread (sent @ evts) c"
  unfolding claim_ok_def by (blast intro: subseq_order.trans list_emb_append2 subseq_append' subseq_rev_drop_many)

lemma claim_ok_parts [simp]:
  "claim_ok reread sent c \<Longrightarrow> claim_ok reread sent (c\<lparr>cl_done := b\<rparr>)"
  "claim_ok reread sent c \<Longrightarrow> claim_ok reread sent (c\<lparr>cl_hand := None, cl_done := b\<rparr>)"
  "claim_ok reread sent c \<Longrightarrow> claim_ok reread sent (commit c)"
  "claim_ok reread sent c \<Longrightarrow> claim_ok reread sent (c\<lparr>cl_log := cl_log c @ [m]\<rparr>)"
  "claim_ok reread sent c \<Longrightarrow> claim_ok reread sent (begin_claim OffsetOldest c)"
  by (auto simp: claim_ok_def commit_def begin_claim_def nth_append split: option.splits)

lemma claim_ok_skip:
  assumes "claim_ok reread sent c" "cl_next c < length (cl_log c)"
    and "read_message reread (cl_log c ! cl_next c) = Err err"
  shows "claim_ok reread sent (MarkMessage c)"
  using assms by (auto simp: claim_ok_def MarkMessage_def take_Suc_conv_app_nth)

lemma claim_ok_send:
  assumes "claim_ok reread sent c" "cl_hand c = Some evt"
  shows "claim_ok reread (sent @ [evt]) (MarkMessage c)"
proof -
  have "cl_next c < length (cl_log c)" "read_message reread (cl_log c ! cl_next c) = Ok evt"
    and "subseq (decoded reread (take (cl_next c) (cl_log c))) sent"
    using assms by (auto simp: claim_ok_def)
  then have "subseq (decoded reread (take (Suc (cl_next c)) (cl_log c))) (sent @ [evt])"
    by (simp add: take_Suc_conv_app_nth list_emb_append_mono)
  with claim_ok_sent [OF assms(1), of "[evt]"] \<open>cl_next c < _\<close> show ?thesis
    by (auto simp: claim_ok_def MarkMessage_def)
qed

lemma claim_ok_take:
  "claim_ok reread sent c \<Longrightarrow> cl_next c < length (cl_log c) \<Longrightarrow>
     read_message reread (cl_log c ! cl_next c) = Ok evt \<Longrightarrow> claim_ok reread sent (c\<lparr>cl_hand := Some evt\<rparr>)"
  by (auto simp: claim_ok_def)

text \<open>What every step keeps; a channel that is closed is not sent to any more.\<close>

definition consumer_ok :: "(string \<Rightarrow> event \<Rightarrow> event result) \<Rightarrow> subscription \<Rightarrow> bool" where
  "consumer_ok reread s \<longleftrightarrow> sb_initial s = OffsetOldest
     \<and> (\<forall>c\<in>set (sb_claims s). claim_ok reread (delivered s) c)
     \<and> length (sb_chan s) \<le> capacity \<and> (sb_closed s \<longrightarrow> \<not> sb_session s)"

lemma all_on_claim:
  "\<forall>c\<in>set (sb_claims s). P c \<Longrightarrow> (p < length (sb_claims s) \<Longrightarrow> P (sb_claims s ! p) \<Longrightarrow> Q (f (sb_claims s ! p))) \<Longrightarrow>
     (\<And>c. P c \<Longrightarrow> Q c) \<Longrightarrow> \<forall>c\<in>set (sb_claims (on_claim p f s)). Q c"
  by (cases "p < length (sb_claims s)")
    (auto simp: on_claim_def list_update_beyond dest!: set_update_subset_insert [THEN subsetD])

lemma on_claim_keeps:
  "\<forall>c\<in>set (sb_claims s). P c \<Longrightarrow> (p < length (sb_claims s) \<Longrightarrow> P (sb_claims s ! p) \<Longrightarrow> P (f (sb_claims s ! p))) \<Longrightarrow>
     \<forall>c\<in>set (sb_claims (on_claim p f s)). P c"
  by (rule all_on_claim)

lemma on_claim_simps [simp]:
  "sb_initial (on_claim p f s) = sb_initial s" "sb_chan (on_claim p f s) = sb_chan s"
  "sb_closed (on_claim p f s) = sb_closed s" "sb_session (on_claim p f s) = sb_session s"
  "sb_ending (on_claim p f s) = sb_ending s" "sb_received (on_claim p f s) = sb_received s"
  "length (sb_claims (on_claim p f s)) = length (sb_claims s)" "delivered (on_claim p f s) = delivered s"
  by (simp_all add: on_claim_def delivered_def)

lemma consumer_step_ok:
  assumes "consumer_step reread s s'" "consumer_ok reread s"
  shows "consumer_ok reread s'"
  using assms
proof (induction rule: consumer_step.induct)
  case (arrive p s m)
  then have "\<forall>c\<in>set (sb_claims (on_claim p (\<lambda>c. c\<lparr>cl_log := cl_log c @ [m]\<rparr>) s)). claim_ok reread (delivered s) c"
    unfolding consumer_ok_def by (intro on_claim_keeps) auto
  with arrive show ?case by (simp add: consumer_ok_def)
next
  case (begin_session s)
  then show ?case by (auto simp: consumer_ok_def delivered_def)
next
  case (take_message p s evt)
  then have "\<forall>c\<in>set (sb_claims (on_claim p (\<lambda>c. c\<lparr>cl_hand := Some evt\<rparr>) s)). claim_ok reread (delivered s) c"
    unfolding consumer_ok_def by (intro on_claim_keeps) (auto intro: claim_ok_take)
  with take_message show ?case by (simp add: consumer_ok_def)
next
  case (skip_message p s err)
  then have "\<forall>c\<in>set (sb_claims (on_claim p MarkMessage s)). claim_ok reread (delivered s) c"
    unfolding consumer_ok_def by (intro on_claim_keeps) (auto intro: claim_ok_skip)
  with skip_message show ?case by (simp add: consumer_ok_def)
next
  case (send p s evt)
  let ?s = "s\<lparr>sb_chan := sb_chan s @ [evt]\<rparr>"
  have "\<forall>c\<in>set (sb_claims (on_claim p MarkMessage ?s)). claim_ok reread (delivered s @ [evt]) c"
    using send unfolding consumer_ok_def
    by (intro all_on_claim [where P = "claim_ok reread (delivered s)"]) (auto intro: claim_ok_send claim_ok_sent)
  moreover have "delivered ?s = delivered s @ [evt]" by (simp add: delivered_def)
  ultimately show ?case using send by (simp add: consumer_ok_def claim_runs_def)
next
  case (abandon p s evt)
  then have "\<forall>c\<in>set (sb_claims (on_claim p (\<lambda>c. c\<lparr>cl_hand := None, cl_done := True\<rparr>) s)). claim_ok reread (delivered s) c"
    unfolding consumer_ok_def by (intro on_claim_keeps) auto
  with abandon show ?case by (simp add: consumer_ok_def)
next
  case (drained p s)
  then have "\<forall>c\<in>set (sb_claims (on_claim p (\<lambda>c. c\<lparr>cl_done := True\<rparr>) s)). claim_ok reread (delivered s) c"
    unfolding consumer_ok_def by (intro on_claim_keeps) auto
  with drained show ?case by (simp add: consumer_ok_def)
next
  case (auto_commit s p)
  then have "\<forall>c\<in>set (sb_claims (on_claim p commit s)). claim_ok reread (delivered s) c"
    unfolding consumer_ok_def by (intro on_claim_keeps) auto
  with auto_commit show ?case by (simp add: consumer_ok_def)
qed (auto simp: consumer_ok_def delivered_def)

lemma subscribe_ok: "consumer_ok reread (Kafka_Subscribe OffsetOldest n)"
  by (simp add: consumer_ok_def Kafka_Subscribe_def claim_ok_def new_claim_def capacity_def)

lemma consumer_reachable_ok:
  "(consumer_step reread)\<^sup>*\<^sup>* (Kafka_Subscribe OffsetOldest n) s \<Longrightarrow> consumer_ok reread s"
  by (induction rule: rtranclp_induct) (auto simp: subscribe_ok intro: consumer_step_ok)


section \<open>Sessions end\<close>

text \<open>
  C35. A session that is to end, because of a rebalance, of the context or of \<open>Close\<close>, can always end
  without the worker taking anything: no claim is stuck at a full channel.
\<close>

theorem kafka_session_can_end:
  assumes "sb_session s" "sb_ending s"
  shows "\<exists>s'. (consumer_step reread)\<^sup>*\<^sup>* s s' \<and> \<not> sb_session s' \<and> sb_chan s' = sb_chan s \<and> sb_received s' = sb_received s"
  using assms
proof (induction "length (filter (\<lambda>c. \<not> cl_done c) (sb_claims s))" arbitrary: s)
  case 0
  then have "\<forall>c\<in>set (sb_claims s). cl_done c" by (auto simp: filter_empty_conv)
  from end_session [OF 0(2,3) this, of reread True] show ?case by (intro exI conjI, rule r_into_rtranclp) auto
next
  case (Suc n)
  have "filter (\<lambda>c. \<not> cl_done c) (sb_claims s) \<noteq> []" using Suc(2) by auto
  then obtain p where p: "p < length (sb_claims s)" "\<not> cl_done (sb_claims s ! p)"
    by (auto simp: filter_empty_conv in_set_conv_nth)
  define f :: "claim \<Rightarrow> claim" where "f = (\<lambda>c. c\<lparr>cl_hand := None, cl_done := True\<rparr>)"
  have step: "consumer_step reread s (on_claim p f s)"
  proof (cases "cl_hand (sb_claims s ! p)")
    case None
    then have "consumer_step reread s (on_claim p (\<lambda>c. c\<lparr>cl_done := True\<rparr>) s)"
      using p Suc(3,4) by (intro drained) (simp_all add: claim_runs_def)
    moreover have "(sb_claims s ! p)\<lparr>cl_done := True\<rparr> = f (sb_claims s ! p)" using None by (simp add: f_def)
    ultimately show ?thesis by (simp add: on_claim_def)
  next
    case (Some evt)
    then show ?thesis unfolding f_def using p Suc(3,4) by (intro abandon) (simp_all add: claim_runs_def)
  qed
  obtain xs c ys where split: "sb_claims s = xs @ c # ys" "length xs = p"
    using id_take_nth_drop [OF p(1)] p(1) by (metis length_take min.absorb4)
  then have "\<not> cl_done c" using p(2) by (auto simp: nth_append)
  moreover have "sb_claims (on_claim p f s) = xs @ f c # ys" using split by (auto simp: on_claim_def nth_append list_update_append)
  ultimately have "n = length (filter (\<lambda>c. \<not> cl_done c) (sb_claims (on_claim p f s)))"
    using Suc(2) split by (simp add: f_def)
  from Suc(1) [OF this] Suc(3,4) obtain s' where "(consumer_step reread)\<^sup>*\<^sup>* (on_claim p f s) s'" "\<not> sb_session s'"
    "sb_chan s' = sb_chan s" "sb_received s' = sb_received s" by auto
  with step show ?case by (meson converse_rtranclp_into_rtranclp)
qed

section \<open>What a shutdown loses\<close>

text \<open>Nothing of the first message will be read again.\<close>

definition past_first :: "(string \<Rightarrow> event \<Rightarrow> event result) \<Rightarrow> message \<Rightarrow> subscription \<Rightarrow> bool" where
  "past_first reread m s \<longleftrightarrow> (\<exists>c ms. sb_claims s = [c] \<and> cl_log c = m # ms
     \<and> (\<exists>k>0. cl_committed c = Some k) \<and> (\<exists>k>0. cl_marked c = Some k) \<and> cl_next c > 0
     \<and> set (sb_received s @ sb_chan s) \<union> set_option (cl_hand c) \<subseteq> set (decoded reread ms))"

lemma claims_single: "claim_runs p s \<Longrightarrow> sb_claims s = [c] \<Longrightarrow> p = 0"
  by (simp add: claim_runs_def)

lemma past_first_step: "consumer_step reread s s' \<Longrightarrow> past_first reread m s \<Longrightarrow> past_first reread m s'"
proof (induction rule: consumer_step.induct)
  case (take_message p s evt)
  then obtain c ms where c: "sb_claims s = [c]" "cl_log c = m # ms" "cl_next c > 0"
    and p: "p = 0" by (auto simp: past_first_def dest: claims_single)
  then have "m # ms \<noteq> [] \<and> (m # ms) ! cl_next c = ms ! (cl_next c - 1) \<and> cl_next c - 1 < length ms"
    using take_message by (auto simp: nth_Cons')
  then have "ms ! (cl_next c - 1) \<in> set ms" "read_message reread (ms ! (cl_next c - 1)) = Ok evt"
    using take_message c p by auto
  then have "evt \<in> set (decoded reread ms)" by (force simp: decoded_def)
  with take_message c p show ?case by (auto simp: past_first_def on_claim_def)
qed (auto simp: past_first_def on_claim_def MarkMessage_def commit_def begin_claim_def
      dest: claims_single split: if_splits)

text \<open>
  A message arrives during the session, the worker stops, the message is sent to the channel, and the group is
  closed.
\<close>

definition one_claim :: "claim \<Rightarrow> event list \<Rightarrow> bool \<Rightarrow> bool \<Rightarrow> bool \<Rightarrow> bool \<Rightarrow> bool \<Rightarrow> subscription" where
  "one_claim c chan closed session ending group_closed stopped =
     \<lparr>sb_initial = OffsetOldest, sb_claims = [c], sb_chan = chan, sb_closed = closed, sb_session = session,
      sb_ending = ending, sb_cancelled = False, sb_group_closed = group_closed, sb_stopped = stopped,
      sb_received = []\<rparr>"

lemma one_claim_simps [simp]:
  "sb_initial (one_claim c ch a b d f g) = OffsetOldest" "sb_claims (one_claim c ch a b d f g) = [c]"
  "sb_chan (one_claim c ch a b d f g) = ch" "sb_closed (one_claim c ch a b d f g) = a"
  "sb_session (one_claim c ch a b d f g) = b" "sb_ending (one_claim c ch a b d f g) = d"
  "sb_cancelled (one_claim c ch a b d f g) = False" "sb_group_closed (one_claim c ch a b d f g) = f"
  "sb_stopped (one_claim c ch a b d f g) = g" "sb_received (one_claim c ch a b d f g) = []"
  by (simp_all add: one_claim_def)

definition shut_claim :: "message \<Rightarrow> claim" where
  "shut_claim m = \<lparr>cl_log = [m], cl_next = 1, cl_hand = None, cl_done = True, cl_marked = Some 1, cl_committed = Some 1\<rparr>"

definition shut_down :: "message \<Rightarrow> event \<Rightarrow> subscription" where
  "shut_down m evt = one_claim (shut_claim m) [evt] True False False True True"

lemma shutdown_run:
  assumes "read_message reread m = Ok evt"
  shows "(consumer_step reread)\<^sup>*\<^sup>* (Kafka_Subscribe OffsetOldest 1) (shut_down m evt)"
proof -
  let ?c = "new_claim\<lparr>cl_log := [m]\<rparr>"
  let ?d = "?c\<lparr>cl_next := 1, cl_marked := Some 1\<rparr>"
  let ?start = "one_claim new_claim [] False False False False False"
  note step = rtranclp.rtrancl_into_rtrancl [of "consumer_step reread"]
  note defs = one_claim_def on_claim_def new_claim_def begin_claim_def claim_runs_def MarkMessage_def capacity_def commit_def
  have "Kafka_Subscribe OffsetOldest 1 = ?start" by (simp add: Kafka_Subscribe_def one_claim_def)
  then have "(consumer_step reread)\<^sup>*\<^sup>* (Kafka_Subscribe OffsetOldest 1) ?start" by simp
  from step [OF this] have "(consumer_step reread)\<^sup>*\<^sup>* (Kafka_Subscribe OffsetOldest 1) (one_claim ?c [] False False False False False)"
    using arrive [of 0 ?start reread m] by (simp add: defs)
  from step [OF this] have "(consumer_step reread)\<^sup>*\<^sup>* (Kafka_Subscribe OffsetOldest 1) (one_claim ?c [] False True False False False)"
    using begin_session [of "one_claim ?c [] False False False False False" reread] by (simp add: defs)
  from step [OF this] have "(consumer_step reread)\<^sup>*\<^sup>* (Kafka_Subscribe OffsetOldest 1) (one_claim ?c [] False True False False True)"
    using stop_worker [of reread "one_claim ?c [] False True False False False"] by (simp add: defs)
  from step [OF this] have "(consumer_step reread)\<^sup>*\<^sup>* (Kafka_Subscribe OffsetOldest 1)
      (one_claim (?c\<lparr>cl_hand := Some evt\<rparr>) [] False True False False True)"
    using take_message [of 0 "one_claim ?c [] False True False False True" reread evt] assms by (simp add: defs)
  from step [OF this] have "(consumer_step reread)\<^sup>*\<^sup>* (Kafka_Subscribe OffsetOldest 1)
      (one_claim ?d [evt] False True False False True)"
    using send [of 0 "one_claim (?c\<lparr>cl_hand := Some evt\<rparr>) [] False True False False True" evt reread]
    by (simp add: defs)
  from step [OF this] have "(consumer_step reread)\<^sup>*\<^sup>* (Kafka_Subscribe OffsetOldest 1) (one_claim ?d [evt] False True True True True)"
    using close_group [of reread "one_claim ?d [evt] False True False False True"] by (simp add: defs)
  from step [OF this] have "(consumer_step reread)\<^sup>*\<^sup>* (Kafka_Subscribe OffsetOldest 1)
      (one_claim (?d\<lparr>cl_done := True\<rparr>) [evt] False True True True True)"
    using drained [of 0 "one_claim ?d [evt] False True True True True" reread] by (simp add: defs)
  from step [OF this] have "(consumer_step reread)\<^sup>*\<^sup>* (Kafka_Subscribe OffsetOldest 1)
      (one_claim (shut_claim m) [evt] False False False True True)"
    using end_session [of "one_claim (?d\<lparr>cl_done := True\<rparr>) [evt] False True True True True" reread True]
    by (simp add: defs shut_claim_def)
  from step [OF this] show ?thesis
    using leave_loop [of "one_claim (shut_claim m) [evt] False False False True True" reread]
    by (simp add: defs shut_down_def shut_claim_def)
qed

text \<open>
  Marking a message when it enters the channel gives it up before any handler has run.  A readable message
  that arrives when the worker has been stopped is committed by the orderly shutdown that follows, waits in a
  channel that nobody reads, and after the next start no event but those of later messages is
  received.
\<close>

theorem kafka_shutdown_loses:
  assumes "read_message reread m = Ok evt"
  shows "\<exists>s. (consumer_step reread)\<^sup>*\<^sup>* (Kafka_Subscribe OffsetOldest 1) s
    \<and> sb_closed s \<and> map cl_log (sb_claims s) = [[m]] \<and> map cl_committed (sb_claims s) = [Some 1] \<and> sb_received s = []
    \<and> (\<forall>s'. (consumer_step reread)\<^sup>*\<^sup>* (restart s) s' \<longrightarrow>
          (\<exists>c ms. sb_claims s' = [c] \<and> cl_log c = m # ms \<and> set (sb_received s') \<subseteq> set (decoded reread ms)))"
proof -
  let ?s = "shut_down m evt"
  have start: "past_first reread m (restart ?s)"
    by (simp add: past_first_def restart_def shut_down_def shut_claim_def)
  have "past_first reread m s'" if "(consumer_step reread)\<^sup>*\<^sup>* (restart ?s) s'" for s'
    using that by (induction rule: rtranclp_induct) (auto intro: start past_first_step)
  then have "\<forall>s'. (consumer_step reread)\<^sup>*\<^sup>* (restart ?s) s' \<longrightarrow>
      (\<exists>c ms. sb_claims s' = [c] \<and> cl_log c = m # ms \<and> set (sb_received s') \<subseteq> set (decoded reread ms))"
    unfolding past_first_def by fastforce
  with shutdown_run [OF assms] show ?thesis
    by (intro exI [of _ ?s]) (simp add: shut_down_def shut_claim_def)
qed

section \<open>Examples\<close>

definition strict_json :: "string \<Rightarrow> event \<Rightarrow> event result" where
  "strict_json t evt = Err (External ''json'')"

definition example_message :: message where
  "example_message = \<lparr>mg_headers = [(''occurred_at'', ''now''), (''event_type'', body_type (ev_body example_event))],
     mg_value = example_event\<rparr>"

lemma example_message_read: "read_message strict_json example_message = Ok example_event"
proof -
  have "body_type (ev_body example_event) \<in> set known_types" by code_simp
  then show ?thesis by (simp add: read_message_def example_message_def deserializeEvent_def)
qed


theorem kafka_session_can_end_witness:
  "\<exists>s. (consumer_step strict_json)\<^sup>*\<^sup>*
      (one_claim (new_claim\<lparr>cl_log := [example_message], cl_hand := Some example_event\<rparr>)
         (replicate 100 example_event) False True True True True) s \<and> \<not> sb_session s"
  using kafka_session_can_end [of "one_claim (new_claim\<lparr>cl_log := [example_message], cl_hand := Some example_event\<rparr>)
      (replicate 100 example_event) False True True True True" strict_json] by auto

theorem kafka_shutdown_loses_witness:
  "\<exists>s. (consumer_step strict_json)\<^sup>*\<^sup>* (Kafka_Subscribe OffsetOldest 1) s
    \<and> sb_closed s \<and> map cl_log (sb_claims s) = [[example_message]] \<and> map cl_committed (sb_claims s) = [Some 1]
    \<and> sb_received s = []
    \<and> (\<forall>s'. (consumer_step strict_json)\<^sup>*\<^sup>* (restart s) s' \<longrightarrow>
          (\<exists>c ms. sb_claims s' = [c] \<and> cl_log c = example_message # ms
             \<and> set (sb_received s') \<subseteq> set (decoded strict_json ms)))"
  by (rule kafka_shutdown_loses [OF example_message_read])

end
