(* ===== verification/ConfigFacts.thy ===== *)
theory ConfigFacts
  imports Config GraphqlFlows
begin

text \<open>
  What the configuration gives: the tables of defaults and variables agree with the fields that \<open>Load\<close>
  reads, variables without a binding have no effect, and when the connection string of the
  database is unambiguous.
\<close>

section \<open>The tables\<close>

definition ascii_upper :: "char \<Rightarrow> char" where
  "ascii_upper c = (if is_lower c then char_of (of_char c - (32::nat)) else c)"

lemma ascii_upper_letters [simp]:
  "ascii_upper (CHR ''a'') = CHR ''A''" "ascii_upper (CHR ''b'') = CHR ''B''" "ascii_upper (CHR ''c'') = CHR ''C''" "ascii_upper (CHR ''d'') = CHR ''D''"
    "ascii_upper (CHR ''e'') = CHR ''E''" "ascii_upper (CHR ''f'') = CHR ''F''" "ascii_upper (CHR ''g'') = CHR ''G''" "ascii_upper (CHR ''h'') = CHR ''H''"
    "ascii_upper (CHR ''i'') = CHR ''I''" "ascii_upper (CHR ''j'') = CHR ''J''" "ascii_upper (CHR ''k'') = CHR ''K''" "ascii_upper (CHR ''l'') = CHR ''L''"
    "ascii_upper (CHR ''m'') = CHR ''M''" "ascii_upper (CHR ''n'') = CHR ''N''" "ascii_upper (CHR ''o'') = CHR ''O''" "ascii_upper (CHR ''p'') = CHR ''P''"
    "ascii_upper (CHR ''q'') = CHR ''Q''" "ascii_upper (CHR ''r'') = CHR ''R''" "ascii_upper (CHR ''s'') = CHR ''S''" "ascii_upper (CHR ''t'') = CHR ''T''"
    "ascii_upper (CHR ''u'') = CHR ''U''" "ascii_upper (CHR ''v'') = CHR ''V''" "ascii_upper (CHR ''w'') = CHR ''W''" "ascii_upper (CHR ''x'') = CHR ''X''"
    "ascii_upper (CHR ''y'') = CHR ''Y''" "ascii_upper (CHR ''z'') = CHR ''Z''" "ascii_upper (CHR ''_'') = CHR ''_''" "ascii_upper (CHR ''3'') = CHR ''3''" "ascii_upper (CHR ''.'') = CHR ''.''"
  by code_simp+

definition variable_name :: "string \<Rightarrow> string" where
  "variable_name key = map (\<lambda>c. if c = CHR ''.'' then CHR ''_'' else ascii_upper c) key"

definition unbound_keys :: "string list" where
  "unbound_keys = [''redis.dial_timeout'', ''redis.read_timeout'', ''redis.write_timeout'']"

text \<open>
  Every setting has one default; every setting but the three timeouts of Redis is bound to one variable,
  whose name is the key in capitals with an underscore for each dot.
\<close>

theorem config_tables:
  "distinct (map fst setDefaults) \<and> distinct (map fst bindEnvVars)
   \<and> set (map fst bindEnvVars) = set (map fst setDefaults) - set unbound_keys
   \<and> set unbound_keys \<subseteq> set (map fst setDefaults)
   \<and> (\<forall>(k, name)\<in>set bindEnvVars. name = variable_name k)"
proof -
  have "distinct (map fst setDefaults)" "distinct (map fst bindEnvVars)"
    by (simp_all add: setDefaults_def bindEnvVars_def)
  moreover have "map fst bindEnvVars = filter (\<lambda>k. k \<notin> set unbound_keys) (map fst setDefaults)"
    by (simp add: setDefaults_def bindEnvVars_def unbound_keys_def)
  moreover have "list_all (\<lambda>k. k \<in> set (map fst setDefaults)) unbound_keys"
    by (simp add: setDefaults_def unbound_keys_def)
  moreover have "list_all (\<lambda>(k, name). name = variable_name k) bindEnvVars"
    by (simp add: bindEnvVars_def variable_name_def)
  ultimately show ?thesis unfolding list_all_iff by auto
qed

section \<open>Variables without a binding\<close>

text \<open>A key that is not among the defaults is not read.\<close>

lemma Unmarshal_cong:
  assumes "\<forall>k\<in>set (map fst setDefaults). get k = get' k"
  shows "Unmarshal vp get = Unmarshal vp get'"
  using assms
  by (simp add: setDefaults_def Unmarshal_def read_server_def read_database_def read_redis_def read_kafka_def
      read_s3_def read_jwt_def read_rest_def)

definition set_variable :: "environment \<Rightarrow> string \<Rightarrow> setting option" where
  "set_variable en name =
     (case en name of None \<Rightarrow> None | Some v \<Rightarrow> if v = [] then None else Some (Text v))"

fun first_some :: "'a option list \<Rightarrow> 'a option" where
  "first_some [] = None"
| "first_some (Some x # xs) = Some x"
| "first_some (None # xs) = first_some xs"

text \<open>
  With \<open>AutomaticEnv\<close> a key is looked up in the environment under its name in capitals, dots
  included, then under its bound variable; an empty variable counts as unset.  Then come the file and
  the default.
\<close>

definition viper_documented :: "viper \<Rightarrow> bool" where
  "viper_documented vp \<longleftrightarrow> (\<forall>ds bs en file k. vp_get vp ds bs True en file k =
     first_some [set_variable en (map ascii_upper k), Option.bind (map_of bs k) (set_variable en), file k, map_of ds k])"

text \<open>
  A variable that is not bound and has no dot in its name has no effect on the configuration.  So the
  timeouts of Redis cannot be set by variables like the other settings.
\<close>

theorem unbound_variables_ignored:
  assumes "viper_documented vp" "name \<notin> snd ` set bindEnvVars" "CHR ''.'' \<notin> set name"
  shows "Load vp (en(name := v)) file = Load vp en file"
proof -
  have "\<forall>k\<in>set (map fst setDefaults). CHR ''.'' \<in> set k" by (simp add: setDefaults_def)
  then have dots: "\<forall>k\<in>set (map fst setDefaults). CHR ''.'' \<in> set (map ascii_upper k)"
    using ascii_upper_letters by (metis image_eqI set_map)
  have "vp_get vp setDefaults bindEnvVars True (en(name := v)) file k = vp_get vp setDefaults bindEnvVars True en file k"
    if "k \<in> set (map fst setDefaults)" for k
  proof -
    have "map ascii_upper k \<noteq> name" using dots that assms(3) by blast
    then have "set_variable (en(name := v)) (map ascii_upper k) = set_variable en (map ascii_upper k)"
      by (simp add: set_variable_def)
    moreover have "Option.bind (map_of bindEnvVars k) (set_variable (en(name := v))) =
        Option.bind (map_of bindEnvVars k) (set_variable en)"
    proof (cases "map_of bindEnvVars k")
      case (Some n)
      then have "n \<in> snd ` set bindEnvVars" using map_of_SomeD by (force simp: image_iff)
      then have "n \<noteq> name" using assms(2) by blast
      then show ?thesis using Some by (simp add: set_variable_def)
    qed simp
    ultimately show ?thesis using assms(1) unfolding viper_documented_def by simp
  qed
  then show ?thesis unfolding Load_def by (subst Unmarshal_cong) auto
qed

definition written_durations :: "(string \<times> duration) list" where
  "written_durations = [(''3s'', 3 * second), (''5s'', 5 * second), (''30s'', 30 * second), (''120s'', 120 * second),
     (''15m'', 15 * 60 * second), (''30m'', 30 * 60 * second), (''1h'', 3600 * second), (''168h'', 168 * 3600 * second)]"

definition plain_viper :: viper where
  "plain_viper = \<lparr>vp_get = (\<lambda>ds bs auto en file k. first_some
       [if auto then set_variable en (map ascii_upper k) else None,
        Option.bind (map_of bs k) (set_variable en), file k, map_of ds k]),
     vp_text = (\<lambda>x. case x of Text s \<Rightarrow> Ok s | _ \<Rightarrow> Err (External ''expected type string'')),
     vp_number = (\<lambda>x. case x of Number n \<Rightarrow> Ok n | _ \<Rightarrow> Err (External ''cannot parse as int'')),
     vp_number32 = (\<lambda>x. case x of Number n \<Rightarrow> Ok n | _ \<Rightarrow> Err (External ''cannot parse as int'')),
     vp_flag = (\<lambda>x. case x of Flag b \<Rightarrow> Ok b | _ \<Rightarrow> Err (External ''cannot parse as bool'')),
     vp_duration = (\<lambda>x. case x of Text s \<Rightarrow> (case map_of written_durations s of Some d \<Rightarrow> Ok d
          | None \<Rightarrow> Err (External ''invalid duration'')) | _ \<Rightarrow> Err (External ''invalid duration'')),
     vp_texts = (\<lambda>x. case x of Texts xs \<Rightarrow> Ok xs | Text s \<Rightarrow> Ok [s] | _ \<Rightarrow> Err (External ''expected a slice''))\<rparr>"

text \<open>What the server runs with when nothing is set.\<close>

definition default_config :: config where
  "default_config =
     \<lparr>cf_server = \<lparr>sv_host = ''0.0.0.0'', sv_port = 8080, sv_read_timeout = 30 * second,
        sv_write_timeout = 30 * second, sv_idle_timeout = 120 * second\<rparr>,
      cf_database = \<lparr>dc_host = ''localhost'', dc_port = 5433, dc_user = ''taskmanager'',
        dc_password = ''taskmanager_secret'', dc_name = ''taskmanager'', dc_sslmode = ''disable'', dc_max_conns = 25,
        dc_min_conns = 5, dc_max_conn_lifetime = 3600 * second, dc_max_conn_idle_time = 30 * 60 * second\<rparr>,
      cf_redis = \<lparr>rd_host = ''localhost'', rd_port = 6379, rd_password = ''redis_secret'', rd_db = 0,
        rd_pool_size = 10, rd_min_idle_conns = 5, rd_dial_timeout = 5 * second, rd_read_timeout = 3 * second,
        rd_write_timeout = 3 * second\<rparr>,
      cf_kafka = \<lparr>kc_brokers = [''localhost:9092''], kc_consumer_group = ''taskmanager'',
        kc_auto_offset_reset = ''earliest''\<rparr>,
      cf_s3 = \<lparr>sc_endpoint = ''http://localhost:9000'', sc_region = ''us-east-1'', sc_access_key_id = ''minioadmin'',
        sc_secret_access_key = ''minioadmin123'', sc_bucket = ''taskmanager'', sc_use_path_style = True\<rparr>,
      cf_jwt = \<lparr>jc_secret = ''your-super-secret-jwt-key-change-in-production'', jc_access_ttl = 15 * 60 * second,
        jc_refresh_ttl = 168 * 3600 * second, jc_issuer = ''taskmanager''\<rparr>,
      cf_otel = \<lparr>oc_service_name = ''taskmanager'', oc_service_version = ''1.0.0'',
        oc_exporter_endpoint = ''localhost:4317'', oc_enabled = False\<rparr>,
      cf_log = \<lparr>gc_level = ''info'', gc_format = ''json''\<rparr>,
      cf_grpc = \<lparr>pc_port = 9090\<rparr>\<rparr>"

lemma defaults_loaded: "Load plain_viper Map.empty Map.empty = Ok default_config"
  by code_simp

theorem unbound_variables_ignored_witness:
  "Load plain_viper (Map.empty(''REDIS_DIAL_TIMEOUT'' \<mapsto> ''60s'')) Map.empty = Load plain_viper Map.empty Map.empty"
proof (rule unbound_variables_ignored)
  show "viper_documented plain_viper" by (simp add: viper_documented_def plain_viper_def)
  show "''REDIS_DIAL_TIMEOUT'' \<notin> snd ` set bindEnvVars" by code_simp
qed simp

section \<open>The connection string\<close>

definition blank_free :: "database_config \<Rightarrow> bool" where
  "blank_free c \<longleftrightarrow> (\<forall>s\<in>{dc_host c, dc_user c, dc_password c, dc_name c, dc_sslmode c}. CHR '' '' \<notin> set s)"

definition dsn_fields :: "database_config \<Rightarrow> string \<times> int \<times> string \<times> string \<times> string \<times> string" where
  "dsn_fields c = (dc_host c, dc_port c, dc_user c, dc_password c, dc_name c, dc_sslmode c)"

lemma show_int_no_blank: "CHR '' '' \<notin> set (show_int i)"
proof -
  have "CHR '' '' \<notin> set (show_nat n)" for n
  proof
    assume "CHR '' '' \<in> set (show_nat n)"
    then obtain k :: nat where "CHR '' '' = char_of k" "48 \<le> k" "k < 58"
      using show_nat_digits [of n] by auto
    from arg_cong [OF this(1), of "of_char :: char \<Rightarrow> nat"] this(2,3) show False by simp
  qed
  then show ?thesis by (simp add: show_int_def)
qed

lemma split_on_words:
  assumes "c \<notin> set u" "c \<notin> set v" "c \<notin> set w" "c \<notin> set x" "c \<notin> set y" "c \<notin> set z"
  shows "split_on c (u @ c # v @ c # w @ c # x @ c # y @ c # z) = [u, v, w, x, y, z]"
  using assms by (simp add: split_on_append split_on_absent)

lemma DSN_blanks:
  assumes "blank_free c"
  shows "split_on (CHR '' '') (DSN c) =
    [''host='' @ dc_host c, ''port='' @ show_int (dc_port c), ''user='' @ dc_user c,
     ''password='' @ dc_password c, ''dbname='' @ dc_name c, ''sslmode='' @ dc_sslmode c]"
proof -
  have words: "DSN c = (''host='' @ dc_host c) @ CHR '' '' # (''port='' @ show_int (dc_port c)) @ CHR '' '' #
      (''user='' @ dc_user c) @ CHR '' '' # (''password='' @ dc_password c) @ CHR '' '' #
      (''dbname='' @ dc_name c) @ CHR '' '' # ''sslmode='' @ dc_sslmode c"
    by (simp add: DSN_def)
  show ?thesis unfolding words
    by (rule split_on_words) (use assms show_int_no_blank [of "dc_port c"] in \<open>simp_all add: blank_free_def\<close>)
qed

text \<open>
  C38. The connection string determines the settings that it is made of, provided none contains a
  blank.  With blanks it does not: a password that goes on with \<open>dbname=\<close> gives the same string as another
  password and another database.
\<close>

theorem DSN_determines_settings:
  "(blank_free c \<and> blank_free c' \<and> DSN c = DSN c' \<longrightarrow> dsn_fields c = dsn_fields c')
   \<and> DSN (c\<lparr>dc_password := p @ '' dbname='' @ n, dc_name := m\<rparr>)
     = DSN (c\<lparr>dc_password := p, dc_name := n @ '' dbname='' @ m\<rparr>)"
proof -
  have "dsn_fields c = dsn_fields c'" if "blank_free c" "blank_free c'" "DSN c = DSN c'"
    using DSN_blanks [OF that(1)] DSN_blanks [OF that(2)] that(3) by (simp add: dsn_fields_def)
  then show ?thesis by (simp add: DSN_def)
qed

definition local_database :: database_config where
  "local_database = \<lparr>dc_host = ''localhost'', dc_port = 5433, dc_user = ''taskmanager'',
     dc_password = ''secret'', dc_name = ''taskmanager'', dc_sslmode = ''disable'', dc_max_conns = 25,
     dc_min_conns = 5, dc_max_conn_lifetime = 3600 * second, dc_max_conn_idle_time = 1800 * second\<rparr>"

theorem DSN_determines_settings_witness:
  "dsn_fields local_database = dsn_fields (local_database\<lparr>dc_max_conns := 1\<rparr>)"
proof -
  have "blank_free local_database" by (simp add: blank_free_def local_database_def)
  moreover have "blank_free (local_database\<lparr>dc_max_conns := 1\<rparr>)" by (simp add: blank_free_def local_database_def)
  moreover have "DSN local_database = DSN (local_database\<lparr>dc_max_conns := 1\<rparr>)" by (simp add: DSN_def)
  ultimately show ?thesis using DSN_determines_settings by blast
qed

end
