(* ===== verification/Startup.thy ===== *)
theory Startup
  imports KafkaConsumer ConfigFacts ReadWrite Realtime
begin

text \<open>
  The commands \<open>cmd/server\<close>, \<open>cmd/grpc\<close> and \<open>cmd/seed\<close>: what they open and in which order, what the
  deferred calls close, which handlers the event consumers get, and the environment in which the use
  cases then run.  How the services answer is an argument.
\<close>

section \<open>Starting a consumer\<close>

text \<open>
  \<open>Start\<close> subscribes to one topic after the other and stops what it has started when one fails: the topics that
  are being consumed, and the error.
\<close>

fun EventConsumer_Start ::
  "(string \<Rightarrow> go_error option) \<Rightarrow> string list \<Rightarrow> string list \<Rightarrow> string list \<times> go_error option" where
  "EventConsumer_Start subscribe [] started = (started, None)"
| "EventConsumer_Start subscribe (topic # topics) started =
     (case subscribe topic of
        Some err \<Rightarrow> ([], Some (Errorf ''failed to subscribe to topic'' (Some err)))
      | None \<Rightarrow> EventConsumer_Start subscribe topics (started @ [topic]))"

definition consumed_topics :: "string list" where
  "consumed_topics = [TopicTaskEvents, TopicUserEvents]"

section \<open>Handlers\<close>

text \<open>
  Handlers that only log have no effect on the world, nor has the monitor around them.  What the realtime
  handler does to the transports is in \<open>Realtime\<close>.
\<close>

definition logging_handler :: handler where
  "logging_handler evt = ret ()"

definition background_consumer :: consumer where
  "background_consumer =
     RegisterHandler ''user.logged_in'' logging_handler
    (RegisterHandler ''user.created'' logging_handler
    (RegisterHandler ''task.attachment_cleanup_requested'' TaskAttachmentCleanupHandler
    (RegisterHandler ''task.updated'' logging_handler
    (RegisterHandler ''task.created'' logging_handler
     NewEventConsumer))))"

definition realtime_consumer :: "bool \<Rightarrow> consumer" where
  "realtime_consumer has_subscriber =
     (let c = fold (\<lambda>t. RegisterHandler t logging_handler) realtime_types NewEventConsumer in
      if \<not> has_subscriber
      then RegisterHandler ''task.attachment_cleanup_requested'' TaskAttachmentCleanupHandler c
      else c)"

text \<open>Both consumers of the gRPC server handle clean-up requests only.\<close>

definition cleanup_consumer :: consumer where
  "cleanup_consumer =
     RegisterHandler ''task.attachment_cleanup_requested'' TaskAttachmentCleanupHandler NewEventConsumer"

section \<open>The commands\<close>

text \<open>
  An error option is the error of a constructor or call; \<open>sv\_seed\<close> is the seeding of the roles or of the
  development data; \<open>sv\_serve\<close> is an error of the HTTP server other than that it was shut down, before
  the signal arrives, or of the start of the gRPC server.
\<close>

record services =
  sv_config :: "config result"
  sv_database :: "go_error option"
  sv_redis :: "go_error option"
  sv_producer :: "go_error option"
  sv_group :: "go_error option"
  sv_s3 :: "go_error option"
  sv_subscribe :: "string \<Rightarrow> go_error option"
  sv_local_subscribe :: "string \<Rightarrow> go_error option"
  sv_seed :: "unit result"
  sv_serve :: "go_error option"
  sv_shutdown :: "go_error option"

datatype resource = ServerContext | DatabasePool | RedisClient | EventPublishers | EventSubscriber
  | BackgroundConsumer | RealtimeConsumer | LocalConsumer | ShutdownContext

datatype action = Opened resource | Closed resource | ClosePanics resource | ExitFailure | Crash

text \<open>\<open>if err != nil { log.Warn(...) } else { defer x.Close() }\<close>\<close>

definition deferring :: "go_error option \<Rightarrow> resource \<Rightarrow> resource list \<Rightarrow> resource list" where
  "deferring err r stack = (case err of None \<Rightarrow> r # stack | Some _ \<Rightarrow> stack)"

text \<open>
  Deferred calls run in the reverse order, on return and on a panic, but not on \<open>os.Exit\<close>.  The fan-out
  publisher closes the publisher of Kafka first; when that could not be created it is a nil pointer, so this
  call panics, the other deferred calls run, and the process crashes.
\<close>

definition closing :: "services \<Rightarrow> resource \<Rightarrow> action" where
  "closing sv r = (if r = EventPublishers \<and> sv_producer sv \<noteq> None then ClosePanics r else Closed r)"

definition exiting :: "resource list \<Rightarrow> action list" where
  "exiting stack = map Opened (rev stack) @ [ExitFailure]"
definition panicking :: "services \<Rightarrow> resource list \<Rightarrow> action list" where
  "panicking sv stack = map Opened (rev stack) @ map (closing sv) stack @ [Crash]"
definition returning :: "services \<Rightarrow> resource list \<Rightarrow> action list" where
  "returning sv stack = map Opened (rev stack) @ map (closing sv) stack @
     (if ClosePanics EventPublishers \<in> set (map (closing sv) stack) then [Crash] else [])"

definition server_main :: "services \<Rightarrow> action list" where
  "server_main sv =
     (let s0 = [ServerContext] in
      case sv_config sv of
        Err _ \<Rightarrow> exiting s0
      | Panic _ \<Rightarrow> panicking sv s0
      | Ok cfg \<Rightarrow>
     (case sv_database sv of
        Some _ \<Rightarrow> exiting s0
      | None \<Rightarrow>
          let s1 = DatabasePool # s0;
              s2 = deferring (sv_redis sv) RedisClient s1;
              s3 = EventPublishers # s2;
              s4 = deferring (sv_group sv) EventSubscriber s3;
              s5 = (if sv_group sv = None
                    then deferring (snd (EventConsumer_Start (sv_subscribe sv) consumed_topics [])) BackgroundConsumer s4
                    else s4)
          in case sv_seed sv of
               Err _ \<Rightarrow> exiting s5
             | Panic _ \<Rightarrow> panicking sv s5
             | Ok _ \<Rightarrow>
                 let s6 = deferring (snd (EventConsumer_Start (sv_local_subscribe sv) consumed_topics [])) RealtimeConsumer s5
                 in case sv_serve sv of
                      Some _ \<Rightarrow> exiting s6
                    | None \<Rightarrow>
                       let s7 = ShutdownContext # s6
                       in (case sv_shutdown sv of Some _ \<Rightarrow> exiting s7 | None \<Rightarrow> returning sv s7)))"

definition grpc_main :: "services \<Rightarrow> action list" where
  "grpc_main sv =
     (let s0 = [ServerContext] in
      case sv_config sv of
        Err _ \<Rightarrow> exiting s0
      | Panic _ \<Rightarrow> panicking sv s0
      | Ok cfg \<Rightarrow>
     (case sv_database sv of
        Some _ \<Rightarrow> exiting s0
      | None \<Rightarrow>
          let s1 = DatabasePool # s0;
              s2 = deferring (sv_redis sv) RedisClient s1;
              s3 = EventPublishers # s2;
              s4 = deferring (sv_group sv) EventSubscriber s3;
              s5 = (if sv_group sv = None
                    then deferring (snd (EventConsumer_Start (sv_subscribe sv) consumed_topics [])) BackgroundConsumer s4
                    else s4);
              s6 = (if sv_group sv \<noteq> None
                    then deferring (snd (EventConsumer_Start (sv_local_subscribe sv) consumed_topics [])) LocalConsumer s5
                    else s5)
          in case sv_serve sv of Some _ \<Rightarrow> exiting s6 | None \<Rightarrow> returning sv s6))"

definition seed_main :: "services \<Rightarrow> action list" where
  "seed_main sv =
     (case sv_config sv of
        Err _ \<Rightarrow> exiting []
      | Panic _ \<Rightarrow> panicking sv []
      | Ok cfg \<Rightarrow>
     (case sv_database sv of
        Some _ \<Rightarrow> exiting []
      | None \<Rightarrow>
          (case sv_seed sv of
             Err _ \<Rightarrow> exiting [DatabasePool]
           | Panic _ \<Rightarrow> panicking sv [DatabasePool]
           | Ok _ \<Rightarrow> returning sv [DatabasePool])))"

text \<open>
  A failed constructor returns a nil pointer, and the interface variable that it is passed in is not nil.
  The fan-out publisher and the in-memory bus are always there.
\<close>

definition dep_of :: "go_error option \<Rightarrow> dep" where
  "dep_of err = (case err of None \<Rightarrow> DepLive | Some _ \<Rightarrow> DepNilPtr)"

definition wired :: "services \<Rightarrow> config \<Rightarrow> env \<Rightarrow> env" where
  "wired sv cfg e =
     e\<lparr>e_cache := dep_of (sv_redis sv), e_storage := dep_of (sv_s3 sv), e_publisher := DepLive,
       e_kafka := dep_of (sv_producer sv), e_local_bus := DepLive,
       e_access_ttl := jc_access_ttl (cf_jwt cfg), e_refresh_ttl := jc_refresh_ttl (cf_jwt cfg),
       e_issuer := jc_issuer (cf_jwt cfg)\<rparr>"

definition getEnv :: "environment \<Rightarrow> string \<Rightarrow> string \<Rightarrow> string" where
  "getEnv en key defaultValue =
     (case en key of Some v \<Rightarrow> if v \<noteq> [] then v else defaultValue | None \<Rightarrow> defaultValue)"

text \<open>The seeding command takes an empty variable as it is.\<close>

definition seed_getEnv :: "environment \<Rightarrow> string \<Rightarrow> string \<Rightarrow> string" where
  "seed_getEnv en key fallback = (case en key of Some v \<Rightarrow> v | None \<Rightarrow> fallback)"

section \<open>Orderly shutdown\<close>

fun opened_resources :: "action list \<Rightarrow> resource list" where
  "opened_resources [] = []"
| "opened_resources (Opened r # as) = r # opened_resources as"
| "opened_resources (_ # as) = opened_resources as"

fun closed_resources :: "action list \<Rightarrow> resource list" where
  "closed_resources [] = []"
| "closed_resources (Closed r # as) = r # closed_resources as"
| "closed_resources (_ # as) = closed_resources as"

definition orderly :: "services \<Rightarrow> action list \<Rightarrow> bool" where
  "orderly sv as \<longleftrightarrow> distinct (opened_resources as)
     \<and> (if ExitFailure \<in> set as then closed_resources as = []
        else if EventPublishers \<in> set (opened_resources as) \<and> sv_producer sv \<noteq> None
        then closed_resources as = rev (removeAll EventPublishers (opened_resources as)) \<and> last as = Crash
        else closed_resources as = rev (opened_resources as))"

lemma opened_resources_parts [simp]:
  "opened_resources (map Opened s @ as) = s @ opened_resources as"
  "opened_resources (map (closing sv) s @ as) = opened_resources as" "opened_resources (map (closing sv) s) = []"
  by (induction s) (simp_all add: closing_def)

lemma closed_resources_parts [simp]:
  "closed_resources (map Opened s @ as) = closed_resources as"
  "closed_resources (map (closing sv) s @ as) =
     (if sv_producer sv = None then s else removeAll EventPublishers s) @ closed_resources as"
  by (induction s) (simp_all add: closing_def)

lemma closing_panics [simp]:
  "ClosePanics EventPublishers \<in> closing sv ` set s \<longleftrightarrow> EventPublishers \<in> set s \<and> sv_producer sv \<noteq> None"
  "closing sv r \<noteq> ExitFailure" "ExitFailure \<noteq> closing sv r" "closing sv r \<noteq> Crash" "Crash \<noteq> closing sv r"
  by (auto simp: closing_def image_iff)

lemma rev_removeAll: "removeAll x (rev xs) = rev (removeAll x xs)"
  by (simp add: removeAll_filter_not_eq rev_filter)

lemma orderly_endings [intro]:
  "distinct s \<Longrightarrow> orderly sv (returning sv s)" "distinct s \<Longrightarrow> orderly sv (exiting s)"
  "distinct s \<Longrightarrow> orderly sv (panicking sv s)"
  by (auto simp: orderly_def returning_def exiting_def panicking_def rev_removeAll)

lemma deferring_simps [simp]:
  "set (deferring err r s) = (if err = None then insert r (set s) else set s)"
  "distinct (deferring err r s) \<longleftrightarrow> distinct s \<and> (err = None \<longrightarrow> r \<notin> set s)"
  "s \<noteq> [] \<Longrightarrow> deferring err r s \<noteq> []"
  by (auto simp: deferring_def split: option.splits)


definition all_connected :: "config \<Rightarrow> services" where
  "all_connected cfg = \<lparr>sv_config = Ok cfg, sv_database = None, sv_redis = None, sv_producer = None,
     sv_group = None, sv_s3 = None, sv_subscribe = (\<lambda>_. None), sv_local_subscribe = (\<lambda>_. None),
     sv_seed = Ok (), sv_serve = None, sv_shutdown = None\<rparr>"

lemma connected_trace:
  "opened_resources (server_main (all_connected cfg)) = [ServerContext, DatabasePool, RedisClient, EventPublishers,
     EventSubscriber, BackgroundConsumer, RealtimeConsumer, ShutdownContext]"
  by (simp add: server_main_def all_connected_def consumed_topics_def deferring_def returning_def closing_def)

section \<open>Degraded operation\<close>

text \<open>
  When Redis cannot be reached the server starts and serves all the same, and every request for a
  task panics.
\<close>

theorem degraded_server_panics:
  assumes "sv_config sv = Ok cfg" "sv_database sv = None" "sv_redis sv = Some err" "sv_producer sv = None"
    and "sv_seed sv = Ok ()" "sv_serve sv = None" "sv_shutdown sv = None"
  shows "ExitFailure \<notin> set (server_main sv) \<and> Crash \<notin> set (server_main sv)
    \<and> fst (GetTask i (wired sv cfg e) w) = Panic nil_dereference"
proof -
  have "ExitFailure \<notin> set (server_main sv) \<and> Crash \<notin> set (server_main sv)"
    using assms by (auto simp: server_main_def Let_def returning_def closing_def)
  moreover have "fst (GetTask i (wired sv cfg e) w) = Panic nil_dereference"
    using assms(3)
    by (simp add: GetTask_def Let_def andthen_def uuid_str_def asks_def cache_lookup_def has_cache_def attempt_def
        Cache_GetJSON_def cache_call_def wired_def dep_of_def panic_def go_prims)
  ultimately show ?thesis by simp
qed

section \<open>Clean-up without Kafka\<close>

definition cleans_up :: "consumer \<Rightarrow> bool" where
  "cleans_up c \<longleftrightarrow>
     ec_handlers c ''task.attachment_cleanup_requested'' = Some TaskAttachmentCleanupHandler
     \<and> (\<forall>t. t \<noteq> ''task.attachment_cleanup_requested'' \<longrightarrow> ec_handlers c t \<in> {None, Some logging_handler})"

lemma consumers_clean_up: "cleans_up (realtime_consumer False)" "cleans_up cleanup_consumer" "cleans_up background_consumer"
  by (simp_all add: cleans_up_def realtime_consumer_def realtime_types_def RegisterHandler_def NewEventConsumer_def
      cleanup_consumer_def background_consumer_def)

definition cleaned :: "event \<Rightarrow> (string \<Rightarrow> string option) \<Rightarrow> (string \<Rightarrow> string option)" where
  "cleaned evt b = (case ev_body evt of TaskAttachmentCleanupRequested a k \<Rightarrow> b(k := None) | _ \<Rightarrow> b)"

lemma handle_run:
  assumes "fault_free e" "e_storage e = DepLive" "EventType evt = body_type (ev_body evt)" "cleans_up c"
  shows "\<exists>w'. handleEvent c evt e w = (Ok (), w') \<and> w_blobs w' = cleaned evt (w_blobs w) \<and> w_db w' = w_db w"
proof (cases "\<exists>a k. ev_body evt = TaskAttachmentCleanupRequested a k")
  case True
  then show ?thesis using assms
    by (auto simp: handleEvent_def cleans_up_def TaskAttachmentCleanupHandler_def cleanup_event_def has_storage_def
        isNilDependency_def Storage_Delete_def storage_call_def ignoring_def andthen_def attempt_def external_run
        tick_def cleaned_def asks_def lift_def go_prims)
next
  case False
  then have "EventType evt \<noteq> ''task.attachment_cleanup_requested''" "cleaned evt b = b" for b
    using assms(3) by (cases "ev_body evt"; simp add: cleaned_def)+
  then show ?thesis using assms(4)
    by (auto simp: handleEvent_def cleans_up_def logging_handler_def ignoring_def go_prims)
qed

lemma consume_run:
  assumes "fault_free e" "e_storage e = DepLive" "cleans_up c" "\<forall>evt\<in>set evts. EventType evt = body_type (ev_body evt)"
  shows "\<exists>w'. consume c evts e w = (Ok (), w') \<and> w_db w' = w_db w
    \<and> (\<forall>k. w_blobs w' k = (if \<exists>evt\<in>set evts. \<exists>a. ev_body evt = TaskAttachmentCleanupRequested a k
         then None else w_blobs w k))"
  using assms(4) unfolding consume_def
proof (induction evts arbitrary: w)
  case (Cons evt evts)
  from Cons.prems obtain w1 where w1: "handleEvent c evt e w = (Ok (), w1)"
    "w_blobs w1 = cleaned evt (w_blobs w)" "w_db w1 = w_db w"
    using handle_run [OF assms(1,2) _ assms(3), of evt w] by auto
  with Cons.IH [of w1] Cons.prems show ?case
    by (cases "ev_body evt") (auto simp: andthen_def cleaned_def)
qed (simp add: go_prims)


section \<open>Examples\<close>

theorem degraded_server_panics_witness:
  "fst (GetTask 1 (wired ((all_connected default_config)\<lparr>sv_redis := Some (External ''refused'')\<rparr>) default_config
      example_env) example_world) = Panic nil_dereference"
  using degraded_server_panics [of "(all_connected default_config)\<lparr>sv_redis := Some (External ''refused'')\<rparr>"
      default_config "External ''refused''" 1 example_env example_world]
  by (simp add: all_connected_def)

definition clean_up_request :: event where
  "clean_up_request = NewTaskAttachmentCleanupRequested 7 5 ''attachments/old'' 1 100"


end
