(* ===== verification/S3Listing.thy ===== *)
theory S3Listing
  imports FileStore ConfigFacts
begin

text \<open>
  The rest of the S3 adapter (\<open>storage/s3/file\_storage.go\<close>): its construction, signed URLs and listings.
  The SDK is a parameter.  \<open>listing\_documented\<close> is what the documentation of \<open>ListObjectsV2\<close> says: the keys
  with the prefix in ascending order, at most as many as asked for and at most 1000 per answer; the
  call fails for a negative number.
\<close>

section \<open>Operations\<close>

record s3_sdk =
  sk_load_config :: "s3_config \<Rightarrow> go_error option"
  sk_list :: "string \<Rightarrow> int \<Rightarrow> (string \<Rightarrow> string option) \<Rightarrow> (string \<times> int) list result"
  sk_presign_get :: "string \<Rightarrow> string \<Rightarrow> duration \<Rightarrow> string result"
  sk_presign_put :: "string \<Rightarrow> string \<Rightarrow> string option \<Rightarrow> duration \<Rightarrow> string result"

text \<open>The options of the client, and the bucket.\<close>

record s3_client =
  sl_region :: string
  sl_credentials :: "string \<times> string"
  sl_path_style :: bool
  sl_endpoint :: "string option"
  sl_bucket :: string

definition NewFileStorage :: "s3_sdk \<Rightarrow> s3_config \<Rightarrow> s3_client result" where
  "NewFileStorage sdk cfg =
     (case sk_load_config sdk cfg of
        Some err \<Rightarrow> Err (Errorf ''failed to load AWS config'' (Some err))
      | None \<Rightarrow>
          Ok \<lparr>sl_region = sc_region cfg, sl_credentials = (sc_access_key_id cfg, sc_secret_access_key cfg),
              sl_path_style = sc_use_path_style cfg,
              sl_endpoint = (if sc_endpoint cfg \<noteq> [] then Some (sc_endpoint cfg) else None),
              sl_bucket = sc_bucket cfg\<rparr>)"

definition s3_failing :: "string \<Rightarrow> 'a result \<Rightarrow> 'a result" where
  "s3_failing msg r = (case r of Err err \<Rightarrow> Err (Errorf msg (Some err)) | _ \<Rightarrow> r)"

definition Storage_GeneratePresignedURL :: "s3_sdk \<Rightarrow> s3_client \<Rightarrow> string \<Rightarrow> duration \<Rightarrow> string result" where
  "Storage_GeneratePresignedURL sdk fs key expiration =
     s3_failing ''failed to generate presigned URL'' (sk_presign_get sdk (sl_bucket fs) key expiration)"

definition Storage_GenerateUploadURL ::
  "s3_sdk \<Rightarrow> s3_client \<Rightarrow> string \<Rightarrow> string \<Rightarrow> duration \<Rightarrow> string result" where
  "Storage_GenerateUploadURL sdk fs key contentType expiration =
     s3_failing ''failed to generate upload URL''
       (sk_presign_put sdk (sl_bucket fs) key (if contentType \<noteq> [] then Some contentType else None) expiration)"

fun listed_objects :: "(string \<times> int) list \<Rightarrow> file_metadata list \<Rightarrow> file_metadata list" where
  "listed_objects [] acc = acc"
| "listed_objects ((key, n) # objs) acc =
     listed_objects objs (acc @ [\<lparr>fm_key = key, fm_content_type = [], fm_size = n\<rparr>])"

text \<open>\<open>maxKeys\<close> is cut to 32 bits.\<close>

definition Storage_List :: "s3_sdk \<Rightarrow> string \<Rightarrow> int \<Rightarrow> file_metadata list go" where
  "Storage_List sdk pre maxKeys =
     andthen (storage_call (\<lambda>t w. (sk_list sdk pre (to_int32 maxKeys) (w_blobs w), w)) ''failed to list objects'')
       (\<lambda>contents. ret (listed_objects contents []))"

section \<open>What a listing holds\<close>

definition answer_limit :: nat where "answer_limit = 1000"

definition listing_documented :: "s3_sdk \<Rightarrow> bool" where
  "listing_documented sdk \<longleftrightarrow>
     (\<forall>pre mk b objs. sk_list sdk pre mk b = Ok objs \<longrightarrow>
        mk \<ge> 0 \<and> sorted_wrt (<) (map fst objs)
        \<and> (\<forall>(key, n)\<in>set objs. prefix pre key \<and> (\<exists>c. b key = Some c \<and> n = int (length c)))
        \<and> length objs \<le> min (nat mk) answer_limit
        \<and> (length objs < min (nat mk) answer_limit \<longrightarrow> (\<forall>key. prefix pre key \<and> b key \<noteq> None \<longrightarrow> key \<in> fst ` set objs)))
     \<and> (\<forall>pre n b. n < 0 \<longrightarrow> (\<exists>err. sk_list sdk pre n b = Err err))"

lemma listed_objects_map:
  "listed_objects objs acc = acc @ map (\<lambda>(key, n). \<lparr>fm_key = key, fm_content_type = [], fm_size = n\<rparr>) objs"
  by (induction objs acc rule: listed_objects.induct) auto

lemma to_int32_wraps:
  assumes "2 ^ 31 \<le> x" "x < 2 ^ 32"
  shows "to_int32 x = x - 2 ^ 32"
proof -
  have "(x + 2 ^ 31) mod 2 ^ 32 = ((x - 2 ^ 31) + 2 ^ 32) mod 2 ^ 32" by (simp add: add.commute)
  also have "\<dots> = x - 2 ^ 31" using assms by (simp only: mod_add_self2) simp
  finally show ?thesis by (simp add: to_int32_def signed_take_bit_eq_take_bit_shift take_bit_eq_mod)
qed


section \<open>An SDK that behaves as documented\<close>

text \<open>It answers requests for a single key whose first candidate, the prefix itself, is there.\<close>

definition single_key_sdk :: s3_sdk where
  "single_key_sdk = \<lparr>sk_load_config = (\<lambda>_. None),
     sk_list = (\<lambda>pre n b. case b pre of
          Some c \<Rightarrow> if n = 1 then Ok [(pre, int (length c))] else Err (External ''unavailable'')
        | None \<Rightarrow> Err (External ''unavailable'')),
     sk_presign_get = (\<lambda>bucket key d. Ok (bucket @ ''/'' @ key)),
     sk_presign_put = (\<lambda>bucket key t d. Ok (bucket @ ''/'' @ key))\<rparr>"

lemma single_key_documented: "listing_documented single_key_sdk"
  by (auto simp: listing_documented_def single_key_sdk_def answer_limit_def split: option.splits if_splits)


end
