(* ===== verification/SocketIO.thy ===== *)
theory SocketIO
  imports Realtime EventBus
begin

text \<open>
  The connections of \<open>transport/socketio/handler.go\<close>: the handlers that \<open>setupEventHandlers\<close>
  registers, as steps on the table of clients and on the rooms of the library, and the delivery of a broadcast
  to a room.  The library removes a connection from its rooms when it is gone.
\<close>

section \<open>Connections and rooms\<close>

record socketio =
  io_open :: "nat list"
  io_context :: "nat \<Rightarrow> uuid option"
  io_clients :: "uuid \<Rightarrow> nat option"
  io_rooms :: "(string \<times> nat) list"
  io_inbox :: "nat \<Rightarrow> (string \<times> event) list"

definition SocketIO_NewHandler :: socketio where
  "SocketIO_NewHandler = \<lparr>io_open = [], io_context = Map.empty, io_clients = Map.empty, io_rooms = [], io_inbox = (\<lambda>_. [])\<rparr>"

definition Join :: "nat \<Rightarrow> string \<Rightarrow> socketio \<Rightarrow> socketio" where
  "Join c room s = (if (room, c) \<in> set (io_rooms s) then s else s\<lparr>io_rooms := (room, c) # io_rooms s\<rparr>)"

definition Leave :: "nat \<Rightarrow> string \<Rightarrow> socketio \<Rightarrow> socketio" where
  "Leave c room s = s\<lparr>io_rooms := filter (\<lambda>x. x \<noteq> (room, c)) (io_rooms s)\<rparr>"

definition OnConnect :: "nat \<Rightarrow> uuid \<Rightarrow> socketio \<Rightarrow> socketio" where
  "OnConnect c clientID s =
     Join c RoomTasks
       (s\<lparr>io_open := c # io_open s, io_context := (io_context s)(c \<mapsto> clientID),
          io_clients := (io_clients s)(clientID \<mapsto> c)\<rparr>)"

definition OnDisconnect :: "nat \<Rightarrow> socketio \<Rightarrow> socketio" where
  "OnDisconnect c s =
     (let s' = (case io_context s c of
                  Some clientID \<Rightarrow> s\<lparr>io_clients := (io_clients s)(clientID := None)\<rparr>
                | None \<Rightarrow> s)
      in s'\<lparr>io_open := removeAll c (io_open s'), io_rooms := filter (\<lambda>x. snd x \<noteq> c) (io_rooms s')\<rparr>)"

definition deliver :: "string \<times> string \<times> event \<Rightarrow> socketio \<Rightarrow> socketio" where
  "deliver = (\<lambda>(room, name, evt) s.
     s\<lparr>io_inbox := (\<lambda>c. if (room, c) \<in> set (io_rooms s) then io_inbox s c @ [(name, evt)] else io_inbox s c)\<rparr>)"

definition io_handle :: "event \<Rightarrow> socketio \<Rightarrow> socketio" where
  "io_handle evt s = fold deliver (SocketIO_HandleEvent evt []) s"

inductive io_step :: "socketio \<Rightarrow> socketio \<Rightarrow> bool" where
  io_connect: "c \<notin> set (io_open s) \<Longrightarrow> io_clients s i = None \<Longrightarrow> io_step s (OnConnect c i s)"
| io_join: "c \<in> set (io_open s) \<Longrightarrow> io_step s (Join c room s)"
| io_leave: "c \<in> set (io_open s) \<Longrightarrow> io_step s (Leave c room s)"
| io_disconnect: "c \<in> set (io_open s) \<Longrightarrow> io_step s (OnDisconnect c s)"
| io_event: "io_step s (io_handle evt s)"

section \<open>The table of clients\<close>

definition io_wf :: "socketio \<Rightarrow> bool" where
  "io_wf s \<longleftrightarrow> (\<forall>i c. io_clients s i = Some c \<longleftrightarrow> c \<in> set (io_open s) \<and> io_context s c = Some i)
     \<and> snd ` set (io_rooms s) \<subseteq> set (io_open s)"

lemma io_handle_frame [simp]:
  "io_open (io_handle evt s) = io_open s" "io_context (io_handle evt s) = io_context s"
  "io_clients (io_handle evt s) = io_clients s" "io_rooms (io_handle evt s) = io_rooms s"
proof -
  have "io_open (fold deliver ms s) = io_open s \<and> io_context (fold deliver ms s) = io_context s
      \<and> io_clients (fold deliver ms s) = io_clients s \<and> io_rooms (fold deliver ms s) = io_rooms s" for ms
    by (induction ms arbitrary: s) (auto simp: deliver_def split: prod.splits)
  then show "io_open (io_handle evt s) = io_open s" "io_context (io_handle evt s) = io_context s"
    "io_clients (io_handle evt s) = io_clients s" "io_rooms (io_handle evt s) = io_rooms s"
    by (simp_all add: io_handle_def)
qed

lemma io_step_wf: "io_step s s' \<Longrightarrow> io_wf s \<Longrightarrow> io_wf s'"
proof (induction rule: io_step.induct)
  case (io_connect c s i)
  then show ?case by (auto simp: io_wf_def OnConnect_def Join_def) (metis option.distinct(1))
next
  case (io_join c s room)
  then show ?case by (auto simp: io_wf_def Join_def)
next
  case (io_leave c s room)
  then show ?case by (auto simp: io_wf_def Leave_def)
next
  case (io_disconnect c s)
  then show ?case by (auto simp: io_wf_def OnDisconnect_def Let_def split: option.splits) (metis option.inject)
qed (simp add: io_wf_def)

lemma io_start_wf: "io_wf SocketIO_NewHandler"
  by (simp add: io_wf_def SocketIO_NewHandler_def)

lemma io_reachable_wf: "io_step\<^sup>*\<^sup>* SocketIO_NewHandler s \<Longrightarrow> io_wf s"
  by (induction rule: rtranclp_induct) (auto intro: io_step_wf io_start_wf)

section \<open>Delivery\<close>

lemma one_broadcast: "SocketIO_HandleEvent evt [] = [] \<or> (\<exists>name. SocketIO_HandleEvent evt [] = [(RoomTasks, name, evt)])"
  by (auto simp: SocketIO_HandleEvent_def BroadcastToAll_def BroadcastToRoom_def split: option.splits)



end
