(* ===== verification/Spec2Isabelle.thy ===== *)
theory Spec2Isabelle
  imports GraphqlFlows Server SeedRuns LocalExamples QueryBuilders RedisCache Validation Factory Startup
    S3Listing SocketIO
begin

text \<open>
  A verification library for the task management service in Go (\<open>src/\<close>): a clean-architecture
  server with users, roles, tasks, labels and attachments behind REST, GraphQL, gRPC, WebSocket,
  server-sent events and Socket.IO.  The model follows the layers of the code, from the values of the domain
  up to the HTTP server, one theory per component and one definition per function,
  method, query, handler or resolver, under the source's names where Isabelle allows it.

  \<^bold>\<open>Domain\<close> (\<open>internal/domain\<close>).  \<open>Errors\<close>: the error values with wrapping and the predicates on
  codes.  \<open>ValueObjects\<close>: statuses, priorities, e-mail addresses.  \<open>Access\<close>: permissions, roles,
  users, access entries.  \<open>Tasks\<close>: labels, tasks with their state machine, attachments.
  \<open>Events\<close>: the constructors of all events.  \<open>Collections\<close> is the contract of the keyed
  lists that users, roles and tasks hold.  Entities are records, enumerations are their strings.

  \<^bold>\<open>Ports and infrastructure.\<close>  \<open>Ports\<close>: transfer objects and key builders.  \<open>MemoryCache\<close>:
  the cache with expiration (\<open>infrastructure/cache/memory\<close>), each method one atomic step, since it
  holds the mutex for its whole body.  \<open>EventBus\<close>: topics with bounded channels
  (\<open>messaging/memory\<close>).  \<open>Database\<close>: one function per generated query
  (\<open>database/sqlc\<close>) over lists of rows, with unique keys, foreign keys, cascades and triggers.
  \<open>Repositories\<close>: the repositories and the task search over those statements.  \<open>QueryBuilders\<close>: the
  filtered queries on tasks and users (\<open>database/querybuilder\<close>).  \<open>Messaging\<close>: Kafka,
  fan-out, S3, the worker with its clean-up handler, the monitor.  \<open>FileTree\<close>: a tree of directories
  with the calls of \<open>os\<close> and the path functions; \<open>LocalStorage\<close>: the file storage on it
  (\<open>storage/local\<close>).  \<open>RedisCache\<close>: the Redis cache over a client that is a parameter
  (\<open>cache/redis\<close>).  \<open>Factory\<close>: the selection of adapters by driver name (\<open>infrastructure/factory\<close>).
  \<open>DevSeed\<close>: the development data (\<open>database/seed\<close>).  \<open>KafkaConsumer\<close>: the Kafka subscriber as a step
  relation over sessions, claims and the channel to the worker (\<open>messaging/kafka\<close>).  \<open>S3Listing\<close>: construction,
  signed URLs and listings of the S3 adapter (\<open>storage/s3\<close>).

  \<^bold>\<open>Configuration and commands.\<close>  \<open>Config\<close>: the settings, their defaults and variables (\<open>pkg/config\<close>) and
  the opening of the connection pool (\<open>database/postgres/connection.go\<close>).  \<open>Startup\<close>: the three commands
  (\<open>cmd\<close>) as the sequence of what they open and close, the consumers that they start, and the environment in
  which the use cases of that process run.

  \<^bold>\<open>The world and computations\<close> (\<open>World\<close>).  A use case is a function from an environment and a
  world to a result, normal, error or panic, and the next world.  The world is the tables, the
  cache, the objects, the bus and the message log.  The environment holds what is not code of
  the repository: clock, random ids, failures of every single service call (without or after its effect),
  bcrypt, SHA-256, the JWT and the validation library, collation, and which
  dependencies \<open>cmd/server/main.go\<close> could connect.  \<open>Consistency\<close> states the invariant of the
  tables and the calculus that carries it through computations on every exit; \<open>Execution\<close> evaluates computations in
  environments without faults and states postconditions.

  \<^bold>\<open>Use cases\<close> (\<open>application/usecase\<close>).  \<open>TaskUseCase\<close>, \<open>UserUseCase\<close> (with labels, roles and the
  seeding), \<open>AuthUseCase\<close> (with the token service).  \<open>Validation\<close>: the custom rule and the error
  of the validator (\<open>application/validation\<close>).  \<open>Authorization\<close>: the decisions on roles, permissions and
  access entries (\<open>internal/auth\<close>).  \<open>Application\<close>: the reachable states under any sequence of calls in
  any environments.

  \<^bold>\<open>Transports\<close> (\<open>internal/transport\<close>).  \<open>Rest\<close>: wrappers and handlers.  \<open>Mux\<close>: patterns and
  precedence of \<open>net/http\<close>.  \<open>Router\<close>: the route table, the handler behind each route and the
  global middleware.  \<open>Grpc\<close>: every method of the four services.  \<open>Graphql\<close>: every resolver and mapper.
  \<open>Channels\<close>, \<open>WebSocket\<close> and \<open>Realtime\<close>: the hub, the brokers and the
  handler that feeds them as step relations over bounded Go channels, one step per statement that can
  block or interleave.  \<open>SocketIO\<close>: connections, rooms and broadcasts.

  \<^bold>\<open>Interfaces.\<close>  \<open>keyed\_collection\<close> (interpreted by the roles of a user, the permissions of a role and the
  labels of a task), \<open>cache\_port\<close> and \<open>lock\_cache\_port\<close> (by the in-memory cache),
  \<open>table\_property\<close> and \<open>creating\_property\<close> (what every statement keeps, hence every use case, call and
  HTTP request; by the consistency of the tables, the absence of access entries and of stored labels, archived
  tasks and the origin of tasks), \<open>seeding\_property\<close> (by what a seeding keeps), \<open>channel\_broker\<close> (by the
  hub and both brokers), \<open>file\_store\<close> (by the local storage) and its extension \<open>exact\_file\_store\<close> (by the S3
  adapter).

  \<^bold>\<open>What is shown.\<close>  \<open>Guarantees\<close>: invariants of every reachable state.  \<open>Sessions\<close>: which tokens
  are accepted and what revokes them.  \<open>TaskFlows\<close>, \<open>ReadWrite\<close>, \<open>UserFlows\<close>: deletions leave no object
  behind, uploads are all or nothing, reads see writes, interleaved requests lose updates, role changes are stored as
  answered.  \<open>Server\<close>: routing, what is served without a token, what every request keeps.
  \<open>Transports\<close> and \<open>GraphqlFlows\<close>: how gRPC and GraphQL differ from REST.  \<open>EventBus\<close>,
  \<open>WebSocket\<close>, \<open>Realtime\<close>: absence of panics, order, deadlock.  \<open>SeedFlows\<close> and \<open>SeedRuns\<close>: what a
  seeding leaves and that it ends.  \<open>KafkaConsumer\<close>: what is delivered before it is committed, and what a shutdown
  loses.  \<open>SocketIO\<close>: who receives an event.  \<open>ConfigFacts\<close>: which variables have an effect, when the connection
  string is unambiguous.  \<open>Startup\<close>: every exit of the commands, operation without Redis or Kafka.  \<open>S3Listing\<close>:
  what a listing holds.  \<open>FileStore\<close>: both storages refine a map, attachments stay below the base
  directory; \<open>LocalFlows\<close>, \<open>LocalListing\<close> and \<open>LocalRoundTrip\<close>: the effect of each operation of the
  local storage, what \<open>List\<close> returns, when uploads succeed.  \<open>Examples\<close> and \<open>LocalExamples\<close> hold a small
  world and a small disk on which the hypotheses of the theorems are met.

  \<^bold>\<open>Bounds.\<close>  No definition needs fuel: every loop of the code runs over a finite list, the endless loops of the
  brokers are single steps of a relation, and the loop over the pages of a Redis \<open>SCAN\<close> is a partial function
  that is shown to end under the documented behaviour of the server.  Channels have the capacities of the code (100 for the bus, for the Kafka
  subscriber and for SSE clients, 256 for the hub, its clients and the SSE queue, 32 for subscriptions).  Integers are
  mathematical where the code cannot overflow, and wrapped to 64 or 32 bits in the cache's counters, in
  cursors, in sizes and in the pages of gRPC; timestamps are rounded as PostgreSQL does.

  \<^bold>\<open>Not modelled.\<close>  Logging and tracing (\<open>observability/logger\<close>, \<open>observability/tracer\<close>): output without
  effect on the state.  The connection pool, viper, the S3, Redis and Kafka clients, bcrypt, the JWT library, the
  validation library, the WebSocket and Socket.IO libraries: third parties, arguments of the model or described by
  the state that they keep.  The file system has no links and no permissions; its failures are arguments.
  The generated GraphQL schema, the protobuf encoding and the mocks are generated.  Rows that a query does
  not order come in the order of the table, as do rows that compare equal.  Requests are atomic in
  \<open>Application\<close> and \<open>Server\<close>; the interleaving of use cases is stated for one pair of calls in \<open>ReadWrite\<close>.
\<close>

end
